(* ===== verification/Py_Float.thy ===== *)
theory Py_Float
  imports Complex_Main
begin

text \<open>
  Python floats. A finite binary64 value is modelled by the rational number it denotes and every
  arithmetic operator rounds its exact result with \<open>fl\<close>: 53 significant bits, ties to even, with
  an unbounded exponent range (overflow to infinity, subnormals and NaN are outside the model).
  Comparisons, \<open>min\<close>, \<open>max\<close> and negation are exact, as they are in Python. The file also has
  \<open>round(x, n)\<close>, which CPython computes correctly rounded from the exact decimal expansion.
  The rounding laws the components rely on are the locale \<open>rounding\<close>, interpreted on \<open>fl\<close>.
\<close>

section \<open>Rounding to the nearest integer, ties to even\<close>

definition round_even :: "rat \<Rightarrow> int" where
  "round_even x =
     (let n = \<lfloor>x\<rfloor>; d = x - of_int n
      in if d < 1/2 then n else if 1/2 < d then n + 1 else if even n then n else n + 1)"

lemma round_even_of_int [simp]: "round_even (of_int n) = n"
  by (simp add: round_even_def Let_def)

lemma round_even_bounds: "\<lfloor>x\<rfloor> \<le> round_even x" "round_even x \<le> \<lfloor>x\<rfloor> + 1"
  by (auto simp: round_even_def Let_def)

lemma round_even_mono:
  assumes "x \<le> y" shows "round_even x \<le> round_even y"
proof (cases "\<lfloor>x\<rfloor> = \<lfloor>y\<rfloor>")
  case True
  with assms show ?thesis by (auto simp: round_even_def Let_def)
next
  case False
  with assms have "\<lfloor>x\<rfloor> + 1 \<le> \<lfloor>y\<rfloor>" by (meson floor_mono order_le_imp_less_or_eq zless_imp_add1_zle)
  then show ?thesis using round_even_bounds [of x] round_even_bounds [of y] by linarith
qed

lemma round_even_minus: "round_even (- x) = - round_even x"
proof (cases "x = of_int \<lfloor>x\<rfloor>")
  case True
  then have "round_even (- x) = round_even (of_int (- \<lfloor>x\<rfloor>))" by (metis of_int_minus)
  then show ?thesis using True by (metis round_even_of_int)
next
  case False
  have lt: "of_int \<lfloor>x\<rfloor> < x" using False of_int_floor_le [of x] by linarith
  have "\<lfloor>- x\<rfloor> = - \<lfloor>x\<rfloor> - 1"
    using lt floor_less_iff by (simp add: floor_eq_iff) linarith
  then show ?thesis by (auto simp: round_even_def Let_def)
qed

section \<open>The binary exponent\<close>

function bits :: "int \<Rightarrow> nat" where
  "bits n = (if n < 2 then 0 else Suc (bits (n div 2)))"
  by pat_completeness auto
termination by (relation "measure nat") auto

declare bits.simps [simp del]

lemma bits_bounds: "0 < n \<Longrightarrow> 2 ^ bits n \<le> n \<and> n < 2 ^ Suc (bits n)"
proof (induction n rule: bits.induct)
  case (1 n)
  show ?case
  proof (cases "n < 2")
    case True
    then show ?thesis using 1 by (simp add: bits.simps)
  next
    case False
    with 1 have "2 ^ bits (n div 2) \<le> n div 2 \<and> n div 2 < 2 ^ Suc (bits (n div 2))" by simp
    moreover have "bits n = Suc (bits (n div 2))" using False by (subst bits.simps) simp
    ultimately show ?thesis by auto
  qed
qed

lemma bits_rat:
  assumes "0 < p"
  shows "(2::rat) ^ bits p \<le> of_int p" "of_int p < (2::rat) * 2 ^ bits p"
proof -
  have "rat_of_int (2 ^ bits p) \<le> of_int p" "rat_of_int p < of_int (2 * 2 ^ bits p)"
    using bits_bounds [OF assms] by (simp_all only: of_int_le_iff of_int_less_iff) auto
  then show "(2::rat) ^ bits p \<le> of_int p" "of_int p < (2::rat) * 2 ^ bits p"
    by simp_all
qed

definition ilog2 :: "rat \<Rightarrow> int" where
  "ilog2 x =
     (case quotient_of \<bar>x\<bar> of (p, q) \<Rightarrow>
        let e = int (bits p) - int (bits q)
        in if 2 powi e \<le> \<bar>x\<bar> then e else e - 1)"

lemma ilog2_bounds:
  assumes "x \<noteq> 0"
  shows "2 powi ilog2 x \<le> \<bar>x\<bar>" "\<bar>x\<bar> < 2 powi (ilog2 x + 1)"
proof -
  obtain p q where pq: "quotient_of \<bar>x\<bar> = (p, q)" by fastforce
  have q: "0 < q" using quotient_of_denom_pos [OF pq] .
  have ax: "\<bar>x\<bar> = of_int p / of_int q" using quotient_of_div [OF pq] .
  have "0 < of_int p / (of_int q :: rat)" using assms ax by simp
  then have p: "0 < p" using q by (simp add: zero_less_divide_iff)
  let ?a = "bits p" and ?b = "bits q"
  have a: "(2::rat) ^ ?a \<le> of_int p" "of_int p < (2::rat) ^ Suc ?a"
    using bits_rat [OF p] by simp_all
  have b: "(2::rat) ^ ?b \<le> of_int q" "of_int q < (2::rat) ^ Suc ?b"
    using bits_rat [OF q] by simp_all
  define e where "e = int ?a - int ?b"
  have pe: "(2::rat) powi e = 2 ^ ?a / 2 ^ ?b"
    by (simp add: e_def power_int_diff)
  have hi: "\<bar>x\<bar> < 2 powi (e + 1)"
  proof -
    have "\<bar>x\<bar> < 2 ^ Suc ?a / 2 ^ ?b"
      unfolding ax using a b p q by (intro frac_less) auto
    then show ?thesis using pe by (simp add: power_int_add mult.commute)
  qed
  have lo: "2 powi (e - 1) \<le> \<bar>x\<bar>"
  proof -
    have "(2::rat) ^ ?a / 2 ^ Suc ?b \<le> \<bar>x\<bar>"
      unfolding ax using a b p q by (intro frac_le) auto
    then show ?thesis using pe by (simp add: power_int_diff)
  qed
  have il: "ilog2 x = (if 2 powi e \<le> \<bar>x\<bar> then e else e - 1)"
    by (simp add: ilog2_def pq e_def)
  show "2 powi ilog2 x \<le> \<bar>x\<bar>" using il lo by auto
  show "\<bar>x\<bar> < 2 powi (ilog2 x + 1)" using il hi by auto
qed


lemma powi2_pos [simp]: "0 < (2::rat) powi e"
  by simp

lemma powi2_le_iff: "(2::rat) powi a \<le> 2 powi b \<longleftrightarrow> a \<le> b"
proof
  assume "(2::rat) powi a \<le> 2 powi b"
  then show "a \<le> b" using power_int_strict_increasing [of b a "2::rat"] by force
next
  assume "a \<le> b"
  then show "(2::rat) powi a \<le> 2 powi b" by (rule power_int_increasing) simp
qed

lemma ilog2_unique:
  assumes "2 powi e \<le> \<bar>x\<bar>" "\<bar>x\<bar> < 2 powi (e + 1)"
  shows "ilog2 x = e"
proof -
  have "0 < \<bar>x\<bar>" using assms(1) powi2_pos [of e] by linarith
  then have "x \<noteq> 0" by simp
  note b = ilog2_bounds [OF this]
  have "(2::rat) powi e < 2 powi (ilog2 x + 1)" "(2::rat) powi ilog2 x < 2 powi (e + 1)"
    using assms b by linarith+
  then have "e < ilog2 x + 1" "ilog2 x < e + 1"
    by (metis not_le powi2_le_iff)+
  then show ?thesis by linarith
qed

lemma ilog2_minus [simp]: "ilog2 (- x) = ilog2 x"
  by (simp add: ilog2_def)

section \<open>Rounding to 53 significant bits\<close>

definition fl :: "rat \<Rightarrow> rat" where
  "fl x = (if x = 0 then 0
           else let u = 2 powi (ilog2 x - 52) in of_int (round_even (x / u)) * u)"

lemma fl_0 [simp]: "fl 0 = 0"
  by (simp add: fl_def)

lemma fl_minus [simp]: "fl (- x) = - fl x"
  by (simp add: fl_def Let_def round_even_minus)

lemma fl_scaled:
  assumes "0 < x"
  defines "u \<equiv> 2 powi (ilog2 x - 52)"
  shows "2 ^ 52 \<le> x / u" "x / u < 2 ^ 53"
proof -
  have e: "(2::rat) powi (ilog2 x) = 2 ^ 52 * u" "(2::rat) powi (ilog2 x + 1) = 2 ^ 53 * u"
    by (simp_all add: u_def power_int_diff power_int_add)
  have u: "0 < u" by (simp add: u_def)
  have "2 powi ilog2 x \<le> x" "x < 2 powi (ilog2 x + 1)"
    using ilog2_bounds [of x] assms(1) by simp_all
  then show "2 ^ 52 \<le> x / u" "x / u < 2 ^ 53"
    using u unfolding e by (simp_all add: pos_le_divide_eq pos_divide_less_eq)
qed

lemma fl_pos_bounds:
  assumes "0 < x"
  shows "2 powi ilog2 x \<le> fl x" "fl x \<le> 2 powi (ilog2 x + 1)"
proof -
  let ?u = "(2::rat) powi (ilog2 x - 52)"
  note s = fl_scaled [OF assms]
  have e: "(2::rat) powi (ilog2 x) = 2 ^ 52 * ?u" "(2::rat) powi (ilog2 x + 1) = 2 ^ 53 * ?u"
    by (simp_all add: power_int_diff power_int_add)
  have "round_even (of_int (2 ^ 52)) \<le> round_even (x / ?u)"
    "round_even (x / ?u) \<le> round_even (of_int (2 ^ 53))"
    using s by (intro round_even_mono; simp)+
  then have "(2 ^ 52 :: rat) \<le> of_int (round_even (x / ?u))" "of_int (round_even (x / ?u)) \<le> (2 ^ 53 :: rat)"
    unfolding round_even_of_int
    by (metis of_int_le_iff of_int_numeral of_int_power)+
  then have "2 ^ 52 * ?u \<le> of_int (round_even (x / ?u)) * ?u"
    "of_int (round_even (x / ?u)) * ?u \<le> 2 ^ 53 * ?u"
    by (intro mult_right_mono; simp)+
  then show "2 powi ilog2 x \<le> fl x" "fl x \<le> 2 powi (ilog2 x + 1)"
    using assms unfolding e by (simp_all add: fl_def Let_def)
qed

text \<open>The relative error of one rounding is at most half a unit in the last place.\<close>

lemma round_even_err: "\<bar>of_int (round_even x) - x\<bar> \<le> 1 / 2"
proof -
  have "of_int \<lfloor>x\<rfloor> \<le> x" "x < of_int \<lfloor>x\<rfloor> + 1" by linarith+
  then show ?thesis by (simp add: round_even_def Let_def)
qed

lemma fl_err_pos:
  assumes "0 < x"
  shows "\<bar>fl x - x\<bar> \<le> x / 2 ^ 53"
proof -
  define u :: rat where "u = 2 powi (ilog2 x - 52)"
  have u: "0 < u" by (simp add: u_def)
  have "fl x - x = (of_int (round_even (x / u)) - x / u) * u"
    using assms u by (simp add: fl_def Let_def u_def [symmetric] field_simps)
  then have "\<bar>fl x - x\<bar> = \<bar>of_int (round_even (x / u)) - x / u\<bar> * u"
    using u by (simp add: abs_mult)
  also have "\<dots> \<le> 1 / 2 * u" using round_even_err [of "x / u"] u by (intro mult_right_mono) auto
  also have "2 powi (ilog2 x) \<le> x" using ilog2_bounds [of x] assms by simp
  then have "u * 2 ^ 52 \<le> x" unfolding u_def by (simp add: power_int_diff)
  then have "1 / 2 * u \<le> x / 2 ^ 53" by simp
  finally show ?thesis .
qed

lemma fl_err: "\<bar>fl x - x\<bar> \<le> \<bar>x\<bar> / 2 ^ 53"
  using fl_err_pos [of x] fl_err_pos [of "- x"] by (cases x "0 :: rat" rule: linorder_cases) auto

lemma fl_rel_bounds:
  assumes "0 \<le> x"
  shows "(1 - 1 / 2 ^ 53) * x \<le> fl x" "fl x \<le> (1 + 1 / 2 ^ 53) * x"
proof -
  have "- (x / 2 ^ 53) \<le> fl x - x" "fl x - x \<le> x / 2 ^ 53"
    using fl_err [of x] assms by (simp_all only: abs_le_iff abs_of_nonneg) auto
  then show "(1 - 1 / 2 ^ 53) * x \<le> fl x" "fl x \<le> (1 + 1 / 2 ^ 53) * x"
    by (simp_all add: algebra_simps)
qed

lemma fl_mono_pos:
  assumes "0 < x" "x \<le> y"
  shows "fl x \<le> fl y"
proof -
  have y: "0 < y" using assms by linarith
  have "(2::rat) powi ilog2 x < 2 powi (ilog2 y + 1)"
    using ilog2_bounds(1) [of x] ilog2_bounds(2) [of y] assms y by simp
  then have le: "ilog2 x \<le> ilog2 y" by (metis not_le powi2_le_iff zless_add1_eq order_le_less)
  show ?thesis
  proof (cases "ilog2 x = ilog2 y")
    case True
    have "round_even (x / 2 powi (ilog2 y - 52)) \<le> round_even (y / 2 powi (ilog2 y - 52))"
      using assms by (intro round_even_mono divide_right_mono) auto
    then show ?thesis using assms y True
      by (auto simp: fl_def Let_def intro!: mult_right_mono)
  next
    case False
    with le have "(2::rat) powi (ilog2 x + 1) \<le> 2 powi ilog2 y" by (simp add: powi2_le_iff)
    then show ?thesis using fl_pos_bounds(2) [OF assms(1)] fl_pos_bounds(1) [OF y] by linarith
  qed
qed

lemma fl_pos_iff [simp]: "0 < fl x \<longleftrightarrow> 0 < x"
proof -
  have "0 < y \<Longrightarrow> 0 < fl y" for y
    using fl_pos_bounds(1) [of y] powi2_pos [of "ilog2 y"] by linarith
  then show ?thesis by (metis fl_0 fl_minus less_irrefl linorder_neqE neg_0_less_iff_less neg_less_0_iff_less not_less_iff_gr_or_eq)
qed

lemma fl_mono: "x \<le> y \<Longrightarrow> fl x \<le> fl y"
proof -
  assume le: "x \<le> y"
  consider "0 < x" | "x \<le> 0" "0 \<le> y" | "y < 0" by linarith
  then show ?thesis
  proof cases
    case 1
    then show ?thesis using le by (rule fl_mono_pos)
  next
    case 2
    then have "fl x \<le> 0" "0 \<le> fl y"
      using fl_pos_iff [of x] fl_pos_iff [of "- y"] by (metis not_less, simp add: not_less)
    then show ?thesis by linarith
  next
    case 3
    then show ?thesis using fl_mono_pos [of "- y" "- x"] le by simp
  qed
qed

lemma fl_exact:
  assumes "x = of_int m * 2 powi k" "\<bar>m\<bar> \<le> 2 ^ 53"
  shows "fl x = x"
proof (cases "x = 0")
  case False
  then have m: "m \<noteq> 0" using assms by auto
  have il: "2 powi ilog2 x \<le> \<bar>x\<bar>" using ilog2_bounds(1) [OF False] .
  have ax: "\<bar>x\<bar> = of_int \<bar>m\<bar> * 2 powi k" by (simp add: assms(1) abs_mult)
  have int: "\<exists>n. x / 2 powi (ilog2 x - 52) = of_int n"
  proof (cases "\<bar>m\<bar> = 2 ^ 53")
    case True
    then have "\<bar>x\<bar> = 2 powi (k + 53)" by (simp add: ax power_int_add)
    then have "ilog2 x = k + 53" by (intro ilog2_unique) (simp_all add: power_int_add)
    then have "x / 2 powi (ilog2 x - 52) = of_int m / 2"
      by (simp add: assms(1) power_int_add)
    moreover have "even m" using True dvd_abs_iff [of 2 m] by simp
    then have "rat_of_int m / 2 = of_int (m div 2)" by (auto elim!: evenE)
    ultimately show ?thesis by metis
  next
    case False
    then have "\<bar>m\<bar> < 2 ^ 53" using assms(2) by simp
    then have "rat_of_int \<bar>m\<bar> < 2 ^ 53" by (metis of_int_less_iff of_int_numeral of_int_power)
    then have "\<bar>x\<bar> < 2 ^ 53 * 2 powi k" unfolding ax by simp
    then have "(2::rat) powi ilog2 x < 2 powi (k + 53)" using il by (simp add: power_int_add)
    then have "ilog2 x < k + 53" by (metis not_le powi2_le_iff)
    then have nn: "0 \<le> k + 52 - ilog2 x" by simp
    have "x / 2 powi (ilog2 x - 52) = of_int m * 2 powi (k + 52 - ilog2 x)"
      by (simp add: assms(1) power_int_diff power_int_add)
    also have "\<dots> = of_int (m * 2 ^ nat (k + 52 - ilog2 x))"
      using nn by (simp add: power_int_def)
    finally show ?thesis by blast
  qed
  then obtain n where n: "x / 2 powi (ilog2 x - 52) = of_int n" by blast
  have "fl x = of_int n * 2 powi (ilog2 x - 52)"
    using False by (simp add: fl_def Let_def n)
  then show ?thesis by (simp add: n [symmetric])
qed simp


lemma fl_half: "fl (x / 2) = fl x / 2"
proof (cases "x = 0")
  case False
  have "ilog2 (x / 2) = ilog2 x - 1"
    using ilog2_bounds [OF False] by (intro ilog2_unique) (simp_all add: power_int_diff power_int_add)
  then show ?thesis using False by (simp add: fl_def Let_def power_int_diff)
qed simp

lemma fl_idem: "fl (fl x) = fl x"
proof -
  have pos: "fl (fl y) = fl y" if y: "0 < y" for y
  proof -
    let ?u = "(2::rat) powi (ilog2 y - 52)"
    have e: "fl y = of_int (round_even (y / ?u)) * ?u" using y by (simp add: fl_def Let_def)
    have "round_even (of_int 0) \<le> round_even (y / ?u)"
      using fl_scaled [OF y] y by (intro round_even_mono) simp
    moreover have "round_even (y / ?u) \<le> round_even (of_int (2 ^ 53))"
      using fl_scaled [OF y] by (intro round_even_mono) simp
    ultimately have "\<bar>round_even (y / ?u)\<bar> \<le> 2 ^ 53" unfolding round_even_of_int by simp
    with e show ?thesis by (rule fl_exact)
  qed
  consider "x = 0" | "0 < x" | "0 < - x" by linarith
  then show ?thesis using pos [of x] pos [of "- x"] by cases simp_all
qed

lemma fl_of_int: "\<bar>m\<bar> \<le> 2 ^ 53 \<Longrightarrow> fl (of_int m) = of_int m"
  by (rule fl_exact [where k = 0]) simp_all

section \<open>The interface of rounded arithmetic\<close>

locale rounding =
  fixes rnd :: "rat \<Rightarrow> rat"
  assumes rnd_mono: "x \<le> y \<Longrightarrow> rnd x \<le> rnd y"
    and rnd_pos_iff: "0 < rnd x \<longleftrightarrow> 0 < x"
    and rnd_minus: "rnd (- x) = - rnd x"
    and rnd_idem: "rnd (rnd x) = rnd x"
    and rnd_half: "rnd (x / 2) = rnd x / 2"
    and rnd_one: "rnd 1 = 1"
begin

lemma rnd_neg_iff: "rnd x < 0 \<longleftrightarrow> x < 0"
  using rnd_pos_iff [of "- x"] by (simp add: rnd_minus)

lemma rnd_eq_0_iff: "rnd x = 0 \<longleftrightarrow> x = 0"
  using rnd_pos_iff [of x] rnd_neg_iff [of x] by (metis less_irrefl linorder_neqE)

lemma rnd_nonneg_iff: "0 \<le> rnd x \<longleftrightarrow> 0 \<le> x"
  using rnd_neg_iff [of x] by (simp add: not_less [symmetric])

lemma rnd_nonpos_iff: "rnd x \<le> 0 \<longleftrightarrow> x \<le> 0"
  using rnd_pos_iff [of x] by (simp add: not_less [symmetric])

lemma rnd_abs: "\<bar>rnd x\<bar> = rnd \<bar>x\<bar>"
  by (cases "0 \<le> x") (simp_all add: rnd_nonneg_iff abs_if rnd_minus rnd_neg_iff)

text \<open>The midpoint of two floats, computed as \<open>(lo + hi) / 2.0\<close>, lies between them.\<close>

lemma rnd_midpoint:
  assumes "rnd lo = lo" "rnd hi = hi" "lo \<le> hi"
  shows "lo \<le> rnd (rnd (hi + lo) / 2)" "rnd (rnd (hi + lo) / 2) \<le> hi"
proof -
  have d: "rnd (x + x) = rnd x + rnd x" for x
    using rnd_half [of "x + x"] by (simp add: field_simps)
  have "rnd (rnd (hi + lo) / 2) = rnd (hi + lo) / 2"
    unfolding rnd_half rnd_idem ..
  moreover have "rnd (lo + lo) \<le> rnd (hi + lo)" "rnd (hi + lo) \<le> rnd (hi + hi)"
    by (rule rnd_mono, use assms(3) in linarith)+
  ultimately show "lo \<le> rnd (rnd (hi + lo) / 2)" "rnd (rnd (hi + lo) / 2) \<le> hi"
    using d [of lo] d [of hi] assms(1,2) by linarith+
qed

text \<open>A quotient that reaches a float bound keeps it when rounded.\<close>

lemma rnd_ge_float: "rnd b = b \<Longrightarrow> b \<le> x \<Longrightarrow> b \<le> rnd x"
  using rnd_mono [of b x] by simp

lemma rnd_le_float: "rnd b = b \<Longrightarrow> x \<le> b \<Longrightarrow> rnd x \<le> b"
  using rnd_mono [of x b] by simp

end

interpretation b64: rounding fl
  by unfold_locales (simp_all add: fl_mono fl_idem fl_half fl_of_int [of 1, simplified])

lemmas fl_sign [simp] = b64.rnd_neg_iff b64.rnd_eq_0_iff b64.rnd_nonneg_iff b64.rnd_nonpos_iff

declare fl_idem [simp] b64.rnd_one [simp]

section \<open>Python's float operators\<close>

abbreviation fadd :: "rat \<Rightarrow> rat \<Rightarrow> rat" where "fadd a b \<equiv> fl (a + b)"
abbreviation fsub :: "rat \<Rightarrow> rat \<Rightarrow> rat" where "fsub a b \<equiv> fl (a - b)"
abbreviation fmul :: "rat \<Rightarrow> rat \<Rightarrow> rat" where "fmul a b \<equiv> fl (a * b)"

text \<open>The quotient of a division whose divisor the surrounding code knows not to be zero.\<close>

abbreviation fquot :: "rat \<Rightarrow> rat \<Rightarrow> rat" where "fquot a b \<equiv> fl (a / b)"

text \<open>\<open>round(x, n)\<close>.\<close>

definition py_round :: "nat \<Rightarrow> rat \<Rightarrow> rat" where
  "py_round n x = fl (of_int (round_even (x * 10 ^ n)) / 10 ^ n)"

text \<open>A value a float variable can hold.\<close>

definition is_float :: "rat \<Rightarrow> bool" where
  "is_float x \<longleftrightarrow> fl x = x"

lemma is_float_fl [simp]: "is_float (fl x)"
  by (simp add: is_float_def)

section \<open>Evaluation on literals\<close>

lemma fl_numeral [simp]: "(numeral k :: int) \<le> 9007199254740992 \<Longrightarrow> fl (numeral k) = numeral k"
  using fl_of_int [of "numeral k"] by simp

lemma fl_div_Bit0 [simp]: "fl (x / numeral (num.Bit0 b)) = fl (x / numeral b) / 2"
proof -
  have "(numeral (num.Bit0 b) :: rat) = numeral b * 2"
    unfolding numeral_Bit0 by (simp add: mult_2_right)
  then have "x / numeral (num.Bit0 b) = (x / numeral b) / 2"
    by (simp only: divide_divide_eq_left)
  then show ?thesis by (simp only: fl_half)
qed

lemma py_round_of_int [simp]: "\<bar>m\<bar> \<le> 2 ^ 53 \<Longrightarrow> py_round n (of_int m) = of_int m"
proof -
  assume "\<bar>m\<bar> \<le> 2 ^ 53"
  moreover have "rat_of_int m * 10 ^ n = of_int (m * 10 ^ n)" by simp
  ultimately show ?thesis
    unfolding py_round_def by (simp only: round_even_of_int) (simp add: fl_of_int)
qed

section \<open>Evaluation\<close>

text \<open>An integer version for evaluation: the significand is one rounded integer division.\<close>

definition round_div :: "int \<Rightarrow> int \<Rightarrow> int" where
  "round_div p q =
     (let n = p div q; r = 2 * (p mod q)
      in if r < q then n else if q < r then n + 1 else if even n then n else n + 1)"

lemma round_even_div:
  assumes "0 < q"
  shows "round_even (of_int p / of_int q) = round_div p q"
proof -
  have f: "\<lfloor>rat_of_int p / of_int q\<rfloor> = p div q" by (rule floor_divide_of_int_eq)
  have "rat_of_int p = of_int (p div q) * of_int q + of_int (p mod q)"
    by (metis div_mult_mod_eq of_int_add of_int_mult)
  then have d: "rat_of_int p / of_int q - of_int (p div q) = of_int (p mod q) / of_int q"
    using assms by (simp add: field_simps)
  have c: "(of_int (p mod q) / of_int q < (1 / 2 :: rat)) = (2 * (p mod q) < q)"
    "((1 / 2 :: rat) < of_int (p mod q) / of_int q) = (q < 2 * (p mod q))"
  proof -
    have "(of_int (p mod q) / of_int q < (1 / 2 :: rat)) = (rat_of_int (2 * (p mod q)) < of_int q)"
      "((1 / 2 :: rat) < of_int (p mod q) / of_int q) = (rat_of_int q < of_int (2 * (p mod q)))"
      using assms by (auto simp: field_simps)
    then show "(of_int (p mod q) / of_int q < (1 / 2 :: rat)) = (2 * (p mod q) < q)"
      "((1 / 2 :: rat) < of_int (p mod q) / of_int q) = (q < 2 * (p mod q))"
      by (simp_all only: of_int_less_iff)
  qed
  show ?thesis unfolding round_even_def round_div_def Let_def f d c ..
qed

definition ilog2_quot :: "int \<Rightarrow> int \<Rightarrow> int" where
  "ilog2_quot p q =
     (let a = bits p; b = bits q
      in if q * 2 ^ (a - b) \<le> p * 2 ^ (b - a) then int a - int b else int a - int b - 1)"

definition fl_quot :: "int \<Rightarrow> int \<Rightarrow> rat" where
  "fl_quot p q =
     (if p = 0 then 0
      else let e = ilog2_quot \<bar>p\<bar> q - 52
           in if 0 \<le> e then of_int (round_div p (q * 2 ^ nat e) * 2 ^ nat e)
              else of_int (round_div (p * 2 ^ nat (- e)) q) / of_int (2 ^ nat (- e)))"

lemma ilog2_quot:
  assumes "quotient_of x = (p, q)"
  shows "ilog2 x = ilog2_quot \<bar>p\<bar> q"
proof -
  have q: "0 < q" using quotient_of_denom_pos [OF assms] .
  have ax: "\<bar>x\<bar> = of_int \<bar>p\<bar> / of_int q" using quotient_of_div [OF assms] q by simp
  have pq: "quotient_of \<bar>x\<bar> = (\<bar>p\<bar>, q)"
    using assms by (simp add: rat_abs_code)
  let ?a = "bits \<bar>p\<bar>" and ?b = "bits q"
  have "(2 :: rat) powi (int ?a - int ?b) = 2 ^ (?a - ?b) / 2 ^ (?b - ?a)"
    by (cases "?a \<le> ?b") (simp_all add: power_int_def nat_diff_distrib power_one_over flip: of_nat_diff)
  moreover have "(2 ^ (?a - ?b) / 2 ^ (?b - ?a) \<le> \<bar>x\<bar>) = (2 ^ (?a - ?b) * rat_of_int q \<le> rat_of_int \<bar>p\<bar> * 2 ^ (?b - ?a))"
    unfolding ax using q by (simp add: field_simps)
  moreover have "(rat_of_int (q * 2 ^ (?a - ?b)) \<le> of_int (\<bar>p\<bar> * 2 ^ (?b - ?a))) = (q * 2 ^ (?a - ?b) \<le> \<bar>p\<bar> * 2 ^ (?b - ?a))"
    by (rule of_int_le_iff)
  then have "(2 ^ (?a - ?b) * rat_of_int q \<le> rat_of_int \<bar>p\<bar> * 2 ^ (?b - ?a)) = (q * 2 ^ (?a - ?b) \<le> \<bar>p\<bar> * 2 ^ (?b - ?a))"
    by (simp only: of_int_mult of_int_power of_int_numeral mult.commute)
  ultimately show ?thesis unfolding ilog2_def pq ilog2_quot_def Let_def prod.case by simp
qed

lemma fl_code [code]: "fl x = (case quotient_of x of (p, q) \<Rightarrow> fl_quot p q)"
proof -
  obtain p q where pq: "quotient_of x = (p, q)" by fastforce
  have q: "0 < q" using quotient_of_denom_pos [OF pq] .
  have x: "x = of_int p / of_int q" using quotient_of_div [OF pq] .
  define e where "e = ilog2 x - 52"
  have il: "ilog2_quot \<bar>p\<bar> q - 52 = e" using ilog2_quot [OF pq] by (simp add: e_def)
  show ?thesis
  proof (cases "0 \<le> e")
    case True
    then have u: "(2 :: rat) powi e = of_int (2 ^ nat e)" by (simp add: power_int_def)
    have "x / 2 powi e = of_int p / of_int (q * 2 ^ nat e)" unfolding u x by simp
    then have "round_even (x / 2 powi e) = round_div p (q * 2 ^ nat e)"
      using round_even_div [of "q * 2 ^ nat e" p] q by simp
    then have "fl x = (if x = 0 then 0 else of_int (round_div p (q * 2 ^ nat e)) * of_int (2 ^ nat e))"
      unfolding fl_def e_def [symmetric] Let_def u by simp
    then show ?thesis unfolding pq prod.case fl_quot_def Let_def il using True q x by simp
  next
    case False
    then have u: "(2 :: rat) powi e = 1 / of_int (2 ^ nat (- e))" by (simp add: power_int_def inverse_eq_divide power_one_over)
    have "x / 2 powi e = of_int (p * 2 ^ nat (- e)) / of_int q" unfolding u x by simp
    then have "round_even (x / 2 powi e) = round_div (p * 2 ^ nat (- e)) q"
      by (simp only: round_even_div [OF q])
    then have "fl x = (if x = 0 then 0 else of_int (round_div (p * 2 ^ nat (- e)) q) * (1 / of_int (2 ^ nat (- e))))"
      unfolding fl_def e_def [symmetric] Let_def u by simp
    then show ?thesis unfolding pq prod.case fl_quot_def Let_def il using False q x by simp
  qed
qed

text \<open>\<open>sum\<close> of floats as Python 3.12 computes it: the running sum and the error it lost (Neumaier).\<close>

fun sum_floats :: "rat \<Rightarrow> rat \<Rightarrow> rat list \<Rightarrow> rat" where
  "sum_floats s c [] = (if c = 0 then s else fadd s c)"
| "sum_floats s c (x # xs) =
     (let t = fadd s x
      in sum_floats t (if \<bar>x\<bar> \<le> \<bar>s\<bar> then fadd c (fadd (fsub s t) x) else fadd c (fadd (fsub x t) s)) xs)"

definition py_sum :: "rat list \<Rightarrow> rat" where
  "py_sum xs = sum_floats 0 0 xs"

end
