(* ===== verification/Py_Data.thy ===== *)
theory Py_Data
  imports Py_Float "HOL-Library.List_Lexorder" "HOL-Library.Char_ord"
begin

text \<open>
  The Python values the components share: exceptions, JSON values, dictionaries as association
  lists, stripped strings, and the standard library's calendar. A date is its proleptic Gregorian
  ordinal (1 is 0001-01-01), an aware UTC datetime the number of microseconds since
  0001-01-01T00:00:00; \<open>iso_date\<close> and \<open>iso_datetime\<close> are \<open>date.isoformat\<close> and
  \<open>datetime.isoformat\<close>. The calendar functions follow the pure-Python reference implementation
  of the standard library's datetime module.
\<close>

section \<open>Exceptions\<close>

datatype py_error =
    ValueError string
  | KeyError string
  | TypeError
  | IndexError
  | ZeroDivisionError
  | StateStoreCorrupted
  | TicketStoreError string
  | TicketStoreConflict
  | TicketStoreCorrupt
  | OSError
  | StructureLibraryError string
  | StructureOutputInvalid string
  | MarketDataError string
  | AttributeError
  | OverflowError
  | RuntimeError string

type_synonym 'a res = "py_error + 'a"

fun res_bind :: "'a res \<Rightarrow> ('a \<Rightarrow> 'b res) \<Rightarrow> 'b res" where
  "res_bind (Inl e) k = Inl e"
| "res_bind (Inr x) k = k x"

lemma res_bind_Inr_iff: "res_bind r k = Inr y \<longleftrightarrow> (\<exists>x. r = Inr x \<and> k x = Inr y)"
  by (cases r) auto

section \<open>Fixed-width decimal fields\<close>

definition digit_char :: "nat \<Rightarrow> char" where
  "digit_char d = char_of (48 + d mod 10)"

definition char_digit :: "char \<Rightarrow> nat option" where
  "char_digit c = (let n = of_char c in if 48 \<le> n \<and> n \<le> 57 then Some (n - 48) else None)"

lemma char_digit_char [simp]: "char_digit (digit_char d) = Some (d mod 10)"
proof -
  have "48 + d mod 10 < (256 :: nat)" using mod_less_divisor [of 10 d] by linarith
  then have "of_char (digit_char d) = 48 + d mod 10"
    by (simp add: digit_char_def)
  moreover have "d mod 10 \<le> 9" using mod_less_divisor [of 10 d] by linarith
  ultimately show ?thesis by (simp add: char_digit_def)
qed

fun pad :: "nat \<Rightarrow> nat \<Rightarrow> string" where
  "pad 0 k = []"
| "pad (Suc n) k = pad n (k div 10) @ [digit_char k]"

fun unpad_acc :: "nat \<Rightarrow> string \<Rightarrow> nat option" where
  "unpad_acc a [] = Some a"
| "unpad_acc a (c # cs) =
     (case char_digit c of None \<Rightarrow> None | Some d \<Rightarrow> unpad_acc (10 * a + d) cs)"

definition unpad :: "string \<Rightarrow> nat option" where
  "unpad cs = (if cs = [] then None else unpad_acc 0 cs)"

text \<open>Evaluation over integers.\<close>

definition ipad :: "nat \<Rightarrow> int \<Rightarrow> string" where
  [code_abbrev]: "ipad n y = pad n (nat y)"

lemma ipad_code [code]:
  "ipad 0 y = []"
  "ipad (Suc n) y = ipad n (y div 10) @ [digit_char (if y < 0 then 0 else nat (y mod 10))]"
proof -
  show "ipad 0 y = []" by (simp add: ipad_def)
  have "nat y div 10 = nat (y div 10)" "\<not> y < 0 \<Longrightarrow> digit_char (nat y) = digit_char (nat (y mod 10))"
    by (simp_all add: nat_div_distrib' digit_char_def nat_mod_distrib)
  then show "ipad (Suc n) y = ipad n (y div 10) @ [digit_char (if y < 0 then 0 else nat (y mod 10))]"
    by (auto simp: ipad_def)
qed

lemma length_pad [simp]: "length (pad n k) = n"
  by (induction n arbitrary: k) auto

lemma unpad_acc_append:
  "unpad_acc a (xs @ ys) = (case unpad_acc a xs of None \<Rightarrow> None | Some b \<Rightarrow> unpad_acc b ys)"
  by (induction xs arbitrary: a) (auto split: option.splits)

lemma unpad_acc_pad: "k < 10 ^ n \<Longrightarrow> unpad_acc a (pad n k) = Some (a * 10 ^ n + k)"
proof (induction n arbitrary: k a)
  case (Suc n)
  have "k div 10 < 10 ^ n" using Suc.prems by (simp add: div_less_iff_less_mult mult.commute)
  then have "unpad_acc a (pad n (k div 10)) = Some (a * 10 ^ n + k div 10)" by (rule Suc.IH)
  moreover have "10 * (a * 10 ^ n + k div 10) + k mod 10 = a * 10 ^ Suc n + k"
    by (simp add: algebra_simps)
  ultimately show ?case by (simp add: unpad_acc_append)
qed simp

lemma unpad_pad: "0 < n \<Longrightarrow> k < 10 ^ n \<Longrightarrow> unpad (pad n k) = Some k"
  using unpad_acc_pad [of k n 0] by (cases n) (auto simp: unpad_def)

section \<open>The calendar\<close>

type_synonym date = int
type_synonym datetime = int

definition is_leap :: "int \<Rightarrow> bool" where
  "is_leap y \<longleftrightarrow> y mod 4 = 0 \<and> (y mod 100 \<noteq> 0 \<or> y mod 400 = 0)"

definition days_before_year :: "int \<Rightarrow> int" where
  "days_before_year y = (let z = y - 1 in z * 365 + z div 4 - z div 100 + z div 400)"

definition days_before_month_tab :: "int \<Rightarrow> int" where
  "days_before_month_tab m =
     (if m \<le> 1 then 0 else if m = 2 then 31 else if m = 3 then 59 else if m = 4 then 90
      else if m = 5 then 120 else if m = 6 then 151 else if m = 7 then 181 else if m = 8 then 212
      else if m = 9 then 243 else if m = 10 then 273 else if m = 11 then 304 else 334)"

definition days_in_month :: "bool \<Rightarrow> int \<Rightarrow> int" where
  "days_in_month leap m =
     (if m = 2 then (if leap then 29 else 28)
      else if m = 4 \<or> m = 6 \<or> m = 9 \<or> m = 11 then 30 else 31)"

lemma days_in_month_le: "days_in_month leap m \<le> 31"
  by (simp add: days_in_month_def)

definition days_before_month :: "int \<Rightarrow> int \<Rightarrow> int" where
  "days_before_month y m = days_before_month_tab m + (if 2 < m \<and> is_leap y then 1 else 0)"

definition ymd2ord :: "int \<Rightarrow> int \<Rightarrow> int \<Rightarrow> int" where
  "ymd2ord y m d = days_before_year y + days_before_month y m + d"

text \<open>The month estimate of the standard library and its correction by one.\<close>

definition month_of_day :: "bool \<Rightarrow> int \<Rightarrow> int \<times> int" where
  "month_of_day leap r =
     (let m0 = (r + 50) div 32;
          p0 = days_before_month_tab m0 + (if 2 < m0 \<and> leap then 1 else 0);
          m = (if r < p0 then m0 - 1 else m0);
          p = days_before_month_tab m + (if 2 < m \<and> leap then 1 else 0)
      in (m, r - p + 1))"

definition ord2ymd :: "int \<Rightarrow> int \<times> int \<times> int" where
  "ord2ymd n0 =
     (let n = n0 - 1;
          n400 = n div 146097; r1 = n mod 146097;
          n100 = r1 div 36524; r2 = r1 mod 36524;
          n4 = r2 div 1461; r3 = r2 mod 1461;
          n1 = r3 div 365; r4 = r3 mod 365;
          year = n400 * 400 + 1 + n100 * 100 + n4 * 4 + n1
      in if n1 = 4 \<or> n100 = 4 then (year - 1, 12, 31)
         else (year, month_of_day (n1 = 3 \<and> (n4 \<noteq> 24 \<or> n100 = 3)) r4))"

text \<open>The mixed-radix decomposition of an ordinal into 400, 100, 4 and 1 year cycles.\<close>

lemma cycles_year:
  fixes a c q r :: int
  assumes "0 \<le> c" "c \<le> 3" "0 \<le> q" "q \<le> 24" "0 \<le> r" "r \<le> 3"
  defines "z \<equiv> a * 400 + c * 100 + q * 4 + r"
  shows "z div 4 = 100 * a + 25 * c + q" "z div 100 = 4 * a + c" "z div 400 = a"
    "is_leap (z + 1) \<longleftrightarrow> r = 3 \<and> (q \<noteq> 24 \<or> c = 3)"
proof -
  show "z div 4 = 100 * a + 25 * c + q" "z div 100 = 4 * a + c" "z div 400 = a"
    using assms(1-6) unfolding z_def
    by (auto intro!: int_div_pos_eq [where r = r] int_div_pos_eq [where r = "q * 4 + r"]
        int_div_pos_eq [where r = "c * 100 + q * 4 + r"])
  have "z + 1 = (r + 1) + 4 * (100 * a + 25 * c + q)" "z + 1 = (q * 4 + r + 1) + 100 * (4 * a + c)"
    "z + 1 = (c * 100 + q * 4 + r + 1) + 400 * a"
    by (simp_all add: z_def)
  then have "(z + 1) mod 4 = (r + 1) mod 4" "(z + 1) mod 100 = (q * 4 + r + 1) mod 100"
    "(z + 1) mod 400 = (c * 100 + q * 4 + r + 1) mod 400"
    by (metis mod_mult_self2)+
  moreover have "(r + 1) mod 4 = 0 \<longleftrightarrow> r = 3"
    using assms(5,6) by (cases "r = 3") (simp_all add: mod_pos_pos_trivial)
  moreover have "(q * 4 + 3 + 1) mod 100 = 0 \<longleftrightarrow> q = 24"
    using assms(3,4) by (cases "q = 24") (simp_all add: mod_pos_pos_trivial)
  moreover have "(c * 100 + 24 * 4 + 3 + 1) mod 400 = 0 \<longleftrightarrow> c = 3"
    using assms(1,2) by (cases "c = 3") (simp_all add: mod_pos_pos_trivial)
  moreover have "(c * 100 + q * 4 + 3 + 1) mod 400 = 0 \<Longrightarrow> (q * 4 + 3 + 1) mod 100 = 0"
  proof -
    assume "(c * 100 + q * 4 + 3 + 1) mod 400 = 0"
    then have "(q * 4 + 3 + 1 + 100 * c) mod 400 mod 100 = 0" by (simp add: algebra_simps)
    then have "(q * 4 + 3 + 1 + 100 * c) mod 100 = 0" 
      using mod_mod_cancel [of 100 400 "q * 4 + 3 + 1 + 100 * c"] by simp
    then show ?thesis by (simp only: mod_mult_self2)
  qed
  ultimately show "is_leap (z + 1) \<longleftrightarrow> r = 3 \<and> (q \<noteq> 24 \<or> c = 3)"
    unfolding is_leap_def by metis
qed

lemma days_before_cycles:
  fixes a c q r :: int
  assumes "0 \<le> c" "c \<le> 3" "0 \<le> q" "q \<le> 24" "0 \<le> r" "r \<le> 3"
  shows "days_before_year (a * 400 + 1 + c * 100 + q * 4 + r) = 146097 * a + 36524 * c + 1461 * q + 365 * r"
    "is_leap (a * 400 + 1 + c * 100 + q * 4 + r) \<longleftrightarrow> r = 3 \<and> (q \<noteq> 24 \<or> c = 3)"
proof -
  have e: "a * 400 + 1 + c * 100 + q * 4 + r = (a * 400 + c * 100 + q * 4 + r) + 1" by simp
  show "days_before_year (a * 400 + 1 + c * 100 + q * 4 + r) = 146097 * a + 36524 * c + 1461 * q + 365 * r"
    unfolding e days_before_year_def Let_def using cycles_year(1-3) [OF assms, of a] by simp
  show "is_leap (a * 400 + 1 + c * 100 + q * 4 + r) \<longleftrightarrow> r = 3 \<and> (q \<noteq> 24 \<or> c = 3)"
    unfolding e by (rule cycles_year(4) [OF assms])
qed

lemma month_of_day_bounds:
  assumes "0 \<le> r" "r \<le> (if leap then 365 else 364)" "month_of_day leap r = (m, d)"
  shows "1 \<le> m" "m \<le> 12" "1 \<le> d" "d \<le> days_in_month leap m"
    "days_before_month_tab m + (if 2 < m \<and> leap then 1 else 0) + d = r + 1"
proof -
  define k where "k = (r + 50) div 32"
  have k: "1 \<le> k" "k \<le> 12" and "32 * k \<le> r + 50" "r + 50 < 32 * k + 32"
    using assms(1,2) unfolding k_def by (auto split: if_splits)
  from k have "k = 1 \<or> k = 2 \<or> k = 3 \<or> k = 4 \<or> k = 5 \<or> k = 6 \<or> k = 7 \<or> k = 8 \<or> k = 9 \<or> k = 10
      \<or> k = 11 \<or> k = 12" by presburger
  then have "1 \<le> m \<and> m \<le> 12 \<and> 1 \<le> d \<and> d \<le> days_in_month leap m \<and>
      days_before_month_tab m + (if 2 < m \<and> leap then 1 else 0) + d = r + 1"
    using assms \<open>32 * k \<le> r + 50\<close> \<open>r + 50 < 32 * k + 32\<close>
    unfolding month_of_day_def k_def [symmetric] Let_def
    by (elim disjE; cases leap; hypsubst; cases "r < days_before_month_tab k + (if 2 < k \<and> leap then 1 else 0)")
      (simp_all add: days_before_month_tab_def days_in_month_def)
  then show "1 \<le> m" "m \<le> 12" "1 \<le> d" "d \<le> days_in_month leap m"
    "days_before_month_tab m + (if 2 < m \<and> leap then 1 else 0) + d = r + 1" by simp_all
qed


text \<open>The calendar date of an ordinal has a month in 1..12, a day in 1..31, and gives the ordinal back.\<close>

lemma ymd2ord_ord2ymd:
  assumes "ord2ymd n0 = (y, m, d)"
  shows "ymd2ord y m d = n0" "1 \<le> m" "m \<le> 12" "1 \<le> d" "d \<le> days_in_month (is_leap y) m"
proof -
  define n n400 r1 where "n = n0 - 1" and "n400 = n div 146097" and "r1 = n mod 146097"
  define n100 r2 where "n100 = r1 div 36524" and "r2 = r1 mod 36524"
  define n4 r3 where "n4 = r2 div 1461" and "r3 = r2 mod 1461"
  define n1 r4 where "n1 = r3 div 365" and "r4 = r3 mod 365"
  note defs = n_def n400_def r1_def n100_def r2_def n4_def r3_def n1_def r4_def
  have eqs: "n = 146097 * n400 + r1" "r1 = 36524 * n100 + r2" "r2 = 1461 * n4 + r3" "r3 = 365 * n1 + r4"
    by (simp_all add: defs)
  have bnd: "0 \<le> r1" "r1 < 146097" "0 \<le> r2" "r2 < 36524" "0 \<le> r3" "r3 < 1461" "0 \<le> r4" "r4 < 365"
    by (simp_all add: defs)
  have c: "0 \<le> n100" "n100 \<le> 4" and q: "0 \<le> n4" "n4 \<le> 24" and r: "0 \<le> n1" "n1 \<le> 4"
    using bnd eqs by linarith+
  have y: "ord2ymd n0 = (if n1 = 4 \<or> n100 = 4 then (n400 * 400 + 1 + n100 * 100 + n4 * 4 + n1 - 1, 12, 31)
      else (n400 * 400 + 1 + n100 * 100 + n4 * 4 + n1, month_of_day (n1 = 3 \<and> (n4 \<noteq> 24 \<or> n100 = 3)) r4))"
    by (simp add: ord2ymd_def Let_def defs)
  have "ymd2ord y m d = n0 \<and> 1 \<le> m \<and> m \<le> 12 \<and> 1 \<le> d \<and> d \<le> days_in_month (is_leap y) m"
  proof (cases "n1 = 4 \<or> n100 = 4")
    case True
    show ?thesis
    proof (cases "n100 = 4")
      case True
      then have "r2 = 0" "n4 = 0" "n1 = 0" "r4 = 0" using eqs bnd q r by linarith+
      then show ?thesis using y assms True eqs days_before_cycles [of 3 24 3 n400]
        by (auto simp: ymd2ord_def days_before_month_def days_before_month_tab_def days_in_month_def n_def add.commute)
    next
      case False
      then have n1: "n1 = 4" and c3: "n100 \<le> 3" using True c by auto
      then have "r4 = 0" "n4 \<noteq> 24" using eqs bnd by linarith+
      then show ?thesis using y assms n1 eqs days_before_cycles [OF c(1) c3 q, of 3 n400]
        by (auto simp: ymd2ord_def days_before_month_def days_before_month_tab_def days_in_month_def n_def algebra_simps)
    qed
  next
    case False
    then have c3: "n100 \<le> 3" and r3: "n1 \<le> 3" using c r by auto
    note dby = days_before_cycles [OF c(1) c3 q r(1) r3, of n400]
    have y': "y = n400 * 400 + 1 + n100 * 100 + n4 * 4 + n1"
      and md: "month_of_day (n1 = 3 \<and> (n4 \<noteq> 24 \<or> n100 = 3)) r4 = (m, d)"
      using y assms False by auto
    have "r4 \<le> (if n1 = 3 \<and> (n4 \<noteq> 24 \<or> n100 = 3) then 365 else 364)" using bnd by auto
    note mb = month_of_day_bounds [OF bnd(7) this md]
    have "ymd2ord y m d = n0"
      using mb(5) dby eqs by (simp add: ymd2ord_def days_before_month_def y' n_def)
    with mb dby(2) show ?thesis by (simp add: y')
  qed
  then show "ymd2ord y m d = n0" "1 \<le> m" "m \<le> 12" "1 \<le> d" "d \<le> days_in_month (is_leap y) m" by simp_all
qed


lemma ord2ymd_year:
  assumes "1 \<le> n" "n \<le> 3652059" "ord2ymd n = (y, m, d)"
  shows "1 \<le> y" "y \<le> 9999"
proof -
  note r = ymd2ord_ord2ymd [OF assms(3)]
  have dbm: "0 \<le> days_before_month y m" "days_before_month y m \<le> 335"
    by (auto simp: days_before_month_def days_before_month_tab_def)
  have o: "days_before_year y + days_before_month y m + d = n" using r(1) by (simp add: ymd2ord_def)
  show "1 \<le> y"
  proof (rule ccontr)
    assume "\<not> 1 \<le> y"
    then have y0: "y \<le> 0" by simp
    have "days_before_year y \<le> -366"
      using y0 zdiv_mono2_neg [of "y - 1" 4 100] div_neg_pos_less0 [of "y - 1" 400]
      unfolding days_before_year_def Let_def by simp
    moreover have "days_before_month y m + d \<le> 366"
      using r(2-5) by (auto simp: days_before_month_def days_before_month_tab_def days_in_month_def split: if_splits)
    ultimately show False using o assms(1) by linarith
  qed
  show "y \<le> 9999"
  proof (rule ccontr)
    assume "\<not> y \<le> 9999"
    then have z: "9999 \<le> y - 1" by simp
    define c where "c = (y - 1) div 100"
    have "(y - 1) div 4 = 25 * c + (y - 1) mod 100 div 4"
      using div_mult_self2 [of 4 "(y - 1) mod 100" "25 * c"] by (simp add: c_def)
    moreover have "24 \<le> (y - 1) mod 100 div 4 \<or> 100 \<le> c"
    proof (cases "100 \<le> c")
      case False
      have "y - 1 = 100 * c + (y - 1) mod 100" by (simp add: c_def)
      then have "96 \<le> (y - 1) mod 100" using z False by linarith
      then have "24 \<le> (y - 1) mod 100 div 4" using zdiv_mono1 [of 96 "(y - 1) mod 100" 4] by simp
      then show ?thesis by simp
    qed simp
    moreover have "99 \<le> c" "24 \<le> (y - 1) div 400" "0 \<le> (y - 1) mod 100 div 4"
      using z by (simp_all add: c_def)
    ultimately have "3652059 \<le> days_before_year y"
      using z unfolding days_before_year_def Let_def c_def [symmetric] by auto
    then show False using o assms(2) dbm r(4) by linarith
  qed
qed


section \<open>ISO-8601 strings\<close>

abbreviation day_us :: int where "day_us \<equiv> 86400000000"

definition date_of :: "datetime \<Rightarrow> date" where
  "date_of t = t div day_us + 1"

text \<open>\<open>datetime.time()\<close>, as microseconds since midnight.\<close>

definition time_of :: "datetime \<Rightarrow> int" where
  "time_of t = t mod day_us"

definition iso_date :: "date \<Rightarrow> string" where
  "iso_date n = (case ord2ymd n of (y, m, d) \<Rightarrow>
     pad 4 (nat y) @ ''-'' @ pad 2 (nat m) @ ''-'' @ pad 2 (nat d))"

definition iso_time :: "int \<Rightarrow> string" where
  "iso_time u =
     (let us = u mod 1000000; sec = u div 1000000
      in pad 2 (nat (sec div 3600)) @ '':'' @ pad 2 (nat (sec div 60 mod 60)) @ '':'' @ pad 2 (nat (sec mod 60))
         @ (if us = 0 then [] else ''.'' @ pad 6 (nat us)))"

definition iso_datetime :: "datetime \<Rightarrow> string" where
  "iso_datetime t = iso_date (date_of t) @ ''T'' @ iso_time (time_of t) @ ''+00:00''"

text \<open>
  \<open>datetime.fromisoformat\<close> on the strings \<open>isoformat\<close> writes for an aware datetime, with any
  offset below a day. A string without an offset parses to a naive datetime, which every caller in
  the repository refuses just as it refuses a string that does not parse.
\<close>

definition parse_date :: "string \<Rightarrow> date option" where
  "parse_date s =
     (if length s = 10 \<and> s ! 4 = CHR ''-'' \<and> s ! 7 = CHR ''-''
      then (case (unpad (take 4 s), unpad (take 2 (drop 5 s)), unpad (drop 8 s)) of
              (Some y, Some m, Some d) \<Rightarrow>
                if 1 \<le> y \<and> 1 \<le> m \<and> m \<le> 12 \<and> 1 \<le> d \<and> int d \<le> days_in_month (is_leap (int y)) (int m)
                then Some (ymd2ord (int y) (int m) (int d)) else None
            | _ \<Rightarrow> None)
      else None)"

definition parse_time :: "string \<Rightarrow> int option" where
  "parse_time s =
     (if (length s = 8 \<or> length s = 15 \<and> s ! 8 = CHR ''.'') \<and> s ! 2 = CHR '':'' \<and> s ! 5 = CHR '':''
      then (case (unpad (take 2 s), unpad (take 2 (drop 3 s)), unpad (take 2 (drop 6 s)),
                  if length s = 8 then Some 0 else unpad (drop 9 s)) of
              (Some h, Some mi, Some sec, Some us) \<Rightarrow>
                if h < 24 \<and> mi < 60 \<and> sec < 60
                then Some (((int h * 60 + int mi) * 60 + int sec) * 1000000 + int us) else None
            | _ \<Rightarrow> None)
      else None)"

definition parse_offset :: "string \<Rightarrow> int option" where
  "parse_offset s =
     (if length s = 6 \<and> (s ! 0 = CHR ''+'' \<or> s ! 0 = CHR ''-'') \<and> s ! 3 = CHR '':''
      then (case (unpad (take 2 (drop 1 s)), unpad (drop 4 s)) of
              (Some h, Some mi) \<Rightarrow>
                if h < 24 \<and> mi < 60
                then Some ((if s ! 0 = CHR ''-'' then -1 else 1) * (int h * 60 + int mi) * 60000000)
                else None
            | _ \<Rightarrow> None)
      else None)"

definition parse_iso :: "string \<Rightarrow> datetime option" where
  "parse_iso s =
     (if length s < 17 then None
      else case (parse_date (take 10 s), parse_time (take (length s - 17) (drop 11 s)),
                 parse_offset (drop (length s - 6) s)) of
             (Some d, Some u, Some off) \<Rightarrow> Some ((d - 1) * day_us + u - off)
           | _ \<Rightarrow> None)"

definition valid_date :: "date \<Rightarrow> bool" where
  "valid_date n \<longleftrightarrow> 1 \<le> n \<and> n \<le> 3652059"

definition valid_datetime :: "datetime \<Rightarrow> bool" where
  "valid_datetime t \<longleftrightarrow> 0 \<le> t \<and> t < 3652059 * day_us"

lemma length_iso_date [simp]: "length (iso_date n) = 10"
  by (simp add: iso_date_def split: prod.splits)

lemma parse_iso_date:
  assumes "valid_date n"
  shows "parse_date (iso_date n) = Some n"
proof -
  obtain y m d where ymd: "ord2ymd n = (y, m, d)" by (metis prod_cases3)
  note r = ymd2ord_ord2ymd [OF ymd]
  have y: "1 \<le> y" "y \<le> 9999" using ord2ymd_year [OF _ _ ymd] assms by (simp_all add: valid_date_def)
  have d: "d \<le> 31" using r(5) days_in_month_le [of "is_leap y" m] by linarith
  have u: "unpad (pad 4 (nat y)) = Some (nat y)" "unpad (pad 2 (nat m)) = Some (nat m)"
    "unpad (pad 2 (nat d)) = Some (nat d)"
    using y r d by (intro unpad_pad; simp)+
  show ?thesis
    using y r d by (simp add: parse_date_def iso_date_def ymd u nth_append le_nat_iff)
qed

lemma parse_iso_time:
  assumes "0 \<le> u" "u < day_us"
  shows "parse_time (iso_time u) = Some u"
proof -
  define us sec where "us = u mod 1000000" and "sec = u div 1000000"
  define h mi s where "h = sec div 3600" and "mi = sec div 60 mod 60" and "s = sec mod 60"
  have sec: "0 \<le> sec" "sec < 86400" using assms by (simp_all add: sec_def)
  have b: "0 \<le> h" "h < 24" "0 \<le> mi" "mi < 60" "0 \<le> s" "s < 60" "0 \<le> us" "us < 1000000"
    using sec by (simp_all add: h_def mi_def s_def us_def)
  have "sec = (h * 60 + mi) * 60 + s"
    unfolding h_def mi_def s_def using zdiv_zmult2_eq [of 60 sec 60] by simp
  moreover have "u = sec * 1000000 + us" by (simp add: sec_def us_def)
  ultimately have u: "u = ((h * 60 + mi) * 60 + s) * 1000000 + us" by simp
  have p: "unpad (pad 2 (nat h)) = Some (nat h)" "unpad (pad 2 (nat mi)) = Some (nat mi)"
    "unpad (pad 2 (nat s)) = Some (nat s)" "unpad (pad 6 (nat us)) = Some (nat us)"
    using b by (intro unpad_pad; simp)+
  have iso: "iso_time u = pad 2 (nat h) @ '':'' @ pad 2 (nat mi) @ '':'' @ pad 2 (nat s)
      @ (if us = 0 then [] else ''.'' @ pad 6 (nat us))"
    by (simp add: iso_time_def Let_def h_def mi_def s_def us_def sec_def)
  have "parse_time (iso_time u) = Some (((h * 60 + mi) * 60 + s) * 1000000 + us)"
    unfolding iso using b p by (cases "us = 0") (simp_all add: parse_time_def nth_append nat_less_iff)
  then show ?thesis using u by simp
qed

lemma length_iso_time: "length (iso_time u) = (if u mod 1000000 = 0 then 8 else 15)"
  by (simp add: iso_time_def Let_def)

theorem parse_iso_datetime:
  assumes "valid_datetime t"
  shows "parse_iso (iso_datetime t) = Some t"
proof -
  have vd: "valid_date (date_of t)" using assms by (auto simp: valid_datetime_def valid_date_def date_of_def)
  have vt: "0 \<le> time_of t" "time_of t < day_us" by (simp_all add: time_of_def)
  have off: "parse_offset ''+00:00'' = Some 0" by code_simp
  have len: "length (iso_time (time_of t)) \<ge> 8" by (simp add: length_iso_time)
  show ?thesis
    using parse_iso_date [OF vd] parse_iso_time [OF vt] off len
    by (simp add: parse_iso_def iso_datetime_def date_of_def time_of_def)
qed

lemma iso_datetime_inj:
  "valid_datetime t \<Longrightarrow> valid_datetime u \<Longrightarrow> iso_datetime t = iso_datetime u \<Longrightarrow> t = u"
  by (metis option.inject parse_iso_datetime)

lemma iso_date_inj:
  "valid_date t \<Longrightarrow> valid_date u \<Longrightarrow> iso_date t = iso_date u \<Longrightarrow> t = u"
  by (metis option.inject parse_iso_date)


section \<open>Calendar order\<close>

lemma div_pred:
  fixes y k :: int
  assumes "0 < k"
  shows "(y - 1) div k = y div k - (if y mod k = 0 then 1 else 0)"
proof (cases "y mod k = 0")
  case True
  then have "y = k * (y div k)" by (metis add.right_neutral mult_div_mod_eq)
  then have "y - 1 = k * (y div k - 1) + (k - 1)" by (simp add: algebra_simps)
  from int_div_pos_eq [OF this] assms True show ?thesis by simp
next
  case False
  have "y - 1 = k * (y div k) + (y mod k - 1)" by (simp add: algebra_simps)
  moreover have "0 < y mod k" "y mod k < k" using False assms pos_mod_sign [of k y] pos_mod_bound [of k y] by linarith+
  ultimately show ?thesis using int_div_pos_eq [of "y - 1" k "y div k" "y mod k - 1"] False by simp
qed

lemma days_before_year_Suc: "days_before_year (y + 1) = days_before_year y + 365 + (if is_leap y then 1 else 0)"
proof -
  have "y mod 400 = 0 \<Longrightarrow> y mod 100 = 0"
    unfolding mod_eq_0_iff_dvd by (rule dvd_trans [of 100 400]) simp_all
  moreover have "y mod 100 = 0 \<Longrightarrow> y mod 4 = 0"
    unfolding mod_eq_0_iff_dvd by (rule dvd_trans [of 4 100]) simp_all
  ultimately have "(if is_leap y then 1 else 0 :: int) =
      (if y mod 4 = 0 then 1 else 0) - (if y mod 100 = 0 then 1 else 0) + (if y mod 400 = 0 then 1 else 0)"
    unfolding is_leap_def by presburger
  moreover have "l = a - b + c \<Longrightarrow> y * 365 + p - q + r = (y - 1) * 365 + (p - a) - (q - b) + (r - c) + 365 + l"
    for l a b c p q r :: int by (simp add: algebra_simps)
  ultimately show ?thesis unfolding days_before_year_def Let_def add_diff_cancel_right'
    div_pred [of 4 y, simplified] div_pred [of 100 y, simplified] div_pred [of 400 y, simplified] by blast
qed

lemma days_before_year_mono: "x \<le> y \<Longrightarrow> days_before_year x \<le> days_before_year y"
proof (induction y rule: int_ge_induct)
  case (step i)
  then show ?case using days_before_year_Suc [of i] by (auto split: if_splits)
qed simp

lemma day_in_year:
  assumes "1 \<le> m" "m \<le> 12" "1 \<le> d" "d \<le> days_in_month (is_leap y) m"
  shows "1 \<le> days_before_month y m + d" "days_before_month y m + d \<le> 365 + (if is_leap y then 1 else 0)"
  using assms by (auto simp: days_before_month_def days_before_month_tab_def days_in_month_def split: if_splits)

lemma days_before_next_month:
  assumes "1 \<le> m" "m < 12"
  shows "days_before_month y (m + 1) = days_before_month y m + days_in_month (is_leap y) m"
proof -
  have "m \<in> {1, 2, 3, 4, 5, 6, 7, 8, 9, 10, 11}" unfolding insert_iff empty_iff using assms by presburger
  then show ?thesis by (elim insertE emptyE) (simp_all add: days_before_month_def days_before_month_tab_def days_in_month_def)
qed

lemma days_before_month_mono:
  assumes "m \<le> m'"
  shows "1 \<le> m \<Longrightarrow> m' \<le> 12 \<Longrightarrow> days_before_month y m \<le> days_before_month y m'"
  using assms
proof (induction m' rule: int_ge_induct)
  case (step i)
  moreover have "0 \<le> days_in_month (is_leap y) i" by (simp add: days_in_month_def)
  ultimately show ?case using days_before_next_month [of i y] by simp
qed simp

lemma day_in_month_before:
  assumes "1 \<le> m" "m < m'" "m' \<le> 12" "d \<le> days_in_month (is_leap y) m"
  shows "days_before_month y m + d \<le> days_before_month y m'"
  using days_before_next_month [of m y] days_before_month_mono [of "m + 1" m' y] assms by simp

text \<open>Ordinals compare as their year, month and day do.\<close>

lemma ord2ymd_mono:
  assumes "n \<le> n'" "ord2ymd n = (y, m, d)" "ord2ymd n' = (y', m', d')"
  shows "y < y' \<or> y = y' \<and> (m < m' \<or> m = m' \<and> d \<le> d')"
proof (rule ccontr)
  note r = ymd2ord_ord2ymd [OF assms(2)] and r' = ymd2ord_ord2ymd [OF assms(3)]
  assume "\<not> ?thesis"
  then consider "y' < y" | "y' = y" "m' < m" | "y' = y" "m' = m" "d' < d" by linarith
  then have "ymd2ord y' m' d' < ymd2ord y m d"
  proof cases
    case 1
    then have "days_before_year (y' + 1) \<le> days_before_year y" by (intro days_before_year_mono) simp
    then show ?thesis using day_in_year [of m' d' y'] day_in_year [of m d y] r r' days_before_year_Suc [of y']
      by (simp add: ymd2ord_def)
  next
    case 2
    then show ?thesis using day_in_month_before [of m' m d' y] r r' by (simp add: ymd2ord_def)
  next
    case 3
    then show ?thesis by (simp add: ymd2ord_def)
  qed
  with r(1) r'(1) assms(1) show False by simp
qed

text \<open>Fixed-width texts compare as the numbers do.\<close>

lemma list_le_append_less:
  fixes xs ys :: "'a :: linorder list"
  assumes "length xs = length ys" "xs < ys"
  shows "xs @ us \<le> ys @ vs"
  using assms
proof (induction xs ys rule: list_induct2)
  case (Cons x xs y ys)
  then show ?case by (auto simp: less_le)
qed simp

lemma list_le_append_same:
  fixes us vs :: "'a :: linorder list"
  shows "us \<le> vs \<Longrightarrow> xs @ us \<le> xs @ vs"
  by (induction xs) auto

lemma list_le_append:
  fixes xs ys :: "'a :: linorder list"
  assumes "length xs = length ys" "xs < ys \<or> xs = ys \<and> us \<le> vs"
  shows "xs @ us \<le> ys @ vs"
  using assms list_le_append_less list_le_append_same by blast

lemma digit_char_less: "a mod 10 < b mod 10 \<Longrightarrow> digit_char a < digit_char b"
  by (simp add: digit_char_def less_char_def)

lemma pad_less:
  assumes "k < k'" "k' < 10 ^ n"
  shows "pad n k < pad n k'"
  using assms
proof (induction n arbitrary: k k')
  case (Suc n)
  have l: "k' div 10 < 10 ^ n" using Suc.prems(2) by simp
  consider "k div 10 < k' div 10" | "k div 10 = k' div 10" "k mod 10 < k' mod 10"
    using Suc.prems(1) by (metis div_le_mono div_mod_decomp_int le_neq_implies_less less_imp_le mult_div_mod_eq nat_add_left_cancel_less)
  then show ?case
  proof cases
    case 1
    then have "pad n (k div 10) < pad n (k' div 10)" using Suc.IH l by blast
    then have "pad n (k div 10) @ [digit_char k] \<le> pad n (k' div 10) @ [digit_char k']"
      "pad n (k div 10) \<noteq> pad n (k' div 10)" by (auto intro: list_le_append_less)
    then show ?thesis by (auto simp: less_le)
  next
    case 2
    then have "digit_char k < digit_char k'" by (intro digit_char_less)
    then show ?thesis using 2 list_le_append_same [of "[digit_char k]" "[digit_char k']" "pad n (k div 10)"] by (auto simp: less_le)
  qed
qed simp

lemma pad_le: "k \<le> k' \<Longrightarrow> k' < 10 ^ n \<Longrightarrow> pad n k \<le> pad n k'"
  using pad_less [of k k' n] by (cases "k = k'") auto

text \<open>The names of day files sort chronologically.\<close>

lemma iso_date_mono:
  assumes "n \<le> n'" "valid_date n" "valid_date n'"
  shows "iso_date n @ s \<le> iso_date n' @ s"
proof -
  obtain y m d y' m' d' where o: "ord2ymd n = (y, m, d)" "ord2ymd n' = (y', m', d')" by (metis prod_cases3)
  have y: "1 \<le> y" "y \<le> 9999" "1 \<le> y'" "y' \<le> 9999"
    using ord2ymd_year o assms(2,3) by (auto simp: valid_date_def)
  have md: "1 \<le> m" "1 \<le> d" "m' \<le> 12" "d' \<le> 31" "1 \<le> m'" "1 \<le> d'"
    using ymd2ord_ord2ymd [OF o(1)] ymd2ord_ord2ymd [OF o(2)] days_in_month_le [of "is_leap y'" m'] by auto
  consider "y < y'" | "y = y'" "m < m'" | "y = y'" "m = m'" "d \<le> d'" using ord2ymd_mono [OF assms(1) o] by blast
  then show ?thesis unfolding iso_date_def o prod.case append_assoc
  proof cases
    case 1
    then have "pad 4 (nat y) < pad 4 (nat y')" using y by (intro pad_less) auto
    then show "pad 4 (nat y) @ ''-'' @ pad 2 (nat m) @ ''-'' @ pad 2 (nat d) @ s
        \<le> pad 4 (nat y') @ ''-'' @ pad 2 (nat m') @ ''-'' @ pad 2 (nat d') @ s"
      by (intro list_le_append_less) auto
  next
    case 2
    then have "pad 2 (nat m) < pad 2 (nat m')" using md by (intro pad_less) auto
    then have "pad 2 (nat m) @ ''-'' @ pad 2 (nat d) @ s \<le> pad 2 (nat m') @ ''-'' @ pad 2 (nat d') @ s"
      by (intro list_le_append_less) auto
    then show "pad 4 (nat y) @ ''-'' @ pad 2 (nat m) @ ''-'' @ pad 2 (nat d) @ s
        \<le> pad 4 (nat y') @ ''-'' @ pad 2 (nat m') @ ''-'' @ pad 2 (nat d') @ s"
      unfolding 2(1) by (intro list_le_append_same)
  next
    case 3
    have "pad 2 (nat d) \<le> pad 2 (nat d')" using 3 md by (intro pad_le) auto
    then have "pad 2 (nat d) @ s \<le> pad 2 (nat d') @ s" by (intro list_le_append) (auto simp: le_less)
    then show "pad 4 (nat y) @ ''-'' @ pad 2 (nat m) @ ''-'' @ pad 2 (nat d) @ s
        \<le> pad 4 (nat y') @ ''-'' @ pad 2 (nat m') @ ''-'' @ pad 2 (nat d') @ s"
      unfolding 3(1,2) by (intro list_le_append_same)
  qed
qed


section \<open>Strings\<close>

text \<open>\<open>str.strip\<close> and \<open>str.upper\<close> on ASCII text.\<close>

definition is_space :: "char \<Rightarrow> bool" where
  "is_space c = (let n = of_char c :: nat in 9 \<le> n \<and> n \<le> 13 \<or> 28 \<le> n \<and> n \<le> 32)"

definition strip :: "string \<Rightarrow> string" where
  "strip s = rev (dropWhile is_space (rev (dropWhile is_space s)))"

definition upper_char :: "char \<Rightarrow> char" where
  "upper_char c = (let n = of_char c :: nat in if 97 \<le> n \<and> n \<le> 122 then char_of (n - 32) else c)"

definition upper :: "string \<Rightarrow> string" where
  "upper s = map upper_char s"

text \<open>\<open>isinstance(v, str) and bool(v.strip())\<close> of a string.\<close>

definition non_blank :: "string \<Rightarrow> bool" where
  "non_blank s \<longleftrightarrow> strip s \<noteq> []"

lemma non_blank_iff: "non_blank s \<longleftrightarrow> (\<exists>c \<in> set s. \<not> is_space c)"
proof -
  have "dropWhile is_space s \<noteq> [] \<Longrightarrow> dropWhile is_space (rev (dropWhile is_space s)) \<noteq> []"
    by (metis dropWhile_eq_Nil_conv hd_dropWhile hd_in_set set_rev)
  then show ?thesis unfolding non_blank_def strip_def
    by (auto simp: dropWhile_eq_Nil_conv dest: set_dropWhileD)
qed

lemma non_blank_not_Nil: "non_blank s \<Longrightarrow> s \<noteq> []"
  by (auto simp: non_blank_iff)

section \<open>JSON values\<close>

datatype json =
    JNull
  | JBool bool
  | JInt int
  | JFloat rat
  | JStr string
  | JList "json list"
  | JDict "(string \<times> json) list"

text \<open>\<open>d.get(k)\<close> of a dictionary; a missing key reads as \<open>None\<close>.\<close>

definition dget :: "(string \<times> json) list \<Rightarrow> string \<Rightarrow> json" where
  "dget d k = (case map_of d k of None \<Rightarrow> JNull | Some v \<Rightarrow> v)"

text \<open>Assignment \<open>d[k] = v\<close>: an existing key keeps its place, a new one goes to the end.\<close>

fun dput :: "string \<Rightarrow> 'a \<Rightarrow> (string \<times> 'a) list \<Rightarrow> (string \<times> 'a) list" where
  "dput k v [] = [(k, v)]"
| "dput k v ((k', v') # d) = (if k = k' then (k, v) # d else (k', v') # dput k v d)"

definition ddel :: "string \<Rightarrow> (string \<times> 'a) list \<Rightarrow> (string \<times> 'a) list" where
  "ddel k d = filter (\<lambda>p. fst p \<noteq> k) d"

definition wf_dict :: "(string \<times> 'a) list \<Rightarrow> bool" where
  "wf_dict d \<longleftrightarrow> distinct (map fst d)"

lemma map_of_dput [simp]: "map_of (dput k v d) = (map_of d)(k \<mapsto> v)"
  by (induction k v d rule: dput.induct) auto

lemma keys_dput: "set (map fst (dput k v d)) = insert k (set (map fst d))"
  by (induction k v d rule: dput.induct) auto

lemma wf_dput: "wf_dict d \<Longrightarrow> wf_dict (dput k v d)"
proof (induction k v d rule: dput.induct)
  case (2 k v k' v' d)
  then show ?case using keys_dput [of k v d] by (auto simp: wf_dict_def)
qed (simp add: wf_dict_def)

lemma map_of_ddel [simp]: "map_of (ddel k d) = (map_of d)(k := None)"
  by (induction d) (auto simp: ddel_def fun_eq_iff)

lemma wf_ddel: "wf_dict d \<Longrightarrow> wf_dict (ddel k d)"
  by (induction d) (auto simp: ddel_def wf_dict_def)

lemma dget_dput [simp]: "dget (dput k v d) k' = (if k' = k then v else dget d k')"
  by (simp add: dget_def)

text \<open>\<open>json.dumps(..., sort_keys=True)\<close>: dictionaries are written with their keys sorted, at every depth.\<close>

fun canon :: "json \<Rightarrow> json" where
  "canon (JList xs) = JList (map canon xs)"
| "canon (JDict d) = JDict (sort_key fst (map (\<lambda>(k, v). (k, canon v)) d))"
| "canon v = v"

lemma distinct_keys_sort: "distinct (map fst d) \<Longrightarrow> distinct (map fst (sort_key fst d))"
  by (simp add: distinct_map)

lemma map_of_sort_key [simp]: "distinct (map fst d) \<Longrightarrow> map_of (sort_key fst d) = map_of d"
  using map_of_inject_set [OF distinct_keys_sort, of d d] by simp

lemma canon_idem [simp]: "canon (canon v) = canon v"
proof (induction v rule: canon.induct)
  case (2 d)
  let ?f = "\<lambda>(k, v). (k, canon v)"
  let ?s = "sort_key fst (map ?f d)"
  have "\<forall>p \<in> set ?s. ?f p = p" using 2 by fastforce
  then have m: "map ?f ?s = ?s" by (metis (no_types, lifting) list.map_id0 id_apply map_idI)
  have "sort_key fst ?s = ?s" by (rule sort_key_id_if_sorted) simp
  then show ?case unfolding canon.simps m by simp
qed auto

text \<open>A value read from JSON text repeats no key at any depth; writing it sorted keeps that.\<close>

fun wf_json :: "json \<Rightarrow> bool" where
  "wf_json (JList xs) = (\<forall>x \<in> set xs. wf_json x)"
| "wf_json (JDict d) = (distinct (map fst d) \<and> (\<forall>p \<in> set d. wf_json (snd p)))"
| "wf_json v = True"

lemma keys_map_canon: "map fst (map (\<lambda>(k, v). (k, canon v)) d) = map fst d"
  by (induction d) auto

lemma map_of_map_canon: "map_of (map (\<lambda>(k, v). (k, canon v)) d) = map_option canon \<circ> map_of d"
  by (induction d) (auto simp: fun_eq_iff)

lemma wf_json_canon: "wf_json v \<Longrightarrow> wf_json (canon v)"
proof (induction v rule: canon.induct)
  case (2 d)
  then have "distinct (map fst (sort_key fst (map (\<lambda>(k, v). (k, canon v)) d)))"
    by (intro distinct_keys_sort) (simp only: keys_map_canon wf_json.simps)
  with 2 show ?case by fastforce
qed auto

lemma wf_json_dict: "wf_json (JDict d) \<Longrightarrow> wf_dict d"
  by (simp add: wf_dict_def)

lemma wf_json_value: "wf_json (JDict d) \<Longrightarrow> map_of d k = Some v \<Longrightarrow> wf_json v"
  by (auto dest: map_of_SomeD)

lemma set_dput: "set (dput k v d) \<subseteq> insert (k, v) (set d)"
  by (induction k v d rule: dput.induct) auto

lemma wf_json_dput: "wf_json (JDict d) \<Longrightarrow> wf_json v \<Longrightarrow> wf_json (JDict (dput k v d))"
  using wf_dput [of d k v] set_dput [of k v d] by (auto simp: wf_dict_def)

lemma wf_json_ddel: "wf_json (JDict d) \<Longrightarrow> wf_json (JDict (ddel k d))"
  using wf_ddel [of d k] by (auto simp: wf_dict_def ddel_def)

lemma canon_dict_view:
  assumes "wf_dict d"
  shows "map_of (sort_key fst (map (\<lambda>(k, v). (k, canon v)) d)) = map_option canon \<circ> map_of d"
proof -
  have "distinct (map fst (map (\<lambda>(k, v). (k, canon v)) d))"
    unfolding keys_map_canon using assms by (simp add: wf_dict_def)
  then show ?thesis by (simp only: map_of_sort_key map_of_map_canon)
qed

lemma canon_dict:
  assumes "wf_dict d"
  obtains d' where "canon (JDict d) = JDict d'" "wf_dict d'" "\<And>k. dget d' k = canon (dget d k)"
proof
  let ?d = "sort_key fst (map (\<lambda>(k, v). (k, canon v)) d)"
  show "canon (JDict d) = JDict ?d" by simp
  have "distinct (map fst (map (\<lambda>(k, v). (k, canon v)) d))"
    unfolding keys_map_canon using assms by (simp add: wf_dict_def)
  then show "wf_dict ?d" unfolding wf_dict_def by (rule distinct_keys_sort)
  show "dget ?d k = canon (dget d k)" for k
    unfolding dget_def canon_dict_view [OF assms] by (simp split: option.split)
qed

text \<open>Truth of a JSON value in a Python condition.\<close>

fun truthy :: "json \<Rightarrow> bool" where
  "truthy JNull = False"
| "truthy (JBool b) = b"
| "truthy (JInt i) = (i \<noteq> 0)"
| "truthy (JFloat x) = (x \<noteq> 0)"
| "truthy (JStr s) = (s \<noteq> [])"
| "truthy (JList xs) = (xs \<noteq> [])"
| "truthy (JDict d) = (d \<noteq> [])"

lemma truthy_canon [simp]: "truthy (canon v) = truthy v"
  by (cases v) (auto dest: arg_cong [of _ _ length])

text \<open>Subscription \<open>v[k]\<close> with a string key.\<close>

fun subscr :: "json \<Rightarrow> string \<Rightarrow> json res" where
  "subscr (JDict d) k = (case map_of d k of None \<Rightarrow> Inl (KeyError k) | Some v \<Rightarrow> Inr v)"
| "subscr _ k = Inl TypeError"

text \<open>\<open>float(s)\<close> of a finite decimal literal: surrounding space, a sign, digits with an optional
  point, an optional exponent. (\<open>inf\<close>, \<open>nan\<close> and digit separators are outside the model.)\<close>

definition is_digit :: "char \<Rightarrow> bool" where
  "is_digit c \<longleftrightarrow> char_digit c \<noteq> None"

fun split_sign :: "string \<Rightarrow> bool \<times> string" where
  "split_sign (CHR ''-'' # s) = (True, s)"
| "split_sign (CHR ''+'' # s) = (False, s)"
| "split_sign s = (False, s)"

fun parse_exponent :: "string \<Rightarrow> int option" where
  "parse_exponent [] = Some 0"
| "parse_exponent (c # s) =
     (if c = CHR ''e'' \<or> c = CHR ''E'' then
        (case split_sign s of (neg, ds) \<Rightarrow>
           if ds = [] then None
           else map_option (\<lambda>n. if neg then - int n else int n) (unpad ds))
      else None)"

definition parse_float :: "string \<Rightarrow> rat option" where
  "parse_float s =
     (case split_sign (strip s) of (neg, u) \<Rightarrow>
        let ip = takeWhile is_digit u; r = dropWhile is_digit u;
            (fp, e) = (case r of CHR ''.'' # r' \<Rightarrow> (takeWhile is_digit r', dropWhile is_digit r') | _ \<Rightarrow> ([], r))
        in if ip = [] \<and> fp = [] then None
           else case (unpad (ip @ fp), parse_exponent e) of
             (Some m, Some x) \<Rightarrow>
               Some (fl ((if neg then - 1 else 1) * of_nat m * 10 powi (x - int (length fp))))
           | _ \<Rightarrow> None)"

text \<open>\<open>float(v)\<close> of a JSON value.\<close>

fun py_float :: "json \<Rightarrow> rat res" where
  "py_float (JFloat x) = Inr x"
| "py_float (JInt i) = Inr (fl (of_int i))"
| "py_float (JBool b) = Inr (if b then 1 else 0)"
| "py_float (JStr s) = (case parse_float s of None \<Rightarrow> Inl (ValueError s) | Some x \<Rightarrow> Inr x)"
| "py_float _ = Inl TypeError"

end
