(* ===== verification/Scan.thy ===== *)
theory Scan
  imports Py_Data
begin

text \<open>
  Loops that walk a sequence and return at the first element that qualifies, the shape of every
  detector of the strategy engine. The locale \<open>first_hit\<close> is their interface: the loop, the test
  of one element, and the value returned when the sequence is exhausted. Its lemmas are the facts
  the detectors promise: the first qualifying element decides, and bars appended later do not
  change a decision already made.
\<close>

named_theorems detector_defs "definitions of the per-bar tests"

locale first_hit =
  fixes det :: "'c list \<Rightarrow> 'r" and hit :: "'c \<Rightarrow> 'r option" and dflt :: 'r
  assumes det_Nil: "det [] = dflt"
    and det_Cons: "det (c # cs) = (case hit c of Some r \<Rightarrow> r | None \<Rightarrow> det cs)"
begin

lemma det_skip: "\<forall>c \<in> set pre. hit c = None \<Longrightarrow> det (pre @ cs) = det cs"
  by (induction pre) (auto simp: det_Cons)

lemma det_first: "\<forall>c \<in> set pre. hit c = None \<Longrightarrow> hit c = Some r \<Longrightarrow> det (pre @ c # cs) = r"
  by (simp add: det_skip det_Cons)

lemma det_none: "\<forall>c \<in> set cs. hit c = None \<Longrightarrow> det cs = dflt"
  using det_skip [of cs "[]"] by (simp add: det_Nil)

lemma det_cases:
  obtains (miss) "\<forall>c \<in> set cs. hit c = None" "det cs = dflt"
  | (found) pre c post r where "cs = pre @ c # post" "\<forall>c \<in> set pre. hit c = None"
      "hit c = Some r" "det cs = r"
proof (cases "\<exists>c \<in> set cs. hit c \<noteq> None")
  case True
  then obtain pre c post where "cs = pre @ c # post" "hit c \<noteq> None" "\<forall>c \<in> set pre. \<not> hit c \<noteq> None"
    using split_list_first_prop [OF True] by blast
  then show ?thesis using found det_first by fastforce
next
  case False
  then show ?thesis using miss det_none by blast
qed

lemma det_prefix_stable: "\<exists>c \<in> set xs. hit c \<noteq> None \<Longrightarrow> det (xs @ ys) = det xs"
  by (cases xs rule: det_cases) (auto simp: det_first)

lemma det_single: "det [c] = (case hit c of Some r \<Rightarrow> r | None \<Rightarrow> dflt)"
  by (simp add: det_Nil det_Cons split: option.split)

end

text \<open>The chronological order of a bar sequence: opening times strictly increase.\<close>

definition strictly_increasing :: "int list \<Rightarrow> bool" where
  "strictly_increasing ts \<longleftrightarrow> sorted_wrt (<) ts"

end
