(* ===== verification/Session_Box.thy ===== *)
theory Session_Box
  imports Scan
begin

text \<open>
  The session-box strategy component (src/src/strategy_engine/session): completed-session candles
  are folded into a reference box, the ER\_ONLY\_V2 classifier labels it TREND or RANGE, and the
  matching detector (entry 1 trend, entry 2 sweep, entry 3 range rejection) produces a candidate
  decision. \<open>route_completed_session\<close> composes them as router.py does.
\<close>

section \<open>Candles and the reference box\<close>

record candle =
  c_time :: datetime
  c_open :: rat
  c_high :: rat
  c_low :: rat
  c_close :: rat
  c_volume :: "rat option"

definition bar :: "datetime \<Rightarrow> rat \<Rightarrow> rat \<Rightarrow> rat \<Rightarrow> rat \<Rightarrow> candle" where
  "bar t op hi lo cl = \<lparr>c_time = t, c_open = op, c_high = hi, c_low = lo, c_close = cl, c_volume = None\<rparr>"

record reference_box =
  session_name :: string
  session_open :: rat
  session_high :: rat
  session_low :: rat
  session_close :: rat
  session_range :: rat
  session_mid :: rat
  path_length :: rat
  displacement :: rat
  efficiency_ratio :: rat
  bar_count :: int
  expected_bar_count :: int
  session_complete :: bool

fun close_path :: "rat \<Rightarrow> candle list \<Rightarrow> rat" where
  "close_path acc (p # c # cs) = close_path (fadd acc \<bar>fsub (c_close c) (c_close p)\<bar>) (c # cs)"
| "close_path acc _ = acc"

definition max_high :: "candle \<Rightarrow> candle list \<Rightarrow> rat" where
  "max_high c cs = fold (\<lambda>x m. max m (c_high x)) cs (c_high c)"

definition min_low :: "candle \<Rightarrow> candle list \<Rightarrow> rat" where
  "min_low c cs = fold (\<lambda>x m. min m (c_low x)) cs (c_low c)"

definition build_reference_box :: "string \<Rightarrow> candle list \<Rightarrow> int \<Rightarrow> reference_box res" where
  "build_reference_box name candles expected =
     (case candles of
        [] \<Rightarrow> Inl (ValueError ''build_reference_box requires at least one candle'')
      | c0 # cs \<Rightarrow>
          let s_open = c_open c0;
              s_close = c_close (last candles);
              s_high = max_high c0 cs;
              s_low = min_low c0 cs;
              s_range = fsub s_high s_low;
              s_mid = fquot (fadd s_high s_low) 2;
              path = close_path \<bar>fsub (c_close c0) s_open\<bar> candles;
              disp = \<bar>fsub s_close s_open\<bar>;
              er = (if path = 0 then 0 else fquot disp path);
              n = int (length candles)
          in Inr \<lparr>session_name = name, session_open = s_open, session_high = s_high,
                  session_low = s_low, session_close = s_close, session_range = s_range,
                  session_mid = s_mid, path_length = path, displacement = disp,
                  efficiency_ratio = er, bar_count = n, expected_bar_count = expected,
                  session_complete = (expected \<le> n)\<rparr>)"

section \<open>The classifier\<close>

datatype regime = Regime_TREND | Regime_RANGE

fun regime_value :: "regime \<Rightarrow> string" where
  "regime_value Regime_TREND = ''TREND''"
| "regime_value Regime_RANGE = ''RANGE''"

definition EFFICIENCY_RATIO_THRESHOLD :: rat where
  "EFFICIENCY_RATIO_THRESHOLD = fl 0.40"

definition classify :: "reference_box \<Rightarrow> regime" where
  "classify box =
     (if path_length box = 0 then Regime_RANGE
      else if EFFICIENCY_RATIO_THRESHOLD \<le> efficiency_ratio box then Regime_TREND else Regime_RANGE)"

section \<open>Candidate decisions\<close>

datatype setup_type = Setup_TREND | Setup_SWEEP | Setup_RANGE | Setup_NONE
datatype direction = LONG | SHORT
datatype decision_status = VALID | NO_SETUP | AMBIGUOUS | BLOCKED

fun setup_type_value :: "setup_type \<Rightarrow> string" where
  "setup_type_value Setup_TREND = ''TREND''"
| "setup_type_value Setup_SWEEP = ''SWEEP''"
| "setup_type_value Setup_RANGE = ''RANGE''"
| "setup_type_value Setup_NONE = ''NONE''"

fun direction_value :: "direction \<Rightarrow> string" where
  "direction_value LONG = ''LONG''"
| "direction_value SHORT = ''SHORT''"

record setup_decision =
  d_strategy_id :: string
  d_symbol :: string
  d_reference_session :: string
  d_session_date :: date
  d_regime :: regime
  d_setup_type :: setup_type
  d_status :: decision_status
  d_reason_code :: string
  d_direction :: "direction option"
  d_signal_timestamp :: "datetime option"
  d_entry_reference :: "rat option"
  d_stop_reference :: "rat option"
  d_target_reference :: "rat option"
  d_risk_distance :: "rat option"
  d_evidence :: "(string \<times> json) list"
  d_contract_status :: string
  d_canonical_session_version :: string
  d_classifier_id :: string
  d_classifier_version :: string
  d_setup_version :: string

text \<open>A decision with the dataclass defaults for every field not given.\<close>

definition mk_decision ::
  "string \<Rightarrow> string \<Rightarrow> string \<Rightarrow> date \<Rightarrow> regime \<Rightarrow> setup_type \<Rightarrow> decision_status \<Rightarrow> string \<Rightarrow> setup_decision" where
  "mk_decision strategy_id symbol session day rg st status reason =
     \<lparr>d_strategy_id = strategy_id, d_symbol = symbol, d_reference_session = session,
      d_session_date = day, d_regime = rg, d_setup_type = st, d_status = status,
      d_reason_code = reason, d_direction = None, d_signal_timestamp = None,
      d_entry_reference = None, d_stop_reference = None, d_target_reference = None,
      d_risk_distance = None, d_evidence = [],
      d_contract_status = ''RESEARCH_CANDIDATE_NOT_EXECUTION_AUTHORITY'',
      d_canonical_session_version = ''CANONICAL_SESSION_WINDOWS_V1'',
      d_classifier_id = ''ER_ONLY_V2'', d_classifier_version = ''1.0'',
      d_setup_version = ''SESSION_ROUTER_SETUPS_V1''\<rparr>"

definition no_setup ::
  "string \<Rightarrow> string \<Rightarrow> string \<Rightarrow> date \<Rightarrow> regime \<Rightarrow> string \<Rightarrow> setup_decision" where
  "no_setup strategy_id symbol session day rg reason =
     mk_decision strategy_id symbol session day rg Setup_NONE NO_SETUP reason"

definition entry_1_trend :: "string \<Rightarrow> string \<Rightarrow> reference_box \<Rightarrow> date \<Rightarrow> setup_decision" where
  "entry_1_trend strategy_id symbol box day =
     (if session_close box = session_open box
      then no_setup strategy_id symbol (session_name box) day Regime_TREND ''BOX_DIRECTION_V1_FLAT_NO_TRADE''
      else
        let dir = (if session_open box < session_close box then LONG else SHORT);
            stop = (if dir = LONG then session_low box else session_high box)
        in (mk_decision strategy_id symbol (session_name box) day Regime_TREND Setup_TREND VALID
              ''BOX_DIRECTION_V1'')
             \<lparr>d_direction := Some dir, d_signal_timestamp := None,
              d_entry_reference := Some (session_mid box), d_stop_reference := Some stop,
              d_target_reference := None,
              d_risk_distance := Some \<bar>fsub (session_mid box) stop\<bar>,
              d_evidence := [(''session_open'', JFloat (session_open box)),
                             (''session_close'', JFloat (session_close box)),
                             (''session_mid'', JFloat (session_mid box)),
                             (''efficiency_ratio'', JFloat (efficiency_ratio box))]\<rparr>)"


text \<open>Entry 2: the first bar that strictly penetrates one side of the box and closes back inside.\<close>

definition upper_swept :: "reference_box \<Rightarrow> candle \<Rightarrow> bool" where
  [detector_defs]: "upper_swept box c \<longleftrightarrow> session_high box < c_high c \<and> c_close c < session_high box"

definition lower_swept :: "reference_box \<Rightarrow> candle \<Rightarrow> bool" where
  [detector_defs]: "lower_swept box c \<longleftrightarrow> c_low c < session_low box \<and> session_low box < c_close c"

fun entry_2_sweep ::
  "string \<Rightarrow> string \<Rightarrow> reference_box \<Rightarrow> date \<Rightarrow> candle list \<Rightarrow> setup_decision" where
  "entry_2_sweep strategy_id symbol box day [] =
     no_setup strategy_id symbol (session_name box) day Regime_RANGE ''NO_QUALIFIED_SWEEP_IN_WINDOW''"
| "entry_2_sweep strategy_id symbol box day (c # cs) =
     (if upper_swept box c \<and> lower_swept box c then
        (mk_decision strategy_id symbol (session_name box) day Regime_RANGE Setup_SWEEP AMBIGUOUS
           ''AMBIGUOUS_DUAL_SWEEP'')
          \<lparr>d_signal_timestamp := Some (c_time c),
           d_evidence := [(''candle_high'', JFloat (c_high c)), (''candle_low'', JFloat (c_low c)),
                          (''candle_close'', JFloat (c_close c))]\<rparr>
      else if upper_swept box c then
        (mk_decision strategy_id symbol (session_name box) day Regime_RANGE Setup_SWEEP VALID
           ''UPPER_SWEEP_STRICT_PENETRATION'')
          \<lparr>d_direction := Some SHORT, d_signal_timestamp := Some (c_time c),
           d_entry_reference := Some (max (c_open c) (c_close c)), d_stop_reference := Some (c_high c),
           d_target_reference := None,
           d_risk_distance := Some (fsub (c_high c) (max (c_open c) (c_close c))),
           d_evidence := [(''session_high'', JFloat (session_high box)),
                          (''candle_high'', JFloat (c_high c)), (''candle_close'', JFloat (c_close c))]\<rparr>
      else if lower_swept box c then
        (mk_decision strategy_id symbol (session_name box) day Regime_RANGE Setup_SWEEP VALID
           ''LOWER_SWEEP_STRICT_PENETRATION'')
          \<lparr>d_direction := Some LONG, d_signal_timestamp := Some (c_time c),
           d_entry_reference := Some (min (c_open c) (c_close c)), d_stop_reference := Some (c_low c),
           d_target_reference := None,
           d_risk_distance := Some (fsub (min (c_open c) (c_close c)) (c_low c)),
           d_evidence := [(''session_low'', JFloat (session_low box)),
                          (''candle_low'', JFloat (c_low c)), (''candle_close'', JFloat (c_close c))]\<rparr>
      else entry_2_sweep strategy_id symbol box day cs)"

text \<open>Entry 3: boundary touch and a directional close back inside.\<close>

definition upper_rejection :: "reference_box \<Rightarrow> candle \<Rightarrow> bool" where
  [detector_defs]: "upper_rejection box c \<longleftrightarrow>
     session_high box \<le> c_high c \<and> c_close c < session_high box \<and> c_close c < c_open c"

definition lower_rejection :: "reference_box \<Rightarrow> candle \<Rightarrow> bool" where
  [detector_defs]: "lower_rejection box c \<longleftrightarrow>
     c_low c \<le> session_low box \<and> session_low box < c_close c \<and> c_open c < c_close c"

fun entry_3_range ::
  "string \<Rightarrow> string \<Rightarrow> reference_box \<Rightarrow> date \<Rightarrow> candle list \<Rightarrow> setup_decision" where
  "entry_3_range strategy_id symbol box day [] =
     no_setup strategy_id symbol (session_name box) day Regime_RANGE ''NO_SETUP_BY_WINDOW_END''"
| "entry_3_range strategy_id symbol box day (c # cs) =
     (if upper_rejection box c then
        (mk_decision strategy_id symbol (session_name box) day Regime_RANGE Setup_RANGE VALID
           ''UPPER_BOUNDARY_REJECTION'')
          \<lparr>d_direction := Some SHORT, d_signal_timestamp := Some (c_time c),
           d_entry_reference := Some (session_high box), d_stop_reference := Some (c_high c),
           d_target_reference := Some (session_mid box),
           d_risk_distance := Some (fsub (c_high c) (session_high box)),
           d_evidence := [(''session_high'', JFloat (session_high box)),
                          (''candle_high'', JFloat (c_high c)), (''candle_close'', JFloat (c_close c))]\<rparr>
      else if lower_rejection box c then
        (mk_decision strategy_id symbol (session_name box) day Regime_RANGE Setup_RANGE VALID
           ''LOWER_BOUNDARY_REJECTION'')
          \<lparr>d_direction := Some LONG, d_signal_timestamp := Some (c_time c),
           d_entry_reference := Some (session_low box), d_stop_reference := Some (c_low c),
           d_target_reference := Some (session_mid box),
           d_risk_distance := Some (fsub (session_low box) (c_low c)),
           d_evidence := [(''session_low'', JFloat (session_low box)),
                          (''candle_low'', JFloat (c_low c)), (''candle_close'', JFloat (c_close c))]\<rparr>
      else entry_3_range strategy_id symbol box day cs)"

section \<open>The router\<close>

definition route_completed_session ::
  "string \<Rightarrow> string \<Rightarrow> string \<Rightarrow> date \<Rightarrow> candle list \<Rightarrow> int \<Rightarrow> candle list \<Rightarrow> regime option
   \<Rightarrow> (reference_box \<times> regime \<times> setup_decision) res" where
  "route_completed_session strategy_id symbol session day session_candles expected post regime_override =
     res_bind (build_reference_box session session_candles expected) (\<lambda>box.
       if \<not> session_complete box
       then Inl (ValueError ''route_completed_session requires a completed box'')
       else
         let rg = (case regime_override of Some r \<Rightarrow> r | None \<Rightarrow> classify box);
             decision =
               (if rg = Regime_TREND then entry_1_trend strategy_id symbol box day
                else let d2 = entry_2_sweep strategy_id symbol box day post
                     in if d_status d2 = NO_SETUP then entry_3_range strategy_id symbol box day post
                        else d2)
         in Inr (box, rg, decision))"

section \<open>Lemmas on the reference box\<close>

lemma fold_max_high: "fold (\<lambda>x m. max m (c_high x)) cs a = Max (insert a (c_high ` set cs))"
proof (induction cs arbitrary: a)
  case (Cons c cs)
  then show ?case
    by (cases "cs = []") (simp_all add: max.commute max.left_commute max.assoc insert_commute)
qed simp

lemma fold_min_low: "fold (\<lambda>x m. min m (c_low x)) cs a = Min (insert a (c_low ` set cs))"
proof (induction cs arbitrary: a)
  case (Cons c cs)
  then show ?case
    by (cases "cs = []") (simp_all add: min.commute min.left_commute min.assoc insert_commute)
qed simp

text \<open>A candle as a feed delivers it: four floats with the open and the close inside the range.\<close>

definition wf_candle :: "candle \<Rightarrow> bool" where
  "wf_candle c \<longleftrightarrow> is_float (c_open c) \<and> is_float (c_high c) \<and> is_float (c_low c) \<and> is_float (c_close c) \<and>
     c_low c \<le> c_open c \<and> c_open c \<le> c_high c \<and> c_low c \<le> c_close c \<and> c_close c \<le> c_high c"

definition wf_box :: "reference_box \<Rightarrow> bool" where
  "wf_box b \<longleftrightarrow> is_float (session_high b) \<and> is_float (session_low b) \<and>
     session_low b \<le> session_mid b \<and> session_mid b \<le> session_high b \<and>
     session_low b \<le> session_open b \<and> session_open b \<le> session_high b \<and>
     session_low b \<le> session_close b \<and> session_close b \<le> session_high b \<and>
     0 \<le> efficiency_ratio b \<and> 0 \<le> path_length b"

lemma build_reference_box_high:
  assumes "build_reference_box name cs n = Inr b"
  shows "session_high b = Max (c_high ` set cs)" "session_low b = Min (c_low ` set cs)"
    "session_open b = c_open (hd cs)" "session_close b = c_close (last cs)" "cs \<noteq> []"
    "session_mid b = fquot (fadd (session_high b) (session_low b)) 2"
    "session_complete b \<longleftrightarrow> n \<le> int (length cs)"
  using assms
  by (auto simp: build_reference_box_def max_high_def min_low_def fold_max_high fold_min_low Let_def
      split: list.splits)

lemma close_path_nonneg: "0 \<le> acc \<Longrightarrow> 0 \<le> close_path acc cs"
  by (induction acc cs rule: close_path.induct) simp_all


lemma build_reference_box_wf:
  assumes box: "build_reference_box name cs n = Inr b" and wf: "\<forall>c \<in> set cs. wf_candle c"
  shows "wf_box b"
proof -
  note b = build_reference_box_high [OF box]
  have ne: "cs \<noteq> []" by (rule b(5))
  have mem: "hd cs \<in> set cs" "last cs \<in> set cs" using ne by simp_all
  have hi: "c_high c \<le> session_high b" if "c \<in> set cs" for c using that b(1) by simp
  have lo: "session_low b \<le> c_low c" if "c \<in> set cs" for c using that b(2) by simp
  obtain ch where ch: "ch \<in> set cs" "session_high b = c_high ch"
    using Max_in [of "c_high ` set cs"] ne b(1) by fastforce
  obtain cl where cl: "cl \<in> set cs" "session_low b = c_low cl"
    using Min_in [of "c_low ` set cs"] ne b(2) by fastforce
  have fl: "fl (session_high b) = session_high b" "fl (session_low b) = session_low b"
    using ch cl wf by (auto simp: wf_candle_def is_float_def)
  have op: "session_low b \<le> session_open b" "session_open b \<le> session_high b"
    using hi [OF mem(1)] lo [OF mem(1)] mem(1) wf b(3) by (auto simp: wf_candle_def)
  have cl': "session_low b \<le> session_close b" "session_close b \<le> session_high b"
    using hi [OF mem(2)] lo [OF mem(2)] mem(2) wf b(4) by (auto simp: wf_candle_def)
  have "session_low b \<le> session_high b" using op by linarith
  note mid = b64.rnd_midpoint [OF fl(2,1) this]
  have pos: "0 \<le> path_length b" "0 \<le> efficiency_ratio b"
    using box by (auto simp: build_reference_box_def Let_def close_path_nonneg split: list.splits)
  show ?thesis using fl op cl' mid pos b(6) by (simp add: wf_box_def is_float_def)
qed

section \<open>The detectors as first-hit scans\<close>

definition status_hit :: "(candle list \<Rightarrow> setup_decision) \<Rightarrow> candle \<Rightarrow> setup_decision option" where
  "status_hit det c = (let d = det [c] in if d_status d = NO_SETUP then None else Some d)"

lemma status_mk_decision [simp]:
  "d_status (mk_decision a b c d rg st status reason) = status"
  "d_status (no_setup a b c d rg reason) = NO_SETUP"
  by (simp_all add: mk_decision_def no_setup_def)

interpretation e2: first_hit "entry_2_sweep sid sy box day" "status_hit (entry_2_sweep sid sy box day)"
    "no_setup sid sy (session_name box) day Regime_RANGE ''NO_QUALIFIED_SWEEP_IN_WINDOW''"
  for sid sy box day
  by unfold_locales (auto simp: status_hit_def Let_def)

interpretation e3: first_hit "entry_3_range sid sy box day" "status_hit (entry_3_range sid sy box day)"
    "no_setup sid sy (session_name box) day Regime_RANGE ''NO_SETUP_BY_WINDOW_END''"
  for sid sy box day
  by unfold_locales (auto simp: status_hit_def Let_def)

lemma e2_hit_iff:
  "status_hit (entry_2_sweep sid sy box day) c \<noteq> None \<longleftrightarrow> upper_swept box c \<or> lower_swept box c"
  by (simp add: status_hit_def Let_def)

lemma e3_hit_iff:
  "status_hit (entry_3_range sid sy box day) c \<noteq> None \<longleftrightarrow> upper_rejection box c \<or> lower_rejection box c"
  by (simp add: status_hit_def Let_def)

lemma entry_2_no_setup_iff:
  "d_status (entry_2_sweep sid sy box day cs) = NO_SETUP \<longleftrightarrow>
   (\<forall>c \<in> set cs. \<not> upper_swept box c \<and> \<not> lower_swept box c)"
  by (induction cs) (auto simp: Let_def)

lemma entry_3_no_setup_iff:
  "d_status (entry_3_range sid sy box day cs) = NO_SETUP \<longleftrightarrow>
   (\<forall>c \<in> set cs. \<not> upper_rejection box c \<and> \<not> lower_rejection box c)"
  by (induction cs) auto

text \<open>What a VALID decision of any detector says about its trade levels.\<close>

definition levels_ok :: "setup_decision \<Rightarrow> bool" where
  "levels_ok d \<longleftrightarrow>
     (case (d_direction d, d_entry_reference d, d_stop_reference d, d_risk_distance d) of
        (Some LONG, Some e, Some s, Some r) \<Rightarrow> s \<le> e \<and> r = fsub e s
      | (Some SHORT, Some e, Some s, Some r) \<Rightarrow> e \<le> s \<and> r = fsub s e
      | _ \<Rightarrow> False)"

lemma entry_1_levels:
  assumes "wf_box box" "d_status (entry_1_trend sid sy box day) = VALID"
  shows "levels_ok (entry_1_trend sid sy box day)"
  using assms
  by (auto simp: entry_1_trend_def levels_ok_def mk_decision_def wf_box_def Let_def abs_if no_setup_def
      fl_minus [symmetric] split: if_splits)

lemma entry_2_levels:
  assumes "\<forall>c \<in> set cs. wf_candle c" "d_status (entry_2_sweep sid sy box day cs) = VALID"
  shows "levels_ok (entry_2_sweep sid sy box day cs)"
  using assms
  by (induction cs) (auto simp: levels_ok_def mk_decision_def wf_candle_def no_setup_def split: if_splits)

lemma entry_3_levels:
  assumes "d_status (entry_3_range sid sy box day cs) = VALID"
  shows "levels_ok (entry_3_range sid sy box day cs)"
  using assms
  by (induction cs)
    (auto simp: levels_ok_def mk_decision_def no_setup_def upper_rejection_def lower_rejection_def split: if_splits)

lemmas entry_levels = entry_1_levels entry_2_levels entry_3_levels

lemma levels_okD:
  assumes "levels_ok d"
  shows "\<exists>e s. d_entry_reference d = Some e \<and> d_stop_reference d = Some s \<and>
     (d_direction d = Some LONG \<and> s \<le> e \<and> d_risk_distance d = Some (fsub e s) \<or>
      d_direction d = Some SHORT \<and> e \<le> s \<and> d_risk_distance d = Some (fsub s e))"
proof -
  obtain dir where dir: "d_direction d = Some dir"
    using assms by (auto simp: levels_ok_def split: option.splits)
  obtain e s r where "d_entry_reference d = Some e" "d_stop_reference d = Some s" "d_risk_distance d = Some r"
    using assms dir by (cases dir; cases "d_entry_reference d"; cases "d_stop_reference d";
        cases "d_risk_distance d") (auto simp: levels_ok_def)
  then show ?thesis using assms dir by (cases dir) (auto simp: levels_ok_def)
qed

lemma levels_ok_risk: "levels_ok d \<Longrightarrow> \<exists>r. d_risk_distance d = Some r \<and> 0 \<le> r"
  using levels_okD [of d] by auto


section \<open>Properties\<close>

text \<open>The reference box built from well-formed bars is well formed in binary64 arithmetic: its open,
  close and computed midpoint lie between its low and its high, and its path length and efficiency
  ratio are not negative.\<close>

theorem reference_box_wf:
  assumes "build_reference_box name cs n = Inr b" "\<forall>c \<in> set cs. wf_candle c"
  shows "wf_box b \<and> session_high b = Max (c_high ` set cs) \<and> session_low b = Min (c_low ` set cs)"
  using build_reference_box_wf [OF assms] build_reference_box_high [OF assms(1)] by simp

theorem reference_box_wf_witness:
  "\<exists>b. build_reference_box ''Asian'' [bar 0 6 10 5 7, bar 1 7 9 5 6] 2 = Inr b \<and> wf_box b"
proof -
  obtain b where b: "build_reference_box ''Asian'' [bar 0 6 10 5 7, bar 1 7 9 5 6] 2 = Inr b"
    by (simp add: build_reference_box_def Let_def)
  have "\<forall>c \<in> set [bar 0 6 10 5 7, bar 1 7 9 5 6]. wf_candle c" by code_simp
  from reference_box_wf [OF b this] b show ?thesis by blast
qed

end
