(* ===== verification/Session_Engine.thy ===== *)
theory Session_Engine
  imports Session_Box
begin

text \<open>
  The strategy engine's entry points: the typed strategy configuration and signal
  (src/src/strategy\_engine/models.py), the frozen \<open>evaluate\<close> (engine.py) and the append-only
  routing of version 1.1.3 (append\_only.py), which emits no candidate without positive risk and
  never rewrites an earlier emission.
\<close>

section \<open>Configuration and signal\<close>

record session_window =
  w_name :: string
  w_start_time_gmt :: string
  w_end_time_gmt :: string

record session_pair =
  pair_id :: string
  reference_session :: session_window
  trade_session :: session_window
  max_entries_per_session :: int

record risk_config =
  risk_mode :: string
  stop_loss_mode :: string
  stop_loss_range_pct :: "rat option"
  max_spread_allowed_pips :: rat
  slippage_limit_points :: int

record target_leg =
  leg_id :: int
  volume_pct :: rat
  target_type :: string
  action_on_fill :: "string option"
  fixed_r_multiple :: "rat option"
  trailing_rule :: "string option"

record strategy_config =
  strategy_id :: string
  strategy_name :: string
  strategy_family :: string
  version :: string
  strategy_status :: string
  instruments :: "string list"
  timeframe :: string
  magic_number :: int
  session_pairs :: "session_pair list"
  risk :: risk_config
  entry_order_type :: string
  total_target_r :: rat
  legs :: "target_leg list"
  max_range_pips_eurusd :: "rat option"
  time_invalidation :: string
  structural_invalidation :: string
  source_path :: string

record trade_signal =
  signal_id :: string
  t_strategy_id :: string
  t_strategy_version :: string
  t_symbol :: string
  t_pair_id :: string
  t_reference_session :: string
  t_session_date :: date
  t_box_high :: rat
  t_box_low :: rat
  t_box_mid :: rat
  t_regime :: string
  t_setup :: string
  t_status :: string
  t_reason_code :: string
  t_direction :: "string option"
  t_entry :: "rat option"
  t_stop_loss :: "rat option"
  t_risk_distance :: "rat option"
  t_signal_timestamp :: "datetime option"

definition find_pair :: "strategy_config \<Rightarrow> string \<Rightarrow> session_pair option" where
  "find_pair strategy pid = find (\<lambda>p. pair_id p = pid) (session_pairs strategy)"

text \<open>The signal built from a box, a regime and a decision; only the id differs between the engines.\<close>

definition mk_signal ::
  "strategy_config \<Rightarrow> session_pair \<Rightarrow> string \<Rightarrow> date \<Rightarrow> reference_box \<Rightarrow> regime \<Rightarrow> setup_decision \<Rightarrow> string
   \<Rightarrow> trade_signal" where
  "mk_signal strategy pair symbol day box rg decision sid =
     \<lparr>signal_id = sid, t_strategy_id = strategy_id strategy, t_strategy_version = version strategy,
      t_symbol = symbol, t_pair_id = pair_id pair,
      t_reference_session = w_name (reference_session pair), t_session_date = day,
      t_box_high = session_high box, t_box_low = session_low box, t_box_mid = session_mid box,
      t_regime = regime_value rg, t_setup = setup_type_value (d_setup_type decision),
      t_status = (if d_status decision = VALID then ''SIGNAL'' else ''NO_TRADE''),
      t_reason_code = d_reason_code decision,
      t_direction = map_option direction_value (d_direction decision),
      t_entry = d_entry_reference decision, t_stop_loss = d_stop_reference decision,
      t_risk_distance = d_risk_distance decision,
      t_signal_timestamp = d_signal_timestamp decision\<rparr>"

definition base_signal_id :: "strategy_config \<Rightarrow> session_pair \<Rightarrow> string \<Rightarrow> date \<Rightarrow> string" where
  "base_signal_id strategy pair symbol day =
     strategy_id strategy @ '':'' @ pair_id pair @ '':'' @ symbol @ '':'' @ iso_date day"

section \<open>The frozen engine\<close>

definition evaluate ::
  "strategy_config \<Rightarrow> string \<Rightarrow> string \<Rightarrow> date \<Rightarrow> candle list \<Rightarrow> int \<Rightarrow> candle list \<Rightarrow> regime option
   \<Rightarrow> trade_signal res" where
  "evaluate strategy pid symbol day session_candles expected post regime_override =
     (if symbol \<notin> set (instruments strategy)
      then Inl (ValueError ''symbol is not in the strategy's instruments'')
      else case find_pair strategy pid of
        None \<Rightarrow> Inl (ValueError ''unknown pair_id'')
      | Some pair \<Rightarrow>
          res_bind (route_completed_session (strategy_id strategy) symbol (w_name (reference_session pair))
              day session_candles expected post regime_override)
            (\<lambda>(box, rg, decision).
               Inr (mk_signal strategy pair symbol day box rg decision
                      (base_signal_id strategy pair symbol day))))"

section \<open>Append-only routing\<close>

definition APPEND_ONLY_VERSIONS :: "(string \<times> string) list" where
  "APPEND_ONLY_VERSIONS = [(''ST_ASIAN_SWEEP_5R_V1'', ''1.1.3'')]"

definition uses_append_only :: "strategy_config \<Rightarrow> bool" where
  "uses_append_only strategy \<longleftrightarrow> (strategy_id strategy, version strategy) \<in> set APPEND_ONLY_VERSIONS"

definition non_positive :: "setup_decision \<Rightarrow> bool" where
  "non_positive d \<longleftrightarrow> d_status d = VALID \<and>
     (case d_risk_distance d of None \<Rightarrow> True | Some r \<Rightarrow> r \<le> 0)"

definition rejected :: "setup_decision \<Rightarrow> setup_decision" where
  "rejected d =
     d\<lparr>d_setup_type := Setup_NONE, d_status := NO_SETUP, d_reason_code := ''NON_POSITIVE_RISK_DISTANCE'',
       d_direction := None, d_entry_reference := None, d_stop_reference := None,
       d_target_reference := None, d_risk_distance := None,
       d_evidence :=
         dput ''rejected_risk_distance'' (case d_risk_distance d of None \<Rightarrow> JNull | Some r \<Rightarrow> JFloat r)
           (dput ''rejected_reason_code'' (JStr (d_reason_code d)) (d_evidence d))\<rparr>"

text \<open>The first loop of \<open>emission_stream\<close>: \<open>seen\<close> maps opening times to bars, \<open>prev\<close> is the last time.\<close>

fun check_bars :: "(datetime \<times> candle) list \<Rightarrow> datetime option \<Rightarrow> candle list \<Rightarrow> unit res" where
  "check_bars seen prev [] = Inr ()"
| "check_bars seen prev (c # cs) =
     (if (case prev of Some p \<Rightarrow> c_time c < p | None \<Rightarrow> False)
      then Inl (ValueError ''post-session candles must be chronological'')
      else case map_of seen (c_time c) of
        Some prior \<Rightarrow>
          (if prior \<noteq> c then Inl (ValueError (''conflicting candles share timestamp '' @ iso_datetime (c_time c)))
           else Inl (ValueError (''duplicate candle timestamp '' @ iso_datetime (c_time c))))
      | None \<Rightarrow> check_bars ((c_time c, c) # seen) (Some (c_time c)) cs)"

text \<open>One bar against the detectors in order: the emission, if any, and the rejected candidates.\<close>

fun detect_bar ::
  "(candle list \<Rightarrow> setup_decision) list \<Rightarrow> candle \<Rightarrow> setup_decision option \<times> setup_decision list" where
  "detect_bar [] c = (None, [])"
| "detect_bar (detect # rest) c =
     (let cand = detect [c]
      in if d_status cand = NO_SETUP then detect_bar rest c
         else if non_positive cand
         then (case detect_bar rest c of (e, rs) \<Rightarrow> (e, rejected cand # rs))
         else (Some cand, []))"

fun emission_loop ::
  "(candle list \<Rightarrow> setup_decision) list \<Rightarrow> candle list \<Rightarrow> setup_decision list \<times> setup_decision list" where
  "emission_loop ds [] = ([], [])"
| "emission_loop ds (c # cs) =
     (case (detect_bar ds c, emission_loop ds cs) of
        ((e, r), (es, rs)) \<Rightarrow> (case_option es (\<lambda>d. d # es) e, r @ rs))"

definition emission_stream ::
  "string \<Rightarrow> string \<Rightarrow> reference_box \<Rightarrow> regime \<Rightarrow> date \<Rightarrow> candle list
   \<Rightarrow> (setup_decision list \<times> setup_decision list) res" where
  "emission_stream sid symbol box rg day post =
     res_bind (check_bars [] None post) (\<lambda>_.
       if rg = Regime_TREND then
         let decision = entry_1_trend sid symbol box day
         in if non_positive decision then Inr ([], [rejected decision])
            else Inr (if d_status decision = VALID then [decision] else [], [])
       else Inr (emission_loop [entry_2_sweep sid symbol box day, entry_3_range sid symbol box day] post))"

definition route_append_only ::
  "string \<Rightarrow> string \<Rightarrow> string \<Rightarrow> date \<Rightarrow> candle list \<Rightarrow> int \<Rightarrow> candle list \<Rightarrow> regime option
   \<Rightarrow> (reference_box \<times> regime \<times> setup_decision) res" where
  "route_append_only sid symbol session day session_candles expected post regime_override =
     res_bind (build_reference_box session session_candles expected) (\<lambda>box.
       if \<not> session_complete box
       then Inl (ValueError ''route_append_only requires a completed box'')
       else
         let rg = (case regime_override of Some r \<Rightarrow> r | None \<Rightarrow> classify box)
         in res_bind (emission_stream sid symbol box rg day post) (\<lambda>(emissions, rejects).
              Inr (box, rg,
                (case emissions of
                   d # _ \<Rightarrow> d
                 | [] \<Rightarrow>
                    (case rejects of
                       d # _ \<Rightarrow> d
                     | [] \<Rightarrow>
                        (if rg = Regime_TREND then entry_1_trend sid symbol box day
                         else entry_3_range sid symbol box day []))))))"

definition evaluate_append_only ::
  "strategy_config \<Rightarrow> string \<Rightarrow> string \<Rightarrow> date \<Rightarrow> candle list \<Rightarrow> int \<Rightarrow> candle list \<Rightarrow> regime option
   \<Rightarrow> trade_signal res" where
  "evaluate_append_only strategy pid symbol day session_candles expected post regime_override =
     (if symbol \<notin> set (instruments strategy)
      then Inl (ValueError ''symbol is not in the strategy's instruments'')
      else case find_pair strategy pid of
        None \<Rightarrow> Inl (ValueError ''unknown pair_id'')
      | Some pair \<Rightarrow>
          res_bind (route_append_only (strategy_id strategy) symbol (w_name (reference_session pair))
              day session_candles expected post regime_override)
            (\<lambda>(box, rg, decision).
               Inr (mk_signal strategy pair symbol day box rg decision
                 (case d_signal_timestamp decision of
                    Some t \<Rightarrow> base_signal_id strategy pair symbol day @ '':'' @ iso_datetime t
                  | None \<Rightarrow> base_signal_id strategy pair symbol day))))"

text \<open>The evaluator a ticket builder must use for this strategy version.\<close>

definition evaluate_for ::
  "strategy_config \<Rightarrow> strategy_config \<Rightarrow> string \<Rightarrow> string \<Rightarrow> date \<Rightarrow> candle list \<Rightarrow> int \<Rightarrow> candle list
   \<Rightarrow> regime option \<Rightarrow> trade_signal res" where
  "evaluate_for strategy = (if uses_append_only strategy then evaluate_append_only else evaluate)"

section \<open>Lemmas\<close>

lemma check_bars_iff:
  assumes "\<forall>t \<in> set (map fst seen). \<exists>p. prev = Some p \<and> t \<le> p"
    and "\<And>p. prev = Some p \<Longrightarrow> p \<in> set (map fst seen)"
  shows "check_bars seen prev cs = Inr () \<longleftrightarrow>
    strictly_increasing (map c_time cs) \<and> (\<forall>p. prev = Some p \<longrightarrow> (\<forall>c \<in> set cs. p < c_time c))"
  using assms
proof (induction seen prev cs rule: check_bars.induct)
  case (1 seen prev)
  then show ?case by (simp add: strictly_increasing_def)
next
  case (2 seen prev c cs)
  let ?t = "c_time c"
  show ?case
  proof (cases "\<exists>p. prev = Some p \<and> ?t \<le> p")
    case True
    then obtain p where p: "prev = Some p" "?t \<le> p" by blast
    have "check_bars seen prev (c # cs) \<noteq> Inr ()"
    proof (cases "?t = p")
      case True
      then obtain prior where "map_of seen ?t = Some prior"
        using 2(3) [OF p(1)] by (metis list.set_map map_of_eq_None_iff not_Some_eq)
      then show ?thesis by (auto split: option.splits)
    qed (use p in auto)
    then show ?thesis using p by auto
  next
    case False
    then have none: "map_of seen ?t = None" using 2(2) by (auto simp: map_of_eq_None_iff)
    have lt: "\<not> (case prev of Some p \<Rightarrow> ?t < p | None \<Rightarrow> False)" using False by (auto split: option.splits)
    have seen: "\<forall>t \<in> set (map fst ((?t, c) # seen)). \<exists>p. Some ?t = Some p \<and> t \<le> p"
      using False 2(2) by fastforce
    have "check_bars ((?t, c) # seen) (Some ?t) cs = Inr () \<longleftrightarrow>
        strictly_increasing (map c_time cs) \<and> (\<forall>p. Some ?t = Some p \<longrightarrow> (\<forall>c \<in> set cs. p < c_time c))"
      using lt none seen by (intro 2(1)) auto
    then show ?thesis using lt none False
      by (auto simp: strictly_increasing_def not_le intro: less_trans)
  qed
qed


text \<open>The stream accepts exactly the bar sequences whose opening times strictly increase.\<close>

lemma check_bars_ok: "check_bars [] None cs = Inr () \<longleftrightarrow> strictly_increasing (map c_time cs)"
  using check_bars_iff [of "[]" None cs] by simp

lemma emission_stream_ok_iff:
  "(\<exists>r. emission_stream sid sy box rg day cs = Inr r) \<longleftrightarrow> strictly_increasing (map c_time cs)"
proof -
  have "(\<exists>r. emission_stream sid sy box rg day cs = Inr r) \<longleftrightarrow> check_bars [] None cs = Inr ()"
    by (cases "check_bars [] None cs") (auto simp: emission_stream_def Let_def)
  then show ?thesis by (simp add: check_bars_ok)
qed

lemma emission_loop_append:
  "emission_loop ds (xs @ ys) =
     (fst (emission_loop ds xs) @ fst (emission_loop ds ys), snd (emission_loop ds xs) @ snd (emission_loop ds ys))"
  by (induction xs) (auto split: prod.splits option.splits)

text \<open>Every emission passed the risk test, every reject was turned into NO\_SETUP.\<close>

definition emission_ok :: "setup_decision \<Rightarrow> bool" where
  "emission_ok d \<longleftrightarrow> d_status d \<noteq> NO_SETUP \<and> \<not> non_positive d"

lemma emission_ok_risk:
  "emission_ok d \<Longrightarrow> d_status d = VALID \<Longrightarrow> \<exists>r. d_risk_distance d = Some r \<and> 0 < r"
  by (auto simp: emission_ok_def non_positive_def split: option.splits)

lemma detect_bar_ok:
  "detect_bar ds c = (e, rs) \<Longrightarrow> (\<forall>d. e = Some d \<longrightarrow> emission_ok d) \<and> (\<forall>d \<in> set rs. d_status d = NO_SETUP)"
proof (induction ds arbitrary: e rs)
  case (Cons detect rest)
  obtain e' rs' where r: "detect_bar rest c = (e', rs')" by fastforce
  note IH = Cons.IH [OF r]
  have rej: "d_status (rejected d) = NO_SETUP" for d by (simp add: rejected_def)
  show ?case using Cons.prems IH r rej by (auto simp: emission_ok_def Let_def split: if_splits)
qed simp

lemma emission_loop_ok:
  "(\<forall>d \<in> set (fst (emission_loop ds cs)). emission_ok d) \<and>
   (\<forall>d \<in> set (snd (emission_loop ds cs)). d_status d = NO_SETUP)"
  by (induction cs) (fastforce split: prod.splits option.splits dest: detect_bar_ok)+

lemma emission_stream_ok:
  assumes "emission_stream sid sy box rg day cs = Inr (es, rs)"
  shows "\<forall>d \<in> set es. emission_ok d" "\<forall>d \<in> set rs. d_status d = NO_SETUP"
proof -
  have "(\<forall>d \<in> set es. emission_ok d) \<and> (\<forall>d \<in> set rs. d_status d = NO_SETUP)"
  proof (cases rg)
    case Regime_TREND
    then show ?thesis using assms
      by (auto simp: emission_stream_def res_bind_Inr_iff Let_def emission_ok_def rejected_def split: if_splits)
  next
    case Regime_RANGE
    then have "(es, rs) = emission_loop [entry_2_sweep sid sy box day, entry_3_range sid sy box day] cs"
      using assms by (auto simp: emission_stream_def res_bind_Inr_iff)
    then show ?thesis using emission_loop_ok by (metis fst_conv snd_conv)
  qed
  then show "\<forall>d \<in> set es. emission_ok d" "\<forall>d \<in> set rs. d_status d = NO_SETUP" by simp_all
qed

text \<open>Bars appended to the window extend the stream and change nothing before them.\<close>

lemma emission_stream_append:
  assumes "emission_stream sid sy box rg day (xs @ ys) = Inr (es, rs)"
  shows "\<exists>es1 es2 rs1 rs2. emission_stream sid sy box rg day xs = Inr (es1, rs1) \<and> es = es1 @ es2 \<and> rs = rs1 @ rs2"
proof -
  have "strictly_increasing (map c_time xs)"
    using assms emission_stream_ok_iff [of sid sy box rg day "xs @ ys"]
    by (auto simp: strictly_increasing_def sorted_wrt_append)
  then have chk: "check_bars [] None xs = Inr ()" by (simp add: check_bars_ok)
  show ?thesis
  proof (cases rg)
    case Regime_TREND
    then show ?thesis using assms chk by (auto simp: emission_stream_def res_bind_Inr_iff)
  next
    case Regime_RANGE
    let ?loop = "emission_loop [entry_2_sweep sid sy box day, entry_3_range sid sy box day]"
    have "emission_stream sid sy box rg day xs = Inr (fst (?loop xs), snd (?loop xs))"
      using Regime_RANGE chk by (simp add: emission_stream_def)
    moreover have "es = fst (?loop xs) @ fst (?loop ys)" "rs = snd (?loop xs) @ snd (?loop ys)"
      using Regime_RANGE assms by (auto simp: emission_stream_def res_bind_Inr_iff emission_loop_append)
    ultimately show ?thesis by blast
  qed
qed

lemma route_append_only_Inr:
  assumes "route_append_only sid sy session day cs n post ov = Inr (box, rg, d)"
  obtains es rs where "build_reference_box session cs n = Inr box" "session_complete box"
    "rg = (case ov of Some r \<Rightarrow> r | None \<Rightarrow> classify box)"
    "emission_stream sid sy box rg day post = Inr (es, rs)"
    "d = (case es of d # _ \<Rightarrow> d | [] \<Rightarrow> (case rs of d # _ \<Rightarrow> d | [] \<Rightarrow>
           (if rg = Regime_TREND then entry_1_trend sid sy box day else entry_3_range sid sy box day [])))"
  using assms by (auto simp: route_append_only_def res_bind_Inr_iff Let_def split: if_splits)


lemma route_append_only_decided:
  assumes "route_append_only sid sy session day cs n post ov = Inr (box, rg, d)" "d_status d \<noteq> NO_SETUP"
  obtains es rs where "build_reference_box session cs n = Inr box" "session_complete box"
    "rg = (case ov of Some r \<Rightarrow> r | None \<Rightarrow> classify box)"
    "emission_stream sid sy box rg day post = Inr (d # es, rs)"
proof -
  from assms(1) obtain es rs where r: "build_reference_box session cs n = Inr box" "session_complete box"
    "rg = (case ov of Some r \<Rightarrow> r | None \<Rightarrow> classify box)"
    "emission_stream sid sy box rg day post = Inr (es, rs)"
    and d: "d = (case es of d # _ \<Rightarrow> d | [] \<Rightarrow> (case rs of d # _ \<Rightarrow> d | [] \<Rightarrow>
           (if rg = Regime_TREND then entry_1_trend sid sy box day else entry_3_range sid sy box day [])))"
    by (rule route_append_only_Inr)
  show ?thesis
  proof (cases es)
    case (Cons e es')
    then show ?thesis using that r d by simp
  next
    case Nil
    have rs: "rs = []" using emission_stream_ok(2) [OF r(4)] d Nil assms(2) by (cases rs) auto
    have "rg = Regime_TREND" using d Nil rs assms(2) by (auto split: if_splits)
    moreover have "d_status (entry_1_trend sid sy box day) \<in> {VALID, NO_SETUP}"
      by (simp add: entry_1_trend_def Let_def)
    ultimately have False using d Nil rs assms(2) r(4)
      by (auto simp: emission_stream_def res_bind_Inr_iff Let_def split: if_splits)
    then show ?thesis ..
  qed
qed

lemma detect_bar_source:
  "detect_bar ds c = (Some d, rs) \<Longrightarrow> \<exists>det \<in> set ds. d = det [c]"
  by (induction ds arbitrary: rs) (auto simp: Let_def split: if_splits prod.splits)

lemma emission_loop_source:
  "d \<in> set (fst (emission_loop ds cs)) \<Longrightarrow> \<exists>det \<in> set ds. \<exists>c \<in> set cs. d = det [c]"
  by (induction cs) (fastforce split: prod.splits option.splits dest: detect_bar_source)+

lemma emission_levels:
  assumes s: "emission_stream sid sy box rg day post = Inr (es, rs)" and d: "d \<in> set es" "d_status d = VALID"
    and wf: "wf_box box" "\<forall>c \<in> set post. wf_candle c"
  shows "levels_ok d"
proof (cases rg)
  case Regime_TREND
  then have "d = entry_1_trend sid sy box day" using s d
    by (auto simp: emission_stream_def res_bind_Inr_iff Let_def split: if_splits)
  then show ?thesis using d wf entry_1_levels by blast
next
  case Regime_RANGE
  then have es: "es = fst (emission_loop [entry_2_sweep sid sy box day, entry_3_range sid sy box day] post)"
    using s by (auto simp: emission_stream_def res_bind_Inr_iff)
  obtain det c where "det \<in> set [entry_2_sweep sid sy box day, entry_3_range sid sy box day]"
    and det': "c \<in> set post" "d = det [c]" using emission_loop_source [OF d(1) [unfolded es]] by blast
  then have det: "det \<in> {entry_2_sweep sid sy box day, entry_3_range sid sy box day}" "c \<in> set post" "d = det [c]"
    by (simp_all only: list.set)
  from det(2) wf(2) have c: "\<forall>c \<in> set [c]. wf_candle c" by simp
  from det(1) show ?thesis
  proof (elim insertE emptyE)
    assume "det = entry_2_sweep sid sy box day"
    then show ?thesis using entry_2_levels [OF c] d(2) unfolding det(3) by blast
  next
    assume "det = entry_3_range sid sy box day"
    then show ?thesis using entry_3_levels d(2) unfolding det(3) by blast
  qed
qed

section \<open>Properties\<close>

text \<open>C26. Every VALID decision of the append-only router, on well-formed bars, carries a
  direction, an entry and a stop with the stop strictly on the losing side of the entry, and a
  strictly positive risk distance equal to the rounded difference of the two levels.\<close>

theorem append_only_positive_risk:
  assumes "route_append_only sid sy session day cs n post ov = Inr (box, rg, d)" "d_status d = VALID"
    and "\<forall>c \<in> set (cs @ post). wf_candle c"
  shows "\<exists>e s r. d_entry_reference d = Some e \<and> d_stop_reference d = Some s \<and> d_risk_distance d = Some r \<and> 0 < r \<and>
    (d_direction d = Some LONG \<and> s < e \<and> r = fsub e s \<or> d_direction d = Some SHORT \<and> e < s \<and> r = fsub s e)"
proof -
  obtain es rs where b: "build_reference_box session cs n = Inr box"
    and s: "emission_stream sid sy box rg day post = Inr (d # es, rs)"
    using route_append_only_decided [OF assms(1)] assms(2) by (metis decision_status.distinct(1))
  have "wf_box box" using build_reference_box_wf [OF b] assms(3) by simp
  then have "levels_ok d" using emission_levels [OF s _ assms(2)] assms(3) by simp
  moreover obtain r where "d_risk_distance d = Some r" "0 < r"
    using emission_ok_risk [OF _ assms(2)] emission_stream_ok(1) [OF s] by auto
  ultimately show ?thesis using levels_okD [of d] by fastforce
qed

text \<open>A completed range session and a sweep bar after it, used by the witnesses.\<close>

definition demo_session :: "candle list" where
  "demo_session = [bar 0 6 10 5 7, bar 1 7 9 5 6]"

definition demo_sweep :: candle where
  "demo_sweep = bar 2 9 12 8 8"

lemma demo_route:
  obtains box rg d where
    "route_append_only ''S'' ''EURUSD'' ''Asian'' 1 demo_session 2 [demo_sweep] None = Inr (box, rg, d)"
    "d_status d = VALID"
proof -
  have "case route_append_only ''S'' ''EURUSD'' ''Asian'' 1 demo_session 2 [demo_sweep] None of
      Inr (box, rg, d) \<Rightarrow> d_status d = VALID | Inl _ \<Rightarrow> False" by code_simp
  then show ?thesis using that by (auto split: sum.splits)
qed

theorem append_only_positive_risk_witness:
  "\<exists>box rg d. route_append_only ''S'' ''EURUSD'' ''Asian'' 1 demo_session 2 [demo_sweep] None = Inr (box, rg, d) \<and>
     d_status d = VALID \<and> (\<exists>r. d_risk_distance d = Some r \<and> 0 < r)"
proof -
  obtain box rg d where r:
    "route_append_only ''S'' ''EURUSD'' ''Asian'' 1 demo_session 2 [demo_sweep] None = Inr (box, rg, d)"
    "d_status d = VALID" by (rule demo_route)
  have "\<forall>c \<in> set (demo_session @ [demo_sweep]). wf_candle c" by code_simp
  from append_only_positive_risk [OF r this] r show ?thesis by blast
qed

text \<open>C25. The append-only router never rewrites a decision: once a window of bars has produced
  a VALID or AMBIGUOUS decision, every chronological extension of the window produces the same box,
  regime and decision.\<close>

theorem append_only_stable:
  assumes "route_append_only sid sy session day cs n xs ov = Inr (box, rg, d)" "d_status d \<noteq> NO_SETUP"
    and "strictly_increasing (map c_time (xs @ ys))"
  shows "route_append_only sid sy session day cs n (xs @ ys) ov = Inr (box, rg, d)"
proof -
  obtain es rs where b: "build_reference_box session cs n = Inr box" "session_complete box"
    and rg: "rg = (case ov of Some r \<Rightarrow> r | None \<Rightarrow> classify box)"
    and s: "emission_stream sid sy box rg day xs = Inr (d # es, rs)"
    using route_append_only_decided [OF assms(1,2)] by metis
  obtain es' rs' where s': "emission_stream sid sy box rg day (xs @ ys) = Inr (es', rs')"
    using emission_stream_ok_iff [of sid sy box rg day "xs @ ys"] assms(3) by auto
  from emission_stream_append [OF s'] s obtain es2 where "es' = (d # es) @ es2" by auto
  then show ?thesis using b rg s' by (simp add: route_append_only_def)
qed

theorem append_only_stable_witness:
  "\<exists>box rg d. d_status d = VALID \<and>
     route_append_only ''S'' ''EURUSD'' ''Asian'' 1 demo_session 2 ([demo_sweep] @ [bar 3 6 7 2 6]) None = Inr (box, rg, d) \<and>
     route_append_only ''S'' ''EURUSD'' ''Asian'' 1 demo_session 2 [demo_sweep] None = Inr (box, rg, d)"
proof -
  obtain box rg d where r:
    "route_append_only ''S'' ''EURUSD'' ''Asian'' 1 demo_session 2 [demo_sweep] None = Inr (box, rg, d)"
    "d_status d = VALID" by (rule demo_route)
  have "strictly_increasing (map c_time ([demo_sweep] @ [bar 3 6 7 2 6]))" by code_simp
  from append_only_stable [OF r(1) _ this] r show ?thesis by auto
qed

text \<open>The emission stream is computed exactly when the opening times of the post-session bars
  strictly increase; any repeated or earlier timestamp is a ValueError.\<close>

theorem emission_stream_chronology:
  "(if strictly_increasing (map c_time post) then \<exists>es rs. emission_stream sid sy box rg day post = Inr (es, rs)
    else \<exists>msg. emission_stream sid sy box rg day post = Inl (ValueError msg))"
proof (cases "strictly_increasing (map c_time post)")
  case True
  then show ?thesis using emission_stream_ok_iff [of sid sy box rg day post] by auto
next
  case False
  have err: "check_bars seen prev cs = Inl e \<Longrightarrow> \<exists>msg. e = ValueError msg" for seen prev cs e
    by (induction seen prev cs rule: check_bars.induct) (auto split: if_splits option.splits)
  from False obtain e where e: "check_bars [] None post = Inl e"
    using check_bars_ok [of post] by (cases "check_bars [] None post") auto
  then obtain msg where "e = ValueError msg" using err by blast
  then show ?thesis using False e by (auto simp: emission_stream_def)
qed


text \<open>In a RANGE session the frozen router decides by the first bar that sweeps exactly the upper
  boundary, whatever follows it and whatever range rejections precede it: a SHORT sweep setup at
  that bar, entered at the body top with the stop at the wick extreme.\<close>

theorem sweep_priority:
  assumes "build_reference_box session cs n = Inr box" "session_complete box"
    and "(case ov of Some r \<Rightarrow> r | None \<Rightarrow> classify box) = Regime_RANGE"
    and "\<forall>c \<in> set pre. \<not> upper_swept box c \<and> \<not> lower_swept box c"
    and "upper_swept box c" "\<not> lower_swept box c"
  shows "\<exists>d. route_completed_session sid sy session day cs n (pre @ c # rest) ov = Inr (box, Regime_RANGE, d) \<and>
    d_status d = VALID \<and> d_setup_type d = Setup_SWEEP \<and> d_direction d = Some SHORT \<and>
    d_signal_timestamp d = Some (c_time c) \<and> d_entry_reference d = Some (max (c_open c) (c_close c)) \<and>
    d_stop_reference d = Some (c_high c) \<and> d_risk_distance d = Some (fsub (c_high c) (max (c_open c) (c_close c)))"
proof -
  let ?hit = "status_hit (entry_2_sweep sid sy box day)"
  have pre: "\<forall>c \<in> set pre. ?hit c = None" using assms(4) e2_hit_iff by blast
  define d where "d = entry_2_sweep sid sy box day [c]"
  have d: "d_status d = VALID \<and> d_setup_type d = Setup_SWEEP \<and> d_direction d = Some SHORT \<and>
    d_signal_timestamp d = Some (c_time c) \<and> d_entry_reference d = Some (max (c_open c) (c_close c)) \<and>
    d_stop_reference d = Some (c_high c) \<and> d_risk_distance d = Some (fsub (c_high c) (max (c_open c) (c_close c)))"
    using assms(5,6) by (simp add: d_def mk_decision_def)
  then have "?hit c = Some d" unfolding status_hit_def d_def [symmetric] Let_def by simp
  from e2.det_first [OF pre this] have "entry_2_sweep sid sy box day (pre @ c # rest) = d" .
  then show ?thesis using assms(1-3) d by (simp add: route_completed_session_def)
qed

theorem sweep_priority_witness:
  "\<exists>box d. route_completed_session ''S'' ''EURUSD'' ''Asian'' 1 demo_session 2 ([bar 2 9 10 8 8] @ demo_sweep # []) None
     = Inr (box, Regime_RANGE, d) \<and> d_direction d = Some SHORT \<and> d_stop_reference d = Some 12"
proof -
  obtain box where b: "build_reference_box ''Asian'' demo_session 2 = Inr box"
    by (simp add: build_reference_box_def demo_session_def Let_def)
  have "case build_reference_box ''Asian'' demo_session 2 of Inl _ \<Rightarrow> False | Inr box \<Rightarrow>
     session_complete box \<and> classify box = Regime_RANGE \<and> \<not> upper_swept box (bar 2 9 10 8 8) \<and>
     \<not> lower_swept box (bar 2 9 10 8 8) \<and> upper_swept box demo_sweep \<and> \<not> lower_swept box demo_sweep" by code_simp
  then have h: "session_complete box" "classify box = Regime_RANGE" "\<not> upper_swept box (bar 2 9 10 8 8)"
     "\<not> lower_swept box (bar 2 9 10 8 8)" "upper_swept box demo_sweep" "\<not> lower_swept box demo_sweep"
    using b by auto
  have "c_high demo_sweep = 12" by code_simp
  then show ?thesis
    using sweep_priority [OF b h(1), of None "[bar 2 9 10 8 8]" demo_sweep] h by fastforce
qed

text \<open>The frozen router is not append-only and may emit a setup without risk: there is a
  completed session and a window whose decision is a VALID range rejection with risk distance 0,
  while one more bar turns the decision of the same session into a sweep of the other side.\<close>

theorem frozen_router_not_append_only:
  "\<exists>cs n xs y box rg d d'.
     route_completed_session ''S'' ''EURUSD'' ''Asian'' 1 cs n xs None = Inr (box, rg, d) \<and>
     d_status d = VALID \<and> d_direction d = Some SHORT \<and> d_risk_distance d = Some 0 \<and>
     route_completed_session ''S'' ''EURUSD'' ''Asian'' 1 cs n (xs @ [y]) None = Inr (box, rg, d') \<and>
     d_status d' = VALID \<and> d_direction d' = Some LONG"
proof -
  have "case route_completed_session ''S'' ''EURUSD'' ''Asian'' 1 demo_session 2 [bar 2 9 10 8 8] None of
      Inl _ \<Rightarrow> False | Inr (box, rg, d) \<Rightarrow>
      d_status d = VALID \<and> d_direction d = Some SHORT \<and> d_risk_distance d = Some 0 \<and>
      (case route_completed_session ''S'' ''EURUSD'' ''Asian'' 1 demo_session 2 ([bar 2 9 10 8 8] @ [bar 3 6 7 2 6]) None of
         Inl _ \<Rightarrow> False | Inr (box', rg', d') \<Rightarrow>
         box' = box \<and> rg' = rg \<and> d_status d' = VALID \<and> d_direction d' = Some LONG)" by code_simp
  then show ?thesis by (fastforce split: sum.splits prod.splits)
qed

end
