(* ===== verification/Market_Structure.thy ===== *)
theory Market_Structure
  imports Session_Box
begin

text \<open>
  The market-structure layer (src/src/market_structure): the adapter over the third-party package
  smartmoneyconcepts, the breaks of an already fetched bar sequence, the structure state and the
  HH/HL/LH/LL labels of the tiered model. The package itself is the parameter \<open>smc_lib\<close>: its three
  functions return a table, raise, or return a table without the required columns.
\<close>

section \<open>Structure points\<close>

datatype structure_kind = SWING_HIGH | SWING_LOW | BULLISH_BOS | BEARISH_BOS | BULLISH_CHOCH | BEARISH_CHOCH | HH | HL | LH | LL

record structure_point =
  time_utc :: datetime
  price :: rat
  kind :: structure_kind

text \<open>The substring tests the code makes on \<open>kind.value\<close>.\<close>

definition is_bullish_kind :: "structure_kind \<Rightarrow> bool" where
  "is_bullish_kind k \<longleftrightarrow> k = BULLISH_BOS \<or> k = BULLISH_CHOCH"

definition is_bos_kind :: "structure_kind \<Rightarrow> bool" where
  "is_bos_kind k \<longleftrightarrow> k = BULLISH_BOS \<or> k = BEARISH_BOS"

definition is_choch_kind :: "structure_kind \<Rightarrow> bool" where
  "is_choch_kind k \<longleftrightarrow> k = BULLISH_CHOCH \<or> k = BEARISH_CHOCH"

record structure_config =
  swing_length :: int
  close_break :: bool
  default_analysis_count :: int

datatype structure_state = State_BULLISH | State_BEARISH | State_UNDEFINED

section \<open>The adapter over smartmoneyconcepts\<close>

text \<open>Rows of the tables the package returns; \<open>None\<close> is NaN. A swing row has its label HighLow and its
  Level set together.\<close>

type_synonym swing_row = "(rat \<times> rat) option"

record break_row =
  BOS :: "rat option"
  CHOCH :: "rat option"
  BrokenLevel :: rat
  BrokenIndex :: "int option"

datatype 'a lib_out = LibRaised string | LibColumnsMissing string | LibTable 'a

record smc_lib =
  swing_highs_lows :: "candle list \<Rightarrow> int \<Rightarrow> swing_row list lib_out"
  bos_choch :: "candle list \<Rightarrow> swing_row list \<Rightarrow> bool \<Rightarrow> break_row list lib_out"
  prev_high_low :: "candle list \<Rightarrow> string \<Rightarrow> (rat option \<times> rat option) list lib_out"

text \<open>The adapter's two exceptions, with the message of the package or the columns it returned.\<close>

fun lib_res :: "string \<Rightarrow> 'a lib_out \<Rightarrow> 'a res" where
  "lib_res f (LibRaised msg) = Inl (StructureLibraryError (f @ '' failed: '' @ msg))"
| "lib_res f (LibColumnsMissing cols) = Inl (StructureOutputInvalid (f @ '' columns '' @ cols))"
| "lib_res f (LibTable t) = Inr t"

text \<open>\<open>df.index[position]\<close>: a negative position counts from the end.\<close>

definition time_at :: "candle list \<Rightarrow> int \<Rightarrow> datetime res" where
  "time_at df pos =
     (let n = int (length df)
      in if 0 \<le> pos \<and> pos < n then Inr (c_time (df ! nat pos))
         else if - n \<le> pos \<and> pos < 0 then Inr (c_time (df ! nat (n + pos)))
         else Inl IndexError)"

fun all_breaks_of :: "candle list \<Rightarrow> bool \<Rightarrow> break_row list \<Rightarrow> structure_point list res" where
  "all_breaks_of df is_bos [] = Inr []"
| "all_breaks_of df is_bos (row # rows) =
     (case (if is_bos then BOS row else CHOCH row) of
        None \<Rightarrow> all_breaks_of df is_bos rows
      | Some dir \<Rightarrow>
          (case BrokenIndex row of
             None \<Rightarrow> Inl (ValueError ''cannot convert float NaN to integer'')
           | Some broken_pos \<Rightarrow>
               (case time_at df broken_pos of
                  Inl e \<Rightarrow> Inl e
                | Inr t \<Rightarrow>
                    (case all_breaks_of df is_bos rows of
                       Inl e \<Rightarrow> Inl e
                     | Inr ps \<Rightarrow>
                         Inr (\<lparr>time_utc = t, price = BrokenLevel row,
                               kind = (if is_bos then (if 0 < dir then BULLISH_BOS else BEARISH_BOS)
                                       else (if 0 < dir then BULLISH_CHOCH else BEARISH_CHOCH))\<rparr> # ps)))))"

definition all_breaks :: "smc_lib \<Rightarrow> candle list \<Rightarrow> int \<Rightarrow> bool \<Rightarrow> structure_point list res" where
  "all_breaks smc df swing_len close_brk =
     res_bind (lib_res ''swing_highs_lows'' (swing_highs_lows smc df swing_len)) (\<lambda>swings.
     res_bind (lib_res ''bos_choch'' (bos_choch smc df swings close_brk)) (\<lambda>breaks.
     res_bind (all_breaks_of df True breaks) (\<lambda>b.
     res_bind (all_breaks_of df False breaks) (\<lambda>c.
     Inr (sort_key time_utc (b @ c))))))"

text \<open>The rows of \<open>full_swings\<close> from position \<open>pos\<close> on; the first and the last row of the frame are
  bookends of the package and never count.\<close>

fun swing_points :: "candle list \<Rightarrow> int \<Rightarrow> swing_row list \<Rightarrow> structure_point list res" where
  "swing_points df pos [] = Inr []"
| "swing_points df pos (row # rows) =
     (if pos = 0 \<or> pos = int (length df) - 1 then swing_points df (pos + 1) rows
      else case row of
        None \<Rightarrow> swing_points df (pos + 1) rows
      | Some (high_low, level) \<Rightarrow>
          (case time_at df pos of
             Inl e \<Rightarrow> Inl e
           | Inr t \<Rightarrow>
               (case swing_points df (pos + 1) rows of
                  Inl e \<Rightarrow> Inl e
                | Inr ps \<Rightarrow> Inr (\<lparr>time_utc = t, price = level,
                                   kind = (if high_low = 1 then SWING_HIGH else SWING_LOW)\<rparr> # ps))))"

definition full_swings :: "smc_lib \<Rightarrow> candle list \<Rightarrow> int \<Rightarrow> structure_point list res" where
  "full_swings smc df swing_len =
     res_bind (lib_res ''swing_highs_lows'' (swing_highs_lows smc df swing_len)) (\<lambda>swings.
     res_bind (swing_points df 0 swings) (\<lambda>ps. Inr (sort_key time_utc ps)))"

text \<open>The position and level of the last row with the wanted label, if any.\<close>

fun last_labelled :: "rat \<Rightarrow> int \<Rightarrow> swing_row list \<Rightarrow> (int \<times> rat) option \<Rightarrow> (int \<times> rat) option" where
  "last_labelled target pos [] acc = acc"
| "last_labelled target pos (row # rows) acc =
     last_labelled target (pos + 1) rows
       (case row of Some (high_low, level) \<Rightarrow> if high_low = target then Some (pos, level) else acc | None \<Rightarrow> acc)"

definition latest_swing :: "candle list \<Rightarrow> swing_row list \<Rightarrow> bool \<Rightarrow> structure_point option res" where
  "latest_swing df rows want_high =
     (case last_labelled (if want_high then 1 else - 1) 0 rows None of
        None \<Rightarrow> Inr None
      | Some (pos, level) \<Rightarrow>
          (case time_at df pos of
             Inl e \<Rightarrow> Inl e
           | Inr t \<Rightarrow> Inr (Some \<lparr>time_utc = t, price = level, kind = (if want_high then SWING_HIGH else SWING_LOW)\<rparr>)))"

definition latest_break :: "candle list \<Rightarrow> break_row list \<Rightarrow> bool \<Rightarrow> structure_point option res" where
  "latest_break df rows is_bos =
     res_bind (all_breaks_of df is_bos rows) (\<lambda>ps. Inr (if ps = [] then None else Some (last ps)))"

record latest_structure =
  ls_swing_high :: "structure_point option"
  ls_swing_low :: "structure_point option"
  ls_bos :: "structure_point option"
  ls_choch :: "structure_point option"

definition latest_swings_and_breaks :: "smc_lib \<Rightarrow> candle list \<Rightarrow> int \<Rightarrow> bool \<Rightarrow> latest_structure res" where
  "latest_swings_and_breaks smc df swing_len close_brk =
     res_bind (lib_res ''swing_highs_lows'' (swing_highs_lows smc df swing_len)) (\<lambda>rows.
     res_bind (lib_res ''bos_choch'' (bos_choch smc df rows close_brk)) (\<lambda>breaks.
     res_bind (latest_swing df rows True) (\<lambda>sh.
     res_bind (latest_swing df rows False) (\<lambda>sl.
     res_bind (latest_break df breaks True) (\<lambda>b.
     res_bind (latest_break df breaks False) (\<lambda>c.
     Inr \<lparr>ls_swing_high = sh, ls_swing_low = sl, ls_bos = b, ls_choch = c\<rparr>))))))"

definition previous_high_low :: "smc_lib \<Rightarrow> candle list \<Rightarrow> string \<Rightarrow> (rat option \<times> rat option) res" where
  "previous_high_low smc df tf =
     res_bind (lib_res ''previous_high_low'' (prev_high_low smc df tf)) (\<lambda>rows.
       let valid = filter (\<lambda>(h, l). h \<noteq> None \<and> l \<noteq> None) rows
       in Inr (if valid = [] then (None, None) else last valid))"

section \<open>Breaks of a bar sequence and the structure state\<close>

definition structural_breaks_for_candles :: "smc_lib \<Rightarrow> structure_config \<Rightarrow> candle list \<Rightarrow> structure_point list res" where
  "structural_breaks_for_candles smc cfg candles =
     (if candles = [] then Inr []
      else case all_breaks smc candles (swing_length cfg) (close_break cfg) of
        Inl (StructureLibraryError _) \<Rightarrow> Inr []
      | Inl (StructureOutputInvalid _) \<Rightarrow> Inr []
      | r \<Rightarrow> r)"

text \<open>\<open>max(ps, key=...)\<close>: the first of the latest points.\<close>

fun latest_point :: "structure_point \<Rightarrow> structure_point list \<Rightarrow> structure_point" where
  "latest_point p [] = p"
| "latest_point p (q # qs) = latest_point (if time_utc p < time_utc q then q else p) qs"

definition state_of_candidates :: "structure_point list \<Rightarrow> structure_state" where
  "state_of_candidates ps =
     (case ps of [] \<Rightarrow> State_UNDEFINED
      | p # qs \<Rightarrow> if is_bullish_kind (kind (latest_point p qs)) then State_BULLISH else State_BEARISH)"

definition structure_state_rule :: "structure_point option \<Rightarrow> structure_point option \<Rightarrow> structure_state" where
  "structure_state_rule latest_bos latest_choch =
     state_of_candidates (case_option [] (\<lambda>p. [p]) latest_bos @ case_option [] (\<lambda>p. [p]) latest_choch)"

definition tier_direction :: "structure_point option \<Rightarrow> structure_point option \<Rightarrow> structure_state" where
  "tier_direction latest_bos latest_choch =
     state_of_candidates (case_option [] (\<lambda>p. [p]) latest_bos @ case_option [] (\<lambda>p. [p]) latest_choch)"

text \<open>\<open>analyze_structure\<close> on the outcome of the bar fetch it makes first: \<open>Inl\<close> the reason code of the
  market-data error, \<open>Inr\<close> the closed bars.\<close>

record structure_result =
  sr_status :: string
  sr_reason_codes :: "string list"
  sr_state :: "structure_state option"
  sr_latest :: "latest_structure option"
  sr_previous :: "rat option \<times> rat option"
  sr_range :: "(datetime \<times> datetime) option"
  sr_closed_candle_count :: "int option"

definition failed_structure :: "string \<Rightarrow> string list \<Rightarrow> int option \<Rightarrow> structure_result" where
  "failed_structure status reasons n =
     \<lparr>sr_status = status, sr_reason_codes = reasons, sr_state = None, sr_latest = None, sr_previous = (None, None),
      sr_range = None, sr_closed_candle_count = n\<rparr>"

definition warmup_bars :: "int \<Rightarrow> int" where
  "warmup_bars swing_len = max (swing_len * 20) 100"

definition PREVIOUS_HL_TIMEFRAME :: "(string \<times> string) list" where
  "PREVIOUS_HL_TIMEFRAME = [(''M1'', ''15m''), (''M5'', ''15m''), (''M15'', ''1H''), (''M30'', ''4H''),
     (''H1'', ''1D''), (''H4'', ''1D''), (''D1'', ''1W'')]"

text \<open>The previous high and low are supplementary: a failure of the adapter leaves them unset.\<close>

fun supplementary :: "(rat option \<times> rat option) res \<Rightarrow> (rat option \<times> rat option) res" where
  "supplementary (Inl (StructureLibraryError _)) = Inr (None, None)"
| "supplementary (Inl (StructureOutputInvalid _)) = Inr (None, None)"
| "supplementary r = r"

definition analyze_structure :: "smc_lib \<Rightarrow> structure_config \<Rightarrow> string \<Rightarrow> string + candle list \<Rightarrow> structure_result res" where
  "analyze_structure smc cfg timeframe fetched =
     (case fetched of
        Inl reason \<Rightarrow> Inr (failed_structure ''MARKET_DATA_INVALID'' [reason] None)
      | Inr candles \<Rightarrow>
          let n = int (length candles)
          in if n < warmup_bars (swing_length cfg) then
               Inr (failed_structure ''INSUFFICIENT_STRUCTURE_HISTORY'' [''INSUFFICIENT_STRUCTURE_HISTORY''] (Some n))
             else case latest_swings_and_breaks smc candles (swing_length cfg) (close_break cfg) of
               Inl (StructureLibraryError m) \<Rightarrow> Inr (failed_structure ''STRUCTURE_LIBRARY_ERROR'' [m] (Some n))
             | Inl (StructureOutputInvalid m) \<Rightarrow> Inr (failed_structure ''STRUCTURE_OUTPUT_INVALID'' [m] (Some n))
             | Inl e \<Rightarrow> Inl e
             | Inr latest \<Rightarrow>
                 res_bind (supplementary (previous_high_low smc candles
                     (case map_of PREVIOUS_HL_TIMEFRAME timeframe of Some t \<Rightarrow> t | None \<Rightarrow> ''1D''))) (\<lambda>prev.
                 Inr \<lparr>sr_status = ''VALID'',
                      sr_reason_codes =
                        (if ls_bos latest = None \<and> ls_choch latest = None then [''NO_CONFIRMED_STRUCTURE_BREAK''] else [])
                        @ (if ls_swing_high latest = None \<and> ls_swing_low latest = None then [''NO_CONFIRMED_SWINGS''] else []),
                      sr_state = Some (structure_state_rule (ls_bos latest) (ls_choch latest)),
                      sr_latest = Some latest, sr_previous = prev,
                      sr_range = Some (c_time (hd candles), c_time (last candles)), sr_closed_candle_count = Some n\<rparr>))"

section \<open>Tiers\<close>

fun label_loop :: "rat \<Rightarrow> structure_point option \<Rightarrow> structure_point option \<Rightarrow> structure_point list \<Rightarrow> structure_point list" where
  "label_loop tol last_high last_low [] = []"
| "label_loop tol last_high last_low (p # ps) =
     (if kind p = SWING_HIGH then
        (case last_high of
           None \<Rightarrow> p
         | Some h \<Rightarrow> p\<lparr>kind := (if price p < fsub (price h) tol then LH else HH)\<rparr>)
        # label_loop tol (Some p) last_low ps
      else if kind p = SWING_LOW then
        (case last_low of
           None \<Rightarrow> p
         | Some l \<Rightarrow> p\<lparr>kind := (if fadd (price l) tol < price p then HL else LL)\<rparr>)
        # label_loop tol last_high (Some p) ps
      else p # label_loop tol last_high last_low ps)"

definition label_swings :: "structure_point list \<Rightarrow> rat \<Rightarrow> structure_point list" where
  "label_swings swings tol = label_loop tol None None swings"

record structure_tier =
  tier :: string
  tier_swing_length :: int
  tier_dir :: structure_state
  swings :: "structure_point list"
  events :: "structure_point list"
  latest_swing_high :: "structure_point option"
  latest_swing_low :: "structure_point option"
  latest_bos :: "structure_point option"
  latest_choch :: "structure_point option"

definition build_tier :: "smc_lib \<Rightarrow> candle list \<Rightarrow> string \<Rightarrow> int \<Rightarrow> bool \<Rightarrow> rat \<Rightarrow> structure_tier res" where
  "build_tier smc df name swing_len close_brk tol =
     res_bind (full_swings smc df swing_len) (\<lambda>raw.
     let labeled = label_swings raw tol
     in res_bind (all_breaks smc df swing_len close_brk) (\<lambda>evs.
     let lb = find (\<lambda>p. is_bos_kind (kind p)) (rev evs);
         lc = find (\<lambda>p. is_choch_kind (kind p)) (rev evs)
     in Inr \<lparr>tier = name, tier_swing_length = swing_len, tier_dir = tier_direction lb lc,
             swings = labeled, events = evs,
             latest_swing_high = find (\<lambda>p. kind p \<in> {SWING_HIGH, HH, LH}) (rev labeled),
             latest_swing_low = find (\<lambda>p. kind p \<in> {SWING_LOW, HL, LL}) (rev labeled),
             latest_bos = lb, latest_choch = lc\<rparr>))"

section \<open>Lemmas\<close>

lemma latest_point_in: "latest_point p qs \<in> insert p (set qs)"
  by (induction p qs rule: latest_point.induct) auto

lemma latest_point_max: "q \<in> insert p (set qs) \<Longrightarrow> time_utc q \<le> time_utc (latest_point p qs)"
proof (induction p qs arbitrary: q rule: latest_point.induct)
  case (2 p r rs)
  then show ?case by (auto split: if_splits) (use 2 in force)+
qed simp

lemma all_breaks_of_kind:
  "all_breaks_of df b rows = Inr ps \<Longrightarrow> p \<in> set ps \<Longrightarrow> (if b then is_bos_kind (kind p) else is_choch_kind (kind p))"
  by (induction df b rows arbitrary: ps rule: all_breaks_of.induct)
     (auto simp: is_bos_kind_def is_choch_kind_def split: option.splits sum.splits if_splits)

lemma swing_points_kind:
  "swing_points df pos rows = Inr ps \<Longrightarrow> p \<in> set ps \<Longrightarrow> kind p = SWING_HIGH \<or> kind p = SWING_LOW"
  by (induction df pos rows arbitrary: ps rule: swing_points.induct)
     (auto split: option.splits sum.splits if_splits)

lemma label_loop_shape:
  "map time_utc (label_loop tol h l ps) = map time_utc ps \<and> map price (label_loop tol h l ps) = map price ps"
  by (induction tol h l ps rule: label_loop.induct) (auto split: option.split)

text \<open>With distinct confirmation times, the last event of a chronological list is the latest point,
  both among all events and among the last BOS and the last CHOCH.\<close>

lemma latest_point_last:
  assumes "sorted_wrt (<) (map time_utc (p # qs))"
  shows "latest_point p qs = last (p # qs)"
  using assms
proof (induction qs arbitrary: p)
  case (Cons q qs)
  then show ?case by auto
qed simp

lemma find_rev_snoc: "find P (rev (es @ [e])) = (if P e then Some e else find P (rev es))"
  by simp

lemma find_time_less:
  assumes "sorted_wrt (<) (map time_utc (es @ [e]))" "find P (rev es) = Some q"
  shows "time_utc q < time_utc e"
  using assms by (auto simp: sorted_wrt_append find_Some_iff in_set_conv_nth) (metis nth_mem set_rev length_rev)

lemma tier_direction_last:
  assumes "sorted_wrt (<) (map time_utc evs)" "\<forall>p \<in> set evs. is_bos_kind (kind p) \<or> is_choch_kind (kind p)"
  shows "tier_direction (find (\<lambda>p. is_bos_kind (kind p)) (rev evs)) (find (\<lambda>p. is_choch_kind (kind p)) (rev evs))
         = state_of_candidates evs"
proof (cases evs rule: rev_cases)
  case (snoc es e)
  have last: "state_of_candidates evs = (if is_bullish_kind (kind e) then State_BULLISH else State_BEARISH)"
  proof -
    obtain p qs where pq: "evs = p # qs" using snoc by (metis append_is_Nil_conv list.discI neq_Nil_conv)
    have "latest_point p qs = last evs" using latest_point_last assms(1) unfolding pq by blast
    then have "latest_point p qs = e" by (simp add: snoc)
    then show ?thesis by (simp add: state_of_candidates_def pq)
  qed
  have less: "time_utc q < time_utc e" if "find P (rev es) = Some q" for P q
    using find_time_less assms(1) that unfolding snoc by blast
  have "is_bos_kind (kind e) \<or> is_choch_kind (kind e)" "\<not> (is_bos_kind (kind e) \<and> is_choch_kind (kind e))"
    using assms(2) by (auto simp: snoc is_bos_kind_def is_choch_kind_def)
  then show ?thesis unfolding last
    unfolding snoc find_rev_snoc tier_direction_def state_of_candidates_def
    using less by (auto split: option.split dest: less)
qed (simp add: tier_direction_def state_of_candidates_def)

lemma all_breaks_sorted: "all_breaks smc df n cb = Inr evs \<Longrightarrow> sorted (map time_utc evs)"
  by (auto simp: all_breaks_def res_bind_Inr_iff)

lemma all_breaks_kinds:
  "all_breaks smc df n cb = Inr evs \<Longrightarrow> p \<in> set evs \<Longrightarrow> is_bos_kind (kind p) \<or> is_choch_kind (kind p)"
  by (auto simp: all_breaks_def res_bind_Inr_iff dest!: all_breaks_of_kind)

end
