(* ===== verification/Kv_Store.thy ===== *)
theory Kv_Store
  imports Py_Data
begin

text \<open>
  The key-value store of src/src/runtime_state/store.py: one JSON object per file, read and
  rewritten whole under the path's lock, replaced atomically with a bounded retry. Every operation
  runs under the lock from start to end, so an operation is one step on the file. The locale
  \<open>kv_interface\<close> states what the clients of the store (the daily-loss and open-position guards)
  rely on; \<open>kv\<close> interprets it on the model of the store.
\<close>

section \<open>The store\<close>

text \<open>What the path holds: nothing, bytes that do not parse (or cannot be read), or a JSON value.\<close>

datatype kv_file = KvMissing | KvUnreadable | KvJson json

definition kv_load :: "kv_file \<Rightarrow> (string \<times> json) list res" where
  "kv_load f = (case f of KvMissing \<Rightarrow> Inr []
                 | KvUnreadable \<Rightarrow> Inl StateStoreCorrupted
                 | KvJson (JDict d) \<Rightarrow> Inr d
                 | KvJson _ \<Rightarrow> Inl StateStoreCorrupted)"

definition kv_all :: "kv_file \<Rightarrow> (string \<times> json) list res" where
  "kv_all f = kv_load f"

definition kv_get :: "kv_file \<Rightarrow> string \<Rightarrow> json res" where
  "kv_get f key = res_bind (kv_load f) (\<lambda>d. Inr (dget d key))"

text \<open>The file system during one save: whether the directory and the temporary file could be
  written, and how each attempt to replace the file ends.\<close>

datatype replace_outcome = Replaced | PermissionDenied | ReplaceFailed

record save_env =
  tmp_written :: bool
  replace_try :: "nat \<Rightarrow> replace_outcome"

definition REPLACE_MAX_ATTEMPTS :: nat where "REPLACE_MAX_ATTEMPTS = 5"

text \<open>The retry loop over the remaining attempts: only a refused permission is retried, and the last
  refusal is raised. (The pause between attempts changes no state.)\<close>

fun replace_loop :: "(nat \<Rightarrow> replace_outcome) \<Rightarrow> nat list \<Rightarrow> unit res" where
  "replace_loop env [] = Inl OSError"
| "replace_loop env (attempt # rest) =
     (case env attempt of
        Replaced \<Rightarrow> Inr ()
      | ReplaceFailed \<Rightarrow> Inl OSError
      | PermissionDenied \<Rightarrow> replace_loop env rest)"

definition replace_with_retry :: "(nat \<Rightarrow> replace_outcome) \<Rightarrow> unit res" where
  "replace_with_retry env = replace_loop env [0..<REPLACE_MAX_ATTEMPTS]"

definition save_all :: "save_env \<Rightarrow> (string \<times> json) list \<Rightarrow> kv_file \<Rightarrow> kv_file \<times> unit res" where
  "save_all env data f =
     (if \<not> tmp_written env then (f, Inl OSError)
      else case replace_with_retry (replace_try env) of
        Inl e \<Rightarrow> (f, Inl e)
      | Inr u \<Rightarrow> (KvJson (canon (JDict data)), Inr ()))"

definition kv_put :: "save_env \<Rightarrow> string \<Rightarrow> json \<Rightarrow> kv_file \<Rightarrow> kv_file \<times> unit res" where
  "kv_put env key v f =
     (case kv_load f of Inl e \<Rightarrow> (f, Inl e) | Inr d \<Rightarrow> save_all env (dput key v d) f)"

definition kv_remove :: "save_env \<Rightarrow> string \<Rightarrow> kv_file \<Rightarrow> kv_file \<times> unit res" where
  "kv_remove env key f =
     (case kv_load f of Inl e \<Rightarrow> (f, Inl e)
      | Inr d \<Rightarrow> if map_of d key = None then (f, Inr ()) else save_all env (ddel key d) f)"

section \<open>The interface of the store\<close>

text \<open>The content of a file as a map; \<open>None\<close> when it cannot be read. A JSON object never repeats a
  key, which \<open>kv_wf\<close> records.\<close>

definition kv_wf :: "kv_file \<Rightarrow> bool" where
  "kv_wf f = (case f of KvJson v \<Rightarrow> wf_json v | _ \<Rightarrow> True)"

definition kv_view :: "kv_file \<Rightarrow> (string \<rightharpoonup> json) option" where
  "kv_view f = (case kv_load f of Inl _ \<Rightarrow> None | Inr d \<Rightarrow> Some (map_of d))"

text \<open>A store promises: a write that succeeds changes exactly its key, a write that fails changes
  nothing, and an unreadable store is never written.\<close>

locale kv_interface =
  fixes wf :: "'f \<Rightarrow> bool" and view :: "'f \<Rightarrow> (string \<rightharpoonup> json) option"
    and put :: "'e \<Rightarrow> string \<Rightarrow> json \<Rightarrow> 'f \<Rightarrow> 'f \<times> unit res"
    and remove :: "'e \<Rightarrow> string \<Rightarrow> 'f \<Rightarrow> 'f \<times> unit res"
  assumes put_wf: "wf f \<Longrightarrow> wf_json v \<Longrightarrow> wf (fst (put e k v f))"
    and remove_wf: "wf f \<Longrightarrow> wf (fst (remove e k f))"
    and view_wf: "wf f \<Longrightarrow> view f = Some m \<Longrightarrow> m k = Some v \<Longrightarrow> wf_json v"
    and put_ok: "wf f \<Longrightarrow> snd (put e k v f) = Inr () \<Longrightarrow>
                 \<exists>m. view f = Some m \<and> view (fst (put e k v f)) = Some ((map_option canon \<circ> m)(k \<mapsto> canon v))"
    and put_fail: "snd (put e k v f) = Inl err \<Longrightarrow> fst (put e k v f) = f"
    and remove_ok: "wf f \<Longrightarrow> snd (remove e k f) = Inr () \<Longrightarrow>
                 \<exists>m. view f = Some m \<and>
                     (m k = None \<and> fst (remove e k f) = f \<or>
                      view (fst (remove e k f)) = Some ((map_option canon \<circ> m)(k := None)))"
    and remove_fail: "snd (remove e k f) = Inl err \<Longrightarrow> fst (remove e k f) = f"
    and put_unreadable: "view f = None \<Longrightarrow> snd (put e k v f) \<noteq> Inr ()"
    and remove_unreadable: "view f = None \<Longrightarrow> snd (remove e k f) \<noteq> Inr ()"
begin

text \<open>The keys of a readable store after a write are a function of its keys before it.\<close>

lemma put_dom:
  assumes "wf f" "snd (put e k v f) = Inr ()" "view f = Some m"
  shows "\<exists>m'. view (fst (put e k v f)) = Some m' \<and> dom m' = insert k (dom m)"
  using put_ok [OF assms(1,2)] assms(3) by (auto simp: dom_def)

lemma remove_dom:
  assumes "wf f" "snd (remove e k f) = Inr ()" "view f = Some m"
  shows "\<exists>m'. view (fst (remove e k f)) = Some m' \<and> dom m' = dom m - {k}"
  using remove_ok [OF assms(1,2)] assms(3) by (auto simp: dom_def split: if_splits)

lemma put_other:
  assumes "wf f" "snd (put e k v f) = Inr ()" "view f = Some m" "k' \<noteq> k"
  shows "\<exists>m'. view (fst (put e k v f)) = Some m' \<and> m' k = Some (canon v) \<and> m' k' = map_option canon (m k')"
  using put_ok [OF assms(1,2)] assms(3,4) by auto

lemma put_cases:
  obtains (ok) "snd (put e k v f) = Inr ()" | (fail) err where "snd (put e k v f) = Inl err" "fst (put e k v f) = f"
  by (metis old.unit.exhaust put_fail sum.exhaust_sel)

lemma remove_cases:
  obtains (ok) "snd (remove e k f) = Inr ()" | (fail) err where "snd (remove e k f) = Inl err" "fst (remove e k f) = f"
  by (metis old.unit.exhaust remove_fail sum.exhaust_sel)

end

lemma save_all_cases:
  "save_all env d f = (KvJson (canon (JDict d)), Inr ()) \<or> (\<exists>err. save_all env d f = (f, Inl err))"
  by (cases "tmp_written env"; cases "replace_with_retry (replace_try env)") (simp_all add: save_all_def)

lemma save_all_ok:
  assumes "wf_dict d" "snd (save_all env d f) = Inr ()"
  shows "kv_view (fst (save_all env d f)) = Some (map_option canon \<circ> map_of d)"
  using assms(2) save_all_cases [of env d f]
  by (auto simp: kv_view_def kv_load_def canon_dict_view [OF assms(1)])

lemma save_all_wf: "wf_json (JDict d) \<Longrightarrow> kv_wf f \<Longrightarrow> kv_wf (fst (save_all env d f))"
  using wf_json_canon [of "JDict d"] save_all_cases [of env d f] by (auto simp del: canon.simps simp: kv_wf_def)

lemma kv_load_wf: "kv_wf f \<Longrightarrow> kv_load f = Inr d \<Longrightarrow> wf_json (JDict d)"
  by (auto simp: kv_load_def kv_wf_def split: kv_file.splits json.splits)

lemma kv_view_load: "kv_view f = Some m \<longleftrightarrow> (\<exists>d. kv_load f = Inr d \<and> m = map_of d)"
  by (auto simp: kv_view_def split: sum.splits)

interpretation kv: kv_interface kv_wf kv_view kv_put kv_remove
proof unfold_locales
  fix f :: kv_file and e :: save_env and k :: string and v :: json and err :: py_error
  show "kv_wf f \<Longrightarrow> wf_json v \<Longrightarrow> kv_wf (fst (kv_put e k v f))"
    by (auto simp: kv_put_def simp del: wf_json.simps intro: wf_json_dput save_all_wf kv_load_wf split: sum.split)
  show "kv_wf f \<Longrightarrow> kv_wf (fst (kv_remove e k f))"
    by (auto simp: kv_remove_def simp del: wf_json.simps intro: wf_json_ddel save_all_wf kv_load_wf split: sum.split)
  show "kv_wf f \<Longrightarrow> kv_view f = Some m \<Longrightarrow> m k = Some v \<Longrightarrow> wf_json v" for m
    by (auto simp: kv_view_load dest: kv_load_wf intro: wf_json_value)
  show "snd (kv_put e k v f) = Inl err \<Longrightarrow> fst (kv_put e k v f) = f"
    by (auto simp: kv_put_def save_all_def split: sum.splits if_splits)
  show "snd (kv_remove e k f) = Inl err \<Longrightarrow> fst (kv_remove e k f) = f"
    by (auto simp: kv_remove_def save_all_def split: sum.splits if_splits)
  show "kv_view f = None \<Longrightarrow> snd (kv_put e k v f) \<noteq> Inr ()"
    by (auto simp: kv_put_def kv_view_def split: sum.splits)
  show "kv_view f = None \<Longrightarrow> snd (kv_remove e k f) \<noteq> Inr ()"
    by (auto simp: kv_remove_def kv_view_def split: sum.splits)
  {
    assume w: "kv_wf f" and ok: "snd (kv_put e k v f) = Inr ()"
    then obtain d where d: "kv_load f = Inr d" by (auto simp: kv_put_def split: sum.splits)
    have "snd (save_all e (dput k v d) f) = Inr ()" using ok d by (simp add: kv_put_def)
    from save_all_ok [OF wf_dput [OF wf_json_dict [OF kv_load_wf [OF w d]]] this] d
    show "\<exists>m. kv_view f = Some m \<and> kv_view (fst (kv_put e k v f)) = Some ((map_option canon \<circ> m)(k \<mapsto> canon v))"
      by (intro exI [of _ "map_of d"]) (simp add: kv_put_def kv_view_def)
  }
  {
    assume w: "kv_wf f" and ok: "snd (kv_remove e k f) = Inr ()"
    then obtain d where d: "kv_load f = Inr d" by (auto simp: kv_remove_def split: sum.splits)
    show "\<exists>m. kv_view f = Some m \<and> (m k = None \<and> fst (kv_remove e k f) = f \<or>
            kv_view (fst (kv_remove e k f)) = Some ((map_option canon \<circ> m)(k := None)))"
    proof (cases "map_of d k")
      case None
      then show ?thesis using d by (auto simp: kv_remove_def kv_view_load)
    next
      case (Some x)
      with ok d have "snd (save_all e (ddel k d) f) = Inr ()" by (simp add: kv_remove_def)
      from save_all_ok [OF wf_ddel [OF wf_json_dict [OF kv_load_wf [OF w d]]] this] d Some
      show ?thesis by (intro exI [of _ "map_of d"]) (simp add: kv_remove_def kv_view_def fun_upd_comp)
    qed
  }
qed

lemma kv_get_view: "kv_view f = Some m \<Longrightarrow> kv_get f k = Inr (case m k of None \<Rightarrow> JNull | Some v \<Rightarrow> v)"
  by (auto simp: kv_view_load kv_get_def dget_def)

lemma kv_get_unreadable: "kv_view f = None \<Longrightarrow> \<exists>e. kv_get f k = Inl e"
  by (auto simp: kv_view_def kv_get_def split: sum.splits)

text \<open>The replacement succeeds exactly when one of the five attempts is granted and every attempt
  before it was refused for permission.\<close>

lemma replace_loop_ok_iff:
  "replace_loop env [a..<b] = Inr () \<longleftrightarrow>
     (\<exists>n. a \<le> n \<and> n < b \<and> env n = Replaced \<and> (\<forall>i. a \<le> i \<and> i < n \<longrightarrow> env i = PermissionDenied))"
proof (induction "b - a" arbitrary: a)
  case (Suc k)
  then have ab: "a < b" "[a..<b] = a # [Suc a..<b]" by (auto simp: upt_conv_Cons)
  have IH: "replace_loop env [Suc a..<b] = Inr () \<longleftrightarrow>
     (\<exists>n. Suc a \<le> n \<and> n < b \<and> env n = Replaced \<and> (\<forall>i. Suc a \<le> i \<and> i < n \<longrightarrow> env i = PermissionDenied))"
    using Suc by simp
  show ?case
  proof (cases "env a")
    case PermissionDenied
    have "(Suc a \<le> n \<and> n < b \<and> env n = Replaced \<and> (\<forall>i. Suc a \<le> i \<and> i < n \<longrightarrow> env i = PermissionDenied)) =
          (a \<le> n \<and> n < b \<and> env n = Replaced \<and> (\<forall>i. a \<le> i \<and> i < n \<longrightarrow> env i = PermissionDenied))" for n
      using PermissionDenied by (cases "a = n") (auto dest: le_neq_implies_less simp: Suc_le_eq)
    with IH show ?thesis by (simp add: ab PermissionDenied)
  next
    case ReplaceFailed
    then show ?thesis using ab by simp (metis le_neq_implies_less order_refl replace_outcome.distinct)
  qed (use ab in auto)
qed auto

lemma replace_with_retry_ok_iff:
  "replace_with_retry env = Inr () \<longleftrightarrow>
     (\<exists>n < REPLACE_MAX_ATTEMPTS. env n = Replaced \<and> (\<forall>i < n. env i = PermissionDenied))"
  unfolding replace_with_retry_def replace_loop_ok_iff by simp

end
