(* ===== verification/Sizing.thy ===== *)
theory Sizing
  imports Kv_Store
begin

text \<open>
  Position sizing and the shared account guards of src/src/sizing_math: \<open>size_position\<close> in binary64
  arithmetic, the daily realized-R circuit breaker and the open-position guard, both clients of the
  key-value store through its interface.
\<close>

section \<open>Symbol metadata and position sizing\<close>

record symbol_meta =
  sm_symbol :: string
  tick_size :: rat
  tick_value :: rat
  contract_size :: rat
  volume_min :: rat
  volume_max :: rat
  volume_step :: rat
  digits :: int
  point :: rat
  trade_stops_level :: int
  trade_freeze_level :: int
  metadata_source :: string

definition FLOAT_TOL :: rat where "FLOAT_TOL = fl (1 / 10 ^ 9)"

text \<open>The three values \<open>size_position\<close> returns: a volume with its risk amount, or a reason code.\<close>

datatype sizing = Sized (sized_volume: rat) (sized_risk: rat) | Refused string

definition risk_budget :: "rat \<Rightarrow> rat \<Rightarrow> rat" where
  "risk_budget equity pct = fmul equity (fquot pct 100)"

text \<open>A division of floats raises on a zero divisor.\<close>

definition size_position :: "rat \<Rightarrow> rat \<Rightarrow> rat \<Rightarrow> rat \<Rightarrow> symbol_meta \<Rightarrow> sizing res" where
  "size_position entry stop_loss equity pct meta =
     (let stop_distance = \<bar>fsub entry stop_loss\<bar>
      in if stop_distance \<le> 0 then Inr (Refused ''INVALID_STOP_DISTANCE'')
      else if tick_size meta = 0 then Inl ZeroDivisionError
      else
        let budget = risk_budget equity pct;
            value_per_price_unit = fquot (tick_value meta) (tick_size meta);
            loss_per_lot = fmul stop_distance value_per_price_unit
        in if loss_per_lot = 0 \<or> volume_step meta = 0 then Inl ZeroDivisionError
        else
          let raw_volume = fquot budget loss_per_lot;
              steps = \<lfloor>fadd (fquot raw_volume (volume_step meta)) FLOAT_TOL\<rfloor>;
              volume = py_round 8 (fmul (fl (of_int steps)) (volume_step meta))
          in if volume < fsub (volume_min meta) FLOAT_TOL then Inr (Refused ''VOLUME_BELOW_MIN'')
             else if fadd (volume_max meta) FLOAT_TOL < volume then Inr (Refused ''VOLUME_ABOVE_MAX'')
             else
               let risk_amount = fmul volume loss_per_lot;
                   tolerance = max (fmul budget (fl (1 / 10 ^ 6))) (fl (1 / 10 ^ 6))
               in if fadd budget tolerance < risk_amount then Inr (Refused ''RISK_EXCEEDS_BUDGET'')
                  else Inr (Sized volume risk_amount))"

section \<open>The daily-loss guard\<close>

definition DAILY_LOSS_CIRCUIT_R :: rat where "DAILY_LOSS_CIRCUIT_R = - 2"

definition dlg_key :: "string \<Rightarrow> date \<Rightarrow> string" where
  "dlg_key strategy_id trading_day = strategy_id @ '':'' @ iso_date trading_day"

text \<open>\<open>float(record["realized_r"]) if record else 0.0\<close>.\<close>

definition realized_of :: "json \<Rightarrow> rat res" where
  "realized_of v = (if truthy v then res_bind (subscr v ''realized_r'') py_float else Inr 0)"

definition realized_r :: "string \<Rightarrow> date \<Rightarrow> kv_file \<Rightarrow> rat res" where
  "realized_r strategy_id day f = res_bind (kv_get f (dlg_key strategy_id day)) realized_of"

definition dlg_is_blocked :: "string \<Rightarrow> date \<Rightarrow> kv_file \<Rightarrow> bool res" where
  "dlg_is_blocked strategy_id day f =
     res_bind (realized_r strategy_id day f) (\<lambda>r. Inr (r \<le> DAILY_LOSS_CIRCUIT_R))"

definition record_trade_result ::
  "save_env \<Rightarrow> string \<Rightarrow> date \<Rightarrow> rat \<Rightarrow> kv_file \<Rightarrow> kv_file \<times> rat res" where
  "record_trade_result env strategy_id day r_multiple f =
     (case realized_r strategy_id day f of
        Inl e \<Rightarrow> (f, Inl e)
      | Inr r \<Rightarrow>
          let total = fadd r r_multiple
          in case kv_put env (dlg_key strategy_id day) (JDict [(''realized_r'', JFloat total)]) f of
               (f', Inl e) \<Rightarrow> (f', Inl e)
             | (f', Inr _) \<Rightarrow> (f', Inr total))"

section \<open>The open-position guard\<close>

definition MAX_OPEN_STRATEGY_POSITIONS :: nat where "MAX_OPEN_STRATEGY_POSITIONS = 1"

definition open_count :: "kv_file \<Rightarrow> nat res" where
  "open_count f = res_bind (kv_all f) (\<lambda>d. Inr (length d))"

definition opg_is_blocked :: "kv_file \<Rightarrow> bool res" where
  "opg_is_blocked f = res_bind (open_count f) (\<lambda>n. Inr (MAX_OPEN_STRATEGY_POSITIONS \<le> n))"

definition register_open ::
  "save_env \<Rightarrow> string \<Rightarrow> string \<Rightarrow> string \<Rightarrow> string option \<Rightarrow> rat option \<Rightarrow> rat option \<Rightarrow> kv_file \<Rightarrow> kv_file \<times> unit res" where
  "register_open env position_id strategy_id sy setup_id risk_amount volume f =
     kv_put env position_id
       (JDict ([(''strategy_id'', JStr strategy_id), (''symbol'', JStr sy)]
               @ (case setup_id of None \<Rightarrow> [] | Some s \<Rightarrow> [(''setup_id'', JStr s)])
               @ (case risk_amount of None \<Rightarrow> [] | Some r \<Rightarrow> [(''risk_amount'', JFloat r)])
               @ (case volume of None \<Rightarrow> [] | Some v \<Rightarrow> [(''volume'', JFloat v)]))) f"

definition register_closed :: "save_env \<Rightarrow> string \<Rightarrow> kv_file \<Rightarrow> kv_file \<times> unit res" where
  "register_closed env position_id f = kv_remove env position_id f"

section \<open>Lemmas: sizing\<close>

lemma py_round_nonneg: "0 \<le> x \<Longrightarrow> 0 \<le> py_round n x"
proof -
  assume "0 \<le> x"
  then have "round_even (of_int 0) \<le> round_even (x * 10 ^ n)" by (intro round_even_mono) simp
  then show ?thesis unfolding round_even_of_int by (simp add: py_round_def)
qed

text \<open>What a sized position went through.\<close>

lemma size_position_SizedD:
  assumes "size_position entry stop equity pct meta = Inr (Sized v a)"
  defines "lpl \<equiv> fmul \<bar>fsub entry stop\<bar> (fquot (tick_value meta) (tick_size meta))"
    and "b \<equiv> risk_budget equity pct"
  shows "0 < \<bar>fsub entry stop\<bar>" "a = fmul v lpl"
    "a \<le> fadd b (max (fmul b (fl (1 / 10 ^ 6))) (fl (1 / 10 ^ 6)))"
    "fsub (volume_min meta) FLOAT_TOL \<le> v" "v \<le> fadd (volume_max meta) FLOAT_TOL"
    "v = py_round 8 (fmul (fl (of_int \<lfloor>fadd (fquot (fquot b lpl) (volume_step meta)) FLOAT_TOL\<rfloor>)) (volume_step meta))"
  using assms(1) unfolding assms(2,3) size_position_def
  by (auto simp: Let_def split: if_splits)

lemma budget_le:
  assumes "0 \<le> equity" "0 \<le> pct"
  shows "0 \<le> risk_budget equity pct" "risk_budget equity pct \<le> (1 + 1 / 2 ^ 53) ^ 2 * (equity * pct / 100)"
proof -
  let ?q = "1 + 1 / 2 ^ 53 :: rat"
  have q: "0 \<le> ?q" by simp
  show "0 \<le> risk_budget equity pct" using assms by (simp add: risk_budget_def)
  have "fquot pct 100 \<le> ?q * (pct / 100)" using assms by (intro fl_rel_bounds(2)) simp
  then have "equity * fquot pct 100 \<le> equity * (?q * (pct / 100))" using assms(1) by (rule mult_left_mono)
  then have "?q * (equity * fquot pct 100) \<le> ?q * (equity * (?q * (pct / 100)))" using q by (rule mult_left_mono)
  moreover have "risk_budget equity pct \<le> ?q * (equity * fquot pct 100)"
    unfolding risk_budget_def using assms by (intro fl_rel_bounds) simp
  ultimately show "risk_budget equity pct \<le> ?q ^ 2 * (equity * pct / 100)"
    by (simp add: power2_eq_square)
qed

text \<open>Three roundings lose at most a factor \<open>(1 - 2 ^ -53) ^ 4\<close> of the exact loss at the stop.\<close>

lemma loss_ge:
  assumes "0 \<le> v" "0 \<le> tv" "0 < ts"
  shows "(1 - 1 / 2 ^ 53) ^ 4 * (v * (\<bar>e - s\<bar> * (tv / ts))) \<le> fmul v (fmul \<bar>fsub e s\<bar> (fquot tv ts))"
proof -
  let ?c = "1 - 1 / 2 ^ 53 :: rat"
  have c: "0 \<le> ?c" by simp
  have d: "?c * \<bar>e - s\<bar> \<le> \<bar>fsub e s\<bar>" unfolding b64.rnd_abs by (rule fl_rel_bounds(1)) simp
  have u: "?c * (tv / ts) \<le> fquot tv ts" using assms by (intro fl_rel_bounds(1)) simp
  have q0: "0 \<le> fquot tv ts" "0 \<le> tv / ts" using assms by simp_all
  have "(?c * \<bar>e - s\<bar>) * (?c * (tv / ts)) \<le> \<bar>fsub e s\<bar> * fquot tv ts"
    using d u c q0 by (intro mult_mono) auto
  then have "?c * ((?c * \<bar>e - s\<bar>) * (?c * (tv / ts))) \<le> ?c * (\<bar>fsub e s\<bar> * fquot tv ts)"
    using c by (rule mult_left_mono)
  also have "\<dots> \<le> fmul \<bar>fsub e s\<bar> (fquot tv ts)" using q0 by (intro fl_rel_bounds(1)) simp
  finally have l: "?c ^ 3 * (\<bar>e - s\<bar> * (tv / ts)) \<le> fmul \<bar>fsub e s\<bar> (fquot tv ts)"
    by (simp add: power3_eq_cube mult.assoc mult.left_commute)
  have "?c * (v * (?c ^ 3 * (\<bar>e - s\<bar> * (tv / ts)))) \<le> ?c * (v * fmul \<bar>fsub e s\<bar> (fquot tv ts))"
    using l assms(1) c by (intro mult_left_mono)
  also have "\<dots> \<le> fmul v (fmul \<bar>fsub e s\<bar> (fquot tv ts))"
    using assms(1) q0 by (intro fl_rel_bounds(1)) simp
  finally show ?thesis by (simp add: power3_eq_cube power4_eq_xxxx mult.assoc mult.left_commute)
qed

text \<open>The slack the budget test allows, in exact arithmetic.\<close>

lemma slack_le:
  assumes "0 \<le> b" "b \<le> (1 + 1 / 2 ^ 53) ^ 2 * B"
  shows "fadd b (max (fmul b (fl (1 / 10 ^ 6))) (fl (1 / 10 ^ 6)))
         \<le> (1 - 1 / 2 ^ 53) ^ 4 * ((1 + 2 / 10 ^ 6) * B + 2 / 10 ^ 6)"
proof -
  let ?q = "1 + 1 / 2 ^ 53 :: rat"
  have m: "fl (1 / 10 ^ 6) \<le> ?q / 10 ^ 6" using fl_rel_bounds(2) [of "1 / 10 ^ 6"] by simp
  have "fmul b (fl (1 / 10 ^ 6)) \<le> ?q * (b * fl (1 / 10 ^ 6))" using assms by (intro fl_rel_bounds(2)) simp
  also have "\<dots> \<le> ?q * (b * (?q / 10 ^ 6))" using m assms(1) by (intro mult_left_mono) auto
  finally have t1: "fmul b (fl (1 / 10 ^ 6)) \<le> ?q * ?q / 10 ^ 6 * b" by (simp add: mult.commute)
  let ?t = "max (fmul b (fl (1 / 10 ^ 6))) (fl (1 / 10 ^ 6))"
  have t: "?t \<le> ?q * ?q / 10 ^ 6 * b + ?q / 10 ^ 6"
    using t1 m assms(1) by (auto simp: max_def)
  have "0 \<le> b + ?t" using assms(1) by (simp add: max_def)
  then have "fadd b ?t \<le> ?q * (b + ?t)" by (rule fl_rel_bounds(2))
  also have "\<dots> \<le> ?q * (b + (?q * ?q / 10 ^ 6 * b + ?q / 10 ^ 6))" using t by (intro mult_left_mono) auto
  also have "\<dots> \<le> (1 - 1 / 2 ^ 53) ^ 4 * ((1 + 2 / 10 ^ 6) * B + 2 / 10 ^ 6)"
    using assms by (simp add: power2_eq_square power4_eq_xxxx algebra_simps)
  finally show ?thesis .
qed

lemma size_position_volume_nonneg:
  assumes "size_position entry stop equity pct meta = Inr (Sized v a)"
    and "0 \<le> equity" "0 \<le> pct" "0 \<le> tick_value meta" "0 < tick_size meta" "0 < volume_step meta"
  shows "0 \<le> v"
proof -
  have "0 \<le> FLOAT_TOL" by (simp add: FLOAT_TOL_def)
  then show ?thesis unfolding size_position_SizedD(6) [OF assms(1)]
    using assms(2-6) budget_le(1) [OF assms(2,3)] by (intro py_round_nonneg) (simp add: zero_le_mult_iff)
qed

section \<open>Lemmas: the guards over the store\<close>

lemma py_float_canon: "py_float (canon v) = py_float v"
  by (cases v) auto

lemma realized_of_canon:
  assumes "wf_json v"
  shows "realized_of (canon v) = realized_of v"
proof (cases v)
  case (JDict d)
  then have "wf_dict d" using assms wf_json_dict by simp
  from canon_dict_view [OF this] truthy_canon [of v]
  show ?thesis by (auto simp: realized_of_def JDict py_float_canon split: option.split)
qed (auto simp: realized_of_def)

lemma dlg_key_inj:
  assumes "dlg_key s d = dlg_key s' d'" "valid_date d" "valid_date d'"
  shows "s = s' \<and> d = d'"
proof -
  have "length (iso_date d) = length (iso_date d')" by (simp add: iso_date_def Let_def split: prod.split)
  with assms(1) have "s = s'" "iso_date d = iso_date d'" by (auto simp: dlg_key_def)
  with iso_date_inj assms(2,3) show ?thesis by blast
qed

text \<open>One recorded result: acknowledged, it adds to its own strategy and day and to no other;
  refused, it changes nothing.\<close>

abbreviation r_row :: "rat \<Rightarrow> json" where "r_row x \<equiv> JDict [(''realized_r'', JFloat x)]"

lemma record_unfold:
  assumes "realized_r s d f = Inr x"
  shows "fst (record_trade_result env s d r f) = fst (kv_put env (dlg_key s d) (r_row (fadd x r)) f)"
    "snd (record_trade_result env s d r f) =
      (case snd (kv_put env (dlg_key s d) (r_row (fadd x r)) f) of Inl e \<Rightarrow> Inl e | Inr _ \<Rightarrow> Inr (fadd x r))"
  using assms by (auto simp: record_trade_result_def Let_def split: sum.split prod.split)

lemma record_unreadable: "realized_r s d f = Inl e \<Longrightarrow> record_trade_result env s d r f = (f, Inl e)"
  by (simp add: record_trade_result_def)

lemma record_wf: "kv_wf f \<Longrightarrow> kv_wf (fst (record_trade_result env s d r f))"
  using kv.put_wf by (cases "realized_r s d f") (simp_all add: record_unfold record_unreadable)

lemma record_fail: "snd (record_trade_result env s d r f) = Inl e \<Longrightarrow> fst (record_trade_result env s d r f) = f"
  using kv.put_fail
  by (cases "realized_r s d f") (auto simp: record_unfold record_unreadable split: sum.splits)

lemma record_ok:
  assumes "kv_wf f" "snd (record_trade_result env s d r f) = Inr t"
  obtains m m' x where "kv_view f = Some m" "realized_r s d f = Inr x" "t = fadd x r"
    "kv_view (fst (record_trade_result env s d r f)) = Some m'"
    "m' = (map_option canon \<circ> m)(dlg_key s d \<mapsto> r_row t)"
proof -
  from assms(2) obtain x where x: "realized_r s d f = Inr x"
    by (cases "realized_r s d f") (auto simp: record_unreadable)
  with assms(2) have p: "snd (kv_put env (dlg_key s d) (r_row (fadd x r)) f) = Inr ()" "t = fadd x r"
    by (auto simp: record_unfold split: sum.splits)
  from kv.put_ok [OF assms(1) p(1)] obtain m where "kv_view f = Some m"
    "kv_view (fst (kv_put env (dlg_key s d) (r_row (fadd x r)) f)) = Some ((map_option canon \<circ> m)(dlg_key s d \<mapsto> canon (r_row (fadd x r))))"
    by blast
  with x p(2) that show ?thesis by (simp add: record_unfold)
qed

lemma record_realized:
  assumes "kv_wf f" "snd (record_trade_result env s d r f) = Inr t" "valid_date d" "valid_date d'"
    and "realized_r s' d' f = Inr x"
  shows "realized_r s' d' (fst (record_trade_result env s d r f)) =
         Inr (if s' = s \<and> d' = d then fadd x r else x)"
proof -
  obtain m m' y where m: "kv_view f = Some m" "realized_r s d f = Inr y" "t = fadd y r"
    "kv_view (fst (record_trade_result env s d r f)) = Some m'"
    "m' = (map_option canon \<circ> m)(dlg_key s d \<mapsto> r_row t)"
    using record_ok [OF assms(1,2)] by blast
  show ?thesis
  proof (cases "s' = s \<and> d' = d")
    case True
    with m assms(5) show ?thesis
      by (simp add: realized_r_def kv_get_view [OF m(4)] realized_of_def)
  next
    case False
    then have "dlg_key s' d' \<noteq> dlg_key s d" using dlg_key_inj assms(3,4) by blast
    with assms(5) False m(1,5) kv.view_wf [OF assms(1) m(1)] show ?thesis
      by (auto simp: realized_r_def kv_get_view [OF m(4)] kv_get_view [OF m(1)] realized_of_canon split: option.splits)
  qed
qed

text \<open>A history of recorded results, with what each call returned.\<close>

type_synonym result_call = "save_env \<times> string \<times> date \<times> rat"

fun record_all :: "result_call list \<Rightarrow> kv_file \<Rightarrow> kv_file \<times> rat res list" where
  "record_all [] f = (f, [])"
| "record_all ((env, s, d, r) # cs) f =
     (case record_trade_result env s d r f of (f', o1) \<Rightarrow>
        case record_all cs f' of (f'', os) \<Rightarrow> (f'', o1 # os))"

fun acknowledged :: "string \<Rightarrow> date \<Rightarrow> result_call list \<Rightarrow> rat res list \<Rightarrow> rat list" where
  "acknowledged s d ((_, s', d', r) # cs) (Inr _ # os) =
     (if s' = s \<and> d' = d then [r] else []) @ acknowledged s d cs os"
| "acknowledged s d (_ # cs) (Inl _ # os) = acknowledged s d cs os"
| "acknowledged s d _ _ = []"

lemma record_all_realized:
  assumes "kv_wf f" "realized_r s d f = Inr x" "valid_date d" "\<forall>(_, _, d', _) \<in> set cs. valid_date d'"
  shows "realized_r s d (fst (record_all cs f)) = Inr (foldl fadd x (acknowledged s d cs (snd (record_all cs f))))"
  using assms
proof (induction cs arbitrary: f x)
  case (Cons c cs)
  obtain env s' d' r where c: "c = (env, s', d', r)" by (cases c)
  let ?f = "fst (record_trade_result env s' d' r f)"
  have wf: "kv_wf ?f" using Cons.prems(1) by (rule record_wf)
  show ?case
  proof (cases "snd (record_trade_result env s' d' r f)")
    case (Inl e)
    with Cons record_fail [OF Inl] show ?thesis by (simp add: c split_beta)
  next
    case (Inr t)
    have "realized_r s d ?f = Inr (if s = s' \<and> d = d' then fadd x r else x)"
      using record_realized [OF Cons.prems(1) Inr _ Cons.prems(3,2)] Cons.prems(4) by (simp add: c)
    from Cons.IH [OF wf this Cons.prems(3)] Cons.prems(4) Inr show ?thesis by (auto simp: c split_beta)
  qed
qed simp

section \<open>Lemmas: the open positions\<close>

datatype pos_call =
    Opened save_env string string string "string option" "rat option" "rat option"
  | Closed save_env string

fun pos_step :: "pos_call \<Rightarrow> kv_file \<Rightarrow> kv_file \<times> unit res" where
  "pos_step (Opened env p s sy sid ra vol) f = register_open env p s sy sid ra vol f"
| "pos_step (Closed env p) f = register_closed env p f"

text \<open>What an acknowledged call does to the set of open position ids.\<close>

fun pos_effect :: "pos_call \<Rightarrow> string set \<Rightarrow> string set" where
  "pos_effect (Opened _ p _ _ _ _ _) P = insert p P"
| "pos_effect (Closed _ p) P = P - {p}"

fun pos_run :: "pos_call list \<Rightarrow> kv_file \<Rightarrow> string set \<Rightarrow> kv_file \<times> string set" where
  "pos_run [] f P = (f, P)"
| "pos_run (c # cs) f P =
     pos_run cs (fst (pos_step c f)) (case snd (pos_step c f) of Inr _ \<Rightarrow> pos_effect c P | Inl _ \<Rightarrow> P)"

text \<open>The store holds exactly the ids in \<open>P\<close>.\<close>

definition holds_ids :: "kv_file \<Rightarrow> string set \<Rightarrow> bool" where
  "holds_ids f P \<longleftrightarrow> kv_wf f \<and> (\<exists>m. kv_view f = Some m \<and> dom m = P)"

lemma pos_step_ids:
  assumes "holds_ids f P"
  shows "holds_ids (fst (pos_step c f)) (case snd (pos_step c f) of Inr _ \<Rightarrow> pos_effect c P | Inl _ \<Rightarrow> P)"
proof -
  from assms obtain m where m: "kv_wf f" "kv_view f = Some m" "dom m = P" by (auto simp: holds_ids_def)
  show ?thesis
  proof (cases c)
    case (Opened env p s sy sid ra vol)
    let ?v = "JDict ([(''strategy_id'', JStr s), (''symbol'', JStr sy)]
               @ (case sid of None \<Rightarrow> [] | Some s \<Rightarrow> [(''setup_id'', JStr s)])
               @ (case ra of None \<Rightarrow> [] | Some r \<Rightarrow> [(''risk_amount'', JFloat r)])
               @ (case vol of None \<Rightarrow> [] | Some v \<Rightarrow> [(''volume'', JFloat v)]))"
    have v: "wf_json ?v" by (auto split: option.split)
    show ?thesis
    proof (cases env p ?v f rule: kv.put_cases)
      case ok
      with kv.put_dom [OF m(1) ok m(2)] kv.put_wf [OF m(1) v] m(3) show ?thesis
        by (simp add: Opened register_open_def holds_ids_def)
    next
      case (fail err)
      with assms show ?thesis by (simp add: Opened register_open_def)
    qed
  next
    case (Closed env p)
    show ?thesis
    proof (cases env p f rule: kv.remove_cases)
      case ok
      with kv.remove_dom [OF m(1) ok m(2)] kv.remove_wf [OF m(1)] m(3) show ?thesis
        by (simp add: Closed register_closed_def holds_ids_def)
    next
      case (fail err)
      with assms show ?thesis by (simp add: Closed register_closed_def)
    qed
  qed
qed

lemma holds_ids_count:
  assumes "holds_ids f P"
  shows "open_count f = Inr (card P)" "opg_is_blocked f = Inr (P \<noteq> {})"
proof -
  from assms obtain d where d: "kv_load f = Inr d" "kv_wf f" "P = dom (map_of d)"
    by (auto simp: holds_ids_def kv_view_load)
  have "wf_dict d" using kv_load_wf [OF d(2,1)] by (rule wf_json_dict)
  then have "card P = length d" unfolding d(3) dom_map_of_conv_image_fst wf_dict_def
    by (metis distinct_card length_map set_map)
  then show c: "open_count f = Inr (card P)" by (simp add: open_count_def kv_all_def d(1))
  have "finite P" by (simp add: d(3) finite_dom_map_of)
  then show "opg_is_blocked f = Inr (P \<noteq> {})"
    by (auto simp: opg_is_blocked_def c MAX_OPEN_STRATEGY_POSITIONS_def card_gt_0_iff Suc_le_eq)
qed

lemma pos_run_ids: "holds_ids f P \<Longrightarrow> pos_run cs f P = (f', P') \<Longrightarrow> holds_ids f' P'"
proof (induction cs arbitrary: f P)
  case (Cons c cs)
  then show ?case using pos_step_ids [of f P c] by auto
qed simp

section \<open>Properties\<close>

text \<open>C37. A sized position risks, in exact arithmetic and not only in the rounded one the code
  computes, at most the budget with a slack of two millionths (plus two millionths of a currency
  unit): the loss if the stop is hit is bounded by equity * pct / 100. The volume lies within the
  broker's limits up to the code's tolerance.\<close>

theorem sizing_exact_risk:
  assumes "size_position entry stop equity pct meta = Inr (Sized v a)"
    and "0 \<le> equity" "0 \<le> pct" "0 \<le> tick_value meta" "0 < tick_size meta" "0 < volume_step meta"
  shows "v * (\<bar>entry - stop\<bar> * (tick_value meta / tick_size meta))
           \<le> (1 + 2 / 10 ^ 6) * (equity * pct / 100) + 2 / 10 ^ 6
         \<and> fsub (volume_min meta) FLOAT_TOL \<le> v \<and> v \<le> fadd (volume_max meta) FLOAT_TOL \<and> 0 \<le> v"
proof -
  have v: "0 \<le> v" by (rule size_position_volume_nonneg [OF assms])
  note s = size_position_SizedD [OF assms(1)]
  let ?c = "(1 - 1 / 2 ^ 53) ^ 4 :: rat"
  let ?X = "v * (\<bar>entry - stop\<bar> * (tick_value meta / tick_size meta))"
  have "?c * ?X \<le> a" unfolding s(2) using v assms(4,5) by (rule loss_ge)
  also have "a \<le> ?c * ((1 + 2 / 10 ^ 6) * (equity * pct / 100) + 2 / 10 ^ 6)"
    using s(3) slack_le [OF budget_le [OF assms(2,3)]] by (rule order_trans)
  finally have "?X \<le> (1 + 2 / 10 ^ 6) * (equity * pct / 100) + 2 / 10 ^ 6"
    by (rule mult_left_le_imp_le) simp
  with s(4,5) v show ?thesis by blast
qed

definition demo_meta :: symbol_meta where
  "demo_meta = \<lparr>sm_symbol = ''XAUUSD'', tick_size = fl (1 / 100), tick_value = 1, contract_size = 100,
     volume_min = fl (1 / 100), volume_max = 50, volume_step = fl (1 / 100), digits = 2, point = fl (1 / 100),
     trade_stops_level = 0, trade_freeze_level = 0, metadata_source = ''EXCHANGE_VERIFIED''\<rparr>"

theorem sizing_exact_risk_witness:
  "\<exists>v a. size_position 2000 1995 10000 1 demo_meta = Inr (Sized v a) \<and> 0 < v \<and>
     v * (\<bar>2000 - 1995\<bar> * (tick_value demo_meta / tick_size demo_meta))
           \<le> (1 + 2 / 10 ^ 6) * (10000 * 1 / 100) + 2 / 10 ^ 6"
proof -
  have "case size_position 2000 1995 10000 1 demo_meta of Inr (Sized v a) \<Rightarrow> 0 < v | _ \<Rightarrow> False" by code_simp
  then obtain v a where s: "size_position 2000 1995 10000 1 demo_meta = Inr (Sized v a)" "0 < v"
    by (auto split: sum.splits sizing.splits)
  have "0 \<le> tick_value demo_meta" "0 < tick_size demo_meta" "0 < volume_step demo_meta" by code_simp+
  from sizing_exact_risk [OF s(1) _ _ this] s show ?thesis by auto
qed

text \<open>C38. The realized R of a strategy and day after any history of recorded results is the float sum,
  in order, of the results that were acknowledged for that strategy and that day: results of other
  strategies and days, and results whose write failed, leave it alone. The circuit breaker trips
  exactly when that sum is at most -2.\<close>

theorem daily_loss_ledger:
  assumes "kv_wf f" "realized_r s d f = Inr x" "valid_date d" "\<forall>(_, _, d', _) \<in> set calls. valid_date d'"
    and "record_all calls f = (f', outcomes)"
  shows "realized_r s d f' = Inr (foldl fadd x (acknowledged s d calls outcomes)) \<and>
         dlg_is_blocked s d f' = Inr (foldl fadd x (acknowledged s d calls outcomes) \<le> - 2)"
  using record_all_realized [OF assms(1-4)] assms(5) by (simp add: dlg_is_blocked_def DAILY_LOSS_CIRCUIT_R_def)

definition good_disk :: save_env where
  "good_disk = \<lparr>tmp_written = True, replace_try = (\<lambda>n. if n < 3 then PermissionDenied else Replaced)\<rparr>"

definition bad_disk :: save_env where
  "bad_disk = \<lparr>tmp_written = True, replace_try = (\<lambda>n. PermissionDenied)\<rparr>"

definition demo_calls :: "result_call list" where
  "demo_calls = [(good_disk, ''A'', 738000, - 1), (bad_disk, ''A'', 738000, - 5), (good_disk, ''B'', 738000, - 4),
     (good_disk, ''A'', 738001, 3), (good_disk, ''A'', 738000, - 1)]"

theorem daily_loss_ledger_witness:
  "dlg_is_blocked ''A'' 738000 (fst (record_all demo_calls KvMissing)) = Inr True"
proof -
  have x: "realized_r ''A'' 738000 KvMissing = Inr 0" "kv_wf KvMissing" by code_simp+
  have v: "valid_date 738000" "\<forall>(_, _, d', _) \<in> set demo_calls. valid_date d'" by code_simp+
  have "foldl fadd 0 (acknowledged ''A'' 738000 demo_calls (snd (record_all demo_calls KvMissing))) \<le> - 2"
    by code_simp
  with daily_loss_ledger [OF x(2,1) v prod.collapse [symmetric]] show ?thesis by simp
qed

text \<open>Over any history of acknowledged and failed calls the open-position store holds exactly the ids
  opened and not closed since, its count is their number, and a new position is blocked exactly
  while one is open.\<close>

theorem open_position_guard:
  assumes "holds_ids f P" "pos_run calls f P = (f', P')"
  shows "open_count f' = Inr (card P') \<and> opg_is_blocked f' = Inr (P' \<noteq> {}) \<and> holds_ids f' P'"
  using holds_ids_count [OF pos_run_ids [OF assms]] pos_run_ids [OF assms] by blast

theorem open_position_guard_witness:
  "let (f, P) = pos_run [Opened good_disk ''T1'' ''S'' ''EURUSD'' None None None, Opened bad_disk ''T2'' ''S'' ''EURUSD'' None None None,
      Closed bad_disk ''T1''] KvMissing {} in P = {''T1''} \<and> opg_is_blocked f = Inr True"
proof -
  let ?cs = "[Opened good_disk ''T1'' ''S'' ''EURUSD'' None None None, Opened bad_disk ''T2'' ''S'' ''EURUSD'' None None None,
      Closed bad_disk ''T1'']"
  have h: "holds_ids KvMissing {}" by (simp add: holds_ids_def kv_wf_def kv_view_def kv_load_def)
  have "snd (pos_run ?cs KvMissing {}) = {''T1''}" by code_simp
  with open_position_guard [OF h prod.collapse [symmetric], of ?cs] show ?thesis by (simp add: split_beta Let_def)
qed

text \<open>A put is acknowledged exactly when the file is readable, the temporary file was written and
  one of the five attempts to replace the file is granted after refusals for permission only; then
  and only then the file is replaced, and a following get returns the value that was put, sorted.\<close>

theorem kv_put_acknowledged:
  "(snd (kv_put env k v f) = Inr () \<longleftrightarrow>
     (\<exists>d. kv_load f = Inr d) \<and> tmp_written env \<and>
     (\<exists>n < 5. replace_try env n = Replaced \<and> (\<forall>i < n. replace_try env i = PermissionDenied))) \<and>
   (snd (kv_put env k v f) = Inr () \<longrightarrow> kv_wf f \<longrightarrow> kv_get (fst (kv_put env k v f)) k = Inr (canon v)) \<and>
   (snd (kv_put env k v f) \<noteq> Inr () \<longrightarrow> fst (kv_put env k v f) = f)"
proof -
  have "snd (kv_put env k v f) = Inr () \<longleftrightarrow>
     (\<exists>d. kv_load f = Inr d) \<and> tmp_written env \<and> replace_with_retry (replace_try env) = Inr ()"
    by (auto simp: kv_put_def save_all_def split: sum.split)
  moreover have "kv_get (fst (kv_put env k v f)) k = Inr (canon v)" if "snd (kv_put env k v f) = Inr ()" "kv_wf f"
    using kv.put_ok [OF that(2,1)] kv_get_view by fastforce
  moreover have "fst (kv_put env k v f) = f" if "snd (kv_put env k v f) \<noteq> Inr ()"
    using that by (cases env k v f rule: kv.put_cases) auto
  ultimately show ?thesis by (auto simp: replace_with_retry_ok_iff REPLACE_MAX_ATTEMPTS_def)
qed

theorem kv_put_acknowledged_witness:
  "kv_get (fst (kv_put good_disk ''k'' (JInt 1) KvMissing)) ''k'' = Inr (JInt 1)"
proof -
  have "snd (kv_put good_disk ''k'' (JInt 1) KvMissing) = Inr ()" "kv_wf KvMissing" by code_simp+
  with kv_put_acknowledged [of good_disk "''k''" "JInt 1" KvMissing] show ?thesis by simp
qed

text \<open>A state file that cannot be read as a JSON object makes every read fail and is never
  overwritten: no write of any operation changes it, so a corrupt ledger is never silently reset.
  A missing file reads as empty.\<close>

theorem kv_corrupt_never_reset:
  "(kv_load f = Inl StateStoreCorrupted \<longleftrightarrow> (f \<noteq> KvMissing \<and> (\<forall>d. f \<noteq> KvJson (JDict d)))) \<and>
   (kv_load f = Inl StateStoreCorrupted \<longrightarrow>
      kv_put env k v f = (f, Inl StateStoreCorrupted) \<and> kv_remove env k f = (f, Inl StateStoreCorrupted) \<and>
      record_trade_result env s d r f = (f, Inl StateStoreCorrupted) \<and>
      dlg_is_blocked s d f = Inl StateStoreCorrupted \<and> opg_is_blocked f = Inl StateStoreCorrupted)"
  by (auto simp: kv_put_def kv_remove_def record_trade_result_def realized_r_def kv_get_def dlg_is_blocked_def
      opg_is_blocked_def open_count_def kv_all_def kv_load_def split: kv_file.splits json.splits)

theorem kv_corrupt_never_reset_witness:
  "record_trade_result good_disk ''A'' 738000 1 (KvJson (JList [])) = (KvJson (JList []), Inl StateStoreCorrupted)"
  using kv_corrupt_never_reset [of "KvJson (JList [])"] by blast

end
