(* ===== verification/Sweep_Retest.thy ===== *)
theory Sweep_Retest
  imports Market_Structure Sizing "HOL-Library.Sublist"
begin

text \<open>
  The liquidity-sweep-retest strategy (src/src/strategy_engine/sweep_retest): the profile and its
  reference box, the H1 trend filter, the M5 sweep, the structure shift, the retest, the target
  plan, the pipeline \<open>evaluate_setup\<close> with its guards, and the enumeration of sweep candidates.
\<close>

section \<open>Profiles (profile.py, config.py, crypto\_symbols.py)\<close>

type_synonym time_window = "int \<times> int"

record market_profile =
  profile_id :: string
  mp_symbols :: "string list"
  reference_kind :: string
  reference_label :: string
  buffer_kind :: string
  execution_windows :: "time_window list"

definition profile_for_symbol :: "string \<Rightarrow> market_profile list \<Rightarrow> market_profile option" where
  "profile_for_symbol sy profiles = find (\<lambda>p. sy \<in> set (mp_symbols p)) profiles"

definition previous_utc_day_window :: "datetime \<Rightarrow> datetime \<times> datetime" where
  "previous_utc_day_window now = (let today_start = now - time_of now in (today_start - day_us, today_start))"

definition filter_previous_day_candles :: "candle list \<Rightarrow> datetime \<Rightarrow> candle list" where
  "filter_previous_day_candles candles now =
     (case previous_utc_day_window now of (start, fin) \<Rightarrow> filter (\<lambda>c. start \<le> c_time c \<and> c_time c < fin) candles)"

definition build_profile_reference_box :: "market_profile \<Rightarrow> candle list \<Rightarrow> int option \<Rightarrow> reference_box option res" where
  "build_profile_reference_box profile candles expected =
     (if candles = [] then Inr None
      else res_bind (build_reference_box (reference_label profile) candles
             (case expected of Some n \<Rightarrow> n | None \<Rightarrow> int (length candles))) (\<lambda>b. Inr (Some b)))"

record profile_config =
  pc_profile :: market_profile
  reference_start_gmt :: string
  reference_end_gmt :: string
  buffer_pips :: rat
  buffer_ticks :: rat

record sr_config =
  sr_strategy_id :: string
  sr_profiles :: "profile_config list"
  entry_ttl_m5_bars :: int
  min_tp2_r_multiple :: rat
  tp1_volume_pct :: rat
  risk_percent :: rat
  max_open_strategy_positions :: int
  daily_loss_circuit_r :: rat

definition instruments_of :: "sr_config \<Rightarrow> string list" where
  "instruments_of cfg = concat (map (\<lambda>p. mp_symbols (pc_profile p)) (sr_profiles cfg))"

definition profile_config_for_symbol :: "sr_config \<Rightarrow> string \<Rightarrow> profile_config option" where
  "profile_config_for_symbol cfg sy = find (\<lambda>p. sy \<in> set (mp_symbols (pc_profile p))) (sr_profiles cfg)"

text \<open>Tick sizes as the source writes them; their text also gives the digits.\<close>

definition CRYPTO_TICK_SIZE :: "(string \<times> string) list" where
  "CRYPTO_TICK_SIZE = [(''BTCUSDT'', ''0.1''), (''ETHUSDT'', ''0.01'')]"

definition crypto_tick :: "string \<Rightarrow> (string \<times> rat) res" where
  "crypto_tick sy =
     (case map_of CRYPTO_TICK_SIZE sy of
        None \<Rightarrow> Inl (ValueError (''no tick size configured for crypto symbol '' @ sy))
      | Some txt \<Rightarrow> (case parse_float txt of Some t \<Rightarrow> Inr (txt, t) | None \<Rightarrow> Inl (ValueError txt)))"

definition crypto_symbol_meta :: "string \<Rightarrow> rat \<Rightarrow> rat \<Rightarrow> rat \<Rightarrow> symbol_meta res" where
  "crypto_symbol_meta sy vmin vmax vstep =
     res_bind (crypto_tick sy) (\<lambda>(txt, tick).
     Inr \<lparr>sm_symbol = sy, tick_size = tick, tick_value = tick, contract_size = 1,
          volume_min = vmin, volume_max = vmax, volume_step = vstep,
          digits = (if CHR ''.'' \<in> set txt then int (length (tl (dropWhile (\<lambda>c. c \<noteq> CHR ''.'') txt))) else 0),
          point = tick, trade_stops_level = 0, trade_freeze_level = 0,
          metadata_source = ''SYNTHETIC_RESEARCH''\<rparr>)"

definition crypto_sl_buffer_price :: "string \<Rightarrow> rat \<Rightarrow> rat res" where
  "crypto_sl_buffer_price sy ticks = res_bind (crypto_tick sy) (\<lambda>(txt, tick). Inr (fmul tick ticks))"

section \<open>Trend filter (trend.py)\<close>

datatype trend_gate = LONG_ONLY | SHORT_ONLY | NO_TRADE

definition h1_trend_direction :: "smc_lib \<Rightarrow> structure_config \<Rightarrow> candle list \<Rightarrow> trend_gate res" where
  "h1_trend_direction smc cfg h1 =
     res_bind (structural_breaks_for_candles smc cfg h1) (\<lambda>evs.
       Inr (case evs of [] \<Rightarrow> NO_TRADE
            | p # ps \<Rightarrow> if is_bullish_kind (kind (latest_point p ps)) then LONG_ONLY else SHORT_ONLY))"

section \<open>Sweep (sweep.py)\<close>

datatype sweep_side = HIGH_SWEEP | LOW_SWEEP

record sweep_event =
  sweep_direction :: sweep_side
  swept_level :: rat
  level_name :: string
  extreme_price :: rat
  candle_time :: datetime
  sweep_candle :: candle
  wick_ratio_hint :: "rat option"

definition wick_ratio :: "candle \<Rightarrow> sweep_side \<Rightarrow> rat option" where
  "wick_ratio c side =
     (let rng = fsub (c_high c) (c_low c)
      in if rng \<le> 0 then None
         else
           let body_edge = (if side = HIGH_SWEEP then max (c_open c) (c_close c) else min (c_open c) (c_close c));
               wick = (if side = HIGH_SWEEP then fsub (c_high c) body_edge else fsub body_edge (c_low c))
           in Some (fquot wick rng))"

definition high_sweep :: "rat \<Rightarrow> candle \<Rightarrow> bool" where
  "high_sweep ref_high c \<longleftrightarrow> ref_high < c_high c \<and> c_close c < ref_high"

definition low_sweep :: "rat \<Rightarrow> candle \<Rightarrow> bool" where
  "low_sweep ref_low c \<longleftrightarrow> c_low c < ref_low \<and> ref_low < c_close c"

text \<open>The body of the scan for one bar: the event it returns, if any.\<close>

definition sweep_hit :: "rat \<Rightarrow> rat \<Rightarrow> sweep_side option \<Rightarrow> candle \<Rightarrow> sweep_event option" where
  "sweep_hit ref_high ref_low req c =
     (if high_sweep ref_high c \<and> low_sweep ref_low c then None
      else if high_sweep ref_high c \<and> (req = None \<or> req = Some HIGH_SWEEP) then
        Some \<lparr>sweep_direction = HIGH_SWEEP, swept_level = ref_high, level_name = ''REF_HIGH'', extreme_price = c_high c,
              candle_time = c_time c, sweep_candle = c, wick_ratio_hint = wick_ratio c HIGH_SWEEP\<rparr>
      else if low_sweep ref_low c \<and> (req = None \<or> req = Some LOW_SWEEP) then
        Some \<lparr>sweep_direction = LOW_SWEEP, swept_level = ref_low, level_name = ''REF_LOW'', extreme_price = c_low c,
              candle_time = c_time c, sweep_candle = c, wick_ratio_hint = wick_ratio c LOW_SWEEP\<rparr>
      else None)"

fun find_qualified_sweep :: "candle list \<Rightarrow> rat \<Rightarrow> rat \<Rightarrow> sweep_side option \<Rightarrow> sweep_event option" where
  "find_qualified_sweep [] ref_high ref_low req = None"
| "find_qualified_sweep (c # cs) ref_high ref_low req =
     (case sweep_hit ref_high ref_low req c of Some e \<Rightarrow> Some e | None \<Rightarrow> find_qualified_sweep cs ref_high ref_low req)"

section \<open>Structure shift (mss.py)\<close>

datatype mss_kind = MSS_BEARISH | MSS_BULLISH

record mss_event =
  mss_kind_of :: mss_kind
  broken_swing_price :: rat
  broken_swing_time :: datetime
  confirming_candle :: candle
  confirmed_at :: datetime

definition most_recent_swing :: "smc_lib \<Rightarrow> structure_config \<Rightarrow> candle list \<Rightarrow> bool \<Rightarrow> rat option res" where
  "most_recent_swing smc cfg candles want_high =
     (if length candles < 3 then Inr None
      else res_bind (full_swings smc candles (swing_length cfg)) (\<lambda>sw.
        let matching = filter (\<lambda>p. kind p = (if want_high then SWING_HIGH else SWING_LOW)) sw
        in Inr (if matching = [] then None else Some (price (last matching)))))"

text \<open>The first bar that closes beyond the swing confirms it.\<close>

definition mss_hit :: "bool \<Rightarrow> rat \<Rightarrow> candle \<Rightarrow> mss_event option" where
  "mss_hit bearish swing c =
     (if (if bearish then c_close c < swing else swing < c_close c) then
        Some \<lparr>mss_kind_of = (if bearish then MSS_BEARISH else MSS_BULLISH), broken_swing_price = swing,
              broken_swing_time = c_time c, confirming_candle = c, confirmed_at = c_time c\<rparr>
      else None)"

fun confirm_mss :: "bool \<Rightarrow> rat \<Rightarrow> candle list \<Rightarrow> mss_event option" where
  "confirm_mss bearish swing [] = None"
| "confirm_mss bearish swing (c # cs) =
     (case mss_hit bearish swing c of Some e \<Rightarrow> Some e | None \<Rightarrow> confirm_mss bearish swing cs)"

definition find_mss :: "smc_lib \<Rightarrow> structure_config \<Rightarrow> sweep_event \<Rightarrow> candle list \<Rightarrow> candle list \<Rightarrow> mss_event option res" where
  "find_mss smc cfg sweep before after =
     (let bearish = (sweep_direction sweep = HIGH_SWEEP)
      in res_bind (most_recent_swing smc cfg before (\<not> bearish)) (\<lambda>swing.
           Inr (case swing of None \<Rightarrow> None | Some s \<Rightarrow> confirm_mss bearish s after)))"

section \<open>Retest (retest.py)\<close>

definition ENTRY_TTL_M5_BARS :: int where "ENTRY_TTL_M5_BARS = 3"

record retest_event =
  entry_price :: rat
  retest_time :: datetime
  retest_candle :: candle
  bars_after_mss :: int

definition retest_touched :: "mss_event \<Rightarrow> candle \<Rightarrow> bool" where
  "retest_touched mss c =
     (if mss_kind_of mss = MSS_BEARISH then broken_swing_price mss \<le> c_high c else c_low c \<le> broken_swing_price mss)"

fun scan_retest :: "mss_event \<Rightarrow> int \<Rightarrow> candle list \<Rightarrow> retest_event option" where
  "scan_retest mss i [] = None"
| "scan_retest mss i (c # cs) =
     (if retest_touched mss c then
        Some \<lparr>entry_price = broken_swing_price mss, retest_time = c_time c, retest_candle = c, bars_after_mss = i\<rparr>
      else scan_retest mss (i + 1) cs)"

text \<open>\<open>xs[:n]\<close> of a list: a negative \<open>n\<close> counts from the end.\<close>

definition py_prefix :: "int \<Rightarrow> 'a list \<Rightarrow> 'a list" where
  "py_prefix n xs = (if 0 \<le> n then take (nat n) xs else take (length xs - nat (- n)) xs)"

definition find_retest :: "mss_event \<Rightarrow> candle list \<Rightarrow> int \<Rightarrow> retest_event option" where
  "find_retest mss after ttl = scan_retest mss 1 (py_prefix ttl after)"

section \<open>Targets (targets.py)\<close>

definition MIN_TP2_R_MULTIPLE :: rat where "MIN_TP2_R_MULTIPLE = 3 / 2"

definition DEFAULT_SL_BUFFER_PIPS :: rat where "DEFAULT_SL_BUFFER_PIPS = 5 / 2"

definition pip_size :: "symbol_meta \<Rightarrow> rat" where
  "pip_size meta = (if digits meta = 3 \<or> digits meta = 5 then fmul (point meta) 10 else point meta)"

definition forex_sl_buffer_price :: "symbol_meta \<Rightarrow> rat \<Rightarrow> rat" where
  "forex_sl_buffer_price meta pips = fmul pips (pip_size meta)"

record target_plan =
  plan_valid :: bool
  tp_direction :: direction
  tp_entry :: rat
  tp_stop_loss :: rat
  tp_tp1 :: rat
  tp_tp2 :: rat
  tp_risk_distance :: "rat option"
  tp_tp2_r_multiple :: "rat option"
  tp_reason_code :: "string option"

text \<open>The direction argument is a string in the source and any other value raises; the pipeline only
  passes the two directions.\<close>

definition build_target_plan :: "direction \<Rightarrow> rat \<Rightarrow> rat \<Rightarrow> rat \<Rightarrow> rat \<Rightarrow> rat \<Rightarrow> rat \<Rightarrow> target_plan" where
  "build_target_plan dir entry extreme ref_mid ref_high ref_low buffer =
     (let stop_loss = (if dir = SHORT then fadd extreme buffer else fsub extreme buffer);
          tp1 = ref_mid;
          tp2 = (if dir = SHORT then ref_low else ref_high);
          risk = (if dir = SHORT then fsub stop_loss entry else fsub entry stop_loss);
          ok = (0 < risk \<and> (if dir = SHORT then tp1 < entry \<and> tp2 < entry else entry < tp1 \<and> entry < tp2));
          reward = (if dir = SHORT then fsub entry tp2 else fsub tp2 entry)
      in if \<not> ok then
           \<lparr>plan_valid = False, tp_direction = dir, tp_entry = entry, tp_stop_loss = stop_loss, tp_tp1 = tp1, tp_tp2 = tp2,
            tp_risk_distance = (if 0 < risk then Some risk else None), tp_tp2_r_multiple = None,
            tp_reason_code = Some ''NO_TRADE_TARGET_GEOMETRY''\<rparr>
         else
           let r = fquot reward risk
           in if r < MIN_TP2_R_MULTIPLE then
                \<lparr>plan_valid = False, tp_direction = dir, tp_entry = entry, tp_stop_loss = stop_loss, tp_tp1 = tp1, tp_tp2 = tp2,
                 tp_risk_distance = Some risk, tp_tp2_r_multiple = Some r,
                 tp_reason_code = Some ''NO_TRADE_TARGET_GEOMETRY''\<rparr>
              else
                \<lparr>plan_valid = True, tp_direction = dir, tp_entry = entry, tp_stop_loss = stop_loss, tp_tp1 = tp1, tp_tp2 = tp2,
                 tp_risk_distance = Some risk, tp_tp2_r_multiple = Some r, tp_reason_code = None\<rparr>)"

section \<open>The setup state (models.py)\<close>

datatype setup_phase =
    WAITING_REFERENCE | WAITING_WINDOW | WAITING_SWEEP | SWEEP_DETECTED | WAITING_MSS | MSS_CONFIRMED
  | WAITING_RETEST | ENTRY_READY | ORDER_SUBMITTED | POSITION_OPEN | TP1_HIT | RUNNER_ACTIVE
  | TP2_HIT | STOPPED | SETUP_EXPIRED | SESSION_EXPIRED | NO_TRADE_DIRECTION | NO_TRADE_TARGET_GEOMETRY
  | BLOCKED_DAILY_LOSS | BLOCKED_OPEN_POSITION

definition TERMINAL_STATES :: "setup_phase list" where
  "TERMINAL_STATES = [TP2_HIT, STOPPED, SETUP_EXPIRED, SESSION_EXPIRED, NO_TRADE_DIRECTION,
     NO_TRADE_TARGET_GEOMETRY, BLOCKED_DAILY_LOSS, BLOCKED_OPEN_POSITION]"

record setup_state =
  setup_id :: string
  ss_strategy_id :: string
  ss_symbol :: string
  ss_state :: setup_phase
  reason_code :: string
  evaluated_at :: "datetime option"
  ss_direction :: "direction option"
  ss_profile_id :: "string option"
  ref_high :: "rat option"
  ref_low :: "rat option"
  ref_mid :: "rat option"
  sweep_level :: "rat option"
  sweep_extreme :: "rat option"
  sweep_time :: "datetime option"
  ss_broken_swing_price :: "rat option"
  mss_time :: "datetime option"
  ss_entry :: "rat option"
  ss_stop_loss :: "rat option"
  ss_tp1 :: "rat option"
  ss_tp2 :: "rat option"
  ss_risk_distance :: "rat option"
  ss_tp2_r_multiple :: "rat option"
  ss_volume :: "rat option"
  ss_risk_amount :: "rat option"
  evidence :: "(string \<times> json) list"
  strategy_qualified :: bool
  tradability_blocked :: bool
  tradability_reason :: "string option"

section \<open>The pipeline (engine.py)\<close>

text \<open>The keyword arguments of \<open>evaluate_setup\<close>. A daily-loss guard is its store and strategy id, an
  open-position guard is its store.\<close>

record setup_args =
  a_setup_id :: string
  a_strategy_id :: string
  a_symbol :: string
  a_trading_day :: date
  a_profile :: market_profile
  a_reference_candles :: "candle list"
  a_h1_candles :: "candle list"
  a_m5_candles :: "candle list"
  a_execution_windows :: "time_window list"
  a_equity :: rat
  a_symbol_meta :: symbol_meta
  a_risk_percent :: rat
  a_stop_buffer_price :: rat
  a_expected_bar_count :: "int option"
  a_entry_ttl :: int
  a_config :: structure_config
  a_daily_loss_guard :: "(kv_file \<times> string) option"
  a_open_position_guard :: "kv_file option"
  a_session_window_closed :: bool
  a_now :: "datetime option"
  a_sweep_search_after :: "datetime option"

definition in_execution_windows :: "datetime \<Rightarrow> time_window list \<Rightarrow> bool" where
  "in_execution_windows t windows \<longleftrightarrow> list_ex (\<lambda>(start, fin). start \<le> time_of t \<and> time_of t < fin) windows"

fun sweep_requirement_for_h1_direction :: "trend_gate \<Rightarrow> (sweep_side \<times> direction) option" where
  "sweep_requirement_for_h1_direction LONG_ONLY = Some (LOW_SWEEP, LONG)"
| "sweep_requirement_for_h1_direction SHORT_ONLY = Some (HIGH_SWEEP, SHORT)"
| "sweep_requirement_for_h1_direction NO_TRADE = None"

text \<open>A state with the base fields and the dataclass defaults.\<close>

definition base_state :: "setup_args \<Rightarrow> setup_phase \<Rightarrow> string \<Rightarrow> setup_state" where
  "base_state a phase reason =
     \<lparr>setup_id = a_setup_id a, ss_strategy_id = a_strategy_id a, ss_symbol = a_symbol a, ss_state = phase,
      reason_code = reason, evaluated_at = a_now a, ss_direction = None, ss_profile_id = Some (profile_id (a_profile a)),
      ref_high = None, ref_low = None, ref_mid = None, sweep_level = None, sweep_extreme = None, sweep_time = None,
      ss_broken_swing_price = None, mss_time = None, ss_entry = None, ss_stop_loss = None, ss_tp1 = None, ss_tp2 = None,
      ss_risk_distance = None, ss_tp2_r_multiple = None, ss_volume = None, ss_risk_amount = None, evidence = [],
      strategy_qualified = False, tradability_blocked = False, tradability_reason = None\<rparr>"

definition box_evidence :: "reference_box \<Rightarrow> setup_state \<Rightarrow> setup_state" where
  "box_evidence box s =
     s\<lparr>ref_high := Some (session_high box), ref_low := Some (session_low box), ref_mid := Some (session_mid box)\<rparr>"

definition sweep_evidence :: "direction \<Rightarrow> sweep_event \<Rightarrow> setup_state \<Rightarrow> setup_state" where
  "sweep_evidence dir sweep s =
     s\<lparr>ss_direction := Some dir, sweep_level := Some (swept_level sweep), sweep_extreme := Some (extreme_price sweep),
       sweep_time := Some (candle_time sweep)\<rparr>"

definition mss_evidence :: "mss_event \<Rightarrow> setup_state \<Rightarrow> setup_state" where
  "mss_evidence mss s = s\<lparr>ss_broken_swing_price := Some (broken_swing_price mss), mss_time := Some (confirmed_at mss)\<rparr>"

definition plan_evidence :: "target_plan \<Rightarrow> setup_state \<Rightarrow> setup_state" where
  "plan_evidence plan s =
     s\<lparr>ss_entry := Some (tp_entry plan), ss_stop_loss := Some (tp_stop_loss plan), ss_tp1 := Some (tp_tp1 plan),
       ss_tp2 := Some (tp_tp2 plan), ss_risk_distance := tp_risk_distance plan, ss_tp2_r_multiple := tp_tp2_r_multiple plan\<rparr>"

text \<open>The guards, read only for a setup that qualified.\<close>

definition guard_blocked :: "(kv_file \<times> string) option \<Rightarrow> date \<Rightarrow> bool res" where
  "guard_blocked g day = (case g of None \<Rightarrow> Inr False | Some (f, sid) \<Rightarrow> dlg_is_blocked sid day f)"

definition slot_blocked :: "kv_file option \<Rightarrow> bool res" where
  "slot_blocked g = (case g of None \<Rightarrow> Inr False | Some f \<Rightarrow> opg_is_blocked f)"

definition apply_guards :: "setup_args \<Rightarrow> setup_state \<Rightarrow> setup_state res" where
  "apply_guards a q =
     (case guard_blocked (a_daily_loss_guard a) (a_trading_day a) of
        Inl e \<Rightarrow> Inl e
      | Inr True \<Rightarrow> Inr (q\<lparr>ss_state := BLOCKED_DAILY_LOSS, reason_code := ''BLOCKED_DAILY_LOSS'',
                           tradability_blocked := True, tradability_reason := Some ''BLOCKED_DAILY_LOSS''\<rparr>)
      | Inr False \<Rightarrow>
          (case slot_blocked (a_open_position_guard a) of
             Inl e \<Rightarrow> Inl e
           | Inr True \<Rightarrow> Inr (q\<lparr>ss_state := BLOCKED_OPEN_POSITION, reason_code := ''BLOCKED_OPEN_POSITION'',
                                tradability_blocked := True, tradability_reason := Some ''BLOCKED_OPEN_POSITION''\<rparr>)
           | Inr False \<Rightarrow> Inr q))"

text \<open>From the retest on: target plan, sizing, guards.\<close>

definition evaluate_plan :: "setup_args \<Rightarrow> reference_box \<Rightarrow> direction \<Rightarrow> sweep_event \<Rightarrow> mss_event \<Rightarrow> retest_event \<Rightarrow> setup_state res" where
  "evaluate_plan a box dir sweep mss retest =
     (let plan = build_target_plan dir (entry_price retest) (extreme_price sweep) (session_mid box) (session_high box)
                   (session_low box) (a_stop_buffer_price a);
          st = (\<lambda>phase reason. plan_evidence plan (mss_evidence mss (sweep_evidence dir sweep (box_evidence box (base_state a phase reason)))))
      in if \<not> plan_valid plan then Inr (st NO_TRADE_TARGET_GEOMETRY ''NO_TRADE_TARGET_GEOMETRY'')
         else case size_position (tp_entry plan) (tp_stop_loss plan) (a_equity a) (a_risk_percent a) (a_symbol_meta a) of
           Inl e \<Rightarrow> Inl e
         | Inr (Refused reason) \<Rightarrow> Inr (st NO_TRADE_TARGET_GEOMETRY reason)
         | Inr (Sized volume risk) \<Rightarrow>
             apply_guards a ((st ENTRY_READY ''RETEST_CONFIRMED'')
               \<lparr>ss_volume := Some volume, ss_risk_amount := Some risk, strategy_qualified := True\<rparr>))"

text \<open>From the sweep on: structure shift and retest.\<close>

definition evaluate_swept :: "smc_lib \<Rightarrow> setup_args \<Rightarrow> reference_box \<Rightarrow> direction \<Rightarrow> sweep_event \<Rightarrow> setup_state res" where
  "evaluate_swept smc a box dir sweep =
     (let m5 = a_m5_candles a;
          before = filter (\<lambda>c. c_time c \<le> candle_time sweep) m5;
          after = filter (\<lambda>c. candle_time sweep < c_time c) m5;
          st = (\<lambda>phase reason. sweep_evidence dir sweep (box_evidence box (base_state a phase reason)))
      in case find_mss smc (a_config a) sweep before after of
           Inl e \<Rightarrow> Inl e
         | Inr None \<Rightarrow>
             if after = [] then Inr (st SWEEP_DETECTED ''AWAITING_MSS_CANDLES'')
             else Inr (st WAITING_MSS ''MSS_NOT_YET_CONFIRMED'')
         | Inr (Some mss) \<Rightarrow>
             let after_mss = filter (\<lambda>c. confirmed_at mss < c_time c) m5
             in case find_retest mss after_mss (a_entry_ttl a) of
                  None \<Rightarrow>
                    if a_entry_ttl a \<le> int (length after_mss) then Inr (mss_evidence mss (st SETUP_EXPIRED ''SETUP_EXPIRED''))
                    else Inr (mss_evidence mss (st WAITING_RETEST ''RETEST_NOT_YET_FOUND''))
                | Some retest \<Rightarrow> evaluate_plan a box dir sweep mss retest)"

definition window_candles :: "setup_args \<Rightarrow> candle list" where
  "window_candles a =
     (let w = filter (\<lambda>c. in_execution_windows (c_time c) (a_execution_windows a)) (a_m5_candles a)
      in case a_sweep_search_after a of None \<Rightarrow> w | Some t \<Rightarrow> filter (\<lambda>c. t < c_time c) w)"

definition evaluate_setup :: "smc_lib \<Rightarrow> setup_args \<Rightarrow> setup_state res" where
  "evaluate_setup smc a =
     (case build_profile_reference_box (a_profile a) (a_reference_candles a) (a_expected_bar_count a) of
        Inl e \<Rightarrow> Inl e
      | Inr None \<Rightarrow> Inr (base_state a WAITING_REFERENCE ''REFERENCE_WINDOW_INCOMPLETE'')
      | Inr (Some box) \<Rightarrow>
          if \<not> session_complete box then Inr (base_state a WAITING_REFERENCE ''REFERENCE_WINDOW_INCOMPLETE'')
          else case h1_trend_direction smc (a_config a) (a_h1_candles a) of
            Inl e \<Rightarrow> Inl e
          | Inr gate \<Rightarrow>
              (case sweep_requirement_for_h1_direction gate of
                 None \<Rightarrow> Inr (box_evidence box (base_state a NO_TRADE_DIRECTION ''NO_TRADE_DIRECTION''))
               | Some (req, dir) \<Rightarrow>
                   let st = (\<lambda>phase reason. (box_evidence box (base_state a phase reason))\<lparr>ss_direction := Some dir\<rparr>);
                       w = window_candles a
                   in if w = [] then Inr (st WAITING_WINDOW ''EXECUTION_WINDOW_NOT_REACHED'')
                      else case find_qualified_sweep w (session_high box) (session_low box) (Some req) of
                        None \<Rightarrow>
                          if a_session_window_closed a then Inr (st SESSION_EXPIRED ''NO_QUALIFIED_SWEEP_IN_WINDOW'')
                          else Inr (st WAITING_SWEEP ''NO_QUALIFIED_SWEEP_YET'')
                      | Some sweep \<Rightarrow> evaluate_swept smc a box dir sweep))"

section \<open>Position lifecycle (engine.py)\<close>

definition transition_order_submitted :: "setup_state \<Rightarrow> setup_state" where
  "transition_order_submitted s =
     (if ss_state s \<in> set TERMINAL_STATES \<or> ss_state s \<noteq> ENTRY_READY then s
      else s\<lparr>ss_state := ORDER_SUBMITTED, reason_code := ''ORDER_SUBMITTED''\<rparr>)"

definition transition_position_open :: "setup_state \<Rightarrow> setup_state" where
  "transition_position_open s =
     (if ss_state s \<noteq> ORDER_SUBMITTED then s
      else s\<lparr>ss_state := POSITION_OPEN, reason_code := ''POSITION_OPEN''\<rparr>)"

definition transition_tp1_hit :: "rat \<Rightarrow> setup_state \<Rightarrow> setup_state" where
  "transition_tp1_hit pct s =
     (if ss_state s \<noteq> POSITION_OPEN then s
      else s\<lparr>ss_state := TP1_HIT, reason_code := ''TP1_REACHED'',
             evidence := dput ''sl_moved_to_breakeven'' (JBool True) (dput ''tp1_close_pct'' (JFloat pct) (evidence s))\<rparr>)"

definition transition_runner_active :: "setup_state \<Rightarrow> setup_state" where
  "transition_runner_active s =
     (if ss_state s \<noteq> TP1_HIT then s
      else s\<lparr>ss_state := RUNNER_ACTIVE, reason_code := ''RUNNER_ACTIVE'', ss_stop_loss := ss_entry s\<rparr>)"

definition transition_tp2_hit :: "setup_state \<Rightarrow> setup_state" where
  "transition_tp2_hit s =
     (if ss_state s \<noteq> RUNNER_ACTIVE then s else s\<lparr>ss_state := TP2_HIT, reason_code := ''TP2_HIT''\<rparr>)"

definition transition_stopped :: "setup_state \<Rightarrow> setup_state" where
  "transition_stopped s =
     (if ss_state s \<in> set TERMINAL_STATES then s else s\<lparr>ss_state := STOPPED, reason_code := ''STOPPED''\<rparr>)"

section \<open>Sweep candidates (occurrence\_enumerator.py)\<close>

text \<open>The loop of \<open>enumerate_sweep_candidates\<close>: each sweep found narrows the pool to the bars after it.\<close>

lemma sweep_hit_time: "sweep_hit hi lo req c = Some e \<Longrightarrow> candle_time e = c_time c"
  unfolding sweep_hit_def by (simp split: if_splits) auto

lemma find_sweep_in:
  "find_qualified_sweep cs hi lo req = Some e \<Longrightarrow> \<exists>c \<in> set cs. candle_time e = c_time c \<and> sweep_hit hi lo req c = Some e"
  by (induction cs hi lo req rule: find_qualified_sweep.induct)
     (fastforce simp: sweep_hit_time split: option.splits)+

lemma pool_shrinks:
  assumes "find_qualified_sweep cs hi lo req = Some e"
  shows "length (filter (\<lambda>c. candle_time e < c_time c) cs) < length cs"
  using find_sweep_in [OF assms] by (auto intro!: length_filter_less)

function sweep_loop :: "candle list \<Rightarrow> rat \<Rightarrow> rat \<Rightarrow> sweep_side option \<Rightarrow> sweep_event list" where
  "sweep_loop pool hi lo req =
     (case find_qualified_sweep pool hi lo req of
        None \<Rightarrow> []
      | Some e \<Rightarrow> e # sweep_loop (filter (\<lambda>c. candle_time e < c_time c) pool) hi lo req)"
  by pat_completeness auto
termination by (relation "measure (\<lambda>(pool, _). length pool)") (auto intro: pool_shrinks)

declare sweep_loop.simps [simp del]

definition enumerate_sweep_candidates ::
  "candle list \<Rightarrow> time_window list \<Rightarrow> rat \<Rightarrow> rat \<Rightarrow> sweep_side option \<Rightarrow> sweep_event list" where
  "enumerate_sweep_candidates m5 windows hi lo req =
     sweep_loop (filter (\<lambda>c. in_execution_windows (c_time c) windows) m5) hi lo req"

text \<open>The occurrence identity: \<open>blake\<close> is the hex digest of the standard library's blake2b on 12 bytes.\<close>

definition occurrence_key :: "string \<Rightarrow> string \<Rightarrow> string \<Rightarrow> string \<Rightarrow> date \<Rightarrow> string \<Rightarrow> datetime \<Rightarrow> datetime \<Rightarrow> string" where
  "occurrence_key sid ver exch sy day dir t_sweep t_mss =
     sid @ ''|'' @ ver @ ''|'' @ exch @ ''|'' @ sy @ ''|'' @ iso_date day @ ''|'' @ dir @ ''|''
     @ iso_datetime t_sweep @ ''|'' @ iso_datetime t_mss"

definition btc_occurrence_id ::
  "(string \<Rightarrow> string) \<Rightarrow> string \<Rightarrow> string \<Rightarrow> string \<Rightarrow> string \<Rightarrow> date \<Rightarrow> string \<Rightarrow> datetime \<Rightarrow> datetime \<Rightarrow> string" where
  "btc_occurrence_id blake sid ver exch sy day dir t_sweep t_mss =
     ''BTC-OCC-'' @ blake (occurrence_key sid ver exch sy day dir t_sweep t_mss)"

section \<open>Lemmas: the scans\<close>

interpretation fqs: first_hit "\<lambda>cs. find_qualified_sweep cs hi lo req" "\<lambda>c. map_option Some (sweep_hit hi lo req c)" None
  for hi lo req
  by unfold_locales (auto split: option.split)

interpretation cms: first_hit "confirm_mss bearish swing" "\<lambda>c. map_option Some (mss_hit bearish swing c)" None
  for bearish swing
  by unfold_locales (auto split: option.split)

lemma sweep_hit_event:
  assumes "sweep_hit hi lo req c = Some e"
  shows "sweep_candle e = c" "candle_time e = c_time c"
    "sweep_direction e = HIGH_SWEEP \<Longrightarrow> swept_level e = hi \<and> extreme_price e = c_high c \<and> hi < c_high c \<and> c_close c < hi"
    "sweep_direction e = LOW_SWEEP \<Longrightarrow> swept_level e = lo \<and> extreme_price e = c_low c \<and> c_low c < lo \<and> lo < c_close c"
    "\<And>side. req = Some side \<Longrightarrow> sweep_direction e = side"
  using assms unfolding sweep_hit_def high_sweep_def low_sweep_def by (auto split: if_splits)

lemma mss_hit_event:
  assumes "mss_hit bearish swing c = Some m"
  shows "confirmed_at m = c_time c" "broken_swing_price m = swing"
    "mss_kind_of m = (if bearish then MSS_BEARISH else MSS_BULLISH)" "confirming_candle m = c"
    "if bearish then c_close c < swing else swing < c_close c"
  using assms by (auto simp: mss_hit_def split: if_splits)

lemma confirm_mss_in: "confirm_mss b s cs = Some m \<Longrightarrow> \<exists>c \<in> set cs. mss_hit b s c = Some m"
  by (induction cs) (auto split: option.splits)

lemma scan_retest_in:
  "scan_retest mss i cs = Some r \<Longrightarrow>
     \<exists>k. i \<le> bars_after_mss r \<and> bars_after_mss r = i + int k \<and> k < length cs \<and> retest_candle r = cs ! k \<and>
         retest_time r = c_time (cs ! k) \<and> entry_price r = broken_swing_price mss \<and> retest_touched mss (cs ! k)"
proof (induction mss i cs rule: scan_retest.induct)
  case (2 mss i c cs)
  show ?case
  proof (cases "retest_touched mss c")
    case True
    then show ?thesis using 2(2) by (intro exI [of _ 0]) auto
  next
    case False
    with 2 obtain k where "bars_after_mss r = i + 1 + int k" "k < length cs" "retest_candle r = cs ! k"
      "retest_time r = c_time (cs ! k)" "entry_price r = broken_swing_price mss" "retest_touched mss (cs ! k)" by auto
    then show ?thesis by (intro exI [of _ "Suc k"]) auto
  qed
qed simp

lemma scan_retest_append: "scan_retest mss i xs = Some r \<Longrightarrow> scan_retest mss i (xs @ ys) = Some r"
  by (induction mss i xs rule: scan_retest.induct) auto

text \<open>Bars that arrive later do not change a retest already found, nor an expiry already reached.\<close>

lemma py_prefix_append: "0 \<le> n \<Longrightarrow> py_prefix n (xs @ ys) = py_prefix n xs @ take (nat n - length xs) ys"
  by (simp add: py_prefix_def)

lemma find_retest_append:
  assumes "0 \<le> ttl" "find_retest mss xs ttl = Some r \<or> ttl \<le> int (length xs)"
  shows "find_retest mss (xs @ ys) ttl = find_retest mss xs ttl"
  using assms by (auto simp: find_retest_def py_prefix_append scan_retest_append)

section \<open>Lemmas: the pipeline\<close>

lemmas evidence_defs = base_state_def box_evidence_def sweep_evidence_def mss_evidence_def plan_evidence_def

text \<open>The arguments without the guards; nothing before the guards reads them.\<close>

definition unguarded :: "setup_args \<Rightarrow> setup_args" where
  "unguarded a = a\<lparr>a_daily_loss_guard := None, a_open_position_guard := None\<rparr>"

definition guard_result :: "setup_args \<Rightarrow> setup_state res \<Rightarrow> setup_state res" where
  "guard_result a r = res_bind r (\<lambda>s. if strategy_qualified s then apply_guards a s else Inr s)"

lemma base_state_unguarded [simp]: "base_state (unguarded a) = base_state a"
  by (simp add: base_state_def unguarded_def fun_eq_iff)

lemma window_candles_unguarded [simp]: "window_candles (unguarded a) = window_candles a"
  by (simp add: window_candles_def unguarded_def)

lemma unguarded_fields [simp]:
  "a_profile (unguarded a) = a_profile a" "a_reference_candles (unguarded a) = a_reference_candles a"
  "a_expected_bar_count (unguarded a) = a_expected_bar_count a" "a_config (unguarded a) = a_config a"
  "a_h1_candles (unguarded a) = a_h1_candles a" "a_m5_candles (unguarded a) = a_m5_candles a"
  "a_entry_ttl (unguarded a) = a_entry_ttl a" "a_session_window_closed (unguarded a) = a_session_window_closed a"
  "a_stop_buffer_price (unguarded a) = a_stop_buffer_price a" "a_equity (unguarded a) = a_equity a"
  "a_risk_percent (unguarded a) = a_risk_percent a" "a_symbol_meta (unguarded a) = a_symbol_meta a"
  by (simp_all add: unguarded_def)

lemma apply_guards_unguarded [simp]: "apply_guards (unguarded a) q = Inr q"
  by (simp add: apply_guards_def guard_blocked_def slot_blocked_def unguarded_def)

lemma not_qualified [simp]:
  "strategy_qualified (base_state a p r) = False" "strategy_qualified (box_evidence b s) = strategy_qualified s"
  "strategy_qualified (sweep_evidence d e s) = strategy_qualified s"
  "strategy_qualified (mss_evidence m s) = strategy_qualified s"
  "strategy_qualified (plan_evidence pl s) = strategy_qualified s"
  by (simp_all add: evidence_defs)

lemma guard_result_simps [simp]:
  "guard_result a (Inl e) = Inl e"
  "\<not> strategy_qualified s \<Longrightarrow> guard_result a (Inr s) = Inr s"
  "strategy_qualified s \<Longrightarrow> guard_result a (Inr s) = apply_guards a s"
  by (simp_all add: guard_result_def)

lemma evaluate_plan_guards: "evaluate_plan a box dir sw m rt = guard_result a (evaluate_plan (unguarded a) box dir sw m rt)"
  by (auto simp: evaluate_plan_def Let_def split: sum.split sizing.split)

lemma evaluate_swept_guards: "evaluate_swept smc a box dir sw = guard_result a (evaluate_swept smc (unguarded a) box dir sw)"
  unfolding evaluate_swept_def Let_def
  using evaluate_plan_guards [of a box dir sw] by (auto split: sum.split option.split)

lemma evaluate_setup_guards: "evaluate_setup smc a = guard_result a (evaluate_setup smc (unguarded a))"
  unfolding evaluate_setup_def Let_def
  using evaluate_swept_guards [of smc a] by (auto split: sum.split option.split)

text \<open>What the guards may change.\<close>

lemma apply_guards_cases:
  assumes "apply_guards a q = Inr s"
  shows "s = q \<or> s = q\<lparr>ss_state := BLOCKED_DAILY_LOSS, reason_code := ''BLOCKED_DAILY_LOSS'',
                           tradability_blocked := True, tradability_reason := Some ''BLOCKED_DAILY_LOSS''\<rparr>
         \<or> s = q\<lparr>ss_state := BLOCKED_OPEN_POSITION, reason_code := ''BLOCKED_OPEN_POSITION'',
                                tradability_blocked := True, tradability_reason := Some ''BLOCKED_OPEN_POSITION''\<rparr>"
  using assms by (auto simp: apply_guards_def split: sum.splits bool.splits)

text \<open>A qualified state went through every stage.\<close>

lemma evaluate_setup_qualifiedD:
  assumes "evaluate_setup smc a = Inr s" "strategy_qualified s"
  obtains box req dir sweep mss retest where
    "dir = LONG \<and> req = LOW_SWEEP \<or> dir = SHORT \<and> req = HIGH_SWEEP"
    "find_qualified_sweep (window_candles a) (session_high box) (session_low box) (Some req) = Some sweep"
    "find_mss smc (a_config a) sweep (filter (\<lambda>c. c_time c \<le> candle_time sweep) (a_m5_candles a))
       (filter (\<lambda>c. candle_time sweep < c_time c) (a_m5_candles a)) = Inr (Some mss)"
    "find_retest mss (filter (\<lambda>c. confirmed_at mss < c_time c) (a_m5_candles a)) (a_entry_ttl a) = Some retest"
    "evaluate_plan a box dir sweep mss retest = Inr s"
proof -
  from assms obtain box gate req dir sweep where
    1: "sweep_requirement_for_h1_direction gate = Some (req, dir)"
      "find_qualified_sweep (window_candles a) (session_high box) (session_low box) (Some req) = Some sweep"
    and 2: "evaluate_swept smc a box dir sweep = Inr s"
    by (auto simp: evaluate_setup_def Let_def split: sum.splits option.splits if_splits)
  from 2 assms(2) obtain mss retest where 3:
    "find_mss smc (a_config a) sweep (filter (\<lambda>c. c_time c \<le> candle_time sweep) (a_m5_candles a))
       (filter (\<lambda>c. candle_time sweep < c_time c) (a_m5_candles a)) = Inr (Some mss)"
    "find_retest mss (filter (\<lambda>c. confirmed_at mss < c_time c) (a_m5_candles a)) (a_entry_ttl a) = Some retest"
    "evaluate_plan a box dir sweep mss retest = Inr s"
    by (auto simp: evaluate_swept_def Let_def split: sum.splits option.splits if_splits)
  have "dir = LONG \<and> req = LOW_SWEEP \<or> dir = SHORT \<and> req = HIGH_SWEEP" using 1(1) by (cases gate) auto
  from that [OF this 1(2) 3] show ?thesis .
qed

lemma find_mss_someD:
  assumes "find_mss smc cfg sweep before after = Inr (Some m)"
  obtains swing c where "c \<in> set after" "mss_hit (sweep_direction sweep = HIGH_SWEEP) swing c = Some m"
    "most_recent_swing smc cfg before (sweep_direction sweep \<noteq> HIGH_SWEEP) = Inr (Some swing)"
proof -
  from assms obtain swing where "most_recent_swing smc cfg before (sweep_direction sweep \<noteq> HIGH_SWEEP) = Inr (Some swing)"
    "confirm_mss (sweep_direction sweep = HIGH_SWEEP) swing after = Some m"
    by (auto simp: find_mss_def Let_def res_bind_Inr_iff split: option.splits)
  with confirm_mss_in [OF this(2)] that show ?thesis by blast
qed

lemma find_mss_append:
  assumes "find_mss smc cfg sweep before after = Inr (Some m)"
  shows "find_mss smc cfg sweep before (after @ later) = Inr (Some m)"
proof -
  let ?b = "sweep_direction sweep = HIGH_SWEEP"
  from assms obtain swing where sw: "most_recent_swing smc cfg before (\<not> ?b) = Inr (Some swing)"
    "confirm_mss ?b swing after = Some m"
    by (auto simp: find_mss_def Let_def res_bind_Inr_iff split: option.splits)
  have "\<exists>c \<in> set after. map_option Some (mss_hit ?b swing c) \<noteq> None"
    using confirm_mss_in [OF sw(2)] by auto
  from cms.det_prefix_stable [OF this] sw show ?thesis by (simp add: find_mss_def)
qed

lemma build_target_plan_valid:
  assumes "plan_valid (build_target_plan dir entry extreme mid hi lo buffer)"
  defines "plan \<equiv> build_target_plan dir entry extreme mid hi lo buffer"
  shows "tp_entry plan = entry" "\<exists>risk r. tp_risk_distance plan = Some risk \<and> 0 < risk \<and> tp_tp2_r_multiple plan = Some r \<and> 3 / 2 \<le> r"
    "dir = LONG \<Longrightarrow> tp_stop_loss plan < entry \<and> entry < tp_tp1 plan \<and> entry < tp_tp2 plan"
    "dir = SHORT \<Longrightarrow> entry < tp_stop_loss plan \<and> tp_tp1 plan < entry \<and> tp_tp2 plan < entry"
  using assms(1) unfolding plan_def build_target_plan_def MIN_TP2_R_MULTIPLE_def
  by (auto simp: Let_def split: if_splits)

lemma evaluate_plan_qualified:
  assumes "evaluate_plan a box dir sweep mss retest = Inr s" "strategy_qualified s"
  defines "plan \<equiv> build_target_plan dir (entry_price retest) (extreme_price sweep) (session_mid box) (session_high box)
                   (session_low box) (a_stop_buffer_price a)"
  shows "plan_valid plan"
    "\<exists>v r. size_position (tp_entry plan) (tp_stop_loss plan) (a_equity a) (a_risk_percent a) (a_symbol_meta a) = Inr (Sized v r)
        \<and> ss_volume s = Some v \<and> ss_risk_amount s = Some r"
    "ss_state s \<in> {ENTRY_READY, BLOCKED_DAILY_LOSS, BLOCKED_OPEN_POSITION}"
    "tradability_blocked s = (ss_state s \<noteq> ENTRY_READY)"
    "ss_entry s = Some (tp_entry plan)" "ss_stop_loss s = Some (tp_stop_loss plan)" "ss_tp1 s = Some (tp_tp1 plan)"
    "ss_tp2 s = Some (tp_tp2 plan)" "ss_risk_distance s = tp_risk_distance plan" "ss_tp2_r_multiple s = tp_tp2_r_multiple plan"
    "ss_direction s = Some dir" "sweep_time s = Some (candle_time sweep)" "mss_time s = Some (confirmed_at mss)"
    "ss_broken_swing_price s = Some (broken_swing_price mss)"
  using assms(1,2) unfolding plan_def evaluate_plan_def Let_def
  by (auto split: sum.splits sizing.splits if_splits dest!: apply_guards_cases simp: evidence_defs)

section \<open>Lemmas: later bars\<close>

definition with_bars :: "setup_args \<Rightarrow> candle list \<Rightarrow> setup_args" where
  "with_bars a later = a\<lparr>a_m5_candles := a_m5_candles a @ later\<rparr>"

lemma with_bars_fields [simp]:
  "a_profile (with_bars a l) = a_profile a" "a_reference_candles (with_bars a l) = a_reference_candles a"
  "a_expected_bar_count (with_bars a l) = a_expected_bar_count a" "a_config (with_bars a l) = a_config a"
  "a_h1_candles (with_bars a l) = a_h1_candles a" "a_m5_candles (with_bars a l) = a_m5_candles a @ l"
  "a_entry_ttl (with_bars a l) = a_entry_ttl a" "a_session_window_closed (with_bars a l) = a_session_window_closed a"
  "a_stop_buffer_price (with_bars a l) = a_stop_buffer_price a" "a_equity (with_bars a l) = a_equity a"
  "a_risk_percent (with_bars a l) = a_risk_percent a" "a_symbol_meta (with_bars a l) = a_symbol_meta a"
  "a_daily_loss_guard (with_bars a l) = a_daily_loss_guard a" "a_trading_day (with_bars a l) = a_trading_day a"
  "a_open_position_guard (with_bars a l) = a_open_position_guard a"
  "base_state (with_bars a l) = base_state a"
  by (simp_all add: with_bars_def base_state_def fun_eq_iff)

lemma apply_guards_with_bars [simp]: "apply_guards (with_bars a l) = apply_guards a"
  by (rule ext) (unfold apply_guards_def with_bars_fields, rule refl)

lemma evaluate_plan_with_bars [simp]: "evaluate_plan (with_bars a l) = evaluate_plan a"
  by (intro ext) (unfold evaluate_plan_def with_bars_fields apply_guards_with_bars, rule refl)

lemma window_candles_with_bars: "\<exists>l'. window_candles (with_bars a l) = window_candles a @ l'"
  by (auto simp: window_candles_def with_bars_def Let_def split: option.split)

lemma window_candles_subset: "set (window_candles a) \<subseteq> set (a_m5_candles a)"
  by (auto simp: window_candles_def Let_def split: option.split)

lemma find_sweep_append: "find_qualified_sweep cs hi lo req = Some e \<Longrightarrow> find_qualified_sweep (cs @ l) hi lo req = Some e"
  by (induction cs hi lo req rule: find_qualified_sweep.induct) (auto split: option.splits)

text \<open>The phases in which the strategy still waits for bars.\<close>

definition AWAITING :: "setup_phase list" where
  "AWAITING = [WAITING_WINDOW, WAITING_SWEEP, SESSION_EXPIRED, SWEEP_DETECTED, WAITING_MSS, WAITING_RETEST]"

lemma phase_of_evidence [simp]:
  "ss_state (base_state a p r) = p" "ss_state (box_evidence b s) = ss_state s" "ss_state (sweep_evidence d e s) = ss_state s"
  "ss_state (mss_evidence m s) = ss_state s" "ss_state (plan_evidence pl s) = ss_state s"
  by (simp_all add: evidence_defs)

lemma evaluate_swept_later:
  assumes "evaluate_swept smc a box dir sweep = Inr s" "ss_state s \<notin> set AWAITING"
    and "\<forall>c \<in> set later. candle_time sweep < c_time c"
    and "\<forall>c \<in> set later. \<forall>b \<in> set (a_m5_candles a). c_time b < c_time c" "0 \<le> a_entry_ttl a"
  shows "evaluate_swept smc (with_bars a later) box dir sweep = Inr s"
proof -
  let ?m5 = "a_m5_candles a"
  let ?after = "filter (\<lambda>c. candle_time sweep < c_time c) ?m5"
  have before: "filter (\<lambda>c. c_time c \<le> candle_time sweep) (?m5 @ later) = filter (\<lambda>c. c_time c \<le> candle_time sweep) ?m5"
    using assms(3) by (auto simp: filter_empty_conv)
  have after: "filter (\<lambda>c. candle_time sweep < c_time c) (?m5 @ later) = ?after @ later"
    using assms(3) by simp
  from assms(1,2) obtain mss where
    mss: "find_mss smc (a_config a) sweep (filter (\<lambda>c. c_time c \<le> candle_time sweep) ?m5) ?after = Inr (Some mss)"
    by (auto simp: evaluate_swept_def Let_def AWAITING_def split: sum.splits option.splits if_splits)
  obtain c swing where c: "c \<in> set ?after" "mss_hit (sweep_direction sweep = HIGH_SWEEP) swing c = Some mss"
    using find_mss_someD [OF mss] by blast
  have "c \<in> set ?m5" "confirmed_at mss = c_time c" using c mss_hit_event(1) [OF c(2)] by auto
  then have am: "filter (\<lambda>c. confirmed_at mss < c_time c) (?m5 @ later) = filter (\<lambda>c. confirmed_at mss < c_time c) ?m5 @ later"
    using assms(4) by simp
  let ?am = "filter (\<lambda>c. confirmed_at mss < c_time c) ?m5"
  have resolved: "(\<exists>r. find_retest mss ?am (a_entry_ttl a) = Some r) \<or> a_entry_ttl a \<le> int (length ?am)"
    using assms(1,2) mss by (auto simp: evaluate_swept_def Let_def AWAITING_def split: option.splits if_splits)
  then have rt: "find_retest mss (?am @ later) (a_entry_ttl a) = find_retest mss ?am (a_entry_ttl a)"
    using find_retest_append [OF assms(5)] by blast
  show ?thesis
    unfolding evaluate_swept_def Let_def with_bars_fields before after find_mss_append [OF mss]
    using assms(1) mss resolved rt am
    by (auto simp: evaluate_swept_def Let_def split: option.splits if_splits)
qed

lemma evaluate_setup_later:
  assumes "evaluate_setup smc a = Inr s" "ss_state s \<notin> set AWAITING" "0 \<le> a_entry_ttl a"
    and "\<forall>c \<in> set later. \<forall>b \<in> set (a_m5_candles a). c_time b < c_time c"
  shows "evaluate_setup smc (with_bars a later) = Inr s"
proof (cases "\<exists>box gate. build_profile_reference_box (a_profile a) (a_reference_candles a) (a_expected_bar_count a) = Inr (Some box) \<and>
    session_complete box \<and> h1_trend_direction smc (a_config a) (a_h1_candles a) = Inr gate \<and> sweep_requirement_for_h1_direction gate \<noteq> None")
  case False
  then show ?thesis using assms(1)
    by (auto simp: evaluate_setup_def split: sum.splits option.splits if_splits)
next
  case True
  then obtain box req dir gate where
    b: "build_profile_reference_box (a_profile a) (a_reference_candles a) (a_expected_bar_count a) = Inr (Some box)" "session_complete box"
    and g: "h1_trend_direction smc (a_config a) (a_h1_candles a) = Inr gate" "sweep_requirement_for_h1_direction gate = Some (req, dir)"
    by auto
  from assms(1,2) b g obtain sweep where
    sw: "find_qualified_sweep (window_candles a) (session_high box) (session_low box) (Some req) = Some sweep"
    by (cases "find_qualified_sweep (window_candles a) (session_high box) (session_low box) (Some req)")
       (auto simp: evaluate_setup_def Let_def AWAITING_def split: if_splits)
  have ne: "window_candles a \<noteq> []" using sw by auto
  obtain l' where l': "window_candles (with_bars a later) = window_candles a @ l'" using window_candles_with_bars by blast
  have es: "evaluate_swept smc a box dir sweep = Inr s"
    using assms(1) b sw g ne by (simp add: evaluate_setup_def Let_def)
  obtain c where "c \<in> set (a_m5_candles a)" "candle_time sweep = c_time c"
    using find_sweep_in [OF sw] window_candles_subset by blast
  then have "\<forall>c \<in> set later. candle_time sweep < c_time c" using assms(4) by auto
  from evaluate_swept_later [OF es assms(2) this assms(4,3)] show ?thesis
    using b g ne by (simp add: evaluate_setup_def Let_def l' find_sweep_append [OF sw])
qed

section \<open>Lemmas: enumeration\<close>

lemma strict_times_after:
  assumes "strictly_increasing (map c_time (pre @ c # post))"
  shows "filter (\<lambda>x. c_time c < c_time x) (pre @ c # post) = post"
  using assms by (auto simp: strictly_increasing_def sorted_wrt_append filter_empty_conv filter_id_conv intro: less_imp_le dest: less_asym)

lemma sweep_loop_all:
  assumes "strictly_increasing (map c_time pool)"
  shows "sweep_loop pool hi lo req = List.map_filter (sweep_hit hi lo req) pool"
  using assms
proof (induction pool hi lo req rule: sweep_loop.induct)
  case (1 pool hi lo req)
  show ?case
  proof (rule fqs.det_cases [of pool hi lo req])
    assume "\<forall>c \<in> set pool. map_option Some (sweep_hit hi lo req c) = None" "find_qualified_sweep pool hi lo req = None"
    then show ?thesis by (subst sweep_loop.simps) (simp add: map_filter_def)
  next
    fix pre c post r
    assume found: "pool = pre @ c # post" "\<forall>c \<in> set pre. map_option Some (sweep_hit hi lo req c) = None"
      "map_option Some (sweep_hit hi lo req c) = Some r" "find_qualified_sweep pool hi lo req = r"
    from found(3) obtain e where e: "sweep_hit hi lo req c = Some e" "r = Some e" by (cases "sweep_hit hi lo req c") auto
    have fp: "filter (\<lambda>x. candle_time e < c_time x) pool = post"
      using strict_times_after [of pre c post] 1(2) sweep_hit_time [OF e(1)] by (simp add: found(1))
    have "strictly_increasing (map c_time post)" using 1(2) by (simp add: found(1) strictly_increasing_def sorted_wrt_append)
    with 1(1) [of e] found(4) e(2) have "sweep_loop post hi lo req = List.map_filter (sweep_hit hi lo req) post"
      unfolding fp by simp
    with found e fp show ?thesis by (subst sweep_loop.simps) (simp add: map_filter_def)
  qed
qed

section \<open>Lemmas: the lifecycle\<close>

text \<open>The execution layer reports events in some order; each is one transition function.\<close>

datatype lc_event = EvSubmitted | EvOpened | EvTp1 | EvRunner | EvTp2 | EvStopped

fun apply_event :: "rat \<Rightarrow> lc_event \<Rightarrow> setup_state \<Rightarrow> setup_state" where
  "apply_event pct EvSubmitted = transition_order_submitted"
| "apply_event pct EvOpened = transition_position_open"
| "apply_event pct EvTp1 = transition_tp1_hit pct"
| "apply_event pct EvRunner = transition_runner_active"
| "apply_event pct EvTp2 = transition_tp2_hit"
| "apply_event pct EvStopped = transition_stopped"

lemmas transition_defs = transition_order_submitted_def transition_position_open_def transition_tp1_hit_def
  transition_runner_active_def transition_tp2_hit_def transition_stopped_def

text \<open>The edges of the lifecycle.\<close>

inductive lc_edge :: "setup_phase \<Rightarrow> setup_phase \<Rightarrow> bool" where
  submit: "lc_edge ENTRY_READY ORDER_SUBMITTED"
| fill: "lc_edge ORDER_SUBMITTED POSITION_OPEN"
| partial: "lc_edge POSITION_OPEN TP1_HIT"
| runner: "lc_edge TP1_HIT RUNNER_ACTIVE"
| target: "lc_edge RUNNER_ACTIVE TP2_HIT"
| stop: "p \<notin> set TERMINAL_STATES \<Longrightarrow> lc_edge p STOPPED"

inductive_cases lc_edge_fromE: "lc_edge p q"

lemma lc_edge_terminal: "lc_edge p q \<Longrightarrow> p \<notin> set TERMINAL_STATES"
  by (erule lc_edge_fromE) (auto simp: TERMINAL_STATES_def)

lemma apply_event_edge: "apply_event pct e s = s \<or> lc_edge (ss_state s) (ss_state (apply_event pct e s))"
  by (cases e) (auto simp: transition_defs intro: lc_edge.intros)

lemma apply_events_edges: "lc_edge\<^sup>*\<^sup>* (ss_state s) (ss_state (fold (apply_event pct) es s))"
proof (induction es arbitrary: s)
  case (Cons e es)
  have "lc_edge\<^sup>*\<^sup>* (ss_state s) (ss_state (apply_event pct e s))"
    using apply_event_edge [of pct e s] by (metis r_into_rtranclp rtranclp.rtrancl_refl)
  with Cons.IH [of "apply_event pct e s"] show ?case by (metis (no_types) fold_simps(2) rtranclp_trans)
qed simp

lemma apply_event_terminal: "ss_state s \<in> set TERMINAL_STATES \<Longrightarrow> apply_event pct e s = s"
  using apply_event_edge lc_edge_terminal by blast

lemma apply_events_terminal: "ss_state s \<in> set TERMINAL_STATES \<Longrightarrow> fold (apply_event pct) es s = s"
  by (induction es) (auto simp: apply_event_terminal)

text \<open>The events a position still needs to reach its second target.\<close>

fun still_needed :: "setup_phase \<Rightarrow> lc_event list option" where
  "still_needed ENTRY_READY = Some [EvSubmitted, EvOpened, EvTp1, EvRunner, EvTp2]"
| "still_needed ORDER_SUBMITTED = Some [EvOpened, EvTp1, EvRunner, EvTp2]"
| "still_needed POSITION_OPEN = Some [EvTp1, EvRunner, EvTp2]"
| "still_needed TP1_HIT = Some [EvRunner, EvTp2]"
| "still_needed RUNNER_ACTIVE = Some [EvTp2]"
| "still_needed TP2_HIT = Some []"
| "still_needed _ = None"

lemma still_needed_step:
  assumes "still_needed (ss_state (apply_event pct e s)) = Some xs"
  shows "\<exists>ys. still_needed (ss_state s) = Some ys \<and> (ys = xs \<or> ys = e # xs)"
  using assms by (cases e; cases "ss_state s") (auto simp: transition_defs TERMINAL_STATES_def)

lemma still_needed_run:
  assumes "still_needed (ss_state (fold (apply_event pct) es s)) = Some xs"
  shows "\<exists>ys zs. still_needed (ss_state s) = Some ys \<and> ys = zs @ xs \<and> subseq zs es"
  using assms
proof (induction es arbitrary: s)
  case (Cons e es)
  from Cons.IH [of "apply_event pct e s"] Cons.prems obtain ys zs where
    1: "still_needed (ss_state (apply_event pct e s)) = Some ys" "ys = zs @ xs" "subseq zs es" by auto
  from still_needed_step [OF 1(1)] obtain ws where "still_needed (ss_state s) = Some ws" "ws = ys \<or> ws = e # ys" by blast
  then consider "still_needed (ss_state s) = Some (zs @ xs)" | "still_needed (ss_state s) = Some ((e # zs) @ xs)"
    using 1(2) by auto
  then show ?case
  proof cases
    case 1
    then show ?thesis using \<open>subseq zs es\<close> by (intro exI [of _ "zs @ xs"] exI [of _ zs]) auto
  next
    case 2
    then show ?thesis using \<open>subseq zs es\<close> by (intro exI [of _ "(e # zs) @ xs"] exI [of _ "e # zs"]) auto
  qed
qed auto

definition at_breakeven :: "setup_state \<Rightarrow> bool" where
  "at_breakeven s \<longleftrightarrow> (ss_state s \<in> {RUNNER_ACTIVE, TP2_HIT} \<longrightarrow> ss_stop_loss s = ss_entry s)"

lemma apply_event_breakeven: "at_breakeven s \<Longrightarrow> at_breakeven (apply_event pct e s)"
  by (cases e) (auto simp: transition_defs at_breakeven_def)

lemma apply_events_breakeven: "at_breakeven s \<Longrightarrow> at_breakeven (fold (apply_event pct) es s)"
  by (induction es arbitrary: s) (auto simp: apply_event_breakeven)

lemma apply_event_levels:
  "ss_entry (apply_event pct e s) = ss_entry s \<and> ss_tp1 (apply_event pct e s) = ss_tp1 s \<and> ss_tp2 (apply_event pct e s) = ss_tp2 s
   \<and> ss_volume (apply_event pct e s) = ss_volume s \<and> ss_direction (apply_event pct e s) = ss_direction s"
  by (cases e) (auto simp: transition_defs)

lemma apply_events_levels:
  "ss_entry (fold (apply_event pct) es s) = ss_entry s \<and> ss_tp1 (fold (apply_event pct) es s) = ss_tp1 s \<and>
   ss_tp2 (fold (apply_event pct) es s) = ss_tp2 s \<and> ss_volume (fold (apply_event pct) es s) = ss_volume s"
  by (induction es arbitrary: s) (auto simp: apply_event_levels)

end
