(* ===== verification/Sweep_Runtime.thy ===== *)
theory Sweep_Runtime
  imports Sweep_Retest
begin

text \<open>
  The restart-safe wrapper of the sweep-retest strategy: the state store (state\_store.py) over the
  key-value store, \<open>SweepRetestRuntime.evaluate\<close>, and the properties of the strategy.
\<close>

section \<open>The state store\<close>

fun phase_name :: "setup_phase \<Rightarrow> string" where
  "phase_name WAITING_REFERENCE = ''WAITING_REFERENCE''" | "phase_name WAITING_WINDOW = ''WAITING_WINDOW''"
| "phase_name WAITING_SWEEP = ''WAITING_SWEEP''" | "phase_name SWEEP_DETECTED = ''SWEEP_DETECTED''"
| "phase_name WAITING_MSS = ''WAITING_MSS''" | "phase_name MSS_CONFIRMED = ''MSS_CONFIRMED''"
| "phase_name WAITING_RETEST = ''WAITING_RETEST''" | "phase_name ENTRY_READY = ''ENTRY_READY''"
| "phase_name ORDER_SUBMITTED = ''ORDER_SUBMITTED''" | "phase_name POSITION_OPEN = ''POSITION_OPEN''"
| "phase_name TP1_HIT = ''TP1_HIT''" | "phase_name RUNNER_ACTIVE = ''RUNNER_ACTIVE''"
| "phase_name TP2_HIT = ''TP2_HIT''" | "phase_name STOPPED = ''STOPPED''"
| "phase_name SETUP_EXPIRED = ''SETUP_EXPIRED''" | "phase_name SESSION_EXPIRED = ''SESSION_EXPIRED''"
| "phase_name NO_TRADE_DIRECTION = ''NO_TRADE_DIRECTION''"
| "phase_name NO_TRADE_TARGET_GEOMETRY = ''NO_TRADE_TARGET_GEOMETRY''"
| "phase_name BLOCKED_DAILY_LOSS = ''BLOCKED_DAILY_LOSS''" | "phase_name BLOCKED_OPEN_POSITION = ''BLOCKED_OPEN_POSITION''"

definition opt_json :: "('a \<Rightarrow> json) \<Rightarrow> 'a option \<Rightarrow> json" where
  "opt_json f x = (case x of None \<Rightarrow> JNull | Some v \<Rightarrow> f v)"

text \<open>\<open>_serialize\<close>: a datetime becomes its ISO text, every other value is kept.\<close>

definition serialize_time :: "datetime \<Rightarrow> json" where
  "serialize_time t = JStr (iso_datetime t)"

text \<open>\<open>asdict(state)\<close> with serialized values, in field order.\<close>

definition state_dict :: "setup_state \<Rightarrow> (string \<times> json) list" where
  "state_dict s =
    [(''setup_id'', JStr (setup_id s)), (''strategy_id'', JStr (ss_strategy_id s)), (''symbol'', JStr (ss_symbol s)),
     (''state'', JStr (phase_name (ss_state s))), (''reason_code'', JStr (reason_code s)),
     (''evaluated_at'', opt_json serialize_time (evaluated_at s)),
     (''direction'', opt_json (\<lambda>d. JStr (direction_value d)) (ss_direction s)),
     (''profile_id'', opt_json JStr (ss_profile_id s)),
     (''ref_high'', opt_json JFloat (ref_high s)), (''ref_low'', opt_json JFloat (ref_low s)), (''ref_mid'', opt_json JFloat (ref_mid s)),
     (''sweep_level'', opt_json JFloat (sweep_level s)), (''sweep_extreme'', opt_json JFloat (sweep_extreme s)),
     (''sweep_time'', opt_json serialize_time (sweep_time s)),
     (''broken_swing_price'', opt_json JFloat (ss_broken_swing_price s)), (''mss_time'', opt_json serialize_time (mss_time s)),
     (''entry'', opt_json JFloat (ss_entry s)), (''stop_loss'', opt_json JFloat (ss_stop_loss s)),
     (''tp1'', opt_json JFloat (ss_tp1 s)), (''tp2'', opt_json JFloat (ss_tp2 s)),
     (''risk_distance'', opt_json JFloat (ss_risk_distance s)), (''tp2_r_multiple'', opt_json JFloat (ss_tp2_r_multiple s)),
     (''volume'', opt_json JFloat (ss_volume s)), (''risk_amount'', opt_json JFloat (ss_risk_amount s)),
     (''evidence'', JDict (evidence s)), (''strategy_qualified'', JBool (strategy_qualified s)),
     (''tradability_blocked'', JBool (tradability_blocked s)), (''tradability_reason'', opt_json JStr (tradability_reason s))]"

definition sr_save :: "save_env \<Rightarrow> setup_state \<Rightarrow> kv_file \<Rightarrow> kv_file \<times> unit res" where
  "sr_save env s f = kv_put env (setup_id s) (JDict (state_dict s)) f"

definition REQUIRED_FIELDS :: "string list" where
  "REQUIRED_FIELDS = [''setup_id'', ''strategy_id'', ''symbol'', ''state'', ''reason_code'']"

definition OPTIONAL_FIELDS :: "(string \<times> json) list" where
  "OPTIONAL_FIELDS =
    [(''evaluated_at'', JNull), (''direction'', JNull), (''profile_id'', JNull), (''ref_high'', JNull), (''ref_low'', JNull),
     (''ref_mid'', JNull), (''sweep_level'', JNull), (''sweep_extreme'', JNull), (''sweep_time'', JNull),
     (''broken_swing_price'', JNull), (''mss_time'', JNull), (''entry'', JNull), (''stop_loss'', JNull), (''tp1'', JNull),
     (''tp2'', JNull), (''risk_distance'', JNull), (''tp2_r_multiple'', JNull), (''volume'', JNull), (''risk_amount'', JNull),
     (''evidence'', JDict []), (''strategy_qualified'', JBool False), (''tradability_blocked'', JBool False),
     (''tradability_reason'', JNull)]"

text \<open>\<open>SetupState(**raw)\<close>: an unknown or a missing required keyword raises; the values are taken as they are.\<close>

definition construct_state :: "json \<Rightarrow> (string \<times> json) list res" where
  "construct_state raw =
     (case raw of
        JDict d \<Rightarrow>
          if list_all (\<lambda>k. k \<in> set (map fst d)) REQUIRED_FIELDS
             \<and> list_all (\<lambda>(k, _). k \<in> set REQUIRED_FIELDS \<or> k \<in> set (map fst OPTIONAL_FIELDS)) d
          then Inr (d @ filter (\<lambda>(k, _). k \<notin> set (map fst d)) OPTIONAL_FIELDS)
          else Inl TypeError
      | _ \<Rightarrow> Inl TypeError)"

definition sr_load :: "kv_file \<Rightarrow> string \<Rightarrow> (string \<times> json) list option res" where
  "sr_load f sid =
     (case kv_get f sid of
        Inl e \<Rightarrow> Inl e
      | Inr JNull \<Rightarrow> Inr None
      | Inr raw \<Rightarrow> (case construct_state raw of Inl e \<Rightarrow> Inl e | Inr st \<Rightarrow> Inr (Some st)))"

section \<open>The runtime\<close>

definition terminal_name :: "json \<Rightarrow> bool res" where
  "terminal_name v =
     (case v of JStr n \<Rightarrow> Inr (n \<in> set (map phase_name TERMINAL_STATES))
      | JList _ \<Rightarrow> Inl TypeError | JDict _ \<Rightarrow> Inl TypeError | _ \<Rightarrow> Inr False)"

text \<open>The state returned: the reloaded one, as its fields, or a freshly computed one.\<close>

datatype runtime_result = Cached "(string \<times> json) list" | Fresh setup_state

definition compute_and_save :: "smc_lib \<Rightarrow> save_env \<Rightarrow> setup_args \<Rightarrow> kv_file \<Rightarrow> kv_file \<times> runtime_result res" where
  "compute_and_save smc env a f =
     (case evaluate_setup smc a of
        Inl e \<Rightarrow> (f, Inl e)
      | Inr s \<Rightarrow> (case sr_save env s f of (f', Inl e) \<Rightarrow> (f', Inl e) | (f', Inr _) \<Rightarrow> (f', Inr (Fresh s))))"

definition runtime_evaluate :: "smc_lib \<Rightarrow> save_env \<Rightarrow> setup_args \<Rightarrow> kv_file \<Rightarrow> kv_file \<times> runtime_result res" where
  "runtime_evaluate smc env a f =
     (case sr_load f (a_setup_id a) of
        Inl e \<Rightarrow> (f, Inl e)
      | Inr None \<Rightarrow> compute_and_save smc env a f
      | Inr (Some prior) \<Rightarrow>
          (case terminal_name (dget prior ''state'') of
             Inl e \<Rightarrow> (f, Inl e)
           | Inr True \<Rightarrow> (f, Inr (Cached prior))
           | Inr False \<Rightarrow> compute_and_save smc env a f))"

section \<open>Lemmas\<close>

lemma evaluate_setup_fields:
  assumes "evaluate_setup smc a = Inr s"
  shows "setup_id s = a_setup_id a \<and> evidence s = []"
  using assms unfolding evaluate_setup_def evaluate_swept_def evaluate_plan_def Let_def
  by (auto split: sum.splits option.splits if_splits sizing.splits dest!: apply_guards_cases simp: evidence_defs)

lemma state_dict_keys: "map fst (state_dict s) = REQUIRED_FIELDS @ map fst OPTIONAL_FIELDS"
  by (simp add: state_dict_def REQUIRED_FIELDS_def OPTIONAL_FIELDS_def)

lemma field_names_distinct: "distinct (REQUIRED_FIELDS @ map fst OPTIONAL_FIELDS)"
  by code_simp

lemma opt_json_scalar:
  "wf_json (opt_json serialize_time t)" "canon (opt_json serialize_time t) = opt_json serialize_time t"
  "wf_json (opt_json JFloat x)" "canon (opt_json JFloat x) = opt_json JFloat x"
  "wf_json (opt_json JStr y)" "canon (opt_json JStr y) = opt_json JStr y"
  "wf_json (opt_json (\<lambda>d. JStr (direction_value d)) z)"
  "canon (opt_json (\<lambda>d. JStr (direction_value d)) z) = opt_json (\<lambda>d. JStr (direction_value d)) z"
  by (simp_all add: opt_json_def serialize_time_def split: option.split)

lemma state_dict_wf: "evidence s = [] \<Longrightarrow> wf_json (JDict (state_dict s))"
  using field_names_distinct state_dict_keys [of s]
  by (simp add: state_dict_def opt_json_scalar)

lemma state_dict_canon:
  assumes "evidence s = []"
  shows "map_option canon (map_of (state_dict s) k) = map_of (state_dict s) k"
proof -
  have "\<forall>p \<in> set (state_dict s). canon (snd p) = snd p"
    using assms by (simp add: state_dict_def opt_json_scalar)
  then show ?thesis by (cases "map_of (state_dict s) k") (auto dest!: map_of_SomeD)
qed

text \<open>A saved state loads as its own fields.\<close>

lemma save_load:
  assumes "kv_wf f" "evidence s = []" "snd (sr_save env s f) = Inr ()"
  obtains d where "sr_load (fst (sr_save env s f)) (setup_id s) = Inr (Some d)" "\<forall>k. dget d k = dget (state_dict s) k"
proof -
  let ?f = "fst (sr_save env s f)"
  let ?d = "sort_key fst (map (\<lambda>(k, v). (k, canon v)) (state_dict s))"
  from assms(3) have ok: "snd (kv_put env (setup_id s) (JDict (state_dict s)) f) = Inr ()" by (simp add: sr_save_def)
  from kv.put_ok [OF assms(1) ok] have get: "kv_get ?f (setup_id s) = Inr (JDict ?d)"
    by (auto simp: sr_save_def kv_get_view)
  have wfd: "wf_dict (state_dict s)" using state_dict_wf [OF assms(2)] by (rule wf_json_dict)
  have view: "map_of ?d = map_of (state_dict s)"
    unfolding canon_dict_view [OF wfd] by (rule ext) (simp only: o_apply state_dict_canon [OF assms(2)])
  have "fst ` set ?d = fst ` set (map (\<lambda>(k, v). (k, canon v)) (state_dict s))" by simp
  also have "\<dots> = set (map fst (state_dict s))" by (metis keys_map_canon set_map)
  finally have keys: "fst ` set ?d = set (REQUIRED_FIELDS @ map fst OPTIONAL_FIELDS)" by (simp only: state_dict_keys)
  have mem: "k \<in> set (map fst ?d) \<longleftrightarrow> k \<in> set (REQUIRED_FIELDS @ map fst OPTIONAL_FIELDS)" for k
    unfolding set_map keys ..
  have "filter (\<lambda>(k, _). k \<notin> set (map fst ?d)) OPTIONAL_FIELDS = []"
    unfolding mem by (force simp: filter_empty_conv)
  moreover have "list_all (\<lambda>k. k \<in> set (map fst ?d)) REQUIRED_FIELDS"
    unfolding mem by (auto simp: list_all_iff)
  moreover have "list_all (\<lambda>(k, _). k \<in> set REQUIRED_FIELDS \<or> k \<in> set (map fst OPTIONAL_FIELDS)) ?d"
  proof (unfold list_all_iff, clarify)
    fix k v assume "(k, v) \<in> set ?d" "k \<notin> set (map fst OPTIONAL_FIELDS)"
    then have "fst (k, v) \<in> fst ` set ?d" by (intro imageI)
    then have "k \<in> set REQUIRED_FIELDS \<union> set (map fst OPTIONAL_FIELDS)" unfolding keys fst_conv set_append .
    with \<open>k \<notin> set (map fst OPTIONAL_FIELDS)\<close> show "k \<in> set REQUIRED_FIELDS" by blast
  qed
  ultimately have "construct_state (JDict ?d) = Inr ?d"
    unfolding construct_state_def json.case by simp
  with get have "sr_load ?f (setup_id s) = Inr (Some ?d)" by (simp add: sr_load_def)
  moreover have "\<forall>k. dget ?d k = dget (state_dict s) k" unfolding dget_def view by simp
  ultimately show ?thesis using that by blast
qed

lemma terminal_phase_name: "terminal_name (JStr (phase_name p)) = Inr (p \<in> set TERMINAL_STATES)"
  by (cases p) (simp_all add: terminal_name_def TERMINAL_STATES_def)

section \<open>Properties\<close>


text \<open>A small setup for the witnesses: a package that reports one swing high and one bullish break, a
  reference box from 100 to 112, and five bars that sweep the low, break the swing and retest it.\<close>

definition demo_smc :: smc_lib where
  "demo_smc = \<lparr>swing_highs_lows = (\<lambda>df n. LibTable [None, Some (1, 103), None]),
     bos_choch = (\<lambda>df sw cb. LibTable [\<lparr>BOS = Some 1, CHOCH = None, BrokenLevel = 1, BrokenIndex = Some 0\<rparr>]),
     prev_high_low = (\<lambda>df tf. LibTable [])\<rparr>"

definition demo_profile :: market_profile where
  "demo_profile = \<lparr>profile_id = ''FOREX'', mp_symbols = [''XAUUSD''], reference_kind = ''ASIAN_SESSION'', reference_label = ''Asian'',
     buffer_kind = ''PIP'', execution_windows = []\<rparr>"

definition demo_args :: setup_args where
  "demo_args = \<lparr>a_setup_id = ''S1'', a_strategy_id = ''ST'', a_symbol = ''XAUUSD'', a_trading_day = 1, a_profile = demo_profile,
     a_reference_candles = [bar 0 105 112 100 106], a_h1_candles = [bar 0 1 2 1 2],
     a_m5_candles = [bar 1 102 103 101 102, bar 2 102 103 101 102, bar 3 102 102 99 101, bar 4 101 105 101 104, bar 5 104 104 102 103],
     a_execution_windows = [(0, 1000)], a_equity = 10000, a_symbol_meta = demo_meta, a_risk_percent = 1, a_stop_buffer_price = 1,
     a_expected_bar_count = None, a_entry_ttl = 3,
     a_config = \<lparr>swing_length = 5, close_break = True, default_analysis_count = 100\<rparr>,
     a_daily_loss_guard = None, a_open_position_guard = None, a_session_window_closed = False, a_now = None,
     a_sweep_search_after = None\<rparr>"

lemma demo_ready:
  obtains s where "evaluate_setup demo_smc demo_args = Inr s" "strategy_qualified s" "ss_state s = ENTRY_READY"
    "ss_entry s = Some 103" "ss_stop_loss s = Some 98"
proof -
  have "case evaluate_setup demo_smc demo_args of
      Inr s \<Rightarrow> strategy_qualified s \<and> ss_state s = ENTRY_READY \<and> ss_entry s = Some 103 \<and> ss_stop_loss s = Some 98
    | Inl e \<Rightarrow> False" by code_simp
  with that show ?thesis by (auto split: sum.splits)
qed


text \<open>The shared guards never change what the strategy finds: with any guards the result is the
  unguarded result, passed through the guards only when it qualified. A setup that did not qualify
  is never reported as blocked, and an unreadable guard store cannot disturb it.\<close>

theorem guards_only_tradability:
  "evaluate_setup smc a =
     (case evaluate_setup smc (a\<lparr>a_daily_loss_guard := None, a_open_position_guard := None\<rparr>) of
        Inl e \<Rightarrow> Inl e
      | Inr s \<Rightarrow> if strategy_qualified s then apply_guards a s else Inr s)"
  using evaluate_setup_guards [of smc a]
  by (auto simp: unguarded_def guard_result_def split: sum.split)



text \<open>A position that reaches its second target went through every step: the events reported for it
  contain submission, opening, first target, runner and second target in that order, whatever other
  events were reported in between, and its stop stands at the entry. Its levels and its volume are
  those of the entry, and no event leaves a terminal state.\<close>

theorem lifecycle_target_path:
  assumes "ss_state s = ENTRY_READY" "fold (apply_event pct) es s = s'"
  shows "(ss_state s' = TP2_HIT \<longrightarrow> subseq [EvSubmitted, EvOpened, EvTp1, EvRunner, EvTp2] es \<and> ss_stop_loss s' = ss_entry s)
    \<and> ss_entry s' = ss_entry s \<and> ss_tp1 s' = ss_tp1 s \<and> ss_tp2 s' = ss_tp2 s \<and> ss_volume s' = ss_volume s
    \<and> lc_edge\<^sup>*\<^sup>* ENTRY_READY (ss_state s')
    \<and> (ss_state s' \<in> set TERMINAL_STATES \<longrightarrow> (\<forall>more. fold (apply_event pct) more s' = s'))"
proof -
  have b: "at_breakeven s'" using apply_events_breakeven [of s pct es] assms by (simp add: at_breakeven_def)
  have "subseq [EvSubmitted, EvOpened, EvTp1, EvRunner, EvTp2] es" if "ss_state s' = TP2_HIT"
    using still_needed_run [of pct es s "[]"] assms that by auto
  then show ?thesis
    using b assms apply_events_levels [of pct es s] apply_events_edges [of s pct es] apply_events_terminal
    by (auto simp: at_breakeven_def)
qed

theorem lifecycle_target_path_witness:
  "\<exists>s. evaluate_setup demo_smc demo_args = Inr s \<and>
     ss_state (fold (apply_event 50) [EvSubmitted, EvTp2, EvOpened, EvTp1, EvSubmitted, EvRunner, EvTp2] s) = TP2_HIT \<and>
     ss_stop_loss (fold (apply_event 50) [EvSubmitted, EvTp2, EvOpened, EvTp1, EvSubmitted, EvRunner, EvTp2] s) = Some 103"
proof -
  obtain s where s: "evaluate_setup demo_smc demo_args = Inr s" "ss_state s = ENTRY_READY" "ss_entry s = Some 103"
    by (rule demo_ready)
  have "ss_state (fold (apply_event 50) [EvSubmitted, EvTp2, EvOpened, EvTp1, EvSubmitted, EvRunner, EvTp2] s) = TP2_HIT"
    using s(2) by (simp add: transition_defs TERMINAL_STATES_def)
  with lifecycle_target_path [OF s(2) refl, of 50 "[EvSubmitted, EvTp2, EvOpened, EvTp1, EvSubmitted, EvRunner, EvTp2]"] s
  show ?thesis by auto
qed

text \<open>C40. The enumerator terminates and returns exactly the qualifying bars of the execution windows, in
  order and each once: every sweep of a chronological bar sequence, not only the first.\<close>

theorem sweeps_enumerated:
  assumes "strictly_increasing (map c_time m5)"
  shows "enumerate_sweep_candidates m5 windows hi lo req =
         List.map_filter (sweep_hit hi lo req) (filter (\<lambda>c. in_execution_windows (c_time c) windows) m5)"
proof -
  have "strictly_increasing (map c_time (filter P m5))" for P
    using assms by (simp add: strictly_increasing_def sorted_wrt_map sorted_wrt_filter)
  then show ?thesis unfolding enumerate_sweep_candidates_def by (rule sweep_loop_all)
qed

theorem sweeps_enumerated_witness:
  "map candle_time (enumerate_sweep_candidates [bar 1 102 103 99 101, bar 2 102 113 99 105, bar 3 102 103 98 101] [(0, 1000)] 112 100 (Some LOW_SWEEP))
   = [1, 3]"
proof -
  have t: "strictly_increasing (map c_time [bar 1 102 103 99 101, bar 2 102 113 99 105, bar 3 102 103 98 101])" by code_simp
  show ?thesis unfolding sweeps_enumerated [OF t] by code_simp
qed

text \<open>The strategy's trend filter and the tier direction of the market-structure layer follow the same
  rule: computed on the same bars with the same swing length, they agree whenever the break events
  are confirmed at distinct times.\<close>

theorem trend_rules_agree:
  assumes "all_breaks smc cs (swing_length cfg) (close_break cfg) = Inr evs" "cs \<noteq> []" "distinct (map time_utc evs)"
    and "build_tier smc cs name (swing_length cfg) (close_break cfg) tol = Inr tr"
  shows "h1_trend_direction smc cfg cs =
           Inr (case tier_dir tr of State_BULLISH \<Rightarrow> LONG_ONLY | State_BEARISH \<Rightarrow> SHORT_ONLY | State_UNDEFINED \<Rightarrow> NO_TRADE)"
proof -
  have "sorted_wrt (<) (map time_utc evs)"
    using all_breaks_sorted [OF assms(1)] assms(3) strict_sorted_iff by blast
  then have "tier_dir tr = state_of_candidates evs"
    using assms(1,4) tier_direction_last all_breaks_kinds [OF assms(1)]
    by (auto simp: build_tier_def Let_def res_bind_Inr_iff)
  then show ?thesis using assms(1,2)
    by (auto simp: h1_trend_direction_def structural_breaks_for_candles_def state_of_candidates_def split: list.split)
qed

theorem trend_rules_agree_witness:
  "h1_trend_direction demo_smc (a_config demo_args) [bar 0 1 2 1 2, bar 1 1 2 1 2, bar 2 1 2 1 2] = Inr LONG_ONLY"
proof -
  let ?cfg = "a_config demo_args"
  have e: "all_breaks demo_smc [bar 0 1 2 1 2, bar 1 1 2 1 2, bar 2 1 2 1 2] (swing_length ?cfg) (close_break ?cfg) = Inr [\<lparr>time_utc = 0, price = 1, kind = BULLISH_BOS\<rparr>]"
    by code_simp
  have "case build_tier demo_smc [bar 0 1 2 1 2, bar 1 1 2 1 2, bar 2 1 2 1 2] ''T'' (swing_length ?cfg) (close_break ?cfg) 0 of
      Inr tr \<Rightarrow> tier_dir tr = State_BULLISH | Inl _ \<Rightarrow> False" by code_simp
  then obtain tr where tr: "build_tier demo_smc [bar 0 1 2 1 2, bar 1 1 2 1 2, bar 2 1 2 1 2] ''T'' (swing_length ?cfg) (close_break ?cfg) 0 = Inr tr"
    "tier_dir tr = State_BULLISH" by (auto split: sum.splits)
  from trend_rules_agree [OF e _ _ tr(1)] tr(2) show ?thesis by simp
qed

text \<open>Once a call has computed and stored a terminal state, every later call for that setup id
  returns the stored fields and writes nothing, whatever its other arguments are. The stored fields
  are those of the computed state, with each datetime as its ISO text.\<close>

theorem runtime_terminal_replay:
  assumes "kv_wf f" "runtime_evaluate smc env a f = (f', Inr (Fresh s))" "ss_state s \<in> set TERMINAL_STATES"
    and "a_setup_id a' = a_setup_id a"
  shows "\<exists>d. runtime_evaluate smc' env' a' f' = (f', Inr (Cached d)) \<and> (\<forall>k. dget d k = dget (state_dict s) k)"
proof -
  from assms(2) have c: "compute_and_save smc env a f = (f', Inr (Fresh s))"
    by (auto simp: runtime_evaluate_def split: sum.splits option.splits bool.splits)
  then have e: "evaluate_setup smc a = Inr s" and sv: "sr_save env s f = (f', Inr ())"
    by (auto simp: compute_and_save_def split: sum.splits prod.splits)
  have id: "setup_id s = a_setup_id a" "evidence s = []" using evaluate_setup_fields [OF e] by simp_all
  obtain d where d: "sr_load f' (setup_id s) = Inr (Some d)" "\<forall>k. dget d k = dget (state_dict s) k"
    using save_load [OF assms(1) id(2), of env] sv by auto
  have "dget d ''state'' = JStr (phase_name (ss_state s))" using d(2) by (simp add: state_dict_def dget_def)
  then have "terminal_name (dget d ''state'') = Inr True" using terminal_phase_name assms(3) by simp
  with d id assms(4) show ?thesis by (intro exI [of _ d]) (simp add: runtime_evaluate_def)
qed

theorem runtime_terminal_replay_witness:
  "\<exists>f s d. runtime_evaluate demo_smc good_disk (demo_args\<lparr>a_stop_buffer_price := 50\<rparr>) KvMissing = (f, Inr (Fresh s)) \<and>
     ss_state s = NO_TRADE_TARGET_GEOMETRY \<and> runtime_evaluate demo_smc bad_disk demo_args f = (f, Inr (Cached d))"
proof -
  let ?a = "demo_args\<lparr>a_stop_buffer_price := 50\<rparr>"
  have "case runtime_evaluate demo_smc good_disk ?a KvMissing of
      (f, Inr (Fresh s)) \<Rightarrow> ss_state s = NO_TRADE_TARGET_GEOMETRY | _ \<Rightarrow> False" by code_simp
  then obtain f s where r: "runtime_evaluate demo_smc good_disk ?a KvMissing = (f, Inr (Fresh s))"
    "ss_state s = NO_TRADE_TARGET_GEOMETRY" by (auto split: prod.splits sum.splits runtime_result.splits)
  have t: "ss_state s \<in> set TERMINAL_STATES" using r(2) by (simp add: TERMINAL_STATES_def)
  have "kv_wf KvMissing" "a_setup_id demo_args = a_setup_id ?a" by (simp_all add: kv_wf_def)
  from runtime_terminal_replay [OF this(1) r(1) t this(2)] r show ?thesis by blast
qed

end
