(* ===== verification/Ticket_Store.thy ===== *)
theory Ticket_Store
  imports Py_Data "HOL-Library.Countable"
begin

text \<open>
  The append-only ticket store (src/src/ticket\_store/store.py): sealed evaluation and outcome
  records in one JSONL file per day. A directory is an association list from file names to files;
  a file is its list of lines and whether its last line is truncated. A line, once written, is never
  changed or removed by any operation. SHA-256 of the canonical JSON text and \<open>str\<close> of a value that
  is not a string are the runtime functions \<open>rt\<close>.
\<close>

section \<open>Records\<close>

record py_rt =
  sha :: "json \<Rightarrow> string"
  repr :: "json \<Rightarrow> string"

definition sha256 :: "py_rt \<Rightarrow> json \<Rightarrow> string" where
  "sha256 rt obj = sha rt (canon obj)"

definition py_str :: "py_rt \<Rightarrow> json \<Rightarrow> string" where
  "py_str rt v = (case v of JStr s \<Rightarrow> s | _ \<Rightarrow> repr rt v)"

type_synonym dict = "(string \<times> json) list"

definition SOURCES :: "string list" where
  "SOURCES = [''LIVE'', ''REPLAY'', ''LEGACY'', ''DEMO'']"

definition EVALUATION_FIELDS :: "string list" where
  "EVALUATION_FIELDS =
    [''schema'', ''evaluation_id'', ''ticket_id'', ''strategy'', ''spec_sha256'', ''code_sha'', ''source'',
     ''symbol'', ''session'', ''evaluated_at_utc'', ''signal_close_utc'', ''state'', ''block_reasons'', ''warnings'',
     ''direction'', ''entry'', ''sl'', ''tp1'', ''tp2'', ''spread_at_signal'', ''spread_measured_at_utc'',
     ''input_bar_hashes'', ''delivery_status'', ''owner_decision_ref'', ''provenance'', ''record_sha256'']"

definition OUTCOME_FIELDS :: "string list" where
  "OUTCOME_FIELDS =
    [''schema'', ''outcome_id'', ''ticket_id'', ''source'', ''outcome_kind'', ''recorded_at_utc'', ''result'',
     ''payload'', ''provenance'', ''record_sha256'']"

definition EVALUATION_KEY :: "string list" where
  "EVALUATION_KEY = [''strategy'', ''symbol'', ''session'', ''evaluated_at_utc'', ''source'']"

definition evaluation_id :: "py_rt \<Rightarrow> dict \<Rightarrow> string" where
  "evaluation_id rt d = sha256 rt (JList (map (dget d) EVALUATION_KEY))"

definition outcome_id :: "py_rt \<Rightarrow> dict \<Rightarrow> string" where
  "outcome_id rt d =
     sha256 rt (JList [dget d ''ticket_id'', dget d ''outcome_kind'', dget d ''source'', dget d ''recorded_at_utc'',
                       JStr (sha256 rt (dget d ''payload''))])"

text \<open>\<open>{k: record.get(k) for k in flds}\<close>.\<close>

definition project :: "string list \<Rightarrow> dict \<Rightarrow> dict" where
  "project flds d = map (\<lambda>k. (k, dget d k)) flds"

definition seal :: "py_rt \<Rightarrow> string list \<Rightarrow> dict \<Rightarrow> dict" where
  "seal rt flds d =
     (let out = project flds d
      in dput ''record_sha256'' (JStr (sha256 rt (JDict (ddel ''record_sha256'' out)))) out)"

definition valid_source :: "json \<Rightarrow> bool" where
  "valid_source v = (case v of JStr s \<Rightarrow> s \<in> set SOURCES | _ \<Rightarrow> False)"

text \<open>\<open>list(v or [])\<close>.\<close>

definition list_or_empty :: "json \<Rightarrow> json res" where
  "list_or_empty v =
     (if \<not> truthy v then Inr (JList [])
      else case v of
        JList xs \<Rightarrow> Inr (JList xs)
      | JStr s \<Rightarrow> Inr (JList (map (\<lambda>c. JStr [c]) s))
      | JDict d \<Rightarrow> Inr (JList (map (JStr \<circ> fst) d))
      | _ \<Rightarrow> Inl TypeError)"

definition build_evaluation :: "py_rt \<Rightarrow> dict \<Rightarrow> dict res" where
  "build_evaluation rt flds =
     (if \<not> list_all (\<lambda>(k, _). k \<in> set EVALUATION_FIELDS) flds then Inl (TicketStoreError ''unknown evaluation fields'')
      else
        let d0 = dput ''schema'' (JStr ''TICKET_STORE_V1_EVALUATION'') (project EVALUATION_FIELDS flds)
        in case list_or_empty (dget d0 ''block_reasons'') of Inl e \<Rightarrow> Inl e
           | Inr br \<Rightarrow>
        (case list_or_empty (dget d0 ''warnings'') of Inl e \<Rightarrow> Inl e
           | Inr wa \<Rightarrow>
        let d1 = dput ''warnings'' wa (dput ''block_reasons'' br d0)
        in if \<not> valid_source (dget d1 ''source'') then Inl (TicketStoreError ''source'')
           else if \<not> list_all (\<lambda>k. truthy (dget d1 k)) [''strategy'', ''symbol'', ''session'', ''evaluated_at_utc'', ''state'']
           then Inl (TicketStoreError ''evaluation identity/state fields missing'')
           else Inr (seal rt EVALUATION_FIELDS (dput ''evaluation_id'' (JStr (evaluation_id rt d1)) d1))))"

definition build_outcome :: "py_rt \<Rightarrow> dict \<Rightarrow> dict res" where
  "build_outcome rt flds =
     (if \<not> list_all (\<lambda>(k, _). k \<in> set OUTCOME_FIELDS) flds then Inl (TicketStoreError ''unknown outcome fields'')
      else
        let d = dput ''schema'' (JStr ''TICKET_STORE_V1_OUTCOME'') (project OUTCOME_FIELDS flds)
        in if \<not> valid_source (dget d ''source'') then Inl (TicketStoreError ''source'')
           else if \<not> truthy (dget d ''ticket_id'') \<or> \<not> truthy (dget d ''outcome_kind'')
           then Inl (TicketStoreError ''outcome requires ticket_id and outcome_kind'')
           else Inr (seal rt OUTCOME_FIELDS (dput ''outcome_id'' (JStr (outcome_id rt d)) d)))"

section \<open>Files\<close>

datatype jsonl_line = Blank | Row json | Garbled

record jsonl_file =
  lines :: "jsonl_line list"
  truncated :: bool

definition empty_file :: jsonl_file where
  "empty_file = \<lparr>lines = [], truncated = False\<rparr>"

type_synonym day_dir = "(string \<times> jsonl_file) list"

record ticket_store =
  ts_evaluations :: day_dir
  ts_outcomes :: day_dir

text \<open>What \<open>read_jsonl\<close> yields, lazily: rows, and \<open>None\<close> where it raises \<open>TicketStoreCorrupt\<close>.\<close>

fun line_events :: "jsonl_line \<Rightarrow> json option list" where
  "line_events Blank = []"
| "line_events (Row v) = [Some v]"
| "line_events Garbled = [None]"

definition read_jsonl :: "jsonl_file \<Rightarrow> json option list" where
  "read_jsonl f = (if truncated f then [None] else concat (map line_events (lines f)))"

definition file_at :: "day_dir \<Rightarrow> string \<Rightarrow> jsonl_file" where
  "file_at dir name = (case map_of dir name of None \<Rightarrow> empty_file | Some f \<Rightarrow> f)"

text \<open>\<open>files\<close>: the files of a directory in the order of their names.\<close>

definition files :: "day_dir \<Rightarrow> (string \<times> jsonl_file) list" where
  "files dir = sort_key fst dir"

definition row_stream :: "day_dir \<Rightarrow> json option list" where
  "row_stream dir = concat (map (\<lambda>(_, f). read_jsonl f) (files dir))"

text \<open>\<open>outcomes(ticket_id)\<close>: the rows of one ticket; \<open>r.get\<close> on a row that is not an object raises.\<close>

fun select_rows :: "string \<Rightarrow> json option list \<Rightarrow> dict list res" where
  "select_rows tid [] = Inr []"
| "select_rows tid (None # es) = Inl TicketStoreCorrupt"
| "select_rows tid (Some (JDict d) # es) =
     (case select_rows tid es of
        Inl e \<Rightarrow> Inl e
      | Inr rs \<Rightarrow> Inr (if dget d ''ticket_id'' = JStr tid then d # rs else rs))"
| "select_rows tid (Some _ # es) = Inl AttributeError"

definition outcomes :: "ticket_store \<Rightarrow> string \<Rightarrow> dict list res" where
  "outcomes st tid = select_rows tid (row_stream (ts_outcomes st))"

fun all_rows :: "json option list \<Rightarrow> json list res" where
  "all_rows [] = Inr []"
| "all_rows (None # es) = Inl TicketStoreCorrupt"
| "all_rows (Some v # es) = (case all_rows es of Inl e \<Rightarrow> Inl e | Inr vs \<Rightarrow> Inr (v # vs))"

definition evaluations :: "ticket_store \<Rightarrow> json list res" where
  "evaluations st = all_rows (row_stream (ts_evaluations st))"

section \<open>Writes\<close>

text \<open>How one attempt to append a line ends: written and synced, not opened, torn in the middle, or
  written while the final sync failed.\<close>

datatype append_io = Appended | NotOpened | Torn | Unsynced

text \<open>The scan for the record's identity: \<open>Some\<close> when it is already stored with the same content.\<close>

fun scan_existing :: "string \<Rightarrow> dict \<Rightarrow> json option list \<Rightarrow> bool res" where
  "scan_existing idf d [] = Inr False"
| "scan_existing idf d (None # es) = Inl TicketStoreCorrupt"
| "scan_existing idf d (Some (JDict r) # es) =
     (case map_of d idf of
        None \<Rightarrow> Inl (KeyError idf)
      | Some v \<Rightarrow>
          if dget r idf = v then
            (if dget r ''record_sha256'' = dget d ''record_sha256'' then Inr True else Inl TicketStoreConflict)
          else scan_existing idf d es)"
| "scan_existing idf d (Some _ # es) = Inl AttributeError"

definition add_line :: "string \<Rightarrow> dict \<Rightarrow> day_dir \<Rightarrow> day_dir" where
  "add_line name d dir =
     (let f = file_at dir name in dput name (f\<lparr>lines := lines f @ [Row (canon (JDict d))]\<rparr>) dir)"

definition tear_line :: "string \<Rightarrow> day_dir \<Rightarrow> day_dir" where
  "tear_line name dir = dput name ((file_at dir name)\<lparr>truncated := True\<rparr>) dir"

definition append_row :: "append_io \<Rightarrow> string \<Rightarrow> string \<Rightarrow> dict \<Rightarrow> day_dir \<Rightarrow> day_dir \<times> bool res" where
  "append_row io name idf d dir =
     (case scan_existing idf d (read_jsonl (file_at dir name)) of
        Inl e \<Rightarrow> (dir, Inl e)
      | Inr True \<Rightarrow> (dir, Inr False)
      | Inr False \<Rightarrow>
          (case io of
             Appended \<Rightarrow> (add_line name d dir, Inr True)
           | NotOpened \<Rightarrow> (dir, Inl OSError)
           | Torn \<Rightarrow> (tear_line name dir, Inl OSError)
           | Unsynced \<Rightarrow> (add_line name d dir, Inl OSError)))"

definition outcome_path :: "py_rt \<Rightarrow> dict \<Rightarrow> string" where
  "outcome_path rt d =
     (let v = dget d ''recorded_at_utc'';
          day = take 10 (if truthy v then py_str rt v else [])
      in (if day = [] then ''undated'' else day) @ ''.jsonl'')"

definition evaluation_path :: "py_rt \<Rightarrow> dict \<Rightarrow> string res" where
  "evaluation_path rt d =
     (case map_of d ''evaluated_at_utc'' of
        None \<Rightarrow> Inl (KeyError ''evaluated_at_utc'')
      | Some v \<Rightarrow> Inr (take 10 (py_str rt v) @ ''.jsonl''))"

definition append_outcome :: "py_rt \<Rightarrow> append_io \<Rightarrow> dict \<Rightarrow> ticket_store \<Rightarrow> ticket_store \<times> bool res" where
  "append_outcome rt io d st =
     (if dget d ''schema'' \<noteq> JStr ''TICKET_STORE_V1_OUTCOME'' \<or> dget d ''record_sha256'' = JNull
      then (st, Inl (TicketStoreError ''append_outcome takes a record from build_outcome()''))
      else case append_row io (outcome_path rt d) ''outcome_id'' d (ts_outcomes st) of
        (dir, r) \<Rightarrow> (st\<lparr>ts_outcomes := dir\<rparr>, r))"

definition append_evaluation :: "py_rt \<Rightarrow> append_io \<Rightarrow> dict \<Rightarrow> ticket_store \<Rightarrow> ticket_store \<times> bool res" where
  "append_evaluation rt io d st =
     (if dget d ''schema'' \<noteq> JStr ''TICKET_STORE_V1_EVALUATION'' \<or> dget d ''record_sha256'' = JNull
      then (st, Inl (TicketStoreError ''append_evaluation takes a record from build_evaluation()''))
      else case evaluation_path rt d of
        Inl e \<Rightarrow> (st, Inl e)
      | Inr name \<Rightarrow>
          (case append_row io name ''evaluation_id'' d (ts_evaluations st) of
             (dir, r) \<Rightarrow> (st\<lparr>ts_evaluations := dir\<rparr>, r)))"

section \<open>Lemmas: rows are never lost\<close>

text \<open>A directory grows: every line stays in place, a truncated file stays truncated.\<close>

definition grows :: "day_dir \<Rightarrow> day_dir \<Rightarrow> bool" where
  "grows dir dir' \<longleftrightarrow>
     (\<forall>name. (\<exists>more. lines (file_at dir' name) = lines (file_at dir name) @ more) \<and>
             (truncated (file_at dir name) \<longrightarrow> truncated (file_at dir' name)))"

lemma grows_refl [simp]: "grows dir dir"
  by (simp add: grows_def)

lemma grows_trans: "grows a b \<Longrightarrow> grows b c \<Longrightarrow> grows a c"
  unfolding grows_def by (metis append.assoc)

lemma file_at_dput [simp]: "file_at (dput n f dir) n' = (if n' = n then f else file_at dir n')"
  by (simp add: file_at_def)

lemma grows_add_line: "grows dir (add_line n d dir)"
  by (auto simp: grows_def add_line_def Let_def)

lemma grows_tear_line: "grows dir (tear_line n dir)"
  by (auto simp: grows_def tear_line_def)

lemma append_row_grows: "grows dir (fst (append_row io n idf d dir))"
  by (auto simp: append_row_def grows_add_line grows_tear_line split: sum.split bool.split append_io.split)

lemma append_outcome_grows:
  "grows (ts_outcomes st) (ts_outcomes (fst (append_outcome rt io d st)))"
  "ts_evaluations (fst (append_outcome rt io d st)) = ts_evaluations st"
  using append_row_grows [of "ts_outcomes st" io "outcome_path rt d" "''outcome_id''" d]
  by (auto simp: append_outcome_def split: prod.split)

lemma append_row_ok:
  assumes "append_row io n idf d dir = (dir', Inr True)"
  shows "dir' = add_line n d dir" "io = Appended" "scan_existing idf d (read_jsonl (file_at dir n)) = Inr False"
  using assms by (auto simp: append_row_def split: sum.splits bool.splits append_io.splits)

lemma append_outcome_ok:
  assumes "append_outcome rt io d st = (st', Inr True)"
  shows "ts_outcomes st' = add_line (outcome_path rt d) d (ts_outcomes st)" "io = Appended"
    "scan_existing ''outcome_id'' d (read_jsonl (file_at (ts_outcomes st) (outcome_path rt d))) = Inr False"
  using assms append_row_ok [of io "outcome_path rt d" "''outcome_id''" d "ts_outcomes st"]
  by (auto simp: append_outcome_def split: if_splits prod.splits)

text \<open>A directory lists each file once.\<close>

lemma wf_add_line: "wf_dict dir \<Longrightarrow> wf_dict (add_line n d dir)"
  by (simp add: add_line_def Let_def wf_dput)

lemma wf_tear_line: "wf_dict dir \<Longrightarrow> wf_dict (tear_line n dir)"
  by (simp add: tear_line_def wf_dput)

lemma append_row_wf: "wf_dict dir \<Longrightarrow> wf_dict (fst (append_row io n idf d dir))"
  by (auto simp: append_row_def wf_add_line wf_tear_line split: sum.split bool.split append_io.split)

lemma append_outcome_wf: "wf_dict (ts_outcomes st) \<Longrightarrow> wf_dict (ts_outcomes (fst (append_outcome rt io d st)))"
  using append_row_wf [of "ts_outcomes st" io "outcome_path rt d" "''outcome_id''" d]
  by (auto simp: append_outcome_def split: prod.split)

text \<open>A row that stands in a file is among the rows a successful read returns.\<close>

lemma files_file_at:
  assumes "lines (file_at dir n) \<noteq> [] \<or> truncated (file_at dir n)"
  shows "(n, file_at dir n) \<in> set (files dir)"
  using assms by (auto simp: file_at_def files_def empty_file_def split: option.splits dest: map_of_SomeD)

lemma select_rows_ok_iff:
  "(\<exists>rs. select_rows tid es = Inr rs) \<longleftrightarrow> (\<forall>e \<in> set es. \<exists>d. e = Some (JDict d))"
  by (induction tid es rule: select_rows.induct) (auto split: sum.splits)

lemma select_rows_Inr:
  "select_rows tid es = Inr rs \<Longrightarrow> rs = [d. Some (JDict d) \<leftarrow> es, dget d ''ticket_id'' = JStr tid]"
  by (induction tid es arbitrary: rs rule: select_rows.induct) (auto split: sum.splits)

lemma row_in_stream:
  assumes "Row v \<in> set (lines (file_at dir n))" "\<not> truncated (file_at dir n)"
  shows "Some v \<in> set (row_stream dir)"
proof -
  have "(n, file_at dir n) \<in> set (files dir)" using assms(1) by (intro files_file_at) auto
  moreover have "Some v \<in> set (read_jsonl (file_at dir n))" using assms by (force simp: read_jsonl_def)
  ultimately show ?thesis by (force simp: row_stream_def)
qed

lemma truncated_in_stream: "truncated (file_at dir n) \<Longrightarrow> None \<in> set (row_stream dir)"
  using files_file_at [of dir n] by (force simp: row_stream_def read_jsonl_def)

lemma outcomes_contains:
  assumes "outcomes st tid = Inr rs" "Row (JDict d) \<in> set (lines (file_at (ts_outcomes st) n))" "dget d ''ticket_id'' = JStr tid"
  shows "d \<in> set rs"
proof -
  have all: "\<forall>e \<in> set (row_stream (ts_outcomes st)). \<exists>d. e = Some (JDict d)"
    using assms(1) select_rows_ok_iff unfolding outcomes_def by blast
  have "\<not> truncated (file_at (ts_outcomes st) n)"
    using all truncated_in_stream by fastforce
  then have "Some (JDict d) \<in> set (row_stream (ts_outcomes st))" using row_in_stream assms(2) by blast
  then show ?thesis using assms(3) select_rows_Inr [OF assms(1) [unfolded outcomes_def]] by force
qed

section \<open>Lemmas: built records\<close>

lemma dget_project: "dget (project fs d) k = (if k \<in> set fs then dget d k else JNull)"
  by (induction fs) (auto simp: project_def dget_def)

lemma wf_project: "distinct fs \<Longrightarrow> wf_dict (project fs d)"
  by (simp add: project_def wf_dict_def comp_def)

lemma dget_seal: "k \<noteq> ''record_sha256'' \<Longrightarrow> dget (seal rt fs d) k = (if k \<in> set fs then dget d k else JNull)"
  by (simp add: seal_def Let_def dget_project)

lemma wf_seal: "distinct fs \<Longrightarrow> wf_dict (seal rt fs d)"
  by (simp add: seal_def Let_def wf_dput wf_project)

lemma OUTCOME_FIELDS_distinct: "distinct OUTCOME_FIELDS"
  by (simp add: OUTCOME_FIELDS_def)

text \<open>The fields a caller passes to \<open>build_outcome\<close> are the fields of the record.\<close>

lemma build_outcome_fields:
  assumes "build_outcome rt fs = Inr d"
  shows "wf_dict d" "dget d ''schema'' = JStr ''TICKET_STORE_V1_OUTCOME''" "\<exists>s. dget d ''record_sha256'' = JStr s"
    "\<And>k. k \<in> {''ticket_id'', ''source'', ''outcome_kind'', ''recorded_at_utc'', ''result'', ''payload'', ''provenance''} \<Longrightarrow>
         dget d k = dget fs k"
proof -
  let ?d = "dput ''schema'' (JStr ''TICKET_STORE_V1_OUTCOME'') (project OUTCOME_FIELDS fs)"
  from assms have d: "d = seal rt OUTCOME_FIELDS (dput ''outcome_id'' (JStr (outcome_id rt ?d)) ?d)"
    by (auto simp: build_outcome_def Let_def split: if_splits)
  show "wf_dict d" unfolding d by (rule wf_seal [OF OUTCOME_FIELDS_distinct])
  show "dget d ''schema'' = JStr ''TICKET_STORE_V1_OUTCOME''" unfolding d by (simp add: dget_seal OUTCOME_FIELDS_def)
  show "\<exists>s. dget d ''record_sha256'' = JStr s" unfolding d by (simp add: seal_def Let_def)
  show "dget d k = dget fs k"
    if "k \<in> {''ticket_id'', ''source'', ''outcome_kind'', ''recorded_at_utc'', ''result'', ''payload'', ''provenance''}" for k
    using that unfolding d by (auto simp: dget_seal dget_project OUTCOME_FIELDS_def)
qed

text \<open>A call with the usual fields succeeds.\<close>

definition outcome_args :: "string \<Rightarrow> string \<Rightarrow> string \<Rightarrow> string \<Rightarrow> json \<Rightarrow> string \<Rightarrow> dict" where
  "outcome_args tid okind recorded_at result payload writer =
     [(''ticket_id'', JStr tid), (''source'', JStr ''LIVE''), (''outcome_kind'', JStr okind), (''recorded_at_utc'', JStr recorded_at),
      (''result'', JStr result), (''payload'', payload), (''provenance'', JDict [(''writer'', JStr writer)])]"

lemma build_outcome_args:
  assumes "tid \<noteq> []" "okind \<noteq> []"
  obtains d where "build_outcome rt (outcome_args tid okind t result payload writer) = Inr d"
proof -
  let ?a = "outcome_args tid okind t result payload writer"
  have "dget ?a ''source'' = JStr ''LIVE''" "dget ?a ''ticket_id'' = JStr tid" "dget ?a ''outcome_kind'' = JStr okind"
    by (simp_all add: outcome_args_def dget_def)
  moreover have "list_all (\<lambda>(k, _). k \<in> set OUTCOME_FIELDS) ?a" by (simp add: outcome_args_def OUTCOME_FIELDS_def)
  moreover have "''source'' \<in> set OUTCOME_FIELDS" "''ticket_id'' \<in> set OUTCOME_FIELDS" "''outcome_kind'' \<in> set OUTCOME_FIELDS"
    by (simp_all add: OUTCOME_FIELDS_def)
  ultimately show ?thesis using assms that
    unfolding build_outcome_def by (simp add: Let_def dget_project valid_source_def SOURCES_def)
qed

section \<open>The store as an append-only log\<close>

text \<open>What the writers and readers of evidence rely on: a row that stands in the store stays there under
  every append, an acknowledged append puts its row there, and a read that succeeds misses none.\<close>

locale append_log =
  fixes has :: "'s \<Rightarrow> 'r \<Rightarrow> bool" and app :: "'i \<Rightarrow> 'r \<Rightarrow> 's \<Rightarrow> 's \<times> bool res"
    and stored :: "'r \<Rightarrow> 'r" and read :: "'s \<Rightarrow> 'k \<Rightarrow> 'r list res" and keyed :: "'r \<Rightarrow> 'k \<Rightarrow> bool" and ok :: "'r \<Rightarrow> bool"
  assumes app_keeps: "has st r \<Longrightarrow> has (fst (app io d st)) r"
    and app_ok: "ok d \<Longrightarrow> snd (app io d st) = Inr True \<Longrightarrow> has (fst (app io d st)) (stored d)"
    and read_complete: "read st k = Inr rs \<Longrightarrow> has st r \<Longrightarrow> keyed r k \<Longrightarrow> r \<in> set rs"
begin

text \<open>A store reached by appends only.\<close>

inductive appended :: "'s \<Rightarrow> 's \<Rightarrow> bool" where
  refl: "appended st st"
| step: "appended st st' \<Longrightarrow> appended st (fst (app io d st'))"

lemma appended_has: "appended st st' \<Longrightarrow> has st r \<Longrightarrow> has st' r"
  by (induction rule: appended.induct) (auto intro: app_keeps)

lemma appended_trans: "appended a b \<Longrightarrow> appended b c \<Longrightarrow> appended a c"
  by (rotate_tac 1, induction rule: appended.induct) (auto intro: appended.intros)

lemma appended_one: "appended st (fst (app io d st))"
  by (rule appended.step [OF appended.refl])

lemma acknowledged_is_read:
  assumes "ok d" "snd (app io d st) = Inr True" "appended (fst (app io d st)) st'" "read st' k = Inr rs" "keyed (stored d) k"
  shows "stored d \<in> set rs"
  using read_complete [OF assms(4) appended_has [OF assms(3) app_ok [OF assms(1,2)]] assms(5)] .

end

definition has_outcome :: "ticket_store \<Rightarrow> dict \<Rightarrow> bool" where
  "has_outcome st d \<longleftrightarrow> (\<exists>n. Row (JDict d) \<in> set (lines (file_at (ts_outcomes st) n)))"

definition stored_row :: "dict \<Rightarrow> dict" where
  "stored_row d = (case canon (JDict d) of JDict d' \<Rightarrow> d' | _ \<Rightarrow> [])"

lemma stored_row_canon: "canon (JDict d) = JDict (stored_row d)"
  by (simp add: stored_row_def)

lemma dget_stored_row: "wf_dict d \<Longrightarrow> dget (stored_row d) k = canon (dget d k)"
  by (erule canon_dict [of d]) (metis json.inject(6) stored_row_canon)

definition of_ticket :: "dict \<Rightarrow> string \<Rightarrow> bool" where
  "of_ticket d tid \<longleftrightarrow> dget d ''ticket_id'' = JStr tid"

interpretation tlog: append_log has_outcome "\<lambda>(rt, io). append_outcome rt io" stored_row outcomes of_ticket wf_dict
proof unfold_locales
  fix st d :: "ticket_store" and r :: dict and x :: "py_rt \<times> append_io" and e :: dict
  obtain rt io where x: "x = (rt, io)" by (cases x)
  show "has_outcome st r \<Longrightarrow> has_outcome (fst ((\<lambda>(rt, io). append_outcome rt io) x e st)) r"
    using append_outcome_grows(1) [of st rt io e] unfolding x
    by (auto simp: has_outcome_def grows_def) (metis UnCI set_append)
  show "has_outcome (fst ((\<lambda>(rt, io). append_outcome rt io) x e st)) (stored_row e)"
    if "wf_dict e" "snd ((\<lambda>(rt, io). append_outcome rt io) x e st) = Inr True"
  proof -
    have "append_outcome rt io e st = (fst (append_outcome rt io e st), Inr True)"
      using that(2) by (simp add: x prod_eq_iff)
    from append_outcome_ok(1) [OF this]
    have "Row (JDict (stored_row e)) \<in> set (lines (file_at (ts_outcomes (fst (append_outcome rt io e st))) (outcome_path rt e)))"
      unfolding add_line_def Let_def stored_row_canon by simp
    then show ?thesis unfolding x has_outcome_def by auto
  qed
  show "outcomes st k = Inr rs \<Longrightarrow> has_outcome st r \<Longrightarrow> of_ticket r k \<Longrightarrow> r \<in> set rs" for k rs
    using outcomes_contains by (auto simp: has_outcome_def of_ticket_def)
qed

section \<open>Lemmas: the place of a new row\<close>

lemma files_dput:
  assumes "wf_dict dir"
  shows "files (dput n f dir) = filter (\<lambda>p. fst p < n) (files dir) @ (n, f) # filter (\<lambda>p. n < fst p) (files dir)"
    (is "?l = ?r")
proof (rule map_sorted_distinct_set_unique [of fst])
  have d: "distinct (map fst (files dir))" "sorted (map fst (files dir))"
    using assms by (simp_all add: files_def wf_dict_def distinct_keys_sort)
  have dl: "distinct (map fst ?l)" using wf_dput [OF assms, of n f] by (simp add: files_def wf_dict_def distinct_keys_sort)
  then show "distinct (map fst ?l)" .
  show "sorted (map fst ?l)" by (simp add: files_def)
  have fs: "sorted (map fst (filter P (files dir)))" "distinct (map fst (filter P (files dir)))" for P
    using d by (simp_all add: sorted_filter distinct_map_filter)
  show "sorted (map fst ?r)"
    using fs by (fastforce simp: sorted_append intro: less_imp_le order.strict_implies_order)
  show "distinct (map fst ?r)"
    using fs by (auto dest: less_asym)
  have "set (dput n f dir) = insert (n, f) {p \<in> set dir. fst p \<noteq> n}"
    using assms by (induction n f dir rule: dput.induct) (auto simp: wf_dict_def)
  then show set: "set ?l = set ?r" by (auto simp: files_def)
  show "inj_on fst (set ?l \<union> set ?r)" using dl set by (simp add: distinct_map)
qed

lemma sorted_around:
  "sorted (map f xs) \<Longrightarrow> \<forall>x \<in> set xs. f x \<noteq> n \<Longrightarrow> xs = filter (\<lambda>x. f x < n) xs @ filter (\<lambda>x. n < f x) xs"
proof (induction xs)
  case (Cons x xs)
  show ?case
  proof (cases "f x < n")
    case False
    then have "\<forall>y \<in> set (x # xs). n < f y" using Cons.prems by (auto intro: less_le_trans)
    then have "filter (\<lambda>x. f x < n) (x # xs) = []" "filter (\<lambda>x. n < f x) (x # xs) = x # xs"
      by (auto simp: filter_empty_conv intro!: filter_True dest: less_asym)
    then show ?thesis by simp
  qed (use Cons in auto)
qed simp

lemma files_split:
  assumes "wf_dict dir"
  shows "files dir = filter (\<lambda>p. fst p < n) (files dir) @ (case map_of dir n of None \<Rightarrow> [] | Some f \<Rightarrow> [(n, f)])
                     @ filter (\<lambda>p. n < fst p) (files dir)"
proof (cases "map_of dir n")
  case (Some f)
  have "set (dput n f dir) = set dir"
    using assms Some by (induction n f dir rule: dput.induct) (auto simp: wf_dict_def split: if_splits dest: map_of_SomeD)
  then have "files (dput n f dir) = files dir"
    using wf_dput [OF assms, of n f] assms unfolding files_def wf_dict_def
    by (intro map_sorted_distinct_set_unique [of fst]) (auto simp: distinct_keys_sort distinct_map)
  with files_dput [OF assms, of n f] Some show ?thesis by simp
next
  case None
  have "sorted (map fst (files dir))" "\<forall>p \<in> set (files dir). fst p \<noteq> n"
    using None by (auto simp: files_def map_of_eq_None_iff)
  from sorted_around [OF this] show ?thesis by (simp add: None)
qed

lemma select_rows_append:
  "select_rows tid (xs @ ys) =
     (case select_rows tid xs of Inl e \<Rightarrow> Inl e
      | Inr a \<Rightarrow> (case select_rows tid ys of Inl e \<Rightarrow> Inl e | Inr b \<Rightarrow> Inr (a @ b)))"
  by (induction tid xs rule: select_rows.induct) (auto split: sum.split)

definition stream_of :: "(string \<times> jsonl_file) list \<Rightarrow> json option list" where
  "stream_of fs = concat (map (\<lambda>(_, f). read_jsonl f) fs)"

lemma stream_of_simps [simp]:
  "stream_of [] = []" "stream_of (fs @ gs) = stream_of fs @ stream_of gs" "stream_of ((n, f) # fs) = read_jsonl f @ stream_of fs"
  by (simp_all add: stream_of_def)

lemma row_stream_at:
  assumes "wf_dict dir"
  shows "row_stream dir = stream_of (filter (\<lambda>p. fst p < n) (files dir)) @ read_jsonl (file_at dir n)
                          @ stream_of (filter (\<lambda>p. n < fst p) (files dir))"
    "row_stream (dput n f dir) = stream_of (filter (\<lambda>p. fst p < n) (files dir)) @ read_jsonl f
                          @ stream_of (filter (\<lambda>p. n < fst p) (files dir))"
proof -
  have "row_stream dir = stream_of (files dir)" by (simp add: row_stream_def stream_of_def)
  also have "\<dots> = stream_of (filter (\<lambda>p. fst p < n) (files dir)) @ read_jsonl (file_at dir n)
                          @ stream_of (filter (\<lambda>p. n < fst p) (files dir))"
    by (subst files_split [OF assms, of n]) (simp add: file_at_def empty_file_def read_jsonl_def split: option.split)
  finally show "row_stream dir = stream_of (filter (\<lambda>p. fst p < n) (files dir)) @ read_jsonl (file_at dir n)
                          @ stream_of (filter (\<lambda>p. n < fst p) (files dir))" .
  have "row_stream (dput n f dir) = stream_of (files (dput n f dir))" by (simp add: row_stream_def stream_of_def)
  then show "row_stream (dput n f dir) = stream_of (filter (\<lambda>p. fst p < n) (files dir)) @ read_jsonl f
                          @ stream_of (filter (\<lambda>p. n < fst p) (files dir))"
    by (simp add: files_dput [OF assms])
qed

lemma read_jsonl_add:
  "\<not> truncated f \<Longrightarrow> read_jsonl (f\<lparr>lines := lines f @ [Row v]\<rparr>) = read_jsonl f @ [Some v]"
  by (simp add: read_jsonl_def)

text \<open>An acknowledged append leaves the rows of every other ticket as they were.\<close>

lemma outcomes_append_other:
  assumes "wf_dict (ts_outcomes st)" "wf_dict d" "ts_outcomes st' = add_line n d (ts_outcomes st)"
    and "outcomes st tid = Inr rs" "\<not> of_ticket (stored_row d) tid"
  shows "outcomes st' tid = Inr rs"
proof -
  have nt: "\<not> truncated (file_at (ts_outcomes st) n)"
    using assms(4) truncated_in_stream select_rows_ok_iff unfolding outcomes_def by fastforce
  show ?thesis using assms(4,5) unfolding outcomes_def assms(3) add_line_def Let_def
    by (auto simp: row_stream_at [OF assms(1), of n] read_jsonl_add [OF nt] select_rows_append stored_row_canon of_ticket_def
        simp del: canon.simps split: sum.splits)
qed

lemma line_events_row: "Some v \<in> set (line_events l) \<longleftrightarrow> l = Row v"
  by (cases l) auto

lemma read_jsonl_row: "Some v \<in> set (read_jsonl f) \<Longrightarrow> Row v \<in> set (lines f)"
  by (auto simp: read_jsonl_def line_events_row split: if_splits)

text \<open>In general a new row is inserted among the rows of its ticket, before those of later files.\<close>

lemma select_rows_member: "select_rows tid es = Inr rs \<Longrightarrow> r \<in> set rs \<Longrightarrow> Some (JDict r) \<in> set es \<and> of_ticket r tid"
  by (induction tid es arbitrary: rs rule: select_rows.induct) (auto simp: of_ticket_def split: sum.splits if_splits)

lemma outcomes_insert:
  assumes "wf_dict (ts_outcomes st)" "wf_dict d" "ts_outcomes st' = add_line n d (ts_outcomes st)"
    and "outcomes st tid = Inr rs"
  shows "\<exists>a b. rs = a @ b \<and> outcomes st' tid = Inr (a @ (if of_ticket (stored_row d) tid then [stored_row d] else []) @ b) \<and>
     (\<forall>r \<in> set b. of_ticket r tid \<and> (\<exists>n'. n < n' \<and> Row (JDict r) \<in> set (lines (file_at (ts_outcomes st) n'))))"
proof -
  let ?dir = "ts_outcomes st"
  let ?hi = "filter (\<lambda>p. n < fst p) (files ?dir)"
  have nt: "\<not> truncated (file_at ?dir n)"
    using assms(4) truncated_in_stream select_rows_ok_iff unfolding outcomes_def by fastforce
  define x where "x = stream_of (filter (\<lambda>p. fst p < n) (files ?dir)) @ read_jsonl (file_at ?dir n)"
  define y where "y = stream_of ?hi"
  have "row_stream ?dir = x @ y" using row_stream_at(1) [OF assms(1)] by (simp add: x_def y_def)
  with assms(4) obtain a b where ab: "select_rows tid x = Inr a" "select_rows tid y = Inr b" "rs = a @ b"
    unfolding outcomes_def by (auto simp only: select_rows_append split: sum.splits)
  have s: "select_rows tid ([Some (JDict (stored_row d))] @ y) = Inr ((if of_ticket (stored_row d) tid then [stored_row d] else []) @ b)"
    using ab(2) by (simp add: of_ticket_def)
  have "row_stream (ts_outcomes st') = x @ [Some (JDict (stored_row d))] @ y"
    unfolding assms(3) add_line_def Let_def row_stream_at(2) [OF assms(1)] read_jsonl_add [OF nt] stored_row_canon x_def y_def by simp
  then have o: "outcomes st' tid = Inr (a @ (if of_ticket (stored_row d) tid then [stored_row d] else []) @ b)"
    unfolding outcomes_def using ab(1) s by (simp only: select_rows_append sum.case)
  have "of_ticket r tid \<and> (\<exists>n'. n < n' \<and> Row (JDict r) \<in> set (lines (file_at ?dir n')))" if "r \<in> set b" for r
  proof -
    note m = select_rows_member [OF ab(2) that]
    then obtain n' f where f: "(n', f) \<in> set (files ?dir)" "n < n'" "Some (JDict r) \<in> set (read_jsonl f)"
      by (auto simp: y_def stream_of_def)
    have "file_at ?dir n' = f" using f(1) assms(1) by (simp add: file_at_def files_def wf_dict_def)
    then show ?thesis using m f(2) read_jsonl_row [OF f(3)] by auto
  qed
  with ab(3) o show ?thesis by blast
qed

text \<open>It comes last among the rows of its own ticket when no later file holds one.\<close>

lemma outcomes_append_last:
  assumes "wf_dict (ts_outcomes st)" "wf_dict d" "ts_outcomes st' = add_line n d (ts_outcomes st)"
    and "outcomes st tid = Inr rs" "of_ticket (stored_row d) tid"
    and "\<And>n' r. n < n' \<Longrightarrow> Row (JDict r) \<in> set (lines (file_at (ts_outcomes st) n')) \<Longrightarrow> \<not> of_ticket r tid"
  shows "outcomes st' tid = Inr (rs @ [stored_row d])"
proof -
  from outcomes_insert [OF assms(1-4)] assms(5) obtain a b where ab: "rs = a @ b" "outcomes st' tid = Inr (a @ [stored_row d] @ b)"
    "\<forall>r \<in> set b. of_ticket r tid \<and> (\<exists>n'. n < n' \<and> Row (JDict r) \<in> set (lines (file_at (ts_outcomes st) n')))" by auto
  from ab(3) assms(6) have "b = []" by (metis list.set_intros(1) neq_Nil_conv)
  with ab show ?thesis by simp
qed

text \<open>When every line that parses is an object, a read fails only on a corrupt line, and then for good.\<close>

definition object_rows :: "ticket_store \<Rightarrow> bool" where
  "object_rows st \<longleftrightarrow> (\<forall>n v. Row v \<in> set (lines (file_at (ts_outcomes st) n)) \<longrightarrow> (\<exists>d. v = JDict d))"

definition corrupt :: "day_dir \<Rightarrow> bool" where
  "corrupt dir \<longleftrightarrow> (\<exists>n. truncated (file_at dir n) \<or> Garbled \<in> set (lines (file_at dir n)))"

lemma line_events_none: "None \<in> set (line_events l) \<longleftrightarrow> l = Garbled"
  by (cases l) auto

lemma none_in_file: "None \<in> set (read_jsonl f) \<longleftrightarrow> truncated f \<or> Garbled \<in> set (lines f)"
  by (auto simp: read_jsonl_def line_events_none)

lemma corrupt_stream:
  assumes "wf_dict dir"
  shows "None \<in> set (row_stream dir) \<longleftrightarrow> corrupt dir"
proof
  assume "None \<in> set (row_stream dir)"
  then obtain n f where "(n, f) \<in> set dir" "None \<in> set (read_jsonl f)" by (auto simp: row_stream_def files_def)
  moreover from this(1) have "file_at dir n = f" using assms by (simp add: file_at_def wf_dict_def)
  ultimately show "corrupt dir" unfolding corrupt_def none_in_file by blast
next
  assume "corrupt dir"
  then obtain n where n: "truncated (file_at dir n) \<or> Garbled \<in> set (lines (file_at dir n))" by (auto simp: corrupt_def)
  then have "(n, file_at dir n) \<in> set (files dir)" by (intro files_file_at) auto
  moreover have "None \<in> set (read_jsonl (file_at dir n))" using n none_in_file by blast
  ultimately show "None \<in> set (row_stream dir)" by (force simp: row_stream_def)
qed

lemma corrupt_grows:
  assumes "corrupt dir" "grows dir dir'"
  shows "corrupt dir'"
proof -
  from assms(1) obtain n where "truncated (file_at dir n) \<or> Garbled \<in> set (lines (file_at dir n))" by (auto simp: corrupt_def)
  then have "truncated (file_at dir' n) \<or> Garbled \<in> set (lines (file_at dir' n))"
    using assms(2) unfolding grows_def by (metis UnCI set_append)
  then show ?thesis by (auto simp: corrupt_def)
qed

lemma select_rows_corrupt:
  "\<forall>e \<in> set es. e = None \<or> (\<exists>d. e = Some (JDict d)) \<Longrightarrow>
     (if None \<in> set es then select_rows tid es = Inl TicketStoreCorrupt else \<exists>rs. select_rows tid es = Inr rs)"
  by (induction tid es rule: select_rows.induct) (auto split: sum.splits if_splits)

lemma outcomes_read:
  assumes "object_rows st" "wf_dict (ts_outcomes st)"
  shows "if corrupt (ts_outcomes st) then outcomes st tid = Inl TicketStoreCorrupt else \<exists>rs. outcomes st tid = Inr rs"
proof -
  have "\<forall>e \<in> set (row_stream (ts_outcomes st)). e = None \<or> (\<exists>d. e = Some (JDict d))"
  proof
    fix e assume "e \<in> set (row_stream (ts_outcomes st))"
    then obtain n f where f: "(n, f) \<in> set (ts_outcomes st)" "e \<in> set (read_jsonl f)" by (auto simp: row_stream_def files_def)
    have "file_at (ts_outcomes st) n = f" using f(1) assms(2) by (simp add: file_at_def wf_dict_def)
    then show "e = None \<or> (\<exists>d. e = Some (JDict d))"
      using f(2) read_jsonl_row [of _ f] assms(1) unfolding object_rows_def by (cases e) blast+
  qed
  from select_rows_corrupt [OF this, of tid] corrupt_stream [OF assms(2)] show ?thesis by (simp add: outcomes_def)
qed

section \<open>Lemmas: seals\<close>

definition sealed :: "py_rt \<Rightarrow> dict \<Rightarrow> bool" where
  "sealed rt d \<longleftrightarrow> wf_dict d \<and> dget d ''record_sha256'' = JStr (sha256 rt (JDict (ddel ''record_sha256'' d)))"

lemma ddel_dput_same [simp]: "ddel k (dput k v d) = ddel k d"
  by (induction k v d rule: dput.induct) (auto simp: ddel_def)

lemma ddel_stored_row: "ddel k (stored_row d) = stored_row (ddel k d)"
  by (simp add: stored_row_def ddel_def filter_sort filter_map comp_def split_beta)

lemma canon_stored_row [simp]: "canon (JDict (stored_row d)) = canon (JDict d)"
  by (metis canon_idem stored_row_canon)

lemma wf_stored_row: "wf_dict d \<Longrightarrow> wf_dict (stored_row d)"
  by (erule canon_dict) (metis json.inject(6) stored_row_canon)

lemma build_outcome_sealed:
  assumes "build_outcome rt fs = Inr d"
  shows "sealed rt (stored_row d)"
proof -
  have w: "wf_dict d" using build_outcome_fields(1) [OF assms] .
  have "dget d ''record_sha256'' = JStr (sha256 rt (JDict (ddel ''record_sha256'' d)))"
    using assms by (auto simp: build_outcome_def seal_def Let_def split: if_splits)
  then show ?thesis unfolding sealed_def ddel_stored_row sha256_def
    using w by (simp add: wf_stored_row dget_stored_row del: canon.simps) simp
qed

text \<open>Without a collision of the hash, two sealed rows with one seal agree on every field.\<close>

lemma sealed_agree:
  assumes "inj (sha rt)" "sealed rt r" "sealed rt r'" "dget r ''record_sha256'' = dget r' ''record_sha256''"
  shows "canon (dget r k) = canon (dget r' k)"
proof (cases "k = ''record_sha256''")
  case False
  have w: "wf_dict (ddel ''record_sha256'' r)" "wf_dict (ddel ''record_sha256'' r')"
    using assms(2,3) by (simp_all add: sealed_def wf_ddel)
  have "canon (JDict (ddel ''record_sha256'' r)) = canon (JDict (ddel ''record_sha256'' r'))"
    using assms unfolding sealed_def sha256_def inj_def by (metis json.inject(4))
  then have "stored_row (ddel ''record_sha256'' r) = stored_row (ddel ''record_sha256'' r')"
    by (simp only: stored_row_def)
  then have "canon (dget (ddel ''record_sha256'' r) k) = canon (dget (ddel ''record_sha256'' r') k)"
    using dget_stored_row [OF w(1), of k] dget_stored_row [OF w(2), of k] by simp
  then show ?thesis using False by (simp add: dget_def)
qed (use assms(4) in simp)

text \<open>The rows of a store that only builders wrote.\<close>

definition sealed_store :: "py_rt \<Rightarrow> ticket_store \<Rightarrow> bool" where
  "sealed_store rt st \<longleftrightarrow> (\<forall>d. has_outcome st d \<longrightarrow> sealed rt d)"

lemma has_outcome_add_line:
  "ts_outcomes st' = add_line n d (ts_outcomes st) \<Longrightarrow> has_outcome st' r \<longleftrightarrow> has_outcome st r \<or> r = stored_row d"
  by (auto simp: has_outcome_def add_line_def Let_def stored_row_canon simp del: canon.simps)

lemma has_outcome_tear_line:
  "ts_outcomes st' = tear_line n (ts_outcomes st) \<Longrightarrow> has_outcome st' r \<longleftrightarrow> has_outcome st r"
  by (auto simp: has_outcome_def tear_line_def)

text \<open>The rows after an append are the rows before it and at most the record's own.\<close>

lemma append_outcome_rows:
  assumes "has_outcome (fst (append_outcome rt io d st)) r"
  shows "has_outcome st r \<or> r = stored_row d"
proof -
  let ?st = "fst (append_outcome rt io d st)"
  have "?st = st \<or> ts_outcomes ?st = ts_outcomes st \<or> ts_outcomes ?st = add_line (outcome_path rt d) d (ts_outcomes st)
        \<or> ts_outcomes ?st = tear_line (outcome_path rt d) (ts_outcomes st)"
    by (auto simp: append_outcome_def append_row_def split: sum.splits bool.splits append_io.splits)
  then show ?thesis
    using assms has_outcome_add_line [of ?st "outcome_path rt d" d st r] has_outcome_tear_line [of ?st "outcome_path rt d" st r]
    by (auto simp: has_outcome_def)
qed

lemma append_outcome_sealed_store:
  "sealed_store rt st \<Longrightarrow> build_outcome rt fs = Inr d \<Longrightarrow> sealed_store rt (fst (append_outcome rt io d st))"
  using append_outcome_rows build_outcome_sealed by (fastforce simp: sealed_store_def)

text \<open>When an append finds its record already stored, a row with the same identity and seal stands in the store.\<close>

lemma scan_existing_found:
  "scan_existing idf d es = Inr True \<Longrightarrow>
     \<exists>r. Some (JDict r) \<in> set es \<and> dget r ''record_sha256'' = dget d ''record_sha256'' \<and> map_of d idf = Some (dget r idf)"
  by (induction idf d es rule: scan_existing.induct) (auto split: option.splits if_splits)

lemma append_outcome_found:
  assumes "append_outcome rt io d st = (st', Inr False)"
  shows "st' = st" "\<exists>r. has_outcome st r \<and> dget r ''record_sha256'' = dget d ''record_sha256''"
proof -
  from assms have *: "st' = st\<lparr>ts_outcomes := ts_outcomes st\<rparr>"
    "scan_existing ''outcome_id'' d (read_jsonl (file_at (ts_outcomes st) (outcome_path rt d))) = Inr True"
    by (auto simp: append_outcome_def append_row_def split: if_splits sum.splits bool.splits append_io.splits)
  then show "st' = st" by simp
  from scan_existing_found [OF *(2)] show "\<exists>r. has_outcome st r \<and> dget r ''record_sha256'' = dget d ''record_sha256''"
    unfolding has_outcome_def using read_jsonl_row by blast
qed

end
