(* ===== verification/One_Shot.thy ===== *)
theory One_Shot
  imports Main
begin

text \<open>
  Single-use tokens. A system grants a token by a step and marks it as used; the mark is never
  removed, and a step grants only a token without a mark. Send claims, owner confirmations and
  dispatched orders are instances.
\<close>

text \<open>How many calls of a history a predicate on the call and the state before it selects.\<close>

fun count_calls :: "('c \<Rightarrow> 's \<Rightarrow> bool) \<Rightarrow> ('c \<Rightarrow> 's \<Rightarrow> 's) \<Rightarrow> 'c list \<Rightarrow> 's \<Rightarrow> nat" where
  "count_calls p step [] s = 0"
| "count_calls p step (c # cs) s = (if p c s then 1 else 0) + count_calls p step cs (step c s)"

locale one_shot =
  fixes inv :: "'s \<Rightarrow> bool" and step :: "'c \<Rightarrow> 's \<Rightarrow> 's"
    and grant :: "'k \<Rightarrow> 'c \<Rightarrow> 's \<Rightarrow> bool" and used :: "'s \<Rightarrow> 'k \<Rightarrow> bool"
  assumes inv_step: "inv s \<Longrightarrow> inv (step c s)"
    and used_step: "inv s \<Longrightarrow> used s k \<Longrightarrow> used (step c s) k"
    and grant_fresh: "inv s \<Longrightarrow> grant k c s \<Longrightarrow> \<not> used s k"
    and grant_uses: "inv s \<Longrightarrow> grant k c s \<Longrightarrow> used (step c s) k"
begin

lemma used_run: "inv s \<Longrightarrow> used s k \<Longrightarrow> used (fold step cs s) k"
  by (induction cs arbitrary: s) (simp_all add: inv_step used_step)

lemma inv_run: "inv s \<Longrightarrow> inv (fold step cs s)"
  by (induction cs arbitrary: s) (simp_all add: inv_step)

lemma count_bound:
  assumes "inv s"
  shows "count_calls (grant k) step cs s \<le> (if used s k then 0 else 1)"
  using assms
proof (induction cs arbitrary: s)
  case (Cons c cs)
  note i = inv_step [OF Cons.prems, of c]
  show ?case
    using Cons.IH [OF i] used_step [OF Cons.prems, of k c] grant_fresh [OF Cons.prems, of k c] grant_uses [OF Cons.prems, of k c]
    by (auto split: if_splits)
qed simp

lemma at_most_one: "inv s \<Longrightarrow> count_calls (grant k) step cs s \<le> 1 \<and> (used s k \<longrightarrow> count_calls (grant k) step cs s = 0)"
  using count_bound [of s k cs] by (auto split: if_splits)

end

end
