(* ===== verification/Exec_Ledger.thy ===== *)
theory Exec_Ledger
  imports Ticket_Store One_Shot
begin

text \<open>
  The restart-safe send claims of src/src/demo\_execution/idempotency.py and the emergency stop of
  src/src/demo\_execution/emergency.py, both on the append-only ticket store. An operation holds the
  ticket's lock from its first read to its write, so it is one step on the store.
\<close>

section \<open>The ledger\<close>

definition SENDING :: string where "SENDING = ''DEMO_EXECUTION_SENDING''"
definition UNCERTAIN :: string where "UNCERTAIN = ''DEMO_EXECUTION_UNCERTAIN''"
definition EXEC_RECONCILED :: string where "EXEC_RECONCILED = ''DEMO_EXECUTION_RECONCILED''"

lemmas kind_names = SENDING_def UNCERTAIN_def EXEC_RECONCILED_def

record ledger_check =
  available :: bool
  ledger_reason :: string
  ledger_prior :: "string option"

definition check :: "bool \<Rightarrow> string \<Rightarrow> string option \<Rightarrow> ledger_check" where
  "check b reason prior = \<lparr>available = b, ledger_reason = reason, ledger_prior = prior\<rparr>"

text \<open>The exceptions the readers and the writers of evidence catch; any other one propagates.\<close>

fun read_caught :: "py_error \<Rightarrow> bool" where
  "read_caught OSError = True" | "read_caught (ValueError _) = True" | "read_caught TypeError = True"
| "read_caught (KeyError _) = True" | "read_caught (TicketStoreError _) = True" | "read_caught TicketStoreConflict = True"
| "read_caught TicketStoreCorrupt = True" | "read_caught _ = False"

fun write_caught :: "py_error \<Rightarrow> bool" where
  "write_caught OSError = True" | "write_caught (ValueError _) = True" | "write_caught (TicketStoreError _) = True"
| "write_caught TicketStoreConflict = True" | "write_caught TicketStoreCorrupt = True" | "write_caught _ = False"

definition is_execution_row :: "dict \<Rightarrow> bool" where
  "is_execution_row d =
     (case dget d ''outcome_kind'' of JStr s \<Rightarrow> take 15 s = ''DEMO_EXECUTION_'' | _ \<Rightarrow> False)"

definition claim_payload_ok :: "string \<Rightarrow> dict \<Rightarrow> bool" where
  "claim_payload_ok tid d =
     (case dget d ''payload'' of JDict p \<Rightarrow> dget p ''idempotency_key'' = JStr tid | _ \<Rightarrow> False)"

text \<open>\<open>_execution_rows\<close>: the rows of the ticket, or a reason code.\<close>

definition execution_rows :: "ticket_store \<Rightarrow> string \<Rightarrow> (string + dict list) res" where
  "execution_rows st tid =
     (case outcomes st tid of
        Inl e \<Rightarrow> if read_caught e then Inr (Inl ''EXECUTION_LEDGER_UNREADABLE'') else Inl e
      | Inr all \<Rightarrow>
          let rows = filter is_execution_row all
          in if list_ex (\<lambda>d. dget d ''outcome_kind'' \<notin> {JStr SENDING, JStr UNCERTAIN, JStr EXEC_RECONCILED}) rows
             then Inr (Inl ''EXECUTION_LEDGER_UNKNOWN_STATE'')
             else if \<not> list_all (claim_payload_ok tid) rows then Inr (Inl ''EXECUTION_LEDGER_CONFLICT'')
             else Inr (Inr rows))"

definition states_of :: "dict list \<Rightarrow> json list" where
  "states_of rows = map (\<lambda>d. dget d ''outcome_kind'') rows"

definition inspect :: "ticket_store \<Rightarrow> string \<Rightarrow> ledger_check res" where
  "inspect st tid =
     (if \<not> non_blank tid then Inr (check False ''TICKET_ID_MISSING'' None)
      else case execution_rows st tid of
        Inl e \<Rightarrow> Inl e
      | Inr (Inl err) \<Rightarrow> Inr (check False err None)
      | Inr (Inr rows) \<Rightarrow>
          let states = states_of rows
          in Inr (if 1 < count_list states (JStr EXEC_RECONCILED) \<or> 1 < count_list states (JStr SENDING)
                     \<or> 1 < count_list states (JStr UNCERTAIN)
                  then check False ''EXECUTION_LEDGER_CONFLICT'' None
                  else if JStr UNCERTAIN \<in> set states then check False ''HALT_UNKNOWN_RESULT'' (Some UNCERTAIN)
                  else if JStr EXEC_RECONCILED \<in> set states then
                    (if JStr SENDING \<notin> set states then check False ''EXECUTION_LEDGER_CONFLICT'' None
                     else check False ''DUPLICATE_TICKET_ID'' (Some EXEC_RECONCILED))
                  else if JStr SENDING \<in> set states then check False ''HALT_UNCERTAIN_SEND'' (Some SENDING)
                  else check True ''IDEMPOTENCY_KEY_AVAILABLE'' None))"

text \<open>A timestamp is \<open>None\<close> when it is not an aware datetime.\<close>

definition sending_payload :: "string \<Rightarrow> string \<Rightarrow> string \<Rightarrow> string \<Rightarrow> json" where
  "sending_payload tid strategy_id sy logic_identity =
     JDict [(''idempotency_key'', JStr tid), (''lifecycle_state'', JStr ''SENDING''), (''strategy_id'', JStr strategy_id),
            (''symbol'', JStr sy), (''logic_identity'', JStr logic_identity), (''account_mode'', JStr ''DEMO'')]"

definition reserve_before_send ::
  "py_rt \<Rightarrow> append_io \<Rightarrow> string \<Rightarrow> string \<Rightarrow> string \<Rightarrow> string \<Rightarrow> datetime option \<Rightarrow> ticket_store \<Rightarrow> ticket_store \<times> ledger_check res" where
  "reserve_before_send rt io tid strategy_id sy logic_identity now st =
     (if \<not> non_blank tid then (st, Inr (check False ''TICKET_ID_MISSING'' None))
      else case now of
        None \<Rightarrow> (st, Inr (check False ''EXECUTION_LEDGER_TIMESTAMP_INVALID'' None))
      | Some t \<Rightarrow>
          (case inspect st tid of
             Inl e \<Rightarrow> (st, Inl e)
           | Inr prior \<Rightarrow>
               if \<not> available prior then (st, Inr prior)
               else case build_outcome rt (outcome_args tid SENDING (iso_datetime t) ''SEND_PENDING''
                           (sending_payload tid strategy_id sy logic_identity)
                           ''demo_execution.idempotency.ExecutionLedger.reserve_before_send'') of
                 Inl e \<Rightarrow> (st, Inl e)
               | Inr d \<Rightarrow>
                   (case append_outcome rt io d st of
                      (st', Inl e) \<Rightarrow>
                        (st', if write_caught e then Inr (check False ''EXECUTION_LEDGER_WRITE_FAILED'' None) else Inl e)
                    | (st', Inr False) \<Rightarrow> (st', inspect st' tid)
                    | (st', Inr True) \<Rightarrow> (st', Inr (check True ''SEND_CLAIM_PERSISTED'' (Some SENDING))))))"

text \<open>The shared part of the two closing writes: the claim must stand, uncertain and reconciled must not.\<close>

definition record_unknown ::
  "py_rt \<Rightarrow> append_io \<Rightarrow> string \<Rightarrow> json \<Rightarrow> datetime option \<Rightarrow> ticket_store \<Rightarrow> ticket_store \<times> ledger_check res" where
  "record_unknown rt io tid reason now st =
     (case (now, reason) of
        (Some t, JStr r) \<Rightarrow>
          if \<not> non_blank tid \<or> \<not> non_blank r then (st, Inr (check False ''EXECUTION_LEDGER_INPUT_INVALID'' None))
          else (case execution_rows st tid of
             Inl e \<Rightarrow> (st, Inl e)
           | Inr (Inl err) \<Rightarrow> (st, Inr (check False err None))
           | Inr (Inr rows) \<Rightarrow>
               let states = states_of rows
               in if JStr SENDING \<notin> set states then (st, Inr (check False ''SENDING_CLAIM_MISSING'' None))
                  else if JStr UNCERTAIN \<in> set states then (st, Inr (check False ''HALT_UNKNOWN_RESULT'' (Some UNCERTAIN)))
                  else if JStr EXEC_RECONCILED \<in> set states then (st, Inr (check False ''EXECUTION_LEDGER_CONFLICT'' None))
                  else case build_outcome rt (outcome_args tid UNCERTAIN (iso_datetime t) ''UNKNOWN''
                              (JDict [(''idempotency_key'', JStr tid), (''lifecycle_state'', JStr ''HALT''), (''reason_code'', JStr r)])
                              ''demo_execution.idempotency.ExecutionLedger.record_unknown'') of
                    Inl e \<Rightarrow> (st, Inl e)
                  | Inr d \<Rightarrow>
                      (case append_outcome rt io d st of
                         (st', Inl e) \<Rightarrow>
                           (st', if write_caught e then Inr (check False ''EXECUTION_LEDGER_WRITE_FAILED'' None) else Inl e)
                       | (st', Inr _) \<Rightarrow> (st', Inr (check False ''HALT_UNKNOWN_RESULT'' (Some UNCERTAIN)))))
      | _ \<Rightarrow> (st, Inr (check False ''EXECUTION_LEDGER_INPUT_INVALID'' None)))"

definition valid_reconciliation :: "json \<Rightarrow> dict option" where
  "valid_reconciliation v =
     (case v of
        JDict r \<Rightarrow>
          (case dget r ''terminal_result'' of
             JStr s \<Rightarrow> if dget r ''reconciled'' = JBool True \<and> s \<noteq> [] \<and> upper s \<noteq> ''UNKNOWN'' then Some r else None
           | _ \<Rightarrow> None)
      | _ \<Rightarrow> None)"

definition record_reconciled ::
  "py_rt \<Rightarrow> append_io \<Rightarrow> string \<Rightarrow> json \<Rightarrow> datetime option \<Rightarrow> ticket_store \<Rightarrow> ticket_store \<times> ledger_check res" where
  "record_reconciled rt io tid reconciliation now st =
     (case (now, valid_reconciliation reconciliation) of
        (Some t, Some r) \<Rightarrow>
          if \<not> non_blank tid then (st, Inr (check False ''RECONCILIATION_EVIDENCE_INVALID'' None))
          else (case execution_rows st tid of
             Inl e \<Rightarrow> (st, Inl e)
           | Inr (Inl err) \<Rightarrow> (st, Inr (check False err None))
           | Inr (Inr rows) \<Rightarrow>
               let states = states_of rows
               in if JStr SENDING \<notin> set states then (st, Inr (check False ''SENDING_CLAIM_MISSING'' None))
                  else if JStr UNCERTAIN \<in> set states then (st, Inr (check False ''HALT_UNKNOWN_RESULT'' (Some UNCERTAIN)))
                  else if JStr EXEC_RECONCILED \<in> set states then (st, Inr (check False ''DUPLICATE_TICKET_ID'' (Some EXEC_RECONCILED)))
                  else case build_outcome rt (outcome_args tid EXEC_RECONCILED (iso_datetime t) ''RECONCILED''
                              (JDict (dput ''lifecycle_state'' (JStr ''RECONCILED'') (dput ''idempotency_key'' (JStr tid) r)))
                              ''demo_execution.idempotency.ExecutionLedger.record_reconciled'') of
                    Inl e \<Rightarrow> (st, Inl e)
                  | Inr d \<Rightarrow>
                      (case append_outcome rt io d st of
                         (st', Inl e) \<Rightarrow>
                           (st', if write_caught e then Inr (check False ''EXECUTION_LEDGER_WRITE_FAILED'' None) else Inl e)
                       | (st', Inr _) \<Rightarrow> (st', Inr (check False ''DUPLICATE_TICKET_ID'' (Some EXEC_RECONCILED)))))
      | _ \<Rightarrow> (st, Inr (check False ''RECONCILIATION_EVIDENCE_INVALID'' None)))"

section \<open>The emergency stop\<close>

definition STOP_TICKET_ID :: string where "STOP_TICKET_ID = ''DEMO_EMERGENCY_STOP''"
definition STOP_KIND :: string where "STOP_KIND = ''DEMO_EMERGENCY_STOP_LATCH''"

record stop_status =
  engaged :: bool
  stop_reason :: "string option"
  engaged_at_utc :: json

definition status :: "py_rt \<Rightarrow> ticket_store \<Rightarrow> stop_status res" where
  "status rt st =
     (case outcomes st STOP_TICKET_ID of
        Inl e \<Rightarrow> if read_caught e then Inr \<lparr>engaged = True, stop_reason = Some ''EMERGENCY_STOP_UNREADABLE'', engaged_at_utc = JNull\<rparr>
                  else Inl e
      | Inr all \<Rightarrow>
          let rows = filter (\<lambda>d. dget d ''outcome_kind'' = JStr STOP_KIND) all
          in if rows = [] then Inr \<lparr>engaged = False, stop_reason = None, engaged_at_utc = JNull\<rparr>
             else
               let final = last rows;
                   payload = (case dget final ''payload'' of JDict p \<Rightarrow> p | _ \<Rightarrow> []);
                   reason = dget payload ''reason_code''
               in if dget final ''result'' = JStr ''CLEARED'' then Inr \<lparr>engaged = False, stop_reason = None, engaged_at_utc = JNull\<rparr>
                  else Inr \<lparr>engaged = True,
                            stop_reason = Some (if truthy reason then py_str rt reason else ''EMERGENCY_STOP_ENGAGED''),
                            engaged_at_utc = dget final ''recorded_at_utc''\<rparr>)"

definition stop_write :: "py_rt \<Rightarrow> append_io \<Rightarrow> string \<Rightarrow> string \<Rightarrow> dict \<Rightarrow> datetime option \<Rightarrow> ticket_store \<Rightarrow> ticket_store \<times> bool res" where
  "stop_write rt io result writer payload now st =
     (case now of
        None \<Rightarrow> (st, Inr False)
      | Some t \<Rightarrow>
          (case build_outcome rt (outcome_args STOP_TICKET_ID STOP_KIND (iso_datetime t) result (JDict payload) writer) of
             Inl e \<Rightarrow> (st, Inl e)
           | Inr d \<Rightarrow>
               (case append_outcome rt io d st of
                  (st', Inl e) \<Rightarrow> (st', if write_caught e then Inr False else Inl e)
                | (st', Inr _) \<Rightarrow> (st', Inr True))))"

text \<open>\<open>dict(evidence or {})\<close> is passed as the evidence dictionary.\<close>

definition engage :: "py_rt \<Rightarrow> append_io \<Rightarrow> json \<Rightarrow> datetime option \<Rightarrow> dict \<Rightarrow> ticket_store \<Rightarrow> ticket_store \<times> bool res" where
  "engage rt io reason now evidence st =
     (let r = (case reason of JStr s \<Rightarrow> if non_blank s then strip s else ''EMERGENCY_STOP_ENGAGED'' | _ \<Rightarrow> ''EMERGENCY_STOP_ENGAGED'')
      in stop_write rt io ''ENGAGED'' ''demo_execution.emergency.engaged''
           [(''reason_code'', JStr r), (''evidence'', JDict evidence), (''broker_action'', JStr ''NONE'')] now st)"

definition clear :: "py_rt \<Rightarrow> append_io \<Rightarrow> json \<Rightarrow> datetime option \<Rightarrow> ticket_store \<Rightarrow> ticket_store \<times> bool res" where
  "clear rt io owner_decision_id now st =
     (case owner_decision_id of
        JStr s \<Rightarrow>
          if non_blank s then stop_write rt io ''CLEARED'' ''demo_execution.emergency.cleared''
                                [(''owner_decision_id'', JStr (strip s))] now st
          else (st, Inr False)
      | _ \<Rightarrow> (st, Inr False))"

section \<open>Lemmas: claims\<close>

definition claimed :: "ticket_store \<Rightarrow> string \<Rightarrow> bool" where
  "claimed st tid \<longleftrightarrow> (\<exists>d. has_outcome st d \<and> of_ticket d tid \<and> dget d ''outcome_kind'' = JStr SENDING)"

lemma check_simps [simp]: "available (check b r p) = b" "ledger_reason (check b r p) = r" "ledger_prior (check b r p) = p"
  by (simp_all add: check_def)

lemma claimed_not_available:
  assumes "claimed st tid" "inspect st tid = Inr c"
  shows "\<not> available c"
proof -
  obtain d where d: "has_outcome st d" "of_ticket d tid" "dget d ''outcome_kind'' = JStr SENDING"
    using assms(1) by (auto simp: claimed_def)
  have "JStr SENDING \<in> set (states_of rows)" if "execution_rows st tid = Inr (Inr rows)" for rows
  proof -
    from that obtain all where a: "outcomes st tid = Inr all" "rows = filter is_execution_row all"
      by (auto simp: execution_rows_def Let_def split: sum.splits if_splits)
    have "d \<in> set all" using tlog.read_complete [OF a(1) d(1,2)] .
    then have "d \<in> set rows" using d(3) by (simp add: a(2) is_execution_row_def SENDING_def)
    then show ?thesis using d(3) by (force simp: states_of_def)
  qed
  then show ?thesis using assms(2)
    by (auto simp: inspect_def Let_def split: if_splits sum.splits)
qed

text \<open>One step of any writer: nothing, or the append of a record built from fields with a property.\<close>

definition written :: "py_rt \<Rightarrow> (dict \<Rightarrow> bool) \<Rightarrow> ticket_store \<Rightarrow> ticket_store \<Rightarrow> bool" where
  "written rt P st st' \<longleftrightarrow> st' = st \<or> (\<exists>fs d io. build_outcome rt fs = Inr d \<and> P fs \<and> st' = fst (append_outcome rt io d st))"

abbreviation built_step :: "py_rt \<Rightarrow> ticket_store \<Rightarrow> ticket_store \<Rightarrow> bool" where
  "built_step rt \<equiv> written rt (\<lambda>_. True)"

lemma written_refl [simp]: "written rt P st st"
  by (simp add: written_def)

lemma writtenI: "build_outcome rt fs = Inr d \<Longrightarrow> append_outcome rt io d st = (st', r) \<Longrightarrow> P fs \<Longrightarrow> written rt P st st'"
  unfolding written_def by (metis fst_conv)

lemma written_mono: "written rt P st st' \<Longrightarrow> (\<And>fs. P fs \<Longrightarrow> Q fs) \<Longrightarrow> written rt Q st st'"
  unfolding written_def by blast

lemma built_stepI: "written rt P st st' \<Longrightarrow> built_step rt st st'"
  by (erule written_mono) simp

lemma built_step_has: "built_step rt st st' \<Longrightarrow> has_outcome st d \<Longrightarrow> has_outcome st' d"
  using tlog.app_keeps [of st d "(rt, io)" for io] by (auto simp: written_def)

lemma built_step_sealed: "built_step rt st st' \<Longrightarrow> sealed_store rt st \<Longrightarrow> sealed_store rt st'"
  using append_outcome_sealed_store by (auto simp: written_def)

lemma built_step_wf: "built_step rt st st' \<Longrightarrow> wf_dict (ts_outcomes st) \<Longrightarrow> wf_dict (ts_outcomes st')"
  using append_outcome_wf by (auto simp: written_def)

lemma built_step_claimed: "built_step rt st st' \<Longrightarrow> claimed st tid \<Longrightarrow> claimed st' tid"
  unfolding claimed_def using built_step_has by blast

text \<open>What each operation writes: its own kind, under its own ticket.\<close>

definition kind_is :: "string \<Rightarrow> dict \<Rightarrow> bool" where
  "kind_is k fs \<longleftrightarrow> dget fs ''outcome_kind'' = JStr k"

definition stop_args :: "string \<Rightarrow> dict \<Rightarrow> bool" where
  "stop_args r fs \<longleftrightarrow> kind_is STOP_KIND fs \<and> dget fs ''result'' = JStr r"

lemma dget_outcome_args [simp]:
  "dget (outcome_args tid k t r p w) ''outcome_kind'' = JStr k" "dget (outcome_args tid k t r p w) ''result'' = JStr r"
  "dget (outcome_args tid k t r p w) ''ticket_id'' = JStr tid" "dget (outcome_args tid k t r p w) ''recorded_at_utc'' = JStr t"
  "dget (outcome_args tid k t r p w) ''payload'' = p"
  by (simp_all add: outcome_args_def dget_def)

lemma reserve_written: "written rt (kind_is SENDING) st (fst (reserve_before_send rt io tid a b c now st))"
  by (auto simp: reserve_before_send_def kind_is_def split: option.split sum.split prod.split bool.split intro: writtenI)

lemma unknown_written: "written rt (kind_is UNCERTAIN) st (fst (record_unknown rt io tid r now st))"
  unfolding record_unknown_def
  by (cases now; cases r) (auto simp: Let_def kind_is_def split: sum.split prod.split intro: writtenI)

lemma reconciled_written: "written rt (kind_is EXEC_RECONCILED) st (fst (record_reconciled rt io tid r now st))"
  unfolding record_reconciled_def
  by (cases now; cases "valid_reconciliation r") (auto simp: Let_def kind_is_def split: sum.split prod.split intro: writtenI)

lemma stop_write_written: "written rt (stop_args res) st (fst (stop_write rt io res w p now st))"
  by (auto simp: stop_write_def stop_args_def kind_is_def split: option.split sum.split prod.split intro: writtenI)

lemma engage_written: "written rt (stop_args ''ENGAGED'') st (fst (engage rt io r now ev st))"
  by (simp add: engage_def Let_def stop_write_written)

lemma clear_written: "written rt (stop_args ''CLEARED'') st (fst (clear rt io r now st))"
  by (auto simp: clear_def stop_write_written split: json.split)

text \<open>A reservation that is granted found no claim and leaves one.\<close>

lemma reserve_granted:
  assumes "inj (sha rt)" "sealed_store rt st"
    and "reserve_before_send rt io tid a b c now st = (st', Inr ck)" "available ck"
  shows "\<not> claimed st tid" "claimed st' tid" "ledger_reason ck = ''SEND_CLAIM_PERSISTED''"
proof -
  from assms(3,4) obtain t prior where t: "now = Some t" "non_blank tid" and pr: "inspect st tid = Inr prior" "available prior"
    by (auto simp: reserve_before_send_def split: if_splits option.splits sum.splits)
  show nc: "\<not> claimed st tid" using claimed_not_available pr by blast
  let ?p = "sending_payload tid a b c"
  let ?w = "''demo_execution.idempotency.ExecutionLedger.reserve_before_send''"
  obtain d where d: "build_outcome rt (outcome_args tid SENDING (iso_datetime t) ''SEND_PENDING'' ?p ?w) = Inr d"
    using build_outcome_args [OF non_blank_not_Nil [OF t(2)], of SENDING] unfolding SENDING_def by blast
  note f = build_outcome_fields [OF d]
  have k: "dget d ''ticket_id'' = JStr tid" "dget d ''outcome_kind'' = JStr SENDING"
    using f(4) [of "''ticket_id''"] f(4) [of "''outcome_kind''"] by (simp_all add: outcome_args_def dget_def)
  have row: "of_ticket (stored_row d) tid" "dget (stored_row d) ''outcome_kind'' = JStr SENDING"
    by (simp_all add: of_ticket_def dget_stored_row [OF f(1)] k)
  obtain r where r: "append_outcome rt io d st = (st', r)"
    using assms(3) t pr d by (auto simp: reserve_before_send_def split: prod.splits sum.splits bool.splits)
  have "r \<noteq> Inr False"
  proof
    assume "r = Inr False"
    note fd = append_outcome_found [OF r [unfolded this]]
    then obtain e where e: "has_outcome st e" "dget e ''record_sha256'' = dget d ''record_sha256''" by blast
    have "sealed rt e" using assms(2) e(1) by (simp add: sealed_store_def)
    moreover have "dget (stored_row d) ''record_sha256'' = dget d ''record_sha256''"
      using f(3) by (auto simp: dget_stored_row [OF f(1)])
    ultimately have agree: "canon (dget e x) = canon (dget (stored_row d) x)" for x
      using sealed_agree [OF assms(1) _ build_outcome_sealed [OF d]] e(2) by simp
    have "canon v = JStr s \<Longrightarrow> v = JStr s" for v s by (cases v) auto
    then have "claimed st tid" using e(1) agree [of "''ticket_id''"] agree [of "''outcome_kind''"] row
      by (auto simp: claimed_def of_ticket_def intro!: exI [of _ e])
    with nc show False by blast
  qed
  then have rt: "r = Inr True" and rs: "ledger_reason ck = ''SEND_CLAIM_PERSISTED''"
    using assms(3,4) t pr d r by (auto simp: reserve_before_send_def split: sum.splits bool.splits if_splits)
  show "claimed st' tid"
    using tlog.app_ok [OF f(1), of "(rt, io)" st] r rt row by (auto simp: claimed_def)
  show "ledger_reason ck = ''SEND_CLAIM_PERSISTED''" by (rule rs)
qed

section \<open>Histories\<close>

text \<open>The calls that write to a store: those of the ledger, of the emergency stop, and of any other
  component that appends a record it built.\<close>

datatype exec_call =
    CReserve append_io string string string string "datetime option"
  | CUnknown append_io string json "datetime option"
  | CReconcile append_io string json "datetime option"
  | CEngage append_io json "datetime option" dict
  | CClear append_io json "datetime option"
  | COther append_io dict

fun exec_step :: "py_rt \<Rightarrow> exec_call \<Rightarrow> ticket_store \<Rightarrow> ticket_store" where
  "exec_step rt (CReserve io tid a b c now) st = fst (reserve_before_send rt io tid a b c now st)"
| "exec_step rt (CUnknown io tid r now) st = fst (record_unknown rt io tid r now st)"
| "exec_step rt (CReconcile io tid r now) st = fst (record_reconciled rt io tid r now st)"
| "exec_step rt (CEngage io r now ev) st = fst (engage rt io r now ev st)"
| "exec_step rt (CClear io r now) st = fst (clear rt io r now st)"
| "exec_step rt (COther io fs) st = (case build_outcome rt fs of Inl _ \<Rightarrow> st | Inr d \<Rightarrow> fst (append_outcome rt io d st))"

lemma other_written: "written rt (\<lambda>g. g = fs) st (case build_outcome rt fs of Inl _ \<Rightarrow> st | Inr d \<Rightarrow> fst (append_outcome rt io d st))"
  by (auto simp: written_def split: sum.split)

lemmas ops_written = reserve_written unknown_written reconciled_written engage_written clear_written other_written

lemma exec_step_built: "built_step rt st (exec_step rt c st)"
  by (cases c) (auto intro: ops_written [THEN built_stepI])

text \<open>Whether a call is a reservation of the ticket that was granted.\<close>

fun granted :: "py_rt \<Rightarrow> string \<Rightarrow> exec_call \<Rightarrow> ticket_store \<Rightarrow> bool" where
  "granted rt tid (CReserve io tid' a b c now) st =
     (tid' = tid \<and> (case snd (reserve_before_send rt io tid' a b c now st) of Inr ck \<Rightarrow> available ck | Inl _ \<Rightarrow> False))"
| "granted rt tid _ st = False"

lemma granted_claims:
  assumes "inj (sha rt)" "sealed_store rt st" "granted rt tid c st"
  shows "\<not> claimed st tid \<and> claimed (exec_step rt c st) tid"
proof -
  from assms(3) obtain io a b e now where c: "c = CReserve io tid a b e now" by (cases c) auto
  obtain st' ck where r: "reserve_before_send rt io tid a b e now st = (st', Inr ck)" "available ck"
    using assms(3) by (cases "reserve_before_send rt io tid a b e now st") (auto simp: c split: sum.splits)
  from reserve_granted(1,2) [OF assms(1,2) r] show ?thesis by (simp add: c r)
qed

text \<open>Send claims are single-use tokens.\<close>

interpretation claims: one_shot "\<lambda>st. inj (sha rt) \<and> sealed_store rt st" "exec_step rt" "granted rt" claimed for rt
proof unfold_locales
  fix st c tid assume i: "inj (sha rt) \<and> sealed_store rt st"
  show "inj (sha rt) \<and> sealed_store rt (exec_step rt c st)" using i built_step_sealed exec_step_built by blast
  show "claimed st tid \<Longrightarrow> claimed (exec_step rt c st) tid" using built_step_claimed exec_step_built by blast
  show "granted rt tid c st \<Longrightarrow> \<not> claimed st tid" "granted rt tid c st \<Longrightarrow> claimed (exec_step rt c st) tid"
    using granted_claims i by blast+
qed

section \<open>Lemmas: the latch\<close>

lemma built_step_grows: "built_step rt st st' \<Longrightarrow> grows (ts_outcomes st) (ts_outcomes st')"
  using append_outcome_grows(1) by (auto simp: written_def)

lemma built_step_objects:
  assumes "built_step rt st st'" "object_rows st"
  shows "object_rows st'"
proof -
  have "\<exists>d'. v = JDict d'" if "Row v \<in> set (lines (file_at (ts_outcomes (fst (append_outcome rt io d st))) n))" for v n io d
    using that assms(2)
    by (auto simp: append_outcome_def append_row_def object_rows_def add_line_def tear_line_def Let_def
        split: if_splits sum.splits bool.splits append_io.splits)
  then show ?thesis using assms by (auto simp: written_def object_rows_def)
qed

text \<open>The rows of a ticket after the append of a built record.\<close>

lemma append_outcome_effect:
  assumes "wf_dict (ts_outcomes st)" "wf_dict d" "object_rows st"
    and "outcomes st tid = Inr rs" "outcomes (fst (append_outcome rt io d st)) tid = Inr rs'"
  shows "rs' = rs \<or> (\<exists>a b. rs = a @ b \<and> rs' = a @ (if of_ticket (stored_row d) tid then [stored_row d] else []) @ b)"
proof -
  let ?st = "fst (append_outcome rt io d st)" and ?n = "outcome_path rt d"
  have "?st = st \<or> ts_outcomes ?st = ts_outcomes st \<or> ts_outcomes ?st = add_line ?n d (ts_outcomes st)
        \<or> ts_outcomes ?st = tear_line ?n (ts_outcomes st)"
    by (auto simp: append_outcome_def append_row_def split: sum.splits bool.splits append_io.splits)
  then consider "ts_outcomes ?st = ts_outcomes st" | "ts_outcomes ?st = add_line ?n d (ts_outcomes st)"
    | "ts_outcomes ?st = tear_line ?n (ts_outcomes st)" by metis
  then show ?thesis
  proof cases
    case 1
    with assms(4,5) show ?thesis by (simp add: outcomes_def)
  next
    case 2
    from outcomes_insert [OF assms(1,2) this assms(4)] assms(5) show ?thesis by fastforce
  next
    case 3
    then have "truncated (file_at (ts_outcomes ?st) ?n)" by (simp add: tear_line_def)
    then have "None \<in> set (row_stream (ts_outcomes ?st))" by (rule truncated_in_stream)
    then have False using assms(5) select_rows_ok_iff unfolding outcomes_def by fastforce
    then show ?thesis ..
  qed
qed

definition is_stop_row :: "dict \<Rightarrow> bool" where
  "is_stop_row d \<longleftrightarrow> dget d ''outcome_kind'' = JStr STOP_KIND"

definition cleared_row :: "dict \<Rightarrow> bool" where
  "cleared_row d \<longleftrightarrow> dget d ''result'' = JStr ''CLEARED''"

text \<open>The stop is engaged: the store is corrupt, or the last latch row is not a clearance.\<close>

definition latched :: "ticket_store \<Rightarrow> bool" where
  "latched st \<longleftrightarrow> corrupt (ts_outcomes st) \<or>
     (\<exists>rs. outcomes st STOP_TICKET_ID = Inr rs \<and> filter is_stop_row rs \<noteq> [] \<and> \<not> cleared_row (last (filter is_stop_row rs)))"

lemma status_latched:
  assumes "object_rows st" "wf_dict (ts_outcomes st)"
  shows "(\<exists>s. status rt st = Inr s \<and> engaged s) \<longleftrightarrow> latched st"
  using outcomes_read [OF assms, of STOP_TICKET_ID]
  by (auto simp: status_def latched_def Let_def is_stop_row_def [abs_def] cleared_row_def split: if_splits)

lemma last_filter_insert:
  assumes "filter P (a @ b) \<noteq> []" "\<not> Q (last (filter P (a @ b)))" "P x \<Longrightarrow> \<not> Q x"
  shows "filter P (a @ [x] @ b) \<noteq> [] \<and> \<not> Q (last (filter P (a @ [x] @ b)))"
  using assms by (cases "filter P b = []") (auto simp: last_append)

text \<open>Only a clearance row can release the latch.\<close>

lemma append_keeps_latched:
  assumes "latched st" "object_rows st" "wf_dict (ts_outcomes st)" "build_outcome rt fs = Inr d"
    and "of_ticket (stored_row d) STOP_TICKET_ID \<and> is_stop_row (stored_row d) \<Longrightarrow> \<not> cleared_row (stored_row d)"
  shows "latched (fst (append_outcome rt io d st))"
proof -
  let ?st = "fst (append_outcome rt io d st)"
  have w: "wf_dict d" using build_outcome_fields(1) [OF assms(4)] .
  have b: "built_step rt st ?st" using assms(4) by (auto simp: written_def)
  have o: "object_rows ?st" "wf_dict (ts_outcomes ?st)"
    using built_step_objects [OF b assms(2)] built_step_wf [OF b assms(3)] by simp_all
  show ?thesis
  proof (cases "corrupt (ts_outcomes ?st)")
    case False
    then have "\<not> corrupt (ts_outcomes st)" using corrupt_grows built_step_grows [OF b] by blast
    with assms(1) obtain rs where rs: "outcomes st STOP_TICKET_ID = Inr rs" "filter is_stop_row rs \<noteq> []"
      "\<not> cleared_row (last (filter is_stop_row rs))" by (auto simp: latched_def)
    obtain rs' where rs': "outcomes ?st STOP_TICKET_ID = Inr rs'" using outcomes_read [OF o] False by auto
    from append_outcome_effect [OF assms(3) w assms(2) rs(1) rs']
    have "filter is_stop_row rs' \<noteq> [] \<and> \<not> cleared_row (last (filter is_stop_row rs'))"
      using rs(2,3) assms(5) last_filter_insert [of is_stop_row _ _ cleared_row "stored_row d"]
      by (auto split: if_splits)
    with rs' show ?thesis by (auto simp: latched_def)
  qed (simp add: latched_def)
qed

text \<open>A call that may release the stop: an owner's clearance, or a foreign record of the latch's own kind.\<close>

fun may_release :: "exec_call \<Rightarrow> bool" where
  "may_release (CClear _ _ _) = True"
| "may_release (COther _ fs) = (dget fs ''outcome_kind'' = JStr STOP_KIND)"
| "may_release _ = False"

lemma build_outcome_kind:
  assumes "build_outcome rt fs = Inr d"
  shows "dget (stored_row d) ''outcome_kind'' = canon (dget fs ''outcome_kind'')" "dget (stored_row d) ''result'' = canon (dget fs ''result'')"
  using build_outcome_fields(1,4) [OF assms] by (simp_all add: dget_stored_row)

lemma canon_JStr: "canon v = JStr s \<longleftrightarrow> v = JStr s"
  by (cases v) auto

lemma written_latched:
  assumes "written rt P st st'" "latched st" "object_rows st" "wf_dict (ts_outcomes st)"
    and "\<And>fs. P fs \<Longrightarrow> kind_is STOP_KIND fs \<Longrightarrow> dget fs ''result'' \<noteq> JStr ''CLEARED''"
  shows "latched st'"
proof (cases "st' = st")
  case False
  with assms(1) obtain fs d io where d: "build_outcome rt fs = Inr d" "P fs" "st' = fst (append_outcome rt io d st)"
    unfolding written_def by blast
  have "\<not> cleared_row (stored_row d)" if "is_stop_row (stored_row d)"
    using that assms(5) [OF d(2)] build_outcome_kind [OF d(1)] by (simp add: is_stop_row_def cleared_row_def kind_is_def canon_JStr)
  then show ?thesis using append_keeps_latched [OF assms(2-4) d(1)] d(3) by blast
qed (simp add: assms(2))

lemma other_kinds: "kind_is SENDING fs \<Longrightarrow> \<not> kind_is STOP_KIND fs" "kind_is UNCERTAIN fs \<Longrightarrow> \<not> kind_is STOP_KIND fs"
  "kind_is EXEC_RECONCILED fs \<Longrightarrow> \<not> kind_is STOP_KIND fs"
  by (simp_all add: kind_is_def kind_names STOP_KIND_def)

lemma exec_step_latched:
  assumes "latched st" "object_rows st" "wf_dict (ts_outcomes st)" "\<not> may_release c"
  shows "latched (exec_step rt c st)"
proof (cases c)
  case (CReserve io tid a b e now)
  show ?thesis unfolding CReserve exec_step.simps
    by (rule written_latched [OF reserve_written assms(1-3)]) (simp add: other_kinds)
next
  case (CUnknown io tid r now)
  show ?thesis unfolding CUnknown exec_step.simps
    by (rule written_latched [OF unknown_written assms(1-3)]) (simp add: other_kinds)
next
  case (CReconcile io tid r now)
  show ?thesis unfolding CReconcile exec_step.simps
    by (rule written_latched [OF reconciled_written assms(1-3)]) (simp add: other_kinds)
next
  case (CEngage io r now ev)
  show ?thesis unfolding CEngage exec_step.simps
    by (rule written_latched [OF engage_written assms(1-3)]) (simp add: stop_args_def)
next
  case (COther io fs)
  show ?thesis using assms(4) unfolding COther exec_step.simps
    by (intro written_latched [OF other_written assms(1-3)]) (simp add: kind_is_def)
qed (use assms(4) in simp)

lemma exec_run_latched:
  assumes "latched st" "object_rows st" "wf_dict (ts_outcomes st)" "list_all (\<lambda>c. \<not> may_release c) cs"
  shows "latched (fold (exec_step rt) cs st) \<and> object_rows (fold (exec_step rt) cs st) \<and> wf_dict (ts_outcomes (fold (exec_step rt) cs st))"
  using assms
proof (induction cs arbitrary: st)
  case (Cons c cs)
  have "object_rows (exec_step rt c st)" "wf_dict (ts_outcomes (exec_step rt c st))"
    using built_step_objects built_step_wf exec_step_built Cons.prems(2,3) by blast+
  with Cons exec_step_latched [of st c rt] show ?case by simp
qed simp

section \<open>Lemmas: a second append\<close>

lemma scan_existing_append:
  "scan_existing idf d es = Inr False \<Longrightarrow> scan_existing idf d (es @ fs) = scan_existing idf d fs"
  by (induction idf d es rule: scan_existing.induct) (auto split: option.splits if_splits)

lemma built_outcome_id:
  assumes "build_outcome rt fs = Inr d"
  shows "\<exists>s. map_of d ''outcome_id'' = Some (JStr s)"
proof -
  let ?d = "dput ''schema'' (JStr ''TICKET_STORE_V1_OUTCOME'') (project OUTCOME_FIELDS fs)"
  from assms have d: "d = seal rt OUTCOME_FIELDS (dput ''outcome_id'' (JStr (outcome_id rt ?d)) ?d)"
    by (auto simp: build_outcome_def Let_def split: if_splits)
  then have "map_of d ''outcome_id'' \<noteq> None"
    by (simp add: seal_def Let_def project_def OUTCOME_FIELDS_def)
  moreover have "dget d ''outcome_id'' = JStr (outcome_id rt ?d)"
    unfolding d by (simp add: dget_seal OUTCOME_FIELDS_def)
  ultimately show ?thesis by (auto simp: dget_def split: option.splits)
qed

lemma append_outcome_again:
  assumes "build_outcome rt fs = Inr d" "append_outcome rt io d st = (st', Inr True)"
  shows "append_outcome rt io' d st' = (st', Inr False)"
proof -
  let ?n = "outcome_path rt d" and ?f = "file_at (ts_outcomes st) (outcome_path rt d)"
  note f = build_outcome_fields [OF assms(1)] and ok = append_outcome_ok [OF assms(2)]
  obtain s where s: "map_of d ''outcome_id'' = Some (JStr s)" using built_outcome_id [OF assms(1)] by blast
  obtain h where h: "dget d ''record_sha256'' = JStr h" using f(3) by blast
  have nt: "\<not> truncated ?f" using ok(3) by (auto simp: read_jsonl_def)
  have "read_jsonl (file_at (ts_outcomes st') ?n) = read_jsonl ?f @ [Some (JDict (stored_row d))]"
    unfolding ok(1) add_line_def Let_def stored_row_canon by (simp add: read_jsonl_add [OF nt])
  moreover have "scan_existing ''outcome_id'' d [Some (JDict (stored_row d))] = Inr True"
    using s h by (simp add: dget_stored_row [OF f(1)]) (simp add: dget_def)
  ultimately have "append_row io' ?n ''outcome_id'' d (ts_outcomes st') = (ts_outcomes st', Inr False)"
    unfolding append_row_def using scan_existing_append [OF ok(3)] by simp
  then show ?thesis using f(2) h by (simp add: append_outcome_def)
qed

section \<open>A concrete runtime\<close>

instance json :: countable
  by countable_datatype

text \<open>A digest without collisions, for the concrete instances below.\<close>

definition unary_rt :: py_rt where
  "unary_rt = \<lparr>sha = \<lambda>v. replicate (to_nat v) CHR ''a'', repr = \<lambda>_. ''?''\<rparr>"

definition constant_rt :: py_rt where
  "constant_rt = \<lparr>sha = \<lambda>_. ''h'', repr = \<lambda>_. ''?''\<rparr>"

definition empty_store :: ticket_store where
  "empty_store = \<lparr>ts_evaluations = [], ts_outcomes = []\<rparr>"

lemma unary_inj: "inj (sha unary_rt)"
  unfolding unary_rt_def inj_def by (auto dest!: arg_cong [of _ _ length])

lemma empty_store_sealed [simp]: "sealed_store rt empty_store" "object_rows empty_store" "wf_dict (ts_outcomes empty_store)"
  by (simp_all add: empty_store_def sealed_store_def has_outcome_def object_rows_def file_at_def empty_file_def wf_dict_def)

lemma reserve_fresh:
  assumes "tid \<noteq> []" "non_blank tid"
  shows "granted rt tid (CReserve Appended tid a b c (Some t)) empty_store"
proof -
  obtain d where d: "build_outcome rt (outcome_args tid SENDING (iso_datetime t) ''SEND_PENDING'' (sending_payload tid a b c)
                   ''demo_execution.idempotency.ExecutionLedger.reserve_before_send'') = Inr d"
    using build_outcome_args [OF assms(1), of SENDING] unfolding SENDING_def by blast
  note f = build_outcome_fields(2,3) [OF d]
  have "inspect empty_store tid = Inr (check True ''IDEMPOTENCY_KEY_AVAILABLE'' None)"
    using assms(2) by (simp add: inspect_def execution_rows_def outcomes_def empty_store_def row_stream_def files_def states_of_def)
  moreover have "snd (append_outcome rt Appended d empty_store) = Inr True"
    using f by (auto simp: append_outcome_def append_row_def empty_store_def file_at_def empty_file_def read_jsonl_def)
  ultimately show ?thesis using assms(2) d
    by (auto simp: reserve_before_send_def split: prod.split)
qed

section \<open>Properties\<close>

text \<open>In every history of ledger, emergency and foreign writes on a store of sealed
  rows, with any pattern of failed, torn or unsynced writes, a ticket is granted the claim to send at
  most once, and never when the store already holds a claim for it; so no restart, race or retry
  sends the order of one ticket twice. The seal digest is assumed free of collisions.\<close>

theorem single_send_claim:
  assumes "inj (sha rt)" "sealed_store rt st"
  shows "count_calls (granted rt tid) (exec_step rt) calls st \<le> 1 \<and>
    (claimed st tid \<longrightarrow> count_calls (granted rt tid) (exec_step rt) calls st = 0)"
  by (rule claims.at_most_one) (simp add: assms)

theorem single_send_claim_witness:
  "let c = CReserve Appended ''T-1'' ''S1'' ''EURUSD'' ''L'' (Some 63900000000000000)
   in count_calls (granted unary_rt ''T-1'') (exec_step unary_rt) [c, c, CUnknown Torn ''T-1'' (JStr ''x'') None, c] empty_store = 1"
proof -
  let ?c = "CReserve Appended ''T-1'' ''S1'' ''EURUSD'' ''L'' (Some 63900000000000000)"
  have "granted unary_rt ''T-1'' ?c empty_store" by (rule reserve_fresh) (simp, code_simp)
  then show ?thesis
    using single_send_claim [OF unary_inj empty_store_sealed(1), of "''T-1''" "[?c, ?c, CUnknown Torn ''T-1'' (JStr ''x'') None, ?c]"]
    unfolding Let_def by simp
qed

text \<open>C12: Once the emergency stop reads as engaged (a corrupt store reads so too),
  it reads as engaged after every further history of writes, failed ones included, that has no owner's
  clearance and no foreign record of the latch's own kind.\<close>

theorem emergency_stop_latched:
  assumes "object_rows st" "wf_dict (ts_outcomes st)"
    and "\<exists>s. status rt st = Inr s \<and> engaged s" "list_all (\<lambda>c. \<not> may_release c) calls"
  shows "\<exists>s. status rt (fold (exec_step rt) calls st) = Inr s \<and> engaged s"
proof -
  have "latched st" using status_latched [OF assms(1,2)] assms(3) by blast
  from exec_run_latched [OF this assms(1,2,4)] status_latched show ?thesis by blast
qed

theorem emergency_stop_latched_witness:
  "let st = fst (engage constant_rt Appended (JStr ''TEST'') (Some 63900000000000000) [] empty_store)
   in \<exists>s. status constant_rt (fold (exec_step constant_rt) [CReserve Appended ''T-1'' ''S1'' ''EURUSD'' ''L'' (Some 63900000000000001),
        CEngage Torn JNull (Some 63900000000000002) [], COther Unsynced []] st) = Inr s \<and> engaged s"
proof -
  let ?st = "fst (engage constant_rt Appended (JStr ''TEST'') (Some 63900000000000000) [] empty_store)"
  have b: "built_step constant_rt empty_store ?st" by (rule built_stepI [OF engage_written])
  have s: "\<exists>s. status constant_rt ?st = Inr s \<and> engaged s"
    by (intro exI [of _ "\<lparr>engaged = True, stop_reason = Some ''TEST'', engaged_at_utc = JStr (iso_datetime 63900000000000000)\<rparr>"]) code_simp
  have n: "list_all (\<lambda>c. \<not> may_release c) [CReserve Appended ''T-1'' ''S1'' ''EURUSD'' ''L'' (Some 63900000000000001),
        CEngage Torn JNull (Some 63900000000000002) [], COther Unsynced []]"
    by code_simp
  from emergency_stop_latched [OF built_step_objects [OF b] built_step_wf [OF b] s n] show ?thesis
    unfolding Let_def by simp
qed

text \<open>C39: An acknowledged append of a built record keeps every line of the store in
  place, makes the record readable under its ticket, leaves the rows of every other ticket as they
  were, and is idempotent: the same record appended again is acknowledged as present and writes nothing.\<close>

theorem append_outcome_contract:
  assumes "wf_dict (ts_outcomes st)" "build_outcome rt fs = Inr d" "append_outcome rt io d st = (st', Inr True)"
    and "outcomes st tid = Inr rs" "outcomes st tid' = Inr rs'"
    and "of_ticket d tid" "tid' \<noteq> tid"
  shows "grows (ts_outcomes st) (ts_outcomes st') \<and> ts_evaluations st' = ts_evaluations st \<and>
    (\<exists>a b. rs = a @ b \<and> outcomes st' tid = Inr (a @ [stored_row d] @ b)) \<and>
    outcomes st' tid' = Inr rs' \<and> append_outcome rt io' d st' = (st', Inr False)"
proof -
  have w: "wf_dict d" using build_outcome_fields(1) [OF assms(2)] .
  have t: "of_ticket (stored_row d) tid" "\<not> of_ticket (stored_row d) tid'"
    using assms(6,7) by (auto simp: of_ticket_def dget_stored_row [OF w])
  show ?thesis
    using append_outcome_grows(1) [of st rt io d] append_outcome_grows(2) [of rt io d st] outcomes_insert [OF assms(1) w append_outcome_ok(1) [OF assms(3)] assms(4)]
      outcomes_append_other [OF assms(1) w append_outcome_ok(1) [OF assms(3)] assms(5) t(2)] append_outcome_again [OF assms(2,3)] t(1)
    by (simp add: assms(3)) blast
qed

theorem append_outcome_contract_witness:
  "let fs = outcome_args ''T-1'' ''K'' ''2026-01-05T10:00:00+00:00'' ''R'' (JDict []) ''w'';
       r = build_outcome constant_rt fs; d = projr r; st' = fst (append_outcome constant_rt Appended d empty_store)
   in (\<exists>a b. [] = a @ b \<and> outcomes st' ''T-1'' = Inr (a @ [stored_row d] @ b)) \<and> outcomes st' ''T-2'' = Inr [] \<and>
      append_outcome constant_rt Torn d st' = (st', Inr False)"
proof -
  let ?fs = "outcome_args ''T-1'' ''K'' ''2026-01-05T10:00:00+00:00'' ''R'' (JDict []) ''w''"
  let ?d = "projr (build_outcome constant_rt ?fs)"
  have d: "build_outcome constant_rt ?fs = Inr ?d" by code_simp
  have a: "append_outcome constant_rt Appended ?d empty_store = (fst (append_outcome constant_rt Appended ?d empty_store), Inr True)"
    by code_simp
  have r: "outcomes empty_store t = Inr []" for t by (simp add: outcomes_def empty_store_def row_stream_def files_def)
  have t: "of_ticket ?d ''T-1''" by code_simp
  from append_outcome_contract [OF empty_store_sealed(3) d a r r t, of "''T-2''" Torn] show ?thesis
    unfolding Let_def by simp
qed

end
