(* ===== verification/Sealed_Rows.thy ===== *)
theory Sealed_Rows
  imports Exec_Ledger
begin

text \<open>
  What the readers of evidence rows share: the check that a row is exactly what \<open>build_outcome\<close> would
  build (confirmation.py, lifecycle.py, authority.py and notification.py under src/src/demo\_execution
  each have it), the reading of timestamps, and that a built row passes when it is read back.
\<close>

definition same_keys :: "dict \<Rightarrow> string list \<Rightarrow> bool" where
  "same_keys d ks \<longleftrightarrow> set (map fst d) = set ks"

definition valid_outcome :: "py_rt \<Rightarrow> dict \<Rightarrow> string \<Rightarrow> bool" where
  "valid_outcome rt r okind =
     (if \<not> same_keys r OUTCOME_FIELDS then False
      else if dget r ''outcome_kind'' \<noteq> JStr okind then False
      else case build_outcome rt (project OUTCOME_FIELDS r) of
        Inl _ \<Rightarrow> False
      | Inr rebuilt \<Rightarrow> list_all (\<lambda>k. dget rebuilt k = dget r k) OUTCOME_FIELDS)"

text \<open>\<open>_as_utc\<close> of a stored value; an instant outside the calendar raises in \<open>astimezone\<close>.\<close>

definition replace_Z :: "string \<Rightarrow> string" where
  "replace_Z s = concat (map (\<lambda>c. if c = CHR ''Z'' then ''+00:00'' else [c]) s)"

definition as_utc :: "json \<Rightarrow> datetime option res" where
  "as_utc v =
     (case v of
        JStr s \<Rightarrow>
          (if non_blank s then
             (case parse_iso (replace_Z s) of
                None \<Rightarrow> Inr None
              | Some t \<Rightarrow> if valid_datetime t then Inr (Some t) else Inl OverflowError)
           else Inr None)
      | _ \<Rightarrow> Inr None)"

definition non_empty :: "json \<Rightarrow> bool" where
  "non_empty v = (case v of JStr s \<Rightarrow> non_blank s | _ \<Rightarrow> False)"

section \<open>Lemmas\<close>

lemma pad_no_Z: "CHR ''Z'' \<notin> set (pad n k)"
proof (induction n arbitrary: k)
  case (Suc n)
  have "char_digit (CHR ''Z'') = None" by (simp add: char_digit_def)
  then have "digit_char k \<noteq> CHR ''Z''" using char_digit_char [of k] by (metis option.distinct(1))
  with Suc show ?case by auto
qed simp

lemma iso_datetime_no_Z: "CHR ''Z'' \<notin> set (iso_datetime t)"
  by (auto simp: iso_datetime_def iso_date_def iso_time_def Let_def pad_no_Z split: prod.split)

lemma replace_Z_id: "CHR ''Z'' \<notin> set s \<Longrightarrow> replace_Z s = s"
  by (induction s) (auto simp: replace_Z_def)

lemma iso_datetime_non_blank: "non_blank (iso_datetime t)"
  unfolding non_blank_iff by (rule bexI [of _ "CHR ''T''"]) (simp_all add: iso_datetime_def is_space_def)

lemma as_utc_iso: "valid_datetime t \<Longrightarrow> as_utc (JStr (iso_datetime t)) = Inr (Some t)"
  by (simp add: as_utc_def iso_datetime_non_blank replace_Z_id iso_datetime_no_Z parse_iso_datetime)

lemma non_empty_canon: "v = JNull \<or> non_empty v \<Longrightarrow> canon v = v"
  by (cases v) (auto simp: non_empty_def)

lemma keys_stored_row: "set (map fst (stored_row d)) = set (map fst d)"
  by (auto simp: stored_row_def) (force simp: image_iff)+

lemma keys_seal: "''record_sha256'' \<in> set fs \<Longrightarrow> set (map fst (seal rt fs d)) = set fs"
  unfolding seal_def Let_def keys_dput by (auto simp: project_def)

lemma build_outcome_Inr:
  assumes "build_outcome rt fs = Inr d"
  shows "d = seal rt OUTCOME_FIELDS (dput ''outcome_id'' (JStr (outcome_id rt fs)) (dput ''schema'' (JStr ''TICKET_STORE_V1_OUTCOME'') (project OUTCOME_FIELDS fs)))"
    "valid_source (dget fs ''source'')" "truthy (dget fs ''ticket_id'')" "truthy (dget fs ''outcome_kind'')"
proof -
  let ?d = "dput ''schema'' (JStr ''TICKET_STORE_V1_OUTCOME'') (project OUTCOME_FIELDS fs)"
  have "outcome_id rt ?d = outcome_id rt fs"
    by (simp add: outcome_id_def dget_project OUTCOME_FIELDS_def)
  with assms show "d = seal rt OUTCOME_FIELDS (dput ''outcome_id'' (JStr (outcome_id rt fs)) ?d)"
    by (auto simp: build_outcome_def Let_def split: if_splits)
  show "valid_source (dget fs ''source'')" "truthy (dget fs ''ticket_id'')" "truthy (dget fs ''outcome_kind'')"
    using assms by (auto simp: build_outcome_def Let_def dget_project OUTCOME_FIELDS_def split: if_splits)
qed

lemma fields_in: "''source'' \<in> set OUTCOME_FIELDS" "''ticket_id'' \<in> set OUTCOME_FIELDS" "''outcome_kind'' \<in> set OUTCOME_FIELDS"
  "''recorded_at_utc'' \<in> set OUTCOME_FIELDS" "''payload'' \<in> set OUTCOME_FIELDS"
  by (simp_all add: OUTCOME_FIELDS_def)

lemma valid_source_canon [simp]: "valid_source (canon v) = valid_source v"
  by (cases v) (auto simp: valid_source_def)

lemma sha256_canon [simp]: "sha256 rt (canon v) = sha256 rt v"
  by (simp add: sha256_def)

lemma outcome_id_canon:
  assumes "\<And>k. k \<in> {''ticket_id'', ''outcome_kind'', ''source'', ''recorded_at_utc'', ''payload''} \<Longrightarrow> dget r k = canon (dget fs k)"
  shows "outcome_id rt r = outcome_id rt fs"
  by (simp add: outcome_id_def sha256_def assms)

lemma seal_ddel: "ddel ''record_sha256'' (seal rt fs x) = project (filter (\<lambda>k. k \<noteq> ''record_sha256'') fs) (seal rt fs x)"
proof -
  have "ddel ''record_sha256'' (seal rt fs x) = project (filter (\<lambda>k. k \<noteq> ''record_sha256'') fs) x"
    unfolding seal_def Let_def ddel_dput_same by (simp add: ddel_def project_def filter_map comp_def)
  also have "\<dots> = project (filter (\<lambda>k. k \<noteq> ''record_sha256'') fs) (seal rt fs x)"
    by (auto simp: project_def dget_seal)
  finally show ?thesis .
qed

lemma seal_digest: "dget (seal rt fs x) ''record_sha256'' = JStr (sha256 rt (JDict (ddel ''record_sha256'' (seal rt fs x))))"
  by (simp add: seal_def Let_def)

lemma seal_digest_cong:
  assumes "d = seal rt fs x" "e = seal rt fs y"
    and "\<And>k. k \<in> set fs \<Longrightarrow> k \<noteq> ''record_sha256'' \<Longrightarrow> canon (dget d k) = canon (dget e k)"
  shows "dget d ''record_sha256'' = dget e ''record_sha256''"
proof -
  let ?g = "filter (\<lambda>k. k \<noteq> ''record_sha256'') fs"
  have "map (\<lambda>(k, v). (k, canon v)) (project ?g d) = map (\<lambda>(k, v). (k, canon v)) (project ?g e)"
    using assms(3) by (auto simp: project_def)
  then have "canon (JDict (project ?g d)) = canon (JDict (project ?g e))" by simp
  then show ?thesis unfolding assms(1,2) seal_digest sha256_def by (simp only: seal_ddel)
qed

lemma built_row_valid:
  assumes "build_outcome rt fs = Inr d" "dget fs ''outcome_kind'' = JStr k"
  shows "valid_outcome rt (stored_row d) k"
proof -
  let ?r = "stored_row d" and ?p = "project OUTCOME_FIELDS (stored_row d)"
  note b = build_outcome_Inr [OF assms(1)] and f = build_outcome_fields [OF assms(1)]
  have dr: "dget ?r k = canon (dget fs k)"
    if "k \<in> {''ticket_id'', ''source'', ''outcome_kind'', ''recorded_at_utc'', ''result'', ''payload'', ''provenance''}" for k
    using f(4) [OF that] by (simp add: dget_stored_row [OF f(1)])
  have keys: "set (map fst ?r) = set OUTCOME_FIELDS"
    unfolding keys_stored_row by (subst b(1), rule keys_seal) (simp add: OUTCOME_FIELDS_def)
  have pr: "dget ?p k = dget ?r k" if "k \<in> set OUTCOME_FIELDS" for k using that by (simp add: dget_project)
  obtain e where e: "build_outcome rt ?p = Inr e"
  proof -
    have "list_all (\<lambda>(k, _). k \<in> set OUTCOME_FIELDS) ?p" by (simp add: project_def list_all_iff)
    moreover have "valid_source (dget ?p ''source'')" "truthy (dget ?p ''ticket_id'')" "truthy (dget ?p ''outcome_kind'')"
      using b(2-4) fields_in by (simp_all add: pr dr)
    ultimately show ?thesis using that fields_in unfolding build_outcome_def by (simp add: Let_def dget_project)
  qed
  note b' = build_outcome_Inr [OF e] and f' = build_outcome_fields [OF e]
  have id: "outcome_id rt ?p = outcome_id rt fs"
    using fields_in by (intro outcome_id_canon) (auto simp: pr dr)
  have oid: "dget e ''outcome_id'' = JStr (outcome_id rt fs)" "dget d ''outcome_id'' = JStr (outcome_id rt fs)"
    using id by (simp_all add: b(1) b'(1) dget_seal OUTCOME_FIELDS_def)
  have plain: "dget e k = dget ?r k" if "k \<in> set OUTCOME_FIELDS" "k \<noteq> ''record_sha256''" for k
  proof (cases "k \<in> {''ticket_id'', ''source'', ''outcome_kind'', ''recorded_at_utc'', ''result'', ''payload'', ''provenance''}")
    case True
    then show ?thesis using f'(4) [OF True] pr [OF that(1)] by simp
  next
    case False
    then have "k = ''schema'' \<or> k = ''outcome_id''" using that by (auto simp: OUTCOME_FIELDS_def)
    then show ?thesis using oid f(2) f'(2) by (auto simp: dget_stored_row [OF f(1)])
  qed
  have "canon (dget e k) = canon (dget d k)" if "k \<in> set OUTCOME_FIELDS" "k \<noteq> ''record_sha256''" for k
    using plain [OF that] by (simp add: dget_stored_row [OF f(1)])
  then have "dget e ''record_sha256'' = dget d ''record_sha256''"
    by (intro seal_digest_cong [OF b'(1) b(1)])
  then have "dget e ''record_sha256'' = dget ?r ''record_sha256''"
    using f(3) by (auto simp: dget_stored_row [OF f(1)])
  with plain have "list_all (\<lambda>k. dget e k = dget ?r k) OUTCOME_FIELDS" unfolding list_all_iff by blast
  then show ?thesis using keys e assms(2) by (simp add: valid_outcome_def same_keys_def dr)
qed


end
