(* ===== verification/Lifecycle.thy ===== *)
theory Lifecycle
  imports Sealed_Rows
begin

text \<open>
  The execution lifecycle evidence (src/src/demo\_execution/lifecycle.py): one sealed row of the
  ticket store per transition. An append holds the ticket's lock from its read of the trail to its
  write, so it is one step on the store. A clock reading is \<open>None\<close> when it is not an aware datetime.
\<close>

section \<open>States\<close>

definition LIFECYCLE_STATES :: "string list" where
  "LIFECYCLE_STATES = [''AUTHORIZED'', ''CHECKED'', ''SENT'', ''BROKER_ACK'', ''POSITION_TRACKED'', ''CLOSED'', ''RECONCILED'']"

abbreviation HALT :: string where "HALT \<equiv> ''HALT''"

definition LIFECYCLE_KIND :: string where "LIFECYCLE_KIND = ''DEMO_LIFECYCLE_EVIDENCE''"

definition ALLOWED_NEXT :: "(string \<times> string list) list" where
  "ALLOWED_NEXT =
    [(''AUTHORIZED'', [''CHECKED'', HALT]), (''CHECKED'', [''SENT'', HALT]), (''SENT'', [''BROKER_ACK'', HALT]),
     (''BROKER_ACK'', [''POSITION_TRACKED'', HALT]), (''POSITION_TRACKED'', [''CLOSED'', HALT]),
     (''CLOSED'', [''RECONCILED'', HALT]), (HALT, [''RECONCILED'']), (''RECONCILED'', [])]"

definition allowed_next :: "string option \<Rightarrow> string list" where
  "allowed_next prior =
     (case prior of None \<Rightarrow> [''AUTHORIZED''] | Some s \<Rightarrow> (case map_of ALLOWED_NEXT s of None \<Rightarrow> [] | Some ns \<Rightarrow> ns))"

definition REQUIRED_BROKER_IDS :: "(string \<times> string list) list" where
  "REQUIRED_BROKER_IDS =
    [(''BROKER_ACK'', [''broker_order_id'']), (''POSITION_TRACKED'', [''broker_position_id'']), (''CLOSED'', [''broker_deal_id''])]"

definition REQUIRES_AUTHORIZATION_ID :: "string list" where
  "REQUIRES_AUTHORIZATION_ID = [''AUTHORIZED'', ''CHECKED'', ''SENT'', ''BROKER_ACK'']"

definition PAYLOAD_FIELDS :: "string list" where
  "PAYLOAD_FIELDS =
    [''ticket_id'', ''state'', ''authority_id'', ''authorization_id'', ''transitioned_at_utc'', ''prior_state'',
     ''broker_order_id'', ''broker_deal_id'', ''broker_position_id'', ''terminal_result'', ''reason_code'', ''evidence'']"

record lifecycle_state =
  lc_state :: string
  lc_recorded_at_utc :: datetime
  lc_authority_id :: string
  lc_authorization_id :: json
  lc_broker_order_id :: json
  lc_broker_deal_id :: json
  lc_broker_position_id :: json
  lc_terminal_result :: json
  lc_reason_code :: json
  lc_evidence :: dict

record lifecycle_trail =
  lt_states :: "lifecycle_state list"
  lt_reason_code :: "string option"

definition current :: "lifecycle_trail \<Rightarrow> string option" where
  "current tr = (if lt_states tr = [] then None else Some (lc_state (last (lt_states tr))))"

definition state_row :: "lifecycle_trail \<Rightarrow> string \<Rightarrow> lifecycle_state option" where
  "state_row tr s = find (\<lambda>r. lc_state r = s) (rev (lt_states tr))"

record transition_result =
  recorded :: bool
  tr_reason_code :: string
  tr_state :: "string option"
  tr_prior_state :: json
  tr_details :: dict

section \<open>Reading\<close>

definition seal_is_intact :: "py_rt \<Rightarrow> dict \<Rightarrow> bool" where
  "seal_is_intact rt r =
     (if \<not> same_keys r OUTCOME_FIELDS then False
      else if dget r ''outcome_kind'' \<noteq> JStr LIFECYCLE_KIND then False
      else case build_outcome rt (project OUTCOME_FIELDS r) of
        Inl _ \<Rightarrow> False
      | Inr rebuilt \<Rightarrow> list_all (\<lambda>k. dget rebuilt k = dget r k) OUTCOME_FIELDS)"

lemma seal_is_intact_valid: "seal_is_intact rt r = valid_outcome rt r LIFECYCLE_KIND"
  by (simp add: seal_is_intact_def valid_outcome_def)

definition known_state :: "json \<Rightarrow> bool" where
  "known_state v = (case v of JStr s \<Rightarrow> s \<in> set LIFECYCLE_STATES \<or> s = HALT | _ \<Rightarrow> False)"

definition row_from :: "py_rt \<Rightarrow> dict \<Rightarrow> lifecycle_state option res" where
  "row_from rt r =
     (case dget r ''payload'' of
        JDict p \<Rightarrow>
          (if \<not> same_keys p PAYLOAD_FIELDS then Inr None
           else case as_utc (dget r ''recorded_at_utc'') of
             Inl e \<Rightarrow> Inl e
           | Inr None \<Rightarrow> Inr None
           | Inr (Some t) \<Rightarrow>
               (if \<not> non_empty (dget p ''authority_id'') then Inr None
                else if \<not> known_state (dget p ''state'') then Inr None
                else if dget p ''transitioned_at_utc'' \<noteq> dget r ''recorded_at_utc'' then Inr None
                else Inr (Some \<lparr>lc_state = py_str rt (dget p ''state''), lc_recorded_at_utc = t,
                       lc_authority_id = py_str rt (dget p ''authority_id''), lc_authorization_id = dget p ''authorization_id'',
                       lc_broker_order_id = dget p ''broker_order_id'', lc_broker_deal_id = dget p ''broker_deal_id'',
                       lc_broker_position_id = dget p ''broker_position_id'', lc_terminal_result = dget p ''terminal_result'',
                       lc_reason_code = dget p ''reason_code'',
                       lc_evidence = (case dget p ''evidence'' of JDict ev \<Rightarrow> ev | _ \<Rightarrow> [])\<rparr>)))
      | _ \<Rightarrow> Inr None)"

text \<open>The first loop of \<open>trail\<close>: \<open>None\<close> on a row that is not intact or does not parse.\<close>

fun parse_rows :: "py_rt \<Rightarrow> dict list \<Rightarrow> lifecycle_state list option res" where
  "parse_rows rt [] = Inr (Some [])"
| "parse_rows rt (r # rs) =
     (if \<not> seal_is_intact rt r then Inr None
      else case row_from rt r of
        Inl e \<Rightarrow> Inl e
      | Inr None \<Rightarrow> Inr None
      | Inr (Some s) \<Rightarrow>
          (case parse_rows rt rs of Inl e \<Rightarrow> Inl e | Inr None \<Rightarrow> Inr None | Inr (Some ss) \<Rightarrow> Inr (Some (s # ss))))"

text \<open>The second loop: the reason the states cannot be trusted, if any.\<close>

fun check_order :: "lifecycle_state option \<Rightarrow> string list \<Rightarrow> lifecycle_state list \<Rightarrow> string option" where
  "check_order previous seen [] = None"
| "check_order previous seen (s # ss) =
     (if (case previous of None \<Rightarrow> False | Some p \<Rightarrow> lc_recorded_at_utc s < lc_recorded_at_utc p)
      then Some ''LIFECYCLE_TIMESTAMP_OUT_OF_ORDER''
      else if lc_state s \<in> set seen then Some ''LIFECYCLE_EVIDENCE_CONFLICT''
      else if lc_state s \<notin> set (allowed_next (map_option lc_state previous)) then Some ''LIFECYCLE_ORDER_INVALID''
      else check_order (Some s) (lc_state s # seen) ss)"

definition untrusted :: "string \<Rightarrow> lifecycle_trail" where
  "untrusted reason = \<lparr>lt_states = [], lt_reason_code = Some reason\<rparr>"

definition is_lifecycle_row :: "dict \<Rightarrow> bool" where
  "is_lifecycle_row r \<longleftrightarrow> dget r ''outcome_kind'' = JStr LIFECYCLE_KIND"

definition trail :: "py_rt \<Rightarrow> ticket_store \<Rightarrow> string \<Rightarrow> lifecycle_trail res" where
  "trail rt st tid =
     (if \<not> non_blank tid then Inr (untrusted ''TICKET_ID_MISSING'')
      else case outcomes st tid of
        Inl e \<Rightarrow> if read_caught e then Inr (untrusted ''LIFECYCLE_EVIDENCE_UNREADABLE'') else Inl e
      | Inr rows \<Rightarrow>
          (case parse_rows rt (filter is_lifecycle_row rows) of
             Inl e \<Rightarrow> Inl e
           | Inr None \<Rightarrow> Inr (untrusted ''LIFECYCLE_EVIDENCE_CONFLICT'')
           | Inr (Some states) \<Rightarrow>
               (case check_order None [] states of
                  Some reason \<Rightarrow> Inr (untrusted reason)
                | None \<Rightarrow> Inr \<lparr>lt_states = states, lt_reason_code = None\<rparr>)))"

section \<open>Appending\<close>

text \<open>The arguments of \<open>append\<close>; an absent optional one is \<open>JNull\<close>.\<close>

record lifecycle_args =
  la_now_utc :: "datetime option"
  la_authority_id :: json
  la_authorization_id :: json
  la_broker_order_id :: json
  la_broker_deal_id :: json
  la_broker_position_id :: json
  la_terminal_result :: json
  la_reason_code :: json
  la_evidence :: json

definition refused :: "string \<Rightarrow> string option \<Rightarrow> json \<Rightarrow> dict \<Rightarrow> transition_result" where
  "refused reason s prior details =
     \<lparr>recorded = False, tr_reason_code = reason, tr_state = s, tr_prior_state = prior, tr_details = details\<rparr>"

definition broker_id :: "lifecycle_args \<Rightarrow> string \<Rightarrow> json" where
  "broker_id a key =
     (if key = ''broker_order_id'' then la_broker_order_id a
      else if key = ''broker_deal_id'' then la_broker_deal_id a else la_broker_position_id a)"

definition required_broker_ids :: "string \<Rightarrow> string list" where
  "required_broker_ids s = (case map_of REQUIRED_BROKER_IDS s of None \<Rightarrow> [] | Some ks \<Rightarrow> ks)"

text \<open>The checks before the lock is taken: the refusal, if any.\<close>

definition refuse_input :: "py_rt \<Rightarrow> string \<Rightarrow> string \<Rightarrow> lifecycle_args \<Rightarrow> transition_result option" where
  "refuse_input rt tid s a =
     (if \<not> non_blank tid then Some (refused ''TICKET_ID_MISSING'' None JNull [])
      else if \<not> known_state (JStr s) then Some (refused ''LIFECYCLE_STATE_UNKNOWN'' None JNull [])
      else if la_now_utc a = None then Some (refused ''LIFECYCLE_TIMESTAMP_INVALID'' None JNull [])
      else if \<not> non_empty (la_authority_id a) then Some (refused ''LIFECYCLE_AUTHORITY_MISSING'' None JNull [])
      else if s \<in> set REQUIRES_AUTHORIZATION_ID \<and> \<not> non_empty (la_authorization_id a)
      then Some (refused ''LIFECYCLE_AUTHORIZATION_ID_MISSING'' None JNull [])
      else if s = HALT \<and> \<not> non_empty (la_reason_code a) then Some (refused ''LIFECYCLE_HALT_REASON_MISSING'' None JNull [])
      else if s = ''RECONCILED'' \<and> (\<not> non_empty (la_terminal_result a) \<or> upper (py_str rt (la_terminal_result a)) = ''UNKNOWN'')
      then Some (refused ''RECONCILIATION_EVIDENCE_INVALID'' None JNull [])
      else if list_ex (\<lambda>v. v \<noteq> JNull \<and> \<not> non_empty v)
                [la_broker_order_id a, la_broker_deal_id a, la_broker_position_id a, la_terminal_result a, la_reason_code a,
                 la_authorization_id a]
      then Some (refused ''LIFECYCLE_EVIDENCE_INVALID'' None JNull [])
      else if \<not> (case la_evidence a of JNull \<Rightarrow> True | JDict _ \<Rightarrow> True | _ \<Rightarrow> False)
      then Some (refused ''LIFECYCLE_EVIDENCE_INVALID'' None JNull [])
      else case find (\<lambda>key. \<not> non_empty (broker_id a key)) (required_broker_ids s) of
        Some key \<Rightarrow> Some (refused ''LIFECYCLE_BROKER_EVIDENCE_MISSING'' (Some s) (JDict [(''missing_broker_id'', JStr key)]) [])
      | None \<Rightarrow> None)"

definition prior_json :: "string option \<Rightarrow> json" where
  "prior_json p = (case p of None \<Rightarrow> JNull | Some s \<Rightarrow> JStr s)"

text \<open>The checks against the trail, under the lock.\<close>

definition refuse_transition :: "lifecycle_trail \<Rightarrow> string \<Rightarrow> datetime \<Rightarrow> lifecycle_args \<Rightarrow> transition_result option" where
  "refuse_transition tr s t a =
     (case lt_reason_code tr of
        Some reason \<Rightarrow> Some (refused reason (Some s) JNull [])
      | None \<Rightarrow>
          let prior = current tr
          in if prior = Some ''RECONCILED'' then Some (refused ''LIFECYCLE_ALREADY_RECONCILED'' (Some s) (prior_json prior) [])
             else if prior = Some HALT \<and> s \<noteq> ''RECONCILED'' then Some (refused ''HALT_UNKNOWN_RESULT'' (Some s) (prior_json prior) [])
             else if s \<notin> set (allowed_next prior) then Some (refused ''LIFECYCLE_ORDER_INVALID'' (Some s) (prior_json prior) [])
             else if lt_states tr \<noteq> [] \<and> t < lc_recorded_at_utc (last (lt_states tr))
             then Some (refused ''LIFECYCLE_TIMESTAMP_OUT_OF_ORDER'' (Some s) (prior_json prior) [])
             else if s = ''RECONCILED'' \<and> state_row tr ''BROKER_ACK'' \<noteq> None \<and> \<not> non_empty (la_broker_order_id a)
             then Some (refused ''LIFECYCLE_BROKER_EVIDENCE_MISSING'' (Some s) (prior_json prior)
                          [(''missing_broker_id'', JStr ''broker_order_id'')])
             else None)"

definition payload_of :: "string \<Rightarrow> string \<Rightarrow> string option \<Rightarrow> datetime \<Rightarrow> lifecycle_args \<Rightarrow> dict" where
  "payload_of tid s prior t a =
    [(''ticket_id'', JStr tid), (''state'', JStr s), (''authority_id'', la_authority_id a),
     (''authorization_id'', la_authorization_id a), (''transitioned_at_utc'', JStr (iso_datetime t)),
     (''prior_state'', prior_json prior), (''broker_order_id'', la_broker_order_id a),
     (''broker_deal_id'', la_broker_deal_id a), (''broker_position_id'', la_broker_position_id a),
     (''terminal_result'', la_terminal_result a), (''reason_code'', la_reason_code a),
     (''evidence'', JDict (case la_evidence a of JDict ev \<Rightarrow> ev | _ \<Rightarrow> []))]"

definition lifecycle_append ::
  "py_rt \<Rightarrow> append_io \<Rightarrow> string \<Rightarrow> string \<Rightarrow> lifecycle_args \<Rightarrow> ticket_store \<Rightarrow> ticket_store \<times> transition_result res" where
  "lifecycle_append rt io tid s a st =
     (case refuse_input rt tid s a of
        Some r \<Rightarrow> (st, Inr r)
      | None \<Rightarrow>
          (case trail rt st tid of
             Inl e \<Rightarrow> (st, Inl e)
           | Inr tr \<Rightarrow>
               let t = the (la_now_utc a); prior = current tr
               in (case refuse_transition tr s t a of
                     Some r \<Rightarrow> (st, Inr r)
                   | None \<Rightarrow>
                       (case build_outcome rt (outcome_args tid LIFECYCLE_KIND (iso_datetime t) s
                               (JDict (payload_of tid s prior t a)) ''demo_execution.lifecycle.ExecutionLifecycle.append'') of
                          Inl e \<Rightarrow> (st, Inl e)
                        | Inr d \<Rightarrow>
                            (case append_outcome rt io d st of
                               (st', Inl e) \<Rightarrow>
                                 (st', if write_caught e then Inr (refused ''LIFECYCLE_WRITE_FAILED'' (Some s) (prior_json prior) []) else Inl e)
                             | (st', Inr False) \<Rightarrow> (st', Inr (refused ''LIFECYCLE_ALREADY_RECORDED'' (Some s) (prior_json prior) []))
                             | (st', Inr True) \<Rightarrow>
                                 (st', Inr \<lparr>recorded = True, tr_reason_code = ''LIFECYCLE_RECORDED'', tr_state = Some s,
                                            tr_prior_state = prior_json prior, tr_details = [(''outcome_id'', dget d ''outcome_id'')]\<rparr>))))))"

section \<open>Lemmas: the order of states\<close>

text \<open>The trails the protocol allows: a prefix of the seven states, or a proper prefix that halted,
  reconciled or not.\<close>

definition lifecycle_paths :: "string list list" where
  "lifecycle_paths =
     map (\<lambda>k. take k LIFECYCLE_STATES) [0..<8] @
     concat (map (\<lambda>k. [take k LIFECYCLE_STATES @ [HALT], take k LIFECYCLE_STATES @ [HALT, ''RECONCILED'']]) [1..<7])"

definition last_state :: "string list \<Rightarrow> string option" where
  "last_state ss = (if ss = [] then None else Some (last ss))"

lemma paths_closed: "list_all (\<lambda>p. list_all (\<lambda>s. p @ [s] \<in> set lifecycle_paths) (allowed_next (last_state p))) lifecycle_paths"
  by code_simp

lemma paths_distinct: "list_all distinct lifecycle_paths"
  by code_simp

lemma paths_final: "list_all (\<lambda>p. last_state p = Some ''RECONCILED'' \<longrightarrow> allowed_next (last_state p) = []) lifecycle_paths"
  by code_simp

lemma paths_known: "list_all (\<lambda>p. list_all (\<lambda>s. s \<in> set LIFECYCLE_STATES \<or> s = HALT) p) lifecycle_paths"
  by code_simp

lemma path_step: "p \<in> set lifecycle_paths \<Longrightarrow> s \<in> set (allowed_next (last_state p)) \<Longrightarrow> p @ [s] \<in> set lifecycle_paths"
  using paths_closed unfolding list_all_iff by blast

lemma path_distinct: "p \<in> set lifecycle_paths \<Longrightarrow> distinct p"
  using paths_distinct unfolding list_all_iff by blast

lemma path_Nil: "[] \<in> set lifecycle_paths"
  by code_simp

lemma check_order_snoc:
  "check_order p seen (ss @ [s]) =
     (case check_order p seen ss of Some r \<Rightarrow> Some r
      | None \<Rightarrow> check_order (if ss = [] then p else Some (last ss)) (rev (map lc_state ss) @ seen) [s])"
  by (induction p seen ss rule: check_order.induct) (auto split: option.split)

definition ordered :: "lifecycle_state list \<Rightarrow> bool" where
  "ordered ss \<longleftrightarrow> map lc_state ss \<in> set lifecycle_paths \<and> sorted (map lc_recorded_at_utc ss)"

definition prev_of :: "lifecycle_state list \<Rightarrow> lifecycle_state option" where
  "prev_of ss = (if ss = [] then None else Some (last ss))"

lemma check_order_last:
  "check_order None [] (ss @ [s]) = None \<longleftrightarrow>
     check_order None [] ss = None \<and> (ss \<noteq> [] \<longrightarrow> lc_recorded_at_utc (last ss) \<le> lc_recorded_at_utc s) \<and>
     lc_state s \<notin> lc_state ` set ss \<and> lc_state s \<in> set (allowed_next (last_state (map lc_state ss)))"
  by (cases "ss = []") (auto simp: check_order_snoc last_state_def last_map split: option.split)

text \<open>The second loop of \<open>trail\<close> accepts exactly the ordered trails.\<close>

lemma check_order_ordered: "check_order None [] ss = None \<Longrightarrow> ordered ss"
proof (induction ss rule: rev_induct)
  case Nil
  show ?case by (simp add: ordered_def path_Nil)
next
  case (snoc s ss)
  note c = snoc.prems [unfolded check_order_last]
  have o: "ordered ss" by (rule snoc.IH [OF conjunct1 [OF c]])
  have p: "map lc_state (ss @ [s]) \<in> set lifecycle_paths" using path_step o c by (simp add: ordered_def)
  have "ss \<noteq> [] \<Longrightarrow> lc_recorded_at_utc (last ss) \<le> lc_recorded_at_utc s" using c by blast
  moreover have "\<forall>x \<in> set ss. lc_recorded_at_utc x \<le> lc_recorded_at_utc (last ss)" if "ss \<noteq> []"
    using o that by (cases ss rule: rev_cases) (auto simp: ordered_def sorted_append)
  ultimately have "\<forall>x \<in> set ss. lc_recorded_at_utc x \<le> lc_recorded_at_utc s" by fastforce
  with p o show ?case by (simp add: ordered_def sorted_append)
qed

lemma check_order_extend:
  assumes "check_order None [] ss = None" "lc_state s \<in> set (allowed_next (last_state (map lc_state ss)))"
    and "ss \<noteq> [] \<Longrightarrow> lc_recorded_at_utc (last ss) \<le> lc_recorded_at_utc s"
  shows "check_order None [] (ss @ [s]) = None"
proof -
  have "map lc_state ss @ [lc_state s] \<in> set lifecycle_paths"
    using path_step assms(2) check_order_ordered [OF assms(1)] by (simp add: ordered_def)
  from path_distinct [OF this] have "lc_state s \<notin> lc_state ` set ss" by simp
  with assms show ?thesis unfolding check_order_last by blast
qed

lemma trail_ordered:
  assumes "trail rt st tid = Inr tr" "lt_reason_code tr = None"
  shows "ordered (lt_states tr)"
  using assms check_order_ordered
  by (auto simp: trail_def untrusted_def split: if_splits sum.splits option.splits)

section \<open>Lemmas: a built row reads back\<close>

text \<open>The state a new row records.\<close>

definition recorded_state :: "string \<Rightarrow> datetime \<Rightarrow> lifecycle_args \<Rightarrow> lifecycle_state" where
  "recorded_state s t a =
     \<lparr>lc_state = s, lc_recorded_at_utc = t, lc_authority_id = (case la_authority_id a of JStr x \<Rightarrow> x | _ \<Rightarrow> []),
      lc_authorization_id = la_authorization_id a, lc_broker_order_id = la_broker_order_id a,
      lc_broker_deal_id = la_broker_deal_id a, lc_broker_position_id = la_broker_position_id a,
      lc_terminal_result = la_terminal_result a, lc_reason_code = la_reason_code a,
      lc_evidence = (case la_evidence a of JDict ev \<Rightarrow> stored_row ev | _ \<Rightarrow> [])\<rparr>"

lemma input_ok:
  assumes "refuse_input rt tid s a = None"
  shows "non_blank tid" "known_state (JStr s)" "\<exists>t. la_now_utc a = Some t" "non_empty (la_authority_id a)"
    "\<And>v. v \<in> {la_broker_order_id a, la_broker_deal_id a, la_broker_position_id a, la_terminal_result a, la_reason_code a,
              la_authorization_id a} \<Longrightarrow> v = JNull \<or> non_empty v"
    "la_evidence a = JNull \<or> (\<exists>ev. la_evidence a = JDict ev)"
  using assms by (auto simp: refuse_input_def split: if_splits option.splits json.splits)

lemma wf_payload: "wf_dict (payload_of tid s prior t a)"
  by (simp add: payload_of_def wf_dict_def)

lemma built_row_parses:
  assumes "refuse_input rt tid s a = None" "valid_datetime t" "wf_dict d"
    and "dget d ''payload'' = JDict (payload_of tid s prior t a)" "dget d ''recorded_at_utc'' = JStr (iso_datetime t)"
  shows "row_from rt (stored_row d) = Inr (Some (recorded_state s t a))"
proof -
  let ?p = "payload_of tid s prior t a"
  note i = input_ok [OF assms(1)]
  have p: "dget (stored_row ?p) k = canon (dget ?p k)" for k by (rule dget_stored_row [OF wf_payload])
  have k: "same_keys (stored_row ?p) PAYLOAD_FIELDS"
    unfolding same_keys_def keys_stored_row by (auto simp: payload_of_def PAYLOAD_FIELDS_def)
  have r: "dget (stored_row d) ''payload'' = JDict (stored_row ?p)" "dget (stored_row d) ''recorded_at_utc'' = JStr (iso_datetime t)"
    by (simp_all add: dget_stored_row [OF assms(3)] assms(4,5) stored_row_canon del: canon.simps) simp
  have n: "canon v = v" if "v \<in> {la_broker_order_id a, la_broker_deal_id a, la_broker_position_id a, la_terminal_result a,
      la_reason_code a, la_authorization_id a, la_authority_id a}" for v
    using that i(4,5) non_empty_canon by blast
  have g: "dget ?p ''state'' = JStr s" "dget ?p ''authority_id'' = la_authority_id a"
    "dget ?p ''authorization_id'' = la_authorization_id a" "dget ?p ''transitioned_at_utc'' = JStr (iso_datetime t)"
    "dget ?p ''broker_order_id'' = la_broker_order_id a" "dget ?p ''broker_deal_id'' = la_broker_deal_id a"
    "dget ?p ''broker_position_id'' = la_broker_position_id a" "dget ?p ''terminal_result'' = la_terminal_result a"
    "dget ?p ''reason_code'' = la_reason_code a" "dget ?p ''evidence'' = JDict (case la_evidence a of JDict ev \<Rightarrow> ev | _ \<Rightarrow> [])"
    by (simp_all add: payload_of_def dget_def)
  obtain au where au: "la_authority_id a = JStr au" using i(4) by (auto simp: non_empty_def split: json.splits)
  have ev: "(case canon (JDict (case la_evidence a of JDict ev \<Rightarrow> ev | _ \<Rightarrow> [])) of JDict ev \<Rightarrow> ev | _ \<Rightarrow> [])
            = (case la_evidence a of JDict ev \<Rightarrow> stored_row ev | _ \<Rightarrow> [])"
    using i(6) by (auto simp: stored_row_def)
  show ?thesis
    unfolding row_from_def r json.case p g using k i(2,4) au
    by (simp add: as_utc_iso [OF assms(2)] recorded_state_def n py_str_def ev del: canon.simps(7)) (use i(6) in \<open>auto simp: stored_row_def\<close>)
qed

section \<open>Lemmas: an append extends the trail\<close>

text \<open>Every lifecycle row stands in the file of its own day.\<close>

definition placed :: "ticket_store \<Rightarrow> bool" where
  "placed st \<longleftrightarrow>
     (\<forall>n r. Row (JDict r) \<in> set (lines (file_at (ts_outcomes st) n)) \<and> is_lifecycle_row r \<longrightarrow>
        (\<exists>t. valid_datetime t \<and> dget r ''recorded_at_utc'' = JStr (iso_datetime t) \<and> n = iso_date (date_of t) @ ''.jsonl''))"

lemma parse_rows_append:
  "parse_rows rt xs = Inr (Some ss) \<Longrightarrow> seal_is_intact rt r \<Longrightarrow> row_from rt r = Inr (Some s) \<Longrightarrow>
     parse_rows rt (xs @ [r]) = Inr (Some (ss @ [s]))"
  by (induction rt xs arbitrary: ss rule: parse_rows.induct) (auto split: if_splits sum.splits option.splits)

lemma parse_rows_member:
  "parse_rows rt xs = Inr (Some ss) \<Longrightarrow> r \<in> set xs \<Longrightarrow> \<exists>s \<in> set ss. row_from rt r = Inr (Some s)"
  by (induction rt xs arbitrary: ss rule: parse_rows.induct) (auto split: if_splits sum.splits option.splits)

lemma row_from_time:
  "row_from rt r = Inr (Some s) \<Longrightarrow> as_utc (dget r ''recorded_at_utc'') = Inr (Some (lc_recorded_at_utc s))"
  by (auto simp: row_from_def split: json.splits if_splits sum.splits option.splits)

lemma outcome_path_iso:
  "dget d ''recorded_at_utc'' = JStr (iso_datetime t) \<Longrightarrow> outcome_path rt d = iso_date (date_of t) @ ''.jsonl''"
  by (simp add: outcome_path_def py_str_def iso_datetime_def Let_def)

lemma valid_date_of: "valid_datetime t \<Longrightarrow> valid_date (date_of t)"
  by (auto simp: valid_datetime_def valid_date_def date_of_def)

lemma later_file_later:
  assumes "valid_datetime t" "valid_datetime u" "iso_date (date_of t) @ ''.jsonl'' < iso_date (date_of u) @ ''.jsonl''"
  shows "t < u"
proof (rule ccontr)
  assume "\<not> t < u"
  then have "date_of u \<le> date_of t" by (simp add: date_of_def zdiv_mono1)
  then have "iso_date (date_of u) @ ''.jsonl'' \<le> iso_date (date_of t) @ ''.jsonl''"
    using iso_date_mono assms(1,2) valid_date_of by blast
  with assms(3) show False by simp
qed

lemma ordered_last: "ordered ss \<Longrightarrow> s \<in> set ss \<Longrightarrow> lc_recorded_at_utc s \<le> lc_recorded_at_utc (last ss)"
  by (cases ss rule: rev_cases) (auto simp: ordered_def sorted_append)

lemma trail_extends:
  assumes "wf_dict (ts_outcomes st)" "placed st" "trail rt st tid = Inr tr" "lt_reason_code tr = None"
    and "ts_outcomes st' = add_line (outcome_path rt d) d (ts_outcomes st)"
    and "wf_dict d" "seal_is_intact rt (stored_row d)" "row_from rt (stored_row d) = Inr (Some s)" "of_ticket (stored_row d) tid"
    and "dget d ''recorded_at_utc'' = JStr (iso_datetime t)" "valid_datetime t" "lc_recorded_at_utc s = t"
    and "lc_state s \<in> set (allowed_next (current tr))" "lt_states tr \<noteq> [] \<Longrightarrow> lc_recorded_at_utc (last (lt_states tr)) \<le> t"
  shows "trail rt st' tid = Inr (tr\<lparr>lt_states := lt_states tr @ [s]\<rparr>)"
proof -
  let ?n = "outcome_path rt d" and ?ss = "lt_states tr"
  from assms(3,4) obtain rs where rs: "non_blank tid" "outcomes st tid = Inr rs"
    "parse_rows rt (filter is_lifecycle_row rs) = Inr (Some ?ss)" "check_order None [] ?ss = None"
    by (auto simp: trail_def untrusted_def split: if_splits sum.splits option.splits)
  have tr: "tr = \<lparr>lt_states = ?ss, lt_reason_code = None\<rparr>" using assms(4) by simp
  from outcomes_insert [OF assms(1,6,5) rs(2)] assms(9) obtain a b where ab: "rs = a @ b"
    "outcomes st' tid = Inr (a @ [stored_row d] @ b)"
    "\<forall>r \<in> set b. \<exists>n'. ?n < n' \<and> Row (JDict r) \<in> set (lines (file_at (ts_outcomes st) n'))" by auto
  have "\<not> is_lifecycle_row r" if r: "r \<in> set b" for r
  proof
    assume l: "is_lifecycle_row r"
    from ab(3) r obtain n' where n': "?n < n'" "Row (JDict r) \<in> set (lines (file_at (ts_outcomes st) n'))" by blast
    with assms(2) l obtain u where u: "valid_datetime u" "dget r ''recorded_at_utc'' = JStr (iso_datetime u)"
      "n' = iso_date (date_of u) @ ''.jsonl''" unfolding placed_def by blast
    have "r \<in> set (filter is_lifecycle_row rs)" using r l by (simp add: ab(1))
    then obtain x where x: "x \<in> set ?ss" "row_from rt r = Inr (Some x)" using parse_rows_member [OF rs(3)] by blast
    have "lc_recorded_at_utc x = u" using row_from_time [OF x(2)] u(1,2) by (simp add: as_utc_iso)
    then have "u \<le> t"
      using ordered_last [OF check_order_ordered [OF rs(4)] x(1)] assms(14) x(1) by (cases ?ss) auto
    moreover have "t < u" using later_file_later [OF assms(11) u(1)] n'(1) u(3) by (simp add: outcome_path_iso [OF assms(10)])
    ultimately show False by simp
  qed
  then have b: "filter is_lifecycle_row b = []" by (simp add: filter_empty_conv)
  have l: "is_lifecycle_row (stored_row d)" using assms(7) by (auto simp: seal_is_intact_def is_lifecycle_row_def split: if_splits)
  have "parse_rows rt (filter is_lifecycle_row (a @ [stored_row d] @ b)) = Inr (Some (?ss @ [s]))"
    using parse_rows_append [OF rs(3) assms(7,8)] b l by (simp add: ab(1))
  moreover have "check_order None [] (?ss @ [s]) = None"
    using check_order_extend [OF rs(4)] assms(12-14) by (simp add: current_def last_state_def last_map split: if_splits)
  ultimately show ?thesis using rs(1) ab(2) by (subst tr) (simp add: trail_def)
qed

text \<open>What an append that reaches the store has passed.\<close>

definition admitted :: "py_rt \<Rightarrow> string \<Rightarrow> string \<Rightarrow> lifecycle_args \<Rightarrow> ticket_store \<Rightarrow> lifecycle_trail \<Rightarrow> datetime \<Rightarrow> dict \<Rightarrow> bool" where
  "admitted rt tid s a st tr t d \<longleftrightarrow>
     refuse_input rt tid s a = None \<and> trail rt st tid = Inr tr \<and> la_now_utc a = Some t \<and> refuse_transition tr s t a = None \<and>
     build_outcome rt (outcome_args tid LIFECYCLE_KIND (iso_datetime t) s (JDict (payload_of tid s (current tr) t a))
        ''demo_execution.lifecycle.ExecutionLifecycle.append'') = Inr d"

lemma trail_cong: "outcomes st tid = outcomes st' tid \<Longrightarrow> trail rt st tid = trail rt st' tid"
  by (simp add: trail_def)

lemma refused_not_recorded [simp]: "\<not> recorded (refused reason s p ds)"
  by (simp add: refused_def)

lemma if_Some_elim: "(if c then Some a else b) = Some r \<Longrightarrow> (a = r \<Longrightarrow> P) \<Longrightarrow> (b = Some r \<Longrightarrow> P) \<Longrightarrow> P"
  by (simp split: if_splits)

lemma refuse_input_not_recorded: "refuse_input rt tid s a = Some r \<Longrightarrow> \<not> recorded r"
  unfolding refuse_input_def by (elim if_Some_elim) (auto split: option.splits)

lemma refuse_transition_not_recorded: "refuse_transition tr s t a = Some r \<Longrightarrow> \<not> recorded r"
  by (auto simp: refuse_transition_def Let_def split: if_splits option.splits)

lemma lifecycle_append_cases:
  assumes "lifecycle_append rt io tid s a st = (st', res)"
  obtains (stays) "st' = st" "\<And>r. res = Inr r \<Longrightarrow> \<not> recorded r"
  | (writes) tr t d r where "admitted rt tid s a st tr t d" "append_outcome rt io d st = (st', r)"
      "\<And>x. res = Inr x \<Longrightarrow> recorded x = (r = Inr True)"
proof (cases "st' = st \<and> (\<forall>r. res = Inr r \<longrightarrow> \<not> recorded r)")
  case False
  have i: "refuse_input rt tid s a = None"
    using False assms by (cases "refuse_input rt tid s a") (auto simp: lifecycle_append_def dest: refuse_input_not_recorded)
  obtain tr where tr: "trail rt st tid = Inr tr"
    using False assms i by (cases "trail rt st tid") (auto simp: lifecycle_append_def)
  obtain t where t: "la_now_utc a = Some t" using input_ok(3) [OF i] by blast
  have r: "refuse_transition tr s t a = None"
    using False assms i t tr by (cases "refuse_transition tr s t a") (auto simp: lifecycle_append_def dest: refuse_transition_not_recorded)
  obtain d where d: "build_outcome rt (outcome_args tid LIFECYCLE_KIND (iso_datetime t) s (JDict (payload_of tid s (current tr) t a))
        ''demo_execution.lifecycle.ExecutionLifecycle.append'') = Inr d"
    using build_outcome_args [OF non_blank_not_Nil [OF input_ok(1) [OF i]], of LIFECYCLE_KIND] unfolding LIFECYCLE_KIND_def by blast
  obtain u v where uv: "append_outcome rt io d st = (u, v)" by (cases "append_outcome rt io d st")
  have "admitted rt tid s a st tr t d" using i tr t r d by (simp add: admitted_def)
  moreover have "st' = u" "res = Inr x \<Longrightarrow> recorded x = (v = Inr True)" for x
    using assms i tr t r d uv by (auto simp: lifecycle_append_def Let_def split: sum.splits bool.splits if_splits)
  ultimately show thesis using uv writes by blast
qed (use stays in blast)

lemma transition_ok:
  assumes "refuse_transition tr s t a = None"
  shows "lt_reason_code tr = None" "s \<in> set (allowed_next (current tr))"
    "lt_states tr \<noteq> [] \<Longrightarrow> lc_recorded_at_utc (last (lt_states tr)) \<le> t"
  using assms by (auto simp: refuse_transition_def Let_def split: option.splits if_splits)

lemma admitted_row:
  assumes "admitted rt tid s a st tr t d" "valid_datetime t"
  shows "wf_dict d" "seal_is_intact rt (stored_row d)" "row_from rt (stored_row d) = Inr (Some (recorded_state s t a))"
    "of_ticket (stored_row d) tid'' \<longleftrightarrow> tid'' = tid" "dget d ''recorded_at_utc'' = JStr (iso_datetime t)"
    "dget (stored_row d) ''recorded_at_utc'' = JStr (iso_datetime t)"
proof -
  let ?fs = "outcome_args tid LIFECYCLE_KIND (iso_datetime t) s (JDict (payload_of tid s (current tr) t a))
        ''demo_execution.lifecycle.ExecutionLifecycle.append''"
  have b: "build_outcome rt ?fs = Inr d" and i: "refuse_input rt tid s a = None" using assms(1) by (auto simp: admitted_def)
  note f = build_outcome_fields [OF b]
  show w: "wf_dict d" by (rule f(1))
  show "seal_is_intact rt (stored_row d)" unfolding seal_is_intact_valid by (rule built_row_valid [OF b]) simp
  show r: "dget d ''recorded_at_utc'' = JStr (iso_datetime t)" using f(4) [of "''recorded_at_utc''"] by simp
  then show "dget (stored_row d) ''recorded_at_utc'' = JStr (iso_datetime t)" by (simp add: dget_stored_row [OF w])
  show "row_from rt (stored_row d) = Inr (Some (recorded_state s t a))"
    using f(4) [of "''payload''"] by (intro built_row_parses [OF i assms(2) w _ r, of "current tr"]) simp
  show "of_ticket (stored_row d) tid'' \<longleftrightarrow> tid'' = tid"
    using f(4) [of "''ticket_id''"] by (auto simp: of_ticket_def dget_stored_row [OF w])
qed

lemma admitted_extends:
  assumes "admitted rt tid s a st tr t d" "valid_datetime t" "wf_dict (ts_outcomes st)" "placed st"
    and "ts_outcomes st' = add_line (outcome_path rt d) d (ts_outcomes st)"
  shows "trail rt st' tid = Inr (tr\<lparr>lt_states := lt_states tr @ [recorded_state s t a]\<rparr>)"
proof -
  note r = admitted_row [OF assms(1,2)]
  have t: "trail rt st tid = Inr tr" "refuse_transition tr s t a = None" using assms(1) by (auto simp: admitted_def)
  note k = transition_ok [OF t(2)]
  show ?thesis
    using k(2,3) r(4) [of tid]
    by (intro trail_extends [OF assms(3,4) t(1) k(1) assms(5) r(1-3) _ r(5) assms(2)]) (simp_all add: recorded_state_def)
qed

lemma admitted_other:
  assumes "admitted rt tid s a st tr t d" "valid_datetime t" "wf_dict (ts_outcomes st)"
    and "ts_outcomes st' = add_line (outcome_path rt d) d (ts_outcomes st)" "tid' \<noteq> tid"
    and "trail rt st tid' = Inr tr'" "lt_reason_code tr' = None"
  shows "trail rt st' tid' = Inr tr'"
proof -
  note r = admitted_row [OF assms(1,2)]
  from assms(6,7) obtain rs where rs: "outcomes st tid' = Inr rs"
    by (auto simp: trail_def untrusted_def split: if_splits sum.splits)
  have "outcomes st' tid' = Inr rs"
    using outcomes_append_other [OF assms(3) r(1) assms(4) rs] r(4) [of tid'] assms(5) by simp
  with rs assms(6) trail_cong [of st tid' st' rt] show ?thesis by simp
qed

lemma admitted_placed:
  assumes "admitted rt tid s a st tr t d" "valid_datetime t" "placed st"
    and "ts_outcomes st' = add_line (outcome_path rt d) d (ts_outcomes st)"
  shows "placed st'"
proof -
  note r = admitted_row [OF assms(1,2)]
  have "\<exists>t. valid_datetime t \<and> dget q ''recorded_at_utc'' = JStr (iso_datetime t) \<and> n = iso_date (date_of t) @ ''.jsonl''"
    if "Row (JDict q) \<in> set (lines (file_at (ts_outcomes st') n))" "is_lifecycle_row q" for n q
  proof -
    from that(1) consider "Row (JDict q) \<in> set (lines (file_at (ts_outcomes st) n))" | "n = outcome_path rt d" "q = stored_row d"
      unfolding assms(4) add_line_def Let_def stored_row_canon by (auto split: if_splits)
    then show ?thesis
    proof cases
      case 1
      with assms(3) that(2) show ?thesis unfolding placed_def by blast
    next
      case 2
      with r(6) assms(2) outcome_path_iso [OF r(5)] show ?thesis by blast
    qed
  qed
  then show ?thesis unfolding placed_def by blast
qed

text \<open>Rows of another kind leave the lifecycle rows in their places.\<close>

lemma append_outcome_file_rows:
  assumes "Row (JDict r) \<in> set (lines (file_at (ts_outcomes (fst (append_outcome rt io d st))) n))"
  shows "Row (JDict r) \<in> set (lines (file_at (ts_outcomes st) n)) \<or> r = stored_row d"
proof -
  let ?st = "fst (append_outcome rt io d st)"
  have "ts_outcomes ?st = ts_outcomes st \<or> ts_outcomes ?st = add_line (outcome_path rt d) d (ts_outcomes st)
        \<or> ts_outcomes ?st = tear_line (outcome_path rt d) (ts_outcomes st)"
    by (auto simp: append_outcome_def append_row_def split: sum.splits bool.splits append_io.splits)
  then show ?thesis using assms
    by (auto simp: add_line_def tear_line_def Let_def stored_row_canon split: if_splits simp del: canon.simps)
qed

lemma written_placed:
  assumes "written rt (kind_is k) st st'" "k \<noteq> LIFECYCLE_KIND" "placed st"
  shows "placed st'"
proof -
  from assms(1) consider "st' = st" | fs d io where "build_outcome rt fs = Inr d" "kind_is k fs" "st' = fst (append_outcome rt io d st)"
    by (auto simp: written_def)
  then show ?thesis
  proof cases
    case 2
    note f = build_outcome_fields [OF 2(1)]
    have "dget (stored_row d) ''outcome_kind'' = JStr k"
      using f(4) [of "''outcome_kind''"] 2(2) by (simp add: dget_stored_row [OF f(1)] kind_is_def)
    then have "\<not> is_lifecycle_row (stored_row d)" using assms(2) by (simp add: is_lifecycle_row_def)
    then show ?thesis using assms(3) append_outcome_file_rows unfolding placed_def 2(3) by blast
  qed (use assms(3) in simp)
qed

text \<open>An acknowledged append extends the trail by its own state.\<close>

lemma recorded_extends:
  assumes "wf_dict (ts_outcomes st)" "placed st" "la_now_utc a = Some t" "valid_datetime t"
    and "lifecycle_append rt io tid s a st = (st', Inr r)" "recorded r"
  obtains tr where "trail rt st tid = Inr tr" "lt_reason_code tr = None" "s \<in> set (allowed_next (current tr))"
    "trail rt st' tid = Inr (tr\<lparr>lt_states := lt_states tr @ [recorded_state s t a]\<rparr>)"
  using assms(5)
proof (cases rule: lifecycle_append_cases)
  case (writes tr t' d x)
  have t': "t' = t" using writes(1) assms(3) by (simp add: admitted_def)
  have "ts_outcomes st' = add_line (outcome_path rt d) d (ts_outcomes st)"
    using append_outcome_ok(1) writes(2,3) assms(6) by metis
  from admitted_extends [OF writes(1) _ assms(1,2) this] assms(4) t' transition_ok [of tr s t a] writes(1) that
  show ?thesis by (auto simp: admitted_def)
qed (use assms(6) in simp)

section \<open>Lemmas: histories\<close>

text \<open>The trails of every ticket can be trusted, and every row stands in the file of its day.\<close>

definition trusted_store :: "py_rt \<Rightarrow> ticket_store \<Rightarrow> bool" where
  "trusted_store rt st \<longleftrightarrow>
     wf_dict (ts_outcomes st) \<and> placed st \<and>
     (\<forall>tid. non_blank tid \<longrightarrow> (\<exists>tr. trail rt st tid = Inr tr \<and> lt_reason_code tr = None))"

record lifecycle_call =
  call_io :: append_io
  call_ticket :: string
  call_state :: string
  call_args :: lifecycle_args

definition run_call :: "py_rt \<Rightarrow> lifecycle_call \<Rightarrow> ticket_store \<Rightarrow> ticket_store" where
  "run_call rt c st = fst (lifecycle_append rt (call_io c) (call_ticket c) (call_state c) (call_args c) st)"

text \<open>No write is torn and the clock reads an instant of the calendar.\<close>

definition sound_call :: "lifecycle_call \<Rightarrow> bool" where
  "sound_call c \<longleftrightarrow> call_io c \<noteq> Torn \<and> (case la_now_utc (call_args c) of None \<Rightarrow> True | Some t \<Rightarrow> valid_datetime t)"

lemma append_outcome_untorn:
  assumes "append_outcome rt io d st = (st', r)" "io \<noteq> Torn"
  shows "ts_outcomes st' = ts_outcomes st \<or> ts_outcomes st' = add_line (outcome_path rt d) d (ts_outcomes st)"
  using assms
  by (auto simp: append_outcome_def append_row_def split: if_splits sum.splits bool.splits append_io.splits)

lemma outcomes_eqI: "ts_outcomes st = ts_outcomes st' \<Longrightarrow> outcomes st tid = outcomes st' tid"
  by (simp add: outcomes_def)

lemma trusted_store_cong:
  assumes "ts_outcomes st' = ts_outcomes st"
  shows "trusted_store rt st' \<longleftrightarrow> trusted_store rt st"
proof -
  have "trail rt st' tid = trail rt st tid" for tid using trail_cong outcomes_eqI assms by blast
  then show ?thesis using assms by (simp add: trusted_store_def placed_def)
qed

lemma run_call_trusted:
  assumes "trusted_store rt st" "sound_call c"
  shows "trusted_store rt (run_call rt c st)"
proof -
  obtain st' res where r: "lifecycle_append rt (call_io c) (call_ticket c) (call_state c) (call_args c) st = (st', res)"
    by (cases "lifecycle_append rt (call_io c) (call_ticket c) (call_state c) (call_args c) st")
  have w: "wf_dict (ts_outcomes st)" "placed st" using assms(1) by (auto simp: trusted_store_def)
  from r show ?thesis
  proof (cases rule: lifecycle_append_cases)
    case stays
    with assms(1) show ?thesis by (simp add: run_call_def r)
  next
    case (writes tr t d x)
    have t: "valid_datetime t" using writes(1) assms(2) by (auto simp: admitted_def sound_call_def)
    note k = transition_ok [of tr "call_state c" t "call_args c"]
    have "call_io c \<noteq> Torn" using assms(2) by (simp add: sound_call_def)
    from append_outcome_untorn [OF writes(2) this]
    consider "ts_outcomes st' = ts_outcomes st" | "ts_outcomes st' = add_line (outcome_path rt d) d (ts_outcomes st)"
      by (rule disjE)
    then show ?thesis
    proof cases
      case 1
      from assms(1) trusted_store_cong [OF 1] show ?thesis by (simp add: run_call_def r)
    next
      case 2
      have "\<exists>tr. trail rt st' tid = Inr tr \<and> lt_reason_code tr = None" if "non_blank tid" for tid
      proof (cases "tid = call_ticket c")
        case True
        with admitted_extends [OF writes(1) t w 2] k(1) writes(1) show ?thesis by (auto simp: admitted_def)
      next
        case False
        with admitted_other [OF writes(1) t w(1) 2 False] assms(1) that show ?thesis by (auto simp: trusted_store_def)
      qed
      moreover have "placed st'" by (rule admitted_placed [OF writes(1) t w(2) 2])
      ultimately show ?thesis using wf_add_line [OF w(1)] by (simp add: run_call_def r trusted_store_def 2)
    qed
  qed
qed

lemma run_calls_trusted:
  "trusted_store rt st \<Longrightarrow> list_all sound_call cs \<Longrightarrow> trusted_store rt (fold (run_call rt) cs st)"
  by (induction cs arbitrary: st) (simp_all add: run_call_trusted)

lemma empty_store_trusted: "trusted_store rt empty_store"
  by (simp add: trusted_store_def placed_def empty_store_def wf_dict_def file_at_def empty_file_def trail_def outcomes_def
      row_stream_def files_def)

section \<open>Properties\<close>

text \<open>C21: Whatever rows a store holds, forged ones included, a trail that is returned
  without a reason code is one of the paths of the protocol (a prefix of AUTHORIZED to RECONCILED, or
  a proper prefix followed by HALT, or by HALT and RECONCILED), and its timestamps never go back.\<close>

theorem lifecycle_trail_linear:
  assumes "trail rt st tid = Inr tr" "lt_reason_code tr = None"
  shows "map lc_state (lt_states tr) \<in> set lifecycle_paths \<and> sorted (map lc_recorded_at_utc (lt_states tr))"
  using trail_ordered [OF assms] by (simp add: ordered_def)

text \<open>An append that is acknowledged found a trusted trail whose current state
  allows the new state, and afterwards the trail of the ticket is the old one followed by exactly that
  transition, with the caller's authority, identifiers and time.\<close>

theorem lifecycle_append_next:
  assumes "wf_dict (ts_outcomes st)" "placed st"
    and "la_now_utc a = Some t" "valid_datetime t"
    and "lifecycle_append rt io tid s a st = (st', Inr r)" "recorded r"
  shows "\<exists>tr. trail rt st tid = Inr tr \<and> lt_reason_code tr = None \<and> s \<in> set (allowed_next (current tr)) \<and>
    trail rt st' tid = Inr (tr\<lparr>lt_states := lt_states tr @ [recorded_state s t a]\<rparr>)"
  using recorded_extends [OF assms] by metis

text \<open>A transition that the current state does not allow, among them every
  transition after RECONCILED and every one but RECONCILED after HALT, and any transition on a trail
  that cannot be trusted, is refused and writes nothing.\<close>

theorem lifecycle_refuses:
  assumes "trail rt st tid = Inr tr" "lt_reason_code tr \<noteq> None \<or> s \<notin> set (allowed_next (current tr))"
  shows "\<exists>r. lifecycle_append rt io tid s a st = (st, Inr r) \<and> \<not> recorded r"
proof (cases "refuse_input rt tid s a")
  case (Some r)
  then show ?thesis using refuse_input_not_recorded by (auto simp: lifecycle_append_def)
next
  case None
  obtain r where r: "refuse_transition tr s (the (la_now_utc a)) a = Some r"
    using assms(2) transition_ok(1,2) by (metis option.exhaust)
  with None assms(1) refuse_transition_not_recorded [OF r] show ?thesis by (simp add: lifecycle_append_def)
qed

text \<open>C22: After any sequence of appends for any tickets on a fresh store, with
  writes that fail or are not synced but are not torn, the trail of every ticket can still be read and
  trusted: the writer never produces rows its reader rejects.\<close>

theorem lifecycle_histories_trusted:
  assumes "list_all sound_call calls" "non_blank tid"
  shows "\<exists>tr. trail rt (fold (run_call rt) calls empty_store) tid = Inr tr \<and> lt_reason_code tr = None"
  using run_calls_trusted [OF empty_store_trusted assms(1)] assms(2) by (simp add: trusted_store_def)

section \<open>Concrete instances\<close>

definition demo_lc_args :: "datetime \<Rightarrow> lifecycle_args" where
  "demo_lc_args t =
     \<lparr>la_now_utc = Some t, la_authority_id = JStr ''A-1'', la_authorization_id = JStr ''Z-1'', la_broker_order_id = JNull,
      la_broker_deal_id = JNull, la_broker_position_id = JNull, la_terminal_result = JNull, la_reason_code = JStr ''R'',
      la_evidence = JDict [(''k'', JInt 1)]\<rparr>"

definition demo_call :: "append_io \<Rightarrow> string \<Rightarrow> datetime \<Rightarrow> lifecycle_call" where
  "demo_call io s t = \<lparr>call_io = io, call_ticket = ''T-1'', call_state = s, call_args = demo_lc_args t\<rparr>"

definition demo_lc_store :: ticket_store where
  "demo_lc_store = fold (run_call constant_rt)
     [demo_call Appended ''AUTHORIZED'' 63900000000000000, demo_call Appended ''CHECKED'' 63900100000000000] empty_store"

lemma demo_sound: "sound_call (demo_call Appended s 63900000000000000)" "sound_call (demo_call Appended s 63900100000000000)"
  by (simp_all add: sound_call_def demo_call_def demo_lc_args_def valid_datetime_def)

lemma demo_lc_trusted: "trusted_store constant_rt demo_lc_store"
  unfolding demo_lc_store_def by (rule run_calls_trusted [OF empty_store_trusted]) (simp add: demo_sound)

lemma demo_lc_trail:
  obtains tr where "trail constant_rt demo_lc_store ''T-1'' = Inr tr" "lt_reason_code tr = None"
    "map lc_state (lt_states tr) = [''AUTHORIZED'', ''CHECKED'']"
proof -
  have "case trail constant_rt demo_lc_store ''T-1'' of
          Inr tr \<Rightarrow> lt_reason_code tr = None \<and> map lc_state (lt_states tr) = [''AUTHORIZED'', ''CHECKED''] | Inl _ \<Rightarrow> False"
    by code_simp
  then show ?thesis using that by (cases "trail constant_rt demo_lc_store ''T-1''") auto
qed

theorem lifecycle_trail_linear_witness:
  "\<exists>tr. trail constant_rt demo_lc_store ''T-1'' = Inr tr \<and> lt_states tr \<noteq> [] \<and>
        map lc_state (lt_states tr) \<in> set lifecycle_paths \<and> sorted (map lc_recorded_at_utc (lt_states tr))"
  by (rule demo_lc_trail) (use lifecycle_trail_linear in fastforce)

theorem lifecycle_append_next_witness:
  "\<exists>tr st' r. lifecycle_append constant_rt Appended ''T-1'' ''HALT'' (demo_lc_args 63900200000000000) demo_lc_store = (st', Inr r) \<and>
     trail constant_rt st' ''T-1'' = Inr (tr\<lparr>lt_states := lt_states tr @ [recorded_state ''HALT'' 63900200000000000 (demo_lc_args 63900200000000000)]\<rparr>)"
proof -
  let ?a = "demo_lc_args 63900200000000000"
  have "case lifecycle_append constant_rt Appended ''T-1'' ''HALT'' ?a demo_lc_store of (_, Inr r) \<Rightarrow> recorded r | _ \<Rightarrow> False"
    by code_simp
  then obtain st' r where r: "lifecycle_append constant_rt Appended ''T-1'' ''HALT'' ?a demo_lc_store = (st', Inr r)" "recorded r"
    by (auto split: prod.splits sum.splits)
  have t: "la_now_utc ?a = Some 63900200000000000" "valid_datetime 63900200000000000"
    by (simp_all add: demo_lc_args_def valid_datetime_def)
  have w: "wf_dict (ts_outcomes demo_lc_store)" "placed demo_lc_store"
    using demo_lc_trusted by (simp_all add: trusted_store_def)
  from lifecycle_append_next [OF w t r] r(1) show ?thesis by blast
qed

theorem lifecycle_refuses_witness:
  "\<exists>r. lifecycle_append constant_rt Appended ''T-1'' ''BROKER_ACK'' (demo_lc_args 63900200000000000) demo_lc_store = (demo_lc_store, Inr r) \<and> \<not> recorded r"
proof (rule demo_lc_trail)
  fix tr assume tr: "trail constant_rt demo_lc_store ''T-1'' = Inr tr" "lt_reason_code tr = None"
    "map lc_state (lt_states tr) = [''AUTHORIZED'', ''CHECKED'']"
  then have "current tr = Some ''CHECKED''" by (cases "lt_states tr" rule: rev_cases) (auto simp: current_def)
  then have "''BROKER_ACK'' \<notin> set (allowed_next (current tr))" by (simp add: allowed_next_def ALLOWED_NEXT_def)
  from lifecycle_refuses [OF tr(1)] this show ?thesis by blast
qed

theorem lifecycle_histories_trusted_witness:
  "\<exists>tr. trail constant_rt (fold (run_call constant_rt) [demo_call Appended ''AUTHORIZED'' 63900000000000000,
     demo_call Appended ''SENT'' 63900100000000000, demo_call Appended ''CHECKED'' 63900100000000000] empty_store) ''T-1'' = Inr tr \<and>
     lt_reason_code tr = None"
proof -
  have n: "non_blank ''T-1''" by code_simp
  show ?thesis by (rule lifecycle_histories_trusted [OF _ n]) (simp add: demo_sound)
qed

end
