(* ===== verification/Py_Decimal.thy ===== *)
theory Py_Decimal
  imports Py_Float
begin

text \<open>
  The parts of Python's \<open>decimal\<close> module the risk check uses, on exact rationals: the operators round
  to 28 significant digits, half to even (the default context), and \<open>Decimal(str(x))\<close> is the decimal
  number that \<open>repr\<close> prints for a float, the shortest one that reads back as the float.
\<close>

section \<open>The decimal exponent\<close>

function digits10 :: "int \<Rightarrow> nat" where
  "digits10 n = (if n < 10 then 0 else Suc (digits10 (n div 10)))"
  by pat_completeness auto
termination by (relation "measure nat") auto

declare digits10.simps [simp del]

lemma digits10_bounds: "0 < n \<Longrightarrow> 10 ^ digits10 n \<le> n \<and> n < 10 ^ Suc (digits10 n)"
proof (induction n rule: digits10.induct)
  case (1 n)
  show ?case
  proof (cases "n < 10")
    case True
    then show ?thesis using 1 by (simp add: digits10.simps)
  next
    case False
    with 1 have "10 ^ digits10 (n div 10) \<le> n div 10 \<and> n div 10 < 10 ^ Suc (digits10 (n div 10))" by simp
    moreover have "digits10 n = Suc (digits10 (n div 10))" using False by (subst digits10.simps) simp
    ultimately show ?thesis by auto
  qed
qed

lemma digits10_rat:
  assumes "0 < p"
  shows "(10::rat) ^ digits10 p \<le> of_int p" "of_int p < (10::rat) * 10 ^ digits10 p"
proof -
  have "rat_of_int (10 ^ digits10 p) \<le> of_int p" "rat_of_int p < of_int (10 * 10 ^ digits10 p)"
    using digits10_bounds [OF assms] by (simp_all only: of_int_le_iff of_int_less_iff) auto
  then show "(10::rat) ^ digits10 p \<le> of_int p" "of_int p < (10::rat) * 10 ^ digits10 p"
    by simp_all
qed

definition ilog10 :: "rat \<Rightarrow> int" where
  "ilog10 x =
     (case quotient_of \<bar>x\<bar> of (p, q) \<Rightarrow>
        let e = int (digits10 p) - int (digits10 q)
        in if 10 powi e \<le> \<bar>x\<bar> then e else e - 1)"

lemma ilog10_bounds:
  assumes "x \<noteq> 0"
  shows "10 powi ilog10 x \<le> \<bar>x\<bar>" "\<bar>x\<bar> < 10 powi (ilog10 x + 1)"
proof -
  obtain p q where pq: "quotient_of \<bar>x\<bar> = (p, q)" by fastforce
  have q: "0 < q" using quotient_of_denom_pos [OF pq] .
  have ax: "\<bar>x\<bar> = of_int p / of_int q" using quotient_of_div [OF pq] .
  have "0 < of_int p / (of_int q :: rat)" using assms ax by simp
  then have p: "0 < p" using q by (simp add: zero_less_divide_iff)
  define e where "e = int (digits10 p) - int (digits10 q)"
  have pe: "(10::rat) powi e = 10 ^ digits10 p / 10 ^ digits10 q" by (simp add: e_def power_int_diff)
  have "\<bar>x\<bar> < (10 * 10 ^ digits10 p) / 10 ^ digits10 q"
    unfolding ax using digits10_rat [OF p] digits10_rat [OF q] p q by (intro frac_less) auto
  then have hi: "\<bar>x\<bar> < 10 powi (e + 1)" using pe by (simp add: power_int_add mult.commute)
  have "(10::rat) ^ digits10 p / (10 * 10 ^ digits10 q) \<le> \<bar>x\<bar>"
    unfolding ax using digits10_rat [OF p] digits10_rat [OF q] p q by (intro frac_le) auto
  then have lo: "10 powi (e - 1) \<le> \<bar>x\<bar>" using pe by (simp add: power_int_diff)
  have il: "ilog10 x = (if 10 powi e \<le> \<bar>x\<bar> then e else e - 1)"
    by (simp add: ilog10_def pq e_def)
  show "10 powi ilog10 x \<le> \<bar>x\<bar>" using il lo by auto
  show "\<bar>x\<bar> < 10 powi (ilog10 x + 1)" using il hi by auto
qed

section \<open>Operators of the default context\<close>

definition dround :: "rat \<Rightarrow> rat" where
  "dround x = (if x = 0 then 0 else let u = 10 powi (ilog10 x - 27) in of_int (round_even (x / u)) * u)"

abbreviation dmul :: "rat \<Rightarrow> rat \<Rightarrow> rat" where "dmul a b \<equiv> dround (a * b)"
abbreviation dsub :: "rat \<Rightarrow> rat \<Rightarrow> rat" where "dsub a b \<equiv> dround (a - b)"
abbreviation dquot :: "rat \<Rightarrow> rat \<Rightarrow> rat" where "dquot a b \<equiv> dround (a / b)"

text \<open>The relative error of one operator is at most half a unit in the last place.\<close>

lemma dround_err: "\<bar>dround x - x\<bar> \<le> \<bar>x\<bar> * (1 / (2 * 10 ^ 27))"
proof (cases "x = 0")
  case False
  define u :: rat where "u = 10 powi (ilog10 x - 27)"
  have u: "0 < u" by (simp add: u_def)
  have "dround x - x = (of_int (round_even (x / u)) - x / u) * u"
    using False u by (simp add: dround_def Let_def u_def [symmetric] field_simps)
  then have "\<bar>dround x - x\<bar> = \<bar>of_int (round_even (x / u)) - x / u\<bar> * u"
    using u by (simp add: abs_mult)
  also have "\<dots> \<le> 1 / 2 * u" using round_even_err [of "x / u"] u by (intro mult_right_mono) auto
  also have "u * 10 ^ 27 \<le> \<bar>x\<bar>" using ilog10_bounds(1) [OF False] unfolding u_def by (simp add: power_int_diff)
  then have "1 / 2 * u \<le> \<bar>x\<bar> * (1 / (2 * 10 ^ 27))" by simp
  finally show ?thesis .
qed (simp add: dround_def)

abbreviation deps :: rat where "deps \<equiv> 1 / (2 * 10 ^ 27)"

lemma dround_bounds:
  assumes "0 \<le> x"
  shows "(1 - deps) * x \<le> dround x" "dround x \<le> (1 + deps) * x"
proof -
  obtain c where c: "c = deps" by blast
  have "\<bar>dround x - x\<bar> \<le> x * c" using dround_err [of x] assms unfolding c by simp
  then have "x - x * c \<le> dround x" "dround x \<le> x + x * c" by linarith+
  then show "(1 - deps) * x \<le> dround x" "dround x \<le> (1 + deps) * x"
    unfolding c [symmetric] by (simp_all add: algebra_simps)
qed

lemma dround_nonneg: "0 \<le> x \<Longrightarrow> 0 \<le> dround x"
  using dround_bounds(1) [of x] by (rule order_trans [rotated]) simp_all

lemma dround_minus: "dround (- x) = - dround x"
proof -
  have "ilog10 (- x) = ilog10 x" by (simp add: ilog10_def)
  then show ?thesis by (simp add: dround_def Let_def round_even_minus)
qed

section \<open>The decimal a float prints as\<close>

text \<open>The nearest decimal of \<open>n\<close> digits that reads back as \<open>x\<close>, if one of the two neighbours does.\<close>

definition decimal_of_digits :: "nat \<Rightarrow> rat \<Rightarrow> rat option" where
  "decimal_of_digits n x =
     (let u = 10 powi (ilog10 x + 1 - int n); m = \<lfloor>x / u\<rfloor>; lo = of_int m * u; hi = of_int (m + 1) * u
      in if fl lo = x \<and> (fl hi \<noteq> x \<or> x - lo < hi - x \<or> x - lo = hi - x \<and> even m) then Some lo
         else if fl hi = x then Some hi else None)"

fun shortest :: "nat \<Rightarrow> nat \<Rightarrow> rat \<Rightarrow> rat" where
  "shortest 0 n x = x"
| "shortest (Suc k) n x = (case decimal_of_digits n x of Some d \<Rightarrow> d | None \<Rightarrow> shortest k (Suc n) x)"

text \<open>\<open>Decimal(str(x))\<close>; at most 17 digits are needed.\<close>

definition float_decimal :: "rat \<Rightarrow> rat" where
  "float_decimal x = (if x = 0 then 0 else if 0 < x then shortest 17 1 x else - shortest 17 1 (- x))"

lemma shortest_reads_back: "fl x = x \<Longrightarrow> fl (shortest k n x) = x"
  by (induction k n x rule: shortest.induct) (auto simp: decimal_of_digits_def Let_def split: option.splits if_splits)

lemma float_decimal_reads_back: "is_float x \<Longrightarrow> fl (float_decimal x) = x"
  using shortest_reads_back [of x 17 1] shortest_reads_back [of "- x" 17 1] by (auto simp: float_decimal_def is_float_def)

lemma float_decimal_pos: "is_float x \<Longrightarrow> 0 < float_decimal x \<longleftrightarrow> 0 < x"
  using float_decimal_reads_back [of x] by (metis fl_pos_iff)

end
