(* ===== verification/Confirmation.thy ===== *)
theory Confirmation
  imports Sealed_Rows
begin

text \<open>
  Single-use owner confirmations (src/src/demo\_execution/confirmation.py) on the ticket store. A check
  holds the store's lock from its read to its write, so it is one step. \<open>uuid4().hex\<close> is an argument.
\<close>

section \<open>Definitions\<close>

definition OWNER_CONFIRMATION_KIND :: string where "OWNER_CONFIRMATION_KIND = ''DEMO_OWNER_ORDER_CONFIRM''"
definition OWNER_CONFIRMATION_USED_KIND :: string where "OWNER_CONFIRMATION_USED_KIND = ''DEMO_OWNER_ORDER_CONFIRM_USED''"

record owner_check =
  oc_allowed :: bool
  oc_reason_codes :: "string list"
  oc_confirmation_id :: "string option"
  oc_status :: string

text \<open>\<open>d.get(k, v)\<close> and \<open>tuple(dict.fromkeys(xs))\<close>.\<close>

definition dget_or :: "dict \<Rightarrow> string \<Rightarrow> json \<Rightarrow> json" where
  "dget_or d k v = (case map_of d k of None \<Rightarrow> v | Some x \<Rightarrow> x)"

fun fromkeys :: "'a list \<Rightarrow> 'a list" where
  "fromkeys [] = []"
| "fromkeys (x # xs) = x # filter (\<lambda>y. y \<noteq> x) (fromkeys xs)"

text \<open>The branch of a ticket: its setup, or the text of its branch before the first colon.\<close>

definition ticket_branch_of :: "py_rt \<Rightarrow> dict \<Rightarrow> json" where
  "ticket_branch_of rt ticket =
     (if dget ticket ''setup'' = JNull
      then let b = dget ticket ''branch''
           in JStr (takeWhile (\<lambda>c. c \<noteq> CHR '':'') (if truthy b then py_str rt b else []))
      else dget ticket ''setup'')"

definition is_str_or_none :: "json \<Rightarrow> bool" where
  "is_str_or_none v = (case v of JNull \<Rightarrow> True | JStr _ \<Rightarrow> True | _ \<Rightarrow> False)"

definition ticket_binding :: "py_rt \<Rightarrow> dict \<Rightarrow> dict option" where
  "ticket_binding rt ticket =
     (let tid = dget ticket ''ticket_id''; strategy = dget ticket ''strategy_id''; raw_version = dget ticket ''strategy_version'';
          sy = dget ticket ''symbol''; session = dget_or ticket ''cycle'' (dget ticket ''session'');
          setup = dget ticket ''setup''; branch = ticket_branch_of rt ticket; direction = dget ticket ''direction'';
          version = JStr (if raw_version = JNull then [] else py_str rt raw_version); raw_branch = dget ticket ''branch''
      in if \<not> list_all non_empty [tid, strategy, version, sy, session, branch, direction] then None
         else if \<not> is_str_or_none setup \<or> \<not> is_str_or_none raw_branch then None
         else Some [(''ticket_id'', tid), (''strategy_id'', strategy), (''strategy_version'', version), (''symbol'', sy),
                    (''session'', session), (''branch'', branch), (''direction'', direction), (''ticket_branch'', raw_branch),
                    (''ticket_setup'', setup)])"

text \<open>The creation times present in the ticket: \<open>None\<close> when one of them does not parse.\<close>

fun creation_times :: "dict \<Rightarrow> string list \<Rightarrow> datetime list option res" where
  "creation_times ticket [] = Inr (Some [])"
| "creation_times ticket (k # ks) =
     (if dget ticket k = JNull then creation_times ticket ks
      else case as_utc (dget ticket k) of
        Inl e \<Rightarrow> Inl e
      | Inr None \<Rightarrow> Inr None
      | Inr (Some t) \<Rightarrow>
          (case creation_times ticket ks of Inl e \<Rightarrow> Inl e | Inr None \<Rightarrow> Inr None | Inr (Some ts) \<Rightarrow> Inr (Some (t # ts))))"

definition ticket_window :: "dict \<Rightarrow> (datetime option \<times> datetime option) res" where
  "ticket_window ticket =
     (case creation_times ticket [''created_at'', ''evaluated_at''] of
        Inl e \<Rightarrow> Inl e
      | Inr None \<Rightarrow> Inr (None, None)
      | Inr (Some []) \<Rightarrow> Inr (None, None)
      | Inr (Some (t # ts)) \<Rightarrow>
          (case as_utc (dget ticket (if map_of ticket ''valid_until'' = None then ''valid_until_utc'' else ''valid_until'')) of
             Inl e \<Rightarrow> Inl e
           | Inr v \<Rightarrow> Inr (Some (fold max ts t), v)))"

definition failure :: "string \<Rightarrow> string list \<Rightarrow> owner_check" where
  "failure s reasons =
     \<lparr>oc_allowed = False, oc_reason_codes = fromkeys (''OWNER_CONFIRM_REQUIRED'' # reasons), oc_confirmation_id = None, oc_status = s\<rparr>"

definition valid_confirmation_record :: "py_rt \<Rightarrow> dict \<Rightarrow> bool" where
  "valid_confirmation_record rt r =
     (valid_outcome rt r OWNER_CONFIRMATION_KIND \<and>
      (case dget r ''payload'' of
         JDict p \<Rightarrow> dget p ''decision'' = JStr ''CONFIRM'' \<and> non_empty (dget p ''confirm_id'')
       | _ \<Rightarrow> False))"

definition append_owner_confirmation ::
  "py_rt \<Rightarrow> append_io \<Rightarrow> dict \<Rightarrow> datetime option \<Rightarrow> json \<Rightarrow> string \<Rightarrow> ticket_store \<Rightarrow> ticket_store \<times> string res" where
  "append_owner_confirmation rt io ticket confirmed_at confirm_id uuid st =
     (case ticket_binding rt ticket of
        None \<Rightarrow> (st, Inl (ValueError ''ticket identity is incomplete for owner confirmation''))
      | Some binding \<Rightarrow>
          (case ticket_window ticket of
             Inl e \<Rightarrow> (st, Inl e)
           | Inr (created, valid) \<Rightarrow>
               (case (created, valid) of
                  (Some c, Some v) \<Rightarrow>
                    if v \<le> c then (st, Inl (ValueError ''ticket creation/validity timestamps are missing or invalid''))
                    else (case confirmed_at of
                       None \<Rightarrow> (st, Inl (ValueError ''owner confirmation must be after ticket creation and before ticket expiry''))
                     | Some t \<Rightarrow>
                         if \<not> (c < t \<and> t < v)
                         then (st, Inl (ValueError ''owner confirmation must be after ticket creation and before ticket expiry''))
                         else if confirm_id \<noteq> JNull \<and> \<not> non_empty confirm_id
                         then (st, Inl (ValueError ''confirm_id must be a non-empty string''))
                         else
                           let cid = (case confirm_id of JStr s \<Rightarrow> s | _ \<Rightarrow> uuid)
                           in (case build_outcome rt
                                 [(''ticket_id'', dget binding ''ticket_id''), (''source'', JStr ''LIVE''),
                                  (''outcome_kind'', JStr OWNER_CONFIRMATION_KIND), (''recorded_at_utc'', JStr (iso_datetime t)),
                                  (''result'', JStr ''CONFIRMED''),
                                  (''payload'', JDict (binding @ [(''ticket_created_at_utc'', JStr (iso_datetime c)),
                                     (''ticket_valid_until_utc'', JStr (iso_datetime v)), (''confirm_id'', JStr cid),
                                     (''decision'', JStr ''CONFIRM'')])),
                                  (''provenance'', JDict [(''writer'', JStr ''demo_execution.confirmation.append_owner_confirmation'')])] of
                                 Inl e \<Rightarrow> (st, Inl e)
                               | Inr d \<Rightarrow>
                                   (case append_outcome rt io d st of
                                      (st', Inl e) \<Rightarrow> (st', Inl e)
                                    | (st', Inr _) \<Rightarrow> (st', Inr cid))))
                | _ \<Rightarrow> (st, Inl (ValueError ''ticket creation/validity timestamps are missing or invalid'')))))"

text \<open>What the loop over the confirmation rows concludes of one row.\<close>

datatype row_class =
    RSkip | RInvalid | RWrongTicket | RMismatch | RPrecedes | ROutside | RFuture
  | REligible datetime string

definition TUPLE_KEYS :: "string list" where
  "TUPLE_KEYS = [''strategy_id'', ''strategy_version'', ''symbol'', ''session'', ''branch'', ''direction'', ''ticket_branch'', ''ticket_setup'']"

definition classify_row :: "py_rt \<Rightarrow> dict \<Rightarrow> datetime \<Rightarrow> datetime \<Rightarrow> datetime \<Rightarrow> dict \<Rightarrow> row_class res" where
  "classify_row rt binding created valid now r =
     (case dget r ''payload'' of
        JDict p \<Rightarrow>
          if dget r ''ticket_id'' \<noteq> dget binding ''ticket_id''
          then Inr (if list_all (\<lambda>k. dget p k = dget binding k) TUPLE_KEYS then RWrongTicket else RSkip)
          else if \<not> valid_confirmation_record rt r then Inr RInvalid
          else if dget p ''ticket_id'' \<noteq> dget binding ''ticket_id'' then Inr RMismatch
          else if \<not> list_all (\<lambda>(k, v). dget p k = v) binding then Inr RMismatch
          else (case as_utc (dget p ''ticket_created_at_utc'') of
             Inl e \<Rightarrow> Inl e
           | Inr c \<Rightarrow>
               if c \<noteq> Some created then Inr RMismatch
               else (case as_utc (dget p ''ticket_valid_until_utc'') of
                  Inl e \<Rightarrow> Inl e
                | Inr v \<Rightarrow>
                    if v \<noteq> Some valid then Inr RMismatch
                    else (case as_utc (dget r ''recorded_at_utc'') of
                       Inl e \<Rightarrow> Inl e
                     | Inr None \<Rightarrow> Inr RInvalid
                     | Inr (Some t) \<Rightarrow>
                         Inr (if t \<le> created then RPrecedes
                              else if valid \<le> t then ROutside
                              else if now < t then RFuture
                              else REligible t (case dget p ''confirm_id'' of JStr s \<Rightarrow> s | _ \<Rightarrow> [])))))
      | _ \<Rightarrow> Inr (if dget r ''ticket_id'' = dget binding ''ticket_id'' then RInvalid else RSkip))"

fun classify_all :: "py_rt \<Rightarrow> dict \<Rightarrow> datetime \<Rightarrow> datetime \<Rightarrow> datetime \<Rightarrow> dict list \<Rightarrow> (row_class \<times> dict) list res" where
  "classify_all rt binding created valid now [] = Inr []"
| "classify_all rt binding created valid now (r # rs) =
     (case classify_row rt binding created valid now r of
        Inl e \<Rightarrow> Inl e
      | Inr c \<Rightarrow> (case classify_all rt binding created valid now rs of Inl e \<Rightarrow> Inl e | Inr cs \<Rightarrow> Inr ((c, r) # cs)))"

definition diagnostics :: "row_class list \<Rightarrow> string list" where
  "diagnostics cs =
     (if RWrongTicket \<in> set cs then [''OWNER_CONFIRM_TICKET_MISMATCH''] else []) @
     (if RMismatch \<in> set cs then [''OWNER_CONFIRM_BINDING_MISMATCH''] else []) @
     (if RPrecedes \<in> set cs then [''OWNER_CONFIRM_PRECEDES_TICKET''] else []) @
     (if ROutside \<in> set cs then [''OWNER_CONFIRM_OUTSIDE_VALIDITY_WINDOW''] else []) @
     (if RFuture \<in> set cs then [''OWNER_CONFIRM_TIMESTAMP_IN_FUTURE''] else []) @
     (if RInvalid \<in> set cs then [''OWNER_CONFIRM_RECORD_INVALID''] else [])"

definition eligible_rows :: "(row_class \<times> dict) list \<Rightarrow> (datetime \<times> string \<times> dict) list" where
  "eligible_rows cs = concat (map (\<lambda>(c, r). case c of REligible t s \<Rightarrow> [(t, s, r)] | _ \<Rightarrow> []) cs)"

text \<open>The confirm ids of rows whose payload has one, with repetitions.\<close>

definition confirm_ids :: "dict list \<Rightarrow> string list" where
  "confirm_ids rows =
     concat (map (\<lambda>r. case dget r ''payload'' of
                        JDict p \<Rightarrow> (case dget p ''confirm_id'' of JStr s \<Rightarrow> [s] | _ \<Rightarrow> [])
                      | _ \<Rightarrow> []) rows)"

text \<open>\<open>max(xs, key=...)\<close> of a non-empty list: the first one that is largest.\<close>

definition first_max :: "('a \<Rightarrow> int) \<Rightarrow> 'a \<Rightarrow> 'a list \<Rightarrow> 'a" where
  "first_max key x xs = fold (\<lambda>y m. if key m < key y then y else m) xs x"

fun dict_rows :: "json list \<Rightarrow> dict list option" where
  "dict_rows [] = Some []"
| "dict_rows (JDict d # vs) = (case dict_rows vs of None \<Rightarrow> None | Some ds \<Rightarrow> Some (d # ds))"
| "dict_rows (_ # vs) = None"

definition of_kind :: "string \<Rightarrow> dict list \<Rightarrow> dict list" where
  "of_kind k rows = filter (\<lambda>r. dget r ''outcome_kind'' = JStr k) rows"

definition outcomes_all :: "ticket_store \<Rightarrow> json list res" where
  "outcomes_all st = all_rows (row_stream (ts_outcomes st))"

text \<open>The confirmation a read of the store selects, or the failure.\<close>

definition select_confirmation ::
  "py_rt \<Rightarrow> ticket_store \<Rightarrow> dict \<Rightarrow> datetime \<Rightarrow> datetime \<Rightarrow> datetime \<Rightarrow> (owner_check + datetime \<times> string \<times> dict) res" where
  "select_confirmation rt st binding created valid now =
     (case outcomes_all st of
        Inl e \<Rightarrow> if read_caught e then Inr (Inl (failure ''STORE_UNREADABLE'' [''OWNER_CONFIRM_STORE_UNAVAILABLE''])) else Inl e
      | Inr vs \<Rightarrow>
          (case dict_rows vs of
             None \<Rightarrow> Inr (Inl (failure ''STORE_UNREADABLE'' [''OWNER_CONFIRM_STORE_UNAVAILABLE'']))
           | Some rows \<Rightarrow>
               let confirmations = of_kind OWNER_CONFIRMATION_KIND rows; used = of_kind OWNER_CONFIRMATION_USED_KIND rows
               in (case classify_all rt binding created valid now confirmations of
                     Inl e \<Rightarrow> Inl e
                   | Inr cs \<Rightarrow>
                       let eligible = eligible_rows cs
                       in if eligible = [] then Inr (Inl (failure ''MISSING_OR_INVALID'' (diagnostics (map fst cs))))
                          else (case filter (\<lambda>(t, s, r). count_list (confirm_ids confirmations) s = 1 \<and> s \<notin> set (confirm_ids used)) eligible of
                                  [] \<Rightarrow> Inr (Inl (failure ''REUSED'' [''OWNER_CONFIRM_REUSED'']))
                                | x # xs \<Rightarrow> Inr (Inr (first_max fst x xs))))))"

definition used_fields :: "dict \<Rightarrow> datetime \<Rightarrow> datetime \<times> string \<times> dict \<Rightarrow> dict" where
  "used_fields binding now sel =
     (case sel of (t, cid, confirmation) \<Rightarrow>
       [(''ticket_id'', dget binding ''ticket_id''), (''source'', JStr ''LIVE''), (''outcome_kind'', JStr OWNER_CONFIRMATION_USED_KIND),
        (''recorded_at_utc'', JStr (iso_datetime now)), (''result'', JStr ''CONSUMED''),
        (''payload'', JDict [(''confirm_id'', JStr cid), (''confirmation_outcome_id'', dget confirmation ''outcome_id''),
                             (''ticket_id'', dget binding ''ticket_id''), (''confirmed_at_utc'', JStr (iso_datetime t))]),
        (''provenance'', JDict [(''writer'', JStr ''demo_execution.confirmation.check_and_consume_owner_confirmation'')])])"

definition check_and_consume_owner_confirmation ::
  "py_rt \<Rightarrow> append_io \<Rightarrow> dict \<Rightarrow> datetime option \<Rightarrow> bool \<Rightarrow> ticket_store option \<Rightarrow> ticket_store option \<times> owner_check res" where
  "check_and_consume_owner_confirmation rt io ticket now_utc consume store =
     (case ticket_binding rt ticket of
        None \<Rightarrow> (store, Inr (failure ''INVALID_BINDING'' [''OWNER_CONFIRM_BINDING_INVALID'']))
      | Some binding \<Rightarrow>
     (case ticket_window ticket of
        Inl e \<Rightarrow> (store, Inl e)
      | Inr (created, valid) \<Rightarrow>
     (case (created, valid) of
        (Some c, Some v) \<Rightarrow>
          if v \<le> c then (store, Inr (failure ''INVALID_WINDOW'' [''OWNER_CONFIRM_TICKET_VALIDITY_INVALID'']))
          else (case now_utc of
             None \<Rightarrow> (store, Inr (failure ''INVALID_NOW'' [''OWNER_CONFIRM_TIMESTAMP_INVALID'']))
           | Some now \<Rightarrow>
               if v \<le> now then (store, Inr (failure ''TICKET_EXPIRED'' [''TICKET_EXPIRED'']))
               else (case store of
                  None \<Rightarrow> (store, Inr (failure ''STORE_UNAVAILABLE'' [''OWNER_CONFIRM_STORE_UNAVAILABLE'']))
                | Some st \<Rightarrow>
                    (case select_confirmation rt st binding c v now of
                       Inl e \<Rightarrow> (store, Inl e)
                     | Inr (Inl f) \<Rightarrow> (store, Inr f)
                     | Inr (Inr sel) \<Rightarrow>
                         let cid = fst (snd sel)
                         in if \<not> consume
                            then (store, Inr \<lparr>oc_allowed = True, oc_reason_codes = [], oc_confirmation_id = Some cid, oc_status = ''MATCHED''\<rparr>)
                            else (case build_outcome rt (used_fields binding now sel) of
                               Inl e \<Rightarrow> (store, Inl e)
                             | Inr d \<Rightarrow>
                                 (case append_outcome rt io d st of
                                    (st', Inl e) \<Rightarrow>
                                      (Some st', if write_caught e
                                                 then Inr (failure ''STORE_WRITE_FAILED'' [''OWNER_CONFIRM_STORE_WRITE_FAILED'']) else Inl e)
                                  | (st', Inr False) \<Rightarrow> (Some st', Inr (failure ''REUSED'' [''OWNER_CONFIRM_REUSED'']))
                                  | (st', Inr True) \<Rightarrow>
                                      (Some st', Inr \<lparr>oc_allowed = True, oc_reason_codes = [], oc_confirmation_id = Some cid,
                                                       oc_status = ''CONSUMED''\<rparr>))))))
      | _ \<Rightarrow> (store, Inr (failure ''INVALID_WINDOW'' [''OWNER_CONFIRM_TICKET_VALIDITY_INVALID''])))))"

section \<open>Lemmas\<close>

lemma all_rows_Inr: "all_rows es = Inr vs \<Longrightarrow> es = map Some vs"
  by (induction es arbitrary: vs rule: all_rows.induct) (auto split: sum.splits)

lemma outcomes_all_complete:
  assumes "outcomes_all st = Inr vs" "has_outcome st r"
  shows "JDict r \<in> set vs"
proof -
  have s: "row_stream (ts_outcomes st) = map Some vs" using all_rows_Inr assms(1) by (simp add: outcomes_all_def)
  obtain n where n: "Row (JDict r) \<in> set (lines (file_at (ts_outcomes st) n))" using assms(2) by (auto simp: has_outcome_def)
  have "\<not> truncated (file_at (ts_outcomes st) n)" using truncated_in_stream [of "ts_outcomes st" n] s by auto
  from row_in_stream [OF n this] show ?thesis using s by auto
qed

lemma dict_rows_Some: "dict_rows vs = Some ds \<Longrightarrow> vs = map JDict ds"
  by (induction vs arbitrary: ds rule: dict_rows.induct) (auto split: option.splits)

lemma row_stream_member:
  assumes "Some v \<in> set (row_stream dir)" "wf_dict dir"
  shows "\<exists>n. Row v \<in> set (lines (file_at dir n))"
proof -
  obtain n f where f: "(n, f) \<in> set dir" "Some v \<in> set (read_jsonl f)" using assms(1) by (auto simp: row_stream_def files_def)
  then have "file_at dir n = f" using assms(2) by (simp add: file_at_def wf_dict_def)
  with read_jsonl_row [OF f(2)] show ?thesis by blast
qed

text \<open>A confirmation is spent when the store holds a row that consumed it.\<close>

definition consumes :: "string \<Rightarrow> dict \<Rightarrow> bool" where
  "consumes cid r \<longleftrightarrow>
     dget r ''outcome_kind'' = JStr OWNER_CONFIRMATION_USED_KIND \<and> (\<exists>p. dget r ''payload'' = JDict p \<and> dget p ''confirm_id'' = JStr cid)"

definition spent :: "ticket_store \<Rightarrow> string \<Rightarrow> bool" where
  "spent st cid \<longleftrightarrow> (\<exists>r. has_outcome st r \<and> consumes cid r)"

lemma built_step_spent: "built_step rt st st' \<Longrightarrow> spent st cid \<Longrightarrow> spent st' cid"
  unfolding spent_def using built_step_has by blast

lemma first_max_member: "first_max key x xs \<in> set (x # xs)"
proof -
  have "fold (\<lambda>y m. if key m < key y then y else m) ys m \<in> set (m # ys)" for ys m
  proof (induction ys arbitrary: m)
    case (Cons y ys)
    show ?case using Cons.IH [of "if key m < key y then y else m"] by (auto split: if_splits)
  qed simp
  then show ?thesis by (simp add: first_max_def)
qed

lemma confirm_ids_member: "r \<in> set rows \<Longrightarrow> dget r ''payload'' = JDict p \<Longrightarrow> dget p ''confirm_id'' = JStr s \<Longrightarrow> s \<in> set (confirm_ids rows)"
  by (force simp: confirm_ids_def)

lemma valid_confirmation:
  assumes "valid_confirmation_record rt r" "dget r ''payload'' = JDict p"
  shows "valid_outcome rt r OWNER_CONFIRMATION_KIND" "\<exists>s. dget p ''confirm_id'' = JStr s"
  using assms by (auto simp: valid_confirmation_record_def non_empty_def split: json.splits)

lemma classify_eligible:
  assumes "classify_row rt b c v n r = Inr (REligible t cid)"
  obtains p where "dget r ''payload'' = JDict p" "dget r ''ticket_id'' = dget b ''ticket_id''"
    "valid_outcome rt r OWNER_CONFIRMATION_KIND" "dget p ''confirm_id'' = JStr cid" "list_all (\<lambda>(k, x). dget p k = x) b"
    "as_utc (dget r ''recorded_at_utc'') = Inr (Some t)" "c < t" "t \<le> n"
proof -
  from assms obtain p where p: "dget r ''payload'' = JDict p"
    by (cases "dget r ''payload''") (auto simp: classify_row_def split: if_splits)
  note u = assms [unfolded classify_row_def p json.case]
  have v: "dget r ''ticket_id'' = dget b ''ticket_id''" "valid_confirmation_record rt r" "list_all (\<lambda>(k, x). dget p k = x) b"
    using u by (auto split: if_splits)
  have w: "as_utc (dget r ''recorded_at_utc'') = Inr (Some t)" "c < t" "t \<le> n"
    "cid = (case dget p ''confirm_id'' of JStr s \<Rightarrow> s | _ \<Rightarrow> [])"
    using u v by (auto split: if_splits sum.splits option.splits)
  show ?thesis using that [OF p v(1) _ _ v(3) w(1-3)] valid_confirmation [OF v(2) p] w(4) by auto
qed

lemma classify_all_member:
  "classify_all rt b c v n rs = Inr cs \<Longrightarrow> (k, r) \<in> set cs \<Longrightarrow> r \<in> set rs \<and> classify_row rt b c v n r = Inr k"
  by (induction rs arbitrary: cs) (auto split: sum.splits)

lemma eligible_member: "(t, s, r) \<in> set (eligible_rows cs) \<longleftrightarrow> (REligible t s, r) \<in> set cs"
  by (force simp: eligible_rows_def split: row_class.splits)

text \<open>What a selected confirmation is.\<close>

lemma select_confirmation_sel:
  assumes "select_confirmation rt st b c v n = Inr (Inr (t, cid, r))"
  obtains vs rows where "outcomes_all st = Inr vs" "vs = map JDict rows" "r \<in> set rows"
    "dget r ''outcome_kind'' = JStr OWNER_CONFIRMATION_KIND" "classify_row rt b c v n r = Inr (REligible t cid)"
    "cid \<notin> set (confirm_ids (of_kind OWNER_CONFIRMATION_USED_KIND rows))"
proof -
  from assms obtain vs rows cs x xs where a: "outcomes_all st = Inr vs" "dict_rows vs = Some rows"
    "classify_all rt b c v n (of_kind OWNER_CONFIRMATION_KIND rows) = Inr cs"
    "filter (\<lambda>(t, s, r). count_list (confirm_ids (of_kind OWNER_CONFIRMATION_KIND rows)) s = 1 \<and>
        s \<notin> set (confirm_ids (of_kind OWNER_CONFIRMATION_USED_KIND rows))) (eligible_rows cs) = x # xs"
    "first_max fst x xs = (t, cid, r)"
    by (auto simp: select_confirmation_def Let_def split: sum.splits option.splits if_splits list.splits)
  have m: "(t, cid, r) \<in> set (filter (\<lambda>(t, s, r). count_list (confirm_ids (of_kind OWNER_CONFIRMATION_KIND rows)) s = 1 \<and>
        s \<notin> set (confirm_ids (of_kind OWNER_CONFIRMATION_USED_KIND rows))) (eligible_rows cs))"
    using first_max_member [of fst x xs] a(4,5) by simp
  then have e: "(REligible t cid, r) \<in> set cs" "cid \<notin> set (confirm_ids (of_kind OWNER_CONFIRMATION_USED_KIND rows))"
    by (auto simp: eligible_member)
  from classify_all_member [OF a(3) e(1)] show ?thesis
    using that a(1) dict_rows_Some [OF a(2)] e(2) by (auto simp: of_kind_def)
qed

lemma selected_unspent:
  assumes "select_confirmation rt st b c v n = Inr (Inr (t, cid, r))"
  shows "\<not> spent st cid"
proof
  assume "spent st cid"
  then obtain q p where q: "has_outcome st q" "dget q ''outcome_kind'' = JStr OWNER_CONFIRMATION_USED_KIND"
    "dget q ''payload'' = JDict p" "dget p ''confirm_id'' = JStr cid" by (auto simp: spent_def consumes_def)
  from assms obtain vs rows where s: "outcomes_all st = Inr vs" "vs = map JDict rows"
    "cid \<notin> set (confirm_ids (of_kind OWNER_CONFIRMATION_USED_KIND rows))"
    by (rule select_confirmation_sel) blast
  have "q \<in> set rows" using outcomes_all_complete [OF s(1) q(1)] s(2) by auto
  with q(2) have "q \<in> set (of_kind OWNER_CONFIRMATION_USED_KIND rows)" by (simp add: of_kind_def)
  from confirm_ids_member [OF this q(3,4)] s(3) show False by blast
qed

lemma used_row:
  assumes "build_outcome rt (used_fields b n (t, cid, r)) = Inr d"
  shows "wf_dict d" "consumes cid (stored_row d)"
proof -
  note f = build_outcome_fields [OF assms]
  show w: "wf_dict d" by (rule f(1))
  let ?p = "[(''confirm_id'', JStr cid), (''confirmation_outcome_id'', dget r ''outcome_id''),
             (''ticket_id'', dget b ''ticket_id''), (''confirmed_at_utc'', JStr (iso_datetime t))]"
  have k: "dget d ''outcome_kind'' = JStr OWNER_CONFIRMATION_USED_KIND" "dget d ''payload'' = JDict ?p"
    using f(4) [of "''outcome_kind''"] f(4) [of "''payload''"] by (simp_all add: used_fields_def dget_def)
  have wp: "wf_dict ?p" by (simp add: wf_dict_def)
  have "dget (stored_row ?p) ''confirm_id'' = JStr cid" by (subst dget_stored_row [OF wp]) (simp add: dget_def)
  moreover have "dget (stored_row d) ''payload'' = JDict (stored_row ?p)"
    by (simp only: dget_stored_row [OF w] k stored_row_canon)
  ultimately show "consumes cid (stored_row d)" by (simp add: consumes_def dget_stored_row [OF w] k)
qed

text \<open>How a check ends that spends a confirmation.\<close>

definition spends :: "owner_check res \<Rightarrow> string \<Rightarrow> bool" where
  "spends r cid \<longleftrightarrow> (\<exists>ck. r = Inr ck \<and> oc_allowed ck \<and> oc_status ck = ''CONSUMED'' \<and> oc_confirmation_id ck = Some cid)"

lemma failure_simps [simp]: "oc_allowed (failure s rs) = False" "oc_status (failure s rs) = s"
  by (simp_all add: failure_def)

lemma select_failure: "select_confirmation rt st b c v n = Inr (Inl f) \<Longrightarrow> \<not> oc_allowed f"
  by (auto simp: select_confirmation_def Let_def split: sum.splits option.splits if_splits list.splits)

lemma check_allowed:
  assumes "check_and_consume_owner_confirmation rt io ticket now_utc consume store = (store', Inr ck)" "oc_allowed ck"
  obtains st b c v n t cid r where "store = Some st" "ticket_binding rt ticket = Some b" "ticket_window ticket = Inr (Some c, Some v)"
    "c < v" "now_utc = Some n" "n < v" "select_confirmation rt st b c v n = Inr (Inr (t, cid, r))" "oc_confirmation_id ck = Some cid"
    "consume \<Longrightarrow> \<exists>d st'. build_outcome rt (used_fields b n (t, cid, r)) = Inr d \<and> append_outcome rt io d st = (st', Inr True) \<and> store' = Some st'"
    "\<not> consume \<Longrightarrow> store' = store"
proof -
  from assms obtain b where b: "ticket_binding rt ticket = Some b"
    by (cases "ticket_binding rt ticket") (auto simp: check_and_consume_owner_confirmation_def)
  from assms b obtain c v where w: "ticket_window ticket = Inr (Some c, Some v)" "c < v"
    by (auto simp: check_and_consume_owner_confirmation_def split: sum.splits option.splits if_splits)
  from assms b w obtain n st where n: "now_utc = Some n" "n < v" "store = Some st"
    by (auto simp: check_and_consume_owner_confirmation_def split: option.splits if_splits)
  from assms b w n select_failure obtain t cid r where s: "select_confirmation rt st b c v n = Inr (Inr (t, cid, r))"
    by (auto simp: check_and_consume_owner_confirmation_def split: sum.splits if_splits)
  have k: "oc_confirmation_id ck = Some cid"
    using assms b w n s by (auto simp: check_and_consume_owner_confirmation_def Let_def split: sum.splits if_splits prod.splits bool.splits)
  show ?thesis
  proof (rule that [OF n(3) b w n(1,2) s k])
    show "\<exists>d st'. build_outcome rt (used_fields b n (t, cid, r)) = Inr d \<and> append_outcome rt io d st = (st', Inr True) \<and> store' = Some st'"
      if consume
      using assms b w n s that
      by (auto simp: check_and_consume_owner_confirmation_def Let_def split: sum.splits if_splits prod.splits bool.splits)
    show "store' = store" if "\<not> consume"
      using assms b w n s that by (auto simp: check_and_consume_owner_confirmation_def Let_def)
  qed
qed

section \<open>Histories\<close>

datatype confirm_call =
    KConsume append_io dict "datetime option"
  | KConfirm append_io dict "datetime option" json string
  | KLedger exec_call

fun confirm_step :: "py_rt \<Rightarrow> confirm_call \<Rightarrow> ticket_store \<Rightarrow> ticket_store" where
  "confirm_step rt (KConsume io ticket now) st = the (fst (check_and_consume_owner_confirmation rt io ticket now True (Some st)))"
| "confirm_step rt (KConfirm io ticket t cid uuid) st = fst (append_owner_confirmation rt io ticket t cid uuid st)"
| "confirm_step rt (KLedger c) st = exec_step rt c st"

fun confirm_spent_by :: "py_rt \<Rightarrow> string \<Rightarrow> confirm_call \<Rightarrow> ticket_store \<Rightarrow> bool" where
  "confirm_spent_by rt cid (KConsume io ticket now) st =
     (case snd (check_and_consume_owner_confirmation rt io ticket now True (Some st)) of
        Inr ck \<Rightarrow> oc_allowed ck \<and> oc_confirmation_id ck = Some cid
      | Inl _ \<Rightarrow> False)"
| "confirm_spent_by rt cid _ st = False"

lemma used_kind: "kind_is OWNER_CONFIRMATION_USED_KIND (used_fields binding t sel)"
  by (cases sel) (simp add: used_fields_def kind_is_def dget_def)

lemma consume_written:
  "\<exists>st'. fst (check_and_consume_owner_confirmation rt io ticket now consume (Some st)) = Some st' \<and> written rt (kind_is OWNER_CONFIRMATION_USED_KIND) st st'"
  unfolding check_and_consume_owner_confirmation_def
  by (auto simp: Let_def used_kind split: option.split sum.split prod.split bool.split intro: writtenI)

lemma consume_built: "\<exists>st'. fst (check_and_consume_owner_confirmation rt io ticket now consume (Some st)) = Some st' \<and> built_step rt st st'"
  using consume_written built_stepI by blast

lemma confirm_built: "built_step rt st (fst (append_owner_confirmation rt io ticket t cid uuid st))"
  unfolding append_owner_confirmation_def
  by (auto simp: Let_def split: option.split sum.split prod.split intro: writtenI)

lemma confirm_step_built: "built_step rt st (confirm_step rt c st)"
proof (cases c)
  case (KConsume io ticket now)
  with consume_built [of rt io ticket now True st] show ?thesis by auto
qed (simp_all add: confirm_built exec_step_built)

lemma confirm_spends:
  assumes "confirm_spent_by rt cid c st"
  shows "\<not> spent st cid" "spent (confirm_step rt c st) cid"
proof -
  from assms obtain io ticket now where c: "c = KConsume io ticket now" by (cases c) auto
  obtain store' ck where r: "check_and_consume_owner_confirmation rt io ticket now True (Some st) = (store', Inr ck)"
    "oc_allowed ck" "oc_confirmation_id ck = Some cid"
    using assms unfolding c by (cases "check_and_consume_owner_confirmation rt io ticket now True (Some st)") (auto split: sum.splits)
  from r(1,2) show "\<not> spent st cid"
    by (rule check_allowed) (use r(3) selected_unspent in auto)
  from r(1,2) show "spent (confirm_step rt c st) cid"
  proof (rule check_allowed)
    fix st0 b c' v n t cid' q
    assume a: "Some st = Some st0" "oc_confirmation_id ck = Some cid'"
      "True \<Longrightarrow> \<exists>d st'. build_outcome rt (used_fields b n (t, cid', q)) = Inr d \<and> append_outcome rt io d st0 = (st', Inr True) \<and> store' = Some st'"
    then obtain d st' where d: "build_outcome rt (used_fields b n (t, cid', q)) = Inr d" "append_outcome rt io d st = (st', Inr True)"
      "store' = Some st'" by auto
    have "has_outcome st' (stored_row d)" using tlog.app_ok [OF used_row(1) [OF d(1)], of "(rt, io)" st] d(2) by simp
    with used_row(2) [OF d(1)] a(2) r(3) show "spent (confirm_step rt c st) cid" by (auto simp: c r(1) d(3) spent_def)
  qed
qed

text \<open>Owner confirmations are single-use tokens.\<close>

interpretation confirmations: one_shot "\<lambda>_. True" "confirm_step rt" "confirm_spent_by rt" spent for rt
  using confirm_spends built_step_spent confirm_step_built by unfold_locales blast+

section \<open>Properties\<close>

text \<open>C8: In every history of confirmations, consumptions, claims and other writes,
  with any failures of the writes, a confirmation id is accepted for an order at most once, and never
  when the store already holds a row that consumed it, whichever tickets the calls are for.\<close>

theorem confirmation_single_use:
  "count_calls (confirm_spent_by rt cid) (confirm_step rt) calls st \<le> (if spent st cid then 0 else 1)"
  by (rule confirmations.count_bound) simp


text \<open>A digest that is cheap to evaluate and tells the rows of the instances apart.\<close>

fun ilen :: "'a list \<Rightarrow> int" where
  "ilen [] = 0"
| "ilen (x # xs) = 1 + ilen xs"

fun weight :: "json \<Rightarrow> int" where
  "weight (JStr s) = 1 + ilen s"
| "weight (JList vs) = 1 + sum_list (map weight vs)"
| "weight (JDict d) = 1 + sum_list (map (\<lambda>(k, v). ilen k + 3 * weight v) d)"
| "weight _ = 2"

definition weight_sha :: "json \<Rightarrow> string" where
  "weight_sha v = ipad 6 (weight v)"

definition weight_repr :: "json \<Rightarrow> string" where
  "weight_repr v = ''?''"

definition weight_rt :: py_rt where
  "weight_rt = \<lparr>sha = weight_sha, repr = weight_repr\<rparr>"

definition demo_identity :: string where
  "demo_identity = ''0123456789abcdef0123456789abcdef0123456789abcdef0123456789abcdef''"

definition demo_ticket :: dict where
  "demo_ticket =
    [(''ticket_id'', JStr ''T-1''), (''strategy_id'', JStr ''ST_ASIAN_SWEEP_5R_V1''), (''strategy_version'', JStr ''1.1.2''), (''symbol'', JStr ''GBPUSD''),
     (''cycle'', JStr ''LONDON''), (''setup'', JStr ''SWEEP''), (''direction'', JStr ''LONG''), (''logic_identity'', JStr demo_identity),
     (''decision'', JStr ''READY''), (''entry'', JFloat (5 / 4)), (''stop_loss'', JFloat (79 / 64)), (''tp1'', JFloat (81 / 64)), (''tp2'', JFloat (41 / 32)), (''regime'', JStr ''BULL''),
     (''created_at'', JStr ''2026-01-05T10:00:00+00:00''), (''evaluated_at'', JStr ''2026-01-05T10:00:00Z''),
     (''signal_close_utc'', JStr ''2026-01-05T10:00:00Z''), (''valid_until'', JStr ''2026-01-05T10:30:00+00:00'')]"

definition demo_now :: "string \<Rightarrow> datetime option" where
  "demo_now s = parse_iso s"

definition demo_confirmed :: ticket_store where
  "demo_confirmed =
     fst (append_owner_confirmation weight_rt Appended demo_ticket (demo_now ''2026-01-05T10:01:00+00:00'') (JStr ''C-1'') ''u'' empty_store)"


end
