(* ===== verification/Exec_Scope.thy ===== *)
theory Exec_Scope
  imports Confirmation
begin

text \<open>
  The committed execution scopes (src/src/demo\_execution/scope.py) and the registry of magic numbers in
  use on the host (src/src/demo\_execution/host\_magics.py). Files are read through the host record: the
  YAML document at a resolved path, \<open>None\<close> when it cannot be read or parsed; path resolution; and the
  parsed broker symbol map (src/src/mt5/canonical\_broker\_map.py). An explicit override of a path is
  looked up by its field name.
\<close>

section \<open>Data\<close>

datatype scope_error = ScopePolicyError string | SymbolUnmapped string | Raised py_error

type_synonym 'a scope_res = "scope_error + 'a"

record scope_policy =
  enabled :: bool
  strategy_id :: string
  strategy_version :: string
  sp_symbol :: string
  broker_symbol :: string
  session :: string
  setup_branch :: string
  directions :: "string list"
  logic_identity :: string
  magic_number :: int
  sp_pip_size :: rat
  point_size :: rat
  max_spread_allowed_pips :: rat
  max_spread_fraction_of_stop :: rat
  slippage_limit_points :: rat
  signal_expiry_minutes :: rat
  daily_reset_basis :: string
  daily_reset_owner_confirm :: bool
  notification_failure_policy :: string
  authorization_path_env :: string
  evidence_pull_request :: int
  registry_path :: string
  contract_path :: string
  broker_symbol_map_path :: string
  ready_authority_config_path :: string
  owner_decision_register_path :: string
  broker_server :: string
  account_login_suffix :: string
  host_magic_registry_path :: string
  per_order_confirm_required :: bool

record map_entry =
  me_status :: string
  me_broker_symbol :: json
  me_expected :: dict
  me_data_error :: bool

record broker_map =
  bm_broker :: json
  bm_server :: json
  bm_entries :: "(string \<times> map_entry) list"

record scope_host =
  yaml_at :: "string \<Rightarrow> json option"
  abs_path :: "string \<Rightarrow> string"
  under_root_path :: "string \<Rightarrow> bool"
  symbol_map_at :: "string \<Rightarrow> broker_map option"
  path_override :: "string \<Rightarrow> string option"
  default_magic_registry :: string

section \<open>The host magic registry\<close>

definition HOST_MAGIC_SCHEMA :: string where "HOST_MAGIC_SCHEMA = ''AGP_C14_HOST_MAGIC_REGISTRY_V1''"

fun magic_values :: "py_rt \<Rightarrow> json list \<Rightarrow> int list option" where
  "magic_values rt [] = Some []"
| "magic_values rt (entry # es) =
     (let v = (case entry of JDict d \<Rightarrow> dget d ''magic'' | _ \<Rightarrow> entry);
          cited = (case entry of
                     JDict d \<Rightarrow> (let s = dget d ''source'' in non_blank (if truthy s then py_str rt s else []))
                   | _ \<Rightarrow> True)
      in case v of
           JInt i \<Rightarrow>
             if i < 0 \<or> \<not> cited then None
             else (case magic_values rt es of None \<Rightarrow> None | Some is \<Rightarrow> Some (i # is))
         | _ \<Rightarrow> None)"

definition load_host_magics :: "py_rt \<Rightarrow> scope_host \<Rightarrow> string \<Rightarrow> int list scope_res" where
  "load_host_magics rt h path =
     (case yaml_at h path of
        None \<Rightarrow> Inl (ScopePolicyError ''HOST_MAGIC_REGISTRY_UNAVAILABLE'')
      | Some (JDict raw) \<Rightarrow>
          if dget raw ''schema'' \<noteq> JStr HOST_MAGIC_SCHEMA then Inl (ScopePolicyError ''HOST_MAGIC_REGISTRY_INVALID'')
          else if \<not> non_empty (dget raw ''observed_at_utc'') then Inl (ScopePolicyError ''HOST_MAGIC_REGISTRY_INVALID'')
          else (case dget raw ''magics_in_use_on_host'' of
             JList entries \<Rightarrow>
               if entries = [] then Inl (ScopePolicyError ''HOST_MAGIC_REGISTRY_INVALID'')
               else (case magic_values rt entries of
                  None \<Rightarrow> Inl (ScopePolicyError ''HOST_MAGIC_REGISTRY_INVALID'')
                | Some ms \<Rightarrow>
                    if \<not> distinct ms \<or> 0 \<notin> set ms then Inl (ScopePolicyError ''HOST_MAGIC_REGISTRY_INVALID'') else Inr ms)
           | _ \<Rightarrow> Inl (ScopePolicyError ''HOST_MAGIC_REGISTRY_INVALID''))
      | Some _ \<Rightarrow> Inl (ScopePolicyError ''HOST_MAGIC_REGISTRY_INVALID''))"

definition reserved_magic_conflict :: "json \<Rightarrow> int list \<Rightarrow> string option" where
  "reserved_magic_conflict v host_magics =
     (case v of
        JInt i \<Rightarrow>
          if i \<le> 0 then Some ''STRATEGY_MAGIC_NUMBER_UNAVAILABLE''
          else if i \<in> set host_magics then Some ''STRATEGY_MAGIC_COLLIDES_WITH_HOST'' else None
      | _ \<Rightarrow> Some ''STRATEGY_MAGIC_NUMBER_UNAVAILABLE'')"

section \<open>Loading a scope\<close>

definition invalid_scope :: "'a scope_res" where
  "invalid_scope = Inl (ScopePolicyError ''EXECUTION_SCOPE_INVALID'')"

definition load_yaml :: "scope_host \<Rightarrow> string \<Rightarrow> string \<Rightarrow> dict scope_res" where
  "load_yaml h path reason =
     (case yaml_at h path of Some (JDict d) \<Rightarrow> Inr d | _ \<Rightarrow> Inl (ScopePolicyError reason))"

definition finite_positive :: "json \<Rightarrow> rat scope_res" where
  "finite_positive raw =
     (case raw of
        JBool _ \<Rightarrow> invalid_scope
      | _ \<Rightarrow> (case py_float raw of Inl _ \<Rightarrow> invalid_scope | Inr x \<Rightarrow> if 0 < x then Inr x else invalid_scope))"

text \<open>\<open>_as_path\<close> and \<open>_under_root\<close> of a configured value; a value that is not text raises in \<open>Path\<close>.\<close>

definition config_path :: "scope_host \<Rightarrow> json \<Rightarrow> string scope_res" where
  "config_path h v =
     (case v of
        JStr s \<Rightarrow> (let p = abs_path h s in if under_root_path h p then Inr p else invalid_scope)
      | _ \<Rightarrow> Inl (Raised TypeError))"

definition selected_path :: "scope_host \<Rightarrow> dict \<Rightarrow> string \<Rightarrow> string scope_res" where
  "selected_path h scope field =
     (case path_override h field of Some p \<Rightarrow> Inr p | None \<Rightarrow> config_path h (dget scope field))"

definition SCOPE_REQUIRED :: "string list" where
  "SCOPE_REQUIRED =
    [''strategy_id'', ''strategy_version'', ''symbol'', ''session'', ''setup_branch'', ''directions'', ''registry_path'',
     ''broker_symbol_map_path'', ''ready_authority_config_path'', ''owner_decision_register_path'', ''authorization_path_env'',
     ''daily_reset_basis'', ''daily_reset_owner_confirm'', ''notification_failure_policy'', ''evidence_pull_request'']"

definition is_identity :: "json \<Rightarrow> bool" where
  "is_identity v = (case v of JStr s \<Rightarrow> length s = 64 \<and> list_all (\<lambda>c. c \<in> set ''0123456789abcdef'') s | _ \<Rightarrow> False)"

definition digit_suffix :: "json \<Rightarrow> bool" where
  "digit_suffix v = (case v of JStr s \<Rightarrow> list_all is_digit s \<and> 3 \<le> length s | _ \<Rightarrow> False)"

definition direction_list :: "json \<Rightarrow> string list option" where
  "direction_list v =
     (case v of
        JList xs \<Rightarrow>
          if xs \<noteq> [] \<and> list_all (\<lambda>x. x = JStr ''LONG'' \<or> x = JStr ''SHORT'') xs \<and> distinct xs
          then Some (map (\<lambda>x. case x of JStr s \<Rightarrow> s | _ \<Rightarrow> []) xs) else None
      | _ \<Rightarrow> None)"

text \<open>\<open>d.get(k) if isinstance(d, dict) else None\<close>.\<close>

definition get_in :: "json \<Rightarrow> string \<Rightarrow> json" where
  "get_in v k = (case v of JDict d \<Rightarrow> dget d k | _ \<Rightarrow> JNull)"

definition lower :: "string \<Rightarrow> string" where
  "lower s = map (\<lambda>c. if 65 \<le> (of_char c :: nat) \<and> (of_char c :: nat) \<le> 90 then char_of ((of_char c :: nat) + 32) else c) s"

definition contains :: "string \<Rightarrow> string \<Rightarrow> bool" where
  "contains sub s = list_ex (\<lambda>i. take (length sub) (drop i s) = sub) [0..<Suc (length s)]"

definition is_identifier :: "string \<Rightarrow> bool" where
  "is_identifier s =
     (case s of
        [] \<Rightarrow> False
      | c # cs \<Rightarrow>
          let letter = (\<lambda>c. c = CHR ''_'' \<or> (let n = (of_char c :: nat) in 65 \<le> n \<and> n \<le> 90 \<or> 97 \<le> n \<and> n \<le> 122))
          in letter c \<and> list_all (\<lambda>c. letter c \<or> is_digit c) cs)"

text \<open>\<open>int(v)\<close> of a pinned digit count, which the symbol map stores as a number.\<close>

definition py_int :: "json \<Rightarrow> int res" where
  "py_int v =
     (case v of
        JInt i \<Rightarrow> Inr i
      | JBool b \<Rightarrow> Inr (if b then 1 else 0)
      | JFloat x \<Rightarrow> Inr (if 0 \<le> x then \<lfloor>x\<rfloor> else \<lceil>x\<rceil>)
      | JStr s \<Rightarrow>
          (case split_sign (strip s) of (neg, ds) \<Rightarrow>
             (case (if ds = [] then None else unpad ds) of
                None \<Rightarrow> Inl (ValueError s)
              | Some n \<Rightarrow> Inr (if neg then - int n else int n)))
      | _ \<Rightarrow> Inl TypeError)"

definition resolve_symbol :: "broker_map \<Rightarrow> string \<Rightarrow> (map_entry \<times> string) scope_res" where
  "resolve_symbol m canonical =
     (case map_of (bm_entries m) canonical of
        None \<Rightarrow> Inl (SymbolUnmapped canonical)
      | Some e \<Rightarrow>
          if me_status e \<noteq> ''MAPPED'' \<or> \<not> truthy (me_broker_symbol e) then Inl (SymbolUnmapped canonical)
          else if me_data_error e then Inl (ScopePolicyError ''BROKER_SYMBOL_MAP_UNAVAILABLE'')
          else (case me_broker_symbol e of JStr s \<Rightarrow> Inr (e, s) | _ \<Rightarrow> Inl (Raised TypeError)))"

text \<open>The verified candidate of the registry: its identity and the path of its contract.\<close>

definition registered_candidate :: "scope_host \<Rightarrow> dict \<Rightarrow> string \<Rightarrow> string \<Rightarrow> (string \<times> string) scope_res" where
  "registered_candidate h registry strategy version =
     (case get_in (get_in (get_in (dget registry ''strategies'') strategy) ''candidate_versions'') version of
        JDict candidate \<Rightarrow>
          if dget candidate ''logic_status'' \<noteq> JStr ''LOGIC_VERIFIED'' \<or> \<not> is_identity (dget candidate ''logic_verified_identity'')
          then Inl (ScopePolicyError ''LOGIC_IDENTITY_UNAVAILABLE'')
          else (case dget candidate ''config_source'' of
             JStr src \<Rightarrow>
               if src = [] then Inl (ScopePolicyError ''STRATEGY_CONTRACT_UNAVAILABLE'')
               else (case config_path h (JStr src) of
                  Inl e \<Rightarrow> Inl e
                | Inr p \<Rightarrow> Inr ((case dget candidate ''logic_verified_identity'' of JStr s \<Rightarrow> s | _ \<Rightarrow> []), p))
           | _ \<Rightarrow> Inl (ScopePolicyError ''STRATEGY_CONTRACT_UNAVAILABLE''))
      | _ \<Rightarrow> Inl (ScopePolicyError ''STRATEGY_VERSION_NOT_REGISTERED''))"

definition magic_registry_path :: "scope_host \<Rightarrow> dict \<Rightarrow> string scope_res" where
  "magic_registry_path h scope =
     (case path_override h ''host_magic_registry_path'' of
        Some p \<Rightarrow> Inr p
      | None \<Rightarrow>
          if truthy (dget scope ''host_magic_registry_path'') then config_path h (dget scope ''host_magic_registry_path'')
          else Inr (default_magic_registry h))"

text \<open>Price precision from the pinned metadata: pip and point size.\<close>

definition symbol_precision :: "dict \<Rightarrow> (rat \<times> rat) scope_res" where
  "symbol_precision expected =
     (if map_of expected ''digits'' = None then Inl (ScopePolicyError ''BROKER_SYMBOL_METADATA_UNAVAILABLE'')
      else case py_int (dget expected ''digits'') of
        Inl _ \<Rightarrow> Inl (ScopePolicyError ''BROKER_SYMBOL_METADATA_UNAVAILABLE'')
      | Inr digits \<Rightarrow>
          (case (if map_of expected ''point'' = None then invalid_scope else finite_positive (dget expected ''point'')) of
             Inl _ \<Rightarrow> Inl (ScopePolicyError ''BROKER_SYMBOL_METADATA_UNAVAILABLE'')
           | Inr point \<Rightarrow>
               if digits \<notin> {2, 3, 4, 5} then Inl (ScopePolicyError ''BROKER_SYMBOL_METADATA_UNAVAILABLE'')
               else Inr (fmul point (if digits = 3 \<or> digits = 5 then 10 else 1), point)))"

definition str_of :: "json \<Rightarrow> string" where
  "str_of v = (case v of JStr s \<Rightarrow> s | _ \<Rightarrow> [])"

definition scope_identifiers_ok :: "py_rt \<Rightarrow> dict \<Rightarrow> bool" where
  "scope_identifiers_ok rt scope =
     (list_all non_empty [dget scope ''strategy_id'', JStr (py_str rt (dget scope ''strategy_version'')), dget scope ''symbol'',
        dget scope ''session'', dget scope ''setup_branch''] \<and> direction_list (dget scope ''directions'') \<noteq> None)"

text \<open>The checks of the configuration file before any other file is read: the scope mapping.\<close>

definition scope_config :: "py_rt \<Rightarrow> dict \<Rightarrow> dict scope_res" where
  "scope_config rt raw =
     (if dget raw ''schema'' \<noteq> JStr ''AGP_C14_DEMO_SCOPE_V1'' \<or> (case dget raw ''enabled'' of JBool _ \<Rightarrow> False | _ \<Rightarrow> True) then invalid_scope
      else if \<not> digit_suffix (dget raw ''account_login_suffix'') then Inl (ScopePolicyError ''ACCOUNT_IDENTITY_UNPINNED'')
      else case dget raw ''scope'' of
        JDict scope \<Rightarrow>
          if list_ex (\<lambda>k. dget scope k = JNull \<or> dget scope k = JStr []) SCOPE_REQUIRED then invalid_scope
          else if \<not> scope_identifiers_ok rt scope then invalid_scope
          else Inr scope
      | _ \<Rightarrow> invalid_scope)"

text \<open>The contract of the registered candidate, its identity and its reserved magic number.\<close>

definition scope_contract :: "py_rt \<Rightarrow> scope_host \<Rightarrow> dict \<Rightarrow> (string \<times> string \<times> dict \<times> string \<times> string \<times> int) scope_res" where
  "scope_contract rt h scope =
     (let version = py_str rt (dget scope ''strategy_version'')
      in case selected_path h scope ''registry_path'' of Inl e \<Rightarrow> Inl e | Inr registry_file \<Rightarrow>
        (case load_yaml h registry_file ''STRATEGY_REGISTRY_UNREADABLE'' of Inl e \<Rightarrow> Inl e | Inr registry \<Rightarrow>
        (case registered_candidate h registry (str_of (dget scope ''strategy_id'')) version of Inl e \<Rightarrow> Inl e | Inr (identity, contract_file) \<Rightarrow>
        (case load_yaml h contract_file ''STRATEGY_CONTRACT_UNREADABLE'' of Inl e \<Rightarrow> Inl e | Inr contract \<Rightarrow>
          if py_str rt (dget contract ''version'') \<noteq> version then Inl (ScopePolicyError ''STRATEGY_CONTRACT_VERSION_MISMATCH'')
          else (case magic_registry_path h scope of Inl e \<Rightarrow> Inl e | Inr magic_file \<Rightarrow>
               (case load_host_magics rt h magic_file of Inl e \<Rightarrow> Inl e | Inr host_magics \<Rightarrow>
               (case reserved_magic_conflict (dget contract ''magic_number'') host_magics of
                  Some reason \<Rightarrow> Inl (ScopePolicyError reason)
                | None \<Rightarrow>
                    Inr (registry_file, contract_file, contract, identity, magic_file,
                         (case dget contract ''magic_number'' of JInt i \<Rightarrow> i | _ \<Rightarrow> 0)))))))))"

text \<open>The cost limits of the contract: spread in pips, spread as a fraction, slippage, signal expiry.\<close>

definition contract_costs :: "dict \<Rightarrow> (rat \<times> rat \<times> rat \<times> rat) scope_res" where
  "contract_costs contract =
     (case dget contract ''risk_and_money_management'' of
        JDict cost \<Rightarrow>
          (case finite_positive (dget cost ''max_spread_allowed_pips'') of Inl e \<Rightarrow> Inl e | Inr a \<Rightarrow>
          (case finite_positive (dget cost ''max_spread_fraction_of_stop'') of Inl e \<Rightarrow> Inl e | Inr b \<Rightarrow>
          (case finite_positive (dget cost ''slippage_limit_points'') of Inl e \<Rightarrow> Inl e | Inr c \<Rightarrow>
          (case finite_positive (dget cost ''signal_expiry_minutes'') of Inl e \<Rightarrow> Inl e | Inr d \<Rightarrow> Inr (a, b, c, d)))))
      | _ \<Rightarrow> Inl (ScopePolicyError ''STRATEGY_COST_POLICY_UNAVAILABLE''))"

text \<open>The broker symbol and server of the mapped instrument, with its pip and point size.\<close>

definition scope_symbol :: "scope_host \<Rightarrow> dict \<Rightarrow> (string \<times> string \<times> string \<times> rat \<times> rat) scope_res" where
  "scope_symbol h scope =
     (case selected_path h scope ''broker_symbol_map_path'' of Inl e \<Rightarrow> Inl e | Inr map_file \<Rightarrow>
     (case symbol_map_at h map_file of
        None \<Rightarrow> Inl (ScopePolicyError ''BROKER_SYMBOL_MAP_UNAVAILABLE'')
      | Some m \<Rightarrow>
          (case resolve_symbol m (str_of (dget scope ''symbol'')) of Inl e \<Rightarrow> Inl e | Inr (entry, bsym) \<Rightarrow>
             if bm_broker m \<noteq> JStr ''VT_MARKETS'' \<or> \<not> non_empty (bm_server m) \<or> \<not> contains ''demo'' (lower (str_of (bm_server m)))
             then Inl (ScopePolicyError ''BROKER_SYMBOL_MAP_NOT_DEMO'')
             else (case symbol_precision (me_expected entry) of
                Inl e \<Rightarrow> Inl e
              | Inr (pip, point) \<Rightarrow> Inr (map_file, bsym, str_of (bm_server m), pip, point)))))"

text \<open>The last checks: reset basis, notification policy, environment key, evidence number.\<close>

definition scope_policies_ok :: "dict \<Rightarrow> int scope_res" where
  "scope_policies_ok scope =
     (if dget scope ''daily_reset_basis'' \<noteq> JStr ''VT_SERVER_DAY'' \<or> dget scope ''daily_reset_owner_confirm'' \<noteq> JBool True
      then Inl (ScopePolicyError ''DAILY_RESET_POLICY_UNCONFIRMED'')
      else if dget scope ''notification_failure_policy'' \<notin> {JStr ''PENDING_OWNER'', JStr ''BLOCK_NEW_ORDERS''}
      then Inl (ScopePolicyError ''NOTIFICATION_FAILURE_POLICY_UNSUPPORTED'')
      else if \<not> (case dget scope ''authorization_path_env'' of JStr s \<Rightarrow> is_identifier s | _ \<Rightarrow> False) then invalid_scope
      else case dget scope ''evidence_pull_request'' of
        JInt i \<Rightarrow> if i \<le> 0 then invalid_scope else Inr i
      | _ \<Rightarrow> invalid_scope)"

definition load_scope_policy :: "py_rt \<Rightarrow> scope_host \<Rightarrow> string \<Rightarrow> scope_policy scope_res" where
  "load_scope_policy rt h cfg_path =
     (case load_yaml h cfg_path ''EXECUTION_SCOPE_UNREADABLE'' of Inl e \<Rightarrow> Inl e | Inr raw \<Rightarrow>
     (case scope_config rt raw of Inl e \<Rightarrow> Inl e | Inr scope \<Rightarrow>
     (case scope_contract rt h scope of Inl e \<Rightarrow> Inl e | Inr (registry_file, contract_file, contract, identity, magic_file, magic) \<Rightarrow>
     (case contract_costs contract of Inl e \<Rightarrow> Inl e | Inr (spread_pips, spread_fraction, slippage, expiry) \<Rightarrow>
     (case scope_symbol h scope of Inl e \<Rightarrow> Inl e | Inr (map_file, bsym, server, pip, point) \<Rightarrow>
     (case selected_path h scope ''ready_authority_config_path'' of Inl e \<Rightarrow> Inl e | Inr ready_file \<Rightarrow>
     (case selected_path h scope ''owner_decision_register_path'' of Inl e \<Rightarrow> Inl e | Inr owner_file \<Rightarrow>
     (case scope_policies_ok scope of Inl e \<Rightarrow> Inl e | Inr evidence_pr \<Rightarrow>
        Inr \<lparr>enabled = (dget raw ''enabled'' = JBool True), strategy_id = str_of (dget scope ''strategy_id''),
             strategy_version = py_str rt (dget scope ''strategy_version''), sp_symbol = str_of (dget scope ''symbol''),
             broker_symbol = bsym, session = str_of (dget scope ''session''), setup_branch = str_of (dget scope ''setup_branch''),
             directions = the (direction_list (dget scope ''directions'')), logic_identity = identity, magic_number = magic,
             sp_pip_size = pip, point_size = point, max_spread_allowed_pips = spread_pips,
             max_spread_fraction_of_stop = spread_fraction, slippage_limit_points = slippage, signal_expiry_minutes = expiry,
             daily_reset_basis = str_of (dget scope ''daily_reset_basis''), daily_reset_owner_confirm = True,
             notification_failure_policy = str_of (dget scope ''notification_failure_policy''),
             authorization_path_env = str_of (dget scope ''authorization_path_env''), evidence_pull_request = evidence_pr,
             registry_path = registry_file, contract_path = contract_file, broker_symbol_map_path = map_file,
             ready_authority_config_path = ready_file, owner_decision_register_path = owner_file, broker_server = server,
             account_login_suffix = str_of (dget raw ''account_login_suffix''), host_magic_registry_path = magic_file,
             per_order_confirm_required = (dget_or raw ''per_order_confirm_required'' (JBool True) \<noteq> JBool False)\<rparr>))))))))"

section \<open>Several scopes\<close>

type_synonym scope_tuple = "string \<times> string \<times> string \<times> string"

definition scope_key :: "scope_policy \<Rightarrow> scope_tuple" where
  "scope_key p = (strategy_id p, strategy_version p, sp_symbol p, session p)"

fun load_each :: "py_rt \<Rightarrow> scope_host \<Rightarrow> scope_tuple list \<Rightarrow> json list \<Rightarrow> scope_policy list scope_res" where
  "load_each rt h seen [] = Inr []"
| "load_each rt h seen (rel # rest) =
     (case config_path h rel of Inl e \<Rightarrow> Inl e | Inr cfg \<Rightarrow>
     (case load_scope_policy rt h cfg of Inl e \<Rightarrow> Inl e | Inr p \<Rightarrow>
        if scope_key p \<in> set seen then Inl (ScopePolicyError ''EXECUTION_SCOPE_DUPLICATE'')
        else (case load_each rt h (scope_key p # seen) rest of Inl e \<Rightarrow> Inl e | Inr ps \<Rightarrow> Inr (p # ps))))"

definition load_scope_policies :: "py_rt \<Rightarrow> scope_host \<Rightarrow> string \<Rightarrow> scope_policy list scope_res" where
  "load_scope_policies rt h manifest =
     (case load_yaml h manifest ''EXECUTION_SCOPE_UNREADABLE'' of Inl e \<Rightarrow> Inl e | Inr raw \<Rightarrow>
        (case dget raw ''scope_configs'' of
           JList configs \<Rightarrow>
             if dget raw ''schema'' \<noteq> JStr ''AGP_C14_DEMO_SCOPES_V1'' \<or> configs = [] \<or> \<not> list_all non_empty configs then invalid_scope
             else (case load_each rt h [] configs of Inl e \<Rightarrow> Inl e | Inr ps \<Rightarrow>
                if length (remdups (map (\<lambda>p. (account_login_suffix p, broker_server p)) ps)) \<noteq> 1
                then Inl (ScopePolicyError ''ACCOUNT_IDENTITY_CONFLICT'') else Inr ps)
         | _ \<Rightarrow> invalid_scope))"

definition select_scope :: "scope_policy list \<Rightarrow> scope_tuple \<Rightarrow> scope_policy scope_res" where
  "select_scope policies key =
     (case policies of
        [] \<Rightarrow> invalid_scope
      | p # _ \<Rightarrow> (case find (\<lambda>q. scope_key q = key) policies of Some q \<Rightarrow> Inr q | None \<Rightarrow> Inr p))"

definition resolve_ticket_scope_policy :: "py_rt \<Rightarrow> scope_host \<Rightarrow> string option \<Rightarrow> string \<Rightarrow> dict \<Rightarrow> scope_policy scope_res" where
  "resolve_ticket_scope_policy rt h config manifest ticket =
     (case config of
        Some cfg \<Rightarrow> load_scope_policy rt h cfg
      | None \<Rightarrow>
          (case load_scope_policies rt h manifest of Inl e \<Rightarrow> Inl e | Inr ps \<Rightarrow>
             select_scope ps (py_str rt (dget ticket ''strategy_id''), py_str rt (dget ticket ''strategy_version''),
                              py_str rt (dget ticket ''symbol''), py_str rt (dget_or ticket ''cycle'' (dget ticket ''session'')))))"

section \<open>Lemmas\<close>

text \<open>What every loaded scope satisfies.\<close>

definition sound_scope :: "scope_policy \<Rightarrow> bool" where
  "sound_scope p \<longleftrightarrow>
     0 < magic_number p \<and> contains ''demo'' (lower (broker_server p)) \<and> list_all is_digit (account_login_suffix p) \<and>
     3 \<le> length (account_login_suffix p) \<and> directions p \<noteq> [] \<and> distinct (directions p) \<and> set (directions p) \<subseteq> {''LONG'', ''SHORT''} \<and>
     length (logic_identity p) = 64 \<and> 0 < max_spread_allowed_pips p \<and> 0 < max_spread_fraction_of_stop p \<and>
     0 < slippage_limit_points p \<and> 0 < signal_expiry_minutes p \<and> 0 < point_size p \<and> daily_reset_basis p = ''VT_SERVER_DAY'' \<and>
     non_blank (strategy_id p) \<and> non_blank (strategy_version p) \<and> non_blank (sp_symbol p) \<and> non_blank (session p) \<and> non_blank (setup_branch p)"

lemma finite_positive_pos: "finite_positive v = Inr x \<Longrightarrow> 0 < x"
  by (auto simp: finite_positive_def invalid_scope_def split: json.splits sum.splits if_splits)

lemma contract_costs_pos: "contract_costs c = Inr (a, b, s, e) \<Longrightarrow> 0 < a \<and> 0 < b \<and> 0 < s \<and> 0 < e"
  by (auto simp: contract_costs_def split: json.splits sum.splits dest: finite_positive_pos)

lemma symbol_precision_pos: "symbol_precision d = Inr (pip, point) \<Longrightarrow> 0 < point"
  by (auto simp: symbol_precision_def invalid_scope_def split: sum.splits if_splits dest: finite_positive_pos)

lemma scope_symbol_demo: "scope_symbol h s = Inr (m, b, srv, pip, point) \<Longrightarrow> 0 < point \<and> contains ''demo'' (lower srv)"
  by (auto simp: scope_symbol_def split: sum.splits option.splits if_splits dest: symbol_precision_pos)

lemma direction_list_ok:
  assumes "direction_list v = Some ds"
  shows "ds \<noteq> [] \<and> distinct ds \<and> set ds \<subseteq> {''LONG'', ''SHORT''}"
proof -
  from assms obtain xs where x: "xs \<noteq> []" "list_all (\<lambda>x. x = JStr ''LONG'' \<or> x = JStr ''SHORT'') xs" "distinct xs"
    "ds = map (\<lambda>x. case x of JStr s \<Rightarrow> s | _ \<Rightarrow> []) xs"
    by (auto simp: direction_list_def split: json.splits if_splits)
  have "inj_on (\<lambda>x. case x of JStr s \<Rightarrow> s | _ \<Rightarrow> []) (set xs)" using x(2) by (auto simp: inj_on_def list_all_iff split: json.splits)
  then show ?thesis using x by (auto simp: distinct_map list_all_iff)
qed

lemma non_empty_str_of: "non_empty v \<Longrightarrow> non_blank (str_of v)"
  by (auto simp: non_empty_def str_of_def split: json.splits)

lemma scope_config_ok:
  assumes "scope_config rt raw = Inr scope"
  shows "digit_suffix (dget raw ''account_login_suffix'')" "scope_identifiers_ok rt scope"
  using assms by (auto simp: scope_config_def invalid_scope_def split: if_splits json.splits)

lemma is_identity_length: "is_identity v \<Longrightarrow> v = JStr s \<Longrightarrow> length s = 64"
  by (simp add: is_identity_def)

lemma registered_candidate_identity:
  assumes "registered_candidate h r s v = Inr (identity, p)"
  shows "length identity = 64"
  using assms unfolding registered_candidate_def
  by (auto simp: is_identity_def split: json.splits if_splits sum.splits)

lemma scope_contract_ok:
  assumes "scope_contract rt h scope = Inr (rf, cf, contract, identity, mf, magic)"
  shows "length identity = 64" "0 < magic" "\<exists>ms. load_host_magics rt h mf = Inr ms \<and> magic \<notin> set ms"
  using assms
  by (auto simp: scope_contract_def Let_def reserved_magic_conflict_def dest: registered_candidate_identity
      split: sum.splits if_splits option.splits json.splits)

lemma digit_suffix_str: "digit_suffix v \<Longrightarrow> list_all is_digit (str_of v) \<and> 3 \<le> length (str_of v)"
  by (auto simp: digit_suffix_def str_of_def split: json.splits)

lemma scope_identifiers:
  assumes "scope_identifiers_ok rt scope"
  shows "\<exists>ds. direction_list (dget scope ''directions'') = Some ds"
    "list_all (\<lambda>k. non_blank (str_of (dget scope k))) [''strategy_id'', ''symbol'', ''session'', ''setup_branch'']"
    "non_blank (py_str rt (dget scope ''strategy_version''))"
  using assms by (auto simp: scope_identifiers_ok_def non_empty_str_of) (simp add: non_empty_def)

lemma load_scope_policy_parts:
  assumes "load_scope_policy rt h cfg = Inr p"
  obtains raw scope rf cf contract identity mf magic where
    "load_yaml h cfg ''EXECUTION_SCOPE_UNREADABLE'' = Inr raw" "scope_config rt raw = Inr scope"
    "scope_contract rt h scope = Inr (rf, cf, contract, identity, mf, magic)"
    "contract_costs contract = Inr (max_spread_allowed_pips p, max_spread_fraction_of_stop p, slippage_limit_points p, signal_expiry_minutes p)"
    "\<exists>m. scope_symbol h scope = Inr (m, broker_symbol p, broker_server p, sp_pip_size p, point_size p)"
    "\<exists>i. scope_policies_ok scope = Inr i"
    "magic_number p = magic" "logic_identity p = identity" "host_magic_registry_path p = mf"
    "account_login_suffix p = str_of (dget raw ''account_login_suffix'')"
    "directions p = the (direction_list (dget scope ''directions''))" "strategy_id p = str_of (dget scope ''strategy_id'')"
    "strategy_version p = py_str rt (dget scope ''strategy_version'')" "sp_symbol p = str_of (dget scope ''symbol'')"
    "session p = str_of (dget scope ''session'')" "setup_branch p = str_of (dget scope ''setup_branch'')"
    "daily_reset_basis p = str_of (dget scope ''daily_reset_basis'')"
  using assms unfolding load_scope_policy_def by (auto split: sum.splits prod.splits)

lemma policies_ok_basis: "scope_policies_ok scope = Inr i \<Longrightarrow> str_of (dget scope ''daily_reset_basis'') = ''VT_SERVER_DAY''"
  by (auto simp: scope_policies_ok_def str_of_def split: if_splits)

lemma load_scope_policy_sound:
  assumes "load_scope_policy rt h cfg = Inr p"
  shows "sound_scope p" "\<exists>ms. load_host_magics rt h (host_magic_registry_path p) = Inr ms \<and> magic_number p \<notin> set ms"
proof -
  show "sound_scope p"
    using assms
  proof (rule load_scope_policy_parts)
    fix raw scope rf cf contract identity mf magic
    assume p: "scope_config rt raw = Inr scope" "scope_contract rt h scope = Inr (rf, cf, contract, identity, mf, magic)"
      "contract_costs contract = Inr (max_spread_allowed_pips p, max_spread_fraction_of_stop p, slippage_limit_points p, signal_expiry_minutes p)"
      "\<exists>m. scope_symbol h scope = Inr (m, broker_symbol p, broker_server p, sp_pip_size p, point_size p)"
      "\<exists>i. scope_policies_ok scope = Inr i" "magic_number p = magic" "logic_identity p = identity"
      "account_login_suffix p = str_of (dget raw ''account_login_suffix'')"
      "directions p = the (direction_list (dget scope ''directions''))" "strategy_id p = str_of (dget scope ''strategy_id'')"
      "strategy_version p = py_str rt (dget scope ''strategy_version'')" "sp_symbol p = str_of (dget scope ''symbol'')"
      "session p = str_of (dget scope ''session'')" "setup_branch p = str_of (dget scope ''setup_branch'')"
      "daily_reset_basis p = str_of (dget scope ''daily_reset_basis'')"
    note c = scope_config_ok [OF p(1)]
    obtain ds where d: "direction_list (dget scope ''directions'') = Some ds" using scope_identifiers(1) [OF c(2)] by blast
    show "sound_scope p"
      using digit_suffix_str [OF c(1)] scope_identifiers(2,3) [OF c(2)] direction_list_ok [OF d] scope_contract_ok(1,2) [OF p(2)]
        contract_costs_pos [OF p(3)] p(4-) d
      by (auto simp: sound_scope_def dest: scope_symbol_demo policies_ok_basis)
  qed
  show "\<exists>ms. load_host_magics rt h (host_magic_registry_path p) = Inr ms \<and> magic_number p \<notin> set ms"
    using assms by (rule load_scope_policy_parts) (use scope_contract_ok(3) in auto)
qed

lemma load_each_ok:
  "load_each rt h seen cs = Inr ps \<Longrightarrow>
     distinct (map scope_key ps) \<and> (\<forall>p \<in> set ps. scope_key p \<notin> set seen \<and> (\<exists>cfg. load_scope_policy rt h cfg = Inr p)) \<and> length ps = length cs"
proof (induction cs arbitrary: seen ps)
  case (Cons c cs)
  from Cons.prems obtain cfg p qs where c: "load_scope_policy rt h cfg = Inr p" "scope_key p \<notin> set seen"
    "load_each rt h (scope_key p # seen) cs = Inr qs" "ps = p # qs"
    by (auto split: sum.splits if_splits)
  from Cons.IH [OF c(3)] c(1,2,4) show ?case by auto
qed simp

lemma load_scope_policies_ok:
  assumes "load_scope_policies rt h manifest = Inr ps"
  shows "ps \<noteq> []" "distinct (map scope_key ps)" "\<forall>p \<in> set ps. \<exists>cfg. load_scope_policy rt h cfg = Inr p"
    "\<forall>p \<in> set ps. \<forall>q \<in> set ps. account_login_suffix p = account_login_suffix q \<and> broker_server p = broker_server q"
proof -
  from assms obtain raw configs where c: "load_each rt h [] configs = Inr ps" "configs \<noteq> []"
    "length (remdups (map (\<lambda>p. (account_login_suffix p, broker_server p)) ps)) = 1"
    by (auto simp: load_scope_policies_def invalid_scope_def split: sum.splits json.splits if_splits)
  note e = load_each_ok [OF c(1)]
  show "ps \<noteq> []" using c(2) e by auto
  show "distinct (map scope_key ps)" "\<forall>p \<in> set ps. \<exists>cfg. load_scope_policy rt h cfg = Inr p" using e by blast+
  obtain x where "remdups (map (\<lambda>p. (account_login_suffix p, broker_server p)) ps) = [x]" using c(3) by (auto simp: length_Suc_conv)
  then have "set (map (\<lambda>p. (account_login_suffix p, broker_server p)) ps) = {x}" by (metis set_remdups list.set(1) list.simps(15))
  then have "(account_login_suffix p, broker_server p) = x" if "p \<in> set ps" for p using that by auto
  then show "\<forall>p \<in> set ps. \<forall>q \<in> set ps. account_login_suffix p = account_login_suffix q \<and> broker_server p = broker_server q"
    by (metis Pair_inject)
qed

lemma find_member: "find P xs = Some x \<Longrightarrow> x \<in> set xs \<and> P x"
  by (induction xs) (auto split: if_splits)

lemma select_scope_member:
  assumes "select_scope ps k = Inr p"
  shows "p \<in> set ps" "\<exists>q \<in> set ps. scope_key q = k \<Longrightarrow> scope_key p = k"
proof -
  from assms obtain q qs where q: "ps = q # qs" by (auto simp: select_scope_def invalid_scope_def split: list.splits)
  show "p \<in> set ps" "\<exists>q \<in> set ps. scope_key q = k \<Longrightarrow> scope_key p = k"
    using assms find_member [of "\<lambda>q. scope_key q = k" ps] unfolding select_scope_def q list.case
    by (auto simp: find_None_iff split: option.splits simp del: find.simps)
qed

section \<open>Properties\<close>

text \<open>Whatever the configuration files hold, a scope that is resolved for a ticket
  reserves a positive magic number that the host registry does not list, is bound to a DEMO server and
  a pinned login suffix, has limits that are positive and finite, and admits only LONG and SHORT.\<close>

theorem scope_resolution_sound:
  assumes "resolve_ticket_scope_policy rt h config manifest ticket = Inr p"
  shows "sound_scope p \<and> (\<exists>ms. load_host_magics rt h (host_magic_registry_path p) = Inr ms \<and> magic_number p \<notin> set ms)"
proof -
  have "\<exists>cfg. load_scope_policy rt h cfg = Inr p"
    using assms load_scope_policies_ok(3) select_scope_member(1)
    by (fastforce simp: resolve_ticket_scope_policy_def split: option.splits sum.splits)
  then show ?thesis using load_scope_policy_sound by blast
qed

text \<open>The scopes of a manifest have distinct identity tuples and one DEMO account,
  and a ticket whose tuple is configured is given exactly the scope with that tuple.\<close>

theorem scopes_unambiguous:
  assumes "load_scope_policies rt h manifest = Inr ps" "p \<in> set ps"
  shows "select_scope ps (scope_key p) = Inr p \<and> (\<forall>q \<in> set ps. account_login_suffix q = account_login_suffix p \<and> broker_server q = broker_server p)"
proof -
  note o = load_scope_policies_ok [OF assms(1)]
  obtain q where q: "select_scope ps (scope_key p) = Inr q"
    using o(1) by (cases ps; cases "find (\<lambda>q. scope_key q = scope_key p) ps") (auto simp: select_scope_def)
  have "scope_key q = scope_key p" "q \<in> set ps" using select_scope_member [OF q] assms(2) by blast+
  then have "q = p" using o(2) assms(2) by (auto simp: distinct_map dest: inj_onD)
  with q o(4) assms(2) show ?thesis by blast
qed

section \<open>A concrete configuration\<close>

definition demo_files :: dict where
  "demo_files =
    [(''scopes'', JDict [(''schema'', JStr ''AGP_C14_DEMO_SCOPES_V1''), (''scope_configs'', JList [JStr ''s1''])]),
     (''s1'', JDict [(''schema'', JStr ''AGP_C14_DEMO_SCOPE_V1''), (''enabled'', JBool True), (''per_order_confirm_required'', JBool True),
        (''account_login_suffix'', JStr ''999''),
        (''scope'', JDict [(''strategy_id'', JStr ''ST_ASIAN_SWEEP_5R_V1''), (''strategy_version'', JStr ''1.1.2''), (''symbol'', JStr ''GBPUSD''),
           (''session'', JStr ''LONDON''), (''setup_branch'', JStr ''SWEEP''), (''directions'', JList [JStr ''LONG'', JStr ''SHORT'']),
           (''registry_path'', JStr ''registry''), (''broker_symbol_map_path'', JStr ''map''),
           (''host_magic_registry_path'', JStr ''magics''), (''ready_authority_config_path'', JStr ''ready''),
           (''owner_decision_register_path'', JStr ''owner''), (''authorization_path_env'', JStr ''AGP_AUTH''),
           (''evidence_pull_request'', JInt 142), (''daily_reset_basis'', JStr ''VT_SERVER_DAY''),
           (''daily_reset_owner_confirm'', JBool True), (''notification_failure_policy'', JStr ''BLOCK_NEW_ORDERS'')])]),
     (''registry'', JDict [(''strategies'', JDict [(''ST_ASIAN_SWEEP_5R_V1'', JDict [(''candidate_versions'', JDict [(''1.1.2'',
        JDict [(''logic_status'', JStr ''LOGIC_VERIFIED''), (''logic_verified_identity'', JStr demo_identity),
               (''config_source'', JStr ''contract'')])])])])]),
     (''contract'', JDict [(''version'', JStr ''1.1.2''), (''magic_number'', JInt 77),
        (''risk_and_money_management'', JDict [(''max_spread_allowed_pips'', JFloat 2), (''max_spread_fraction_of_stop'', JFloat (1 / 4)),
           (''slippage_limit_points'', JInt 20), (''signal_expiry_minutes'', JInt 15)])]),
     (''magics'', JDict [(''schema'', JStr HOST_MAGIC_SCHEMA), (''observed_at_utc'', JStr ''2026-01-01''),
        (''magics_in_use_on_host'', JList [JInt 0, JDict [(''magic'', JInt 12), (''source'', JStr ''ea'')]])])]"

definition demo_yaml :: "string \<Rightarrow> json option" where
  "demo_yaml p = map_of demo_files p"

definition demo_map :: broker_map where
  "demo_map = \<lparr>bm_broker = JStr ''VT_MARKETS'', bm_server = JStr ''VTMarkets-Demo'',
     bm_entries = [(''GBPUSD'', \<lparr>me_status = ''MAPPED'', me_broker_symbol = JStr ''GBPUSD-VIP'',
        me_expected = [(''digits'', JInt 5), (''point'', JFloat (fl (1 / 100000)))], me_data_error = False\<rparr>)]\<rparr>"

definition demo_symbol_map :: "string \<Rightarrow> broker_map option" where
  "demo_symbol_map p = (if p = ''map'' then Some demo_map else None)"

definition demo_abs :: "string \<Rightarrow> string" where
  "demo_abs p = p"

definition demo_under :: "string \<Rightarrow> bool" where
  "demo_under p = True"

definition demo_override :: "string \<Rightarrow> string option" where
  "demo_override p = None"

definition demo_host :: scope_host where
  "demo_host = \<lparr>yaml_at = demo_yaml, abs_path = demo_abs, under_root_path = demo_under, symbol_map_at = demo_symbol_map,
     path_override = demo_override, default_magic_registry = ''magics''\<rparr>"

lemma demo_scopes_load:
  obtains ps where "load_scope_policies weight_rt demo_host ''scopes'' = Inr ps" "ps \<noteq> []"
proof -
  have "case load_scope_policies weight_rt demo_host ''scopes'' of Inr ps \<Rightarrow> ps \<noteq> [] | Inl _ \<Rightarrow> False" by code_simp
  then show ?thesis using that by (auto split: sum.splits)
qed

theorem scope_resolution_sound_witness:
  "\<exists>p. resolve_ticket_scope_policy weight_rt demo_host None ''scopes'' demo_ticket = Inr p \<and> sound_scope p"
proof -
  have "case resolve_ticket_scope_policy weight_rt demo_host None ''scopes'' demo_ticket of Inr _ \<Rightarrow> True | Inl _ \<Rightarrow> False" by code_simp
  then obtain p where p: "resolve_ticket_scope_policy weight_rt demo_host None ''scopes'' demo_ticket = Inr p" by (auto split: sum.splits)
  from scope_resolution_sound [OF p] p show ?thesis by blast
qed

theorem scopes_unambiguous_witness:
  "\<exists>ps p. load_scope_policies weight_rt demo_host ''scopes'' = Inr ps \<and> p \<in> set ps \<and> select_scope ps (scope_key p) = Inr p"
proof (rule demo_scopes_load)
  fix ps assume l: "load_scope_policies weight_rt demo_host ''scopes'' = Inr ps" "ps \<noteq> []"
  then have h: "hd ps \<in> set ps" by simp
  from scopes_unambiguous [OF l(1) h] l(1) h show ?thesis by blast
qed

end
