(* ===== verification/Authorization.thy ===== *)
theory Authorization
  imports Exec_Scope
begin

text \<open>
  The standing authorization record (src/src/demo\_execution/authorization.py) and the pre-order
  notification receipt (src/src/demo\_execution/notification.py). The authorization file is what the
  host finds at the resolved path.
\<close>

section \<open>Standing authorization\<close>

record authorization_result =
  authorized :: bool
  ar_reason_code :: string
  decision_id :: "string option"
  granted_at :: "datetime option"

definition auth_refused :: "string \<Rightarrow> authorization_result" where
  "auth_refused reason = \<lparr>authorized = False, ar_reason_code = reason, decision_id = None, granted_at = None\<rparr>"

definition AUTH_SCHEMA :: string where "AUTH_SCHEMA = ''AGP_STANDING_DEMO_AUTHORIZATION_V1''"
definition AUTH_CONTAINER_SCHEMA :: string where "AUTH_CONTAINER_SCHEMA = ''AGP_STANDING_DEMO_AUTHORIZATIONS_V1''"

definition AUTH_MATCH_KEYS :: "string list" where
  "AUTH_MATCH_KEYS = [''strategy'', ''version'', ''symbol'', ''session'', ''branch'', ''direction'']"

definition AUTH_REQUIRED_KEYS :: "string list" where
  "AUTH_REQUIRED_KEYS =
    [''schema'', ''strategy'', ''version'', ''symbol'', ''session'', ''branch'', ''direction'', ''logic_identity'', ''granted_at'',
     ''revoked_at'', ''decision_id'', ''emergency_stop'']"

definition scope_match :: "scope_policy \<Rightarrow> dict \<Rightarrow> json list" where
  "scope_match scope ticket =
     [JStr (strategy_id scope), JStr (strategy_version scope), JStr (sp_symbol scope), JStr (session scope),
      JStr (setup_branch scope), dget ticket ''direction'']"

definition validate_standing_authorization ::
  "dict \<Rightarrow> scope_policy \<Rightarrow> dict \<Rightarrow> datetime option \<Rightarrow> authorization_result res" where
  "validate_standing_authorization r scope ticket now_utc =
     (if \<not> same_keys r AUTH_REQUIRED_KEYS \<or> dget r ''schema'' \<noteq> JStr AUTH_SCHEMA then Inr (auth_refused ''AUTHORIZATION_INVALID'')
      else case dget r ''emergency_stop'' of
        JBool stop \<Rightarrow>
          if \<not> non_empty (dget r ''decision_id'') then Inr (auth_refused ''AUTHORIZATION_INVALID'')
          else (case as_utc (dget r ''granted_at'') of
             Inl e \<Rightarrow> Inl e
           | Inr gr \<Rightarrow>
               (case (gr, now_utc) of
                  (Some g, Some now) \<Rightarrow>
                    (case (if dget r ''revoked_at'' = JNull then Inr (Some 0) else as_utc (dget r ''revoked_at'')) of
                       Inl e \<Rightarrow> Inl e
                     | Inr None \<Rightarrow> Inr (auth_refused ''AUTHORIZATION_INVALID'')
                     | Inr (Some _) \<Rightarrow>
                         let result = (\<lambda>b reason. \<lparr>authorized = b, ar_reason_code = reason,
                                         decision_id = Some (str_of (dget r ''decision_id'')), granted_at = Some g\<rparr>)
                         in Inr (if stop then result False ''EMERGENCY_STOP_ENGAGED''
                                 else if dget r ''revoked_at'' \<noteq> JNull then result False ''AUTHORIZATION_REVOKED''
                                 else if now < g then result False ''AUTHORIZATION_NOT_YET_VALID''
                                 else if map (dget r) AUTH_MATCH_KEYS \<noteq> scope_match scope ticket
                                         \<or> dget r ''logic_identity'' \<noteq> JStr (logic_identity scope)
                                 then result False ''AUTHORIZATION_SCOPE_MISMATCH''
                                 else result True ''STANDING_DEMO_AUTHORIZATION_MATCHED''))
                | _ \<Rightarrow> Inr (auth_refused ''AUTHORIZATION_INVALID'')))
      | _ \<Rightarrow> Inr (auth_refused ''AUTHORIZATION_INVALID''))"

text \<open>The record of a container that matches, or the refusal.\<close>

definition select_container_record :: "dict \<Rightarrow> scope_policy \<Rightarrow> dict \<Rightarrow> authorization_result + dict" where
  "select_container_record container scope ticket =
     (case dget container ''records'' of
        JList vs \<Rightarrow>
          (case dict_rows vs of
             None \<Rightarrow> Inl (auth_refused ''AUTHORIZATION_INVALID'')
           | Some rs \<Rightarrow>
               if \<not> same_keys container [''schema'', ''records''] then Inl (auth_refused ''AUTHORIZATION_INVALID'')
               else (case filter (\<lambda>r. map (dget r) AUTH_MATCH_KEYS = scope_match scope ticket) rs of
                  [] \<Rightarrow> Inl (auth_refused ''AUTHORIZATION_SCOPE_MISMATCH'')
                | [r] \<Rightarrow> Inr r
                | _ \<Rightarrow> Inl (auth_refused ''AUTHORIZATION_INVALID'')))
      | _ \<Rightarrow> Inl (auth_refused ''AUTHORIZATION_INVALID''))"

text \<open>What reading the record gives: no usable path, no file, an unreadable one, or a JSON value.\<close>

datatype auth_file = PathInvalid | AuthMissing | AuthUnreadable | AuthJson json

definition load_standing_authorization :: "auth_file \<Rightarrow> scope_policy \<Rightarrow> dict \<Rightarrow> datetime option \<Rightarrow> authorization_result res" where
  "load_standing_authorization f scope ticket now_utc =
     (case f of
        PathInvalid \<Rightarrow> Inr (auth_refused ''AUTHORIZATION_PATH_INVALID'')
      | AuthMissing \<Rightarrow> Inr (auth_refused ''AUTHORIZATION_MISSING'')
      | AuthUnreadable \<Rightarrow> Inr (auth_refused ''AUTHORIZATION_INVALID'')
      | AuthJson v \<Rightarrow>
          (case v of
             JDict r \<Rightarrow>
               if dget r ''schema'' = JStr AUTH_CONTAINER_SCHEMA
               then (case select_container_record r scope ticket of
                       Inl refusal \<Rightarrow> Inr refusal
                     | Inr r' \<Rightarrow> validate_standing_authorization r' scope ticket now_utc)
               else validate_standing_authorization r scope ticket now_utc
           | _ \<Rightarrow> Inr (auth_refused ''AUTHORIZATION_INVALID'')))"

section \<open>The pre-order notice\<close>

definition NOTICE_KIND :: string where "NOTICE_KIND = ''S1_PRE_ORDER_TELEGRAM_NOTICE''"

definition NOTICE_KEYS :: "string list" where
  "NOTICE_KEYS =
    [''ticket_id'', ''strategy_id'', ''strategy_version'', ''symbol'', ''cycle'', ''setup'', ''direction'', ''logic_identity'',
     ''entry'', ''stop_loss'', ''signal_close_utc'', ''valid_until'']"

definition notice_binding :: "py_rt \<Rightarrow> dict \<Rightarrow> string" where
  "notice_binding rt ticket = sha256 rt (JDict (project NOTICE_KEYS ticket))"

text \<open>\<open>_utc\<close>; here, too, an instant outside the calendar raises.\<close>

definition check_receipt :: "py_rt \<Rightarrow> dict \<Rightarrow> dict \<Rightarrow> datetime option \<Rightarrow> string option res" where
  "check_receipt rt r ticket now_utc =
     (if \<not> valid_outcome rt r NOTICE_KIND \<or> dget r ''source'' \<noteq> JStr ''LIVE'' then Inr (Some ''PRE_ORDER_NOTIFICATION_INVALID'')
      else case dget r ''payload'' of
        JDict p \<Rightarrow>
          if dget r ''ticket_id'' \<noteq> dget ticket ''ticket_id'' \<or> dget p ''ticket_binding'' \<noteq> JStr (notice_binding rt ticket)
          then Inr (Some ''PRE_ORDER_NOTIFICATION_TICKET_MISMATCH'')
          else (case as_utc (dget r ''recorded_at_utc'') of Inl e \<Rightarrow> Inl e | Inr observed \<Rightarrow>
               (case as_utc (if truthy (dget ticket ''created_at'') then dget ticket ''created_at'' else dget ticket ''evaluated_at'') of
                  Inl e \<Rightarrow> Inl e | Inr created \<Rightarrow>
               (case as_utc (dget ticket ''valid_until'') of Inl e \<Rightarrow> Inl e | Inr expiry \<Rightarrow>
                  (case (observed, now_utc, created, expiry) of
                     (Some ob, Some n, Some c, Some x) \<Rightarrow>
                       if \<not> (c \<le> ob \<and> ob \<le> n \<and> n \<le> x) then Inr (Some ''PRE_ORDER_NOTIFICATION_TIMESTAMP_INVALID'')
                       else if dget r ''result'' \<noteq> JStr ''DELIVERED'' \<or> dget p ''delivered'' \<noteq> JBool True
                       then Inr (Some ''PRE_ORDER_NOTIFICATION_NOT_DELIVERED'')
                       else if dget p ''channel'' \<noteq> JStr ''TELEGRAM'' \<or> dget p ''api_ok'' \<noteq> JBool True
                               \<or> (case dget p ''message_id'' of JInt i \<Rightarrow> i \<le> 0 | _ \<Rightarrow> True)
                       then Inr (Some ''PRE_ORDER_NOTIFICATION_INVALID'')
                       else Inr None
                   | _ \<Rightarrow> Inr (Some ''PRE_ORDER_NOTIFICATION_TIMESTAMP_INVALID'')))))
      | _ \<Rightarrow> Inr (Some ''PRE_ORDER_NOTIFICATION_INVALID''))"

definition check_notification_failure_policy :: "py_rt \<Rightarrow> string \<Rightarrow> dict option \<Rightarrow> dict \<Rightarrow> datetime option \<Rightarrow> string option res" where
  "check_notification_failure_policy rt policy evidence ticket now_utc =
     (if policy = ''PENDING_OWNER'' then Inr (Some ''NOTIFICATION_FAILURE_POLICY_PENDING_OWNER'')
      else if policy \<noteq> ''BLOCK_NEW_ORDERS'' then Inr (Some ''NOTIFICATION_FAILURE_POLICY_UNRESOLVED'')
      else case evidence of
        None \<Rightarrow> Inr (Some ''PRE_ORDER_NOTIFICATION_MISSING'')
      | Some r \<Rightarrow> check_receipt rt r ticket now_utc)"

fun receipt_times :: "dict list \<Rightarrow> (datetime \<times> dict) list option res" where
  "receipt_times [] = Inr (Some [])"
| "receipt_times (r # rs) =
     (case as_utc (dget r ''recorded_at_utc'') of
        Inl e \<Rightarrow> Inl e
      | Inr None \<Rightarrow> Inr None
      | Inr (Some t) \<Rightarrow>
          (case receipt_times rs of Inl e \<Rightarrow> Inl e | Inr None \<Rightarrow> Inr None | Inr (Some ts) \<Rightarrow> Inr (Some ((t, r) # ts))))"

definition notification_gate :: "py_rt \<Rightarrow> string \<Rightarrow> ticket_store option \<Rightarrow> dict \<Rightarrow> datetime option \<Rightarrow> string option res" where
  "notification_gate rt policy store ticket now_utc =
     (if policy \<noteq> ''BLOCK_NEW_ORDERS'' then check_notification_failure_policy rt policy None ticket now_utc
      else case store of
        None \<Rightarrow> Inr (Some ''PRE_ORDER_NOTIFICATION_MISSING'')
      | Some st \<Rightarrow>
          (let tid = (let v = dget ticket ''ticket_id'' in if truthy v then py_str rt v else [])
           in case outcomes st tid of
                Inl e \<Rightarrow> if write_caught e \<or> e = TypeError then Inr (Some ''PRE_ORDER_NOTIFICATION_INVALID'') else Inl e
              | Inr rows \<Rightarrow>
                  (case of_kind NOTICE_KIND rows of
                     [] \<Rightarrow> Inr (Some ''PRE_ORDER_NOTIFICATION_MISSING'')
                   | rs \<Rightarrow>
                       (case receipt_times rs of
                          Inl e \<Rightarrow> Inl e
                        | Inr None \<Rightarrow> Inr (Some ''PRE_ORDER_NOTIFICATION_INVALID'')
                        | Inr (Some ts) \<Rightarrow>
                            (let latest = first_max fst (hd ts) (tl ts)
                             in if 1 < length (filter (\<lambda>(t, _). t = fst latest) ts) then Inr (Some ''PRE_ORDER_NOTIFICATION_INVALID'')
                                else check_notification_failure_policy rt policy (Some (snd latest)) ticket now_utc)))))"

section \<open>Lemmas\<close>

lemma validated:
  assumes "validate_standing_authorization r scope ticket now_utc = Inr a" "authorized a"
  shows "\<exists>g now. as_utc (dget r ''granted_at'') = Inr (Some g) \<and> now_utc = Some now \<and> g \<le> now"
    "dget r ''emergency_stop'' = JBool False" "dget r ''revoked_at'' = JNull"
    "map (dget r) AUTH_MATCH_KEYS = scope_match scope ticket" "dget r ''logic_identity'' = JStr (logic_identity scope)"
    "decision_id a = Some (str_of (dget r ''decision_id''))" "non_empty (dget r ''decision_id'')"
proof -
  obtain stop where s: "dget r ''emergency_stop'' = JBool stop"
    using assms by (cases "dget r ''emergency_stop''") (auto simp: validate_standing_authorization_def auth_refused_def split: if_splits)
  obtain gr where g: "as_utc (dget r ''granted_at'') = Inr gr"
    using assms s by (cases "as_utc (dget r ''granted_at'')") (auto simp: validate_standing_authorization_def auth_refused_def split: if_splits)
  show "\<exists>g now. as_utc (dget r ''granted_at'') = Inr (Some g) \<and> now_utc = Some now \<and> g \<le> now"
    "dget r ''emergency_stop'' = JBool False" "dget r ''revoked_at'' = JNull"
    "map (dget r) AUTH_MATCH_KEYS = scope_match scope ticket" "dget r ''logic_identity'' = JStr (logic_identity scope)"
    "decision_id a = Some (str_of (dget r ''decision_id''))" "non_empty (dget r ''decision_id'')"
    using assms s g
    by (auto simp: validate_standing_authorization_def auth_refused_def Let_def split: if_splits sum.splits option.splits)
qed

lemma auth_refused_not [simp]: "authorized (auth_refused x) = False"
  by (simp add: auth_refused_def)

lemma select_container_refuses: "select_container_record c s t = Inl x \<Longrightarrow> \<not> authorized x"
  by (auto simp: select_container_record_def split: json.splits option.splits if_splits list.splits)

lemma select_container_sole:
  assumes "select_container_record c scope ticket = Inr r"
  shows "\<exists>vs. dget c ''records'' = JList vs \<and> JDict r \<in> set vs \<and>
    length (filter (\<lambda>v. \<exists>q. v = JDict q \<and> map (dget q) AUTH_MATCH_KEYS = scope_match scope ticket) vs) = 1"
proof -
  from assms obtain vs rs where v: "dget c ''records'' = JList vs" "dict_rows vs = Some rs"
    "filter (\<lambda>r. map (dget r) AUTH_MATCH_KEYS = scope_match scope ticket) rs = [r]"
    by (auto simp: select_container_record_def split: json.splits option.splits if_splits list.splits)
  have "r \<in> set (filter (\<lambda>r. map (dget r) AUTH_MATCH_KEYS = scope_match scope ticket) rs)" by (simp only: v(3)) simp
  then have "r \<in> set rs" by simp
  moreover have "vs = map JDict rs" by (rule dict_rows_Some [OF v(2)])
  ultimately show ?thesis using v by (simp add: filter_map comp_def)
qed

lemma receipt_times_ok:
  "receipt_times rs = Inr (Some ts) \<Longrightarrow> map snd ts = rs \<and> (\<forall>(t, r) \<in> set ts. as_utc (dget r ''recorded_at_utc'') = Inr (Some t))"
  by (induction rs arbitrary: ts) (auto split: sum.splits option.splits)

lemma first_max_ge: "y \<in> set (x # xs) \<Longrightarrow> key y \<le> key (first_max key x xs)"
proof -
  have "y \<in> set (m # ys) \<Longrightarrow> key y \<le> key (fold (\<lambda>y m. if key m < key y then y else m) ys m)" for ys m
  proof (induction ys arbitrary: m y)
    case (Cons z ys)
    let ?m = "if key m < key z then z else m"
    have "\<exists>u \<in> set (?m # ys). key y \<le> key u" using Cons.prems by (auto split: if_splits)
    then obtain u where "u \<in> set (?m # ys)" "key y \<le> key u" by blast
    with Cons.IH [OF this(1)] show ?case by simp
  qed simp
  then show "y \<in> set (x # xs) \<Longrightarrow> key y \<le> key (first_max key x xs)" by (simp add: first_max_def)
qed

lemma check_receipt_ok:
  assumes "check_receipt rt r ticket now_utc = Inr None"
  shows "valid_outcome rt r NOTICE_KIND" "dget r ''source'' = JStr ''LIVE''"
    "\<exists>p c ob n x. dget r ''payload'' = JDict p \<and> dget p ''ticket_binding'' = JStr (notice_binding rt ticket) \<and>
       dget p ''delivered'' = JBool True \<and> dget r ''result'' = JStr ''DELIVERED'' \<and> dget r ''ticket_id'' = dget ticket ''ticket_id'' \<and>
       as_utc (dget r ''recorded_at_utc'') = Inr (Some ob) \<and> now_utc = Some n \<and>
       as_utc (dget ticket ''valid_until'') = Inr (Some x) \<and> c \<le> ob \<and> ob \<le> n \<and> n \<le> x"
proof -
  show "valid_outcome rt r NOTICE_KIND" "dget r ''source'' = JStr ''LIVE''" using assms by (auto simp: check_receipt_def split: if_splits)
  obtain p where p: "dget r ''payload'' = JDict p"
    using assms by (cases "dget r ''payload''") (auto simp: check_receipt_def split: if_splits)
  note u = assms [unfolded check_receipt_def p json.case]
  show "\<exists>p c ob n x. dget r ''payload'' = JDict p \<and> dget p ''ticket_binding'' = JStr (notice_binding rt ticket) \<and>
       dget p ''delivered'' = JBool True \<and> dget r ''result'' = JStr ''DELIVERED'' \<and> dget r ''ticket_id'' = dget ticket ''ticket_id'' \<and>
       as_utc (dget r ''recorded_at_utc'') = Inr (Some ob) \<and> now_utc = Some n \<and>
       as_utc (dget ticket ''valid_until'') = Inr (Some x) \<and> c \<le> ob \<and> ob \<le> n \<and> n \<le> x"
    using u p by (auto split: if_splits sum.splits option.splits)
qed

section \<open>Properties\<close>

text \<open>C16: An order is authorized only by a record of the host file that grants this very
  tuple (strategy, version, symbol, session, branch, the ticket's direction, and logic identity), is
  not revoked and not stopped, and was granted no later than now. In a file with several records that
  record is the only one that matches the tuple.\<close>

theorem authorization_exact:
  assumes "load_standing_authorization f scope ticket now_utc = Inr a" "authorized a"
  shows "\<exists>v r g now. f = AuthJson v \<and>
    (v = JDict r \<or> (\<exists>c vs. v = JDict c \<and> dget c ''records'' = JList vs \<and> JDict r \<in> set vs \<and>
       length (filter (\<lambda>v. \<exists>q. v = JDict q \<and> map (dget q) AUTH_MATCH_KEYS = scope_match scope ticket) vs) = 1)) \<and>
    map (dget r) AUTH_MATCH_KEYS = scope_match scope ticket \<and> dget r ''logic_identity'' = JStr (logic_identity scope) \<and>
    dget r ''revoked_at'' = JNull \<and> dget r ''emergency_stop'' = JBool False \<and> now_utc = Some now \<and>
    as_utc (dget r ''granted_at'') = Inr (Some g) \<and> g \<le> now"
proof -
  from assms obtain c where c: "f = AuthJson (JDict c)"
    by (auto simp: load_standing_authorization_def split: auth_file.splits json.splits)
  show ?thesis
  proof (cases "dget c ''schema'' = JStr AUTH_CONTAINER_SCHEMA")
    case True
    with assms c obtain r where r: "select_container_record c scope ticket = Inr r" "validate_standing_authorization r scope ticket now_utc = Inr a"
      by (auto simp: load_standing_authorization_def dest: select_container_refuses split: sum.splits)
    from validated [OF r(2) assms(2)] select_container_sole [OF r(1)] c show ?thesis by blast
  next
    case False
    with assms c have "validate_standing_authorization c scope ticket now_utc = Inr a" by (simp add: load_standing_authorization_def)
    from validated [OF this assms(2)] c show ?thesis by blast
  qed
qed

text \<open>The notification gate passes only on the ticket's latest notice in the store:
  it is the one row of its time among the ticket's notices, later than every other, an intact LIVE row
  bound to the ticket's levels, delivered, and timed between the ticket's creation and the order.\<close>

theorem notification_latest:
  assumes "notification_gate rt policy (Some st) ticket now_utc = Inr None"
  shows "\<exists>tid rows r t p n x. dget ticket ''ticket_id'' = JStr tid \<and> outcomes st tid = Inr rows \<and> r \<in> set rows \<and> valid_outcome rt r NOTICE_KIND \<and>
    dget r ''source'' = JStr ''LIVE'' \<and> dget r ''result'' = JStr ''DELIVERED'' \<and> dget r ''payload'' = JDict p \<and>
    dget p ''ticket_binding'' = JStr (notice_binding rt ticket) \<and>
    as_utc (dget r ''recorded_at_utc'') = Inr (Some t) \<and> now_utc = Some n \<and> as_utc (dget ticket ''valid_until'') = Inr (Some x) \<and>
    t \<le> n \<and> n \<le> x \<and>
    (\<forall>q \<in> set (of_kind NOTICE_KIND rows). \<exists>u. as_utc (dget q ''recorded_at_utc'') = Inr (Some u) \<and> (u < t \<or> q = r))"
proof -
  let ?tid = "if truthy (dget ticket ''ticket_id'') then py_str rt (dget ticket ''ticket_id'') else []"
  have pol: "policy = ''BLOCK_NEW_ORDERS''"
    using assms by (auto simp: notification_gate_def check_notification_failure_policy_def split: if_splits)
  obtain rows where rows: "outcomes st ?tid = Inr rows"
    using assms pol by (cases "outcomes st ?tid") (auto simp: notification_gate_def Let_def split: if_splits)
  obtain q qs where ne: "of_kind NOTICE_KIND rows = q # qs"
    using assms pol rows by (cases "of_kind NOTICE_KIND rows") (auto simp: notification_gate_def Let_def)
  obtain ts where ts: "receipt_times (q # qs) = Inr (Some ts)"
    using assms pol rows ne
    by (cases "receipt_times (q # qs)"; cases "projr (receipt_times (q # qs))") (auto simp: notification_gate_def Let_def simp del: receipt_times.simps)
  let ?l = "first_max fst (hd ts) (tl ts)"
  note rt = receipt_times_ok [OF ts]
  have tn: "ts \<noteq> []" using rt by auto
  have g: "length (filter (\<lambda>(t, _). t = fst ?l) ts) \<le> 1" "check_receipt rt (snd ?l) ticket now_utc = Inr None"
    using assms pol rows ne ts
    by (auto simp: notification_gate_def check_notification_failure_policy_def Let_def simp del: receipt_times.simps split: if_splits)
  have lm: "?l \<in> set ts" using first_max_member [of fst "hd ts" "tl ts"] tn by simp
  have sole: "fst y < fst ?l \<or> snd y = snd ?l" if y: "y \<in> set ts" for y
  proof -
    have "fst y \<le> fst ?l" using first_max_ge [of y "hd ts" "tl ts" fst] y tn by simp
    moreover have "y = ?l" if "fst y = fst ?l"
    proof -
      have "y \<in> set (filter (\<lambda>(t, _). t = fst ?l) ts)" "?l \<in> set (filter (\<lambda>(t, _). t = fst ?l) ts)" using y that lm by auto
      then show ?thesis using g(1) by (cases "filter (\<lambda>(t, _). t = fst ?l) ts") auto
    qed
    ultimately show ?thesis by fastforce
  qed
  have set: "set (q # qs) = snd ` set ts" using rt by (metis set_map)
  have in_rows: "snd ?l \<in> set rows" using lm set ne by (metis (no_types, lifting) filter_is_subset image_eqI of_kind_def subsetD)
  from check_receipt_ok [OF g(2)] obtain p c ob n x where r: "dget (snd ?l) ''payload'' = JDict p"
    "dget p ''ticket_binding'' = JStr (notice_binding rt ticket)" "dget (snd ?l) ''result'' = JStr ''DELIVERED''"
    "as_utc (dget (snd ?l) ''recorded_at_utc'') = Inr (Some ob)" "now_utc = Some n"
    "as_utc (dget ticket ''valid_until'') = Inr (Some x)" "ob \<le> n" "n \<le> x" by blast
  have ob: "ob = fst ?l" using rt lm r(4) by (auto simp: split_beta)
  have all: "\<forall>q' \<in> set (of_kind NOTICE_KIND rows). \<exists>u. as_utc (dget q' ''recorded_at_utc'') = Inr (Some u) \<and> (u < ob \<or> q' = snd ?l)"
    unfolding ne set ob using rt sole by (auto simp: split_beta)
  have "dget (snd ?l) ''ticket_id'' = JStr ?tid" using select_rows_Inr [OF rows [unfolded outcomes_def]] in_rows by auto
  then have tid: "dget ticket ''ticket_id'' = JStr ?tid" using check_receipt_ok(3) [OF g(2)] by auto
  show ?thesis using rows in_rows check_receipt_ok(1,2) [OF g(2)] r all tid by blast
qed

section \<open>A concrete order\<close>

definition demo_scope :: scope_policy where
  "demo_scope = \<lparr>enabled = True, strategy_id = ''ST_ASIAN_SWEEP_5R_V1'', strategy_version = ''1.1.2'', sp_symbol = ''GBPUSD'',
     broker_symbol = ''GBPUSD-VIP'', session = ''LONDON'', setup_branch = ''SWEEP'', directions = [''LONG'', ''SHORT''],
     logic_identity = demo_identity, magic_number = 77, sp_pip_size = fl (1 / 10000), point_size = fl (1 / 100000),
     max_spread_allowed_pips = 2, max_spread_fraction_of_stop = 1 / 4, slippage_limit_points = 20, signal_expiry_minutes = 15,
     daily_reset_basis = ''VT_SERVER_DAY'', daily_reset_owner_confirm = True, notification_failure_policy = ''BLOCK_NEW_ORDERS'',
     authorization_path_env = ''AGP_AUTH'', evidence_pull_request = 142, registry_path = ''registry'', contract_path = ''contract'',
     broker_symbol_map_path = ''map'', ready_authority_config_path = ''ready'', owner_decision_register_path = ''owner'',
     broker_server = ''VTMarkets-Demo'', account_login_suffix = ''999'', host_magic_registry_path = ''magics'',
     per_order_confirm_required = True\<rparr>"

definition demo_grant :: "string \<Rightarrow> json" where
  "demo_grant direction = JDict [(''schema'', JStr AUTH_SCHEMA), (''strategy'', JStr ''ST_ASIAN_SWEEP_5R_V1''), (''version'', JStr ''1.1.2''), (''symbol'', JStr ''GBPUSD''),
     (''session'', JStr ''LONDON''), (''branch'', JStr ''SWEEP''), (''direction'', JStr direction), (''logic_identity'', JStr demo_identity),
     (''granted_at'', JStr ''2026-01-01T00:00:00Z''), (''revoked_at'', JNull), (''decision_id'', JStr ''D-1''), (''emergency_stop'', JBool False)]"

definition demo_auth :: auth_file where
  "demo_auth = AuthJson (JDict [(''schema'', JStr AUTH_CONTAINER_SCHEMA), (''records'', JList [demo_grant ''SHORT'', demo_grant ''LONG''])])"

definition demo_noticed :: ticket_store where
  "demo_noticed = (case build_outcome weight_rt
       [(''ticket_id'', JStr ''T-1''), (''source'', JStr ''LIVE''), (''outcome_kind'', JStr NOTICE_KIND),
        (''recorded_at_utc'', JStr ''2026-01-05T10:01:30+00:00''), (''result'', JStr ''DELIVERED''),
        (''payload'', JDict [(''ticket_binding'', JStr (notice_binding weight_rt demo_ticket)), (''delivered'', JBool True),
           (''channel'', JStr ''TELEGRAM''), (''api_ok'', JBool True), (''message_id'', JInt 7)]), (''provenance'', JNull)] of
     Inr d \<Rightarrow> fst (append_outcome weight_rt Appended d demo_confirmed) | Inl _ \<Rightarrow> demo_confirmed)"

theorem authorization_exact_witness:
  "\<exists>r g now. map (dget r) AUTH_MATCH_KEYS = scope_match demo_scope demo_ticket \<and> demo_now ''2026-01-05T10:02:00+00:00'' = Some now \<and>
    as_utc (dget r ''granted_at'') = Inr (Some g) \<and> g \<le> now"
proof -
  let ?l = "load_standing_authorization demo_auth demo_scope demo_ticket (demo_now ''2026-01-05T10:02:00+00:00'')"
  have "case ?l of Inr a \<Rightarrow> authorized a | Inl _ \<Rightarrow> False" by code_simp
  then obtain a where a: "?l = Inr a" "authorized a" by (auto split: sum.splits)
  from authorization_exact [OF a] show ?thesis by blast
qed

theorem notification_latest_witness:
  "\<exists>rows r. outcomes demo_noticed ''T-1'' = Inr rows \<and> r \<in> set rows \<and> valid_outcome weight_rt r NOTICE_KIND \<and> dget r ''result'' = JStr ''DELIVERED''"
proof -
  let ?g = "notification_gate weight_rt ''BLOCK_NEW_ORDERS'' (Some demo_noticed) demo_ticket (demo_now ''2026-01-05T10:02:00+00:00'')"
  have "?g = Inr None" by code_simp
  from notification_latest [OF this] have "\<exists>tid rows r. dget demo_ticket ''ticket_id'' = JStr tid \<and> outcomes demo_noticed tid = Inr rows \<and>
    r \<in> set rows \<and> valid_outcome weight_rt r NOTICE_KIND \<and> dget r ''result'' = JStr ''DELIVERED''" by blast
  moreover have "dget demo_ticket ''ticket_id'' = JStr ''T-1''" by code_simp
  ultimately show ?thesis by auto
qed

end
