(* ===== verification/Risk_Caps.thy ===== *)
theory Risk_Caps
  imports Sizing Py_Decimal Authorization
begin

text \<open>
  The five risk caps of src/src/demo\_execution/risk.py on a host snapshot. Sizing is the shared
  \<open>size_position\<close> in floats; the amount at risk is then recomputed in decimals of 28 digits.
\<close>

section \<open>Definitions\<close>

definition MAX_RISK_PER_TRADE_PCT :: rat where "MAX_RISK_PER_TRADE_PCT = 1 / 2"
definition MAX_OPEN_POSITIONS_PER_INSTRUMENT :: nat where "MAX_OPEN_POSITIONS_PER_INSTRUMENT = 1"
definition MAX_TRADES_PER_STRATEGY_DAY :: int where "MAX_TRADES_PER_STRATEGY_DAY = 5"
definition MAX_STRATEGY_DAILY_LOSS_PCT :: rat where "MAX_STRATEGY_DAILY_LOSS_PCT = 1"
definition MAX_ACCOUNT_DAILY_LOSS_PCT :: rat where "MAX_ACCOUNT_DAILY_LOSS_PCT = 2"

text \<open>\<open>STALE_AFTER\<close>: 15 minutes, in microseconds.\<close>

definition STALE_AFTER :: int where "STALE_AFTER = 15 * 60 * 1000000"

record open_position =
  op_symbol :: json
  op_magic_number :: json

record risk_snapshot =
  rs_observed_at_utc :: "datetime option"
  rs_server_day :: "date option"
  rs_demo_equity :: json
  rs_strategy_daily_loss_pct :: json
  rs_account_daily_loss_pct :: json
  rs_strategy_trades_today :: json
  rs_open_positions :: "open_position list option"
  rs_positions_complete :: bool
  rs_daily_metrics_complete :: bool
  rs_symbol_meta :: "symbol_meta option"
  rs_daily_reset_basis :: "string option"

record risk_assessment =
  ra_allowed :: bool
  ra_reason_code :: string
  ra_planned_volume :: "rat option"
  ra_planned_risk_amount :: "rat option"
  ra_planned_risk_pct :: "rat option"
  ra_own_positions :: nat
  ra_foreign_positions :: nat
  ra_server_day :: "date option"
  ra_daily_reset_owner_confirm :: bool

text \<open>\<open>float(v)\<close> of a number, \<open>Decimal(str(v))\<close> of one, and \<open>_finite_number\<close>.\<close>

fun num_of :: "json \<Rightarrow> rat" where
  "num_of (JInt i) = fl (of_int i)"
| "num_of (JFloat x) = x"
| "num_of _ = 0"

fun decimal_of :: "json \<Rightarrow> rat" where
  "decimal_of (JInt i) = of_int i"
| "decimal_of (JFloat x) = float_decimal x"
| "decimal_of _ = 0"

fun is_number :: "json \<Rightarrow> bool" where
  "is_number (JInt i) = True"
| "is_number (JFloat x) = True"
| "is_number _ = False"

definition finite_number :: "bool \<Rightarrow> json \<Rightarrow> bool" where
  "finite_number positive v \<longleftrightarrow> is_number v \<and> (if positive then 0 < num_of v else 0 \<le> num_of v)"

definition risk_blocked :: "string \<Rightarrow> nat \<times> nat \<Rightarrow> date option \<Rightarrow> bool \<Rightarrow> risk_assessment" where
  "risk_blocked reason counts day confirm =
     \<lparr>ra_allowed = False, ra_reason_code = reason, ra_planned_volume = None, ra_planned_risk_amount = None,
      ra_planned_risk_pct = None, ra_own_positions = fst counts, ra_foreign_positions = snd counts, ra_server_day = day,
      ra_daily_reset_owner_confirm = confirm\<rparr>"

text \<open>The checks of the snapshot itself: the first refusal.\<close>

definition snapshot_refusal :: "scope_policy \<Rightarrow> risk_snapshot \<Rightarrow> datetime option \<Rightarrow> risk_assessment option" where
  "snapshot_refusal scope s now_utc =
     (let confirm = daily_reset_owner_confirm scope; day = rs_server_day s
      in if (case (now_utc, rs_observed_at_utc s) of
               (Some now, Some observed) \<Rightarrow> now < observed \<or> STALE_AFTER < now - observed
             | _ \<Rightarrow> True)
         then Some (risk_blocked ''RISK_SNAPSHOT_STALE_OR_INVALID'' (0, 0) None confirm)
         else if day = None \<or> rs_daily_reset_basis s \<noteq> Some (daily_reset_basis scope)
         then Some (risk_blocked ''RISK_SERVER_DAY_UNAVAILABLE'' (0, 0) None confirm)
         else if \<not> finite_number True (rs_demo_equity s)
         then Some (risk_blocked ''RISK_DEMO_EQUITY_UNAVAILABLE'' (0, 0) day confirm)
         else if \<not> rs_positions_complete s \<or> rs_open_positions s = None \<or> \<not> rs_daily_metrics_complete s
         then Some (risk_blocked ''RISK_SNAPSHOT_INCOMPLETE'' (0, 0) day confirm)
         else if \<not> finite_number False (rs_strategy_daily_loss_pct s) \<or> \<not> finite_number False (rs_account_daily_loss_pct s)
                 \<or> (case rs_strategy_trades_today s of JInt n \<Rightarrow> n < 0 | _ \<Rightarrow> True)
         then Some (risk_blocked ''RISK_DAILY_METRICS_INVALID'' (0, 0) day confirm)
         else if (case rs_strategy_trades_today s of JInt n \<Rightarrow> MAX_TRADES_PER_STRATEGY_DAY \<le> n | _ \<Rightarrow> False)
         then Some (risk_blocked ''STRATEGY_DAILY_TRADE_LIMIT'' (0, 0) day confirm)
         else None)"

text \<open>The loop over the open positions: the ones on the instrument, \<open>None\<close> on a malformed one.\<close>

fun matching_positions :: "string list \<Rightarrow> open_position list \<Rightarrow> open_position list option" where
  "matching_positions names [] = Some []"
| "matching_positions names (p # ps) =
     (case op_symbol p of
        JStr sy \<Rightarrow>
          if \<not> non_blank sy then None
          else if \<not> (case op_magic_number p of JNull \<Rightarrow> True | JInt _ \<Rightarrow> True | _ \<Rightarrow> False) then None
          else (case matching_positions names ps of
             None \<Rightarrow> None
           | Some qs \<Rightarrow> Some (if upper sy \<in> set names then p # qs else qs))
      | _ \<Rightarrow> None)"

definition meta_refusal :: "scope_policy \<Rightarrow> symbol_meta option \<Rightarrow> string option" where
  "meta_refusal scope meta =
     (case meta of
        None \<Rightarrow> Some ''RISK_SYMBOL_METADATA_UNVERIFIED''
      | Some m \<Rightarrow>
          if sm_symbol m \<noteq> broker_symbol scope \<or> metadata_source m \<noteq> ''EXCHANGE_VERIFIED'' then Some ''RISK_SYMBOL_METADATA_UNVERIFIED''
          else if \<not> list_all (\<lambda>x. 0 < x) [tick_size m, tick_value m, contract_size m, volume_step m, volume_min m, volume_max m]
          then Some ''RISK_SYMBOL_METADATA_INVALID''
          else if volume_max m < volume_min m then Some ''RISK_SYMBOL_METADATA_INVALID''
          else None)"

text \<open>The decimal recomputation of a sized volume: the refusal, or the final volume, its amount at
  risk and its percentage of the equity.\<close>

definition loss_per_lot :: "json \<Rightarrow> json \<Rightarrow> symbol_meta \<Rightarrow> rat" where
  "loss_per_lot entry stop meta =
     dmul (dquot (dround \<bar>dsub (decimal_of entry) (decimal_of stop)\<bar>) (float_decimal (tick_size meta))) (float_decimal (tick_value meta))"

definition decimal_sizing :: "json \<Rightarrow> json \<Rightarrow> json \<Rightarrow> symbol_meta \<Rightarrow> rat \<Rightarrow> string + rat \<times> rat \<times> rat" where
  "decimal_sizing entry stop equity meta volume =
     (let equity_d = decimal_of equity; step_d = float_decimal (volume_step meta); volume_d = float_decimal volume;
          risk_budget_d = dquot (dmul equity_d (1 / 2)) 100;
          loss_per_lot_d = loss_per_lot entry stop meta
      in if loss_per_lot_d \<le> 0 \<or> step_d \<le> 0 then Inl ''RISK_SIZING_ARITHMETIC_INVALID''
         else
           let exact_risk_d = dmul volume_d loss_per_lot_d;
               finish = (\<lambda>v r. Inr (fl v, fl r, fl (dmul (dquot r equity_d) 100)))
           in if risk_budget_d < exact_risk_d
              then let safe_steps = \<lfloor>dquot (dquot risk_budget_d loss_per_lot_d) step_d\<rfloor>;
                       v = dmul (of_int safe_steps) step_d
                   in if v < float_decimal (volume_min meta) then Inl ''RISK_SIZING_VOLUME_BELOW_MIN''
                      else finish v (dmul v loss_per_lot_d)
              else finish volume_d exact_risk_d)"

definition evaluate_risk_caps :: "dict \<Rightarrow> scope_policy \<Rightarrow> risk_snapshot option \<Rightarrow> datetime option \<Rightarrow> risk_assessment res" where
  "evaluate_risk_caps ticket scope snapshot now_utc =
     (case snapshot of
        None \<Rightarrow> Inr (risk_blocked ''RISK_SNAPSHOT_MISSING'' (0, 0) None True)
      | Some s \<Rightarrow>
     (case snapshot_refusal scope s now_utc of
        Some r \<Rightarrow> Inr r
      | None \<Rightarrow>
          let confirm = daily_reset_owner_confirm scope; day = rs_server_day s
          in (case matching_positions [upper (sp_symbol scope), upper (broker_symbol scope)] (the (rs_open_positions s)) of
                None \<Rightarrow> Inr (risk_blocked ''RISK_POSITION_SNAPSHOT_INVALID'' (0, 0) day confirm)
              | Some matching \<Rightarrow>
                  let own = length (filter (\<lambda>p. op_magic_number p = JInt (magic_number scope)) matching);
                      counts = (own, length matching - own)
                  in if MAX_OPEN_POSITIONS_PER_INSTRUMENT \<le> length matching
                     then Inr (risk_blocked ''INSTRUMENT_POSITION_LIMIT'' counts day confirm)
                     else (case meta_refusal scope (rs_symbol_meta s) of
                        Some reason \<Rightarrow> Inr (risk_blocked reason counts day confirm)
                      | None \<Rightarrow>
                          let meta = the (rs_symbol_meta s); entry = dget ticket ''entry'';
                              stop = dget_or ticket ''stop_loss'' (dget ticket ''sl'')
                          in if \<not> finite_number True entry \<or> \<not> finite_number True stop
                             then Inr (risk_blocked ''RISK_TICKET_GEOMETRY_INVALID'' counts day confirm)
                             else (case size_position (num_of entry) (num_of stop) (num_of (rs_demo_equity s)) MAX_RISK_PER_TRADE_PCT meta of
                                Inl e \<Rightarrow> Inl e
                              | Inr (Refused reason) \<Rightarrow> Inr (risk_blocked (''RISK_SIZING_'' @ reason) counts day confirm)
                              | Inr (Sized volume _) \<Rightarrow>
                                  (case decimal_sizing entry stop (rs_demo_equity s) meta volume of
                                     Inl reason \<Rightarrow> Inr (risk_blocked reason counts day confirm)
                                   | Inr (v, amount, pct) \<Rightarrow>
                                       let result = (\<lambda>b reason. \<lparr>ra_allowed = b, ra_reason_code = reason, ra_planned_volume = Some v,
                                             ra_planned_risk_amount = Some amount, ra_planned_risk_pct = Some pct,
                                             ra_own_positions = fst counts, ra_foreign_positions = snd counts, ra_server_day = day,
                                             ra_daily_reset_owner_confirm = confirm\<rparr>)
                                       in Inr (if MAX_RISK_PER_TRADE_PCT < pct then result False ''PER_TRADE_RISK_LIMIT''
                                               else if fadd MAX_STRATEGY_DAILY_LOSS_PCT (fl (1 / 10 ^ 9)) < fadd (num_of (rs_strategy_daily_loss_pct s)) pct
                                               then result False ''STRATEGY_DAILY_LOSS_LIMIT''
                                               else if fadd MAX_ACCOUNT_DAILY_LOSS_PCT (fl (1 / 10 ^ 9)) < fadd (num_of (rs_account_daily_loss_pct s)) pct
                                               then result False ''ACCOUNT_DAILY_LOSS_LIMIT''
                                               else result True ''C14_RISK_CAPS_PASS'')))))))"

section \<open>Lemmas\<close>

text \<open>The floats of a snapshot are binary64 values.\<close>

definition float_inputs :: "risk_snapshot \<Rightarrow> bool" where
  "float_inputs s \<longleftrightarrow>
     (case rs_demo_equity s of JFloat x \<Rightarrow> is_float x | _ \<Rightarrow> True) \<and>
     (case rs_symbol_meta s of None \<Rightarrow> True | Some m \<Rightarrow> is_float (tick_size m) \<and> is_float (tick_value m))"

lemma float_decimal_nonneg: "is_float x \<Longrightarrow> 0 \<le> x \<Longrightarrow> 0 \<le> float_decimal x"
  using float_decimal_pos [of x] by (cases "x = 0") (auto simp: float_decimal_def)

lemma dround_abs: "\<bar>dround x\<bar> = dround \<bar>x\<bar>"
  using dround_nonneg [of x] dround_nonneg [of "- x"] by (cases "0 \<le> x") (auto simp: dround_minus)

text \<open>The computed loss per lot is the exact one up to four roundings.\<close>

lemma loss_per_lot_ge:
  assumes "0 < float_decimal (tick_size m)" "0 < float_decimal (tick_value m)"
  shows "(1 - deps) ^ 4 * (\<bar>decimal_of entry - decimal_of stop\<bar> / float_decimal (tick_size m) * float_decimal (tick_value m))
         \<le> loss_per_lot entry stop m"
proof -
  obtain c where c: "c = 1 - deps" by blast
  have c0: "0 \<le> c" unfolding c by simp
  note r = dround_bounds(1) [folded c]
  let ?x = "\<bar>decimal_of entry - decimal_of stop\<bar>" and ?t = "float_decimal (tick_size m)" and ?v = "float_decimal (tick_value m)"
  let ?d = "dround \<bar>dsub (decimal_of entry) (decimal_of stop)\<bar>"
  have "c * (c * ?x) \<le> c * dround ?x" using c0 r [of ?x] by (intro mult_left_mono) auto
  also have "\<dots> \<le> ?d" using r [of "dround ?x"] by (simp add: dround_abs dround_nonneg)
  finally have d: "c ^ 2 * ?x \<le> ?d" by (simp add: power2_eq_square mult.assoc)
  have d0: "0 \<le> ?d" by (simp add: dround_nonneg)
  have "c * (c ^ 2 * ?x / ?t) \<le> c * (?d / ?t)" using c0 d assms by (intro mult_left_mono divide_right_mono) auto
  also have "\<dots> \<le> dquot ?d ?t" using r [of "?d / ?t"] d0 assms by simp
  finally have q: "c ^ 3 * (?x / ?t) \<le> dquot ?d ?t" by (simp add: power2_eq_square power3_eq_cube mult.assoc)
  have "c * (c ^ 3 * (?x / ?t) * ?v) \<le> c * (dquot ?d ?t * ?v)" using c0 q assms by (intro mult_left_mono mult_right_mono) auto
  also have "\<dots> \<le> loss_per_lot entry stop m"
    unfolding loss_per_lot_def using r [of "dquot ?d ?t * ?v"] d0 assms by (simp add: dround_nonneg)
  finally show ?thesis unfolding c [symmetric] by (simp add: power3_eq_cube power4_eq_xxxx mult.assoc)
qed

lemma decimal_sizing_Inr:
  assumes "decimal_sizing entry stop equity m volume = Inr (v, amount, pct)" "0 \<le> float_decimal volume"
    and "0 < decimal_of equity"
  shows "\<exists>w. 0 \<le> w \<and> 0 < loss_per_lot entry stop m \<and> v = fl w \<and>
     pct = fl (dmul (dquot (dmul w (loss_per_lot entry stop m)) (decimal_of equity)) 100)"
proof -
  let ?l = "loss_per_lot entry stop m" and ?s = "float_decimal (volume_step m)"
  let ?b = "dquot (dmul (decimal_of equity) (1 / 2)) 100"
  let ?w = "dmul (of_int \<lfloor>dquot (dquot ?b ?l) ?s\<rfloor>) ?s"
  have p: "0 < ?l" "0 < ?s" using assms(1) by (auto simp: decimal_sizing_def Let_def split: if_splits)
  have "0 \<le> ?w" using p assms(3) by (intro dround_nonneg mult_nonneg_nonneg) (auto simp: dround_nonneg)
  moreover have "v = fl w \<and> pct = fl (dmul (dquot (dmul w ?l) (decimal_of equity)) 100)"
    if "w = (if ?b < dmul (float_decimal volume) ?l then ?w else float_decimal volume)" for w
    using assms(1) p that by (auto simp: decimal_sizing_def Let_def split: if_splits)
  ultimately show ?thesis using assms(2) p(1) by (metis (full_types))
qed

lemma risk_blocked_not [simp]: "\<not> ra_allowed (risk_blocked reason c d b)"
  by (simp add: risk_blocked_def)

lemma snapshot_refusal_not: "snapshot_refusal scope s now_utc = Some r \<Longrightarrow> \<not> ra_allowed r"
  by (auto simp: snapshot_refusal_def Let_def split: if_splits)

lemma snapshot_accepted:
  assumes "snapshot_refusal scope s now_utc = None"
  obtains now observed n where "now_utc = Some now" "rs_observed_at_utc s = Some observed" "observed \<le> now" "now - observed \<le> STALE_AFTER"
    "rs_positions_complete s" "rs_daily_metrics_complete s" "rs_strategy_trades_today s = JInt n" "0 \<le> n" "n < 5"
    "finite_number True (rs_demo_equity s)" "finite_number False (rs_strategy_daily_loss_pct s)" "finite_number False (rs_account_daily_loss_pct s)"
proof -
  obtain now observed where t: "now_utc = Some now" "rs_observed_at_utc s = Some observed" "observed \<le> now" "now - observed \<le> STALE_AFTER"
    using assms by (cases now_utc; cases "rs_observed_at_utc s") (auto simp: snapshot_refusal_def Let_def split: if_splits)
  obtain n where n: "rs_strategy_trades_today s = JInt n"
    using assms by (cases "rs_strategy_trades_today s") (auto simp: snapshot_refusal_def Let_def split: if_splits)
  show ?thesis using that [OF t _ _ n] assms n
    by (auto simp: snapshot_refusal_def Let_def MAX_TRADES_PER_STRATEGY_DAY_def split: if_splits)
qed

text \<open>What an allowed assessment went through.\<close>

lemma caps_allowed:
  assumes "evaluate_risk_caps ticket scope (Some s) now_utc = Inr a" "ra_allowed a"
  obtains m volume amt v amount pct where "snapshot_refusal scope s now_utc = None" "meta_refusal scope (rs_symbol_meta s) = None"
    "matching_positions [upper (sp_symbol scope), upper (broker_symbol scope)] (the (rs_open_positions s)) = Some []"
    "rs_symbol_meta s = Some m"
    "size_position (num_of (dget ticket ''entry'')) (num_of (dget_or ticket ''stop_loss'' (dget ticket ''sl''))) (num_of (rs_demo_equity s))
       MAX_RISK_PER_TRADE_PCT m = Inr (Sized volume amt)"
    "decimal_sizing (dget ticket ''entry'') (dget_or ticket ''stop_loss'' (dget ticket ''sl'')) (rs_demo_equity s) m volume = Inr (v, amount, pct)"
    "ra_planned_volume a = Some v" "ra_planned_risk_pct a = Some pct" "pct \<le> 1 / 2"
    "fadd (num_of (rs_strategy_daily_loss_pct s)) pct \<le> fadd 1 (fl (1 / 10 ^ 9))"
    "fadd (num_of (rs_account_daily_loss_pct s)) pct \<le> fadd 2 (fl (1 / 10 ^ 9))"
proof -
  have sr: "snapshot_refusal scope s now_utc = None"
    using assms snapshot_refusal_not by (cases "snapshot_refusal scope s now_utc") (auto simp: evaluate_risk_caps_def)
  note u1 = assms(1) [unfolded evaluate_risk_caps_def option.case sr Let_def]
  have ma: "matching_positions [upper (sp_symbol scope), upper (broker_symbol scope)] (the (rs_open_positions s)) = Some []"
    using u1 assms(2)
    by (cases "matching_positions [upper (sp_symbol scope), upper (broker_symbol scope)] (the (rs_open_positions s))")
       (auto simp: MAX_OPEN_POSITIONS_PER_INSTRUMENT_def Suc_le_eq split: if_splits)
  have me: "meta_refusal scope (rs_symbol_meta s) = None"
    using u1 assms(2) ma by (cases "meta_refusal scope (rs_symbol_meta s)") (auto split: if_splits)
  obtain m where m: "rs_symbol_meta s = Some m" using me by (cases "rs_symbol_meta s") (auto simp: meta_refusal_def)
  note u2 = u1 [unfolded ma m me [unfolded m] option.case option.sel]
  from u2 assms(2) obtain volume amt where sz: "size_position (num_of (dget ticket ''entry'')) (num_of (dget_or ticket ''stop_loss'' (dget ticket ''sl'')))
      (num_of (rs_demo_equity s)) MAX_RISK_PER_TRADE_PCT m = Inr (Sized volume amt)"
    by (auto split: if_splits sum.splits sizing.splits)
  from u2 [unfolded sz sum.case sizing.case] assms(2) obtain v amount pct where
    ds: "decimal_sizing (dget ticket ''entry'') (dget_or ticket ''stop_loss'' (dget ticket ''sl'')) (rs_demo_equity s) m volume = Inr (v, amount, pct)"
    by (auto split: if_splits sum.splits)
  show ?thesis using that [OF sr me ma m sz ds] u2 [unfolded sz sum.case sizing.case ds prod.case] assms(2)
    by (auto simp: MAX_OPEN_POSITIONS_PER_INSTRUMENT_def MAX_RISK_PER_TRADE_PCT_def MAX_STRATEGY_DAILY_LOSS_PCT_def
        MAX_ACCOUNT_DAILY_LOSS_PCT_def split: if_splits)
qed

text \<open>The reported percentage bounds the exact one from above, up to the roundings.\<close>

lemma pct_bound:
  assumes "0 \<le> w" "0 \<le> L" "(1 - deps) ^ 4 * L \<le> l" "0 < e" "pct = fl (dmul (dquot (dmul w l) e) 100)"
  shows "fl w * L * 100 / e \<le> (1 + 1 / 2 ^ 50) * pct"
proof -
  obtain c :: rat where c: "c = 1 - deps" by blast
  obtain u :: rat where u: "u = 1 / 2 ^ 53" by blast
  have c0: "0 \<le> c" "0 \<le> c ^ 4" "0 \<le> u" "0 \<le> 1 - u" unfolding c u by simp_all
  note r = dround_bounds(1) [folded c]
  have "0 \<le> (1 - deps) ^ 4 * L" using assms(2) by simp
  then have l0: "0 \<le> l" using assms(3) by linarith
  let ?r = "dmul w l" and ?q = "dquot (dmul w l) e"
  have nn: "0 \<le> w * l" "0 \<le> ?r" "0 \<le> ?q" "0 \<le> dmul ?q 100" using assms l0 by (simp_all add: dround_nonneg)
  have "c ^ 4 * L * w \<le> l * w" using assms(1,3) unfolding c by (intro mult_right_mono)
  then have "c * (c ^ 4 * L * w) \<le> c * (w * l)" using c0 by (intro mult_left_mono) (simp_all add: mult.commute)
  also have "\<dots> \<le> ?r" using r [OF nn(1)] .
  finally have "c * (c * (c ^ 4 * L * w) / e) \<le> c * (?r / e)" using c0 assms(4) by (intro mult_left_mono divide_right_mono) auto
  also have "\<dots> \<le> ?q" using r [of "?r / e"] nn(2) assms(4) by simp
  finally have "c * (c * (c * (c ^ 4 * L * w) / e) * 100) \<le> c * (?q * 100)" using c0 by (intro mult_left_mono mult_right_mono) auto
  also have "\<dots> \<le> dmul ?q 100" using r [of "?q * 100"] nn(3) by simp
  finally have "(1 - u) * (c ^ 7 * (L * w / e * 100)) \<le> (1 - u) * dmul ?q 100"
    using c0 by (intro mult_left_mono) (simp_all add: eval_nat_numeral mult.assoc)
  also have "\<dots> \<le> pct" unfolding assms(5) u by (rule fl_rel_bounds(1) [OF nn(4)])
  finally have p: "(1 - u) * c ^ 7 * (L * w / e * 100) \<le> pct" by (simp add: mult.assoc)
  let ?x = "L * w / e * 100"
  have x0: "0 \<le> ?x" using assms by simp
  have "fl w \<le> (1 + u) * w" unfolding u by (rule fl_rel_bounds(2) [OF assms(1)])
  then have "fl w * (L * 100 / e) \<le> (1 + u) * w * (L * 100 / e)" using assms by (intro mult_right_mono) auto
  also have "\<dots> = (1 + u) * ?x" by (simp add: field_simps)
  also have "\<dots> \<le> (1 + 1 / 2 ^ 50) * ((1 - u) * c ^ 7) * ?x"
  proof (rule mult_right_mono [OF _ x0])
    show "1 + u \<le> (1 + 1 / 2 ^ 50) * ((1 - u) * c ^ 7)" unfolding u c by (simp add: field_simps)
  qed
  also have "\<dots> \<le> (1 + 1 / 2 ^ 50) * pct" using p by (simp only: mult.assoc) (intro mult_left_mono, simp_all)
  finally show ?thesis by (simp add: mult.assoc)
qed

lemma fadd_le:
  assumes "fl x \<le> fadd k (fl (1 / 10 ^ 9))" "0 \<le> x" "1 \<le> k" "k \<le> 2"
  shows "x \<le> k + 2 / 10 ^ 9"
proof (rule ccontr)
  assume "\<not> ?thesis"
  then have "k + 2 / 10 ^ 9 \<le> x" by simp
  then have "fl (k + 2 / 10 ^ 9) \<le> fl x" by (rule fl_mono)
  moreover have "(1 - 1 / 2 ^ 53) * (k + 2 / 10 ^ 9) \<le> fl (k + 2 / 10 ^ 9)" using assms(3) by (intro fl_rel_bounds(1)) simp
  moreover have "fadd k (fl (1 / 10 ^ 9)) \<le> (1 + 1 / 2 ^ 53) * (k + fl (1 / 10 ^ 9))" using assms(3) by (intro fl_rel_bounds(2)) simp
  moreover have "fl (1 / 10 ^ 9) \<le> (1 + 1 / 2 ^ 53) * (1 / 10 ^ 9)" by (rule fl_rel_bounds(2)) simp
  ultimately show False using assms(1,3,4) by simp
qed

lemma matching_none:
  "matching_positions names ps = Some [] \<Longrightarrow> p \<in> set ps \<Longrightarrow> \<exists>sy. op_symbol p = JStr sy \<and> upper sy \<notin> set names"
  by (induction names ps rule: matching_positions.induct) (auto split: json.splits if_splits option.splits)

section \<open>Properties\<close>

text \<open>C9: An order is allowed only on a complete snapshot at most 15 minutes old, with
  fewer than five trades that day and no open position on the instrument. The exact loss of the planned
  volume at the stop, as a percentage of the equity, is the reported percentage up to a relative 2^-50;
  that is at most one half, and with the day's loss at most 1 (strategy) and 2 (account), up to 2 * 10^-9.\<close>

theorem risk_caps_enforced:
  assumes "evaluate_risk_caps ticket scope (Some s) now_utc = Inr a" "ra_allowed a" "float_inputs s"
  shows "\<exists>now observed n m v pct. now_utc = Some now \<and> rs_observed_at_utc s = Some observed \<and> observed \<le> now \<and> now - observed \<le> STALE_AFTER \<and>
    rs_positions_complete s \<and> rs_daily_metrics_complete s \<and> rs_strategy_trades_today s = JInt n \<and> 0 \<le> n \<and> n < 5 \<and>
    (\<forall>p \<in> set (the (rs_open_positions s)). \<exists>sy. op_symbol p = JStr sy \<and> upper sy \<notin> {upper (sp_symbol scope), upper (broker_symbol scope)}) \<and>
    rs_symbol_meta s = Some m \<and> ra_planned_volume a = Some v \<and> ra_planned_risk_pct a = Some pct \<and>
    v * (\<bar>decimal_of (dget ticket ''entry'') - decimal_of (dget_or ticket ''stop_loss'' (dget ticket ''sl''))\<bar>
         / float_decimal (tick_size m) * float_decimal (tick_value m)) * 100 / decimal_of (rs_demo_equity s) \<le> (1 + 1 / 2 ^ 50) * pct \<and>
    pct \<le> 1 / 2 \<and> num_of (rs_strategy_daily_loss_pct s) + pct \<le> 1 + 2 / 10 ^ 9 \<and> num_of (rs_account_daily_loss_pct s) + pct \<le> 2 + 2 / 10 ^ 9"
  using assms(1,2)
proof (rule caps_allowed)
  fix m volume amt v amount pct
  let ?e = "dget ticket ''entry''" and ?st = "dget_or ticket ''stop_loss'' (dget ticket ''sl'')" and ?q = "rs_demo_equity s"
  assume sr: "snapshot_refusal scope s now_utc = None" and me: "meta_refusal scope (rs_symbol_meta s) = None"
    and ma: "matching_positions [upper (sp_symbol scope), upper (broker_symbol scope)] (the (rs_open_positions s)) = Some []"
    and m: "rs_symbol_meta s = Some m"
    and sz: "size_position (num_of ?e) (num_of ?st) (num_of ?q) MAX_RISK_PER_TRADE_PCT m = Inr (Sized volume amt)"
    and ds: "decimal_sizing ?e ?st ?q m volume = Inr (v, amount, pct)"
    and r: "ra_planned_volume a = Some v" "ra_planned_risk_pct a = Some pct" "pct \<le> 1 / 2"
    and l: "fadd (num_of (rs_strategy_daily_loss_pct s)) pct \<le> fadd 1 (fl (1 / 10 ^ 9))"
           "fadd (num_of (rs_account_daily_loss_pct s)) pct \<le> fadd 2 (fl (1 / 10 ^ 9))"
  from sr obtain now observed n where sn: "now_utc = Some now" "rs_observed_at_utc s = Some observed" "observed \<le> now" "now - observed \<le> STALE_AFTER"
    "rs_positions_complete s" "rs_daily_metrics_complete s" "rs_strategy_trades_today s = JInt n" "0 \<le> n" "n < 5"
    and fin: "finite_number True ?q" "finite_number False (rs_strategy_daily_loss_pct s)" "finite_number False (rs_account_daily_loss_pct s)"
    by (rule snapshot_accepted)
  have mp: "0 < tick_size m" "0 < tick_value m" "0 < volume_step m" using me m by (auto simp: meta_refusal_def split: if_splits)
  have fm: "0 < float_decimal (tick_size m)" "0 < float_decimal (tick_value m)"
    using assms(3) m mp float_decimal_pos by (auto simp: float_inputs_def)
  have q: "0 < decimal_of ?q" "0 \<le> num_of ?q"
    using fin(1) assms(3) float_decimal_pos by (cases ?q; auto simp: finite_number_def float_inputs_def)+
  have "0 \<le> volume" by (rule size_position_volume_nonneg [OF sz]) (use mp q in \<open>auto simp: MAX_RISK_PER_TRADE_PCT_def\<close>)
  moreover have "is_float volume" unfolding size_position_SizedD(6) [OF sz] by (simp only: py_round_def is_float_fl)
  ultimately have "0 \<le> float_decimal volume" by (intro float_decimal_nonneg)
  from decimal_sizing_Inr [OF ds this q(1)] obtain w where w: "0 \<le> w" "0 < loss_per_lot ?e ?st m" "v = fl w"
    "pct = fl (dmul (dquot (dmul w (loss_per_lot ?e ?st m)) (decimal_of ?q)) 100)" by blast
  let ?L = "\<bar>decimal_of ?e - decimal_of ?st\<bar> / float_decimal (tick_size m) * float_decimal (tick_value m)"
  have "0 \<le> ?L" using fm by simp
  from pct_bound [OF w(1) this loss_per_lot_ge [OF fm] q(1) w(4)] have p: "v * ?L * 100 / decimal_of ?q \<le> (1 + 1 / 2 ^ 50) * pct"
    unfolding w(3) .
  have p0: "0 \<le> pct" unfolding w(4) using w q(1) by (simp add: dround_nonneg)
  have "num_of (rs_strategy_daily_loss_pct s) + pct \<le> 1 + 2 / 10 ^ 9" by (rule fadd_le [OF l(1)]) (use fin p0 in \<open>auto simp: finite_number_def\<close>)
  moreover have "num_of (rs_account_daily_loss_pct s) + pct \<le> 2 + 2 / 10 ^ 9" by (rule fadd_le [OF l(2)]) (use fin p0 in \<open>auto simp: finite_number_def\<close>)
  moreover have "\<forall>p \<in> set (the (rs_open_positions s)). \<exists>sy. op_symbol p = JStr sy \<and> upper sy \<notin> {upper (sp_symbol scope), upper (broker_symbol scope)}"
    using matching_none [OF ma] by simp
  ultimately show ?thesis using sn m r p by blast
qed

section \<open>A concrete snapshot\<close>

definition demo_risk_meta :: symbol_meta where
  "demo_risk_meta = \<lparr>sm_symbol = ''GBPUSD-VIP'', tick_size = fl (1 / 100000), tick_value = 1, contract_size = 100000, volume_min = fl (1 / 100),
     volume_max = 100, volume_step = fl (1 / 100), digits = 5, point = fl (1 / 100000), trade_stops_level = 0, trade_freeze_level = 0,
     metadata_source = ''EXCHANGE_VERIFIED''\<rparr>"

definition demo_snapshot :: risk_snapshot where
  "demo_snapshot = \<lparr>rs_observed_at_utc = demo_now ''2026-01-05T10:00:00+00:00'', rs_server_day = Some 739621, rs_demo_equity = JFloat 10000,
     rs_strategy_daily_loss_pct = JFloat 0, rs_account_daily_loss_pct = JFloat (1 / 2), rs_strategy_trades_today = JInt 1,
     rs_open_positions = Some [\<lparr>op_symbol = JStr ''EURUSD-VIP'', op_magic_number = JInt 5\<rparr>], rs_positions_complete = True,
     rs_daily_metrics_complete = True, rs_symbol_meta = Some demo_risk_meta, rs_daily_reset_basis = Some ''VT_SERVER_DAY''\<rparr>"

theorem risk_caps_enforced_witness:
  "\<exists>a v. evaluate_risk_caps demo_ticket demo_scope (Some demo_snapshot) (demo_now ''2026-01-05T10:02:00+00:00'') = Inr a \<and>
     ra_planned_volume a = Some v \<and>
     v * (\<bar>decimal_of (dget demo_ticket ''entry'') - decimal_of (dget_or demo_ticket ''stop_loss'' (dget demo_ticket ''sl''))\<bar>
         / float_decimal (tick_size demo_risk_meta) * float_decimal (tick_value demo_risk_meta)) * 100 / decimal_of (rs_demo_equity demo_snapshot)
     \<le> (1 + 1 / 2 ^ 50) * (1 / 2)"
proof -
  let ?c = "evaluate_risk_caps demo_ticket demo_scope (Some demo_snapshot) (demo_now ''2026-01-05T10:02:00+00:00'')"
  have "case ?c of Inr a \<Rightarrow> ra_allowed a | Inl _ \<Rightarrow> False" by code_simp
  then obtain a where a: "?c = Inr a" "ra_allowed a" by (auto split: sum.splits)
  have "float_inputs demo_snapshot" by code_simp
  moreover have "rs_symbol_meta demo_snapshot = Some demo_risk_meta" by (simp add: demo_snapshot_def)
  ultimately show ?thesis using risk_caps_enforced [OF a] a(1) by fastforce
qed

end
