(* ===== verification/Ready_Authority.thy ===== *)
theory Ready_Authority
  imports Authorization
begin

text \<open>
  The READY authority of src/src/v1\_tickets/ready\_authority.py and the logic identity it compares
  with (src/src/v1\_tickets/authority.py). Files, the YAML parser, SHA-256 and path resolution are the
  host; a YAML date is represented by its ISO text.
\<close>

record ready_host =
  rh_yaml_file :: "string \<Rightarrow> json option"
  rh_text_file :: "string \<Rightarrow> string option"
  rh_yaml_text :: "string \<Rightarrow> json option"
  rh_bytes_sha :: "string \<Rightarrow> string option"
  rh_files_sha :: "string list \<Rightarrow> string option"
  rh_json_sha :: "json \<Rightarrow> string"
  rh_in_repo :: "string \<Rightarrow> string"
  rh_resolve :: "string \<Rightarrow> string"

section \<open>The logic identity\<close>

definition ENGINE_FILES :: "string list" where
  "ENGINE_FILES = [''__init__.py'', ''engine.py'', ''loader.py'', ''models.py'', ''session/__init__.py'', ''session/candles.py'',
     ''session/classifier.py'', ''session/reference_box.py'', ''session/router.py'', ''session/setups.py'']"

definition ADAPTERS :: "(string \<times> string \<times> string list) list" where
  "ADAPTERS =
    [(''ST_ASIAN_SWEEP_5R_V1'', ''strategies/ST_ASIAN_SWEEP_5R_V1.yaml'', map (\<lambda>f. ''src/strategy_engine/'' @ f) ENGINE_FILES),
     (''ST_CRYPTO_CFD_SWEEP_RETEST_V1'', ''strategies/ST_CRYPTO_CFD_SWEEP_RETEST_V1.yaml'',
       [''src/crypto_cfd_contract/contract.py'', ''src/crypto_cfd_contract/rules.py'', ''src/crypto_cfd_contract/guard.py'',
        ''src/host_evidence/symbol_metadata.py'', ''src/v1_tickets/crypto_cfd.py'', ''src/v1_tickets/crypto_cfd_policy.py'',
        ''src/v1_tickets/ccfd_logic_gate.py'', ''src/v1_tickets/logic_gate.py'', ''config/v1_tickets/crypto_ticket_v2.yaml'',
        ''config/v1_tickets/crypto_ticket_v3.yaml'', ''src/market_structure/config.py'', ''src/market_structure/analyzer.py'',
        ''src/market_structure/smc_adapter.py'', ''config/market_structure.yaml'', ''src/strategy_engine/session/reference_box.py'',
        ''config/v1_tickets/crypto_cfd_ticket_policy.yaml'', ''src/v1_tickets/manual_ticket.py'',
        ''src/strategy_engine/sweep_retest/sweep.py'', ''src/strategy_engine/sweep_retest/mss.py'',
        ''src/strategy_engine/sweep_retest/retest.py'', ''src/strategy_engine/sweep_retest/targets.py''])]"

definition CANDIDATE_CONTRACTS :: "((string \<times> string) \<times> string) list" where
  "CANDIDATE_CONTRACTS =
    [((''ST_ASIAN_SWEEP_5R_V1'', ''1.1.2''), ''strategies/ST_ASIAN_SWEEP_5R_V1_1_1_2.yaml''),
     ((''ST_ASIAN_SWEEP_5R_V1'', ''1.1.3''), ''strategies/ST_ASIAN_SWEEP_5R_V1_1_1_3.yaml'')]"

definition CANDIDATE_ENGINE_FILES :: "((string \<times> string) \<times> string list) list" where
  "CANDIDATE_ENGINE_FILES =
    [((''ST_ASIAN_SWEEP_5R_V1'', ''1.1.3''),
      [''src/strategy_engine/append_only.py'', ''src/v1_tickets/fx.py'', ''src/session_scanner/strategy_adapter.py''])]"

definition logic_identity_of :: "ready_host \<Rightarrow> string \<Rightarrow> string \<Rightarrow> dict option res" where
  "logic_identity_of h sid version =
     (case map_of ADAPTERS sid of
        None \<Rightarrow> Inr None
      | Some (contract0, files0) \<Rightarrow>
          let contract = (case map_of CANDIDATE_CONTRACTS (sid, version) of None \<Rightarrow> contract0 | Some c \<Rightarrow> c);
              engine_files = files0 @ (case map_of CANDIDATE_ENGINE_FILES (sid, version) of None \<Rightarrow> [] | Some fs \<Rightarrow> fs)
          in case (rh_files_sha h engine_files, rh_files_sha h [contract]) of
               (Some e, Some c) \<Rightarrow>
                 let parts = [(''strategy_id'', JStr sid), (''strategy_version'', JStr version), (''engine_identity'', JStr e),
                              (''contract_hash'', JStr c)]
                 in Inr (Some (parts @ [(''digest'', JStr (rh_json_sha h (JDict parts)))]))
             | _ \<Rightarrow> Inl OSError)"

section \<open>The owner register\<close>

text \<open>The text before and after the first occurrence of a separator.\<close>

fun split_first :: "string \<Rightarrow> string \<Rightarrow> (string \<times> string) option" where
  "split_first sep [] = (if sep = [] then Some ([], []) else None)"
| "split_first sep (c # s) =
     (if take (length sep) (c # s) = sep then Some ([], drop (length sep) (c # s))
      else map_option (\<lambda>(a, b). (c # a, b)) (split_first sep s))"

definition RECORD_START :: string where "RECORD_START = ''<!-- READY_AUTHORITY_RECORDS_START -->''"
definition RECORD_END :: string where "RECORD_END = ''<!-- READY_AUTHORITY_RECORDS_END -->''"

text \<open>The substitution that removes a code fence at either end of the block.\<close>

definition strip_fence :: "string \<Rightarrow> string" where
  "strip_fence s =
     (let opened = (let t = dropWhile is_space s
                    in if take 3 t = ''```'' then
                         let u = drop 3 t; v = (if upper (take 4 u) = ''YAML'' then drop 4 u else u) in dropWhile is_space v
                       else s);
          t = dropWhile is_space (rev opened)
      in if take 3 t = ''```'' then rev (dropWhile is_space (drop 3 t)) else opened)"

definition owner_records :: "ready_host \<Rightarrow> string \<Rightarrow> dict list res" where
  "owner_records h path =
     (case rh_text_file h path of
        None \<Rightarrow> Inl OSError
      | Some source \<Rightarrow>
          (case (split_first RECORD_START source, split_first RECORD_END source) of
             (Some (_, rest), Some _) \<Rightarrow>
               (let block = (case split_first RECORD_END rest of None \<Rightarrow> rest | Some (b, _) \<Rightarrow> b)
                in case rh_yaml_text h (strip_fence block) of
                     None \<Rightarrow> Inl (ValueError ''yaml'')
                   | Some v \<Rightarrow>
                       (case (if truthy v then v else JDict []) of
                          JDict parsed \<Rightarrow>
                            (case dget_or parsed ''ready_authority_records'' (JList []) of
                               JList rows \<Rightarrow>
                                 (case dict_rows rows of
                                    None \<Rightarrow> Inl (ValueError ''ready_authority_records must be a list of mappings'')
                                  | Some rs \<Rightarrow> Inr rs)
                             | _ \<Rightarrow> Inl (ValueError ''ready_authority_records must be a list of mappings''))
                        | _ \<Rightarrow> Inl (ValueError ''ready_authority_records must be a list of mappings'')))
           | _ \<Rightarrow> Inr []))"

definition APPROVED_STATUSES :: "string list" where
  "APPROVED_STATUSES = [''APPROVED'', ''CONFIRMED'', ''AUTHORIZED'', ''RATIFIED'', ''RESOLVED'']"

definition is_lower_hex :: "char \<Rightarrow> bool" where
  "is_lower_hex c = (c \<in> set ''0123456789abcdef'')"

definition text_items :: "json \<Rightarrow> string list option" where
  "text_items v =
     (case v of
        JList vs \<Rightarrow>
          if vs \<noteq> [] \<and> list_all (\<lambda>x. case x of JStr s \<Rightarrow> s \<noteq> [] | _ \<Rightarrow> False) vs
          then Some (map (\<lambda>x. case x of JStr s \<Rightarrow> s | _ \<Rightarrow> []) vs) else None
      | _ \<Rightarrow> None)"

definition validate_record :: "dict \<Rightarrow> bool" where
  "validate_record r \<longleftrightarrow>
     list_all (\<lambda>k. non_empty (dget r k)) [''decision_id'', ''strategy_id'', ''version'', ''contract_sha256''] \<and>
     (case dget r ''status'' of JStr s \<Rightarrow> s \<in> set APPROVED_STATUSES | _ \<Rightarrow> False) \<and>
     (case dget r ''contract_sha256'' of JStr s \<Rightarrow> length s = 64 \<and> list_all is_lower_hex s | _ \<Rightarrow> False) \<and>
     text_items (dget r ''symbol_scope'') \<noteq> None \<and> text_items (dget r ''session_scope'') \<noteq> None \<and>
     (case dget r ''date'' of JStr s \<Rightarrow> parse_date s \<noteq> None | _ \<Rightarrow> False)"

definition in_list :: "json \<Rightarrow> json \<Rightarrow> bool" where
  "in_list v vs = (case vs of JList xs \<Rightarrow> v \<in> set xs | _ \<Rightarrow> False)"

text \<open>The conjuncts the loop tests, and the two the diagnosis repeats.\<close>

definition record_current :: "py_rt \<Rightarrow> json \<Rightarrow> dict \<Rightarrow> bool" where
  "record_current rt version r \<longleftrightarrow> validate_record r \<and> dget r ''version'' = JStr (py_str rt version)"

definition record_matches :: "py_rt \<Rightarrow> json \<Rightarrow> string \<Rightarrow> json \<Rightarrow> json \<Rightarrow> dict \<Rightarrow> bool" where
  "record_matches rt version c sy ses r \<longleftrightarrow>
     record_current rt version r \<and> dget r ''contract_sha256'' = JStr c \<and> in_list sy (dget r ''symbol_scope'') \<and>
     in_list ses (dget r ''session_scope'')"

text \<open>\<open>v or {}\<close> and \<open>v.get(k)\<close> of a value that need not be a mapping.\<close>

definition or_empty :: "json \<Rightarrow> json" where
  "or_empty v = (if truthy v then v else JDict [])"

definition attr_get :: "json \<Rightarrow> string \<Rightarrow> json res" where
  "attr_get v k = (case v of JDict d \<Rightarrow> Inr (dget d k) | _ \<Rightarrow> Inl AttributeError)"

definition ready_authority ::
  "py_rt \<Rightarrow> ready_host \<Rightarrow> string \<Rightarrow> string \<Rightarrow> json \<Rightarrow> string option \<Rightarrow> json \<Rightarrow> json \<Rightarrow> string \<Rightarrow> bool \<times> string" where
  "ready_authority rt h sid path version csha sy ses register =
     (case rh_yaml_file h path of
        None \<Rightarrow> (False, ''READY_AUTHORITY_CONFIG_UNREADABLE'')
      | Some raw \<Rightarrow>
     (case res_bind (attr_get (or_empty raw) ''strategies'') (\<lambda>v. attr_get (or_empty v) sid) of
        Inl _ \<Rightarrow> (False, ''READY_AUTHORITY_CONFIG_UNREADABLE'')
      | Inr (JDict entry) \<Rightarrow>
          if \<not> (dget entry ''ready'' = JBool True \<or> upper (py_str rt (dget entry ''ready'')) = ''ON'')
          then (False, if truthy (dget entry ''reason'') then py_str rt (dget entry ''reason'') else ''READY_AUTHORITY_OFF_D6'')
          else (case (csha, sy, ses) of
             (Some c, JStr _, JStr _) \<Rightarrow>
               if version = JNull \<or> c = [] then (False, ''OWNER_DECISION_RECORD_MISSING'')
               else (case owner_records h register of
                  Inl e \<Rightarrow> (False, if e = OSError then ''OWNER_DECISION_RECORD_MISSING'' else ''OWNER_DECISION_RECORD_INVALID'')
                | Inr records \<Rightarrow>
                    let scoped = filter (\<lambda>r. dget r ''strategy_id'' = JStr sid) records;
                        cur = filter (record_current rt version) scoped
                    in if scoped = [] then (False, ''OWNER_DECISION_RECORD_MISSING'')
                       else if list_ex (record_matches rt version c sy ses) scoped then (True, ''READY_AUTHORITY_ON_OWNER_RECORD'')
                       else if list_ex (\<lambda>r. dget r ''contract_sha256'' \<noteq> JStr c) cur then (False, ''OWNER_DECISION_CONTRACT_HASH_MISMATCH'')
                       else if list_ex (\<lambda>r. dget r ''contract_sha256'' = JStr c \<and> \<not> in_list sy (dget r ''symbol_scope'')) cur
                       then (False, ''OWNER_DECISION_SYMBOL_OUT_OF_SCOPE'')
                       else if list_ex (\<lambda>r. dget r ''contract_sha256'' = JStr c \<and> in_list sy (dget r ''symbol_scope'')
                                            \<and> \<not> in_list ses (dget r ''session_scope'')) cur
                       then (False, ''OWNER_DECISION_SESSION_OUT_OF_SCOPE'')
                       else if list_ex (\<lambda>r. \<not> validate_record r) scoped then (False, ''OWNER_DECISION_RECORD_INVALID'')
                       else (False, ''OWNER_DECISION_VERSION_MISMATCH''))
           | _ \<Rightarrow> (False, ''OWNER_DECISION_RECORD_MISSING''))
      | Inr _ \<Rightarrow> (False, ''READY_AUTHORITY_OFF_D6'')))"

section \<open>Verified scopes\<close>

definition scope_entry_matches :: "dict \<Rightarrow> string \<Rightarrow> json \<Rightarrow> json \<Rightarrow> json \<Rightarrow> json \<Rightarrow> dict \<Rightarrow> bool" where
  "scope_entry_matches identity source sy cycle setup branch e \<longleftrightarrow>
     dget e ''symbol'' = sy \<and> non_empty (dget e ''evidence'') \<and> dget e ''status'' = JStr ''LOGIC_VERIFIED'' \<and>
     dget e ''config_source'' = JStr source \<and> dget e ''contract_hash'' = dget identity ''contract_hash'' \<and>
     dget e ''engine_hash'' = dget identity ''engine_identity'' \<and> dget e ''identity_hash'' = dget identity ''digest'' \<and>
     dget e ''session'' = cycle \<and> dget e ''engine_setup'' = setup \<and> dget e ''branch'' = branch"

definition registry_version :: "py_rt \<Rightarrow> json \<Rightarrow> string \<Rightarrow> json \<Rightarrow> (json \<times> json) res" where
  "registry_version rt raw sid version =
     res_bind (attr_get (or_empty raw) ''strategies'') (\<lambda>ss.
     res_bind (attr_get (or_empty ss) sid) (\<lambda>entry.
     res_bind (attr_get (or_empty entry) ''candidate_versions'') (\<lambda>vs.
     res_bind (attr_get (or_empty vs) (py_str rt version)) (\<lambda>v.
     res_bind (attr_get (or_empty v) ''logic_verified_scopes'') (\<lambda>listed. Inr (or_empty v, listed))))))"

definition logic_scope_verified ::
  "py_rt \<Rightarrow> ready_host \<Rightarrow> string \<Rightarrow> json \<Rightarrow> json \<Rightarrow> string \<Rightarrow> json \<Rightarrow> json \<Rightarrow> json \<Rightarrow> string \<Rightarrow> bool res" where
  "logic_scope_verified rt h sid version sy registry cycle setup branch cpath =
     (case rh_yaml_file h registry of
        None \<Rightarrow> Inr False
      | Some raw \<Rightarrow>
     (case registry_version rt raw sid version of
        Inr (JDict v, JList listed) \<Rightarrow>
          (case (sy, dget v ''config_source'') of
             (JStr _, JStr source) \<Rightarrow>
               if source = [] then Inr False
               else if rh_resolve h cpath \<noteq> rh_in_repo h source then Inr False
               else (case (logic_identity_of h sid (py_str rt version), rh_yaml_file h (rh_in_repo h source)) of
                  (Inr identity, Some doc) \<Rightarrow>
                    (case identity of
                       None \<Rightarrow> Inr False
                     | Some idn \<Rightarrow>
                         (case attr_get (or_empty doc) ''version'' of
                            Inl e \<Rightarrow> Inl e
                          | Inr dv \<Rightarrow>
                              if dv \<noteq> JStr (py_str rt version) then Inr False
                              else Inr (list_ex (\<lambda>x. case x of JDict e \<Rightarrow> scope_entry_matches idn source sy cycle setup branch e | _ \<Rightarrow> False) listed)))
                | _ \<Rightarrow> Inr False)
           | _ \<Rightarrow> Inr False)
      | _ \<Rightarrow> Inr False))"

definition SHADOW_LABEL :: string where
  "SHADOW_LABEL = ''SHADOW / INFO ONLY -- READY AUTHORITY OFF (D6) -- NOT ACTIONABLE -- NOT A BROKER ORDER''"
definition SYMBOL_UNVERIFIED_LABEL :: string where
  "SYMBOL_UNVERIFIED_LABEL = ''SHADOW / INFO ONLY -- SYMBOL NOT VERIFIED FOR THIS STRATEGY VERSION -- NOT ACTIONABLE -- NOT A BROKER ORDER''"

text \<open>\<open>{**ticket, ...}\<close>.\<close>

definition suppress :: "dict \<Rightarrow> string \<Rightarrow> string \<Rightarrow> string \<Rightarrow> dict" where
  "suppress ticket label reason authority =
     fold (\<lambda>(k, v) d. dput k v d)
       [(''decision'', JStr ''SHADOW_INFO_ONLY''), (''suppressed_decision'', JStr ''READY''), (''label'', JStr label),
        (''engine_reason_code'', dget ticket ''reason_code''), (''reason_code'', JStr reason), (''ready_authority'', JStr authority)] ticket"

definition ready_branch :: "py_rt \<Rightarrow> dict \<Rightarrow> json" where
  "ready_branch rt ticket =
     (let regime = dget ticket ''regime''; setup = dget ticket ''setup''
      in if truthy regime \<and> truthy setup then JStr (py_str rt regime @ ''_'' @ py_str rt setup) else JNull)"

definition apply_ready_authority :: "py_rt \<Rightarrow> ready_host \<Rightarrow> dict \<Rightarrow> scope_policy \<Rightarrow> dict res" where
  "apply_ready_authority rt h ticket scope =
     (if dget ticket ''decision'' \<noteq> JStr ''READY'' then Inr ticket
      else
        let sid = py_str rt (dget ticket ''strategy_id'')
        in case ready_authority rt h sid (ready_authority_config_path scope) (dget ticket ''strategy_version'')
                  (rh_bytes_sha h (contract_path scope)) (dget ticket ''symbol'') (dget ticket ''cycle'') (owner_decision_register_path scope) of
             (False, reason) \<Rightarrow> Inr (suppress ticket SHADOW_LABEL reason ''OFF'')
           | (True, _) \<Rightarrow>
               (case logic_scope_verified rt h sid (dget ticket ''strategy_version'') (dget ticket ''symbol'') (registry_path scope)
                       (dget ticket ''cycle'') (dget ticket ''setup'') (ready_branch rt ticket) (contract_path scope) of
                  Inl e \<Rightarrow> Inl e
                | Inr True \<Rightarrow> Inr ticket
                | Inr False \<Rightarrow> Inr (suppress ticket SYMBOL_UNVERIFIED_LABEL ''READY_SYMBOL_NOT_VERIFIED'' ''ON_SYMBOL_NOT_VERIFIED'')))"

section \<open>Lemmas\<close>

lemma suppress_decision [simp]: "dget (suppress ticket label reason authority) ''decision'' = JStr ''SHADOW_INFO_ONLY''"
  by (simp add: suppress_def)

text \<open>The configured entry of a strategy is on.\<close>

definition configured_on :: "py_rt \<Rightarrow> ready_host \<Rightarrow> string \<Rightarrow> string \<Rightarrow> bool" where
  "configured_on rt h path sid \<longleftrightarrow>
     (\<exists>raw entry. rh_yaml_file h path = Some raw \<and>
        res_bind (attr_get (or_empty raw) ''strategies'') (\<lambda>v. attr_get (or_empty v) sid) = Inr (JDict entry) \<and>
        (dget entry ''ready'' = JBool True \<or> upper (py_str rt (dget entry ''ready'')) = ''ON''))"

lemma ready_authority_on:
  assumes "ready_authority rt h sid path version csha sy ses register = (True, reason)"
  shows "configured_on rt h path sid" "\<exists>c rs r. csha = Some c \<and> owner_records h register = Inr rs \<and> r \<in> set rs \<and>
    dget r ''strategy_id'' = JStr sid \<and> record_matches rt version c sy ses r"
proof -
  obtain raw where raw: "rh_yaml_file h path = Some raw" using assms by (cases "rh_yaml_file h path") (auto simp: ready_authority_def)
  obtain v where v: "res_bind (attr_get (or_empty raw) ''strategies'') (\<lambda>v. attr_get (or_empty v) sid) = Inr v"
    using assms raw by (cases "res_bind (attr_get (or_empty raw) ''strategies'') (\<lambda>v. attr_get (or_empty v) sid)") (auto simp: ready_authority_def)
  obtain entry where e: "v = JDict entry" using assms raw v by (cases v) (auto simp: ready_authority_def)
  note u = assms [unfolded ready_authority_def raw option.case v sum.case e json.case]
  have "dget entry ''ready'' = JBool True \<or> upper (py_str rt (dget entry ''ready'')) = ''ON''" using u by (auto split: if_splits)
  with raw v e show "configured_on rt h path sid" by (simp add: configured_on_def)
  obtain c where c: "csha = Some c" using u by (cases csha) (auto split: if_splits)
  obtain sy' ses' where s: "sy = JStr sy'" "ses = JStr ses'" using u c by (cases sy; cases ses) (auto split: if_splits)
  obtain rs where rs: "owner_records h register = Inr rs" using u c s by (cases "owner_records h register") (auto split: if_splits)
  have "list_ex (record_matches rt version c sy ses) (filter (\<lambda>r. dget r ''strategy_id'' = JStr sid) rs)"
    using u c s rs by (auto simp: Let_def split: if_splits)
  then show "\<exists>c rs r. csha = Some c \<and> owner_records h register = Inr rs \<and> r \<in> set rs \<and>
    dget r ''strategy_id'' = JStr sid \<and> record_matches rt version c sy ses r"
    using c rs by (auto simp: list_ex_iff)
qed

lemma logic_scope_verified_entry:
  assumes "logic_scope_verified rt h sid version sy registry cycle setup branch cpath = Inr True"
  shows "\<exists>idn source e. logic_identity_of h sid (py_str rt version) = Inr (Some idn) \<and> rh_resolve h cpath = rh_in_repo h source \<and>
    scope_entry_matches idn source sy cycle setup branch e"
proof -
  obtain raw where raw: "rh_yaml_file h registry = Some raw" using assms by (cases "rh_yaml_file h registry") (auto simp: logic_scope_verified_def)
  obtain v l where v: "registry_version rt raw sid version = Inr (v, l)"
    using assms raw by (cases "registry_version rt raw sid version") (auto simp: logic_scope_verified_def)
  obtain d listed where d: "v = JDict d" "l = JList listed" using assms raw v by (cases v; cases l) (auto simp: logic_scope_verified_def)
  note u = assms [unfolded logic_scope_verified_def raw option.case v sum.case prod.case d json.case]
  obtain y source where s: "sy = JStr y" "dget d ''config_source'' = JStr source"
    using u by (cases sy; cases "dget d ''config_source''") auto
  obtain i doc where i: "logic_identity_of h sid (py_str rt version) = Inr (Some i)" "rh_yaml_file h (rh_in_repo h source) = Some doc"
    "rh_resolve h cpath = rh_in_repo h source"
    using u s by (auto split: if_splits sum.splits option.splits)
  have "list_ex (\<lambda>x. case x of JDict e \<Rightarrow> scope_entry_matches i source sy cycle setup branch e | _ \<Rightarrow> False) listed"
    using u s i by (auto split: if_splits sum.splits)
  then obtain x where x: "case x of JDict e \<Rightarrow> scope_entry_matches i source sy cycle setup branch e | _ \<Rightarrow> False" by (auto simp: list_ex_iff)
  then obtain e where "scope_entry_matches i source sy cycle setup branch e" by (cases x) auto
  with i show ?thesis by blast
qed

section \<open>Properties\<close>


section \<open>A concrete register\<close>

definition demo_yaml_file :: "string \<Rightarrow> json option" where
  "demo_yaml_file p = map_of
    [(''ready'', JDict [(''strategies'', JDict [(''ST_ASIAN_SWEEP_5R_V1'', JDict [(''ready'', JBool True)])])]),
     (''registry'', JDict [(''strategies'', JDict [(''ST_ASIAN_SWEEP_5R_V1'', JDict [(''candidate_versions'', JDict [(''1.1.2'',
        JDict [(''config_source'', JStr ''contract''), (''logic_verified_scopes'', JList [JDict [(''symbol'', JStr ''GBPUSD''),
          (''evidence'', JStr ''PR''), (''status'', JStr ''LOGIC_VERIFIED''), (''config_source'', JStr ''contract''), (''contract_hash'', JStr demo_identity),
          (''engine_hash'', JStr demo_identity), (''identity_hash'', JStr demo_identity), (''session'', JStr ''LONDON''),
          (''engine_setup'', JStr ''SWEEP''), (''branch'', JStr ''BULL_SWEEP'')]])])])])])]),
     (''contract'', JDict [(''version'', JStr ''1.1.2'')])] p"

definition demo_text_file :: "string \<Rightarrow> string option" where
  "demo_text_file p = Some (RECORD_START @ ''```yaml x ```'' @ RECORD_END)"

definition demo_yaml_text :: "string \<Rightarrow> json option" where
  "demo_yaml_text t = (if t = ''x'' then Some (JDict [(''ready_authority_records'', JList [JDict [(''decision_id'', JStr ''D''),
     (''strategy_id'', JStr ''ST_ASIAN_SWEEP_5R_V1''), (''version'', JStr ''1.1.2''), (''contract_sha256'', JStr demo_identity),
     (''status'', JStr ''APPROVED''), (''symbol_scope'', JList [JStr ''GBPUSD'']), (''session_scope'', JList [JStr ''LONDON'']),
     (''date'', JStr ''2026-01-01'')]])]) else None)"

definition demo_bytes_sha :: "string \<Rightarrow> string option" where "demo_bytes_sha p = Some demo_identity"
definition demo_files_sha :: "string list \<Rightarrow> string option" where "demo_files_sha ps = Some demo_identity"
definition demo_json_sha :: "json \<Rightarrow> string" where "demo_json_sha v = demo_identity"

definition demo_ready_host :: ready_host where
  "demo_ready_host = \<lparr>rh_yaml_file = demo_yaml_file, rh_text_file = demo_text_file, rh_yaml_text = demo_yaml_text, rh_bytes_sha = demo_bytes_sha,
     rh_files_sha = demo_files_sha, rh_json_sha = demo_json_sha, rh_in_repo = demo_abs, rh_resolve = demo_abs\<rparr>"


end
