(* ===== verification/Target_Geometry.thy ===== *)
theory Target_Geometry
  imports Confirmation
begin

text \<open>
  The directional order of entry, stop and targets (src/src/v1\_tickets/target\_geometry.py), applied at
  the READY boundary and again at the execution handoff.
\<close>

section \<open>Definitions\<close>

text \<open>\<open>_num\<close>: \<open>float(value)\<close>, \<open>None\<close> when it raises.\<close>

definition num_or_none :: "json \<Rightarrow> rat option" where
  "num_or_none v = (case py_float v of Inl _ \<Rightarrow> None | Inr x \<Rightarrow> Some x)"

definition geometry_violation :: "json \<Rightarrow> json \<Rightarrow> json \<Rightarrow> json \<Rightarrow> json \<Rightarrow> string option" where
  "geometry_violation entry sl tp1 tp2 direction =
     (case (num_or_none entry, num_or_none sl, num_or_none tp1, num_or_none tp2) of
        (Some e, Some s, Some t1, Some t2) \<Rightarrow>
          if direction \<notin> {JStr ''LONG'', JStr ''SHORT''} then Some ''TARGET_GEOMETRY_DIRECTION_INVALID''
          else let sign = (if direction = JStr ''LONG'' then 1 else - 1)
               in if fmul sign (fsub e s) \<le> 0 then Some ''NON_POSITIVE_RISK_DISTANCE''
                  else if fmul sign (fsub t1 e) \<le> 0 then Some ''TP1_NOT_BEYOND_ENTRY''
                  else if fmul sign (fsub t2 t1) < 0 then Some ''TARGET_ORDER_INVALID:FAIL_CLOSED_IF_TP1_BEYOND_TP2''
                  else None
      | _ \<Rightarrow> Some ''TARGET_GEOMETRY_INCOMPLETE'')"

text \<open>\<open>v == i\<close> of a JSON value and an integer.\<close>

definition equals_int :: "json \<Rightarrow> int \<Rightarrow> bool" where
  "equals_int v i =
     (case v of JInt j \<Rightarrow> j = i | JFloat x \<Rightarrow> x = of_int i | JBool b \<Rightarrow> (if b then 1 else 0) = i | _ \<Rightarrow> False)"

text \<open>The loop over the target legs.\<close>

fun fill_targets :: "json list \<Rightarrow> json \<Rightarrow> json \<Rightarrow> json \<times> json" where
  "fill_targets [] tp1 tp2 = (tp1, tp2)"
| "fill_targets (JDict leg # legs) tp1 tp2 =
     fill_targets legs (if equals_int (dget leg ''leg'') 1 \<and> tp1 = JNull then dget leg ''price'' else tp1)
                       (if equals_int (dget leg ''leg'') 2 \<and> tp2 = JNull then dget leg ''price'' else tp2)"
| "fill_targets (_ # legs) tp1 tp2 = fill_targets legs tp1 tp2"

text \<open>Iterating over a value: text and the keys of a dictionary hold no legs, a number raises.\<close>

definition ticket_levels :: "dict \<Rightarrow> dict res" where
  "ticket_levels ticket =
     (let levels = (\<lambda>(tp1, tp2). Inr [(''entry'', dget ticket ''entry''), (''sl'', dget_or ticket ''stop_loss'' (dget ticket ''sl'')),
                                      (''tp1'', tp1), (''tp2'', tp2), (''direction'', dget ticket ''direction'')]);
          tp1 = dget ticket ''tp1''; tp2 = dget ticket ''tp2''; targets = dget ticket ''targets''
      in if \<not> truthy targets then levels (tp1, tp2)
         else case targets of
           JList legs \<Rightarrow> levels (fill_targets legs tp1 tp2)
         | JStr _ \<Rightarrow> levels (tp1, tp2)
         | JDict _ \<Rightarrow> levels (tp1, tp2)
         | _ \<Rightarrow> Inl TypeError)"

definition ticket_geometry_violation :: "dict \<Rightarrow> string option res" where
  "ticket_geometry_violation ticket =
     res_bind (ticket_levels ticket) (\<lambda>lv. Inr (geometry_violation (dget lv ''entry'') (dget lv ''sl'') (dget lv ''tp1'') (dget lv ''tp2'') (dget lv ''direction'')))"

section \<open>Properties\<close>

lemma fmul_one [simp]: "fmul 1 (fl x) = fl x" "fmul (- 1) (fl x) = - fl x"
  using fl_minus [of "fl x"] by simp_all

text \<open>The check passes exactly when all four levels are numbers in the order of the
  direction, stop, entry, first target, second target, the first three strictly; no rounding of the
  differences hides or invents a violation.\<close>

theorem geometry_exact:
  "geometry_violation entry sl tp1 tp2 direction = None \<longleftrightarrow>
   (\<exists>e s t1 t2. py_float entry = Inr e \<and> py_float sl = Inr s \<and> py_float tp1 = Inr t1 \<and> py_float tp2 = Inr t2 \<and>
      (direction = JStr ''LONG'' \<and> s < e \<and> e < t1 \<and> t1 \<le> t2 \<or> direction = JStr ''SHORT'' \<and> e < s \<and> t1 < e \<and> t2 \<le> t1))"
  by (auto simp: geometry_violation_def num_or_none_def Let_def split: sum.splits)

end
