(* ===== verification/Admission.thy ===== *)
theory Admission
  imports Risk_Caps Ready_Authority Target_Geometry Lifecycle
begin

text \<open>
  The ordered admission gates of src/src/demo\_execution/admission.py. Every gate is evaluated and every
  refusal reported; the owner confirmation is consumed only when the gates before it pass. A ticket is a
  dictionary. What the gates read outside the store is the environment.
\<close>

section \<open>Environment and results\<close>

record gate_env =
  ge_rt :: py_rt
  ge_scope_host :: scope_host
  ge_config :: "string option"
  ge_manifest :: string
  ge_ready_host :: ready_host
  ge_auth_path :: "string option \<Rightarrow> string \<Rightarrow> string option"
  ge_auth_at :: "string \<Rightarrow> auth_file"

text \<open>\<open>resolve_authorization_path\<close> is the host function \<open>ge_auth_path\<close> (\<open>None\<close> when it raises); the file
  is read at the path it gives.\<close>

definition auth_file_of :: "gate_env \<Rightarrow> scope_policy \<Rightarrow> string option \<Rightarrow> auth_file" where
  "auth_file_of env scope path =
     (case ge_auth_path env path (authorization_path_env scope) of None \<Rightarrow> PathInvalid | Some p \<Rightarrow> ge_auth_at env p)"

record market_evidence =
  mk_broker_symbol :: string
  mk_bid :: json
  mk_ask :: json
  mk_observed_at_utc :: "datetime option"
  mk_data_close_utc :: "datetime option"

record admission_result =
  ad_admitted :: bool
  ad_reason_code :: string
  ad_ticket_id :: "string option"
  ad_volume :: "rat option"
  ad_risk_amount :: "rat option"
  ad_details :: dict
  ad_block_reasons :: "string list"

definition opt_str :: "string option \<Rightarrow> json" where
  "opt_str v = (case v of None \<Rightarrow> JNull | Some s \<Rightarrow> JStr s)"

definition opt_float :: "rat option \<Rightarrow> json" where
  "opt_float v = (case v of None \<Rightarrow> JNull | Some x \<Rightarrow> JFloat x)"

definition ad_blocked :: "string \<Rightarrow> dict \<Rightarrow> string list \<Rightarrow> dict \<Rightarrow> admission_result" where
  "ad_blocked reason ticket block_reasons details =
     (let reasons = fromkeys (reason # block_reasons)
      in \<lparr>ad_admitted = False, ad_reason_code = reason,
          ad_ticket_id = (case dget ticket ''ticket_id'' of JStr s \<Rightarrow> Some s | _ \<Rightarrow> None), ad_volume = None, ad_risk_amount = None,
          ad_details = details @ [(''primary_block_reason'', JStr reason), (''block_reasons'', JList (map JStr reasons))],
          ad_block_reasons = reasons\<rparr>)"

section \<open>Scope and READY\<close>

definition declared_broker_symbol :: "dict \<Rightarrow> json" where
  "declared_broker_symbol ticket =
     (let declared = dget ticket ''broker_symbol''
      in if declared = JNull then (case dget ticket ''symbol_meta'' of JDict m \<Rightarrow> dget m ''broker_symbol'' | _ \<Rightarrow> JNull) else declared)"

definition check_ticket_scope :: "py_rt \<Rightarrow> dict \<Rightarrow> scope_policy \<Rightarrow> string list \<times> dict" where
  "check_ticket_scope rt ticket scope =
     (let branch = ticket_branch_of rt ticket; declared = declared_broker_symbol ticket
      in ((if \<not> non_empty (dget ticket ''ticket_id'') then [''TICKET_ID_MISSING''] else []) @
          (if dget ticket ''strategy_id'' \<noteq> JStr (strategy_id scope) then [''STRATEGY_SCOPE_MISMATCH''] else []) @
          (if py_str rt (dget ticket ''strategy_version'') \<noteq> strategy_version scope then [''STRATEGY_VERSION_SCOPE_MISMATCH''] else []) @
          (if dget ticket ''symbol'' \<noteq> JStr (sp_symbol scope) then [''SYMBOL_SCOPE_MISMATCH''] else []) @
          (if dget_or ticket ''cycle'' (dget ticket ''session'') \<noteq> JStr (session scope) then [''SESSION_SCOPE_MISMATCH''] else []) @
          (if branch \<noteq> JStr (setup_branch scope) then [''LOGIC_SCOPE_NOT_VERIFIED''] else []) @
          (if dget ticket ''direction'' \<notin> JStr ` set (directions scope) then [''DIRECTION_SCOPE_MISMATCH''] else []) @
          (if dget ticket ''logic_identity'' \<noteq> JStr (logic_identity scope) then [''LOGIC_IDENTITY_MISMATCH''] else []) @
          (if declared \<noteq> JNull \<and> declared \<noteq> JStr (broker_symbol scope) then [''BROKER_SYMBOL_SCOPE_MISMATCH''] else []),
          if branch \<noteq> JStr (setup_branch scope) then [(''setup_branch'', branch)] else []))"

definition str_or :: "py_rt \<Rightarrow> json \<Rightarrow> string \<Rightarrow> string" where
  "str_or rt v alt = (if truthy v then py_str rt v else alt)"

fun error_type :: "py_error \<Rightarrow> string" where
  "error_type (ValueError _) = ''ValueError''" | "error_type (KeyError _) = ''KeyError''" | "error_type TypeError = ''TypeError''"
| "error_type IndexError = ''IndexError''" | "error_type ZeroDivisionError = ''ZeroDivisionError''"
| "error_type AttributeError = ''AttributeError''" | "error_type OverflowError = ''OverflowError''" | "error_type OSError = ''OSError''"
| "error_type StateStoreCorrupted = ''StateStoreCorrupted''" | "error_type (TicketStoreError _) = ''TicketStoreError''"
| "error_type TicketStoreConflict = ''TicketStoreConflict''" | "error_type TicketStoreCorrupt = ''TicketStoreCorrupt''"
| "error_type (StructureLibraryError _) = ''StructureLibraryError''" | "error_type (StructureOutputInvalid _) = ''StructureOutputInvalid''"
| "error_type (MarketDataError _) = ''MarketDataError''" | "error_type (RuntimeError _) = ''RuntimeError''"

definition check_ticket_ready :: "py_rt \<Rightarrow> ready_host \<Rightarrow> dict \<Rightarrow> scope_policy \<Rightarrow> string option \<times> dict" where
  "check_ticket_ready rt h ticket scope =
     (if dget ticket ''decision'' \<noteq> JStr ''READY''
      then (Some (str_or rt (dget ticket ''reason_code'') ''TICKET_NOT_READY''), [(''ticket_decision'', dget ticket ''decision'')])
      else case apply_ready_authority rt h ticket scope of
        Inl e \<Rightarrow> (Some ''READY_OWNER_BINDING_INVALID'', [(''error_type'', JStr (error_type e))])
      | Inr checked \<Rightarrow>
          if dget checked ''decision'' \<noteq> JStr ''READY''
          then (Some (str_or rt (dget checked ''reason_code'') ''READY_OWNER_BINDING_BLOCKED''),
                [(''suppressed_decision'', dget checked ''suppressed_decision''), (''ready_authority'', dget checked ''ready_authority'')])
          else (None, [(''ready_owner_binding'', JStr ''PASS'')]))"

section \<open>Cost\<close>

definition check_cost_gate :: "dict \<Rightarrow> market_evidence option \<Rightarrow> scope_policy \<Rightarrow> (string option \<times> dict) res" where
  "check_cost_gate ticket market scope =
     (case market of
        None \<Rightarrow> Inr (Some ''COST_EVIDENCE_MISSING'', [])
      | Some mk \<Rightarrow>
          let bid = mk_bid mk; ask = mk_ask mk; entry = dget ticket ''entry''; stop = dget_or ticket ''stop_loss'' (dget ticket ''sl'')
          in if mk_broker_symbol mk \<noteq> broker_symbol scope then Inr (Some ''BROKER_SYMBOL_SCOPE_MISMATCH'', [])
             else if \<not> is_number bid \<or> \<not> is_number ask \<or> num_of bid \<le> 0 \<or> num_of ask < num_of bid
             then Inr (Some ''MARKET_QUOTE_INVALID'', [])
             else if \<not> is_number entry \<or> \<not> is_number stop \<or> num_of entry \<le> 0 \<or> num_of stop \<le> 0 \<or> \<bar>fsub (num_of entry) (num_of stop)\<bar> \<le> 0
             then Inr (Some ''RISK_TICKET_GEOMETRY_INVALID'', [])
             else if sp_pip_size scope = 0 then Inl ZeroDivisionError
             else
               let spread = fsub (num_of ask) (num_of bid);
                   spread_pips = fquot spread (sp_pip_size scope);
                   spread_fraction = fquot spread \<bar>fsub (num_of entry) (num_of stop)\<bar>
               in if fadd (max_spread_allowed_pips scope) (fl (1 / 10 ^ 12)) < spread_pips
                  then Inr (Some ''COST_SPREAD_LIMIT'', [(''spread_pips'', JFloat spread_pips)])
                  else if fadd (max_spread_fraction_of_stop scope) (fl (1 / 10 ^ 12)) < spread_fraction
                  then Inr (Some ''COST_STOP_FRACTION_LIMIT'', [(''spread_risk_fraction'', JFloat spread_fraction)])
                  else if point_size scope = 0 then Inl ZeroDivisionError
                  else
                    let executable_price = (if dget ticket ''direction'' = JStr ''LONG'' then num_of ask else num_of bid);
                        slippage_points = fquot \<bar>fsub executable_price (num_of entry)\<bar> (point_size scope)
                    in if fadd (slippage_limit_points scope) (fl (1 / 10 ^ 9)) < slippage_points
                       then Inr (Some ''EXECUTION_SLIPPAGE_LIMIT'', [(''slippage_points'', JFloat slippage_points)])
                       else Inr (None, [(''spread_pips'', JFloat spread_pips), (''spread_risk_fraction'', JFloat spread_fraction),
                                        (''slippage_points'', JFloat slippage_points),
                                        (''cost_basis'', JStr ''CURRENT_SPREAD_ONLY_PER_REGISTERED_S1_CONTRACT'')]))"

section \<open>Freshness\<close>

text \<open>\<open>timedelta(minutes=x)\<close> in microseconds, and \<open>total_seconds()\<close>.\<close>

definition minutes_td :: "rat \<Rightarrow> int" where
  "minutes_td x = round_even (x * 60000000)"

definition total_seconds :: "int \<Rightarrow> rat" where
  "total_seconds us = fquot (of_int us) 1000000"

definition valid_until_of :: "dict \<Rightarrow> json" where
  "valid_until_of ticket = dget_or ticket ''valid_until'' (dget ticket ''valid_until_utc'')"

text \<open>The signal's close, evaluation and expiry times; an absent expiry is \<open>Some None\<close>.\<close>

definition signal_times :: "dict \<Rightarrow> (datetime option \<times> datetime option \<times> datetime option option) res" where
  "signal_times ticket =
     (case as_utc (dget ticket ''signal_close_utc'') of Inl e \<Rightarrow> Inl e | Inr ticket_close \<Rightarrow>
     (case as_utc (dget ticket ''evaluated_at'') of Inl e \<Rightarrow> Inl e | Inr evaluated_at \<Rightarrow>
       (if valid_until_of ticket = JNull then Inr (ticket_close, evaluated_at, Some None)
        else case as_utc (valid_until_of ticket) of Inl e \<Rightarrow> Inl e
        | Inr v \<Rightarrow> Inr (ticket_close, evaluated_at, map_option Some v))))"

definition check_freshness ::
  "dict \<Rightarrow> market_evidence option \<Rightarrow> scope_policy \<Rightarrow> datetime option \<Rightarrow> (string option \<times> dict) res" where
  "check_freshness ticket market scope now_utc =
     (case market of
        None \<Rightarrow> Inr (Some ''FRESHNESS_EVIDENCE_MISSING'', [])
      | Some mk \<Rightarrow>
     (case signal_times ticket of
        Inl e \<Rightarrow> Inl e
      | Inr (ticket_close, evaluated_at, expiry) \<Rightarrow>
     (case (now_utc, ticket_close, evaluated_at, mk_observed_at_utc mk, mk_data_close_utc mk, expiry) of
        (Some now, Some tc, Some ev, Some ob, Some dc, Some valid_until) \<Rightarrow>
          (let times = [tc, ev, ob, dc]; ttl = minutes_td (signal_expiry_minutes scope)
           in if (case valid_until of Some v \<Rightarrow> v \<le> now | None \<Rightarrow> False)
              then Inr (Some ''TICKET_EXPIRED'', [(''valid_until_utc'', JStr (iso_datetime (the valid_until)))])
              else if list_ex (\<lambda>t. now < t) times then Inr (Some ''FRESHNESS_TIMESTAMP_IN_FUTURE'', [])
              else if list_ex (\<lambda>t. ttl < now - t) times then Inr (Some ''MARKET_DATA_STALE'', [])
              else if dc < tc \<or> ob < dc then Inr (Some ''FRESHNESS_ORDER_INVALID'', [])
              else Inr (None, [(''signal_age_seconds'', JFloat (total_seconds (now - tc))),
                               (''quote_age_seconds'', JFloat (total_seconds (now - ob)))]))
      | _ \<Rightarrow> Inr (Some ''FRESHNESS_TIMESTAMP_MISSING_OR_INVALID'', []))))"

definition check_signal_freshness_at_send :: "dict \<Rightarrow> scope_policy \<Rightarrow> datetime option \<Rightarrow> string option res" where
  "check_signal_freshness_at_send ticket scope now_utc =
     (case signal_times ticket of
        Inl e \<Rightarrow> Inl e
      | Inr (ticket_close, evaluated_at, expiry) \<Rightarrow>
     (case (now_utc, ticket_close, evaluated_at, expiry) of
        (Some now, Some tc, Some ev, Some valid_until) \<Rightarrow>
          (let ttl = minutes_td (signal_expiry_minutes scope)
           in Inr (if (case valid_until of Some v \<Rightarrow> v \<le> now | None \<Rightarrow> False) then Some ''TICKET_EXPIRED''
                   else if now < tc \<or> now < ev then Some ''FRESHNESS_TIMESTAMP_IN_FUTURE''
                   else if ttl < now - tc \<or> ttl < now - ev then Some ''SIGNAL_STALE_AT_SEND''
                   else None))
      | _ \<Rightarrow> Inr (Some ''FRESHNESS_TIMESTAMP_MISSING_OR_INVALID'')))"

section \<open>The ordered gates\<close>

text \<open>An optional reason counts only when it is a non-empty string.\<close>

definition reason_list :: "string option \<Rightarrow> string list" where
  "reason_list r = (case r of None \<Rightarrow> [] | Some s \<Rightarrow> [s])"

definition add_reasons :: "string list \<Rightarrow> string list \<Rightarrow> string list" where
  "add_reasons block_reasons rs = fromkeys (block_reasons @ filter (\<lambda>r. r \<noteq> []) rs)"

definition pass_or_blocked :: "bool \<Rightarrow> json" where
  "pass_or_blocked blocked = JStr (if blocked then ''BLOCKED'' else ''PASS'')"

definition is_reason :: "string option \<Rightarrow> bool" where
  "is_reason r \<longleftrightarrow> r \<noteq> None \<and> r \<noteq> Some []"

text \<open>\<open>str(v or "")\<close>.\<close>

definition text_of :: "py_rt \<Rightarrow> json \<Rightarrow> string" where
  "text_of rt v = (if truthy v then py_str rt v else [])"

text \<open>Step 4: the confirmation is consumed only when nothing blocks so far.\<close>

definition confirmation_gate ::
  "py_rt \<Rightarrow> append_io \<Rightarrow> scope_policy \<Rightarrow> dict \<Rightarrow> datetime option \<Rightarrow> bool \<Rightarrow> ticket_store option \<Rightarrow> ticket_store option \<times> owner_check option res" where
  "confirmation_gate rt io policy ticket now_utc clean store =
     (if per_order_confirm_required policy
      then case check_and_consume_owner_confirmation rt io ticket now_utc clean store of
             (store', Inl e) \<Rightarrow> (store', Inl e)
           | (store', Inr c) \<Rightarrow> (store', Inr (Some c))
      else (store, Inr None))"

definition confirmation_details :: "scope_policy \<Rightarrow> owner_check option \<Rightarrow> dict" where
  "confirmation_details policy c =
     [(''per_order_confirm_required'', JBool (per_order_confirm_required policy)),
      (''owner_confirmation'', JDict (case c of
          None \<Rightarrow> [(''status'', JStr ''SKIPPED_BY_CONFIG'')]
        | Some k \<Rightarrow> [(''status'', JStr (oc_status k)), (''confirmation_id'', opt_str (oc_confirmation_id k))]))]"

definition risk_details :: "risk_assessment \<Rightarrow> dict" where
  "risk_details risk =
     [(''status'', pass_or_blocked (\<not> ra_allowed risk)), (''reason_code'', JStr (ra_reason_code risk)),
      (''risk_pct'', opt_float (ra_planned_risk_pct risk)), (''server_day'', opt_str (map_option iso_date (ra_server_day risk))),
      (''daily_reset_owner_confirm'', JBool (ra_daily_reset_owner_confirm risk)),
      (''own_positions_on_symbol'', JInt (int (ra_own_positions risk))),
      (''foreign_positions_on_symbol'', JInt (int (ra_foreign_positions risk)))]"

text \<open>Step 6: the claim ledger.\<close>

definition idempotency_gate :: "py_rt \<Rightarrow> dict \<Rightarrow> ticket_store option \<Rightarrow> (string option \<times> string option) res" where
  "idempotency_gate rt ticket store =
     (case store of
        None \<Rightarrow> Inr (Some ''TICKET_STORE_UNAVAILABLE'', None)
      | Some st \<Rightarrow>
          (case inspect st (text_of rt (dget ticket ''ticket_id'')) of
             Inl e \<Rightarrow> Inl e
           | Inr duplicate \<Rightarrow> Inr (if available duplicate then None else Some (ledger_reason duplicate), ledger_prior duplicate)))"

text \<open>Steps 5 and 6, which only read: risk, cost, freshness, geometry and the ledger.\<close>

definition late_gates ::
  "py_rt \<Rightarrow> dict \<Rightarrow> market_evidence option \<Rightarrow> risk_snapshot option \<Rightarrow> scope_policy \<Rightarrow> datetime option \<Rightarrow> ticket_store option \<Rightarrow>
   (risk_assessment \<times> (string option \<times> dict) \<times> (string option \<times> dict) \<times> (string option \<times> dict) \<times> string option \<times> string option) res" where
  "late_gates rt ticket market snapshot policy now_utc store =
     res_bind (evaluate_risk_caps ticket policy snapshot now_utc) (\<lambda>risk.
     res_bind (check_cost_gate ticket market policy) (\<lambda>cost.
     res_bind (check_freshness ticket market policy now_utc) (\<lambda>freshness.
     res_bind (ticket_geometry_violation ticket) (\<lambda>geometry.
     res_bind (ticket_levels ticket) (\<lambda>levels.
     res_bind (idempotency_gate rt ticket store) (\<lambda>idem.
       Inr (risk, cost, freshness, (geometry, levels), idem)))))))"

definition late_details ::
  "risk_assessment \<Rightarrow> string option \<times> dict \<Rightarrow> string option \<times> dict \<Rightarrow> string option \<times> dict \<Rightarrow> string option \<times> string option \<Rightarrow> dict" where
  "late_details risk cost freshness geometry idem =
     [(''risk'', JDict (risk_details risk)),
      (''cost'', JDict ([(''status'', pass_or_blocked (is_reason (fst cost))), (''reason_code'', opt_str (fst cost))] @ snd cost)),
      (''target_geometry'', JDict ([(''status'', pass_or_blocked (is_reason (fst geometry))), (''reason_code'', opt_str (fst geometry))] @ snd geometry)),
      (''freshness'', JDict ([(''status'', pass_or_blocked (is_reason (fst freshness))), (''reason_code'', opt_str (fst freshness))] @ snd freshness)),
      (''idempotency'', JDict [(''status'', pass_or_blocked (fst idem \<noteq> None)),
         (''reason_code'', JStr (case fst idem of Some r \<Rightarrow> if r = [] then ''IDEMPOTENCY_KEY_AVAILABLE'' else r | None \<Rightarrow> ''IDEMPOTENCY_KEY_AVAILABLE'')),
         (''prior_state'', opt_str (snd idem))])]"

definition early_details :: "string list \<times> dict \<Rightarrow> string option \<times> dict \<Rightarrow> authorization_result \<Rightarrow> string option \<Rightarrow> dict" where
  "early_details scope_check ready authorization note =
     [(''scope'', JDict ((''status'', pass_or_blocked (fst scope_check \<noteq> [])) # snd scope_check)),
      (''ready'', JDict ((''status'', pass_or_blocked (is_reason (fst ready))) # snd ready)),
      (''authorization'', JDict [(''status'', pass_or_blocked (\<not> authorized authorization)), (''reason_code'', JStr (ar_reason_code authorization)),
         (''decision_id'', opt_str (decision_id authorization))]),
      (''notification'', JDict [(''status'', pass_or_blocked (is_reason note)), (''reason_code'', opt_str note)])]"

definition run_gates ::
  "gate_env \<Rightarrow> append_io \<Rightarrow> dict \<Rightarrow> market_evidence option \<Rightarrow> risk_snapshot option \<Rightarrow> datetime option \<Rightarrow> string option \<Rightarrow>
   scope_policy \<Rightarrow> ticket_store option \<Rightarrow> ticket_store option \<times> admission_result res" where
  "run_gates env io ticket market snapshot now_utc auth_path policy store =
     (let rt = ge_rt env; scope_check = check_ticket_scope rt ticket policy;
          ready = check_ticket_ready rt (ge_ready_host env) ticket policy
      in case load_standing_authorization (auth_file_of env policy auth_path) policy ticket now_utc of
           Inl e \<Rightarrow> (store, Inl e)
         | Inr authorization \<Rightarrow>
     (case notification_gate rt (notification_failure_policy policy) store ticket now_utc of
        Inl e \<Rightarrow> (store, Inl e)
      | Inr note \<Rightarrow>
          let early = add_reasons [] (fst scope_check @ reason_list (fst ready) @
                        (if authorized authorization then [] else [ar_reason_code authorization]))
          in case confirmation_gate rt io policy ticket now_utc (early = [] \<and> note = None) store of
               (store', Inl e) \<Rightarrow> (store', Inl e)
             | (store', Inr confirmation) \<Rightarrow>
                 (case late_gates rt ticket market snapshot policy now_utc store' of
                    Inl e \<Rightarrow> (store', Inl e)
                  | Inr (risk, cost, freshness, geometry, idem) \<Rightarrow>
                      let block_reasons = add_reasons early
                            ((case confirmation of None \<Rightarrow> [] | Some c \<Rightarrow> oc_reason_codes c) @
                             (if ra_allowed risk then [] else [ra_reason_code risk]) @ reason_list (fst cost) @ reason_list (fst freshness) @
                             reason_list (fst geometry) @ reason_list note @ reason_list (fst idem));
                          gate_details = early_details scope_check ready authorization note @ confirmation_details policy confirmation @
                             late_details risk cost freshness geometry idem
                      in (store',
                          case block_reasons of
                            r # _ \<Rightarrow> Inr (ad_blocked r ticket block_reasons [(''gate_details'', JDict gate_details)])
                          | [] \<Rightarrow>
                              (case map_of ticket ''ticket_id'' of
                                 None \<Rightarrow> Inl (KeyError ''ticket_id'')
                               | Some tid \<Rightarrow>
                                   Inr \<lparr>ad_admitted = True, ad_reason_code = ''ADMITTED_PRE_SEND'', ad_ticket_id = Some (py_str rt tid),
                                        ad_volume = ra_planned_volume risk, ad_risk_amount = ra_planned_risk_amount risk,
                                        ad_details =
                                          [(''risk_pct'', opt_float (ra_planned_risk_pct risk)), (''daily_reset_basis'', JStr (daily_reset_basis policy)),
                                           (''daily_reset_owner_confirm'', JBool (daily_reset_owner_confirm policy)),
                                           (''authorization_decision_id'', opt_str (decision_id authorization)),
                                           (''owner_confirmation_id'', opt_str (case confirmation of None \<Rightarrow> None | Some c \<Rightarrow> oc_confirmation_id c)),
                                           (''per_order_confirm_required'', JBool (per_order_confirm_required policy)),
                                           (''block_reasons'', JList []), (''gate_details'', JDict gate_details)] @ snd cost @ snd freshness,
                                        ad_block_reasons = []\<rparr>)))))"

text \<open>A scope error other than \<open>ScopePolicyError\<close> propagates; an unmapped symbol is a \<open>RuntimeError\<close>.\<close>

fun scope_raise :: "scope_error \<Rightarrow> string + py_error" where
  "scope_raise (ScopePolicyError r) = Inl r"
| "scope_raise (SymbolUnmapped s) = Inr (RuntimeError s)"
| "scope_raise (Raised e) = Inr e"

definition gate_scope :: "gate_env \<Rightarrow> dict \<Rightarrow> scope_policy option \<Rightarrow> scope_policy scope_res" where
  "gate_scope env ticket scope =
     (case scope of
        Some p \<Rightarrow> Inr p
      | None \<Rightarrow> resolve_ticket_scope_policy (ge_rt env) (ge_scope_host env) (ge_config env) (ge_manifest env) ticket)"

definition evaluate_pre_send_gates ::
  "gate_env \<Rightarrow> append_io \<Rightarrow> dict \<Rightarrow> market_evidence option \<Rightarrow> risk_snapshot option \<Rightarrow> datetime option \<Rightarrow> string option \<Rightarrow>
   scope_policy option \<Rightarrow> ticket_store option \<Rightarrow> ticket_store option \<times> admission_result res" where
  "evaluate_pre_send_gates env io ticket market snapshot now_utc auth_path scope store =
     (case gate_scope env ticket scope of
        Inl e \<Rightarrow> (store, case scope_raise e of Inl r \<Rightarrow> Inr (ad_blocked r ticket [] []) | Inr x \<Rightarrow> Inl x)
      | Inr policy \<Rightarrow>
          if \<not> enabled policy then (store, Inr (ad_blocked ''EXECUTION_DISABLED'' ticket [] []))
          else run_gates env io ticket market snapshot now_utc auth_path policy store)"

definition check_account_mode :: "json \<Rightarrow> string option" where
  "check_account_mode mode =
     (if \<not> non_empty mode then Some ''ACCOUNT_MODE_UNAVAILABLE'' else if mode = JStr ''DEMO'' then None else Some ''ACCOUNT_NOT_DEMO'')"

definition prepare_canonical_handoff ::
  "gate_env \<Rightarrow> append_io \<Rightarrow> dict \<Rightarrow> market_evidence option \<Rightarrow> risk_snapshot option \<Rightarrow> json \<Rightarrow> datetime option \<Rightarrow> string option \<Rightarrow>
   scope_policy option \<Rightarrow> ticket_store option \<Rightarrow> ticket_store option \<times> admission_result res" where
  "prepare_canonical_handoff env io ticket market snapshot account_mode now_utc auth_path scope store =
     (case gate_scope env ticket scope of
        Inl e \<Rightarrow> (store, case scope_raise e of Inl r \<Rightarrow> Inr (ad_blocked r ticket [] []) | Inr x \<Rightarrow> Inl x)
      | Inr policy \<Rightarrow>
          (case evaluate_pre_send_gates env io ticket market snapshot now_utc auth_path (Some policy) store of
             (store', Inl e) \<Rightarrow> (store', Inl e)
           | (store', Inr evaluated) \<Rightarrow>
               if \<not> ad_admitted evaluated then (store', Inr evaluated)
               else (case notification_gate (ge_rt env) (notification_failure_policy policy) store' ticket now_utc of
                  Inl e \<Rightarrow> (store', Inl e)
                | Inr note \<Rightarrow>
                    let account_reason = check_account_mode account_mode;
                        send_reasons = filter (\<lambda>r. r \<noteq> []) (reason_list account_reason @ reason_list note);
                        gate_details = (case dget_or (ad_details evaluated) ''gate_details'' (JDict []) of JDict d \<Rightarrow> d | _ \<Rightarrow> [])
                    in (store', Inr (case send_reasons of
                          r # _ \<Rightarrow> ad_blocked r ticket send_reasons
                            [(''gate_details'', JDict (dput ''notification_failure_policy'' (pass_or_blocked (is_reason note))
                                (dput ''account_mode'' (pass_or_blocked (is_reason account_reason)) gate_details)))]
                        | [] \<Rightarrow> ad_blocked ''CANONICAL_EXECUTION_ADAPTER_NOT_IMPLEMENTED'' ticket [] [])))))"

section \<open>Lemmas\<close>

lemma fromkeys_Nil [simp]: "fromkeys xs = [] \<longleftrightarrow> xs = []"
  by (cases xs) auto

lemma add_reasons_Nil [simp]: "add_reasons acc rs = [] \<longleftrightarrow> acc = [] \<and> (\<forall>r \<in> set rs. r = [])"
  by (auto simp: add_reasons_def filter_empty_conv)

lemma ad_blocked_not [simp]: "\<not> ad_admitted (ad_blocked r t b d)"
  by (simp add: ad_blocked_def Let_def)

lemma check_answers:
  assumes "check_and_consume_owner_confirmation rt io ticket now_utc consume store = (store', Inr c)"
  shows "oc_allowed c \<or> (\<exists>s rs. c = failure s rs)"
proof -
  have sel: "\<exists>s rs. f = failure s rs" if "select_confirmation rt st b x v n = Inr (Inl f)" for st b x v n f
    using that by (auto simp: select_confirmation_def Let_def split: sum.splits option.splits if_splits list.splits)
  show ?thesis using assms unfolding check_and_consume_owner_confirmation_def
    by (auto simp: Let_def dest!: sel split: option.splits sum.splits prod.splits if_splits bool.splits)
qed

lemma check_reads_only: "fst (check_and_consume_owner_confirmation rt io ticket now_utc False store) = store"
  by (simp add: check_and_consume_owner_confirmation_def Let_def split: option.split sum.split prod.split)

lemma ready_reason_nonempty:
  assumes "\<forall>v. repr rt v \<noteq> []" "check_ticket_ready rt h ticket scope = (Some r, d)"
  shows "r \<noteq> []"
proof -
  have "str_or rt v alt \<noteq> []" if "alt \<noteq> []" for v alt
    using that assms(1) by (cases v) (auto simp: str_or_def py_str_def)
  then show ?thesis using assms(2) by (auto simp: check_ticket_ready_def split: if_splits sum.splits)
qed

lemma auth_reason_nonempty:
  assumes "load_standing_authorization f scope ticket now_utc = Inr a" "\<not> authorized a"
  shows "ar_reason_code a \<noteq> []"
proof -
  have v: "ar_reason_code b \<noteq> []" if "validate_standing_authorization r scope ticket now_utc = Inr b" for r b
    using that by (auto simp: validate_standing_authorization_def auth_refused_def Let_def
        split: if_splits json.splits sum.splits option.splits)
  have c: "ar_reason_code b \<noteq> []" if "select_container_record r scope ticket = Inl b" for r b
    using that by (auto simp: select_container_record_def auth_refused_def split: json.splits option.splits if_splits list.splits)
  show ?thesis using assms(1) v c
    by (auto simp: load_standing_authorization_def auth_refused_def split: auth_file.splits json.splits if_splits sum.splits)
qed

lemma snapshot_reason_nonempty: "snapshot_refusal scope s now_utc = Some r \<Longrightarrow> ra_reason_code r \<noteq> []"
  by (auto simp: snapshot_refusal_def risk_blocked_def Let_def split: if_splits)

lemma meta_reason_nonempty: "meta_refusal scope m = Some r \<Longrightarrow> r \<noteq> []"
  by (auto simp: meta_refusal_def split: option.splits if_splits)

lemma decimal_reason_nonempty: "decimal_sizing e s q m v = Inl r \<Longrightarrow> r \<noteq> []"
  by (auto simp: decimal_sizing_def Let_def split: if_splits)

lemma risk_reason_nonempty: "evaluate_risk_caps ticket scope snapshot now_utc = Inr a \<Longrightarrow> ra_reason_code a \<noteq> []"
  using meta_reason_nonempty [of scope "rs_symbol_meta (the snapshot)" "[]"] snapshot_reason_nonempty [of scope "the snapshot" now_utc]
    decimal_reason_nonempty [of _ _ _ _ _ "[]"]
  by (auto simp: evaluate_risk_caps_def risk_blocked_def Let_def split: option.splits if_splits sum.splits sizing.splits)

lemma cost_reason_nonempty: "check_cost_gate ticket market scope = Inr (Some r, d) \<Longrightarrow> r \<noteq> []"
  by (auto simp: check_cost_gate_def Let_def split: option.splits if_splits)

lemma freshness_reason_nonempty: "check_freshness ticket market scope now_utc = Inr (Some r, d) \<Longrightarrow> r \<noteq> []"
  by (auto simp: check_freshness_def Let_def split: option.splits sum.splits if_splits prod.splits)

lemma geometry_reason_nonempty: "ticket_geometry_violation ticket = Inr (Some r) \<Longrightarrow> r \<noteq> []"
  by (auto simp: ticket_geometry_violation_def res_bind_Inr_iff geometry_violation_def Let_def split: option.splits if_splits)

lemma receipt_reason_nonempty: "check_receipt rt r ticket now_utc = Inr (Some x) \<Longrightarrow> x \<noteq> []"
  by (auto simp: check_receipt_def split: json.splits if_splits sum.splits option.splits)

lemma note_reason_nonempty: "notification_gate rt policy store ticket now_utc = Inr (Some r) \<Longrightarrow> r \<noteq> []"
  by (auto simp: notification_gate_def check_notification_failure_policy_def Let_def dest: receipt_reason_nonempty
      split: option.splits if_splits sum.splits list.splits)

lemma ledger_reason_nonempty: "inspect st tid = Inr c \<Longrightarrow> ledger_reason c \<noteq> []"
  by (auto simp: inspect_def execution_rows_def Let_def split: if_splits sum.splits)

lemma scope_reasons_nonempty: "r \<in> set (fst (check_ticket_scope rt ticket scope)) \<Longrightarrow> r \<noteq> []"
  by (auto simp: check_ticket_scope_def Let_def split: if_splits)

lemma reason_list_clean: "(\<forall>x \<in> set (reason_list r). x = []) \<Longrightarrow> (\<And>x. r = Some x \<Longrightarrow> x \<noteq> []) \<Longrightarrow> r = None"
  by (cases r) (auto simp: reason_list_def)

lemma early_clean:
  assumes "add_reasons [] (fst (check_ticket_scope rt ticket policy) @ reason_list (fst (check_ticket_ready rt h ticket policy)) @
      (if authorized au then [] else [ar_reason_code au])) = []"
    and "load_standing_authorization f policy ticket now_utc = Inr au" "\<forall>v. repr rt v \<noteq> []"
  shows "fst (check_ticket_scope rt ticket policy) = []" "fst (check_ticket_ready rt h ticket policy) = None" "authorized au"
proof -
  let ?sc = "check_ticket_scope rt ticket policy" and ?rd = "check_ticket_ready rt h ticket policy"
  have c: "\<forall>x \<in> set (fst ?sc). x = []" "\<forall>x \<in> set (reason_list (fst ?rd)). x = []" "authorized au \<or> ar_reason_code au = []"
    using assms(1) by (simp_all add: ball_Un split: if_splits)
  show "fst ?sc = []" using c(1) scope_reasons_nonempty by (metis list.set_intros(1) neq_Nil_conv)
  show "fst ?rd = None" using reason_list_clean [OF c(2)] ready_reason_nonempty [OF assms(3), of h ticket policy _ "snd ?rd"] by (metis prod.collapse)
  show "authorized au" using c(3) auth_reason_nonempty [OF assms(2)] by blast
qed

text \<open>An admission went through every gate.\<close>

lemma run_gates_admitted:
  assumes "run_gates env io ticket market snapshot now_utc auth_path policy store = (store', Inr a)" "ad_admitted a"
    and "\<forall>v. repr (ge_rt env) v \<noteq> []"
  obtains authorization confirmation risk cost freshness levels prior where
    "fst (check_ticket_scope (ge_rt env) ticket policy) = []"
    "fst (check_ticket_ready (ge_rt env) (ge_ready_host env) ticket policy) = None"
    "load_standing_authorization (auth_file_of env policy auth_path) policy ticket now_utc = Inr authorization" "authorized authorization"
    "notification_gate (ge_rt env) (notification_failure_policy policy) store ticket now_utc = Inr None"
    "confirmation_gate (ge_rt env) io policy ticket now_utc True store = (store', Inr confirmation)"
    "\<And>c. confirmation = Some c \<Longrightarrow> oc_allowed c"
    "late_gates (ge_rt env) ticket market snapshot policy now_utc store' = Inr (risk, (None, cost), (None, freshness), (None, levels), (None, prior))"
    "ra_allowed risk" "ad_volume a = ra_planned_volume risk" "ad_risk_amount a = ra_planned_risk_amount risk"
proof -
  let ?rt = "ge_rt env"
  let ?sc = "check_ticket_scope ?rt ticket policy" and ?rd = "check_ticket_ready ?rt (ge_ready_host env) ticket policy"
  obtain au where au: "load_standing_authorization (auth_file_of env policy auth_path) policy ticket now_utc = Inr au"
    using assms(1) by (auto simp: run_gates_def Let_def split: sum.splits)
  obtain nt where n: "notification_gate ?rt (notification_failure_policy policy) store ticket now_utc = Inr nt"
    using assms(1) au by (auto simp: run_gates_def Let_def split: sum.splits)
  note u1 = assms(1) [unfolded run_gates_def Let_def au n sum.case]
  define early where "early = add_reasons [] (fst ?sc @ reason_list (fst ?rd) @ (if authorized au then [] else [ar_reason_code au]))"
  note u2 = u1 [folded early_def]
  obtain co where co: "confirmation_gate ?rt io policy ticket now_utc (early = [] \<and> nt = None) store = (store', Inr co)"
    using u2 by (auto split: prod.splits sum.splits)
  obtain risk cost fresh geo idem where lg: "late_gates ?rt ticket market snapshot policy now_utc store' = Inr (risk, cost, fresh, geo, idem)"
    using u2 co by (cases "late_gates ?rt ticket market snapshot policy now_utc store'") auto
  note u3 = u2 [unfolded co lg prod.case sum.case]
  have nil: "add_reasons early ((case co of None \<Rightarrow> [] | Some c \<Rightarrow> oc_reason_codes c) @ (if ra_allowed risk then [] else [ra_reason_code risk]) @
      reason_list (fst cost) @ reason_list (fst fresh) @ reason_list (fst geo) @ reason_list nt @ reason_list (fst idem)) = []"
    using u3 assms(2) by (cases "add_reasons early ((case co of None \<Rightarrow> [] | Some c \<Rightarrow> oc_reason_codes c) @ (if ra_allowed risk then [] else [ra_reason_code risk]) @
      reason_list (fst cost) @ reason_list (fst fresh) @ reason_list (fst geo) @ reason_list nt @ reason_list (fst idem))") auto
  have r: "evaluate_risk_caps ticket policy snapshot now_utc = Inr risk" "check_cost_gate ticket market policy = Inr cost"
    "check_freshness ticket market policy now_utc = Inr fresh" "ticket_geometry_violation ticket = Inr (fst geo)"
    "idempotency_gate ?rt ticket store' = Inr idem"
    using lg by (auto simp: late_gates_def res_bind_Inr_iff)
  have e: "early = []" and nn: "\<forall>x \<in> set (reason_list nt). x = []" "\<forall>x \<in> set (reason_list (fst cost)). x = []"
    "\<forall>x \<in> set (reason_list (fst fresh)). x = []" "\<forall>x \<in> set (reason_list (fst geo)). x = []" "\<forall>x \<in> set (reason_list (fst idem)). x = []"
    "ra_allowed risk \<or> ra_reason_code risk = []" "\<forall>x \<in> set (case co of None \<Rightarrow> [] | Some c \<Rightarrow> oc_reason_codes c). x = []"
    using nil by (simp_all add: ball_Un split: if_splits)
  have p1: "nt = None" using reason_list_clean [OF nn(1)] note_reason_nonempty n by blast
  have p2: "fst cost = None" using reason_list_clean [OF nn(2)] cost_reason_nonempty [of ticket market policy _ "snd cost"] r(2)
    by (metis prod.collapse)
  have p3: "fst fresh = None" using reason_list_clean [OF nn(3)] freshness_reason_nonempty [of ticket market policy now_utc _ "snd fresh"] r(3)
    by (metis prod.collapse)
  have p4: "fst geo = None" using reason_list_clean [OF nn(4)] geometry_reason_nonempty r(4) by metis
  have p5: "fst idem = None"
    using reason_list_clean [OF nn(5)] r(5) ledger_reason_nonempty by (force simp: idempotency_gate_def split: option.splits sum.splits if_splits)
  have p6: "ra_allowed risk" using nn(6) risk_reason_nonempty [OF r(1)] by blast
  have p7: "oc_allowed c" if "co = Some c" for c
  proof -
    have "check_and_consume_owner_confirmation ?rt io ticket now_utc (early = [] \<and> nt = None) store = (store', Inr c)"
      using co that by (auto simp: confirmation_gate_def split: if_splits prod.splits sum.splits)
    from check_answers [OF this] nn(7) that show ?thesis by (auto simp: failure_def)
  qed
  note p8 = early_clean [OF e [unfolded early_def] au assms(3)]
  have co': "confirmation_gate ?rt io policy ticket now_utc True store = (store', Inr co)" using co e p1 by simp
  have lg': "late_gates ?rt ticket market snapshot policy now_utc store' = Inr (risk, (None, snd cost), (None, snd fresh), (None, snd geo), (None, snd idem))"
    using lg p2 p3 p4 p5 by (metis prod.collapse)
  have v: "ad_volume a = ra_planned_volume risk" "ad_risk_amount a = ra_planned_risk_amount risk"
    using u3 unfolding nil by (auto split: option.splits)
  show ?thesis by (rule that [OF p8(1,2) au p8(3) n [unfolded p1] co' p7 lg' p6 v])
qed

lemma confirmation_gate_reads_only: "fst (confirmation_gate rt io policy ticket now_utc False store) = store"
  using check_reads_only [of rt io ticket now_utc store] by (auto simp: confirmation_gate_def split: prod.splits sum.splits)

lemma handoff_never_admits:
  assumes "prepare_canonical_handoff env io ticket market snapshot mode now_utc auth_path scope store = (store', Inr a)"
  shows "\<not> ad_admitted a"
  using assms
  by (auto simp: prepare_canonical_handoff_def Let_def split: sum.splits prod.splits if_splits list.splits)

section \<open>Properties\<close>

text \<open>C7: A ticket is admitted only under an enabled scope when every gate passes on the
  facts given: the scope tuple, READY with its owner record, the standing authorization, the notice, the
  risk caps, cost, freshness and target geometry, no earlier claim, and, where the scope requires it, an
  owner confirmation that this very call consumed. The volume is the one the risk caps planned.\<close>

theorem admission_sound:
  assumes "evaluate_pre_send_gates env io ticket market snapshot now_utc auth_path scope store = (store', Inr a)" "ad_admitted a"
    and "\<forall>v. repr (ge_rt env) v \<noteq> []"
  shows "\<exists>policy authorization risk cost freshness st c. gate_scope env ticket scope = Inr policy \<and> enabled policy \<and>
    fst (check_ticket_scope (ge_rt env) ticket policy) = [] \<and> fst (check_ticket_ready (ge_rt env) (ge_ready_host env) ticket policy) = None \<and>
    load_standing_authorization (auth_file_of env policy auth_path) policy ticket now_utc = Inr authorization \<and> authorized authorization \<and>
    notification_gate (ge_rt env) (notification_failure_policy policy) store ticket now_utc = Inr None \<and>
    (if per_order_confirm_required policy
     then \<exists>k. check_and_consume_owner_confirmation (ge_rt env) io ticket now_utc True store = (store', Inr k) \<and> oc_allowed k
     else store' = store) \<and>
    evaluate_risk_caps ticket policy snapshot now_utc = Inr risk \<and> ra_allowed risk \<and> ad_volume a = ra_planned_volume risk \<and>
    check_cost_gate ticket market policy = Inr (None, cost) \<and> check_freshness ticket market policy now_utc = Inr (None, freshness) \<and>
    ticket_geometry_violation ticket = Inr None \<and>
    store' = Some st \<and> inspect st (text_of (ge_rt env) (dget ticket ''ticket_id'')) = Inr c \<and> available c"
proof -
  obtain policy where p: "gate_scope env ticket scope = Inr policy" "enabled policy"
    "run_gates env io ticket market snapshot now_utc auth_path policy store = (store', Inr a)"
    using assms(1,2) by (auto simp: evaluate_pre_send_gates_def split: sum.splits if_splits)
  from p(3) assms(2,3) show ?thesis
  proof (rule run_gates_admitted)
    fix authorization confirmation risk cost freshness levels prior
    assume g: "fst (check_ticket_scope (ge_rt env) ticket policy) = []"
      "fst (check_ticket_ready (ge_rt env) (ge_ready_host env) ticket policy) = None"
      "load_standing_authorization (auth_file_of env policy auth_path) policy ticket now_utc = Inr authorization" "authorized authorization"
      "notification_gate (ge_rt env) (notification_failure_policy policy) store ticket now_utc = Inr None"
      and co: "confirmation_gate (ge_rt env) io policy ticket now_utc True store = (store', Inr confirmation)"
        "\<And>c. confirmation = Some c \<Longrightarrow> oc_allowed c"
      and lg: "late_gates (ge_rt env) ticket market snapshot policy now_utc store' = Inr (risk, (None, cost), (None, freshness), (None, levels), (None, prior))"
      and r: "ra_allowed risk" "ad_volume a = ra_planned_volume risk"
    have k: "if per_order_confirm_required policy
       then \<exists>k. check_and_consume_owner_confirmation (ge_rt env) io ticket now_utc True store = (store', Inr k) \<and> oc_allowed k
       else store' = store"
      using co by (auto simp: confirmation_gate_def split: if_splits prod.splits sum.splits)
    obtain st c where st: "store' = Some st" "inspect st (text_of (ge_rt env) (dget ticket ''ticket_id'')) = Inr c" "available c"
      using lg by (auto simp: late_gates_def res_bind_Inr_iff idempotency_gate_def split: option.splits sum.splits if_splits)
    have l: "evaluate_risk_caps ticket policy snapshot now_utc = Inr risk" "check_cost_gate ticket market policy = Inr (None, cost)"
      "check_freshness ticket market policy now_utc = Inr (None, freshness)" "ticket_geometry_violation ticket = Inr None"
      using lg by (auto simp: late_gates_def res_bind_Inr_iff)
    show ?thesis using p(1,2) g k r l st by blast
  qed
qed

text \<open>C36: A call whose scope, READY, authorization or notification check fails
  leaves the store as it was: the owner's single-use confirmation is not spent on an order that an
  earlier gate already refuses.\<close>

theorem refusal_spends_nothing:
  assumes "gate_scope env ticket scope = Inr policy"
    and "load_standing_authorization (auth_file_of env policy auth_path) policy ticket now_utc = Inr authorization"
    and "notification_gate (ge_rt env) (notification_failure_policy policy) store ticket now_utc = Inr n"
    and "\<forall>v. repr (ge_rt env) v \<noteq> []"
    and "fst (check_ticket_scope (ge_rt env) ticket policy) \<noteq> [] \<or> fst (check_ticket_ready (ge_rt env) (ge_ready_host env) ticket policy) \<noteq> None \<or>
      \<not> authorized authorization \<or> n \<noteq> None"
  shows "fst (evaluate_pre_send_gates env io ticket market snapshot now_utc auth_path scope store) = store"
proof (cases "enabled policy")
  case True
  let ?sc = "check_ticket_scope (ge_rt env) ticket policy" and ?rd = "check_ticket_ready (ge_rt env) (ge_ready_host env) ticket policy"
  let ?early = "add_reasons [] (fst ?sc @ reason_list (fst ?rd) @ (if authorized authorization then [] else [ar_reason_code authorization]))"
  have "\<not> (?early = [] \<and> n = None)"
  proof
    assume e: "?early = [] \<and> n = None"
    then have "?early = []" ..
    from early_clean [OF this assms(2,4)] e assms(5) show False by auto
  qed
  then have dirty: "(?early = [] \<and> n = None) = False" by (simp only: simp_thms)
  have "fst (run_gates env io ticket market snapshot now_utc auth_path policy store) = store"
    unfolding run_gates_def Let_def assms(2,3) sum.case dirty
    using confirmation_gate_reads_only [of "ge_rt env" io policy ticket now_utc store]
    by (auto split: prod.split sum.split)
  then show ?thesis using True assms(1) by (simp add: evaluate_pre_send_gates_def)
qed (use assms(1) in \<open>simp add: evaluate_pre_send_gates_def\<close>)

section \<open>A concrete admission\<close>

definition demo_auth_path :: "string option \<Rightarrow> string \<Rightarrow> string option" where
  "demo_auth_path p env = Some ''auth''"

definition demo_auth_at :: "string \<Rightarrow> auth_file" where
  "demo_auth_at p = demo_auth"

definition demo_env :: gate_env where
  "demo_env = \<lparr>ge_rt = weight_rt, ge_scope_host = demo_host, ge_config = None, ge_manifest = ''scopes'', ge_ready_host = demo_ready_host,
     ge_auth_path = demo_auth_path, ge_auth_at = demo_auth_at\<rparr>"

definition demo_market :: market_evidence where
  "demo_market = \<lparr>mk_broker_symbol = ''GBPUSD-VIP'', mk_bid = JFloat (5 / 4 - 1 / 2 ^ 14), mk_ask = JFloat (5 / 4),
     mk_observed_at_utc = demo_now ''2026-01-05T10:01:45+00:00'', mk_data_close_utc = demo_now ''2026-01-05T10:01:00+00:00''\<rparr>"

abbreviation demo_at :: "datetime option" where
  "demo_at \<equiv> demo_now ''2026-01-05T10:02:00+00:00''"

theorem admission_sound_witness:
  "\<exists>store' a k risk. evaluate_pre_send_gates demo_env Appended demo_ticket (Some demo_market) (Some demo_snapshot) demo_at None (Some demo_scope)
      (Some demo_noticed) = (store', Inr a) \<and>
     check_and_consume_owner_confirmation weight_rt Appended demo_ticket demo_at True (Some demo_noticed) = (store', Inr k) \<and> oc_allowed k \<and>
     evaluate_risk_caps demo_ticket demo_scope (Some demo_snapshot) demo_at = Inr risk \<and> ra_allowed risk"
proof -
  let ?c = "evaluate_pre_send_gates demo_env Appended demo_ticket (Some demo_market) (Some demo_snapshot) demo_at None (Some demo_scope) (Some demo_noticed)"
  have "case snd ?c of Inr a \<Rightarrow> ad_admitted a | Inl _ \<Rightarrow> False" by code_simp
  then obtain store' a where a: "?c = (store', Inr a)" "ad_admitted a" by (cases ?c) (auto split: sum.splits)
  have r: "\<forall>v. repr (ge_rt demo_env) v \<noteq> []" "ge_rt demo_env = weight_rt" by (simp_all add: demo_env_def weight_rt_def weight_repr_def)
  have p: "gate_scope demo_env demo_ticket (Some demo_scope) = Inr demo_scope" "per_order_confirm_required demo_scope"
    by (simp_all add: gate_scope_def demo_scope_def)
  from admission_sound [OF a r(1)] p show ?thesis using a(1) unfolding r(2) by fastforce
qed

theorem refusal_spends_nothing_witness:
  "fst (evaluate_pre_send_gates demo_env Appended demo_ticket (Some demo_market) (Some demo_snapshot) demo_at None (Some demo_scope) (Some demo_confirmed))
   = Some demo_confirmed"
proof -
  let ?l = "load_standing_authorization (auth_file_of demo_env demo_scope None) demo_scope demo_ticket demo_at"
  let ?n = "notification_gate (ge_rt demo_env) (notification_failure_policy demo_scope) (Some demo_confirmed) demo_ticket demo_at"
  have "case ?l of Inr _ \<Rightarrow> True | Inl _ \<Rightarrow> False" by code_simp
  then obtain au where l: "?l = Inr au" by (auto split: sum.splits)
  have n: "?n = Inr (Some ''PRE_ORDER_NOTIFICATION_MISSING'')" by code_simp
  have p: "gate_scope demo_env demo_ticket (Some demo_scope) = Inr demo_scope" by (simp add: gate_scope_def)
  have r: "\<forall>v. repr (ge_rt demo_env) v \<noteq> []" by (simp add: demo_env_def weight_rt_def weight_repr_def)
  show ?thesis by (rule refusal_spends_nothing [OF p l n r]) simp
qed

end
