(* ===== verification/Exec_Authority.thy ===== *)
theory Exec_Authority
  imports Admission
begin

text \<open>
  The execution authority and its re-validation (src/src/demo\_execution/authority.py). The fields of an
  authority have their declared types; a time is \<open>None\<close> when it is not an aware datetime, and an aware
  one is its UTC instant.
\<close>

section \<open>Data\<close>

record account_identity =
  ai_login_suffix :: string
  ai_server :: string
  ai_trade_mode :: string

record evidence_ref =
  er_kind :: string
  er_evidence_id :: string
  er_observed_at_utc :: "datetime option"

record execution_authority =
  ea_authority_id :: string
  ea_issued_at_utc :: "datetime option"
  ea_ticket_id :: string
  ea_strategy_id :: string
  ea_strategy_version :: string
  ea_symbol :: string
  ea_session :: string
  ea_setup_branch :: string
  ea_direction :: string
  ea_logic_identity :: string
  ea_magic_number :: int
  ea_account :: account_identity
  ea_authorization_path :: string
  ea_authorization_decision_id :: string
  ea_owner_confirmation_id :: "string option"
  ea_ready_evidence :: evidence_ref
  ea_risk_evidence :: evidence_ref
  ea_freshness_evidence :: evidence_ref

definition evidence_refs :: "execution_authority \<Rightarrow> evidence_ref list" where
  "evidence_refs a = [ea_ready_evidence a, ea_risk_evidence a, ea_freshness_evidence a]"

definition EVIDENCE_KINDS :: "string list" where "EVIDENCE_KINDS = [''READY'', ''RISK'', ''FRESHNESS'']"

text \<open>30 seconds, in microseconds.\<close>

definition ACCOUNT_READ_MAX_AGE :: int where "ACCOUNT_READ_MAX_AGE = 30 * 1000000"
definition ACCOUNT_LOGIN_SUFFIX_MIN_LENGTH :: nat where "ACCOUNT_LOGIN_SUFFIX_MIN_LENGTH = 3"

definition is_sha256 :: "string \<Rightarrow> bool" where
  "is_sha256 s \<longleftrightarrow> non_blank s \<and> length s = 64 \<and> list_all is_lower_hex s"

section \<open>Evidence digests\<close>

text \<open>\<open>json.dumps(..., default=str)\<close> writes a datetime as \<open>str\<close> does, with a space for the \<open>T\<close>.\<close>

definition str_datetime :: "datetime option \<Rightarrow> json" where
  "str_datetime t = (case t of None \<Rightarrow> JNull | Some u \<Rightarrow> JStr (map (\<lambda>c. if c = CHR ''T'' then CHR '' '' else c) (iso_datetime u)))"

definition meta_structure :: "symbol_meta \<Rightarrow> json" where
  "meta_structure m = JDict
     [(''symbol'', JStr (sm_symbol m)), (''tick_size'', JFloat (tick_size m)), (''tick_value'', JFloat (tick_value m)),
      (''contract_size'', JFloat (contract_size m)), (''volume_min'', JFloat (volume_min m)), (''volume_max'', JFloat (volume_max m)),
      (''volume_step'', JFloat (volume_step m)), (''digits'', JInt (digits m)), (''point'', JFloat (point m)),
      (''trade_stops_level'', JInt (trade_stops_level m)), (''trade_freeze_level'', JInt (trade_freeze_level m)),
      (''metadata_source'', JStr (metadata_source m))]"

definition snapshot_structure :: "risk_snapshot \<Rightarrow> json" where
  "snapshot_structure s = JDict
     [(''observed_at_utc'', str_datetime (rs_observed_at_utc s)), (''server_day'', opt_str (map_option iso_date (rs_server_day s))),
      (''demo_equity'', rs_demo_equity s), (''strategy_daily_loss_pct'', rs_strategy_daily_loss_pct s),
      (''account_daily_loss_pct'', rs_account_daily_loss_pct s), (''strategy_trades_today'', rs_strategy_trades_today s),
      (''open_positions'', case rs_open_positions s of None \<Rightarrow> JNull | Some ps \<Rightarrow>
         JList (map (\<lambda>p. JDict [(''symbol'', op_symbol p), (''magic_number'', op_magic_number p)]) ps)),
      (''positions_complete'', JBool (rs_positions_complete s)), (''daily_metrics_complete'', JBool (rs_daily_metrics_complete s)),
      (''symbol_meta'', case rs_symbol_meta s of None \<Rightarrow> JNull | Some m \<Rightarrow> meta_structure m),
      (''daily_reset_basis'', opt_str (rs_daily_reset_basis s))]"

definition market_structure :: "market_evidence \<Rightarrow> json" where
  "market_structure mk = JDict
     [(''broker_symbol'', JStr (mk_broker_symbol mk)), (''bid'', mk_bid mk), (''ask'', mk_ask mk),
      (''observed_at_utc'', str_datetime (mk_observed_at_utc mk)), (''data_close_utc'', str_datetime (mk_data_close_utc mk))]"

definition evidence_digest :: "py_rt \<Rightarrow> json \<Rightarrow> string" where
  "evidence_digest rt payload = sha256 rt payload"

definition ready_evidence_id :: "py_rt \<Rightarrow> dict \<Rightarrow> scope_policy \<Rightarrow> string" where
  "ready_evidence_id rt ticket scope = evidence_digest rt (JDict
     [(''kind'', JStr ''READY''), (''ticket_id'', dget ticket ''ticket_id''), (''decision'', dget ticket ''decision''),
      (''reason_code'', dget ticket ''reason_code''), (''strategy_id'', JStr (strategy_id scope)),
      (''strategy_version'', JStr (strategy_version scope)), (''symbol'', JStr (sp_symbol scope)), (''session'', JStr (session scope)),
      (''setup_branch'', JStr (setup_branch scope)), (''direction'', dget ticket ''direction''), (''logic_identity'', JStr (logic_identity scope))])"

definition risk_evidence_id :: "py_rt \<Rightarrow> risk_snapshot option \<Rightarrow> string" where
  "risk_evidence_id rt snapshot = evidence_digest rt (JDict
     [(''kind'', JStr ''RISK''), (''snapshot'', case snapshot of None \<Rightarrow> JNull | Some s \<Rightarrow> snapshot_structure s)])"

definition freshness_evidence_id :: "py_rt \<Rightarrow> dict \<Rightarrow> market_evidence option \<Rightarrow> string" where
  "freshness_evidence_id rt ticket market = evidence_digest rt (JDict
     [(''kind'', JStr ''FRESHNESS''), (''ticket_id'', dget ticket ''ticket_id''), (''signal_close_utc'', dget ticket ''signal_close_utc''),
      (''evaluated_at'', dget ticket ''evaluated_at''), (''market'', case market of None \<Rightarrow> JNull | Some mk \<Rightarrow> market_structure mk)])"

definition build_authority ::
  "py_rt \<Rightarrow> dict \<Rightarrow> scope_policy \<Rightarrow> market_evidence option \<Rightarrow> risk_snapshot option \<Rightarrow> datetime option \<Rightarrow> string \<Rightarrow>
   account_identity \<Rightarrow> string \<Rightarrow> string \<Rightarrow> string option \<Rightarrow> execution_authority res" where
  "build_authority rt ticket scope market snapshot now_utc authority_id account auth_path auth_decision_id owner_confirmation_id =
     (case now_utc of
        None \<Rightarrow> Inl (ValueError ''now_utc must be an aware UTC timestamp'')
      | Some observed \<Rightarrow> Inr \<lparr>
          ea_authority_id = authority_id, ea_issued_at_utc = Some observed, ea_ticket_id = text_of rt (dget ticket ''ticket_id''),
          ea_strategy_id = strategy_id scope, ea_strategy_version = strategy_version scope, ea_symbol = sp_symbol scope,
          ea_session = session scope, ea_setup_branch = setup_branch scope, ea_direction = text_of rt (dget ticket ''direction''),
          ea_logic_identity = logic_identity scope, ea_magic_number = magic_number scope, ea_account = account,
          ea_authorization_path = auth_path, ea_authorization_decision_id = auth_decision_id,
          ea_owner_confirmation_id = owner_confirmation_id,
          ea_ready_evidence = \<lparr>er_kind = ''READY'', er_evidence_id = ready_evidence_id rt ticket scope, er_observed_at_utc = Some observed\<rparr>,
          ea_risk_evidence = \<lparr>er_kind = ''RISK'', er_evidence_id = risk_evidence_id rt snapshot, er_observed_at_utc = Some observed\<rparr>,
          ea_freshness_evidence = \<lparr>er_kind = ''FRESHNESS'', er_evidence_id = freshness_evidence_id rt ticket market, er_observed_at_utc = Some observed\<rparr>\<rparr>)"

definition evidence_id_map :: "execution_authority \<Rightarrow> dict" where
  "evidence_id_map a =
     fold (\<lambda>ref d. if er_kind ref \<in> set EVIDENCE_KINDS
                   then dput (lower (er_kind ref) @ ''_evidence_observed_at_utc'') (opt_str (map_option iso_datetime (er_observed_at_utc ref)))
                          (dput (lower (er_kind ref) @ ''_evidence_id'') (JStr (er_evidence_id ref)) d)
                   else d) (evidence_refs a) []"

section \<open>Validation of the claim\<close>

definition authority_window :: "scope_policy \<Rightarrow> int" where
  "authority_window scope = minutes_td (signal_expiry_minutes scope)"

definition validate_authority_shape :: "execution_authority option \<Rightarrow> string list" where
  "validate_authority_shape authority =
     (case authority of
        None \<Rightarrow> [''EXECUTION_AUTHORITY_MISSING'']
      | Some a \<Rightarrow> fromkeys (
          (if list_ex (\<lambda>s. \<not> non_blank s) [ea_authority_id a, ea_ticket_id a, ea_strategy_id a, ea_strategy_version a, ea_symbol a, ea_session a,
                ea_setup_branch a, ea_direction a, ea_logic_identity a, ea_authorization_path a, ea_authorization_decision_id a]
           then [''EXECUTION_AUTHORITY_INVALID''] else []) @
          (if \<not> non_blank (ai_login_suffix (ea_account a)) \<or> \<not> non_blank (ai_server (ea_account a)) then [''EXECUTION_AUTHORITY_INVALID''] else []) @
          concat (map (\<lambda>(ref, kind). if er_kind ref \<noteq> kind \<or> \<not> is_sha256 (er_evidence_id ref) \<or> er_observed_at_utc ref = None
                                     then [''EXECUTION_AUTHORITY_INVALID''] else []) (zip (evidence_refs a) EVIDENCE_KINDS)) @
          (if ea_issued_at_utc a = None then [''AUTHORITY_TIMESTAMP_INVALID''] else [])))"

definition ticket_mismatch :: "py_rt \<Rightarrow> execution_authority \<Rightarrow> dict \<Rightarrow> bool" where
  "ticket_mismatch rt a ticket \<longleftrightarrow>
     dget ticket ''ticket_id'' \<noteq> JStr (ea_ticket_id a) \<or> dget ticket ''strategy_id'' \<noteq> JStr (ea_strategy_id a) \<or>
     dget ticket ''direction'' \<noteq> JStr (ea_direction a) \<or> py_str rt (dget ticket ''strategy_version'') \<noteq> ea_strategy_version a \<or>
     dget ticket ''symbol'' \<noteq> JStr (ea_symbol a) \<or> dget_or ticket ''cycle'' (dget ticket ''session'') \<noteq> JStr (ea_session a) \<or>
     ticket_branch_of rt ticket \<noteq> JStr (ea_setup_branch a) \<or> dget ticket ''logic_identity'' \<noteq> JStr (ea_logic_identity a)"

definition validate_authority_binding ::
  "py_rt \<Rightarrow> execution_authority \<Rightarrow> scope_policy \<Rightarrow> dict option \<Rightarrow> datetime option \<Rightarrow> string list" where
  "validate_authority_binding rt a scope ticket now_utc = fromkeys (
     (case (now_utc, ea_issued_at_utc a) of
        (Some now, Some issued) \<Rightarrow>
          if now < issued then [''AUTHORITY_NOT_YET_VALID'']
          else if authority_window scope < now - issued then [''AUTHORITY_EXPIRED''] else []
      | _ \<Rightarrow> [''AUTHORITY_TIMESTAMP_INVALID'']) @
     (if ea_strategy_id a \<noteq> strategy_id scope \<or> ea_strategy_version a \<noteq> strategy_version scope \<or> ea_symbol a \<noteq> sp_symbol scope \<or>
         ea_session a \<noteq> session scope \<or> ea_setup_branch a \<noteq> setup_branch scope \<or> ea_logic_identity a \<noteq> logic_identity scope \<or>
         ea_magic_number a \<noteq> magic_number scope \<or> ea_direction a \<notin> set (directions scope)
      then [''AUTHORITY_SCOPE_MISMATCH''] else []) @
     (if ai_login_suffix (ea_account a) \<noteq> account_login_suffix scope \<or> ai_server (ea_account a) \<noteq> broker_server scope \<or>
         ai_trade_mode (ea_account a) \<noteq> ''DEMO''
      then [''ACCOUNT_IDENTITY_UNAVAILABLE''] else []) @
     (case ticket of None \<Rightarrow> [] | Some t \<Rightarrow> if ticket_mismatch rt a t then [''AUTHORITY_TICKET_MISMATCH''] else []))"

definition validate_authorization_path :: "gate_env \<Rightarrow> execution_authority \<Rightarrow> scope_policy \<Rightarrow> string option \<Rightarrow> string list" where
  "validate_authorization_path env a scope configured =
     (case (ge_auth_path env configured (authorization_path_env scope),
            ge_auth_path env (Some (ea_authorization_path a)) (authorization_path_env scope)) of
        (Some expected, Some stated) \<Rightarrow> if stated = expected then [] else [''AUTHORIZATION_PATH_MISMATCH'']
      | _ \<Rightarrow> [''AUTHORIZATION_PATH_MISMATCH''])"

section \<open>The live account\<close>

definition mode_of_int :: "py_rt \<Rightarrow> int \<Rightarrow> string" where
  "mode_of_int rt i =
     (if i = 0 then ''DEMO'' else if i = 1 then ''CONTEST'' else if i = 2 then ''REAL'' else ''MODE_'' @ py_str rt (JInt i))"

text \<open>\<open>int(text)\<close> of digits after at most one sign; more signs raise.\<close>

definition normalize_trade_mode :: "py_rt \<Rightarrow> json \<Rightarrow> string option res" where
  "normalize_trade_mode rt raw =
     (case raw of
        JInt i \<Rightarrow> Inr (Some (mode_of_int rt i))
      | JStr s \<Rightarrow>
          if \<not> non_blank s then Inr None
          else
            let txt = strip s; ds = dropWhile (\<lambda>c. c = CHR ''-'') txt
            in (case unpad ds of
                  Some n \<Rightarrow>
                    if 1 < length txt - length ds then Inl (ValueError txt)
                    else Inr (Some (mode_of_int rt (if ds = txt then int n else - int n)))
                | None \<Rightarrow> Inr (Some (if upper txt \<in> {''DEMO'', ''ACCOUNT_TRADE_MODE_DEMO''} then ''DEMO'' else upper txt)))
      | _ \<Rightarrow> Inr None)"

definition live_mode :: "py_rt \<Rightarrow> dict \<Rightarrow> string option res" where
  "live_mode rt live = normalize_trade_mode rt (dget_or live ''trade_mode'' (dget live ''trade_mode_name''))"

definition account_identity_payload :: "py_rt \<Rightarrow> dict \<Rightarrow> datetime option \<Rightarrow> dict res" where
  "account_identity_payload rt live now_utc =
     res_bind (as_utc (dget live ''observed_at_utc'')) (\<lambda>observed.
     res_bind (live_mode rt live) (\<lambda>mode. Inr
       [(''login_suffix'', if non_empty (dget live ''login_suffix'') then dget live ''login_suffix'' else JNull),
        (''server'', if non_empty (dget live ''server'') then dget live ''server'' else JNull),
        (''trade_mode'', opt_str mode), (''observed_at_utc'', opt_str (map_option iso_datetime observed)),
        (''read_at_utc'', opt_str (map_option iso_datetime now_utc))]))"

definition validate_live_account ::
  "py_rt \<Rightarrow> dict \<Rightarrow> execution_authority \<Rightarrow> scope_policy \<Rightarrow> datetime option \<Rightarrow> string list res" where
  "validate_live_account rt live a scope now_utc =
     res_bind (as_utc (dget live ''observed_at_utc'')) (\<lambda>observed.
     res_bind (live_mode rt live) (\<lambda>mode. Inr (fromkeys (
       (case observed of
          None \<Rightarrow> []
        | Some ob \<Rightarrow>
            (case now_utc of
               None \<Rightarrow> [''ACCOUNT_IDENTITY_TIMESTAMP_INVALID'']
             | Some now \<Rightarrow> if now < ob then [''ACCOUNT_IDENTITY_TIMESTAMP_INVALID'']
                           else if ACCOUNT_READ_MAX_AGE < now - ob then [''ACCOUNT_READ_STALE''] else [])) @
       (case dget live ''login_suffix'' of
          JStr s \<Rightarrow>
            if \<not> non_blank s \<or> \<not> list_all is_digit s \<or> length s < ACCOUNT_LOGIN_SUFFIX_MIN_LENGTH then [''ACCOUNT_IDENTITY_UNAVAILABLE'']
            else if s \<noteq> account_login_suffix scope \<or> s \<noteq> ai_login_suffix (ea_account a) then [''ACCOUNT_LOGIN_SUFFIX_MISMATCH''] else []
        | _ \<Rightarrow> [''ACCOUNT_IDENTITY_UNAVAILABLE'']) @
       (case dget live ''server'' of
          JStr s \<Rightarrow>
            if \<not> non_blank s then [''ACCOUNT_IDENTITY_UNAVAILABLE'']
            else if s \<noteq> broker_server scope \<or> s \<noteq> ai_server (ea_account a) then [''ACCOUNT_SERVER_MISMATCH''] else []
        | _ \<Rightarrow> [''ACCOUNT_IDENTITY_UNAVAILABLE'']) @
       (case check_account_mode (opt_str mode) of
          Some r \<Rightarrow> [r]
        | None \<Rightarrow> if ai_trade_mode (ea_account a) \<noteq> ''DEMO'' then [''ACCOUNT_IDENTITY_UNAVAILABLE''] else [])))))"

section \<open>Evidence and confirmation\<close>

text \<open>The guard always passes its store and a ticket dictionary.\<close>

definition evidence_fact :: "py_rt \<Rightarrow> scope_policy \<Rightarrow> dict \<Rightarrow> market_evidence option \<Rightarrow> risk_snapshot option \<Rightarrow> string \<Rightarrow> string option" where
  "evidence_fact rt scope ticket market snapshot kind =
     (if kind = ''READY'' then Some (ready_evidence_id rt ticket scope)
      else if kind = ''RISK'' then (if snapshot = None then None else Some (risk_evidence_id rt snapshot))
      else (if market = None then None else Some (freshness_evidence_id rt ticket market)))"

definition ref_reasons ::
  "py_rt \<Rightarrow> scope_policy \<Rightarrow> dict \<Rightarrow> market_evidence option \<Rightarrow> risk_snapshot option \<Rightarrow> datetime option \<Rightarrow> evidence_ref \<Rightarrow> string list" where
  "ref_reasons rt scope ticket market snapshot now_utc ref =
     (let kind = er_kind ref
      in if kind \<notin> set EVIDENCE_KINDS then [''EXECUTION_AUTHORITY_INVALID'']
         else if \<not> is_sha256 (er_evidence_id ref) then [kind @ ''_EVIDENCE_MISSING'']
         else (case (er_observed_at_utc ref, now_utc) of
                 (Some ob, Some now) \<Rightarrow>
                   if now < ob then [kind @ ''_EVIDENCE_TIMESTAMP_IN_FUTURE'']
                   else if authority_window scope < now - ob then [kind @ ''_EVIDENCE_STALE''] else []
               | _ \<Rightarrow> [kind @ ''_EVIDENCE_MISSING'']) @
              (if evidence_fact rt scope ticket market snapshot kind \<noteq> Some (er_evidence_id ref) then [kind @ ''_EVIDENCE_ID_MISMATCH''] else []))"

definition validate_evidence_refs ::
  "py_rt \<Rightarrow> execution_authority \<Rightarrow> scope_policy \<Rightarrow> dict \<Rightarrow> market_evidence option \<Rightarrow> risk_snapshot option \<Rightarrow> datetime option \<Rightarrow> string list" where
  "validate_evidence_refs rt a scope ticket market snapshot now_utc =
     fromkeys (concat (map (ref_reasons rt scope ticket market snapshot now_utc) (evidence_refs a)))"

definition validate_evidence_against_trail :: "execution_authority \<Rightarrow> dict \<Rightarrow> string list" where
  "validate_evidence_against_trail a recorded_evidence =
     fromkeys (concat (map (\<lambda>ref. let kind = er_kind ref; r = dget recorded_evidence (lower kind @ ''_evidence_id'')
        in if kind \<notin> set EVIDENCE_KINDS then [''EXECUTION_AUTHORITY_INVALID'']
           else if \<not> non_empty r \<or> r \<noteq> JStr (er_evidence_id ref) then [kind @ ''_EVIDENCE_ID_MISMATCH''] else []) (evidence_refs a)))"

definition consumed_confirmation_ids :: "py_rt \<Rightarrow> ticket_store \<Rightarrow> string \<Rightarrow> string list res" where
  "consumed_confirmation_ids rt st tid =
     (case outcomes st tid of
        Inl e \<Rightarrow> if read_caught e then Inr [] else Inl e
      | Inr rows \<Rightarrow> Inr (concat (map (\<lambda>r.
          if dget r ''outcome_kind'' \<noteq> JStr OWNER_CONFIRMATION_USED_KIND \<or> \<not> valid_outcome rt r OWNER_CONFIRMATION_USED_KIND then []
          else case dget r ''payload'' of
            JDict p \<Rightarrow>
              (case dget p ''confirm_id'' of
                 JStr s \<Rightarrow> if non_blank s \<and> dget p ''ticket_id'' = JStr tid then [s] else []
               | _ \<Rightarrow> [])
          | _ \<Rightarrow> []) rows)))"

definition validate_confirmation_evidence ::
  "py_rt \<Rightarrow> ticket_store \<Rightarrow> execution_authority \<Rightarrow> dict \<Rightarrow> datetime option \<Rightarrow> bool \<Rightarrow> string list res" where
  "validate_confirmation_evidence rt st a ticket now_utc require_consumed =
     (case ea_owner_confirmation_id a of
        None \<Rightarrow> Inr [''OWNER_CONFIRM_REQUIRED'']
      | Some cid \<Rightarrow>
          if \<not> non_blank cid then Inr [''OWNER_CONFIRM_REQUIRED'']
          else if now_utc = None then Inr [''AUTHORITY_TIMESTAMP_INVALID'']
          else (case snd (check_and_consume_owner_confirmation rt Appended ticket now_utc False (Some st)) of
             Inl e \<Rightarrow> if read_caught e then Inr [''OWNER_CONFIRM_STORE_UNAVAILABLE''] else Inl e
           | Inr c \<Rightarrow>
               if oc_allowed c then
                 Inr (if oc_confirmation_id c \<noteq> Some cid then [''OWNER_CONFIRM_ID_MISMATCH'']
                      else if require_consumed then [''OWNER_CONFIRM_NOT_CONSUMED''] else [])
               else if ''OWNER_CONFIRM_REUSED'' \<in> set (oc_reason_codes c) then
                 (case consumed_confirmation_ids rt st (ea_ticket_id a) of
                    Inl e \<Rightarrow> Inl e
                  | Inr ids \<Rightarrow> Inr (if cid \<in> set ids then [] else [''OWNER_CONFIRM_REUSED'', ''OWNER_CONFIRM_MISSING'']))
               else if filter (\<lambda>r. r \<noteq> ''OWNER_CONFIRM_REQUIRED'') (oc_reason_codes c) = [] \<and> oc_status c = ''MISSING_OR_INVALID''
               then Inr [''OWNER_CONFIRM_MISSING'']
               else Inr (oc_reason_codes c)))"

end
