(* ===== verification/Guard.thy ===== *)
theory Guard
  imports Exec_Authority
begin

text \<open>
  The guarded boundary of src/src/demo\_execution/guarded\_adapter.py. A call is one step on the ticket
  store; what it reads from the host (configuration, authorization record, live account, a fresh risk
  snapshot), the id it draws and the fate of its two writes are its environment. Events handed to the
  sink (src/src/demo\_execution/events.py) are collected in order.
\<close>

section \<open>State, environment and decisions\<close>

record lifecycle_event =
  ev_kind :: string
  ev_ticket_id :: string
  ev_at_utc :: string
  ev_reason_code :: json
  ev_broker_order_id :: json
  ev_broker_deal_id :: json
  ev_broker_position_id :: json
  ev_details :: dict

record guard_state =
  gs_store :: ticket_store
  gs_events :: "lifecycle_event list"

record guard_env =
  gv_gate :: gate_env
  gv_authorization_path :: "string option"
  gv_account :: "json option"
  gv_risk :: "scope_policy \<Rightarrow> risk_snapshot option"
  gv_uuid :: string
  gv_sink :: bool
  gv_io1 :: append_io
  gv_io2 :: append_io

abbreviation gv_rt :: "guard_env \<Rightarrow> py_rt" where "gv_rt env \<equiv> ge_rt (gv_gate env)"

record guard_decision =
  gd_admitted :: bool
  gd_reason_code :: string
  gd_state :: "string option"
  gd_ticket_id :: "string option"
  gd_authorization_id :: json
  gd_reason_codes :: "string list"
  gd_details :: dict

definition gd_refused :: "string list \<Rightarrow> dict \<Rightarrow> string option \<Rightarrow> string option \<Rightarrow> guard_decision" where
  "gd_refused reasons details tid s =
     (let ordered = (if reasons = [] then [''GUARD_REFUSED''] else fromkeys reasons)
      in \<lparr>gd_admitted = False, gd_reason_code = hd ordered, gd_state = s, gd_ticket_id = tid, gd_authorization_id = JNull,
          gd_reason_codes = ordered, gd_details = details\<rparr>)"

definition gd_granted :: "string \<Rightarrow> string \<Rightarrow> string \<Rightarrow> json \<Rightarrow> dict \<Rightarrow> guard_decision" where
  "gd_granted reason s tid auth_id details =
     \<lparr>gd_admitted = True, gd_reason_code = reason, gd_state = Some s, gd_ticket_id = Some tid, gd_authorization_id = auth_id,
      gd_reason_codes = [], gd_details = details\<rparr>"

text \<open>\<open>{**d, ...}\<close>.\<close>

definition dupdate :: "dict \<Rightarrow> dict \<Rightarrow> dict" where
  "dupdate d kvs = fold (\<lambda>(k, v). dput k v) kvs d"

definition EVENT_KINDS :: "string list" where
  "EVENT_KINDS = [''SENT'', ''BROKER_ACK'', ''FILLED'', ''SEND_UNKNOWN'', ''CHECK_REJECTED'', ''CLOSED'']"

definition event :: "string \<Rightarrow> string \<Rightarrow> datetime option \<Rightarrow> lifecycle_event" where
  "event kind tid now_utc =
     \<lparr>ev_kind = kind, ev_ticket_id = tid, ev_at_utc = (case now_utc of None \<Rightarrow> [] | Some t \<Rightarrow> iso_datetime t), ev_reason_code = JNull,
      ev_broker_order_id = JNull, ev_broker_deal_id = JNull, ev_broker_position_id = JNull, ev_details = []\<rparr>"

text \<open>\<open>events.emit\<close>, with or without a sink.\<close>

definition emit_event :: "bool \<Rightarrow> lifecycle_event \<Rightarrow> guard_state \<Rightarrow> guard_state" where
  "emit_event sink e gs = (if sink \<and> ev_kind e \<in> set EVENT_KINDS then gs\<lparr>gs_events := gs_events gs @ [e]\<rparr> else gs)"

abbreviation emit :: "guard_env \<Rightarrow> lifecycle_event \<Rightarrow> guard_state \<Rightarrow> guard_state" where
  "emit env \<equiv> emit_event (gv_sink env)"

section \<open>Identifiers\<close>

text \<open>\<open>int(s, 10)\<close>: a sign, then digits with single underscores between them.\<close>

fun digit_groups :: "string \<Rightarrow> string option" where
  "digit_groups [] = None"
| "digit_groups [c] = (if is_digit c then Some [c] else None)"
| "digit_groups (c # d # s) =
     (if \<not> is_digit c then None
      else map_option (Cons c) (digit_groups (if d = CHR ''_'' then s else d # s)))"

definition parse_int :: "string \<Rightarrow> int option" where
  "parse_int s =
     (case split_sign (strip s) of (neg, ds) \<Rightarrow>
        (case digit_groups ds of
           None \<Rightarrow> None
         | Some u \<Rightarrow> map_option (\<lambda>n. if neg then - int n else int n) (unpad u)))"

fun first_identifier :: "py_rt \<Rightarrow> dict \<Rightarrow> string list \<Rightarrow> json" where
  "first_identifier rt source [] = JNull"
| "first_identifier rt source (k # ks) =
     (case dget source k of
        JStr s \<Rightarrow>
          if \<not> non_blank s then first_identifier rt source ks
          else (case parse_int (strip s) of
             Some i \<Rightarrow> if i \<le> 0 then first_identifier rt source ks else JStr (strip s)
           | None \<Rightarrow> JStr (strip s))
      | JInt i \<Rightarrow> if 0 < i then JStr (py_str rt (JInt i)) else first_identifier rt source ks
      | _ \<Rightarrow> first_identifier rt source ks)"

definition ORDER_ID_KEYS :: "string list" where "ORDER_ID_KEYS = [''broker_order_id'', ''order_id'', ''order'']"
definition DEAL_ID_KEYS :: "string list" where "DEAL_ID_KEYS = [''broker_deal_id'', ''deal_id'', ''deal'']"
definition ORDER_SEND_ACCEPTED_RETCODES :: "int list" where "ORDER_SEND_ACCEPTED_RETCODES = [10008, 10009, 10010]"

section \<open>Re-validation\<close>

definition load_guard_scope :: "guard_env \<Rightarrow> execution_authority \<Rightarrow> scope_policy scope_res" where
  "load_guard_scope env a =
     (let g = gv_gate env
      in resolve_ticket_scope_policy (ge_rt g) (ge_scope_host g) (ge_config g) (ge_manifest g)
           [(''strategy_id'', JStr (ea_strategy_id a)), (''strategy_version'', JStr (ea_strategy_version a)), (''symbol'', JStr (ea_symbol a)),
            (''session'', JStr (ea_session a))])"

definition emergency_reason :: "py_rt \<Rightarrow> ticket_store \<Rightarrow> string list res" where
  "emergency_reason rt st = res_bind (status rt st) (\<lambda>s. Inr (if engaged s then [''EMERGENCY_STOP_ENGAGED''] else []))"

definition empty_trail :: lifecycle_trail where
  "empty_trail = \<lparr>lt_states = [], lt_reason_code = None\<rparr>"

text \<open>The reasons a trail gives.\<close>

definition trail_reasons :: "execution_authority \<Rightarrow> bool \<Rightarrow> bool \<Rightarrow> lifecycle_trail \<Rightarrow> string list" where
  "trail_reasons a require_trail_evidence allow_halted tr =
     (case lt_reason_code tr of
        Some r \<Rightarrow> [r]
      | None \<Rightarrow>
          (if list_ex (\<lambda>row. lc_authority_id row = ea_authority_id a) (lt_states tr) then [''AUTHORITY_REUSED''] else []) @
          (if allow_halted then []
           else if current tr = Some HALT then [''HALT_UNKNOWN_RESULT'']
           else if current tr = Some ''RECONCILED'' then [''LIFECYCLE_ALREADY_RECONCILED''] else []) @
          (case state_row tr ''AUTHORIZED'' of
             None \<Rightarrow> []
           | Some row \<Rightarrow> if require_trail_evidence then validate_evidence_against_trail a (lc_evidence row) else []))"

definition revalidate_identity ::
  "guard_env \<Rightarrow> execution_authority option \<Rightarrow> dict option \<Rightarrow> datetime option \<Rightarrow> string \<Rightarrow> bool \<Rightarrow> bool \<Rightarrow> ticket_store \<Rightarrow>
   (string list \<times> dict \<times> scope_policy option \<times> lifecycle_trail) res" where
  "revalidate_identity env authority ticket now_utc phase require_trail_evidence allow_halted st =
     (case validate_authority_shape authority of
        r # rs \<Rightarrow> Inr (r # rs, [(''phase'', JStr phase)], None, empty_trail)
      | [] \<Rightarrow>
          let a = the authority; d0 = [(''phase'', JStr phase), (''ticket_id'', JStr (ea_ticket_id a))]
          in (case load_guard_scope env a of
                Inl e \<Rightarrow> (case scope_raise e of
                            Inl r \<Rightarrow> Inr ([if r = [] then ''EXECUTION_SCOPE_INVALID'' else r], d0, None, empty_trail)
                          | Inr x \<Rightarrow> Inl x)
              | Inr scope \<Rightarrow>
                  (case trail (gv_rt env) st (ea_ticket_id a) of
                     Inl e \<Rightarrow> Inl e
                   | Inr tr \<Rightarrow> Inr
                       ((if enabled scope then [] else [''EXECUTION_DISABLED'']) @
                        validate_authority_binding (gv_rt env) a scope ticket now_utc @
                        validate_authorization_path (gv_gate env) a scope (gv_authorization_path env) @
                        trail_reasons a require_trail_evidence allow_halted tr,
                        d0 @ [(''scope_enabled'', JBool (enabled scope)),
                              (''lifecycle_state'', if lt_reason_code tr = None then opt_str (current tr) else JNull)],
                        Some scope, tr))))"

text \<open>The live account: the reasons and the redacted facts.\<close>

definition account_step :: "guard_env \<Rightarrow> execution_authority \<Rightarrow> scope_policy \<Rightarrow> datetime option \<Rightarrow> (string list \<times> dict) res" where
  "account_step env a scope now_utc =
     (case gv_account env of
        Some (JDict live) \<Rightarrow>
          res_bind (validate_live_account (gv_rt env) live a scope now_utc) (\<lambda>rs.
          res_bind (account_identity_payload (gv_rt env) live now_utc) (\<lambda>p. Inr (rs, [(''account'', JDict p)])))
      | _ \<Rightarrow> Inr ([''ACCOUNT_IDENTITY_UNAVAILABLE''], []))"

definition confirmation_step ::
  "guard_env \<Rightarrow> execution_authority \<Rightarrow> scope_policy \<Rightarrow> dict \<Rightarrow> datetime option \<Rightarrow> bool \<Rightarrow> ticket_store \<Rightarrow> (string list \<times> dict) res" where
  "confirmation_step env a scope ticket now_utc require_consumed st =
     (if per_order_confirm_required scope
      then res_bind (validate_confirmation_evidence (gv_rt env) st a ticket now_utc require_consumed)
             (\<lambda>rs. Inr (rs, [(''owner_confirmation_id'', opt_str (ea_owner_confirmation_id a))]))
      else Inr ([], [(''owner_confirmation'', JStr ''NOT_REQUIRED_BY_COMMITTED_SCOPE'')]))"

text \<open>The gates, run on the snapshot built now; the caller's snapshot is only compared with the evidence.\<close>

definition gates_step ::
  "guard_env \<Rightarrow> execution_authority \<Rightarrow> scope_policy \<Rightarrow> dict \<Rightarrow> market_evidence option \<Rightarrow> risk_snapshot option \<Rightarrow> datetime option \<Rightarrow> bool \<Rightarrow>
   ticket_store \<Rightarrow> ticket_store \<times> (string list \<times> dict) res" where
  "gates_step env a scope ticket market snapshot now_utc confirmation_ok st =
     (case (confirmation_ok, gv_risk env scope) of
        (False, _) \<Rightarrow> (st, Inr ([], [(''gates'', JStr ''NOT_EVALUATED_OWNER_CONFIRMATION_REFUSED'')]))
      | (True, None) \<Rightarrow> (st, Inr ([''RISK_SNAPSHOT_MISSING''], [(''gates'', JStr ''NOT_EVALUATED_RISK_SNAPSHOT_MISSING'')]))
      | (True, Some fresh) \<Rightarrow>
          (let refs = validate_evidence_refs (gv_rt env) a scope ticket market snapshot now_utc;
               d = [(''admission_risk_evidence_id'', JStr (risk_evidence_id (gv_rt env) (Some fresh)))]
           in case evaluate_pre_send_gates (gv_gate env) (gv_io1 env) ticket market (Some fresh) now_utc (Some (ea_authorization_path a))
                     (Some scope) (Some st) of
                (store', Inl e) \<Rightarrow> (the store', Inl e)
              | (store', Inr g) \<Rightarrow>
                  (the store', Inr (if ad_admitted g
                     then (refs, d @ [(''planned_volume'', opt_float (ad_volume g)), (''planned_risk_amount'', opt_float (ad_risk_amount g)),
                                      (''planned_risk_pct'', dget (ad_details g) ''risk_pct'')])
                     else (refs @ [ad_reason_code g], d @ [(''gate_block_reasons'', dget (ad_details g) ''block_reasons'')])))))"

definition standing_step :: "guard_env \<Rightarrow> execution_authority \<Rightarrow> scope_policy \<Rightarrow> dict \<Rightarrow> datetime option \<Rightarrow> (string list \<times> dict) res" where
  "standing_step env a scope ticket now_utc =
     res_bind (load_standing_authorization (auth_file_of (gv_gate env) scope (Some (ea_authorization_path a))) scope ticket now_utc) (\<lambda>au.
       Inr (if \<not> authorized au then ([ar_reason_code au], [])
            else (if decision_id au \<noteq> Some (ea_authorization_decision_id a) then [''AUTHORIZATION_DECISION_ID_MISMATCH''] else [],
                  [(''authorization_decision_id'', opt_str (decision_id au))])))"

definition revalidate_pre_trade ::
  "guard_env \<Rightarrow> execution_authority \<Rightarrow> scope_policy \<Rightarrow> dict \<Rightarrow> market_evidence option \<Rightarrow> risk_snapshot option \<Rightarrow> datetime option \<Rightarrow> bool \<Rightarrow> bool \<Rightarrow>
   dict \<Rightarrow> ticket_store \<Rightarrow> ticket_store \<times> (string list \<times> dict) res" where
  "revalidate_pre_trade env a scope ticket market snapshot now_utc require_gates require_consumed details st =
     (case notification_gate (gv_rt env) (notification_failure_policy scope) (Some st) ticket now_utc of
        Inl e \<Rightarrow> (st, Inl e)
      | Inr nt \<Rightarrow>
     (case account_step env a scope now_utc of
        Inl e \<Rightarrow> (st, Inl e)
      | Inr (ar, ad) \<Rightarrow>
     (case confirmation_step env a scope ticket now_utc require_consumed st of
        Inl e \<Rightarrow> (st, Inl e)
      | Inr (cr, cd) \<Rightarrow>
     (case (if require_gates then gates_step env a scope ticket market snapshot now_utc (cr = []) st else (st, Inr ([], []))) of
        (st', Inl e) \<Rightarrow> (st', Inl e)
      | (st', Inr (gr, gd)) \<Rightarrow>
     (case standing_step env a scope ticket now_utc of
        Inl e \<Rightarrow> (st', Inl e)
      | Inr (sr, sd) \<Rightarrow>
          (st', Inr (reason_list nt @ ar @ cr @ gr @ sr,
                     dupdate details ((''notification'', if is_reason nt then opt_str nt else JStr ''PASS'') # ad @ cd @ gd @ sd))))))))"

definition authorization_expiry :: "scope_policy \<Rightarrow> datetime \<Rightarrow> string res" where
  "authorization_expiry scope now =
     (let t = now + authority_window scope in if valid_datetime t then Inr (iso_datetime t) else Inl OverflowError)"

definition expired :: "datetime \<Rightarrow> scope_policy \<Rightarrow> datetime option \<Rightarrow> bool" where
  "expired recorded_at scope now_utc = (case now_utc of None \<Rightarrow> True | Some now \<Rightarrow> authority_window scope < now - recorded_at)"

section \<open>Broker-facing steps\<close>

abbreviation gd_tid :: "execution_authority option \<Rightarrow> string option" where "gd_tid authority \<equiv> map_option ea_ticket_id authority"

definition la_of :: "datetime option \<Rightarrow> string \<Rightarrow> json \<Rightarrow> dict \<Rightarrow> lifecycle_args" where
  "la_of now_utc authority_id auth_id evidence =
     \<lparr>la_now_utc = now_utc, la_authority_id = JStr authority_id, la_authorization_id = auth_id, la_broker_order_id = JNull,
      la_broker_deal_id = JNull, la_broker_position_id = JNull, la_terminal_result = JNull, la_reason_code = JNull,
      la_evidence = JDict evidence\<rparr>"

definition claim_details :: "ledger_check \<Rightarrow> dict" where
  "claim_details claim = (''ledger_check'', JStr (ledger_reason claim)) #
     (if available claim then [] else [(''prior_claim_state'', opt_str (ledger_prior claim))])"

definition claim_reasons :: "ledger_check \<Rightarrow> string list" where
  "claim_reasons claim = (if available claim then [] else [ledger_reason claim])"

text \<open>A lifecycle append and the decision on its result.\<close>

definition finish_append ::
  "guard_env \<Rightarrow> append_io \<Rightarrow> string \<Rightarrow> string \<Rightarrow> lifecycle_args \<Rightarrow> ticket_store \<Rightarrow> (transition_result \<Rightarrow> guard_decision) \<Rightarrow>
   (transition_result \<Rightarrow> guard_decision) \<Rightarrow> lifecycle_event list \<Rightarrow> guard_state \<Rightarrow> guard_state \<times> guard_decision res" where
  "finish_append env io tid s args st granted_as refused_as events gs =
     (case lifecycle_append (gv_rt env) io tid s args st of
        (st', Inl e) \<Rightarrow> (gs\<lparr>gs_store := st'\<rparr>, Inl e)
      | (st', Inr r) \<Rightarrow>
          if recorded r then (fold (emit env) events (gs\<lparr>gs_store := st'\<rparr>), Inr (granted_as r))
          else (gs\<lparr>gs_store := st'\<rparr>, Inr (refused_as r)))"

definition authorize_order_check ::
  "guard_env \<Rightarrow> execution_authority option \<Rightarrow> dict \<Rightarrow> market_evidence option \<Rightarrow> risk_snapshot option \<Rightarrow> datetime option \<Rightarrow>
   guard_state \<Rightarrow> guard_state \<times> guard_decision res" where
  "authorize_order_check env authority ticket market snapshot now_utc gs =
     (let st = gs_store gs; rt = gv_rt env
      in case revalidate_identity env authority (Some ticket) now_utc ''ORDER_CHECK'' False False st of
           Inl e \<Rightarrow> (gs, Inl e)
         | Inr (reasons, details, None, tr) \<Rightarrow> (gs, Inr (gd_refused reasons details (gd_tid authority) None))
         | Inr (reasons, details, Some scope, tr) \<Rightarrow>
     (let a = the authority; tid = ea_ticket_id a
      in case emergency_reason rt st of
           Inl e \<Rightarrow> (gs, Inl e)
         | Inr stop \<Rightarrow>
     (case inspect st tid of
        Inl e \<Rightarrow> (gs, Inl e)
      | Inr claim \<Rightarrow>
          let reasons' = reasons @ (if lt_reason_code tr = None \<and> current tr \<noteq> None then [''LIFECYCLE_ORDER_INVALID''] else []) @ stop @ claim_reasons claim;
              details' = dupdate details (claim_details claim)
          in if reasons' \<noteq> [] then (gs, Inr (gd_refused reasons' details' (Some tid) None))
             else (case revalidate_pre_trade env a scope ticket market snapshot now_utc True False details' st of
                (st', Inl e) \<Rightarrow> (gs\<lparr>gs_store := st'\<rparr>, Inl e)
              | (st', Inr (pr, d)) \<Rightarrow>
                  if pr \<noteq> [] then (gs\<lparr>gs_store := st'\<rparr>, Inr (gd_refused pr d (Some tid) None))
                  else (case authorization_expiry scope (the now_utc) of
                     Inl e \<Rightarrow> (gs\<lparr>gs_store := st'\<rparr>, Inl e)
                   | Inr expires_at \<Rightarrow>
                       let evidence = dupdate (evidence_id_map a)
                             [(''authorization_decision_id'', JStr (ea_authorization_decision_id a)),
                              (''owner_confirmation_id'', opt_str (ea_owner_confirmation_id a)), (''account'', dget d ''account''),
                              (''planned_volume'', dget d ''planned_volume''), (''planned_risk_amount'', dget d ''planned_risk_amount''),
                              (''planned_risk_pct'', dget d ''planned_risk_pct''),
                              (''admission_risk_evidence_id'', dget d ''admission_risk_evidence_id''), (''expires_at_utc'', JStr expires_at)]
                       in finish_append env (gv_io2 env) tid ''AUTHORIZED'' (la_of now_utc (ea_authority_id a) (JStr (gv_uuid env)) evidence) st'
                            (\<lambda>r. gd_granted ''ORDER_CHECK_AUTHORIZED'' ''AUTHORIZED'' tid (JStr (gv_uuid env))
                                   (dupdate d [(''outcome_id'', dget (tr_details r) ''outcome_id''), (''expires_at_utc'', JStr expires_at)]))
                            (\<lambda>r. gd_refused [tr_reason_code r] d (Some tid) None) [] gs)))))"

definition given :: "json \<Rightarrow> json \<Rightarrow> string list" where
  "given auth_id stored = (if auth_id \<noteq> JNull \<and> auth_id \<noteq> stored then [''AUTHORIZATION_ID_MISMATCH''] else [])"

definition checked_order_reasons :: "json \<Rightarrow> string list" where
  "checked_order_reasons checked_order =
     (case checked_order of
        JDict c \<Rightarrow> if c = [] then [''ORDER_CHECK_EVIDENCE_MISSING''] else if dget c ''retcode'' \<noteq> JInt 0 then [''ORDER_CHECK_RESULT_REJECTED''] else []
      | _ \<Rightarrow> [''ORDER_CHECK_EVIDENCE_MISSING''])"

definition check_rejected_event :: "string \<Rightarrow> datetime option \<Rightarrow> json \<Rightarrow> lifecycle_event" where
  "check_rejected_event tid now_utc checked_order =
     (event ''CHECK_REJECTED'' tid now_utc)\<lparr>ev_reason_code := JStr ''ORDER_CHECK_RESULT_REJECTED'',
        ev_details := [(''retcode'', case checked_order of JDict c \<Rightarrow> dget c ''retcode'' | _ \<Rightarrow> JNull)]\<rparr>"

definition record_order_checked ::
  "guard_env \<Rightarrow> execution_authority option \<Rightarrow> dict \<Rightarrow> json \<Rightarrow> datetime option \<Rightarrow> json \<Rightarrow> guard_state \<Rightarrow> guard_state \<times> guard_decision res" where
  "record_order_checked env authority ticket checked_order now_utc auth_id gs =
     (let st = gs_store gs; rt = gv_rt env
      in case revalidate_identity env authority (Some ticket) now_utc ''ORDER_CHECKED'' True False st of
           Inl e \<Rightarrow> (gs, Inl e)
         | Inr (reasons, details, None, tr) \<Rightarrow> (gs, Inr (gd_refused reasons details (gd_tid authority) None))
         | Inr (reasons, details, Some scope, tr) \<Rightarrow>
     (let a = the authority; tid = ea_ticket_id a;
          prior_id = (case state_row tr ''AUTHORIZED'' of None \<Rightarrow> JNull | Some p \<Rightarrow> lc_authorization_id p);
          order_reasons = (case state_row tr ''AUTHORIZED'' of
             None \<Rightarrow> [''LIFECYCLE_ORDER_INVALID'']
           | Some p \<Rightarrow> if prior_id = JNull then [''LIFECYCLE_ORDER_INVALID'']
                        else given auth_id prior_id @ (if expired (lc_recorded_at_utc p) scope now_utc then [''ORDER_CHECK_AUTHORIZATION_EXPIRED''] else []))
      in case revalidate_pre_trade env a scope ticket None None now_utc False False details st of
           (st', Inl e) \<Rightarrow> (gs\<lparr>gs_store := st'\<rparr>, Inl e)
         | (st', Inr (pr, d)) \<Rightarrow>
             let reasons' = reasons @ order_reasons @ checked_order_reasons checked_order @ pr
             in if reasons' \<noteq> []
                then (if ''ORDER_CHECK_RESULT_REJECTED'' \<in> set reasons'
                      then emit env (check_rejected_event tid now_utc checked_order) (gs\<lparr>gs_store := st'\<rparr>)
                      else gs\<lparr>gs_store := st'\<rparr>, Inr (gd_refused reasons' d (Some tid) (current tr)))
                else (case authorization_expiry scope (the now_utc) of
                   Inl e \<Rightarrow> (gs\<lparr>gs_store := st'\<rparr>, Inl e)
                 | Inr expires_at \<Rightarrow>
                     let digest = JStr (evidence_digest rt checked_order)
                     in finish_append env (gv_io2 env) tid ''CHECKED''
                          (la_of now_utc (ea_authority_id a) prior_id
                             (dupdate (evidence_id_map a) [(''checked_order_sha256'', digest), (''expires_at_utc'', JStr expires_at)])) st'
                          (\<lambda>r. gd_granted ''ORDER_CHECK_RECORDED'' ''CHECKED'' tid prior_id
                                 (dupdate d [(''checked_order_sha256'', digest), (''expires_at_utc'', JStr expires_at),
                                             (''outcome_id'', dget (tr_details r) ''outcome_id'')]))
                          (\<lambda>r. gd_refused [tr_reason_code r] d (Some tid) (current tr)) [] gs)))"

text \<open>The risk caps on a snapshot built now.\<close>

definition send_risk_step :: "guard_env \<Rightarrow> scope_policy \<Rightarrow> dict \<Rightarrow> datetime option \<Rightarrow> (string list \<times> dict) res" where
  "send_risk_step env scope ticket now_utc =
     (case gv_risk env scope of
        None \<Rightarrow> Inr ([''RISK_SNAPSHOT_MISSING''], [])
      | Some s \<Rightarrow>
          res_bind (evaluate_risk_caps ticket scope (Some s) now_utc) (\<lambda>caps.
            Inr (if ra_allowed caps then [] else [ra_reason_code caps],
                 [(''send_risk_evidence_id'', JStr (risk_evidence_id (gv_rt env) (Some s))), (''send_risk_check'', JStr (ra_reason_code caps))])))"

definition checked_row_reasons ::
  "py_rt \<Rightarrow> scope_policy \<Rightarrow> datetime option \<Rightarrow> json \<Rightarrow> json \<Rightarrow> lifecycle_state option \<Rightarrow> string list" where
  "checked_row_reasons rt scope now_utc auth_id checked_order row =
     (case row of
        None \<Rightarrow> [''LIFECYCLE_ORDER_INVALID'']
      | Some p \<Rightarrow>
          if lc_authorization_id p = JNull then [''LIFECYCLE_ORDER_INVALID'']
          else given auth_id (lc_authorization_id p) @
               (if expired (lc_recorded_at_utc p) scope now_utc then [''ORDER_SEND_AUTHORIZATION_EXPIRED''] else []) @
               (case checked_order of
                  JDict c \<Rightarrow> if c = [] \<or> dget (lc_evidence p) ''checked_order_sha256'' \<noteq> JStr (evidence_digest rt checked_order)
                              then [''CHECKED_ORDER_MISMATCH''] else []
                | _ \<Rightarrow> [''CHECKED_ORDER_MISMATCH'']))"

definition authorize_order_send ::
  "guard_env \<Rightarrow> execution_authority option \<Rightarrow> dict \<Rightarrow> json \<Rightarrow> datetime option \<Rightarrow> json \<Rightarrow> guard_state \<Rightarrow> guard_state \<times> guard_decision res" where
  "authorize_order_send env authority ticket checked_order now_utc auth_id gs =
     (let st = gs_store gs; rt = gv_rt env
      in case revalidate_identity env authority (Some ticket) now_utc ''ORDER_SEND'' True False st of
           Inl e \<Rightarrow> (gs, Inl e)
         | Inr (reasons, details, None, tr) \<Rightarrow> (gs, Inr (gd_refused reasons details (gd_tid authority) None))
         | Inr (reasons, details, Some scope, tr) \<Rightarrow>
     (let a = the authority; tid = ea_ticket_id a; row = state_row tr ''CHECKED''
      in case inspect st tid of
           Inl e \<Rightarrow> (gs, Inl e)
         | Inr claim \<Rightarrow>
     (case emergency_reason rt st of
        Inl e \<Rightarrow> (gs, Inl e)
      | Inr stop \<Rightarrow>
     (case check_signal_freshness_at_send ticket scope now_utc of
        Inl e \<Rightarrow> (gs, Inl e)
      | Inr stale \<Rightarrow>
          let reasons' = reasons @ checked_row_reasons rt scope now_utc auth_id checked_order row @ claim_reasons claim @ stop @ reason_list stale;
              details' = dupdate details (claim_details claim)
          in if reasons' \<noteq> [] then (gs, Inr (gd_refused reasons' details' (Some tid) (current tr)))
             else (case revalidate_pre_trade env a scope ticket None None now_utc False True details' st of
                (st', Inl e) \<Rightarrow> (gs\<lparr>gs_store := st'\<rparr>, Inl e)
              | (st', Inr (pr, d)) \<Rightarrow>
             (case send_risk_step env scope ticket now_utc of
                Inl e \<Rightarrow> (gs\<lparr>gs_store := st'\<rparr>, Inl e)
              | Inr (rr, rd) \<Rightarrow>
                  let d' = dupdate d rd
                  in if pr @ rr \<noteq> [] then (gs\<lparr>gs_store := st'\<rparr>, Inr (gd_refused (pr @ rr) d' (Some tid) (current tr)))
                     else (case reserve_before_send rt (gv_io1 env) tid (strategy_id scope) (sp_symbol scope) (logic_identity scope) now_utc st' of
                        (st2, Inl e) \<Rightarrow> (gs\<lparr>gs_store := st2\<rparr>, Inl e)
                      | (st2, Inr reserved) \<Rightarrow>
                          if \<not> available reserved then (gs\<lparr>gs_store := st2\<rparr>, Inr (gd_refused [ledger_reason reserved] d' (Some tid) (current tr)))
                          else (case authorization_expiry scope (the now_utc) of
                             Inl e \<Rightarrow> (gs\<lparr>gs_store := st2\<rparr>, Inl e)
                           | Inr expires_at \<Rightarrow>
                               finish_append env (gv_io2 env) tid ''SENT''
                                 (la_of now_utc (ea_authority_id a) (JStr (gv_uuid env))
                                    (dupdate (evidence_id_map a)
                                       [(''checked_order_sha256'', dget (lc_evidence (the row)) ''checked_order_sha256''),
                                        (''check_authorization_id'', lc_authorization_id (the row)), (''account'', dget d' ''account''),
                                        (''send_risk_evidence_id'', dget d' ''send_risk_evidence_id''), (''expires_at_utc'', JStr expires_at)])) st2
                                 (\<lambda>r. gd_granted ''ORDER_SEND_AUTHORIZED'' ''SENT'' tid (JStr (gv_uuid env))
                                        (dupdate d' [(''claim'', JStr (ledger_reason reserved)), (''expires_at_utc'', JStr expires_at),
                                                     (''outcome_id'', dget (tr_details r) ''outcome_id'')]))
                                 (\<lambda>r. gd_refused [tr_reason_code r] (dupdate d' [(''claim'', JStr ''SENDING_PERSISTED''), (''action_required'', JStr ''RECONCILE'')])
                                        (Some tid) (current tr))
                                 [event ''SENT'' tid now_utc] gs))))))))"

section \<open>Halting\<close>

text \<open>The HALT row, then the claim: one that is still pending is marked uncertain.\<close>

definition halt_claim :: "guard_env \<Rightarrow> string \<Rightarrow> string \<Rightarrow> datetime option \<Rightarrow> ticket_store \<Rightarrow> ticket_store \<times> dict res" where
  "halt_claim env tid reason now_utc st =
     (case inspect st tid of
        Inl e \<Rightarrow> (st, Inl e)
      | Inr claim \<Rightarrow>
          if ledger_reason claim = ''HALT_UNCERTAIN_SEND''
          then (case record_unknown (gv_rt env) (gv_io2 env) tid (JStr reason) now_utc st of
                  (st', Inl e) \<Rightarrow> (st', Inl e)
                | (st', Inr unknown) \<Rightarrow>
                    (st', Inr [(''ledger_check'', JStr (ledger_reason claim)), (''claim'', JStr (ledger_reason unknown))]))
          else (st, Inr [(''ledger_check'', JStr (ledger_reason claim))]))"

definition halt ::
  "guard_env \<Rightarrow> execution_authority option \<Rightarrow> string \<Rightarrow> json \<Rightarrow> datetime option \<Rightarrow> guard_state \<Rightarrow> guard_state \<times> guard_decision res" where
  "halt env authority tid0 reason_code now_utc gs =
     (let st = gs_store gs
      in case revalidate_identity env authority None now_utc ''HALT'' False True st of
           Inl e \<Rightarrow> (gs, Inl e)
         | Inr (reasons, details, _, tr) \<Rightarrow>
     (let requested = (if non_blank tid0 then Some (strip tid0) else None);
          reasons' = reasons @ (if requested \<noteq> None \<and> requested \<noteq> gd_tid authority then [''HALT_TICKET_MISMATCH''] else []);
          resolved = (case gd_tid authority of Some s \<Rightarrow> if non_blank s then Some s else requested | None \<Rightarrow> requested)
      in case resolved of
           None \<Rightarrow> (gs, Inr (gd_refused (reasons' @ [''TICKET_ID_MISSING'']) details None None))
         | Some tid \<Rightarrow>
     (case reason_code of
        JStr rc \<Rightarrow>
          if \<not> non_blank rc then (gs, Inr (gd_refused (reasons' @ [''HALT_REASON_MISSING'']) details (Some tid) None))
          else if reasons' \<noteq> [] then (gs, Inr (gd_refused reasons' details (Some tid) (current tr)))
          else (case lifecycle_append (gv_rt env) (gv_io1 env) tid HALT
                       ((la_of now_utc (case authority of None \<Rightarrow> [] | Some a \<Rightarrow> ea_authority_id a) JNull [(''halted_from'', opt_str (current tr))])
                          \<lparr>la_reason_code := JStr (strip rc)\<rparr>) st of
             (st', Inl e) \<Rightarrow> (gs\<lparr>gs_store := st'\<rparr>, Inl e)
           | (st', Inr r) \<Rightarrow>
               (case halt_claim env tid (strip rc) now_utc st' of
                  (st2, Inl e) \<Rightarrow> (gs\<lparr>gs_store := st2\<rparr>, Inl e)
                | (st2, Inr cd) \<Rightarrow>
                    let d = dupdate details ((''halt_reason'', JStr (strip rc)) # cd @ [(''action_required'', JStr ''RECONCILE''), (''resubmission'', JStr ''NEVER'')]);
                        gs' = gs\<lparr>gs_store := st2\<rparr>
                    in if \<not> recorded r then (gs', Inr (gd_refused [tr_reason_code r] d (Some tid) (current tr)))
                       else (if current tr = Some ''SENT''
                             then emit env ((event ''SEND_UNKNOWN'' tid now_utc)\<lparr>ev_reason_code := JStr (strip rc)\<rparr>) gs' else gs',
                             Inr \<lparr>gd_admitted = False, gd_reason_code = ''HALT_UNKNOWN_RESULT'', gd_state = Some HALT, gd_ticket_id = Some tid,
                                  gd_authorization_id = JNull, gd_reason_codes = [''HALT_UNKNOWN_RESULT''],
                                  gd_details = dupdate d [(''outcome_id'', dget (tr_details r) ''outcome_id'')]\<rparr>)))
      | _ \<Rightarrow> (gs, Inr (gd_refused (reasons' @ [''HALT_REASON_MISSING'']) details (Some tid) None)))))"

section \<open>After the send\<close>

definition record_broker_ack ::
  "guard_env \<Rightarrow> execution_authority option \<Rightarrow> json \<Rightarrow> datetime option \<Rightarrow> json \<Rightarrow> guard_state \<Rightarrow> guard_state \<times> guard_decision res" where
  "record_broker_ack env authority send_result now_utc auth_id gs =
     (let st = gs_store gs; rt = gv_rt env
      in case revalidate_identity env authority None now_utc ''BROKER_ACK'' True False st of
           Inl e \<Rightarrow> (gs, Inl e)
         | Inr (reasons, details, None, tr) \<Rightarrow> (gs, Inr (gd_refused reasons details (gd_tid authority) None))
         | Inr (reasons, details, Some scope, tr) \<Rightarrow>
     (let a = the authority; tid = ea_ticket_id a;
          sent_id = (case state_row tr ''SENT'' of None \<Rightarrow> JNull | Some p \<Rightarrow> lc_authorization_id p);
          reasons' = reasons @ (if sent_id = JNull then [''LIFECYCLE_ORDER_INVALID''] else given auth_id sent_id);
          window_expired = (case state_row tr ''SENT'' of None \<Rightarrow> False | Some p \<Rightarrow> expired (lc_recorded_at_utc p) scope now_utc);
          result = (case send_result of JDict r \<Rightarrow> r | _ \<Rightarrow> []);
          order_id = first_identifier rt result ORDER_ID_KEYS; deal_id = first_identifier rt result DEAL_ID_KEYS
      in if reasons' \<noteq> [] then (gs, Inr (gd_refused reasons' details (Some tid) (current tr)))
         else if window_expired then halt env authority tid (JStr ''SEND_ACK_WINDOW_EXPIRED'') now_utc gs
         else if order_id = JNull then halt env authority tid (JStr ''BROKER_ACK_IDENTIFIER_MISSING'') now_utc gs
         else if dget result ''retcode'' \<notin> JInt ` set ORDER_SEND_ACCEPTED_RETCODES then halt env authority tid (JStr ''BROKER_SEND_NOT_ACCEPTED'') now_utc gs
         else
           let evidence = dupdate (evidence_id_map a)
                 [(''retcode'', dget result ''retcode''), (''price'', dget result ''price''), (''volume'', dget result ''volume''),
                  (''send_result_sha256'', JStr (evidence_digest rt (JDict result)))]
           in finish_append env (gv_io1 env) tid ''BROKER_ACK''
                ((la_of now_utc (ea_authority_id a) sent_id evidence)\<lparr>la_broker_order_id := order_id, la_broker_deal_id := deal_id\<rparr>) st
                (\<lambda>r. gd_granted ''BROKER_ACK_RECORDED'' ''BROKER_ACK'' tid sent_id
                       (dupdate details [(''broker_order_id'', order_id), (''broker_deal_id'', deal_id), (''outcome_id'', dget (tr_details r) ''outcome_id'')]))
                (\<lambda>r. gd_refused [tr_reason_code r] details (Some tid) (current tr))
                [(event ''BROKER_ACK'' tid now_utc)\<lparr>ev_broker_order_id := order_id, ev_broker_deal_id := deal_id\<rparr>] gs))"

definition transition_decision :: "dict \<Rightarrow> string \<Rightarrow> string \<Rightarrow> transition_result \<Rightarrow> guard_decision" where
  "transition_decision details tid s r =
     gd_granted (s @ ''_RECORDED'') s tid JNull (dupdate details [(''outcome_id'', dget (tr_details r) ''outcome_id'')])"

definition post_trade_transition ::
  "guard_env \<Rightarrow> execution_authority option \<Rightarrow> string \<Rightarrow> datetime option \<Rightarrow> string \<Rightarrow> string \<Rightarrow> json \<Rightarrow> json \<Rightarrow> json \<Rightarrow> guard_state \<Rightarrow>
   guard_state \<times> guard_decision res" where
  "post_trade_transition env authority s now_utc phase missing_reason order_id deal_id position_id gs =
     (let st = gs_store gs
      in case revalidate_identity env authority None now_utc phase True False st of
           Inl e \<Rightarrow> (gs, Inl e)
         | Inr (reasons, details, None, tr) \<Rightarrow> (gs, Inr (gd_refused reasons details (gd_tid authority) None))
         | Inr (reasons, details, Some scope, tr) \<Rightarrow>
     (let a = the authority; tid = ea_ticket_id a;
          reasons' = reasons @ (if s = ''POSITION_TRACKED'' \<and> \<not> non_empty position_id then [missing_reason] else []) @
                     (if s = ''CLOSED'' \<and> \<not> non_empty deal_id then [missing_reason] else [])
      in if reasons' \<noteq> [] then (gs, Inr (gd_refused reasons' details (Some tid) (current tr)))
         else finish_append env (gv_io1 env) tid s
                ((la_of now_utc (ea_authority_id a) JNull (evidence_id_map a))
                   \<lparr>la_broker_order_id := order_id, la_broker_deal_id := deal_id, la_broker_position_id := position_id\<rparr>) st
                (transition_decision details tid s) (\<lambda>r. gd_refused [tr_reason_code r] details (Some tid) (current tr))
                (if s = ''CLOSED'' then [(event ''CLOSED'' tid now_utc)\<lparr>ev_broker_order_id := order_id, ev_broker_deal_id := deal_id\<rparr>] else []) gs))"

definition record_position_tracked ::
  "guard_env \<Rightarrow> execution_authority option \<Rightarrow> json \<Rightarrow> datetime option \<Rightarrow> guard_state \<Rightarrow> guard_state \<times> guard_decision res" where
  "record_position_tracked env authority position_id now_utc gs =
     post_trade_transition env authority ''POSITION_TRACKED'' now_utc ''POSITION_TRACKED'' ''POSITION_EVIDENCE_MISSING'' JNull JNull position_id gs"

definition record_position_closed ::
  "guard_env \<Rightarrow> execution_authority option \<Rightarrow> json \<Rightarrow> json \<Rightarrow> datetime option \<Rightarrow> guard_state \<Rightarrow> guard_state \<times> guard_decision res" where
  "record_position_closed env authority deal_id order_id now_utc gs =
     post_trade_transition env authority ''CLOSED'' now_utc ''CLOSED'' ''CLOSE_EVIDENCE_MISSING'' order_id deal_id JNull gs"

definition reconciliation_text :: "json \<Rightarrow> (dict \<times> string) option" where
  "reconciliation_text v =
     (case v of
        JDict r \<Rightarrow>
          (case dget r ''terminal_result'' of
             JStr s \<Rightarrow> if dget r ''reconciled'' = JBool True \<and> non_blank s \<and> upper (strip s) \<noteq> ''UNKNOWN'' then Some (r, strip s) else None
           | _ \<Rightarrow> None)
      | _ \<Rightarrow> None)"

definition settle_claim :: "guard_env \<Rightarrow> string \<Rightarrow> json \<Rightarrow> datetime option \<Rightarrow> ticket_store \<Rightarrow> ticket_store \<times> dict res" where
  "settle_claim env tid reconciliation now_utc st =
     (case inspect st tid of
        Inl e \<Rightarrow> (st, Inl e)
      | Inr claim \<Rightarrow>
          if ledger_reason claim = ''HALT_UNCERTAIN_SEND''
          then (case record_reconciled (gv_rt env) (gv_io2 env) tid reconciliation now_utc st of
                  (st', Inl e) \<Rightarrow> (st', Inl e)
                | (st', Inr settled) \<Rightarrow>
                    (st', Inr [(''ledger_check'', JStr (ledger_reason claim)), (''claim_reconciliation'', JStr (ledger_reason settled))]))
          else (st, Inr [(''ledger_check'', JStr (ledger_reason claim)), (''claim_reconciliation'', JStr (ledger_reason claim))]))"

definition reconcile ::
  "guard_env \<Rightarrow> execution_authority option \<Rightarrow> json \<Rightarrow> datetime option \<Rightarrow> guard_state \<Rightarrow> guard_state \<times> guard_decision res" where
  "reconcile env authority reconciliation now_utc gs =
     (let st = gs_store gs; rt = gv_rt env
      in case revalidate_identity env authority None now_utc ''RECONCILE'' True True st of
           Inl e \<Rightarrow> (gs, Inl e)
         | Inr (reasons, details, None, tr) \<Rightarrow> (gs, Inr (gd_refused reasons details (gd_tid authority) None))
         | Inr (reasons, details, Some scope, tr) \<Rightarrow>
     (let a = the authority; tid = ea_ticket_id a; rec = reconciliation_text reconciliation;
          reasons' = reasons @ (if rec = None then [''RECONCILIATION_EVIDENCE_INVALID''] else [])
      in if reasons' \<noteq> [] then (gs, Inr (gd_refused reasons' details (Some tid) (current tr)))
         else
           let r = fst (the rec); terminal = snd (the rec); order_id = first_identifier rt r ORDER_ID_KEYS;
               deal_id = first_identifier rt r DEAL_ID_KEYS;
               position_id = first_identifier rt r [''broker_position_id'', ''position_id'', ''position'']
           in (case lifecycle_append rt (gv_io1 env) tid ''RECONCILED''
                     ((la_of now_utc (ea_authority_id a) JNull (dupdate (evidence_id_map a) [(''reconciliation_sha256'', JStr (evidence_digest rt (JDict r)))]))
                        \<lparr>la_broker_order_id := order_id, la_broker_deal_id := deal_id, la_broker_position_id := position_id,
                          la_terminal_result := JStr terminal\<rparr>) st of
                 (st', Inl e) \<Rightarrow> (gs\<lparr>gs_store := st'\<rparr>, Inl e)
               | (st', Inr tres) \<Rightarrow>
                   if \<not> recorded tres then (gs\<lparr>gs_store := st'\<rparr>, Inr (gd_refused [tr_reason_code tres] details (Some tid) (current tr)))
                   else (case settle_claim env tid reconciliation now_utc st' of
                      (st2, Inl e) \<Rightarrow> (gs\<lparr>gs_store := st2\<rparr>, Inl e)
                    | (st2, Inr cd) \<Rightarrow>
                        let gs' = gs\<lparr>gs_store := st2\<rparr>
                        in (if upper terminal = ''FILLED''
                            then emit env ((event ''FILLED'' tid now_utc)
                                   \<lparr>ev_broker_order_id := order_id, ev_broker_deal_id := deal_id, ev_broker_position_id := position_id\<rparr>) gs'
                            else gs',
                            Inr (gd_granted ''RECONCILED'' ''RECONCILED'' tid JNull
                              (dupdate details (cd @ [(''resubmission'', JStr ''NEVER''), (''outcome_id'', dget (tr_details tres) ''outcome_id''),
                                 (''broker_order_id'', order_id), (''broker_deal_id'', deal_id)]))))))))"

end
