(* ===== verification/Dispatch.thy ===== *)
theory Dispatch
  imports Guard
begin

text \<open>
  One guarded order attempt (src/src/demo\_execution/dispatch.py): order check, its record, the send
  authorization, the send, its acknowledgement or a halt. The broker adapter is a parameter. Each of the
  at most six guarded calls has its own environment, clock reading and authority id, so anything may
  happen on the host between them.
\<close>

section \<open>Definitions\<close>

datatype broker_reply = BrokerRaised string | BrokerReply json

text \<open>A broker adapter reads the ticket store; its send also shows the request it transmitted, if any.\<close>

record broker =
  br_check_order :: "ticket_store \<Rightarrow> execution_authority \<Rightarrow> dict \<Rightarrow> dict \<Rightarrow> json \<Rightarrow> broker_reply"
  br_send_order :: "ticket_store \<Rightarrow> execution_authority \<Rightarrow> dict \<Rightarrow> dict \<Rightarrow> json \<Rightarrow> json \<Rightarrow> dict option \<times> broker_reply"

record dispatch_env =
  de_guard :: "nat \<Rightarrow> guard_env"
  de_clock :: "nat \<Rightarrow> datetime option"
  de_uuid :: "nat \<Rightarrow> string"
  de_broker :: broker

text \<open>The guard's state, the tickets for which the broker's send was called and the requests transmitted, in
  order.\<close>

record dispatch_state =
  ds_guard :: guard_state
  ds_sends :: "string list"
  ds_orders :: "dict list"

record dispatch_result =
  dp_stage :: string
  dp_reason_code :: json
  dp_ticket_id :: "string option"
  dp_order_send_called :: bool
  dp_reason_codes :: "json list"
  dp_details :: dict

definition dp_refusal :: "string \<Rightarrow> json \<Rightarrow> string option \<Rightarrow> dict \<Rightarrow> dispatch_result" where
  "dp_refusal stage reason tid details =
     \<lparr>dp_stage = stage, dp_reason_code = reason, dp_ticket_id = tid, dp_order_send_called = False, dp_reason_codes = [reason], dp_details = details\<rparr>"

definition step_authorization :: "guard_decision \<Rightarrow> dict" where
  "step_authorization d =
     [(''ticket_id'', opt_str (gd_ticket_id d)), (''state'', opt_str (gd_state d)), (''authorization_id'', gd_authorization_id d)]"

definition dp_stop :: "string \<Rightarrow> guard_decision \<Rightarrow> bool \<Rightarrow> dispatch_result" where
  "dp_stop stage d sent =
     \<lparr>dp_stage = stage, dp_reason_code = JStr (gd_reason_code d), dp_ticket_id = gd_ticket_id d, dp_order_send_called = sent,
      dp_reason_codes = map JStr (if gd_reason_codes d = [] then [gd_reason_code d] else gd_reason_codes d), dp_details = gd_details d\<rparr>"

definition halt_result :: "guard_decision \<Rightarrow> bool \<Rightarrow> dispatch_result" where
  "halt_result d sent = dp_stop (if gd_state d = Some HALT then ''HALTED'' else ''HALT_FAILED'') d sent"

text \<open>\<open>replace(base, authority_id=..., issued_at_utc=at)\<close>.\<close>

definition fresh_authority :: "execution_authority \<Rightarrow> string \<Rightarrow> datetime option \<Rightarrow> execution_authority" where
  "fresh_authority base uuid t = base\<lparr>ea_authority_id := uuid, ea_issued_at_utc := t\<rparr>"

definition is_refusal :: "json \<Rightarrow> bool" where
  "is_refusal v = (case v of JDict d \<Rightarrow> truthy (dget d ''refused'') | _ \<Rightarrow> True)"

definition reply_reason :: "json \<Rightarrow> json" where
  "reply_reason v = (case v of JDict d \<Rightarrow> if truthy (dget d ''reason_code'') then dget d ''reason_code'' else JStr ''BROKER_RESULT_MISSING'' | _ \<Rightarrow> JStr ''BROKER_RESULT_MISSING'')"

text \<open>After the send was called: the acknowledgement, or a halt on any other outcome.\<close>

definition send_reply :: "broker_reply \<Rightarrow> json" where
  "send_reply r =
     (case r of
        BrokerReply v \<Rightarrow> v
      | BrokerRaised err \<Rightarrow> JDict [(''unknown_outcome'', JBool True), (''reason_code'', JStr ''BROKER_CALL_RAISED''), (''error_class'', JStr err)])"

definition refused_after_claim :: "json \<Rightarrow> bool" where
  "refused_after_claim v = (case v of JDict d \<Rightarrow> truthy (dget d ''refused'') | _ \<Rightarrow> False)"

definition unknown_send :: "json \<Rightarrow> bool" where
  "unknown_send v = (case v of JDict d \<Rightarrow> truthy (dget d ''unknown_outcome'') \<or> truthy (dget d ''refused'') | _ \<Rightarrow> True)"

definition settle_send ::
  "dispatch_env \<Rightarrow> py_rt \<Rightarrow> execution_authority \<Rightarrow> guard_decision \<Rightarrow> json \<Rightarrow> guard_state \<Rightarrow> guard_state \<times> dispatch_result res" where
  "settle_send env rt base send result gs =
     (let t = de_clock env 3; auth = Some (fresh_authority base (de_uuid env 3) t); tid = ea_ticket_id base
      in if unknown_send result
         then (let reason = (if refused_after_claim result then JStr (''SEND_REFUSED_AFTER_CLAIM:'' @ py_str rt (reply_reason result)) else reply_reason result)
               in case halt (de_guard env 3) auth tid reason t gs of
                    (gs', Inl e) \<Rightarrow> (gs', Inl e)
                  | (gs', Inr d) \<Rightarrow> (gs', Inr (halt_result d (\<not> refused_after_claim result))))
         else (case record_broker_ack (de_guard env 3) auth result t (gd_authorization_id send) gs of
            (gs', Inl e) \<Rightarrow> (gs', Inl e)
          | (gs', Inr ack) \<Rightarrow>
              if gd_admitted ack
              then (gs', Inr \<lparr>dp_stage = ''BROKER_ACK_RECORDED'', dp_reason_code = JStr (gd_reason_code ack), dp_ticket_id = gd_ticket_id ack,
                       dp_order_send_called = True, dp_reason_codes = [], dp_details = dput ''send_result'' result (gd_details ack)\<rparr>)
              else if gd_state ack = Some HALT then (gs', Inr (halt_result ack True))
              else
                let t' = de_clock env 4
                in (case halt (de_guard env 4) (Some (fresh_authority base (de_uuid env 4) t')) tid
                           (JStr (''BROKER_ACK_NOT_RECORDED:'' @ gd_reason_code ack)) t' gs' of
                      (gs2, Inl e) \<Rightarrow> (gs2, Inl e)
                    | (gs2, Inr d) \<Rightarrow> (gs2, Inr (halt_result d True)))))"

definition dispatch_demo_order ::
  "dispatch_env \<Rightarrow> dict \<Rightarrow> market_evidence option \<Rightarrow> risk_snapshot option \<Rightarrow> account_identity \<Rightarrow> string \<Rightarrow> string option \<Rightarrow>
   dispatch_state \<Rightarrow> dispatch_state \<times> dispatch_result res" where
  "dispatch_demo_order env ticket market snapshot account auth_path owner_confirmation_id ds =
     (let g0 = gv_gate (de_guard env 0); rt = ge_rt g0; now = de_clock env 0; gs = ds_guard ds;
          tid0 = (case text_of rt (dget ticket ''ticket_id'') of [] \<Rightarrow> None | s \<Rightarrow> Some s)
      in case gate_scope g0 ticket None of
           Inl e \<Rightarrow> (ds, case scope_raise e of Inl r \<Rightarrow> Inr (dp_refusal ''SCOPE_REFUSED'' (JStr r) tid0 []) | Inr x \<Rightarrow> Inl x)
         | Inr scope \<Rightarrow>
     if \<not> enabled scope then (ds, Inr (dp_refusal ''SCOPE_REFUSED'' (JStr ''EXECUTION_DISABLED'') tid0 []))
     else (case load_standing_authorization (auth_file_of g0 scope (Some auth_path)) scope ticket now of
        Inl e \<Rightarrow> (ds, Inl e)
      | Inr standing \<Rightarrow>
     if \<not> authorized standing \<or> decision_id standing \<in> {None, Some []}
     then (ds, Inr (dp_refusal ''AUTHORIZATION_REFUSED'' (JStr (ar_reason_code standing)) tid0 []))
     else (case build_authority rt ticket scope market snapshot now (de_uuid env 0) account auth_path (the (decision_id standing)) owner_confirmation_id of
        Inl e \<Rightarrow> (ds, Inl e)
      | Inr base \<Rightarrow>
     (case authorize_order_check (de_guard env 0) (Some base) ticket market snapshot now gs of
        (gs1, Inl e) \<Rightarrow> (ds\<lparr>ds_guard := gs1\<rparr>, Inl e)
      | (gs1, Inr chk) \<Rightarrow>
     if \<not> gd_admitted chk then (ds\<lparr>ds_guard := gs1\<rparr>, Inr (dp_stop ''ORDER_CHECK_REFUSED'' chk False))
     else
       let mode = (case dget (gd_details chk) ''account'' of JDict p \<Rightarrow> dget p ''trade_mode'' | _ \<Rightarrow> JNull)
       in (case br_check_order (de_broker env) (gs_store gs1) base (step_authorization chk) ticket mode of
        BrokerRaised err \<Rightarrow>
          (ds\<lparr>ds_guard := gs1\<rparr>, Inr (dp_refusal ''ORDER_CHECK_BROKER_REFUSED'' (JStr ''BROKER_CALL_RAISED'') tid0 [(''error_class'', JStr err)]))
      | BrokerReply checked \<Rightarrow>
     if is_refusal checked then (ds\<lparr>ds_guard := gs1\<rparr>, Inr (dp_refusal ''ORDER_CHECK_BROKER_REFUSED'' (reply_reason checked) tid0 []))
     else (case record_order_checked (de_guard env 1) (Some (fresh_authority base (de_uuid env 1) (de_clock env 1))) ticket checked (de_clock env 1)
                  (gd_authorization_id chk) gs1 of
        (gs2, Inl e) \<Rightarrow> (ds\<lparr>ds_guard := gs2\<rparr>, Inl e)
      | (gs2, Inr rec) \<Rightarrow>
     if \<not> gd_admitted rec then (ds\<lparr>ds_guard := gs2\<rparr>, Inr (dp_stop ''ORDER_CHECK_RECORD_REFUSED'' rec False))
     else
       let send_authority = fresh_authority base (de_uuid env 2) (de_clock env 2)
       in (case authorize_order_send (de_guard env 2) (Some send_authority) ticket checked (de_clock env 2) (gd_authorization_id chk) gs2 of
        (gs3, Inl e) \<Rightarrow> (ds\<lparr>ds_guard := gs3\<rparr>, Inl e)
      | (gs3, Inr send) \<Rightarrow>
     if \<not> gd_admitted send then (ds\<lparr>ds_guard := gs3\<rparr>, Inr (dp_stop ''ORDER_SEND_REFUSED'' send False))
     else
       let reply = br_send_order (de_broker env) (gs_store gs3) send_authority (step_authorization send) ticket checked mode;
           result = send_reply (snd reply);
           ds3 = ds\<lparr>ds_sends := ds_sends ds @ [ea_ticket_id base],
                     ds_orders := ds_orders ds @ (case fst reply of None \<Rightarrow> [] | Some req \<Rightarrow> [req])\<rparr>
       in (case settle_send env rt base send result gs3 of (gs4, r) \<Rightarrow> (ds3\<lparr>ds_guard := gs4\<rparr>, r)))))))))"

end
