(* ===== verification/Risk_Snapshot.thy ===== *)
theory Risk_Snapshot
  imports Risk_Caps Authorization
begin

text \<open>
  The VT server day (src/src/demo\_execution/vt\_day.py) and the builder of risk snapshots
  (src/src/demo\_execution/risk\_snapshot.py). The UTC offset of New York at an instant, in microseconds,
  and the answers of the MT5 terminal are parameters; a terminal call may raise. Broker rows are
  dictionaries of their attributes. Server-clock times are naive datetimes.
\<close>

section \<open>The server day\<close>

definition OFFSET_RULE :: string where
  "OFFSET_RULE = ''SERVER_MIDNIGHT_EQUALS_NEW_YORK_1700: server_utc_offset_hours = America/New_York UTC offset + 7''"

definition METADATA_SCHEMA :: string where "METADATA_SCHEMA = ''AG_HOST_SYMBOL_METADATA_V2''"
definition VT_SERVER :: string where "VT_SERVER = ''VTMarkets-Demo''"
definition VT_SHIFT :: int where "VT_SHIFT = 7 * 3600 * 1000000"

definition rule_ok :: "json \<Rightarrow> bool" where
  "rule_ok metadata =
     (case metadata of
        JDict m \<Rightarrow> dget m ''schema'' = JStr METADATA_SCHEMA \<and> dget m ''server'' = JStr VT_SERVER \<and>
                   dget m ''server_utc_offset_rule'' = JStr OFFSET_RULE
      | _ \<Rightarrow> False)"

definition server_offset :: "(datetime \<Rightarrow> int) \<Rightarrow> json \<Rightarrow> datetime option \<Rightarrow> int option" where
  "server_offset ny metadata at_utc =
     (case at_utc of None \<Rightarrow> None | Some t \<Rightarrow> if rule_ok metadata then Some (ny t + VT_SHIFT) else None)"

definition server_clock :: "(datetime \<Rightarrow> int) \<Rightarrow> json \<Rightarrow> datetime option \<Rightarrow> datetime option res" where
  "server_clock ny metadata at_utc =
     (case server_offset ny metadata at_utc of
        None \<Rightarrow> Inr None
      | Some offset \<Rightarrow> let t = the at_utc + offset in if valid_datetime t then Inr (Some t) else Inl OverflowError)"

definition server_day :: "(datetime \<Rightarrow> int) \<Rightarrow> json \<Rightarrow> datetime option \<Rightarrow> date option res" where
  "server_day ny metadata at_utc = res_bind (server_clock ny metadata at_utc) (\<lambda>c. Inr (map_option date_of c))"

text \<open>\<open>datetime.combine(day, datetime.min.time())\<close>.\<close>

definition midnight :: "date \<Rightarrow> datetime" where
  "midnight day = (day - 1) * day_us"

section \<open>Broker rows\<close>

record terminal =
  tm_account_info :: "json res"
  tm_positions :: "json list option res"
  tm_deals :: "datetime \<Rightarrow> datetime \<Rightarrow> json list option res"

text \<open>Why a build ends early: a reason to block, or an exception that propagates.\<close>

datatype build_stop = StopBlocked string | StopRaised py_error

type_synonym 'a step = "build_stop + 'a"

fun step_bind :: "'a step \<Rightarrow> ('a \<Rightarrow> 'b step) \<Rightarrow> 'b step" where
  "step_bind (Inl s) k = Inl s"
| "step_bind (Inr x) k = k x"

lemma step_bind_unfold [code_unfold]: "step_bind r k = (case r of Inl s \<Rightarrow> Inl s | Inr x \<Rightarrow> k x)"
  by (cases r) auto

lemma step_bind_Inr_iff: "step_bind r k = Inr y \<longleftrightarrow> (\<exists>x. r = Inr x \<and> k x = Inr y)"
  by (cases r) auto

definition step_of :: "'a res \<Rightarrow> 'a step" where
  "step_of r = (case r of Inl e \<Rightarrow> Inl (StopRaised e) | Inr x \<Rightarrow> Inr x)"

lemma step_of_Inr_iff [simp]: "step_of r = Inr x \<longleftrightarrow> r = Inr x"
  by (cases r) (auto simp: step_of_def)

definition number_or_none :: "json \<Rightarrow> rat option" where
  "number_or_none v = (if is_number v then Some (num_of v) else None)"

definition integer_or_none :: "json \<Rightarrow> int option" where
  "integer_or_none v = (case v of JInt i \<Rightarrow> Some i | _ \<Rightarrow> None)"

text \<open>\<open>_get(row, k) or 0\<close>.\<close>

definition get_or_zero :: "json \<Rightarrow> string \<Rightarrow> json" where
  "get_or_zero row k = (if truthy (get_in row k) then get_in row k else JInt 0)"

definition UNIX_EPOCH :: datetime where
  "UNIX_EPOCH = midnight (ymd2ord 1970 1 1)"

definition clock_of :: "json \<Rightarrow> datetime option res" where
  "clock_of v =
     (case integer_or_none v of
        None \<Rightarrow> Inr None
      | Some s \<Rightarrow> if s < 0 then Inr None
                  else let t = UNIX_EPOCH + s * 1000000 in if valid_datetime t then Inr (Some t) else Inl OverflowError)"

record deal_row =
  dr_magic :: int
  dr_entry :: int
  dr_position :: int
  dr_pnl :: rat

definition DEAL_TYPES :: "int list" where "DEAL_TYPES = [0, 1]"
definition DEAL_ENTRY_IN :: int where "DEAL_ENTRY_IN = 0"

text \<open>One deal: a row, no row when it does not count, or the end of the build.\<close>

definition read_deal :: "datetime \<Rightarrow> datetime \<Rightarrow> json \<Rightarrow> deal_row option step" where
  "read_deal day_start clock_now deal =
     step_bind (step_of (clock_of (get_in deal ''time''))) (\<lambda>t0.
       case (t0, integer_or_none (get_in deal ''type''), integer_or_none (get_in deal ''magic'')) of
         (Some t, Some kind, Some magic) \<Rightarrow>
           if clock_now < t then Inl (StopBlocked ''RISK_BROKER_TIME_AHEAD_OF_SERVER_CLOCK'')
           else if t < day_start \<or> kind \<notin> set DEAL_TYPES then Inr None
           else
             let parts = map (\<lambda>k. number_or_none (get_or_zero deal k)) [''profit'', ''swap'', ''commission'', ''fee'']
             in (case (integer_or_none (get_in deal ''entry''), integer_or_none (get_in deal ''position_id'')) of
                   (Some entry, Some pid) \<Rightarrow>
                     if None \<in> set parts then Inl (StopBlocked ''RISK_BROKER_DATA_INVALID'')
                     else Inr (Some \<lparr>dr_magic = magic, dr_entry = entry, dr_position = pid, dr_pnl = py_sum (map the parts)\<rparr>)
                 | _ \<Rightarrow> Inl (StopBlocked ''RISK_BROKER_DATA_INVALID''))
       | _ \<Rightarrow> Inl (StopBlocked ''RISK_BROKER_DATA_INVALID''))"

fun deal_rows :: "datetime \<Rightarrow> datetime \<Rightarrow> json list \<Rightarrow> deal_row list step" where
  "deal_rows day_start clock_now [] = Inr []"
| "deal_rows day_start clock_now (d # ds) =
     step_bind (read_deal day_start clock_now d) (\<lambda>r. step_bind (deal_rows day_start clock_now ds) (\<lambda>rs.
       Inr (case r of None \<Rightarrow> rs | Some x \<Rightarrow> x # rs)))"

record position_row =
  pr_symbol :: string
  pr_magic :: int
  pr_pnl :: rat
  pr_opened :: datetime

definition read_position :: "datetime \<Rightarrow> json \<Rightarrow> position_row step" where
  "read_position clock_now p =
     step_bind (step_of (clock_of (get_in p ''time''))) (\<lambda>opened0.
       case (get_in p ''symbol'', integer_or_none (get_in p ''magic''), number_or_none (get_in p ''profit''),
             number_or_none (get_or_zero p ''swap''), opened0) of
         (JStr s, Some magic, Some profit, Some swap, Some opened) \<Rightarrow>
           if \<not> non_blank s then Inl (StopBlocked ''RISK_BROKER_DATA_INVALID'')
           else if clock_now < opened then Inl (StopBlocked ''RISK_BROKER_TIME_AHEAD_OF_SERVER_CLOCK'')
           else Inr \<lparr>pr_symbol = s, pr_magic = magic, pr_pnl = fadd profit swap, pr_opened = opened\<rparr>
       | _ \<Rightarrow> Inl (StopBlocked ''RISK_BROKER_DATA_INVALID''))"

fun position_rows :: "datetime \<Rightarrow> json list \<Rightarrow> position_row list step" where
  "position_rows clock_now [] = Inr []"
| "position_rows clock_now (p # ps) =
     step_bind (read_position clock_now p) (\<lambda>r. step_bind (position_rows clock_now ps) (\<lambda>rs. Inr (r # rs)))"

section \<open>Books\<close>

record book =
  bk_realized :: rat
  bk_open :: rat
  bk_carried :: rat

definition empty_book :: book where
  "empty_book = \<lparr>bk_realized = 0, bk_open = 0, bk_carried = 0\<rparr>"

datatype book_field = Realized | Open

definition book_add :: "bool \<Rightarrow> book_field \<Rightarrow> rat \<Rightarrow> book \<Rightarrow> book" where
  "book_add carried f pnl b =
     (if carried then b\<lparr>bk_carried := fadd (bk_carried b) (if pnl < 0 then pnl else 0)\<rparr>
      else case f of
        Realized \<Rightarrow> b\<lparr>bk_realized := fadd (bk_realized b) pnl\<rparr>
      | Open \<Rightarrow> b\<lparr>bk_open := fadd (bk_open b) pnl\<rparr>)"

text \<open>The account's book (key \<open>None\<close>) and one per scope key, with the position ids opened today.\<close>

record scope_book =
  sb_magic :: int
  sb_book :: book
  sb_positions :: "int list"

record books =
  bs_account :: book
  bs_scopes :: "(string \<times> scope_book) list"

definition scope_add :: "int \<Rightarrow> rat \<Rightarrow> bool \<Rightarrow> book_field \<Rightarrow> scope_book \<Rightarrow> scope_book" where
  "scope_add magic pnl carried f sb = (if magic = sb_magic sb then sb\<lparr>sb_book := book_add carried f pnl (sb_book sb)\<rparr> else sb)"

definition book_entry :: "int \<Rightarrow> rat \<Rightarrow> bool \<Rightarrow> book_field \<Rightarrow> books \<Rightarrow> books" where
  "book_entry magic pnl carried f bs =
     bs\<lparr>bs_account := book_add carried f pnl (bs_account bs), bs_scopes := map (map_prod id (scope_add magic pnl carried f)) (bs_scopes bs)\<rparr>"

definition carried_deal :: "int list \<Rightarrow> deal_row \<Rightarrow> bool" where
  "carried_deal opened_today r \<longleftrightarrow> dr_entry r \<noteq> DEAL_ENTRY_IN \<and> dr_position r \<notin> set opened_today"

definition scope_opened :: "int \<Rightarrow> int \<Rightarrow> scope_book \<Rightarrow> scope_book" where
  "scope_opened magic pid sb = (if magic = sb_magic sb then sb\<lparr>sb_positions := List.insert pid (sb_positions sb)\<rparr> else sb)"

definition book_deal :: "int list \<Rightarrow> deal_row \<Rightarrow> books \<Rightarrow> books" where
  "book_deal opened_today r bs =
     (let bs' = book_entry (dr_magic r) (dr_pnl r) (carried_deal opened_today r) Realized bs
      in if dr_entry r = DEAL_ENTRY_IN
         then bs'\<lparr>bs_scopes := map (map_prod id (scope_opened (dr_magic r) (dr_position r))) (bs_scopes bs')\<rparr> else bs')"

definition book_position :: "datetime \<Rightarrow> position_row \<Rightarrow> books \<Rightarrow> books" where
  "book_position day_start p bs = book_entry (pr_magic p) (pr_pnl p) (pr_opened p < day_start) Open bs"

definition opened_today_of :: "deal_row list \<Rightarrow> int list" where
  "opened_today_of rows = map dr_position (filter (\<lambda>r. dr_entry r = DEAL_ENTRY_IN) rows)"

section \<open>Metrics and the build\<close>

definition daily_loss :: "book \<Rightarrow> rat" where
  "daily_loss b = (let x = - fadd (bk_realized b) (bk_open b) in fsub (if 0 < x then x else 0) (bk_carried b))"

definition loss_pct :: "book \<Rightarrow> rat \<Rightarrow> rat" where
  "loss_pct b equity = py_round 6 (fmul (fl (daily_loss b / equity)) 100)"

definition rounded :: "nat \<Rightarrow> rat \<Rightarrow> json" where
  "rounded n x = JFloat (py_round n x)"

definition book_metrics :: "book \<Rightarrow> rat \<Rightarrow> dict" where
  "book_metrics b equity =
     (let total = fadd (fadd (bk_realized b) (bk_open b)) (bk_carried b); loss = daily_loss b;
          one_r = fl (fmul equity MAX_RISK_PER_TRADE_PCT / 100)
      in [(''realized_pnl'', rounded 8 (bk_realized b)), (''open_pnl'', rounded 8 (bk_open b)), (''carried_adverse_pnl'', rounded 8 (bk_carried b)), (''total_pnl'', rounded 8 total),
          (''realized_R'', rounded 6 (fl (bk_realized b / one_r))), (''open_R'', rounded 6 (fl (bk_open b / one_r))), (''carried_adverse_R'', rounded 6 (fl (bk_carried b / one_r))),
          (''total_R'', rounded 6 (fl (total / one_r))), (''total_pct'', rounded 6 (fmul (fl (total / equity)) 100)), (''daily_loss_R'', rounded 6 (fl (loss / one_r))),
          (''daily_loss_pct'', JFloat (loss_pct b equity))])"

record scope_entry =
  se_metrics :: dict
  se_snapshot :: risk_snapshot

record risk_build =
  rb_status :: string
  rb_reason_code :: "string option"
  rb_server_day :: "date option"
  rb_observed_at_utc :: "datetime option"
  rb_account :: dict
  rb_scopes :: "(string \<times> scope_entry) list"

definition snapshot_key :: "scope_policy \<Rightarrow> string" where
  "snapshot_key s = strategy_id s @ ''@'' @ strategy_version s @ '':'' @ sp_symbol s @ '':'' @ session s"

definition snapshot_for :: "risk_build \<Rightarrow> scope_policy \<Rightarrow> risk_snapshot option" where
  "snapshot_for b scope = (if rb_status b = ''OK'' then map_option se_snapshot (map_of (rb_scopes b) (snapshot_key scope)) else None)"

definition build_blocked :: "date option \<Rightarrow> datetime option \<Rightarrow> string \<Rightarrow> risk_build" where
  "build_blocked day now reason =
     \<lparr>rb_status = ''BLOCKED'', rb_reason_code = Some reason, rb_server_day = day, rb_observed_at_utc = now, rb_account = [], rb_scopes = []\<rparr>"

text \<open>\<open>{key(x): value(x) for x in xs}\<close>.\<close>

fun dput_all :: "('a \<Rightarrow> string) \<Rightarrow> ('a \<Rightarrow> 'v) \<Rightarrow> 'a list \<Rightarrow> (string \<times> 'v) list \<Rightarrow> (string \<times> 'v) list" where
  "dput_all f g [] d = d"
| "dput_all f g (x # xs) d = dput_all f g xs (dput (f x) (g x) d)"

definition initial_book :: "scope_policy \<Rightarrow> scope_book" where
  "initial_book s = \<lparr>sb_magic = magic_number s, sb_book = empty_book, sb_positions = []\<rparr>"

text \<open>The dictionaries \<open>magics\<close>, \<open>books\<close> and \<open>positions_by\<close>: a repeated key keeps its place and takes the last magic.\<close>

definition initial_books :: "scope_policy list \<Rightarrow> books" where
  "initial_books scopes =
     \<lparr>bs_account = empty_book, bs_scopes = dput_all snapshot_key initial_book scopes []\<rparr>"

text \<open>The broker reads in their order: equity, the day's deals, the open positions.\<close>

record broker_day =
  bd_equity :: rat
  bd_deals :: "deal_row list"
  bd_positions :: "position_row list"

definition broker_reads :: "terminal \<Rightarrow> datetime \<Rightarrow> datetime \<Rightarrow> broker_day step" where
  "broker_reads tm day_start clock_now =
     step_bind (step_of (tm_account_info tm)) (\<lambda>account.
     if account = JNull then Inl (StopBlocked ''RISK_BROKER_ACCOUNT_UNAVAILABLE'')
     else case number_or_none (get_in account ''equity'') of
       None \<Rightarrow> Inl (StopBlocked ''RISK_DEMO_EQUITY_UNAVAILABLE'')
     | Some equity \<Rightarrow>
         if equity \<le> 0 then Inl (StopBlocked ''RISK_DEMO_EQUITY_UNAVAILABLE'')
         else step_bind (step_of (tm_deals tm day_start clock_now)) (\<lambda>deals0.
           case deals0 of
             None \<Rightarrow> Inl (StopBlocked ''RISK_BROKER_DEALS_UNAVAILABLE'')
           | Some deals \<Rightarrow>
               step_bind (step_of (tm_positions tm)) (\<lambda>positions0.
               case positions0 of
                 None \<Rightarrow> Inl (StopBlocked ''RISK_BROKER_POSITIONS_UNAVAILABLE'')
               | Some positions \<Rightarrow>
                   step_bind (deal_rows day_start clock_now deals) (\<lambda>rows.
                   step_bind (position_rows clock_now positions) (\<lambda>open_rows. Inr \<lparr>bd_equity = equity, bd_deals = rows, bd_positions = open_rows\<rparr>)))))"

definition fill_books :: "datetime \<Rightarrow> deal_row list \<Rightarrow> position_row list \<Rightarrow> books \<Rightarrow> books" where
  "fill_books day_start rows open_rows bs = fold (book_position day_start) open_rows (fold (book_deal (opened_today_of rows)) rows bs)"

definition scope_snapshot ::
  "datetime \<Rightarrow> date \<Rightarrow> rat \<Rightarrow> (string \<times> symbol_meta) list \<Rightarrow> position_row list \<Rightarrow> books \<Rightarrow> scope_policy \<Rightarrow> scope_entry" where
  "scope_snapshot now day equity metas open_rows bs scope =
     (let key = snapshot_key scope; sb = the (map_of (bs_scopes bs) key); trades = JInt (int (length (sb_positions sb)))
      in \<lparr>se_metrics = book_metrics (sb_book sb) equity @ [(''trades_today'', trades), (''magic_number'', JInt (magic_number scope))],
          se_snapshot =
            \<lparr>rs_observed_at_utc = Some now, rs_server_day = Some day, rs_demo_equity = JFloat equity,
             rs_strategy_daily_loss_pct = JFloat (loss_pct (sb_book sb) equity),
             rs_account_daily_loss_pct = JFloat (loss_pct (bs_account bs) equity), rs_strategy_trades_today = trades,
             rs_open_positions = Some (map (\<lambda>p. \<lparr>op_symbol = JStr (pr_symbol p), op_magic_number = JInt (pr_magic p)\<rparr>) open_rows),
             rs_positions_complete = True, rs_daily_metrics_complete = True, rs_symbol_meta = map_of metas key,
             rs_daily_reset_basis = Some (daily_reset_basis scope)\<rparr>\<rparr>)"

definition finish_build :: "datetime \<Rightarrow> date \<Rightarrow> scope_policy list \<Rightarrow> (string \<times> symbol_meta) list \<Rightarrow> broker_day \<Rightarrow> risk_build" where
  "finish_build now day scopes metas x =
     (let bs = fill_books (midnight day) (bd_deals x) (bd_positions x) (initial_books scopes)
      in \<lparr>rb_status = ''OK'', rb_reason_code = None, rb_server_day = Some day, rb_observed_at_utc = Some now,
          rb_account = book_metrics (bs_account bs) (bd_equity x) @
            [(''equity'', JFloat (bd_equity x)), (''open_positions'', JInt (int (length (bd_positions x))))],
          rb_scopes = dput_all snapshot_key (scope_snapshot now day (bd_equity x) metas (bd_positions x) bs) scopes []\<rparr>)"

definition build_risk_snapshots ::
  "(datetime \<Rightarrow> int) \<Rightarrow> terminal \<Rightarrow> scope_policy list \<Rightarrow> json \<Rightarrow> datetime option \<Rightarrow> (string \<times> symbol_meta) list \<Rightarrow> risk_build res" where
  "build_risk_snapshots ny tm scopes metadata now_utc metas =
     (if scopes = [] then Inr (build_blocked None None ''RISK_SCOPES_MISSING'')
      else if \<not> distinct (map magic_number scopes) then Inr (build_blocked None None ''RISK_SCOPE_MAGIC_DUPLICATE'')
      else case server_clock ny metadata now_utc of
        Inl e \<Rightarrow> Inl e
      | Inr clock0 \<Rightarrow>
          (case clock0 of
             None \<Rightarrow> Inr (build_blocked None None ''RISK_SERVER_DAY_UNAVAILABLE'')
           | Some clock_now \<Rightarrow>
               let day = date_of clock_now; day_start = midnight day; now = the now_utc
               in if list_ex (\<lambda>s. daily_reset_basis s \<noteq> ''VT_SERVER_DAY'') scopes
                  then Inr (build_blocked None None ''RISK_SERVER_DAY_UNAVAILABLE'')
                  else (case broker_reads tm day_start clock_now of
                     Inl (StopRaised e) \<Rightarrow> Inl e
                   | Inl (StopBlocked reason) \<Rightarrow> Inr (build_blocked (Some day) (Some now) reason)
                   | Inr x \<Rightarrow> Inr (finish_build now day scopes metas x))))"

text \<open>\<open>GuardedCanonicalAdapter._fresh_risk_snapshot\<close>: a build that raises is no snapshot.\<close>

definition fresh_risk_snapshot :: "risk_build res \<Rightarrow> scope_policy \<Rightarrow> risk_snapshot option" where
  "fresh_risk_snapshot build scope = (case build of Inl _ \<Rightarrow> None | Inr b \<Rightarrow> snapshot_for b scope)"

section \<open>The specification of a day\<close>

text \<open>Floats added in order.\<close>

definition ordered_sum :: "rat list \<Rightarrow> rat" where
  "ordered_sum xs = foldl fadd 0 xs"

definition adverse :: "rat \<Rightarrow> rat" where
  "adverse x = (if x < 0 then x else 0)"

text \<open>What the deals and positions of one magic number, or of the whole account, add up to: results of
  positions opened today count as they are, carried ones only when adverse.\<close>

definition day_book :: "(int \<Rightarrow> bool) \<Rightarrow> datetime \<Rightarrow> deal_row list \<Rightarrow> position_row list \<Rightarrow> book" where
  "day_book mine day_start rows open_rows =
     (let carried = carried_deal (opened_today_of rows); ds = filter (\<lambda>r. mine (dr_magic r)) rows; ps = filter (\<lambda>p. mine (pr_magic p)) open_rows
      in \<lparr>bk_realized = ordered_sum (map dr_pnl (filter (\<lambda>r. \<not> carried r) ds)),
          bk_open = ordered_sum (map pr_pnl (filter (\<lambda>p. day_start \<le> pr_opened p) ps)),
          bk_carried = ordered_sum (map (adverse \<circ> dr_pnl) (filter carried ds) @ map (adverse \<circ> pr_pnl) (filter (\<lambda>p. pr_opened p < day_start) ps))\<rparr>)"

definition positions_opened :: "int \<Rightarrow> deal_row list \<Rightarrow> int set" where
  "positions_opened magic rows = dr_position ` {r \<in> set rows. dr_magic r = magic \<and> dr_entry r = DEAL_ENTRY_IN}"

section \<open>Lemmas\<close>

lemma ordered_sum_snoc [simp]: "ordered_sum [] = 0" "ordered_sum (xs @ [x]) = fadd (ordered_sum xs) x"
  by (simp_all add: ordered_sum_def)

text \<open>Booking runs on each scope by itself.\<close>

definition scope_deal :: "int list \<Rightarrow> deal_row \<Rightarrow> scope_book \<Rightarrow> scope_book" where
  "scope_deal ids r sb =
     (if dr_magic r = sb_magic sb
      then sb\<lparr>sb_book := book_add (carried_deal ids r) Realized (dr_pnl r) (sb_book sb),
              sb_positions := if dr_entry r = DEAL_ENTRY_IN then List.insert (dr_position r) (sb_positions sb) else sb_positions sb\<rparr>
      else sb)"

definition scope_position :: "datetime \<Rightarrow> position_row \<Rightarrow> scope_book \<Rightarrow> scope_book" where
  "scope_position day_start p sb =
     (if pr_magic p = sb_magic sb then sb\<lparr>sb_book := book_add (pr_opened p < day_start) Open (pr_pnl p) (sb_book sb)\<rparr> else sb)"

lemma book_deal_parts:
  "bs_scopes (book_deal ids r bs) = map (\<lambda>(k, sb). (k, scope_deal ids r sb)) (bs_scopes bs)"
  "bs_account (book_deal ids r bs) = book_add (carried_deal ids r) Realized (dr_pnl r) (bs_account bs)"
  by (auto simp: book_deal_def book_entry_def scope_deal_def scope_add_def scope_opened_def Let_def)

lemma book_position_parts:
  "bs_scopes (book_position t p bs) = map (\<lambda>(k, sb). (k, scope_position t p sb)) (bs_scopes bs)"
  "bs_account (book_position t p bs) = book_add (pr_opened p < t) Open (pr_pnl p) (bs_account bs)"
  by (auto simp: book_position_def book_entry_def scope_position_def scope_add_def)

lemma fold_deals_parts:
  "bs_scopes (fold (book_deal ids) rows bs) = map (\<lambda>(k, sb). (k, fold (scope_deal ids) rows sb)) (bs_scopes bs)"
  "bs_account (fold (book_deal ids) rows bs) = fold (\<lambda>r. book_add (carried_deal ids r) Realized (dr_pnl r)) rows (bs_account bs)"
  by (induction rows arbitrary: bs) (auto simp: book_deal_parts)

lemma fold_positions_parts:
  "bs_scopes (fold (book_position t) ps bs) = map (\<lambda>(k, sb). (k, fold (scope_position t) ps sb)) (bs_scopes bs)"
  "bs_account (fold (book_position t) ps bs) = fold (\<lambda>p. book_add (pr_opened p < t) Open (pr_pnl p)) ps (bs_account bs)"
  by (induction ps arbitrary: bs) (auto simp: book_position_parts)

lemma scope_deals:
  "sb_magic (fold (scope_deal ids) rows sb) = sb_magic sb"
  "sb_book (fold (scope_deal ids) rows sb) =
     fold (\<lambda>r. book_add (carried_deal ids r) Realized (dr_pnl r)) (filter (\<lambda>r. dr_magic r = sb_magic sb) rows) (sb_book sb)"
  "set (sb_positions (fold (scope_deal ids) rows sb)) = set (sb_positions sb) \<union> positions_opened (sb_magic sb) rows"
  "distinct (sb_positions sb) \<Longrightarrow> distinct (sb_positions (fold (scope_deal ids) rows sb))"
  by (induction rows arbitrary: sb) (auto simp: scope_deal_def positions_opened_def)

lemma scope_positions:
  "sb_positions (fold (scope_position t) ps sb) = sb_positions sb"
  "sb_magic (fold (scope_position t) ps sb) = sb_magic sb"
  "sb_book (fold (scope_position t) ps sb) =
     fold (\<lambda>p. book_add (pr_opened p < t) Open (pr_pnl p)) (filter (\<lambda>p. pr_magic p = sb_magic sb) ps) (sb_book sb)"
  by (induction ps arbitrary: sb) (auto simp: scope_position_def)

lemma fold_deal_book:
  "fold (\<lambda>r. book_add (c r) Realized (dr_pnl r)) rows empty_book =
     \<lparr>bk_realized = ordered_sum (map dr_pnl (filter (\<lambda>r. \<not> c r) rows)), bk_open = 0, bk_carried = ordered_sum (map (adverse \<circ> dr_pnl) (filter c rows))\<rparr>"
  by (induction rows rule: rev_induct) (auto simp: empty_book_def book_add_def adverse_def)

lemma fold_position_book:
  "fold (\<lambda>p. book_add (pr_opened p < t) Open (pr_pnl p)) ps \<lparr>bk_realized = a, bk_open = 0, bk_carried = ordered_sum cs\<rparr> =
     \<lparr>bk_realized = a, bk_open = ordered_sum (map pr_pnl (filter (\<lambda>p. t \<le> pr_opened p) ps)),
      bk_carried = ordered_sum (cs @ map (adverse \<circ> pr_pnl) (filter (\<lambda>p. pr_opened p < t) ps))\<rparr>"
  by (induction ps rule: rev_induct) (auto simp: book_add_def adverse_def simp flip: append_assoc)

lemma booked_day:
  "fold (\<lambda>p. book_add (pr_opened p < t) Open (pr_pnl p)) (filter (\<lambda>p. mine (pr_magic p)) ps)
     (fold (\<lambda>r. book_add (carried_deal (opened_today_of rows) r) Realized (dr_pnl r)) (filter (\<lambda>r. mine (dr_magic r)) rows) empty_book)
   = day_book mine t rows ps"
  by (simp add: fold_deal_book fold_position_book day_book_def Let_def)

lemma map_of_dput_all:
  "distinct (map f xs) \<Longrightarrow> x \<in> set xs \<Longrightarrow> map_of (dput_all f g xs d) (f x) = Some (g x)"
proof (induction xs arbitrary: d)
  case (Cons y ys)
  have "map_of (dput_all f g zs d') k = map_of d' k" if "k \<notin> f ` set zs" for zs d' k
    using that by (induction zs arbitrary: d') auto
  with Cons show ?case by auto
qed simp

lemma filled_scope:
  assumes "distinct (map snapshot_key scopes)" "scope \<in> set scopes"
  shows "\<exists>sb. map_of (bs_scopes (fill_books t rows ps (initial_books scopes))) (snapshot_key scope) = Some sb \<and>
    sb_book sb = day_book (\<lambda>m. m = magic_number scope) t rows ps \<and> length (sb_positions sb) = card (positions_opened (magic_number scope) rows)"
proof -
  let ?o = "opened_today_of rows" and ?i = "initial_book scope"
  let ?d = "fold (scope_deal ?o) rows ?i" and ?sb = "fold (scope_position t) ps (fold (scope_deal ?o) rows ?i)"
  have "map_of (bs_scopes (initial_books scopes)) (snapshot_key scope) = Some ?i"
    using map_of_dput_all [OF assms] by (simp add: initial_books_def)
  then have "map_of (bs_scopes (fill_books t rows ps (initial_books scopes))) (snapshot_key scope) = Some ?sb"
    by (simp add: fill_books_def fold_deals_parts fold_positions_parts map_of_map del: map_map)
  moreover have "sb_book ?sb = day_book (\<lambda>m. m = magic_number scope) t rows ps"
    using booked_day [of t "\<lambda>m. m = magic_number scope" ps rows] by (simp add: scope_positions scope_deals initial_book_def)
  moreover have "length (sb_positions ?sb) = card (positions_opened (magic_number scope) rows)"
    using scope_deals(3,4) [where ids = ?o and rows = rows and sb = ?i] by (simp add: scope_positions(1) initial_book_def flip: distinct_card)
  ultimately show ?thesis by blast
qed

lemma filled_account: "bs_account (fill_books t rows ps (initial_books scopes)) = day_book (\<lambda>_. True) t rows ps"
  using booked_day [of t "\<lambda>_. True" ps rows] by (simp add: fill_books_def fold_deals_parts fold_positions_parts initial_books_def)

lemma snapshot_built:
  assumes "build_risk_snapshots ny tm scopes metadata now_utc metas = Inr b" "snapshot_for b scope = Some s"
    and "distinct (map snapshot_key scopes)" "scope \<in> set scopes"
  obtains now clock x where
    "now_utc = Some now" "rule_ok metadata" "clock = now + ny now + VT_SHIFT"
    "broker_reads tm (midnight (date_of clock)) clock = Inr x"
    "s = se_snapshot (scope_snapshot now (date_of clock) (bd_equity x) metas (bd_positions x)
           (fill_books (midnight (date_of clock)) (bd_deals x) (bd_positions x) (initial_books scopes)) scope)"
proof -
  have ok: "rb_status b = ''OK''" and m: "map_option se_snapshot (map_of (rb_scopes b) (snapshot_key scope)) = Some s"
    using assms(2) by (auto simp: snapshot_for_def split: if_splits)
  note u = assms(1) [unfolded build_risk_snapshots_def Let_def]
  obtain clock where c: "server_clock ny metadata now_utc = Inr (Some clock)"
    using u ok by (auto simp: build_blocked_def split: if_splits sum.splits option.splits)
  let ?t = "midnight (date_of clock)"
  obtain x where r: "broker_reads tm ?t clock = Inr x"
    using u ok c by (auto simp: build_blocked_def split: if_splits sum.splits build_stop.splits)
  let ?e = "scope_snapshot (the now_utc) (date_of clock) (bd_equity x) metas (bd_positions x) (fill_books ?t (bd_deals x) (bd_positions x) (initial_books scopes))"
  have "rb_scopes b = dput_all snapshot_key ?e scopes []"
    using u ok c r by (auto simp: build_blocked_def finish_build_def Let_def split: if_splits)
  then have "s = se_snapshot (?e scope)" using m map_of_dput_all [OF assms(3,4), of ?e "[]"] by simp
  moreover have "now_utc = Some (the now_utc)" "rule_ok metadata" "clock = the now_utc + ny (the now_utc) + VT_SHIFT"
    using c by (auto simp: server_clock_def server_offset_def Let_def split: option.splits if_splits)
  ultimately show thesis using that r by blast
qed

section \<open>Properties\<close>


section \<open>A concrete build\<close>

definition winter :: "datetime \<Rightarrow> int" where
  "winter t = - 5 * 3600 * 1000000"

definition demo_deals :: "datetime \<Rightarrow> datetime \<Rightarrow> json list option res" where
  "demo_deals a b = Inr (Some
     [JDict [(''time'', JInt 1767600000), (''type'', JInt 0), (''magic'', JInt 77), (''entry'', JInt 0), (''position_id'', JInt 9), (''profit'', JFloat (- 25))],
      JDict [(''time'', JInt 1767600300), (''type'', JInt 1), (''magic'', JInt 5), (''entry'', JInt 1), (''position_id'', JInt 3), (''profit'', JFloat 40)]])"

definition demo_terminal :: terminal where
  "demo_terminal = \<lparr>tm_account_info = Inr (JDict [(''equity'', JFloat 10000)]),
     tm_positions = Inr (Some [JDict [(''symbol'', JStr ''EURUSD-VIP''), (''magic'', JInt 5), (''profit'', JFloat 3), (''time'', JInt 1767500000)]]),
     tm_deals = demo_deals\<rparr>"

definition demo_metadata :: json where
  "demo_metadata = JDict [(''schema'', JStr METADATA_SCHEMA), (''server'', JStr VT_SERVER), (''server_utc_offset_rule'', JStr OFFSET_RULE)]"

definition demo_build :: "risk_build res" where
  "demo_build = build_risk_snapshots winter demo_terminal [demo_scope] demo_metadata (demo_now ''2026-01-05T10:02:00+00:00'') []"


end
