(* ===== verification/Canonical_Adapter.thy ===== *)
theory Canonical_Adapter
  imports Dispatch Risk_Snapshot
begin

text \<open>
  The broker adapter (src/src/demo\_execution/mt5\_canonical\_adapter.py). The terminal module is a
  parameter: its calls return a JSON value (a named tuple as the dictionary of its fields) or raise, and
  its constants are read by name. The digest of a text and the clock are parameters too. A call of the
  adapter reads the ticket store and never writes to it.
\<close>

section \<open>Environment\<close>

record mt5_module =
  mt_account_info :: "json res"
  mt_tick :: "string \<Rightarrow> json res"
  mt_order_check :: "dict \<Rightarrow> string + json"
  mt_order_send :: "dict \<Rightarrow> string + json"
  mt_deals_of_order :: "int \<Rightarrow> json list option res"
  mt_const :: "string \<Rightarrow> json"

record adapter_env =
  ca_gate :: gate_env
  ca_mt5 :: mt5_module
  ca_text_sha :: "string \<Rightarrow> string"
  ca_shape_file :: "json option"
  ca_now :: datetime
  ca_now_confirm :: datetime

abbreviation ca_rt :: "adapter_env \<Rightarrow> py_rt" where "ca_rt env \<equiv> ge_rt (ca_gate env)"

definition ORDER_SHAPE_SCHEMA :: string where "ORDER_SHAPE_SCHEMA = ''AGP_DEMO_ORDER_SHAPE_V1''"

definition FILLING :: "(string \<times> string) list" where
  "FILLING = [(''FOK'', ''ORDER_FILLING_FOK''), (''IOC'', ''ORDER_FILLING_IOC''), (''RETURN'', ''ORDER_FILLING_RETURN'')]"

definition adapter_refused :: "string \<Rightarrow> dict \<Rightarrow> dict" where
  "adapter_refused reason details = dupdate [(''refused'', JBool True), (''reason_code'', JStr reason)] details"

definition as_dict :: "json \<Rightarrow> dict option" where
  "as_dict v = (case v of JDict d \<Rightarrow> Some d | _ \<Rightarrow> None)"

text \<open>A read of the terminal that raises counts as no answer.\<close>

definition read_dict :: "json res \<Rightarrow> dict option" where
  "read_dict r = (case r of Inl _ \<Rightarrow> None | Inr v \<Rightarrow> as_dict v)"

text \<open>\<open>v == i\<close> for an integer \<open>i\<close>: booleans and floats compare by value.\<close>

definition eq_int :: "json \<Rightarrow> int \<Rightarrow> bool" where
  "eq_int v i = (case v of JInt k \<Rightarrow> k = i | JFloat x \<Rightarrow> x = of_int i | JBool b \<Rightarrow> (if b then 1 else 0) = i | _ \<Rightarrow> False)"

section \<open>The order shape\<close>

record order_shape =
  os_approved :: bool
  os_take_profit_leg :: json
  os_filling :: json
  os_shape_id :: json
  os_deviation_tag :: json
  os_analytics_exclusion :: bool
  os_account_margin_mode :: json

definition no_shape :: order_shape where
  "no_shape = \<lparr>os_approved = False, os_take_profit_leg = JNull, os_filling = JNull, os_shape_id = JNull, os_deviation_tag = JNull,
     os_analytics_exclusion = False, os_account_margin_mode = JNull\<rparr>"

definition is_alnum :: "char \<Rightarrow> bool" where
  "is_alnum c \<longleftrightarrow> (let n = (of_char c :: nat) in 48 \<le> n \<and> n \<le> 57 \<or> 65 \<le> n \<and> n \<le> 90 \<or> 97 \<le> n \<and> n \<le> 122)"

definition tag_ok :: "json \<Rightarrow> bool" where
  "tag_ok v = (case v of JStr s \<Rightarrow> list_all is_alnum s \<and> 1 \<le> length s \<and> length s \<le> 8 | _ \<Rightarrow> False)"

text \<open>\<open>order.get("filling") in _FILLING\<close>: a value that cannot be a key raises.\<close>

definition filling_known :: "json \<Rightarrow> bool res" where
  "filling_known v =
     (case v of JStr s \<Rightarrow> Inr (s \<in> fst ` set FILLING) | JList _ \<Rightarrow> Inl TypeError | JDict _ \<Rightarrow> Inl TypeError | _ \<Rightarrow> Inr False)"

definition load_order_shape :: "json option \<Rightarrow> order_shape res" where
  "load_order_shape f =
     (case f of
        Some (JDict raw) \<Rightarrow>
          if dget raw ''schema'' \<noteq> JStr ORDER_SHAPE_SCHEMA then Inr no_shape
          else
            let order = (case dget raw ''order'' of JDict d \<Rightarrow> d | _ \<Rightarrow> []); tag = dget raw ''deviation_tag'';
                fixed = (dget raw ''status'' = JStr ''OWNER_APPROVED'' \<and> non_empty (dget raw ''owner_decision_id'') \<and> non_empty (dget raw ''shape_id'') \<and>
                  tag_ok tag \<and> dget raw ''analytics_exclusion'' = JBool True \<and> dget order ''action'' = JStr ''DEAL'' \<and>
                  (eq_int (dget order ''take_profit_leg'') 1 \<or> eq_int (dget order ''take_profit_leg'') 2))
            in res_bind (if fixed then filling_known (dget order ''filling'') else Inr False) (\<lambda>approved. Inr
                 \<lparr>os_approved = approved, os_take_profit_leg = dget order ''take_profit_leg'', os_filling = dget order ''filling'',
                  os_shape_id = dget raw ''shape_id'', os_deviation_tag = tag,
                  os_analytics_exclusion = (dget raw ''analytics_exclusion'' = JBool True), os_account_margin_mode = dget raw ''account_margin_mode''\<rparr>)
      | _ \<Rightarrow> Inr no_shape)"

definition order_comment :: "py_rt \<Rightarrow> (string \<Rightarrow> string) \<Rightarrow> string \<Rightarrow> json \<Rightarrow> string" where
  "order_comment rt text_sha tid tag =
     (let base = ''AG '' @ take 16 (text_sha tid) in if truthy tag then take 31 (base @ '' '' @ py_str rt tag) else base)"

definition shape_fields :: "order_shape \<Rightarrow> dict" where
  "shape_fields shape =
     [(''shape_id'', os_shape_id shape), (''shape_deviation_tag'', os_deviation_tag shape),
      (''analytics_exclusion'', JBool (os_analytics_exclusion shape)),
      (''account_margin_mode'', if truthy (os_account_margin_mode shape) then os_account_margin_mode shape else JStr ''UNKNOWN'')]"

section \<open>Re-validation\<close>

text \<open>A check that refuses, or an exception that leaves the call.\<close>

datatype adapter_stop = StopRefused dict | StopError string

type_synonym 'a checked = "adapter_stop + 'a"

fun checked_bind :: "'a checked \<Rightarrow> ('a \<Rightarrow> 'b checked) \<Rightarrow> 'b checked" where
  "checked_bind (Inl s) k = Inl s"
| "checked_bind (Inr x) k = k x"

lemma checked_bind_Inr_iff: "checked_bind r k = Inr y \<longleftrightarrow> (\<exists>x. r = Inr x \<and> k x = Inr y)"
  by (cases r) auto

text \<open>\<open>type(exc).__name__\<close>.\<close>

fun error_name :: "py_error \<Rightarrow> string" where
  "error_name (ValueError _) = ''ValueError''" | "error_name (KeyError _) = ''KeyError''" | "error_name TypeError = ''TypeError''"
| "error_name IndexError = ''IndexError''" | "error_name ZeroDivisionError = ''ZeroDivisionError''"
| "error_name StateStoreCorrupted = ''StateStoreCorrupted''" | "error_name (TicketStoreError _) = ''TicketStoreError''"
| "error_name TicketStoreConflict = ''TicketStoreConflict''" | "error_name TicketStoreCorrupt = ''TicketStoreCorrupt''"
| "error_name OSError = ''OSError''" | "error_name (StructureLibraryError _) = ''StructureLibraryError''"
| "error_name (StructureOutputInvalid _) = ''StructureOutputInvalid''" | "error_name (MarketDataError _) = ''MarketDataError''"
| "error_name AttributeError = ''AttributeError''" | "error_name OverflowError = ''OverflowError''" | "error_name (RuntimeError _) = ''RuntimeError''"

definition raising :: "'a res \<Rightarrow> 'a checked" where
  "raising r = (case r of Inl e \<Rightarrow> Inl (StopError (error_name e)) | Inr x \<Rightarrow> Inr x)"

lemma raising_Inr_iff [simp]: "raising r = Inr x \<longleftrightarrow> r = Inr x"
  by (cases r) (auto simp: raising_def)

definition refuse :: "string \<Rightarrow> 'a checked" where
  "refuse reason = Inl (StopRefused (adapter_refused reason []))"

text \<open>The first reason, if any, refuses.\<close>

definition unless_reason :: "string list \<Rightarrow> 'a \<Rightarrow> 'a checked" where
  "unless_reason reasons x = (case reasons of [] \<Rightarrow> Inr x | r # _ \<Rightarrow> refuse r)"

definition adapter_scope :: "adapter_env \<Rightarrow> execution_authority \<Rightarrow> scope_policy checked" where
  "adapter_scope env a =
     (let g = ca_gate env
      in case resolve_ticket_scope_policy (ge_rt g) (ge_scope_host g) (ge_config g) (ge_manifest g)
                [(''strategy_id'', JStr (ea_strategy_id a)), (''strategy_version'', JStr (ea_strategy_version a)), (''symbol'', JStr (ea_symbol a)),
                 (''session'', JStr (ea_session a))] of
           Inl (ScopePolicyError r) \<Rightarrow> refuse r
         | Inl (SymbolUnmapped s) \<Rightarrow> Inl (StopError ''SymbolUnmapped'')
         | Inl (Raised e) \<Rightarrow> Inl (StopError (error_name e))
         | Inr scope \<Rightarrow>
             if \<not> enabled scope then refuse ''EXECUTION_DISABLED''
             else if (strategy_id scope, strategy_version scope, sp_symbol scope, session scope, setup_branch scope, logic_identity scope, magic_number scope) \<noteq>
                     (ea_strategy_id a, ea_strategy_version a, ea_symbol a, ea_session a, ea_setup_branch a, ea_logic_identity a, ea_magic_number a)
             then refuse ''AUTHORITY_SCOPE_MISMATCH'' else Inr scope)"

text \<open>\<open>fromisoformat\<close> of a date or of a time without an offset.\<close>

definition naive_iso :: "string \<Rightarrow> bool" where
  "naive_iso s \<longleftrightarrow> parse_date s \<noteq> None \<or> parse_date (take 10 s) \<noteq> None \<and> parse_time (drop 11 s) \<noteq> None"

definition adapter_step :: "adapter_env \<Rightarrow> execution_authority \<Rightarrow> dict \<Rightarrow> string \<Rightarrow> ticket_store \<Rightarrow> lifecycle_state checked" where
  "adapter_step env a authorization s st =
     (if dget authorization ''ticket_id'' \<noteq> JStr (ea_ticket_id a) \<or> dget authorization ''state'' \<noteq> JStr s \<or> \<not> truthy (dget authorization ''authorization_id'')
      then refuse ''STEP_AUTHORIZATION_INVALID''
      else checked_bind (raising (trail (ca_rt env) st (ea_ticket_id a))) (\<lambda>tr.
        if lt_reason_code tr \<noteq> None \<or> current tr \<noteq> Some s then refuse ''STEP_AUTHORIZATION_NOT_LATEST''
        else case state_row tr s of
          None \<Rightarrow> refuse ''STEP_AUTHORIZATION_INVALID''
        | Some row \<Rightarrow>
            if lc_authorization_id row \<noteq> dget authorization ''authorization_id'' \<or> lc_authority_id row \<noteq> ea_authority_id a
            then refuse ''STEP_AUTHORIZATION_INVALID''
            else
              let txt = py_str (ca_rt env) (dget (lc_evidence row) ''expires_at_utc'')
              in (case parse_iso txt of
                    None \<Rightarrow> refuse (if naive_iso txt then ''STEP_AUTHORIZATION_EXPIRED'' else ''STEP_AUTHORIZATION_INVALID'')
                  | Some expires \<Rightarrow> if expires \<le> ca_now env then refuse ''STEP_AUTHORIZATION_EXPIRED'' else Inr row)))"

text \<open>\<open>login[-n:]\<close>.\<close>

definition last_chars :: "nat \<Rightarrow> string \<Rightarrow> string" where
  "last_chars n s = (if n = 0 then s else drop (length s - n) s)"

definition live_account :: "adapter_env \<Rightarrow> scope_policy \<Rightarrow> dict \<Rightarrow> dict" where
  "live_account env scope info =
     (let raw = dget info ''login''; login = (if truthy raw then py_str (ca_rt env) raw else [])
      in [(''login_suffix'', if login = [] then JNull else JStr (last_chars (length (account_login_suffix scope)) login)),
          (''server'', dget info ''server''), (''trade_mode'', dget info ''trade_mode''), (''observed_at_utc'', JStr (iso_datetime (ca_now env)))])"

definition demo_account :: "adapter_env \<Rightarrow> execution_authority \<Rightarrow> scope_policy \<Rightarrow> json \<Rightarrow> unit checked" where
  "demo_account env a scope account_mode =
     (if account_mode \<noteq> JStr ''DEMO'' then refuse ''ACCOUNT_MODE_NOT_DEMO''
      else case read_dict (mt_account_info (ca_mt5 env)) of
        None \<Rightarrow> refuse ''ACCOUNT_IDENTITY_UNAVAILABLE''
      | Some info \<Rightarrow>
          if info = [] then refuse ''ACCOUNT_IDENTITY_UNAVAILABLE''
          else checked_bind (raising (validate_live_account (ca_rt env) (live_account env scope info) a scope (Some (ca_now env)))) (\<lambda>reasons.
            unless_reason reasons ()))"

record preflight =
  pf_row :: lifecycle_state
  pf_scope :: scope_policy
  pf_shape :: order_shape

definition preflight_checks ::
  "adapter_env \<Rightarrow> execution_authority \<Rightarrow> dict \<Rightarrow> string \<Rightarrow> json \<Rightarrow> ticket_store \<Rightarrow> preflight checked" where
  "preflight_checks env a authorization s account_mode st =
     (if validate_authority_shape (Some a) \<noteq> []
      then Inl (StopRefused (adapter_refused ''ADAPTER_REFUSED'' [(''reasons'', JList (map JStr (validate_authority_shape (Some a))))]))
      else checked_bind (adapter_step env a authorization s st) (\<lambda>row.
        checked_bind (adapter_scope env a) (\<lambda>scope.
        checked_bind (demo_account env a scope account_mode) (\<lambda>_.
        checked_bind (raising (load_order_shape (ca_shape_file env))) (\<lambda>shape.
          if os_approved shape then Inr \<lparr>pf_row = row, pf_scope = scope, pf_shape = shape\<rparr> else refuse ''ORDER_SHAPE_NOT_APPROVED'')))))"

section \<open>The request\<close>

text \<open>The dictionary of target prices by leg, as the list of its assignments.\<close>

fun target_entries :: "json list \<Rightarrow> (json \<times> json) list res" where
  "target_entries [] = Inr []"
| "target_entries (JDict t # ts) =
     (case dget t ''leg'' of
        JList _ \<Rightarrow> Inl TypeError
      | JDict _ \<Rightarrow> Inl TypeError
      | leg \<Rightarrow> res_bind (target_entries ts) (\<lambda>es. Inr ((leg, dget t ''price'') # es)))"
| "target_entries (_ # ts) = target_entries ts"

definition targets_by_leg :: "json \<Rightarrow> (json \<times> json) list res" where
  "targets_by_leg v =
     (case v of
        JList ts \<Rightarrow> target_entries ts
      | JInt i \<Rightarrow> if i = 0 then Inr [] else Inl TypeError
      | JFloat x \<Rightarrow> if x = 0 then Inr [] else Inl TypeError
      | JBool b \<Rightarrow> if b then Inl TypeError else Inr []
      | _ \<Rightarrow> Inr [])"

text \<open>The last assignment to the leg; an approved shape's leg is 1 or 2.\<close>

definition target_price :: "json \<Rightarrow> (json \<times> json) list \<Rightarrow> json" where
  "target_price leg es =
     (case find (\<lambda>(k, p). \<exists>i \<in> {1, 2}. eq_int leg i \<and> eq_int k i) (rev es) of None \<Rightarrow> JNull | Some (k, p) \<Rightarrow> p)"

definition quote_price :: "adapter_env \<Rightarrow> scope_policy \<Rightarrow> bool \<Rightarrow> rat option" where
  "quote_price env scope is_long =
     (case read_dict (mt_tick (ca_mt5 env) (broker_symbol scope)) of
        None \<Rightarrow> None
      | Some tick \<Rightarrow> number_or_none (dget tick (if is_long then ''ask'' else ''bid'')))"

text \<open>\<open>int(x)\<close> of a float.\<close>

definition trunc :: "rat \<Rightarrow> int" where
  "trunc x = (if 0 \<le> x then \<lfloor>x\<rfloor> else \<lceil>x\<rceil>)"

definition market_deal :: "adapter_env \<Rightarrow> execution_authority \<Rightarrow> scope_policy \<Rightarrow> order_shape \<Rightarrow> rat \<Rightarrow> rat \<Rightarrow> rat \<Rightarrow> rat \<Rightarrow> dict" where
  "market_deal env a scope shape vol price sl target =
     (let c = mt_const (ca_mt5 env); is_long = (ea_direction a = ''LONG'')
      in [(''action'', c ''TRADE_ACTION_DEAL''), (''symbol'', JStr (broker_symbol scope)), (''volume'', JFloat vol),
          (''type'', c (if is_long then ''ORDER_TYPE_BUY'' else ''ORDER_TYPE_SELL'')), (''price'', JFloat price), (''sl'', JFloat sl), (''tp'', JFloat target),
          (''deviation'', JInt (trunc (slippage_limit_points scope))), (''magic'', JInt (magic_number scope)),
          (''comment'', JStr (order_comment (ca_rt env) (ca_text_sha env) (ea_ticket_id a) (os_deviation_tag shape))),
          (''type_time'', c ''ORDER_TIME_GTC''),
          (''type_filling'', c (case os_filling shape of JStr s \<Rightarrow> the (map_of FILLING s) | _ \<Rightarrow> []))])"

definition build_request ::
  "adapter_env \<Rightarrow> execution_authority \<Rightarrow> dict \<Rightarrow> scope_policy \<Rightarrow> order_shape \<Rightarrow> json \<Rightarrow> dict checked" where
  "build_request env a ticket scope shape volume =
     checked_bind (raising (targets_by_leg (dget ticket ''targets''))) (\<lambda>tp.
       let is_long = (ea_direction a = ''LONG'')
       in case quote_price env scope is_long of
            None \<Rightarrow> refuse ''QUOTE_UNAVAILABLE''
          | Some price \<Rightarrow>
              if price \<le> 0 then refuse ''QUOTE_UNAVAILABLE''
              else (case (number_or_none (dget ticket ''stop_loss''), number_or_none (target_price (os_take_profit_leg shape) tp), number_or_none volume) of
                 (Some sl, Some target, Some vol) \<Rightarrow>
                   if vol \<le> 0 \<or> \<not> (if is_long then sl < price \<and> price < target else target < price \<and> price < sl)
                   then refuse ''ORDER_REQUEST_INVALID'' else Inr (market_deal env a scope shape vol price sl target)
               | _ \<Rightarrow> refuse ''ORDER_REQUEST_INVALID''))"

section \<open>Broker steps\<close>

definition reply_of :: "dict checked \<Rightarrow> broker_reply" where
  "reply_of r = (case r of Inl (StopRefused d) \<Rightarrow> BrokerReply (JDict d) | Inl (StopError e) \<Rightarrow> BrokerRaised e | Inr d \<Rightarrow> BrokerReply (JDict d))"

definition order_check :: "adapter_env \<Rightarrow> ticket_store \<Rightarrow> execution_authority \<Rightarrow> dict \<Rightarrow> dict \<Rightarrow> json \<Rightarrow> broker_reply" where
  "order_check env st a authorization ticket account_mode = reply_of (
     checked_bind (preflight_checks env a authorization ''AUTHORIZED'' account_mode st) (\<lambda>pf.
     checked_bind (build_request env a ticket (pf_scope pf) (pf_shape pf) (dget (lc_evidence (pf_row pf)) ''planned_volume'')) (\<lambda>request.
       case mt_order_check (ca_mt5 env) request of
         Inl err \<Rightarrow> Inl (StopRefused (adapter_refused ''BROKER_CALL_RAISED'' [(''error_class'', JStr err)]))
       | Inr v \<Rightarrow>
           (case as_dict v of
              None \<Rightarrow> refuse ''BROKER_RESULT_MISSING''
            | Some result \<Rightarrow> Inr (dupdate (dput ''request'' (JDict request) (ddel ''request'' result)) (shape_fields (pf_shape pf)))))))"

text \<open>The send: the request transmitted, if any, and the reply.\<close>

definition send_checks :: "adapter_env \<Rightarrow> ticket_store \<Rightarrow> execution_authority \<Rightarrow> dict \<Rightarrow> dict \<Rightarrow> json \<Rightarrow> json \<Rightarrow> (dict \<times> order_shape) checked" where
  "send_checks env st a authorization ticket checked_order account_mode =
     checked_bind (preflight_checks env a authorization ''SENT'' account_mode st) (\<lambda>pf.
       case checked_order of
         JDict c \<Rightarrow>
           (case dget c ''request'' of
              JDict request \<Rightarrow>
                if dget (lc_evidence (pf_row pf)) ''checked_order_sha256'' \<noteq> JStr (evidence_digest (ca_rt env) checked_order)
                then refuse ''CHECKED_ORDER_MISMATCH''
                else checked_bind (raising (inspect st (ea_ticket_id a))) (\<lambda>claim.
                  if ledger_prior claim \<noteq> Some SENDING \<or> ledger_reason claim \<noteq> ''HALT_UNCERTAIN_SEND'' then refuse ''SEND_CLAIM_MISSING''
                  else checked_bind (if per_order_confirm_required (pf_scope pf)
                                     then raising (validate_confirmation_evidence (ca_rt env) st a ticket (Some (ca_now_confirm env)) True) else Inr [])
                    (\<lambda>reasons. unless_reason reasons (request, pf_shape pf)))
            | _ \<Rightarrow> refuse ''CHECKED_ORDER_MISMATCH'')
       | _ \<Rightarrow> refuse ''CHECKED_ORDER_MISMATCH'')"

definition unknown_outcome :: "string \<Rightarrow> dict \<Rightarrow> order_shape \<Rightarrow> dict" where
  "unknown_outcome reason details shape =
     dupdate ([(''unknown_outcome'', JBool True), (''reason_code'', JStr reason)] @ details) (shape_fields shape)"

definition order_send ::
  "adapter_env \<Rightarrow> ticket_store \<Rightarrow> execution_authority \<Rightarrow> dict \<Rightarrow> dict \<Rightarrow> json \<Rightarrow> json \<Rightarrow> dict option \<times> broker_reply" where
  "order_send env st a authorization ticket checked_order account_mode =
     (case send_checks env st a authorization ticket checked_order account_mode of
        Inl s \<Rightarrow> (None, reply_of (Inl s))
      | Inr (request, shape) \<Rightarrow>
          (Some request, BrokerReply (JDict (
             case mt_order_send (ca_mt5 env) request of
               Inl err \<Rightarrow> unknown_outcome ''BROKER_CALL_RAISED'' [(''error_class'', JStr err)] shape
             | Inr v \<Rightarrow>
                 (case as_dict v of
                    None \<Rightarrow> unknown_outcome ''BROKER_RESULT_MISSING'' [] shape
                  | Some result \<Rightarrow> dupdate (ddel ''request'' result) (shape_fields shape))))))"

definition canonical_broker :: "adapter_env \<Rightarrow> adapter_env \<Rightarrow> broker" where
  "canonical_broker at_check at_send = \<lparr>br_check_order = order_check at_check, br_send_order = order_send at_send\<rparr>"

text \<open>The read-only reconciliation by order id.\<close>

definition sent_order_id :: "json \<Rightarrow> int option" where
  "sent_order_id send_result =
     (case send_result of
        JDict r \<Rightarrow>
          (case List.find (\<lambda>k. case dget r k of JInt i \<Rightarrow> 0 < i | _ \<Rightarrow> False) [''broker_order_id'', ''order_id'', ''order''] of
             None \<Rightarrow> None
           | Some k \<Rightarrow> (case dget r k of JInt i \<Rightarrow> Some i | _ \<Rightarrow> None))
      | _ \<Rightarrow> None)"

definition unknown_reconciliation :: dict where
  "unknown_reconciliation = [(''reconciled'', JBool False), (''terminal_result'', JStr ''UNKNOWN'')]"

definition deal_is_mine :: "int \<Rightarrow> string \<Rightarrow> json \<Rightarrow> bool" where
  "deal_is_mine magic comment v =
     (case v of JDict d \<Rightarrow> d \<noteq> [] \<and> eq_int (dget d ''magic'') magic \<and> dget d ''comment'' = JStr comment | _ \<Rightarrow> False)"

definition broker_reconcile :: "adapter_env \<Rightarrow> execution_authority \<Rightarrow> string \<Rightarrow> json \<Rightarrow> dict res" where
  "broker_reconcile env a tid send_result =
     res_bind (load_order_shape (ca_shape_file env)) (\<lambda>shape.
       let comment = order_comment (ca_rt env) (ca_text_sha env) tid (os_deviation_tag shape)
       in case sent_order_id send_result of
            None \<Rightarrow> Inr unknown_reconciliation
          | Some oid \<Rightarrow>
              let deals = (case mt_deals_of_order (ca_mt5 env) oid of Inr (Some ds) \<Rightarrow> ds | _ \<Rightarrow> [])
              in (case List.find (deal_is_mine (ea_magic_number a) comment) deals of
                    Some (JDict deal) \<Rightarrow> Inr
                      [(''reconciled'', JBool True), (''terminal_result'', JStr ''FILLED''), (''broker_deal_id'', dget deal ''ticket''),
                       (''broker_order_id'', dget deal ''order''), (''broker_position_id'', dget deal ''position_id''), (''volume'', dget deal ''volume''),
                       (''price'', dget deal ''price'')]
                  | _ \<Rightarrow> Inr unknown_reconciliation))"

end
