(* ===== verification/Guard_Safety.thy ===== *)
theory Guard_Safety
  imports Guard
begin

text \<open>
  What the guarded calls of Guard can write, what an authorized send requires, and that a ticket is
  authorized to be sent at most once.
\<close>

section \<open>Lemmas: what a call writes\<close>

abbreviation built_steps :: "py_rt \<Rightarrow> ticket_store \<Rightarrow> ticket_store \<Rightarrow> bool" where
  "built_steps rt \<equiv> rtranclp (built_step rt)"

lemma built_steps_claimed: "built_steps rt st st' \<Longrightarrow> claimed st tid \<Longrightarrow> claimed st' tid"
  by (induction rule: rtranclp_induct) (auto intro: built_step_claimed)

lemma built_steps_sealed: "built_steps rt st st' \<Longrightarrow> sealed_store rt st \<Longrightarrow> sealed_store rt st'"
  by (induction rule: rtranclp_induct) (auto intro: built_step_sealed)

lemma dget_dupdate: "dget (dupdate d kvs) k = (case map_of (rev kvs) k of None \<Rightarrow> dget d k | Some v \<Rightarrow> v)"
  by (induction kvs arbitrary: d) (auto simp: dupdate_def split: option.split)

lemma wf_dupdate: "wf_dict d \<Longrightarrow> wf_dict (dupdate d kvs)"
  by (induction kvs arbitrary: d) (auto simp: dupdate_def wf_dput)

lemma emit_store [simp]: "gs_store (emit_event sink e gs) = gs_store gs"
  by (simp add: emit_event_def)

lemma fold_emit_store [simp]: "gs_store (fold (emit_event sink) es gs) = gs_store gs"
  by (induction es arbitrary: gs) simp_all

lemma lifecycle_append_built: "lifecycle_append rt io tid s a st = (st', r) \<Longrightarrow> built_step rt st st'"
  by (erule lifecycle_append_cases) (auto simp: admitted_def intro: writtenI)

lemma reserve_built: "reserve_before_send rt io tid a b c now st = (st', r) \<Longrightarrow> built_step rt st st'"
  using reserve_written [THEN built_stepI, of rt st io tid a b c now] by simp

lemma unknown_built: "record_unknown rt io tid x now st = (st', r) \<Longrightarrow> built_step rt st st'"
  using unknown_written [THEN built_stepI, of rt st io tid x now] by simp

lemma reconciled_built: "record_reconciled rt io tid x now st = (st', r) \<Longrightarrow> built_step rt st st'"
  using reconciled_written [THEN built_stepI, of rt st io tid x now] by simp

lemma gates_written:
  assumes "evaluate_pre_send_gates env io ticket market snapshot now_utc auth_path scope (Some st) = (store', r)"
  shows "\<exists>st'. store' = Some st' \<and> written (ge_rt env) (kind_is OWNER_CONFIRMATION_USED_KIND) st st'"
proof -
  let ?w = "written (ge_rt env) (kind_is OWNER_CONFIRMATION_USED_KIND) st"
  have c: "\<exists>st'. s' = Some st' \<and> ?w st'"
    if "confirmation_gate (ge_rt env) io policy ticket now_utc clean (Some st) = (s', x)" for policy clean s' x
    using that consume_written [of "ge_rt env" io ticket now_utc _ st]
    by (auto simp: confirmation_gate_def split: if_splits prod.splits sum.splits) (metis fst_conv)+
  have "\<exists>st'. s' = Some st' \<and> ?w st'"
    if "run_gates env io ticket market snapshot now_utc auth_path policy (Some st) = (s', x)" for policy s' x
    using that by (auto simp: run_gates_def Let_def dest!: c split: prod.splits sum.splits)
  then show ?thesis using assms by (auto simp: evaluate_pre_send_gates_def split: sum.splits if_splits)
qed

lemma gates_built:
  "evaluate_pre_send_gates env io ticket market snapshot now_utc auth_path scope (Some st) = (store', r) \<Longrightarrow> \<exists>st'. store' = Some st' \<and> built_step (ge_rt env) st st'"
  using gates_written built_stepI by blast

lemma gates_step_built: "gates_step env a scope ticket market snapshot now_utc ok st = (st', r) \<Longrightarrow> built_step (gv_rt env) st st'"
  by (auto simp: gates_step_def Let_def dest: gates_built split: bool.splits option.splits prod.splits sum.splits)

lemma pre_trade_built:
  assumes "revalidate_pre_trade env a scope ticket market snapshot now_utc g c details st = (st', r)"
  shows "built_step (gv_rt env) st st'"
proof -
  have "built_step (gv_rt env) st s"
    if "(if g then gates_step env a scope ticket market snapshot now_utc ok st else (st, Inr ([], []))) = (s, x)" for ok s x
    using that gates_step_built by (auto split: if_splits)
  then show ?thesis using assms unfolding revalidate_pre_trade_def
    by (auto split: sum.splits prod.splits simp del: if_split)
qed

lemma finish_append_built:
  "finish_append env io tid s args st f g es gs = (gs', r) \<Longrightarrow> built_step (gv_rt env) st (gs_store gs')"
  by (auto simp: finish_append_def dest: lifecycle_append_built split: prod.splits sum.splits if_splits)

lemma halt_claim_built: "halt_claim env tid reason now_utc st = (st', r) \<Longrightarrow> built_step (gv_rt env) st st'"
  by (auto simp: halt_claim_def dest: unknown_built split: sum.splits if_splits prod.splits)

lemma settle_claim_built: "settle_claim env tid x now_utc st = (st', r) \<Longrightarrow> built_step (gv_rt env) st st'"
  by (auto simp: settle_claim_def dest: reconciled_built split: sum.splits if_splits prod.splits)

lemmas call_writes = lifecycle_append_built reserve_built pre_trade_built finish_append_built halt_claim_built settle_claim_built

lemma check_call_built: "authorize_order_check env authority ticket market snapshot now_utc gs = (gs', r) \<Longrightarrow> built_steps (gv_rt env) (gs_store gs) (gs_store gs')"
  by (auto simp: authorize_order_check_def Let_def dest!: call_writes
      intro: rtranclp.rtrancl_into_rtrancl r_into_rtranclp split: sum.splits option.splits prod.splits if_splits)

lemma checked_call_built: "record_order_checked env authority ticket c now_utc aid gs = (gs', r) \<Longrightarrow> built_steps (gv_rt env) (gs_store gs) (gs_store gs')"
  by (auto simp: record_order_checked_def Let_def dest!: call_writes
      intro: rtranclp.rtrancl_into_rtrancl r_into_rtranclp split: sum.splits option.splits prod.splits if_splits)

lemma halt_call_built: "halt env authority tid reason now_utc gs = (gs', r) \<Longrightarrow> built_steps (gv_rt env) (gs_store gs) (gs_store gs')"
  by (auto simp: halt_def Let_def dest!: call_writes intro: rtranclp.rtrancl_into_rtrancl r_into_rtranclp
      split: sum.splits option.splits prod.splits if_splits json.splits)

lemma ack_call_built: "record_broker_ack env authority x now_utc aid gs = (gs', r) \<Longrightarrow> built_steps (gv_rt env) (gs_store gs) (gs_store gs')"
  by (auto simp: record_broker_ack_def Let_def dest!: call_writes halt_call_built
      intro: rtranclp.rtrancl_into_rtrancl r_into_rtranclp split: sum.splits option.splits prod.splits if_splits)

lemma post_call_built:
  "post_trade_transition env authority s now_utc ph m x y z gs = (gs', r) \<Longrightarrow> built_steps (gv_rt env) (gs_store gs) (gs_store gs')"
  by (auto simp: post_trade_transition_def Let_def dest!: call_writes
      intro: rtranclp.rtrancl_into_rtrancl r_into_rtranclp split: sum.splits option.splits prod.splits if_splits)

lemma reconcile_call_built: "reconcile env authority x now_utc gs = (gs', r) \<Longrightarrow> built_steps (gv_rt env) (gs_store gs) (gs_store gs')"
  by (auto simp: reconcile_def Let_def dest!: call_writes
      intro: rtranclp.rtrancl_into_rtrancl r_into_rtranclp split: sum.splits option.splits prod.splits if_splits)

text \<open>The send call in two parts: the checks, which do not touch the claim, and the claim with the SENT row.\<close>

lemma pre_trade_reads_only: "fst (revalidate_pre_trade env a scope ticket market snapshot now_utc False c details st) = st"
  by (auto simp: revalidate_pre_trade_def split: sum.split)

lemma gd_refused_not [simp]: "gd_admitted (gd_refused rs d t s) = False"
  by (simp add: gd_refused_def Let_def)

lemma gd_granted_simps [simp]: "gd_admitted (gd_granted rs s t i d) = True" "gd_ticket_id (gd_granted rs s t i d) = Some t"
  by (simp_all add: gd_granted_def)

lemma send_call_cases:
  assumes "authorize_order_send env authority ticket checked_order now_utc auth_id gs = (gs', r)"
  obtains (refuses) "gs' = gs" "\<And>d. r = Inr d \<Longrightarrow> \<not> gd_admitted d"
  | (claims) a scope tr d0 claim pd rd st2 ck where
      "authority = Some a" "revalidate_identity env authority (Some ticket) now_utc ''ORDER_SEND'' True False (gs_store gs) = Inr ([], d0, Some scope, tr)"
      "checked_row_reasons (gv_rt env) scope now_utc auth_id checked_order (state_row tr ''CHECKED'') = []"
      "inspect (gs_store gs) (ea_ticket_id a) = Inr claim" "available claim"
      "emergency_reason (gv_rt env) (gs_store gs) = Inr []" "check_signal_freshness_at_send ticket scope now_utc = Inr None"
      "revalidate_pre_trade env a scope ticket None None now_utc False True (dupdate d0 (claim_details claim)) (gs_store gs) = (gs_store gs, Inr ([], pd))"
      "send_risk_step env scope ticket now_utc = Inr ([], rd)"
      "reserve_before_send (gv_rt env) (gv_io1 env) (ea_ticket_id a) (strategy_id scope) (sp_symbol scope) (logic_identity scope) now_utc (gs_store gs) = (st2, ck)"
      "built_step (gv_rt env) st2 (gs_store gs')"
      "\<And>d. r = Inr d \<Longrightarrow> gd_admitted d \<Longrightarrow> gd_ticket_id d = Some (ea_ticket_id a) \<and> (\<exists>k. ck = Inr k \<and> available k)"
proof (cases "gs' = gs \<and> (\<forall>d. r = Inr d \<longrightarrow> \<not> gd_admitted d)")
  case True
  then show thesis using refuses by blast
next
  case False
  let ?st = "gs_store gs" and ?rt = "gv_rt env"
  let ?id = "revalidate_identity env authority (Some ticket) now_utc ''ORDER_SEND'' True False ?st"
  obtain reasons d0 so tr where i0: "?id = Inr (reasons, d0, so, tr)"
    using False assms by (cases ?id) (auto simp: authorize_order_send_def)
  obtain scope where so: "so = Some scope" using False assms i0 by (cases so) (auto simp: authorize_order_send_def)
  let ?a = "the authority"
  note u1 = assms [unfolded authorize_order_send_def Let_def i0 so sum.case prod.case option.case]
  obtain claim where c: "inspect ?st (ea_ticket_id ?a) = Inr claim" using False u1 by (cases "inspect ?st (ea_ticket_id ?a)") auto
  obtain stop where e: "emergency_reason ?rt ?st = Inr stop" using False u1 c by (cases "emergency_reason ?rt ?st") auto
  obtain stale where f: "check_signal_freshness_at_send ticket scope now_utc = Inr stale"
    using False u1 c e by (cases "check_signal_freshness_at_send ticket scope now_utc") auto
  note u2 = u1 [unfolded c e f sum.case]
  have nil: "reasons @ checked_row_reasons ?rt scope now_utc auth_id checked_order (state_row tr ''CHECKED'') @ claim_reasons claim @ stop @ reason_list stale = []"
  proof (rule ccontr)
    assume "\<not> ?thesis"
    then have "gs' = gs \<and> (\<exists>x y z. r = Inr (gd_refused x y z (current tr)))" using u2 by (simp only: if_True not_not refl) auto
    with False show False by auto
  qed
  note u3 = u2 [unfolded nil, simplified]
  obtain pr where p: "revalidate_pre_trade env ?a scope ticket None None now_utc False True (dupdate d0 (claim_details claim)) ?st = (?st, pr)"
    using pre_trade_reads_only [of env ?a scope ticket None None now_utc True "dupdate d0 (claim_details claim)" ?st] by (metis prod.collapse)
  note u4 = u3 [unfolded p prod.case]
  have gss: "gs\<lparr>gs_store := ?st\<rparr> = gs" by simp
  obtain pt pd where p': "pr = Inr (pt, pd)" using False u4 gss by (cases pr) auto
  obtain rt rd where k: "send_risk_step env scope ticket now_utc = Inr (rt, rd)"
    using False u4 p' gss by (cases "send_risk_step env scope ticket now_utc") auto
  have nil2: "pt @ rt = []"
    using False u4 [unfolded p' k sum.case prod.case] gss by (auto split: if_splits)
  note u5 = u4 [unfolded p' k sum.case prod.case nil2, simplified]
  obtain st2 ck where r: "reserve_before_send ?rt (gv_io1 env) (ea_ticket_id ?a) (strategy_id scope) (sp_symbol scope) (logic_identity scope) now_utc ?st = (st2, ck)"
    by fastforce
  note u6 = u5 [unfolded r prod.case]
  have w: "built_step ?rt st2 (gs_store gs')"
    using u6 by (auto dest: finish_append_built split: sum.splits if_splits)
  have g: "gd_ticket_id d = Some (ea_ticket_id ?a) \<and> (\<exists>k. ck = Inr k \<and> available k)" if "r = Inr d" "gd_admitted d" for d
    using u6 that by (auto simp: finish_append_def gd_granted_def split: sum.splits if_splits prod.splits)
  obtain a where a: "authority = Some a" using i0 so by (cases authority) (auto simp: revalidate_identity_def validate_authority_shape_def)
  show thesis
    by (rule claims [of a d0 scope tr claim pd rd st2 ck])
       (use a i0 so nil c e f p p' k nil2 r w g in \<open>auto simp: claim_reasons_def reason_list_def split: if_splits option.splits\<close>)
qed

lemma send_call_built:
  "authorize_order_send env authority ticket c now_utc aid gs = (gs', r) \<Longrightarrow> built_steps (gv_rt env) (gs_store gs) (gs_store gs')"
  by (erule send_call_cases) (auto dest!: reserve_built intro: rtranclp.rtrancl_into_rtrancl)

section \<open>Histories of guarded calls\<close>

text \<open>Every guarded call, with the environment it meets, and every other writer of the store.\<close>

datatype guard_call =
    GCheck guard_env "execution_authority option" dict "market_evidence option" "risk_snapshot option" "datetime option"
  | GChecked guard_env "execution_authority option" dict json "datetime option" json
  | GSend guard_env "execution_authority option" dict json "datetime option" json
  | GAck guard_env "execution_authority option" json "datetime option" json
  | GTracked guard_env "execution_authority option" json "datetime option"
  | GClosed guard_env "execution_authority option" json json "datetime option"
  | GReconcile guard_env "execution_authority option" json "datetime option"
  | GHalt guard_env "execution_authority option" string json "datetime option"
  | GOther py_rt confirm_call

fun call_rt :: "guard_call \<Rightarrow> py_rt" where
  "call_rt (GCheck env _ _ _ _ _) = gv_rt env" | "call_rt (GChecked env _ _ _ _ _) = gv_rt env" | "call_rt (GSend env _ _ _ _ _) = gv_rt env"
| "call_rt (GAck env _ _ _ _) = gv_rt env" | "call_rt (GTracked env _ _ _) = gv_rt env" | "call_rt (GClosed env _ _ _ _) = gv_rt env"
| "call_rt (GReconcile env _ _ _) = gv_rt env" | "call_rt (GHalt env _ _ _ _) = gv_rt env" | "call_rt (GOther rt _) = rt"

fun guard_step :: "guard_call \<Rightarrow> guard_state \<Rightarrow> guard_state" where
  "guard_step (GCheck env a t m s now) gs = fst (authorize_order_check env a t m s now gs)"
| "guard_step (GChecked env a t c now i) gs = fst (record_order_checked env a t c now i gs)"
| "guard_step (GSend env a t c now i) gs = fst (authorize_order_send env a t c now i gs)"
| "guard_step (GAck env a x now i) gs = fst (record_broker_ack env a x now i gs)"
| "guard_step (GTracked env a p now) gs = fst (record_position_tracked env a p now gs)"
| "guard_step (GClosed env a d x now) gs = fst (record_position_closed env a d x now gs)"
| "guard_step (GReconcile env a x now) gs = fst (reconcile env a x now gs)"
| "guard_step (GHalt env a tid x now) gs = fst (halt env a tid x now gs)"
| "guard_step (GOther rt c) gs = gs\<lparr>gs_store := confirm_step rt c (gs_store gs)\<rparr>"

text \<open>The call authorizes the send of a ticket.\<close>

fun sends :: "string \<Rightarrow> guard_call \<Rightarrow> guard_state \<Rightarrow> bool" where
  "sends tid (GSend env a t c now i) gs =
     (case snd (authorize_order_send env a t c now i gs) of
        Inr d \<Rightarrow> gd_admitted d \<and> gd_ticket_id d = Some tid
      | Inl _ \<Rightarrow> False)"
| "sends tid _ gs = False"

lemma guard_step_built: "built_steps (call_rt c) (gs_store gs) (gs_store (guard_step c gs))"
proof (cases c)
  case (GOther rt k)
  then show ?thesis using confirm_step_built [of rt "gs_store gs" k] by auto
qed (auto simp: record_position_tracked_def record_position_closed_def intro: prod.collapse [symmetric]
      check_call_built checked_call_built send_call_built ack_call_built post_call_built reconcile_call_built halt_call_built)

lemma sends_claims:
  assumes "sends tid c gs" "inj (sha (call_rt c))" "sealed_store (call_rt c) (gs_store gs)"
  shows "\<not> claimed (gs_store gs) tid" "claimed (gs_store (guard_step c gs)) tid"
proof -
  from assms(1) obtain env au t ck now i where c: "c = GSend env au t ck now i" by (cases c) auto
  obtain gs' d where r: "authorize_order_send env au t ck now i gs = (gs', Inr d)" "gd_admitted d" "gd_ticket_id d = Some tid"
    using assms(1) c by (cases "authorize_order_send env au t ck now i gs") (auto split: sum.splits)
  from r(1) have "\<not> claimed (gs_store gs) tid \<and> claimed (gs_store gs') tid"
  proof (cases rule: send_call_cases)
    case refuses
    with r(2) show ?thesis by blast
  next
    case (claims a scope tr d0 claim pd rd st2 k)
    from claims(12) r(2,3) obtain q where q: "k = Inr q" "available q" "ea_ticket_id a = tid" by auto
    have "\<not> claimed (gs_store gs) tid" "claimed st2 tid"
      using reserve_granted(1,2) [of "gv_rt env"] assms(2,3) c claims(10) q by auto
    then show ?thesis using built_step_claimed [OF claims(11)] by blast
  qed
  then show "\<not> claimed (gs_store gs) tid" "claimed (gs_store (guard_step c gs)) tid" by (simp_all add: c r(1))
qed

text \<open>The permission to send is a single-use token of the guard, under one digest.\<close>

definition guard_inv :: "py_rt \<Rightarrow> guard_state \<Rightarrow> bool" where
  "guard_inv rt gs \<longleftrightarrow> inj (sha rt) \<and> sealed_store rt (gs_store gs)"

definition step_under :: "py_rt \<Rightarrow> guard_call \<Rightarrow> guard_state \<Rightarrow> guard_state" where
  "step_under rt c gs = (if call_rt c = rt then guard_step c gs else gs)"

definition sends_under :: "py_rt \<Rightarrow> string \<Rightarrow> guard_call \<Rightarrow> guard_state \<Rightarrow> bool" where
  "sends_under rt tid c gs \<longleftrightarrow> call_rt c = rt \<and> sends tid c gs"

interpretation sending: one_shot "guard_inv rt" "step_under rt" "sends_under rt" "\<lambda>gs. claimed (gs_store gs)" for rt
proof unfold_locales
  fix gs c tid assume i: "guard_inv rt gs"
  show "guard_inv rt (step_under rt c gs)"
    using i built_steps_sealed [OF guard_step_built [of c gs]] by (auto simp: guard_inv_def step_under_def)
  show "claimed (gs_store gs) tid \<Longrightarrow> claimed (gs_store (step_under rt c gs)) tid"
    using built_steps_claimed [OF guard_step_built [of c gs]] by (simp add: step_under_def)
  show "sends_under rt tid c gs \<Longrightarrow> \<not> claimed (gs_store gs) tid" "sends_under rt tid c gs \<Longrightarrow> claimed (gs_store (step_under rt c gs)) tid"
    using sends_claims i by (auto simp: sends_under_def step_under_def guard_inv_def)
qed

lemma count_under:
  "\<forall>c \<in> set calls. call_rt c = rt \<Longrightarrow> count_calls (sends_under rt tid) (step_under rt) calls gs = count_calls (sends tid) guard_step calls gs"
  by (induction calls arbitrary: gs) (simp_all add: sends_under_def step_under_def)

text \<open>What the parts of a re-validation without a reason establish.\<close>

lemma identity_clean:
  assumes "revalidate_identity env (Some a) (Some ticket) now_utc phase rt_ev False st = Inr ([], d, Some scope, tr)"
  shows "load_guard_scope env a = Inr scope" "enabled scope" "validate_authority_binding (gv_rt env) a scope (Some ticket) now_utc = []"
    "trail (gv_rt env) st (ea_ticket_id a) = Inr tr" "lt_reason_code tr = None" "current tr \<noteq> Some HALT" "current tr \<noteq> Some ''RECONCILED''"
    "\<forall>row \<in> set (lt_states tr). lc_authority_id row \<noteq> ea_authority_id a"
proof -
  have s: "validate_authority_shape (Some a) = []" using assms by (cases "validate_authority_shape (Some a)") (auto simp: revalidate_identity_def)
  note u = assms [unfolded revalidate_identity_def s list.case Let_def option.sel]
  show l: "load_guard_scope env a = Inr scope" "trail (gv_rt env) st (ea_ticket_id a) = Inr tr"
    "enabled scope" "validate_authority_binding (gv_rt env) a scope (Some ticket) now_utc = []"
    using u by (auto split: sum.splits if_splits)
  have t: "trail_reasons a rt_ev False tr = []" using u l by (auto split: if_splits)
  show rc: "lt_reason_code tr = None" using t by (cases "lt_reason_code tr") (auto simp: trail_reasons_def)
  show "current tr \<noteq> Some HALT" "current tr \<noteq> Some ''RECONCILED''" "\<forall>row \<in> set (lt_states tr). lc_authority_id row \<noteq> ea_authority_id a"
    using t rc by (auto simp: trail_reasons_def list_ex_iff split: if_splits)
qed

lemma binding_ticket: "validate_authority_binding rt a scope (Some ticket) now_utc = [] \<Longrightarrow> \<not> ticket_mismatch rt a ticket"
  by (auto simp: validate_authority_binding_def split: if_splits)

lemma live_account_clean:
  assumes "validate_live_account rt live a scope now_utc = Inr []"
  shows "dget live ''login_suffix'' = JStr (account_login_suffix scope)" "dget live ''server'' = JStr (broker_server scope)"
    "live_mode rt live = Inr (Some ''DEMO'')"
proof -
  obtain mode where lm: "live_mode rt live = Inr mode" using assms by (auto simp: validate_live_account_def res_bind_Inr_iff)
  have cm: "check_account_mode (opt_str mode) = None"
    using assms lm by (cases "check_account_mode (opt_str mode)") (auto simp: validate_live_account_def res_bind_Inr_iff)
  show "live_mode rt live = Inr (Some ''DEMO'')"
    using lm cm by (cases mode) (auto simp: check_account_mode_def opt_str_def split: if_splits)
  show "dget live ''login_suffix'' = JStr (account_login_suffix scope)"
    using assms by (cases "dget live ''login_suffix''") (auto simp: validate_live_account_def res_bind_Inr_iff split: if_splits)
  show "dget live ''server'' = JStr (broker_server scope)"
    using assms by (cases "dget live ''server''") (auto simp: validate_live_account_def res_bind_Inr_iff split: if_splits)
qed

lemma account_clean:
  assumes "account_step env a scope now_utc = Inr ([], d)"
  shows "\<exists>live. gv_account env = Some (JDict live) \<and> dget live ''login_suffix'' = JStr (account_login_suffix scope) \<and>
    dget live ''server'' = JStr (broker_server scope) \<and> live_mode (gv_rt env) live = Inr (Some ''DEMO'')"
proof -
  obtain live where l: "gv_account env = Some (JDict live)"
    using assms by (cases "gv_account env"; cases "the (gv_account env)") (auto simp: account_step_def)
  have "validate_live_account (gv_rt env) live a scope now_utc = Inr []" using assms l by (auto simp: account_step_def res_bind_Inr_iff)
  with l live_account_clean show ?thesis by blast
qed

lemma confirmation_consumed:
  assumes "validate_confirmation_evidence rt st a ticket now_utc True = Inr []"
  shows "\<exists>cid ids. ea_owner_confirmation_id a = Some cid \<and> consumed_confirmation_ids rt st (ea_ticket_id a) = Inr ids \<and> cid \<in> set ids"
proof -
  obtain cid where c: "ea_owner_confirmation_id a = Some cid"
    using assms by (cases "ea_owner_confirmation_id a") (auto simp: validate_confirmation_evidence_def)
  let ?k = "check_and_consume_owner_confirmation rt Appended ticket now_utc False (Some st)"
  obtain k where k: "snd ?k = Inr k" using assms c by (cases "snd ?k") (auto simp: validate_confirmation_evidence_def split: if_splits)
  have ne: "oc_allowed k \<or> oc_reason_codes k \<noteq> []"
    using check_answers [of rt Appended ticket now_utc False "Some st" "fst ?k" k] k by (auto simp: failure_def prod_eq_iff)
  then show ?thesis using assms c k by (auto simp: validate_confirmation_evidence_def split: if_splits sum.splits)
qed

lemma confirmation_clean:
  assumes "confirmation_step env a scope ticket now_utc True st = Inr ([], d)" "per_order_confirm_required scope"
  shows "\<exists>cid ids. ea_owner_confirmation_id a = Some cid \<and> consumed_confirmation_ids (gv_rt env) st (ea_ticket_id a) = Inr ids \<and> cid \<in> set ids"
  using assms confirmation_consumed by (auto simp: confirmation_step_def res_bind_Inr_iff)

lemma standing_clean:
  assumes "standing_step env a scope ticket now_utc = Inr ([], d)"
  shows "\<exists>au. load_standing_authorization (auth_file_of (gv_gate env) scope (Some (ea_authorization_path a))) scope ticket now_utc = Inr au \<and>
    authorized au \<and> decision_id au = Some (ea_authorization_decision_id a)"
  using assms by (auto simp: standing_step_def res_bind_Inr_iff split: if_splits)

lemma pre_trade_clean:
  assumes "revalidate_pre_trade env a scope ticket None None now_utc False c details st = (st', Inr ([], d))"
  shows "notification_gate (gv_rt env) (notification_failure_policy scope) (Some st) ticket now_utc = Inr None"
    "\<exists>x. account_step env a scope now_utc = Inr ([], x)" "\<exists>x. confirmation_step env a scope ticket now_utc c st = Inr ([], x)"
    "\<exists>x. standing_step env a scope ticket now_utc = Inr ([], x)"
  using assms by (auto simp: revalidate_pre_trade_def reason_list_def split: sum.splits option.splits)

lemma checked_row_clean:
  assumes "checked_row_reasons rt scope now_utc auth_id checked_order row = []"
  shows "\<exists>p. row = Some p \<and> lc_authorization_id p \<noteq> JNull \<and> \<not> expired (lc_recorded_at_utc p) scope now_utc \<and>
    dget (lc_evidence p) ''checked_order_sha256'' = JStr (evidence_digest rt checked_order)"
  using assms by (cases row; cases checked_order) (auto simp: checked_row_reasons_def split: if_splits)

section \<open>Properties\<close>

text \<open>C6: In every history of guarded calls, confirmations, emergency stops and other
  writes, in any order and with any failures of the writes, under any configuration, account and broker
  answers, the send of a ticket is authorized at most once, and never when its claim is already stored.
  The seal digest is assumed free of collisions.\<close>

theorem guard_sends_once:
  assumes "inj (sha rt)" "sealed_store rt (gs_store gs)" "\<forall>c \<in> set calls. call_rt c = rt"
  shows "count_calls (sends tid) guard_step calls gs \<le> (if claimed (gs_store gs) tid then 0 else 1)"
  using sending.count_bound [of rt gs tid calls] assms by (simp add: guard_inv_def count_under)

text \<open>C4: A send is authorized only when, at that moment, the scope loaded from the
  committed configuration is enabled and the ticket matches the authority; the ticket's trail is trusted,
  neither halted nor reconciled, and holds an unexpired check of exactly this order; no stop is engaged; the
  signal is fresh; the account read live is the pinned DEMO account; the standing authorization with the
  named decision still holds; the notice is delivered; the named owner confirmation, where required, is
  consumed; and the risk caps allow the order on a snapshot built now.\<close>

theorem guard_send_requires:
  assumes "authorize_order_send env authority ticket checked_order now_utc auth_id gs = (gs', Inr dec)" "gd_admitted dec"
  shows "\<exists>a scope tr row ss live au snap caps. authority = Some a \<and> gd_ticket_id dec = Some (ea_ticket_id a) \<and>
    load_guard_scope env a = Inr scope \<and> enabled scope \<and> \<not> ticket_mismatch (gv_rt env) a ticket \<and>
    trail (gv_rt env) (gs_store gs) (ea_ticket_id a) = Inr tr \<and> lt_reason_code tr = None \<and> current tr \<notin> {Some HALT, Some ''RECONCILED''} \<and>
    state_row tr ''CHECKED'' = Some row \<and> \<not> expired (lc_recorded_at_utc row) scope now_utc \<and>
    dget (lc_evidence row) ''checked_order_sha256'' = JStr (evidence_digest (gv_rt env) checked_order) \<and>
    status (gv_rt env) (gs_store gs) = Inr ss \<and> \<not> engaged ss \<and> check_signal_freshness_at_send ticket scope now_utc = Inr None \<and>
    gv_account env = Some (JDict live) \<and> dget live ''login_suffix'' = JStr (account_login_suffix scope) \<and>
    dget live ''server'' = JStr (broker_server scope) \<and> live_mode (gv_rt env) live = Inr (Some ''DEMO'') \<and>
    load_standing_authorization (auth_file_of (gv_gate env) scope (Some (ea_authorization_path a))) scope ticket now_utc = Inr au \<and>
    authorized au \<and> decision_id au = Some (ea_authorization_decision_id a) \<and>
    notification_gate (gv_rt env) (notification_failure_policy scope) (Some (gs_store gs)) ticket now_utc = Inr None \<and>
    (if per_order_confirm_required scope
     then \<exists>cid ids. ea_owner_confirmation_id a = Some cid \<and>
            consumed_confirmation_ids (gv_rt env) (gs_store gs) (ea_ticket_id a) = Inr ids \<and> cid \<in> set ids else True) \<and>
    gv_risk env scope = Some snap \<and> evaluate_risk_caps ticket scope (Some snap) now_utc = Inr caps \<and> ra_allowed caps"
  using assms(1)
proof (cases rule: send_call_cases)
  case refuses
  then show ?thesis using assms(2) by blast
next
  case (claims a scope tr d0 claim pd rd st2 ck)
  note i = identity_clean [OF claims(2) [unfolded claims(1)]] and p = pre_trade_clean [OF claims(8)]
  note row = checked_row_clean [OF claims(3)] and b = binding_ticket [OF i(3)]
  obtain ss where ss: "status (gv_rt env) (gs_store gs) = Inr ss" "\<not> engaged ss"
    using claims(6) by (auto simp: emergency_reason_def res_bind_Inr_iff split: if_splits)
  obtain snap caps where risk: "gv_risk env scope = Some snap" "evaluate_risk_caps ticket scope (Some snap) now_utc = Inr caps" "ra_allowed caps"
    using claims(9) by (auto simp: send_risk_step_def res_bind_Inr_iff split: option.splits if_splits)
  have cf: "if per_order_confirm_required scope
     then \<exists>cid ids. ea_owner_confirmation_id a = Some cid \<and>
            consumed_confirmation_ids (gv_rt env) (gs_store gs) (ea_ticket_id a) = Inr ids \<and> cid \<in> set ids else True"
    using p(3) confirmation_clean by fastforce
  have g: "gd_ticket_id dec = Some (ea_ticket_id a)" using claims(12) assms(2) by blast
  from p(2) account_clean obtain live where lv: "gv_account env = Some (JDict live)" "dget live ''login_suffix'' = JStr (account_login_suffix scope)"
    "dget live ''server'' = JStr (broker_server scope)" "live_mode (gv_rt env) live = Inr (Some ''DEMO'')" by blast
  from p(4) standing_clean obtain au where au: "load_standing_authorization (auth_file_of (gv_gate env) scope (Some (ea_authorization_path a))) scope ticket now_utc = Inr au"
    "authorized au" "decision_id au = Some (ea_authorization_decision_id a)" by blast
  have cu: "current tr \<notin> {Some HALT, Some ''RECONCILED''}" using i(6,7) by simp
  show ?thesis using claims(1) g i(1,2,4,5) cu b row ss claims(7) lv au p(1) cf risk by blast
qed

section \<open>Concrete instances\<close>

text \<open>A digest of the right shape, and the records under it.\<close>

fun hex_sha :: "json \<Rightarrow> string" where
  "hex_sha (JList [_, JStr kind, _, JStr t, _]) = kind @ t"
| "hex_sha _ = demo_identity"

definition hex_rt :: py_rt where
  "hex_rt = \<lparr>sha = hex_sha, repr = weight_repr\<rparr>"

text \<open>A stored row, as the reader sees it.\<close>

definition demo_row :: "string \<Rightarrow> string \<Rightarrow> string \<Rightarrow> dict \<Rightarrow> jsonl_line" where
  "demo_row kind t res payload = Row (JDict
     [(''outcome_id'', JStr (kind @ t)), (''outcome_kind'', JStr kind), (''payload'', JDict payload), (''provenance'', JNull),
      (''record_sha256'', JStr demo_identity), (''recorded_at_utc'', JStr t), (''result'', JStr res),
      (''schema'', JStr ''TICKET_STORE_V1_OUTCOME''), (''source'', JStr ''LIVE''), (''ticket_id'', JStr ''T-1'')])"

definition demo_refs :: dict where
  "demo_refs = [(''freshness_evidence_id'', JStr demo_identity), (''ready_evidence_id'', JStr demo_identity), (''risk_evidence_id'', JStr demo_identity)]"

definition demo_lc_row :: "string \<Rightarrow> string \<Rightarrow> string \<Rightarrow> json \<Rightarrow> dict \<Rightarrow> jsonl_line" where
  "demo_lc_row s t aid prior evidence = demo_row LIFECYCLE_KIND t s
     [(''authority_id'', JStr aid), (''authorization_id'', JStr ''G0''), (''broker_deal_id'', JNull), (''broker_order_id'', JNull),
      (''broker_position_id'', JNull), (''evidence'', JDict evidence), (''prior_state'', prior), (''reason_code'', JNull), (''state'', JStr s),
      (''terminal_result'', JNull), (''ticket_id'', JStr ''T-1''), (''transitioned_at_utc'', JStr t)]"

definition demo_confirm_rows :: "jsonl_line list" where
  "demo_confirm_rows =
     [demo_row OWNER_CONFIRMATION_KIND ''2026-01-05T10:01:00+00:00'' ''CONFIRMED''
        [(''branch'', JStr ''SWEEP''), (''confirm_id'', JStr ''C-1''), (''decision'', JStr ''CONFIRM''), (''direction'', JStr ''LONG''),
         (''session'', JStr ''LONDON''), (''strategy_id'', JStr ''ST_ASIAN_SWEEP_5R_V1''), (''strategy_version'', JStr ''1.1.2''),
         (''symbol'', JStr ''GBPUSD''), (''ticket_branch'', JNull), (''ticket_created_at_utc'', JStr ''2026-01-05T10:00:00+00:00''),
         (''ticket_id'', JStr ''T-1''), (''ticket_setup'', JStr ''SWEEP''), (''ticket_valid_until_utc'', JStr ''2026-01-05T10:30:00+00:00'')],
      demo_row NOTICE_KIND ''2026-01-05T10:01:30+00:00'' ''DELIVERED''
        [(''api_ok'', JBool True), (''channel'', JStr ''TELEGRAM''), (''delivered'', JBool True), (''message_id'', JInt 7),
         (''ticket_binding'', JStr demo_identity)]]"

definition demo_checked_rows :: "jsonl_line list" where
  "demo_checked_rows = demo_confirm_rows @
     [demo_row OWNER_CONFIRMATION_USED_KIND ''2026-01-05T10:02:00+00:00'' ''CONSUMED''
        [(''confirm_id'', JStr ''C-1''), (''confirmation_outcome_id'', JStr (OWNER_CONFIRMATION_KIND @ ''2026-01-05T10:01:00+00:00'')),
         (''confirmed_at_utc'', JStr ''2026-01-05T10:01:00+00:00''), (''ticket_id'', JStr ''T-1'')],
      demo_lc_row ''AUTHORIZED'' ''2026-01-05T10:02:00+00:00'' ''U0'' JNull demo_refs,
      demo_lc_row ''CHECKED'' ''2026-01-05T10:02:01+00:00'' ''U1'' (JStr ''AUTHORIZED'') ((''checked_order_sha256'', JStr demo_identity) # demo_refs)]"

definition store_of :: "jsonl_line list \<Rightarrow> ticket_store" where
  "store_of rows = \<lparr>ts_evaluations = [], ts_outcomes = [(''2026-01-05.jsonl'', \<lparr>lines = rows, truncated = False\<rparr>)]\<rparr>"

definition demo_gate :: gate_env where
  "demo_gate = \<lparr>ge_rt = hex_rt, ge_scope_host = demo_host, ge_config = None, ge_manifest = ''scopes'', ge_ready_host = demo_ready_host,
     ge_auth_path = demo_auth_path, ge_auth_at = demo_auth_at\<rparr>"

definition demo_risk :: "scope_policy \<Rightarrow> risk_snapshot option" where
  "demo_risk scope = Some demo_snapshot"

definition demo_uuid :: "nat \<Rightarrow> string" where
  "demo_uuid i = [CHR ''U'', (if i = 0 then CHR ''0'' else if i = 1 then CHR ''1'' else if i = 2 then CHR ''2'' else CHR ''3'')]"

definition demo_guard :: "nat \<Rightarrow> guard_env" where
  "demo_guard i = \<lparr>gv_gate = demo_gate, gv_authorization_path = None,
     gv_account = Some (JDict [(''login_suffix'', JStr ''999''), (''server'', JStr ''VTMarkets-Demo''), (''trade_mode'', JInt 0)]),
     gv_risk = demo_risk, gv_uuid = CHR ''G'' # demo_uuid i, gv_sink = True, gv_io1 = Appended, gv_io2 = Appended\<rparr>"

definition demo_clock :: "nat \<Rightarrow> datetime option" where
  "demo_clock i = map_option (\<lambda>t. t + 1000000 * int i) (demo_now ''2026-01-05T10:02:00+00:00'')"

definition demo_ref :: "string \<Rightarrow> evidence_ref" where
  "demo_ref kind = \<lparr>er_kind = kind, er_evidence_id = demo_identity, er_observed_at_utc = demo_clock 0\<rparr>"

definition demo_authority :: execution_authority where
  "demo_authority = \<lparr>ea_authority_id = ''U2'', ea_issued_at_utc = demo_clock 2, ea_ticket_id = ''T-1'', ea_strategy_id = ''ST_ASIAN_SWEEP_5R_V1'',
     ea_strategy_version = ''1.1.2'', ea_symbol = ''GBPUSD'', ea_session = ''LONDON'', ea_setup_branch = ''SWEEP'', ea_direction = ''LONG'',
     ea_logic_identity = demo_identity, ea_magic_number = 77,
     ea_account = \<lparr>ai_login_suffix = ''999'', ai_server = ''VTMarkets-Demo'', ai_trade_mode = ''DEMO''\<rparr>,
     ea_authorization_path = ''auth'', ea_authorization_decision_id = ''D-1'', ea_owner_confirmation_id = Some ''C-1'',
     ea_ready_evidence = demo_ref ''READY'', ea_risk_evidence = demo_ref ''RISK'', ea_freshness_evidence = demo_ref ''FRESHNESS''\<rparr>"

definition demo_guard_state :: guard_state where
  "demo_guard_state = \<lparr>gs_store = store_of demo_checked_rows, gs_events = []\<rparr>"

definition demo_order :: json where
  "demo_order = JDict [(''retcode'', JInt 0), (''symbol'', JStr ''GBPUSD-VIP'')]"

theorem guard_send_requires_witness:
  "\<exists>scope tr row caps. load_guard_scope (demo_guard 2) demo_authority = Inr scope \<and> enabled scope \<and>
     trail hex_rt (gs_store demo_guard_state) ''T-1'' = Inr tr \<and> state_row tr ''CHECKED'' = Some row \<and>
     evaluate_risk_caps demo_ticket scope (Some demo_snapshot) (demo_clock 2) = Inr caps \<and> ra_allowed caps"
proof -
  let ?c = "authorize_order_send (demo_guard 2) (Some demo_authority) demo_ticket demo_order (demo_clock 2) (JStr ''G0'') demo_guard_state"
  have "case snd ?c of Inr d \<Rightarrow> gd_admitted d | Inl _ \<Rightarrow> False" by code_simp
  then obtain gs' d where d: "?c = (gs', Inr d)" "gd_admitted d" by (cases ?c) (auto split: sum.splits)
  have e: "gv_rt (demo_guard 2) = hex_rt" "ea_ticket_id demo_authority = ''T-1''" "gv_risk (demo_guard 2) = demo_risk"
    by (simp_all add: demo_guard_def demo_gate_def demo_authority_def)
  from guard_send_requires [OF d] obtain a scope tr row snap caps where "Some demo_authority = Some a" "load_guard_scope (demo_guard 2) a = Inr scope"
    "enabled scope" "trail (gv_rt (demo_guard 2)) (gs_store demo_guard_state) (ea_ticket_id a) = Inr tr" "state_row tr ''CHECKED'' = Some row"
    "gv_risk (demo_guard 2) scope = Some snap" "evaluate_risk_caps demo_ticket scope (Some snap) (demo_clock 2) = Inr caps" "ra_allowed caps"
    by blast
  then show ?thesis using e by (auto simp: demo_risk_def)
qed

text \<open>A store in which the claim of T-1 is taken, under a digest without collisions.\<close>

definition demo_claim :: exec_call where
  "demo_claim = CReserve Appended ''T-1'' ''S1'' ''GBPUSD'' ''L'' (Some 63900000000000000)"

definition claimed_state :: guard_state where
  "claimed_state = \<lparr>gs_store = exec_step unary_rt demo_claim empty_store, gs_events = []\<rparr>"

lemma claimed_state_facts: "sealed_store unary_rt (gs_store claimed_state)" "claimed (gs_store claimed_state) ''T-1''"
proof -
  have "granted unary_rt ''T-1'' demo_claim empty_store" unfolding demo_claim_def by (rule reserve_fresh) (simp, code_simp)
  then show "claimed (gs_store claimed_state) ''T-1''" using claims.grant_uses unary_inj empty_store_sealed(1) by (simp add: claimed_state_def)
  show "sealed_store unary_rt (gs_store claimed_state)"
    using claims.inv_step [of unary_rt empty_store demo_claim] unary_inj by (simp add: claimed_state_def)
qed

definition unary_guard :: "nat \<Rightarrow> guard_env" where
  "unary_guard i = (demo_guard i)\<lparr>gv_gate := demo_gate\<lparr>ge_rt := unary_rt\<rparr>\<rparr>"

theorem guard_sends_once_witness:
  "let send = GSend (unary_guard 2) (Some demo_authority) demo_ticket demo_order (demo_clock 2) (JStr ''G0'');
       stop = GHalt (unary_guard 3) (Some demo_authority) ''T-1'' (JStr ''X'') (demo_clock 3)
   in count_calls (sends ''T-1'') guard_step [send, stop, send] claimed_state = 0"
proof -
  let ?s = "GSend (unary_guard 2) (Some demo_authority) demo_ticket demo_order (demo_clock 2) (JStr ''G0'')"
  let ?h = "GHalt (unary_guard 3) (Some demo_authority) ''T-1'' (JStr ''X'') (demo_clock 3)"
  have r: "\<forall>c \<in> set [?s, ?h, ?s]. call_rt c = unary_rt" by (simp add: unary_guard_def)
  from guard_sends_once [OF unary_inj claimed_state_facts(1) r, of "''T-1''"] claimed_state_facts(2) show ?thesis
    unfolding Let_def by (simp only: if_True le_zero_eq)
qed

end
