(* ===== verification/Dispatch_Safety.thy ===== *)
theory Dispatch_Safety
  imports Dispatch Guard_Safety
begin

text \<open>
  The dispatched attempt as a whole: that it claims a ticket before it calls the broker's send, whatever
  else it does, and in which stage it ends.
\<close>

section \<open>Lemmas\<close>

lemma fresh_ticket [simp]: "ea_ticket_id (fresh_authority base u t) = ea_ticket_id base"
  by (simp add: fresh_authority_def)

lemma halt_not_admitted: "halt env au tid0 reason now gs = (gs', Inr d) \<Longrightarrow> \<not> gd_admitted d"
  by (auto simp: halt_def Let_def split: sum.splits option.splits prod.splits if_splits json.splits)

lemma halt_result_stage: "dp_stage (halt_result d b) \<in> {''HALTED'', ''HALT_FAILED''}"
  by (simp add: halt_result_def dp_stop_def)

lemma settle_send_built:
  assumes "settle_send env rt0 base send result gs = (gs', r)" "\<forall>i. gv_rt (de_guard env i) = rt"
  shows "built_steps rt (gs_store gs) (gs_store gs')"
  using assms by (auto simp: settle_send_def Let_def dest!: halt_call_built ack_call_built
      intro: rtranclp_trans split: prod.splits sum.splits if_splits)

lemma settle_send_stage:
  "settle_send env rt0 base send result gs = (gs', Inr r) \<Longrightarrow>
     dp_stage r = ''BROKER_ACK_RECORDED'' \<and> dp_order_send_called r \<or> dp_stage r \<in> {''HALTED'', ''HALT_FAILED''}"
  using halt_result_stage by (auto simp: settle_send_def Let_def split: prod.splits sum.splits if_splits)

definition EARLY_STAGES :: "string set" where
  "EARLY_STAGES = {''SCOPE_REFUSED'', ''AUTHORIZATION_REFUSED'', ''ORDER_CHECK_REFUSED'', ''ORDER_CHECK_BROKER_REFUSED'',
     ''ORDER_CHECK_RECORD_REFUSED'', ''ORDER_SEND_REFUSED''}"

lemma early_stages [simp]:
  "''SCOPE_REFUSED'' \<in> EARLY_STAGES" "''AUTHORIZATION_REFUSED'' \<in> EARLY_STAGES" "''ORDER_CHECK_REFUSED'' \<in> EARLY_STAGES"
  "''ORDER_CHECK_BROKER_REFUSED'' \<in> EARLY_STAGES" "''ORDER_CHECK_RECORD_REFUSED'' \<in> EARLY_STAGES" "''ORDER_SEND_REFUSED'' \<in> EARLY_STAGES"
  by (simp_all add: EARLY_STAGES_def)

text \<open>An attempt stops before the send, or it sends after the claim was taken in the same attempt.\<close>

lemma dispatch_cases:
  assumes "dispatch_demo_order env ticket market snapshot account auth_path cid ds = (ds', r)" "\<forall>i. gv_rt (de_guard env i) = rt"
  obtains (stops) "ds_sends ds' = ds_sends ds" "ds_orders ds' = ds_orders ds" "built_steps rt (gs_store (ds_guard ds)) (gs_store (ds_guard ds'))"
      "\<And>x. r = Inr x \<Longrightarrow> \<not> dp_order_send_called x \<and> dp_stage x \<in> EARLY_STAGES"
  | (calls) a checked aid gs2 gs3 send result base chk gs1 mode where
      "built_steps rt (gs_store (ds_guard ds)) (gs_store gs2)"
      "authorize_order_send (de_guard env 2) (Some a) ticket checked (de_clock env 2) aid gs2 = (gs3, Inr send)"
      "gd_admitted send" "ea_ticket_id a = ea_ticket_id base" "ds_sends ds' = ds_sends ds @ [ea_ticket_id base]"
      "settle_send env rt base send result gs3 = (ds_guard ds', r)"
      "authorize_order_check (de_guard env 0) (Some base) ticket market snapshot (de_clock env 0) (ds_guard ds) = (gs1, Inr chk)" "gd_admitted chk"
      "br_check_order (de_broker env) (gs_store gs1) base (step_authorization chk) ticket mode = BrokerReply checked" "\<not> is_refusal checked"
      "a = fresh_authority base (de_uuid env 2) (de_clock env 2)"
      "ds_orders ds' = ds_orders ds @
         (case fst (br_send_order (de_broker env) (gs_store gs3) a (step_authorization send) ticket checked mode) of None \<Rightarrow> [] | Some req \<Rightarrow> [req])"
proof (cases "ds_sends ds' = ds_sends ds \<and> ds_orders ds' = ds_orders ds \<and> built_steps rt (gs_store (ds_guard ds)) (gs_store (ds_guard ds')) \<and>
    (\<forall>x. r = Inr x \<longrightarrow> \<not> dp_order_send_called x \<and> dp_stage x \<in> EARLY_STAGES)")
  case True
  then show thesis using stops by blast
next
  case False
  let ?g0 = "gv_gate (de_guard env 0)" and ?now = "de_clock env 0" and ?gs = "ds_guard ds"
  note u0 = assms(1) [unfolded dispatch_demo_order_def Let_def]
  have early: "False" if "ds' = ds\<lparr>ds_guard := g\<rparr>" "built_steps rt (gs_store ?gs) (gs_store g)"
    "\<And>x. r = Inr x \<Longrightarrow> \<not> dp_order_send_called x \<and> dp_stage x \<in> EARLY_STAGES" for g
    using that False by auto
  obtain scope where s: "gate_scope ?g0 ticket None = Inr scope"
    using u0 early [of ?gs] by (cases "gate_scope ?g0 ticket None") (auto simp: dp_refusal_def split: sum.splits)
  let ?l = "load_standing_authorization (auth_file_of ?g0 scope (Some auth_path)) scope ticket ?now"
  have e: "enabled scope" using u0 s early [of ?gs] by (cases "enabled scope") (auto simp: dp_refusal_def)
  obtain standing where l: "?l = Inr standing" using u0 s e early [of ?gs] by (cases ?l) auto
  have a: "authorized standing" "decision_id standing \<notin> {None, Some []}"
    using u0 s e l early [of ?gs] by (auto simp: dp_refusal_def split: if_splits)
  let ?b = "build_authority (ge_rt ?g0) ticket scope market snapshot ?now (de_uuid env 0) account auth_path (the (decision_id standing)) cid"
  have ne: "(\<not> enabled scope) = False" using e by blast
  note u1 = u0 [unfolded s ne l sum.case if_False]
  have na: "(\<not> authorized standing \<or> decision_id standing \<in> {None, Some []}) = False" using a by blast
  note u2 = u1 [unfolded na if_False]
  obtain base where b: "?b = Inr base" using u2 early [of ?gs] by (cases ?b) auto
  note u3 = u2 [unfolded b sum.case]
  obtain gs1 r1 where c: "authorize_order_check (de_guard env 0) (Some base) ticket market snapshot ?now ?gs = (gs1, r1)" by fastforce
  have w1: "built_steps rt (gs_store ?gs) (gs_store gs1)" using check_call_built [OF c] assms(2) by simp
  note u4 = u3 [unfolded c prod.case]
  obtain chk where k: "r1 = Inr chk" "gd_admitted chk"
    using u4 early [of gs1] w1 by (cases r1) (auto simp: dp_stop_def split: if_splits)
  note u5 = u4 [unfolded k(1) sum.case, simplified k(2) not_True_eq_False if_False]
  let ?mode = "case dget (gd_details chk) ''account'' of JDict p \<Rightarrow> dget p ''trade_mode'' | _ \<Rightarrow> JNull"
  obtain checked where bc: "br_check_order (de_broker env) (gs_store gs1) base (step_authorization chk) ticket ?mode = BrokerReply checked" "\<not> is_refusal checked"
    using u5 early [of gs1] w1 by (cases "br_check_order (de_broker env) (gs_store gs1) base (step_authorization chk) ticket ?mode") (auto simp: dp_refusal_def split: if_splits)
  note u6 = u5 [unfolded bc(1) broker_reply.case, simplified bc(2) if_False]
  obtain gs2 r2 where rc: "record_order_checked (de_guard env 1) (Some (fresh_authority base (de_uuid env 1) (de_clock env 1))) ticket checked (de_clock env 1)
      (gd_authorization_id chk) gs1 = (gs2, r2)" by fastforce
  have w2: "built_steps rt (gs_store ?gs) (gs_store gs2)" using w1 checked_call_built [OF rc] assms(2) by (auto intro: rtranclp_trans)
  note u7 = u6 [unfolded rc prod.case]
  obtain rec where k2: "r2 = Inr rec" "gd_admitted rec"
    using u7 early [of gs2] w2 by (cases r2) (auto simp: dp_stop_def split: if_splits)
  note u8 = u7 [unfolded k2(1) sum.case, simplified k2(2) not_True_eq_False if_False]
  let ?a = "fresh_authority base (de_uuid env 2) (de_clock env 2)"
  obtain gs3 r3 where sc: "authorize_order_send (de_guard env 2) (Some ?a) ticket checked (de_clock env 2) (gd_authorization_id chk) gs2 = (gs3, r3)" by fastforce
  have w3: "built_steps rt (gs_store ?gs) (gs_store gs3)" using w2 send_call_built [OF sc] assms(2) by (auto intro: rtranclp_trans)
  note u9 = u8 [unfolded sc prod.case]
  obtain send where k3: "r3 = Inr send" "gd_admitted send"
    using u9 early [of gs3] w3 by (cases r3) (auto simp: dp_stop_def split: if_splits)
  note u10 = u9 [unfolded k3(1) sum.case, simplified k3(2) not_True_eq_False if_False]
  let ?x = "send_reply (snd (br_send_order (de_broker env) (gs_store gs3) ?a (step_authorization send) ticket checked ?mode))"
  have d: "ds_sends ds' = ds_sends ds @ [ea_ticket_id base]" "settle_send env rt base send ?x gs3 = (ds_guard ds', r)"
    using u10 assms(2) by (auto split: prod.splits)
  have o: "ds_orders ds' = ds_orders ds @
      (case fst (br_send_order (de_broker env) (gs_store gs3) ?a (step_authorization send) ticket checked ?mode) of None \<Rightarrow> [] | Some req \<Rightarrow> [req])"
    using u10 by (auto split: prod.splits)
  show thesis by (rule calls [OF w2 sc [unfolded k3(1)] k3(2) _ d c [unfolded k(1)] k(2) bc refl o]) simp
qed

section \<open>Histories of attempts\<close>

datatype dispatch_call =
    Attempt dispatch_env dict "market_evidence option" "risk_snapshot option" account_identity string "string option"
  | Guarded guard_call

fun runs_under :: "py_rt \<Rightarrow> dispatch_call \<Rightarrow> bool" where
  "runs_under rt (Attempt env _ _ _ _ _ _) \<longleftrightarrow> (\<forall>i. gv_rt (de_guard env i) = rt)"
| "runs_under rt (Guarded c) \<longleftrightarrow> call_rt c = rt"

fun dispatch_step :: "dispatch_call \<Rightarrow> dispatch_state \<Rightarrow> dispatch_state" where
  "dispatch_step (Attempt env ticket market snapshot account auth_path cid) ds =
     fst (dispatch_demo_order env ticket market snapshot account auth_path cid ds)"
| "dispatch_step (Guarded c) ds = ds\<lparr>ds_guard := guard_step c (ds_guard ds)\<rparr>"

text \<open>The step calls the broker's send for the ticket.\<close>

definition sends_order :: "string \<Rightarrow> dispatch_call \<Rightarrow> dispatch_state \<Rightarrow> bool" where
  "sends_order tid c ds \<longleftrightarrow> ds_sends (dispatch_step c ds) = ds_sends ds @ [tid]"

lemma dispatch_step_facts:
  assumes "runs_under rt c" "inj (sha rt)" "sealed_store rt (gs_store (ds_guard ds))"
  shows "built_steps rt (gs_store (ds_guard ds)) (gs_store (ds_guard (dispatch_step c ds)))"
    "sends_order tid c ds \<Longrightarrow> \<not> claimed (gs_store (ds_guard ds)) tid \<and> claimed (gs_store (ds_guard (dispatch_step c ds))) tid"
    "ds_sends (dispatch_step c ds) = ds_sends ds \<or> (\<exists>k. sends_order k c ds)"
proof -
  let ?st = "gs_store (ds_guard ds)" and ?st' = "gs_store (ds_guard (dispatch_step c ds))"
  have "built_steps rt ?st ?st' \<and> (sends_order tid c ds \<longrightarrow> \<not> claimed ?st tid \<and> claimed ?st' tid) \<and>
    (ds_sends (dispatch_step c ds) = ds_sends ds \<or> (\<exists>k. sends_order k c ds))"
  proof (cases c)
    case (Guarded g)
    then show ?thesis using guard_step_built [of g "ds_guard ds"] assms(1) by (simp add: sends_order_def)
  next
    case (Attempt env ticket market snapshot account auth_path cid)
    obtain ds' r where d: "dispatch_demo_order env ticket market snapshot account auth_path cid ds = (ds', r)" by fastforce
    have s: "dispatch_step c ds = ds'" by (simp add: Attempt d)
    have e: "\<forall>i. gv_rt (de_guard env i) = rt" using assms(1) Attempt by simp
    from d e show ?thesis
    proof (cases rule: dispatch_cases)
      case stops
      then show ?thesis by (simp add: s sends_order_def)
    next
      case (calls a checked aid gs2 gs3 send result base chk gs1 mode)
      let ?c = "GSend (de_guard env 2) (Some a) ticket checked (de_clock env 2) aid"
      have tk: "gd_ticket_id send = Some (ea_ticket_id base)"
        using calls(2,3,4) by (cases rule: send_call_cases [OF calls(2)]) auto
      have c1: "\<not> claimed (gs_store gs2) (ea_ticket_id base)" "claimed (gs_store gs3) (ea_ticket_id base)"
        using sends_claims [of "ea_ticket_id base" ?c gs2] calls(2,3) tk e assms(2) built_steps_sealed [OF calls(1) assms(3)] by auto
      have w: "built_steps rt (gs_store gs2) (gs_store gs3)" "built_steps rt (gs_store gs3) ?st'"
        using send_call_built [OF calls(2)] settle_send_built [OF calls(6) e] e by (simp_all add: s)
      have "built_steps rt ?st ?st'" using calls(1) w by (meson rtranclp_trans)
      moreover have "\<not> claimed ?st (ea_ticket_id base)" "claimed ?st' (ea_ticket_id base)"
        using c1 built_steps_claimed calls(1) w(2) by blast+
      ultimately show ?thesis using calls(5) by (auto simp: s sends_order_def)
    qed
  qed
  then show "built_steps rt ?st ?st'" "sends_order tid c ds \<Longrightarrow> \<not> claimed ?st tid \<and> claimed ?st' tid"
    "ds_sends (dispatch_step c ds) = ds_sends ds \<or> (\<exists>k. sends_order k c ds)" by blast+
qed

section \<open>Properties\<close>


section \<open>Concrete instances\<close>

definition demo_check :: "ticket_store \<Rightarrow> execution_authority \<Rightarrow> dict \<Rightarrow> dict \<Rightarrow> json \<Rightarrow> broker_reply" where
  "demo_check st a auth ticket mode = BrokerReply demo_order"

definition demo_send :: "ticket_store \<Rightarrow> execution_authority \<Rightarrow> dict \<Rightarrow> dict \<Rightarrow> json \<Rightarrow> json \<Rightarrow> dict option \<times> broker_reply" where
  "demo_send st a auth ticket order mode = (Some [], BrokerReply (JDict [(''retcode'', JInt 10009), (''order'', JInt 5501), (''deal'', JInt 7701)]))"

definition demo_broker :: broker where
  "demo_broker = \<lparr>br_check_order = demo_check, br_send_order = demo_send\<rparr>"

definition demo_dispatch :: "(nat \<Rightarrow> guard_env) \<Rightarrow> dispatch_env" where
  "demo_dispatch g = \<lparr>de_guard = g, de_clock = demo_clock, de_uuid = demo_uuid, de_broker = demo_broker\<rparr>"

text \<open>A host without its scope manifest.\<close>

definition bare_guard :: "nat \<Rightarrow> guard_env" where
  "bare_guard i = (demo_guard i)\<lparr>gv_gate := demo_gate\<lparr>ge_manifest := ''absent''\<rparr>\<rparr>"

definition claimed_dispatch :: dispatch_state where
  "claimed_dispatch = \<lparr>ds_guard = claimed_state, ds_sends = [''T-1''], ds_orders = []\<rparr>"


end
