(* ===== verification/Adapter_Safety.thy ===== *)
theory Adapter_Safety
  imports Canonical_Adapter Dispatch_Safety
begin

text \<open>
  What the broker adapter transmits: an order only after every check of its own, and in an attempt only
  the order that the attempt's check built, with the volume the admission gates sized.
\<close>

section \<open>Lemmas: what the checks establish\<close>

lemma refuse_not [simp]: "refuse reason \<noteq> Inr x"
  by (simp add: refuse_def)

lemma unless_reason_iff [simp]: "unless_reason rs x = Inr y \<longleftrightarrow> rs = [] \<and> x = y"
  by (cases rs) (auto simp: unless_reason_def)

lemma step_clean:
  assumes "adapter_step env a authorization s st = Inr row"
  obtains tr expires where "trail (ca_rt env) st (ea_ticket_id a) = Inr tr" "lt_reason_code tr = None" "current tr = Some s"
    "state_row tr s = Some row" "lc_authority_id row = ea_authority_id a" "lc_authorization_id row = dget authorization ''authorization_id''"
    "parse_iso (py_str (ca_rt env) (dget (lc_evidence row) ''expires_at_utc'')) = Some expires" "ca_now env < expires"
  using assms by (auto simp: adapter_step_def checked_bind_Inr_iff Let_def split: if_splits option.splits)

lemma adapter_scope_clean:
  assumes "adapter_scope env a = Inr scope"
  shows "enabled scope" "strategy_id scope = ea_strategy_id a" "strategy_version scope = ea_strategy_version a" "sp_symbol scope = ea_symbol a"
    "session scope = ea_session a" "setup_branch scope = ea_setup_branch a" "logic_identity scope = ea_logic_identity a" "magic_number scope = ea_magic_number a"
  using assms by (auto simp: adapter_scope_def Let_def split: sum.splits scope_error.splits if_splits)

lemma demo_account_clean:
  assumes "demo_account env a scope account_mode = Inr u"
  obtains info where "account_mode = JStr ''DEMO''" "mt_account_info (ca_mt5 env) = Inr (JDict info)"
    "dget (live_account env scope info) ''login_suffix'' = JStr (account_login_suffix scope)" "dget info ''server'' = JStr (broker_server scope)"
    "normalize_trade_mode (ca_rt env) (dget info ''trade_mode'') = Inr (Some ''DEMO'')"
proof -
  obtain info where i: "account_mode = JStr ''DEMO''" "read_dict (mt_account_info (ca_mt5 env)) = Some info"
    and v: "validate_live_account (ca_rt env) (live_account env scope info) a scope (Some (ca_now env)) = Inr []"
    using assms by (auto simp: demo_account_def checked_bind_Inr_iff split: if_splits option.splits list.splits)
  note c = live_account_clean [OF v]
  have m: "mt_account_info (ca_mt5 env) = Inr (JDict info)"
    using i(2) by (auto simp: read_dict_def as_dict_def split: sum.splits json.splits)
  have "dget (live_account env scope info) ''server'' = dget info ''server''"
    "live_mode (ca_rt env) (live_account env scope info) = normalize_trade_mode (ca_rt env) (dget info ''trade_mode'')"
    by (simp_all add: live_account_def live_mode_def dget_def dget_or_def Let_def)
  then show thesis using that i(1) m c by simp
qed

lemma preflight_clean:
  assumes "preflight_checks env a authorization s account_mode st = Inr pf"
  shows "validate_authority_shape (Some a) = []" "adapter_step env a authorization s st = Inr (pf_row pf)" "adapter_scope env a = Inr (pf_scope pf)"
    "demo_account env a (pf_scope pf) account_mode = Inr ()" "load_order_shape (ca_shape_file env) = Inr (pf_shape pf)" "os_approved (pf_shape pf)"
  using assms by (auto simp: preflight_checks_def checked_bind_Inr_iff split: if_splits)

lemma send_checks_clean:
  assumes "send_checks env st a authorization ticket checked_order account_mode = Inr (request, shape)"
  obtains pf c claim where "preflight_checks env a authorization ''SENT'' account_mode st = Inr pf" "shape = pf_shape pf"
    "checked_order = JDict c" "dget c ''request'' = JDict request"
    "dget (lc_evidence (pf_row pf)) ''checked_order_sha256'' = JStr (evidence_digest (ca_rt env) checked_order)"
    "inspect st (ea_ticket_id a) = Inr claim" "ledger_prior claim = Some SENDING"
    "per_order_confirm_required (pf_scope pf) \<Longrightarrow> validate_confirmation_evidence (ca_rt env) st a ticket (Some (ca_now_confirm env)) True = Inr []"
proof -
  obtain pf where pf: "preflight_checks env a authorization ''SENT'' account_mode st = Inr pf"
    using assms by (auto simp: send_checks_def checked_bind_Inr_iff)
  obtain c where c: "checked_order = JDict c" using assms pf by (cases checked_order) (auto simp: send_checks_def)
  obtain q where q: "dget c ''request'' = JDict q" using assms pf c by (cases "dget c ''request''") (auto simp: send_checks_def)
  note u = assms [unfolded send_checks_def pf c checked_bind.simps json.case q]
  have d: "dget (lc_evidence (pf_row pf)) ''checked_order_sha256'' = JStr (evidence_digest (ca_rt env) (JDict c))"
    using u by (auto split: if_splits)
  obtain claim where k: "inspect st (ea_ticket_id a) = Inr claim" "ledger_prior claim = Some SENDING"
    using u d by (auto simp: checked_bind_Inr_iff split: if_splits)
  have v: "per_order_confirm_required (pf_scope pf) \<Longrightarrow> validate_confirmation_evidence (ca_rt env) st a ticket (Some (ca_now_confirm env)) True = Inr []"
    and r: "q = request" "shape = pf_shape pf"
    using u d by (auto simp: checked_bind_Inr_iff split: if_splits list.splits)
  show thesis by (rule that [OF pf r(2) c _ _ k v]) (use q r d c in simp_all)
qed

section \<open>Lemmas: the planned volume\<close>

text \<open>What a granted check leaves: the AUTHORIZED row with the volume the gates admitted.\<close>

lemma pre_trade_gates:
  assumes "revalidate_pre_trade env a scope ticket market snapshot now_utc True c details st = (st', Inr ([], d))"
  obtains fresh g where "gv_risk env scope = Some fresh"
    "evaluate_pre_send_gates (gv_gate env) (gv_io1 env) ticket market (Some fresh) now_utc (Some (ea_authorization_path a)) (Some scope) (Some st) = (Some st', Inr g)"
    "ad_admitted g" "dget d ''planned_volume'' = opt_float (ad_volume g)"
proof -
  obtain ad cd gd sd nt where u: "confirmation_step env a scope ticket now_utc c st = Inr ([], cd)"
    "account_step env a scope now_utc = Inr ([], ad)" "standing_step env a scope ticket now_utc = Inr ([], sd)"
    "gates_step env a scope ticket market snapshot now_utc True st = (st', Inr ([], gd))"
    "d = dupdate details ((''notification'', nt) # ad @ cd @ gd @ sd)"
    using assms by (auto simp: revalidate_pre_trade_def split: sum.splits prod.splits)
  obtain fresh where f: "gv_risk env scope = Some fresh" using u(4) by (cases "gv_risk env scope") (auto simp: gates_step_def)
  obtain store' r where e: "evaluate_pre_send_gates (gv_gate env) (gv_io1 env) ticket market (Some fresh) now_utc (Some (ea_authorization_path a)) (Some scope) (Some st) = (store', r)"
    by fastforce
  obtain st2 where s2: "store' = Some st2" using gates_written [OF e] by blast
  obtain g where g: "r = Inr g" "st2 = st'" "ad_admitted g" using u(4) f e s2 by (auto simp: gates_step_def Let_def split: sum.splits if_splits)
  have v: "dget gd ''planned_volume'' = opt_float (ad_volume g)" "map_of gd ''planned_volume'' \<noteq> None"
    and gd: "map_of (rev gd) ''planned_volume'' = Some (opt_float (ad_volume g))"
    using u(4) f e s2 g by (auto simp: gates_step_def Let_def dget_def split: if_splits)
  have no: "map_of (rev ad) ''planned_volume'' = None" "map_of (rev cd) ''planned_volume'' = None" "map_of (rev sd) ''planned_volume'' = None"
    using u(1-3) by (auto simp: confirmation_step_def account_step_def standing_step_def res_bind_Inr_iff split: if_splits option.splits json.splits)
  have "dget d ''planned_volume'' = opt_float (ad_volume g)" unfolding u(5) dget_dupdate by (simp add: no gd map_add_def)
  with f e s2 g that show thesis by blast
qed

lemma wf_evidence_id_map: "wf_dict (evidence_id_map a)"
proof -
  have "wf_dict (fold (\<lambda>ref d. if P ref then dput (f ref) (u ref) (dput (g ref) (v ref) d) else d) refs d)" if "wf_dict d"
    for P :: "evidence_ref \<Rightarrow> bool" and f g u v refs and d :: dict
    using that by (induction refs arbitrary: d) (auto simp: wf_dput)
  then show ?thesis unfolding evidence_id_map_def by (simp add: wf_dict_def [of "[]"])
qed

lemma check_call_plan:
  assumes "authorize_order_check env (Some a) ticket market snapshot now_utc gs = (gs', Inr d)" "gd_admitted d"
  obtains scope fresh g st' evidence r where
    "load_guard_scope env a = Inr scope" "enabled scope" "\<not> ticket_mismatch (gv_rt env) a ticket" "gv_risk env scope = Some fresh"
    "evaluate_pre_send_gates (gv_gate env) (gv_io1 env) ticket market (Some fresh) now_utc (Some (ea_authorization_path a)) (Some scope)
       (Some (gs_store gs)) = (Some st', Inr g)" "ad_admitted g"
    "lifecycle_append (gv_rt env) (gv_io2 env) (ea_ticket_id a) ''AUTHORIZED'' (la_of now_utc (ea_authority_id a) (JStr (gv_uuid env)) evidence) st' =
       (gs_store gs', Inr r)" "recorded r" "wf_dict evidence" "dget evidence ''planned_volume'' = opt_float (ad_volume g)"
proof -
  let ?st = "gs_store gs" and ?rt = "gv_rt env"
  let ?id = "revalidate_identity env (Some a) (Some ticket) now_utc ''ORDER_CHECK'' False False ?st"
  obtain reasons d0 so tr where i: "?id = Inr (reasons, d0, so, tr)" using assms by (cases ?id) (auto simp: authorize_order_check_def)
  obtain scope where so: "so = Some scope" using assms i by (cases so) (auto simp: authorize_order_check_def)
  note u1 = assms(1) [unfolded authorize_order_check_def Let_def i so sum.case prod.case option.case option.sel]
  obtain stop where e: "emergency_reason ?rt ?st = Inr stop" using u1 by (cases "emergency_reason ?rt ?st") auto
  obtain claim where c: "inspect ?st (ea_ticket_id a) = Inr claim" using u1 e by (cases "inspect ?st (ea_ticket_id a)") auto
  note u2 = u1 [unfolded e c sum.case]
  have rs: "reasons = []" using u2 assms(2) by (auto split: if_splits)
  let ?d = "dupdate d0 (claim_details claim)"
  obtain st' pr pd where p: "revalidate_pre_trade env a scope ticket market snapshot now_utc True False ?d ?st = (st', Inr (pr, pd))"
    and pn: "pr = []"
    using u2 assms(2) by (auto split: if_splits prod.splits sum.splits)
  note k = identity_clean [OF i [unfolded rs so]]
  obtain x where x: "authorization_expiry scope (the now_utc) = Inr x" using u2 p pn assms(2) by (auto split: if_splits sum.splits)
  define ev where "ev = dupdate (evidence_id_map a)
     [(''authorization_decision_id'', JStr (ea_authorization_decision_id a)), (''owner_confirmation_id'', opt_str (ea_owner_confirmation_id a)),
      (''account'', dget pd ''account''), (''planned_volume'', dget pd ''planned_volume''), (''planned_risk_amount'', dget pd ''planned_risk_amount''),
      (''planned_risk_pct'', dget pd ''planned_risk_pct''), (''admission_risk_evidence_id'', dget pd ''admission_risk_evidence_id''),
      (''expires_at_utc'', JStr x)]"
  obtain r where r: "lifecycle_append ?rt (gv_io2 env) (ea_ticket_id a) ''AUTHORIZED'' (la_of now_utc (ea_authority_id a) (JStr (gv_uuid env)) ev) st' =
      (gs_store gs', Inr r)" "recorded r"
    using u2 p pn x assms(2) by (auto simp: finish_append_def ev_def split: if_splits sum.splits prod.splits)
  have w: "wf_dict ev" unfolding ev_def by (rule wf_dupdate [OF wf_evidence_id_map])
  from p [unfolded pn] show thesis
  proof (rule pre_trade_gates)
    fix fresh g
    assume f: "gv_risk env scope = Some fresh" "ad_admitted g" "dget pd ''planned_volume'' = opt_float (ad_volume g)"
      "evaluate_pre_send_gates (gv_gate env) (gv_io1 env) ticket market (Some fresh) now_utc (Some (ea_authorization_path a)) (Some scope)
         (Some ?st) = (Some st', Inr g)"
    have v: "dget ev ''planned_volume'' = opt_float (ad_volume g)" by (simp add: ev_def dget_dupdate f(3))
    show thesis by (rule that [OF k(1,2) binding_ticket [OF k(3)] f(1,4,2) r w v])
  qed
qed

text \<open>The AUTHORIZED row of the trail after the check carries that volume.\<close>

lemma authorized_volume:
  assumes "authorize_order_check env (Some a) ticket market snapshot (Some now) gs = (gs', Inr d)" "gd_admitted d"
    and "wf_dict (ts_outcomes (gs_store gs))" "placed (gs_store gs)" "valid_datetime now"
    and "trail (gv_rt env) (gs_store gs') (ea_ticket_id a) = Inr tr" "state_row tr ''AUTHORIZED'' = Some row"
  obtains scope fresh g st' where "load_guard_scope env a = Inr scope" "enabled scope" "\<not> ticket_mismatch (gv_rt env) a ticket"
    "gv_risk env scope = Some fresh"
    "evaluate_pre_send_gates (gv_gate env) (gv_io1 env) ticket market (Some fresh) (Some now) (Some (ea_authorization_path a)) (Some scope)
       (Some (gs_store gs)) = (Some st', Inr g)" "ad_admitted g" "dget (lc_evidence row) ''planned_volume'' = opt_float (ad_volume g)"
  using assms(1,2)
proof (rule check_call_plan)
  fix scope fresh g st' evidence r
  assume c: "load_guard_scope env a = Inr scope" "enabled scope" "\<not> ticket_mismatch (gv_rt env) a ticket" "gv_risk env scope = Some fresh"
    "evaluate_pre_send_gates (gv_gate env) (gv_io1 env) ticket market (Some fresh) (Some now) (Some (ea_authorization_path a)) (Some scope)
       (Some (gs_store gs)) = (Some st', Inr g)" "ad_admitted g"
    "lifecycle_append (gv_rt env) (gv_io2 env) (ea_ticket_id a) ''AUTHORIZED'' (la_of (Some now) (ea_authority_id a) (JStr (gv_uuid env)) evidence) st' =
       (gs_store gs', Inr r)" "recorded r" "wf_dict evidence" "dget evidence ''planned_volume'' = opt_float (ad_volume g)"
  let ?a = "la_of (Some now) (ea_authority_id a) (JStr (gv_uuid env)) evidence"
  have w: "written (gv_rt env) (kind_is OWNER_CONFIRMATION_USED_KIND) (gs_store gs) st'" using gates_written [OF c(5)] by simp
  have "OWNER_CONFIRMATION_USED_KIND \<noteq> LIFECYCLE_KIND" by (simp add: OWNER_CONFIRMATION_USED_KIND_def LIFECYCLE_KIND_def)
  note ok = built_step_wf [OF built_stepI [OF w] assms(3)] written_placed [OF w this assms(4)]
  have now: "la_now_utc ?a = Some now" by (simp add: la_of_def)
  obtain tr0 where "trail (gv_rt env) (gs_store gs') (ea_ticket_id a) = Inr (tr0\<lparr>lt_states := lt_states tr0 @ [recorded_state ''AUTHORIZED'' now ?a]\<rparr>)"
    using recorded_extends [OF ok now assms(5) c(7,8)] by metis
  then have "row = recorded_state ''AUTHORIZED'' now ?a" using assms(6,7) by (auto simp: state_row_def recorded_state_def)
  then have "dget (lc_evidence row) ''planned_volume'' = canon (opt_float (ad_volume g))"
    by (simp add: recorded_state_def la_of_def dget_stored_row [OF c(9)] c(10))
  then have "dget (lc_evidence row) ''planned_volume'' = opt_float (ad_volume g)" by (simp add: opt_float_def split: option.splits)
  then show thesis by (rule that [OF c(1-6)])
qed

text \<open>A stop of the adapter is a refusal, so a check that is not refused ran to its end.\<close>

definition refuses :: "'a checked \<Rightarrow> bool" where
  "refuses r \<longleftrightarrow> (\<forall>d. r = Inl (StopRefused d) \<longrightarrow> is_refusal (JDict d))"

lemma refused_reply:
  "is_refusal (JDict (adapter_refused r []))" "k \<noteq> ''refused'' \<Longrightarrow> is_refusal (JDict (adapter_refused r [(k, v)]))"
  by (simp_all add: is_refusal_def adapter_refused_def dupdate_def dget_def)

lemma refuses_basic [simp]: "refuses (Inr x)" "refuses (refuse r)" "refuses (raising q)" "refuses (Inl (StopError e))" "refuses (unless_reason rs y)"
  by (auto simp: refuses_def refuse_def raising_def unless_reason_def refused_reply split: sum.splits list.splits)

lemma refuses_bind: "refuses r \<Longrightarrow> (\<And>x. r = Inr x \<Longrightarrow> refuses (k x)) \<Longrightarrow> refuses (checked_bind r k)"
  by (cases r) (auto simp: refuses_def)

lemma preflight_refuses: "refuses (preflight_checks env a authorization s account_mode st)"
proof -
  have "refuses (adapter_step env a authorization s st)"
    by (auto simp: adapter_step_def Let_def intro!: refuses_bind split: option.split)
  moreover have "refuses (adapter_scope env a)"
    by (auto simp: adapter_scope_def Let_def split: sum.split scope_error.split)
  moreover have "refuses (demo_account env a scope account_mode)" for scope
    by (auto simp: demo_account_def intro!: refuses_bind split: option.split)
  ultimately show ?thesis
    by (auto simp: preflight_checks_def intro!: refuses_bind) (simp add: refuses_def refused_reply)
qed

lemma build_request_refuses: "refuses (build_request env a ticket scope shape volume)"
  by (auto simp: build_request_def Let_def intro!: refuses_bind split: option.split)

lemma order_check_clean:
  assumes "order_check env st a authorization ticket account_mode = BrokerReply checked" "\<not> is_refusal checked"
  obtains pf request c where "preflight_checks env a authorization ''AUTHORIZED'' account_mode st = Inr pf"
    "build_request env a ticket (pf_scope pf) (pf_shape pf) (dget (lc_evidence (pf_row pf)) ''planned_volume'') = Inr request"
    "checked = JDict c" "dget c ''request'' = JDict request"
proof -
  let ?p = "preflight_checks env a authorization ''AUTHORIZED'' account_mode st"
  have no: "\<exists>x. r = Inr x" if "refuses r" "reply_of (checked_bind r k) = BrokerReply checked" for r :: "'z checked" and k
    using that assms(2) by (cases r rule: sum.exhaust) (auto simp: refuses_def reply_of_def split: adapter_stop.splits)
  obtain pf where pf: "?p = Inr pf" using no [OF preflight_refuses assms(1) [unfolded order_check_def]] by blast
  let ?b = "build_request env a ticket (pf_scope pf) (pf_shape pf) (dget (lc_evidence (pf_row pf)) ''planned_volume'')"
  note u = assms(1) [unfolded order_check_def pf checked_bind.simps]
  obtain request where b: "?b = Inr request" using no [OF build_request_refuses u] by blast
  note u' = u [unfolded b checked_bind.simps]
  obtain v result where v: "mt_order_check (ca_mt5 env) request = Inr v" "as_dict v = Some result"
    using u' assms(2) by (auto simp: reply_of_def refuse_def refused_reply split: sum.splits option.splits)
  have "checked = JDict (dupdate (dput ''request'' (JDict request) (ddel ''request'' result)) (shape_fields (pf_shape pf)))"
    using u' v by (simp add: reply_of_def)
  with pf b show thesis by (rule that) (simp add: dget_dupdate shape_fields_def)
qed

lemma build_request_clean:
  assumes "build_request env a ticket scope shape volume = Inr request"
  obtains tp vol price sl target where "targets_by_leg (dget ticket ''targets'') = Inr tp"
    "quote_price env scope (ea_direction a = ''LONG'') = Some price" "0 < price" "number_or_none volume = Some vol" "0 < vol"
    "number_or_none (dget ticket ''stop_loss'') = Some sl" "number_or_none (target_price (os_take_profit_leg shape) tp) = Some target"
    "if ea_direction a = ''LONG'' then sl < price \<and> price < target else target < price \<and> price < sl"
    "request = market_deal env a scope shape vol price sl target"
proof -
  let ?long = "ea_direction a = ''LONG''"
  obtain tp where tp: "targets_by_leg (dget ticket ''targets'') = Inr tp" using assms by (auto simp: build_request_def checked_bind_Inr_iff)
  have "raising (targets_by_leg (dget ticket ''targets'')) = Inr tp" using tp by simp
  note u = assms [unfolded build_request_def Let_def this checked_bind.simps]
  obtain price where q: "quote_price env scope ?long = Some price" "0 < price"
    using u by (cases "quote_price env scope ?long") (auto split: if_splits)
  let ?s = "number_or_none (dget ticket ''stop_loss'')" and ?t = "number_or_none (target_price (os_take_profit_leg shape) tp)"
  obtain sl target vol where n: "?s = Some sl" "?t = Some target" "number_or_none volume = Some vol"
    using u q by (cases ?s; cases ?t; cases "number_or_none volume") auto
  have "0 < vol" "if ?long then sl < price \<and> price < target else target < price \<and> price < sl"
    "request = market_deal env a scope shape vol price sl target"
    using u q n by (auto split: if_splits)
  then show thesis using that tp q n by blast
qed

lemma adapter_scope_loads:
  assumes "adapter_scope env a = Inr scope" "ca_gate env = gv_gate genv"
  shows "load_guard_scope genv a = Inr scope"
  using assms by (auto simp: adapter_scope_def load_guard_scope_def Let_def split: sum.splits scope_error.splits if_splits)

text \<open>The order planned by a check: what the request is made of, and where each part comes from.\<close>

definition planned_order ::
  "guard_env \<Rightarrow> adapter_env \<Rightarrow> dict \<Rightarrow> market_evidence option \<Rightarrow> datetime \<Rightarrow> ticket_store \<Rightarrow> dict \<Rightarrow> bool" where
  "planned_order genv cenv ticket market now st request \<longleftrightarrow>
    (\<exists>a scope shape fresh st' g vol price sl target tp.
     request = market_deal cenv a scope shape vol price sl target \<and>
     \<not> ticket_mismatch (gv_rt genv) a ticket \<and> load_guard_scope genv a = Inr scope \<and> enabled scope \<and> magic_number scope = ea_magic_number a \<and>
     load_order_shape (ca_shape_file cenv) = Inr shape \<and> os_approved shape \<and> gv_risk genv scope = Some fresh \<and>
     evaluate_pre_send_gates (gv_gate genv) (gv_io1 genv) ticket market (Some fresh) (Some now) (Some (ea_authorization_path a)) (Some scope) (Some st) =
       (Some st', Inr g) \<and> ad_admitted g \<and> ad_volume g = Some vol \<and> 0 < vol \<and>
     quote_price cenv scope (ea_direction a = ''LONG'') = Some price \<and> number_or_none (dget ticket ''stop_loss'') = Some sl \<and>
     targets_by_leg (dget ticket ''targets'') = Inr tp \<and> number_or_none (target_price (os_take_profit_leg shape) tp) = Some target \<and>
     (if ea_direction a = ''LONG'' then sl < price \<and> price < target else target < price \<and> price < sl))"

lemma checked_request_planned:
  assumes "authorize_order_check genv (Some a) ticket market snapshot (Some now) gs = (gs1, Inr chk)" "gd_admitted chk"
    and "order_check cenv (gs_store gs1) a authorization ticket mode = BrokerReply (JDict c)" "\<not> is_refusal (JDict c)"
    and "ca_gate cenv = gv_gate genv" "wf_dict (ts_outcomes (gs_store gs))" "placed (gs_store gs)" "valid_datetime now"
  obtains request where "dget c ''request'' = JDict request" "planned_order genv cenv ticket market now (gs_store gs) request"
  using assms(3,4)
proof (rule order_check_clean)
  fix pf request c'
  assume o: "preflight_checks cenv a authorization ''AUTHORIZED'' mode (gs_store gs1) = Inr pf"
    "build_request cenv a ticket (pf_scope pf) (pf_shape pf) (dget (lc_evidence (pf_row pf)) ''planned_volume'') = Inr request"
    "JDict c = JDict c'" "dget c' ''request'' = JDict request"
  note p = preflight_clean [OF o(1)]
  have rt: "ca_rt cenv = gv_rt genv" using assms(5) by simp
  from p(2) obtain tr where t: "trail (gv_rt genv) (gs_store gs1) (ea_ticket_id a) = Inr tr" "state_row tr ''AUTHORIZED'' = Some (pf_row pf)"
    by (rule step_clean) (simp add: rt)
  note sc = adapter_scope_loads [OF p(3) assms(5)] and sc' = adapter_scope_clean(1,8) [OF p(3)]
  from assms(1,2,6-8) t show thesis
  proof (rule authorized_volume)
    fix scope fresh g st'
    assume v: "load_guard_scope genv a = Inr scope" "\<not> ticket_mismatch (gv_rt genv) a ticket" "gv_risk genv scope = Some fresh"
      "evaluate_pre_send_gates (gv_gate genv) (gv_io1 genv) ticket market (Some fresh) (Some now) (Some (ea_authorization_path a))
         (Some scope) (Some (gs_store gs)) = (Some st', Inr g)" "ad_admitted g"
      "dget (lc_evidence (pf_row pf)) ''planned_volume'' = opt_float (ad_volume g)"
    have s: "pf_scope pf = scope" using sc v(1) by simp
    from o(2) show thesis unfolding s v(6)
    proof (rule build_request_clean)
      fix tp vol price sl target
      assume b: "targets_by_leg (dget ticket ''targets'') = Inr tp" "quote_price cenv scope (ea_direction a = ''LONG'') = Some price"
        "number_or_none (opt_float (ad_volume g)) = Some vol" "0 < vol" "number_or_none (dget ticket ''stop_loss'') = Some sl"
        "number_or_none (target_price (os_take_profit_leg (pf_shape pf)) tp) = Some target"
        "if ea_direction a = ''LONG'' then sl < price \<and> price < target else target < price \<and> price < sl"
        "request = market_deal cenv a scope (pf_shape pf) vol price sl target"
      have "ad_volume g = Some vol" using b(3) by (cases "ad_volume g") (auto simp: opt_float_def number_or_none_def)
      then have "planned_order genv cenv ticket market now (gs_store gs) request"
        unfolding planned_order_def using b(8,1,2,4-7) v(1-5) sc' [unfolded s] p(5,6) by blast
      then show thesis using that o(3,4) by simp
    qed
  qed
qed

section \<open>Properties\<close>

text \<open>C3: The adapter transmits an order only when the ticket's trail is trusted and
  ends in the SENT row that the guard wrote for this authority, not yet expired; the scope resolved now is
  enabled and is the authority's; the terminal's account is the pinned DEMO account; the order shape is
  approved by the owner; the send claim is stored; the named owner confirmation, where required, is
  consumed; and the order it transmits is the one sealed when it was checked.\<close>

theorem canonical_send_requires:
  assumes "order_send env st a authorization ticket checked_order account_mode = (Some req, reply)"
  shows "\<exists>tr row expires scope info shape c claim.
    trail (ca_rt env) st (ea_ticket_id a) = Inr tr \<and> lt_reason_code tr = None \<and> current tr = Some ''SENT'' \<and> state_row tr ''SENT'' = Some row \<and>
    lc_authority_id row = ea_authority_id a \<and> lc_authorization_id row = dget authorization ''authorization_id'' \<and>
    parse_iso (py_str (ca_rt env) (dget (lc_evidence row) ''expires_at_utc'')) = Some expires \<and> ca_now env < expires \<and>
    adapter_scope env a = Inr scope \<and> enabled scope \<and> magic_number scope = ea_magic_number a \<and>
    account_mode = JStr ''DEMO'' \<and> mt_account_info (ca_mt5 env) = Inr (JDict info) \<and> dget info ''server'' = JStr (broker_server scope) \<and>
    dget (live_account env scope info) ''login_suffix'' = JStr (account_login_suffix scope) \<and>
    normalize_trade_mode (ca_rt env) (dget info ''trade_mode'') = Inr (Some ''DEMO'') \<and>
    load_order_shape (ca_shape_file env) = Inr shape \<and> os_approved shape \<and>
    checked_order = JDict c \<and> dget c ''request'' = JDict req \<and>
    dget (lc_evidence row) ''checked_order_sha256'' = JStr (evidence_digest (ca_rt env) checked_order) \<and>
    inspect st (ea_ticket_id a) = Inr claim \<and> ledger_prior claim = Some SENDING \<and>
    (if per_order_confirm_required scope
     then \<exists>cid ids. ea_owner_confirmation_id a = Some cid \<and> consumed_confirmation_ids (ca_rt env) st (ea_ticket_id a) = Inr ids \<and> cid \<in> set ids
     else True)"
proof -
  obtain shape where "send_checks env st a authorization ticket checked_order account_mode = Inr (req, shape)"
    using assms by (auto simp: order_send_def split: sum.splits prod.splits)
  then show ?thesis
  proof (rule send_checks_clean)
    fix pf c claim
    assume s: "preflight_checks env a authorization ''SENT'' account_mode st = Inr pf" "shape = pf_shape pf"
      "checked_order = JDict c" "dget c ''request'' = JDict req"
      "dget (lc_evidence (pf_row pf)) ''checked_order_sha256'' = JStr (evidence_digest (ca_rt env) checked_order)"
      "inspect st (ea_ticket_id a) = Inr claim" "ledger_prior claim = Some SENDING"
      and cf: "per_order_confirm_required (pf_scope pf) \<Longrightarrow> validate_confirmation_evidence (ca_rt env) st a ticket (Some (ca_now_confirm env)) True = Inr []"
    note p = preflight_clean [OF s(1)]
    have cf': "if per_order_confirm_required (pf_scope pf)
      then \<exists>cid ids. ea_owner_confirmation_id a = Some cid \<and> consumed_confirmation_ids (ca_rt env) st (ea_ticket_id a) = Inr ids \<and> cid \<in> set ids else True"
      using cf confirmation_consumed by (cases "per_order_confirm_required (pf_scope pf)") auto
    from p(2) show ?thesis
    proof (rule step_clean)
      fix tr expires
      assume t: "trail (ca_rt env) st (ea_ticket_id a) = Inr tr" "lt_reason_code tr = None" "current tr = Some ''SENT''"
        "state_row tr ''SENT'' = Some (pf_row pf)" "lc_authority_id (pf_row pf) = ea_authority_id a"
        "lc_authorization_id (pf_row pf) = dget authorization ''authorization_id''"
        "parse_iso (py_str (ca_rt env) (dget (lc_evidence (pf_row pf)) ''expires_at_utc'')) = Some expires" "ca_now env < expires"
      from p(4) show ?thesis
        by (rule demo_account_clean) (use t p(3,5,6) adapter_scope_clean(1,8) [OF p(3)] s(3-7) cf' in blast)
    qed
  qed
qed


section \<open>Concrete instances\<close>

definition demo_tick :: "string \<Rightarrow> json res" where
  "demo_tick s = Inr (JDict [(''bid'', JFloat (5 / 4)), (''ask'', JFloat (5 / 4))])"

definition demo_mt_check :: "dict \<Rightarrow> string + json" where
  "demo_mt_check req = Inr (JDict [(''retcode'', JInt 0)])"

definition demo_mt_send :: "dict \<Rightarrow> string + json" where
  "demo_mt_send req = Inr (JDict [(''retcode'', JInt 10009), (''order'', JInt 5501), (''deal'', JInt 7701)])"

definition no_deals :: "int \<Rightarrow> json list option res" where
  "no_deals oid = Inr None"

definition demo_mt5 :: mt5_module where
  "demo_mt5 = \<lparr>mt_account_info = Inr (JDict [(''login'', JStr ''5550999''), (''server'', JStr ''VTMarkets-Demo''), (''trade_mode'', JInt 0)]),
     mt_tick = demo_tick, mt_order_check = demo_mt_check, mt_order_send = demo_mt_send, mt_deals_of_order = no_deals, mt_const = JStr\<rparr>"

definition demo_text_sha :: "string \<Rightarrow> string" where
  "demo_text_sha s = demo_identity"

definition demo_shape :: json where
  "demo_shape = JDict [(''schema'', JStr ORDER_SHAPE_SCHEMA), (''status'', JStr ''OWNER_APPROVED''), (''owner_decision_id'', JStr ''D-9''), (''shape_id'', JStr ''S-1''),
     (''deviation_tag'', JStr ''ONE''), (''analytics_exclusion'', JBool True),
     (''order'', JDict [(''action'', JStr ''DEAL''), (''take_profit_leg'', JInt 1), (''filling'', JStr ''IOC'')])]"

definition demo_adapter :: "nat \<Rightarrow> adapter_env" where
  "demo_adapter i = \<lparr>ca_gate = demo_gate, ca_mt5 = demo_mt5, ca_text_sha = demo_text_sha, ca_shape_file = Some demo_shape,
     ca_now = the (demo_clock i), ca_now_confirm = the (demo_clock i)\<rparr>"

text \<open>The store after the claim and the SENT row.\<close>

definition demo_sent_rows :: "jsonl_line list" where
  "demo_sent_rows = demo_checked_rows @
     [demo_row SENDING ''2026-01-05T10:02:02+00:00'' ''SEND_PENDING'' [(''idempotency_key'', JStr ''T-1'')],
      demo_lc_row ''SENT'' ''2026-01-05T10:02:02+00:00'' ''U2'' (JStr ''CHECKED'')
        ((''checked_order_sha256'', JStr demo_identity) # (''expires_at_utc'', JStr ''2026-01-05T10:17:02+00:00'') # demo_refs)]"

definition demo_step :: dict where
  "demo_step = [(''ticket_id'', JStr ''T-1''), (''state'', JStr ''SENT''), (''authorization_id'', JStr ''G0'')]"

definition demo_checked :: json where
  "demo_checked = JDict [(''retcode'', JInt 0), (''request'', JDict [(''symbol'', JStr ''GBPUSD-VIP'')])]"

theorem canonical_send_requires_witness:
  "\<exists>reply scope tr. order_send (demo_adapter 3) (store_of demo_sent_rows) demo_authority demo_step demo_ticket demo_checked (JStr ''DEMO'') =
       (Some [(''symbol'', JStr ''GBPUSD-VIP'')], reply) \<and>
     adapter_scope (demo_adapter 3) demo_authority = Inr scope \<and> enabled scope \<and>
     trail hex_rt (store_of demo_sent_rows) ''T-1'' = Inr tr \<and> current tr = Some ''SENT''"
proof -
  let ?o = "order_send (demo_adapter 3) (store_of demo_sent_rows) demo_authority demo_step demo_ticket demo_checked (JStr ''DEMO'')"
  have "fst ?o = Some [(''symbol'', JStr ''GBPUSD-VIP'')]" by code_simp
  then obtain reply where o: "?o = (Some [(''symbol'', JStr ''GBPUSD-VIP'')], reply)" by (metis prod.collapse)
  have e: "ca_rt (demo_adapter 3) = hex_rt" "ea_ticket_id demo_authority = ''T-1''"
    by (simp_all add: demo_adapter_def demo_gate_def demo_authority_def)
  from canonical_send_requires [OF o] obtain tr scope where "trail (ca_rt (demo_adapter 3)) (store_of demo_sent_rows) (ea_ticket_id demo_authority) = Inr tr"
    "current tr = Some ''SENT''" "adapter_scope (demo_adapter 3) demo_authority = Inr scope" "enabled scope" by metis
  then show ?thesis using o e by auto
qed

definition canonical_env :: dispatch_env where
  "canonical_env = (demo_dispatch demo_guard)\<lparr>de_broker := canonical_broker (demo_adapter 1) (demo_adapter 2)\<rparr>"

definition confirmed_dispatch :: dispatch_state where
  "confirmed_dispatch = \<lparr>ds_guard = \<lparr>gs_store = store_of demo_confirm_rows, gs_events = []\<rparr>, ds_sends = [], ds_orders = []\<rparr>"

definition demo_target_ticket :: dict where
  "demo_target_ticket = demo_ticket @ [(''targets'', JList [JDict [(''leg'', JInt 1), (''price'', JFloat (81 / 64))]])]"


end
