(* ===== verification/Position_Monitor.thy ===== *)
theory Position_Monitor
  imports Adapter_Safety
begin

text \<open>
  The reconciliation monitor and the recovery after a restart (src/src/demo\_execution/position\_monitor.py).
  Broker objects are dictionaries of their attributes, whose identifiers are integers; a terminal call may
  raise. Each write of a cycle has its own outcome, by ticket and place in the code. Times in a report are
  shown in UTC.
\<close>

section \<open>Environment and reports\<close>

definition DEFAULT_UNKNOWN_TIMEOUT :: int where "DEFAULT_UNKNOWN_TIMEOUT = 15 * 60 * 1000000"
definition DEAL_ENTRY_OUT :: int where "DEAL_ENTRY_OUT = 1"
definition DEAL_REASON_SL :: int where "DEAL_REASON_SL = 4"
definition DEAL_REASON_TP :: int where "DEAL_REASON_TP = 5"
definition ORDER_STATES_NOT_FILLED :: "int list" where "ORDER_STATES_NOT_FILLED = [2, 5, 6]"
definition VOLUME_TOL :: rat where "VOLUME_TOL = fl (1 / 10 ^ 9)"
definition SYSTEM_AUTHORITY :: string where "SYSTEM_AUTHORITY = ''DEMO_RECONCILIATION_MONITOR''"

record monitor_terminal = terminal +
  tm_orders :: "datetime \<Rightarrow> datetime \<Rightarrow> json list option res"

record monitor_env =
  mo_rt :: py_rt
  mo_text_sha :: "string \<Rightarrow> string"
  mo_ny :: "datetime \<Rightarrow> int"
  mo_metadata :: json
  mo_scopes :: "scope_policy list"
  mo_mt5 :: monitor_terminal
  mo_now :: "datetime option"
  mo_timeout :: int
  mo_sink :: bool
  mo_alert :: "(dict \<Rightarrow> string + json) option"
  mo_io :: "string \<Rightarrow> nat \<Rightarrow> append_io"
  mo_stop_io :: append_io

record monitor_report =
  mr_status :: string
  mr_server_day :: "string option"
  mr_tickets :: "(string \<times> dict) list"
  mr_orphans :: "dict list"
  mr_emergency_reasons :: "string list"
  mr_emergency_engaged :: bool
  mr_alerts :: "dict list"

definition empty_report :: "string \<Rightarrow> string option \<Rightarrow> monitor_report" where
  "empty_report st day = \<lparr>mr_status = st, mr_server_day = day, mr_tickets = [], mr_orphans = [], mr_emergency_reasons = [],
     mr_emergency_engaged = False, mr_alerts = []\<rparr>"

definition comment_tag :: "(string \<Rightarrow> string) \<Rightarrow> string \<Rightarrow> string" where
  "comment_tag text_sha tid = ''AG '' @ take 16 (text_sha tid)"

definition tagged :: "string \<Rightarrow> json \<Rightarrow> bool" where
  "tagged tag obj =
     (case get_in obj ''comment'' of JStr s \<Rightarrow> s = tag \<or> take (length tag + 1) s = tag @ '' '' | _ \<Rightarrow> False)"

definition in_magics :: "int list \<Rightarrow> json \<Rightarrow> bool" where
  "in_magics magics obj = list_ex (eq_int (get_in obj ''magic'')) magics"

text \<open>\<open>store.outcomes()\<close>, and the tickets with lifecycle rows in the order of their first row.\<close>

fun lifecycle_ids :: "json list \<Rightarrow> string list res" where
  "lifecycle_ids [] = Inr []"
| "lifecycle_ids (JDict d # rows) =
     res_bind (lifecycle_ids rows) (\<lambda>ids. Inr (case dget d ''ticket_id'' of JStr s \<Rightarrow> if is_lifecycle_row d then s # ids else ids | _ \<Rightarrow> ids))"
| "lifecycle_ids (_ # rows) = Inl AttributeError"

definition ticket_ids :: "ticket_store \<Rightarrow> string list res" where
  "ticket_ids st = res_bind (all_rows (row_stream (ts_outcomes st))) (\<lambda>rows. res_bind (lifecycle_ids rows) (\<lambda>ids. Inr (fromkeys ids)))"

definition last_authority :: "lifecycle_trail \<Rightarrow> string" where
  "last_authority tr = (if lt_states tr = [] then SYSTEM_AUTHORITY else lc_authority_id (last (lt_states tr)))"

section \<open>Restart recovery\<close>

definition halt_args :: "datetime option \<Rightarrow> lifecycle_trail \<Rightarrow> string \<Rightarrow> json \<Rightarrow> lifecycle_args" where
  "halt_args now tr reason halted_from = (la_of now (last_authority tr) JNull [(''halted_from'', halted_from)])\<lparr>la_reason_code := JStr reason\<rparr>"

text \<open>A SENDING claim is marked uncertain.\<close>

definition mark_uncertain :: "py_rt \<Rightarrow> append_io \<Rightarrow> string \<Rightarrow> string \<Rightarrow> datetime option \<Rightarrow> ledger_check \<Rightarrow> ticket_store \<Rightarrow> ticket_store \<times> unit res" where
  "mark_uncertain rt io tid reason now claim st =
     (if ledger_prior claim = Some SENDING
      then (case record_unknown rt io tid (JStr reason) now st of (st', Inl e) \<Rightarrow> (st', Inl e) | (st', Inr _) \<Rightarrow> (st', Inr ()))
      else (st, Inr ()))"

definition before_ack :: "lifecycle_trail \<Rightarrow> bool" where
  "before_ack tr \<longleftrightarrow> lt_reason_code tr = None \<and> current tr \<in> {Some ''AUTHORIZED'', Some ''CHECKED'', Some ''SENT''}"

fun recover_tickets ::
  "py_rt \<Rightarrow> (string \<Rightarrow> nat \<Rightarrow> append_io) \<Rightarrow> datetime option \<Rightarrow> string list \<Rightarrow> (string \<times> string) list \<Rightarrow> ticket_store \<Rightarrow>
   ticket_store \<times> (string \<times> string) list res" where
  "recover_tickets rt io now [] out st = (st, Inr out)"
| "recover_tickets rt io now (tid # tids) out st =
     (case trail rt st tid of
        Inl e \<Rightarrow> (st, Inl e)
      | Inr tr \<Rightarrow>
          if \<not> before_ack tr then recover_tickets rt io now tids out st
          else (case lifecycle_append rt (io tid 0) tid HALT (halt_args now tr ''RESTART_RECOVERY'' (opt_str (current tr))) st of
             (st1, Inl e) \<Rightarrow> (st1, Inl e)
           | (st1, Inr halted) \<Rightarrow>
               (case inspect st1 tid of
                  Inl e \<Rightarrow> (st1, Inl e)
                | Inr claim \<Rightarrow>
                    (case mark_uncertain rt (io tid 1) tid ''RESTART_RECOVERY'' now claim st1 of
                       (st2, Inl e) \<Rightarrow> (st2, Inl e)
                     | (st2, Inr _) \<Rightarrow> recover_tickets rt io now tids (dput tid (tr_reason_code halted) out) st2))))"

definition recover_after_restart ::
  "py_rt \<Rightarrow> (string \<Rightarrow> nat \<Rightarrow> append_io) \<Rightarrow> datetime option \<Rightarrow> ticket_store \<Rightarrow> ticket_store \<times> (string \<times> string) list res" where
  "recover_after_restart rt io now st =
     (case ticket_ids st of Inl e \<Rightarrow> (st, Inl e) | Inr ids \<Rightarrow> recover_tickets rt io now ids [] st)"

section \<open>A tracked position\<close>

definition tracking :: "lifecycle_trail \<Rightarrow> bool" where
  "tracking tr \<longleftrightarrow> lt_reason_code tr = None \<and>
     (current tr \<in> {Some ''BROKER_ACK'', Some ''POSITION_TRACKED''} \<or>
      current tr = Some ''RECONCILED'' \<and> state_row tr ''CLOSED'' = None \<and>
      (case lc_terminal_result (last (lt_states tr)) of JStr s \<Rightarrow> upper s = ''FILLED'' | _ \<Rightarrow> False))"

definition row_evidence :: "lifecycle_state option \<Rightarrow> string \<Rightarrow> json" where
  "row_evidence row k = (case row of None \<Rightarrow> JNull | Some p \<Rightarrow> dget (lc_evidence p) k)"

text \<open>\<open>a or b\<close> of optional numbers.\<close>

definition or_number :: "rat option \<Rightarrow> rat option \<Rightarrow> rat option" where
  "or_number a b = (case a of None \<Rightarrow> b | Some x \<Rightarrow> if x = 0 then b else a)"

definition point_for :: "scope_policy list \<Rightarrow> json \<Rightarrow> rat" where
  "point_for scopes magic = (case find (\<lambda>s. eq_int magic (magic_number s)) (rev scopes) of None \<Rightarrow> 0 | Some s \<Rightarrow> point_size s)"

definition differs :: "rat \<Rightarrow> rat \<Rightarrow> rat \<Rightarrow> bool" where
  "differs x y tol \<longleftrightarrow> tol < \<bar>fsub x y\<bar>"

definition entry_deal :: "json list \<Rightarrow> json option" where
  "entry_deal deals = find (\<lambda>d. eq_int (get_in d ''entry'') DEAL_ENTRY_IN) deals"

definition closing_deals :: "py_rt \<Rightarrow> json \<Rightarrow> json list \<Rightarrow> json list" where
  "closing_deals rt position_id deals =
     (if position_id = JNull then []
      else filter (\<lambda>d. eq_int (get_in d ''entry'') DEAL_ENTRY_OUT \<and> py_str rt (get_in d ''position_id'') = py_str rt position_id) deals)"

definition open_problem :: "scope_policy list \<Rightarrow> lifecycle_trail \<Rightarrow> json list \<Rightarrow> string option" where
  "open_problem scopes tr mine =
     (let fill = (case state_row tr ''BROKER_ACK'' of None \<Rightarrow> state_row tr ''RECONCILED'' | row \<Rightarrow> row);
          expected_volume = or_number (number_or_none (row_evidence fill ''volume'')) (number_or_none (row_evidence (state_row tr ''AUTHORIZED'') ''planned_volume''));
          expected_price = number_or_none (row_evidence fill ''price'');
          position = hd mine;
          volume = number_or_none (get_in position ''volume''); price = number_or_none (get_in position ''price_open'');
          tolerance = fl (point_for scopes (get_in position ''magic'') / 2)
      in if 1 < length mine \<or> expected_volume = None \<or> volume = None \<or> differs (the volume) (the expected_volume) VOLUME_TOL
         then Some ''POSITION_QUANTITY_MISMATCH''
         else if expected_price \<noteq> None \<and> (price = None \<or> differs (the price) (the expected_price) tolerance)
         then Some ''POSITION_PRICE_MISMATCH'' else None)"

definition track_open :: "py_rt \<Rightarrow> scope_policy list \<Rightarrow> lifecycle_trail \<Rightarrow> json list \<Rightarrow> json list \<Rightarrow> json list \<Rightarrow> dict" where
  "track_open rt scopes tr mine_positions mine_deals deals =
     (if mine_positions \<noteq> []
      then [(''state'', JStr ''OPEN''), (''broker_position_id'', get_in (hd mine_positions) ''ticket'')] @
           (case open_problem scopes tr mine_positions of None \<Rightarrow> [] | Some p \<Rightarrow> [(''problem'', JStr p)])
      else
        let known = (case entry_deal mine_deals of None \<Rightarrow> JNull | Some d \<Rightarrow> get_in d ''position_id'');
            from_row = (\<lambda>pid row. case row of None \<Rightarrow> pid | Some p \<Rightarrow> if pid = JNull then lc_broker_position_id p else pid);
            position_id = from_row (from_row known (state_row tr ''POSITION_TRACKED'')) (state_row tr ''RECONCILED'');
            closing = closing_deals rt position_id deals
        in if closing \<noteq> []
           then let reason = get_in (last closing) ''reason'';
                    how = (if eq_int reason DEAL_REASON_SL then ''SL'' else if eq_int reason DEAL_REASON_TP then ''TP'' else ''MANUAL'')
                in [(''state'', JStr ''CLOSED''), (''close'', JStr how), (''broker_deal_id'', get_in (last closing) ''ticket''), (''broker_position_id'', position_id)]
           else [(''state'', JStr ''MISSING''), (''problem'', JStr ''POSITION_MISSING'')])"

section \<open>An unknown send\<close>

definition rejected_order :: "string \<Rightarrow> int list \<Rightarrow> json list \<Rightarrow> json option" where
  "rejected_order tag magics orders =
     find (\<lambda>x. tagged tag x \<and> in_magics magics x \<and> list_ex (eq_int (get_in x ''state'')) ORDER_STATES_NOT_FILLED) orders"

text \<open>The end of the send's own window; \<open>None\<close> when it cannot be read as an aware time.\<close>

definition send_window :: "py_rt \<Rightarrow> lifecycle_trail \<Rightarrow> datetime option" where
  "send_window rt tr = (case state_row tr ''SENT'' of None \<Rightarrow> None | Some p \<Rightarrow> parse_iso (py_str rt (dget (lc_evidence p) ''expires_at_utc'')))"

text \<open>A send without an answer after its window is halted first; the trail is read again.\<close>

definition halt_unanswered ::
  "monitor_env \<Rightarrow> datetime \<Rightarrow> string \<Rightarrow> ledger_check \<Rightarrow> lifecycle_trail \<Rightarrow> ticket_store \<Rightarrow> ticket_store \<times> lifecycle_trail res" where
  "halt_unanswered env now tid claim tr st =
     (if current tr \<noteq> Some ''SENT'' then (st, Inr tr)
      else (case lifecycle_append (mo_rt env) (mo_io env tid 0) tid HALT (halt_args (Some now) tr ''SEND_UNKNOWN_RECONCILE'' (JStr ''SENT'')) st of
         (st1, Inl e) \<Rightarrow> (st1, Inl e)
       | (st1, Inr _) \<Rightarrow>
           (case mark_uncertain (mo_rt env) (mo_io env tid 1) tid ''SEND_UNKNOWN_RECONCILE'' (Some now) claim st1 of
              (st2, Inl e) \<Rightarrow> (st2, Inl e)
            | (st2, Inr _) \<Rightarrow> (st2, trail (mo_rt env) st2 tid))))"

definition reconciled_args :: "datetime \<Rightarrow> string \<Rightarrow> string \<Rightarrow> json \<Rightarrow> json \<Rightarrow> json \<Rightarrow> dict \<Rightarrow> lifecycle_args" where
  "reconciled_args now authority_id result order_id deal_id position_id evidence =
     (la_of (Some now) authority_id JNull evidence)
       \<lparr>la_terminal_result := JStr result, la_broker_order_id := order_id, la_broker_deal_id := deal_id, la_broker_position_id := position_id\<rparr>"

definition record_resolution ::
  "monitor_env \<Rightarrow> string \<Rightarrow> lifecycle_args \<Rightarrow> (transition_result \<Rightarrow> dict) \<Rightarrow> lifecycle_event list \<Rightarrow> guard_state \<Rightarrow> guard_state \<times> dict res" where
  "record_resolution env tid args report events gs =
     (case lifecycle_append (mo_rt env) (mo_io env tid 2) tid ''RECONCILED'' args (gs_store gs) of
        (st', Inl e) \<Rightarrow> (gs\<lparr>gs_store := st'\<rparr>, Inl e)
      | (st', Inr r) \<Rightarrow> (if recorded r then fold (emit_event (mo_sink env)) events (gs\<lparr>gs_store := st'\<rparr>) else gs\<lparr>gs_store := st'\<rparr>, Inr (report r)))"

text \<open>What the broker's history says of the send: the first that applies.\<close>

datatype resolution = ResFilled json | ResRejected json | ResNotSent json | ResUnknown

definition resolution_of :: "int list \<Rightarrow> string \<Rightarrow> bool \<Rightarrow> json \<Rightarrow> json list \<Rightarrow> json list \<Rightarrow> resolution" where
  "resolution_of magics tag sending halted_from mine_deals orders =
     (case entry_deal mine_deals of
        Some d \<Rightarrow> ResFilled d
      | None \<Rightarrow>
          (case rejected_order tag magics orders of
             Some x \<Rightarrow> ResRejected x
           | None \<Rightarrow> if \<not> sending \<and> halted_from \<in> {JStr ''AUTHORIZED'', JStr ''CHECKED''} then ResNotSent halted_from else ResUnknown))"

definition settle_unknown ::
  "monitor_env \<Rightarrow> datetime \<Rightarrow> string \<Rightarrow> lifecycle_trail \<Rightarrow> resolution \<Rightarrow> guard_state \<Rightarrow> guard_state \<times> dict res" where
  "settle_unknown env now tid tr res gs =
     (let rt = mo_rt env; au = last_authority tr; txt = (\<lambda>obj k. JStr (py_str rt (get_in obj k)))
      in case res of
           ResFilled d \<Rightarrow>
             record_resolution env tid
               (reconciled_args now au ''FILLED'' (txt d ''order'') (txt d ''ticket'') (txt d ''position_id'')
                  [(''source'', JStr ''history_deals_get''), (''volume'', get_in d ''volume''), (''price'', get_in d ''price'')])
               (\<lambda>r. [(''state'', JStr ''FILLED''), (''resolution'', JStr (tr_reason_code r)), (''resubmission'', JStr ''NEVER'')])
               [(event ''FILLED'' tid (Some now))
                  \<lparr>ev_broker_order_id := txt d ''order'', ev_broker_deal_id := txt d ''ticket'', ev_broker_position_id := txt d ''position_id''\<rparr>] gs
         | ResRejected x \<Rightarrow>
             record_resolution env tid
               (reconciled_args now au ''REJECTED'' (txt x ''ticket'') JNull JNull
                  [(''source'', JStr ''history_orders_get''), (''order_state'', get_in x ''state'')])
               (\<lambda>r. [(''state'', JStr ''REJECTED''), (''resolution'', JStr (tr_reason_code r)), (''resubmission'', JStr ''NEVER'')]) [] gs
         | ResNotSent halted_from \<Rightarrow>
             record_resolution env tid (reconciled_args now au ''NOT_SENT'' JNull JNull JNull [(''halted_from'', halted_from)])
               (\<lambda>r. [(''state'', JStr ''NOT_SENT''), (''resolution'', JStr (tr_reason_code r))]) [] gs
         | ResUnknown \<Rightarrow>
             let since = (case state_row tr HALT of None \<Rightarrow> now | Some p \<Rightarrow> lc_recorded_at_utc p)
             in (gs, Inr ([(''state'', JStr ''UNKNOWN''), (''unknown_since_utc'', JStr (iso_datetime since)), (''resubmission'', JStr ''NEVER'')] @
                          (if mo_timeout env \<le> now - since then [(''problem'', JStr ''SEND_UNKNOWN_TIMEOUT'')] else []))))"

definition resolve_unknown ::
  "monitor_env \<Rightarrow> datetime \<Rightarrow> int list \<Rightarrow> string \<Rightarrow> lifecycle_trail \<Rightarrow> json list \<Rightarrow> json list \<Rightarrow> guard_state \<Rightarrow> guard_state \<times> dict res" where
  "resolve_unknown env now magics tid tr mine_deals orders gs =
     (case inspect (gs_store gs) tid of
        Inl e \<Rightarrow> (gs, Inl e)
      | Inr claim \<Rightarrow>
          let sending = (ledger_prior claim \<in> {Some SENDING, Some UNCERTAIN});
              halted_from = (case state_row tr HALT of None \<Rightarrow> opt_str (current tr) | Some p \<Rightarrow> dget (lc_evidence p) ''halted_from'');
              in_flight = (case send_window (mo_rt env) tr of None \<Rightarrow> None | Some t \<Rightarrow> if current tr = Some ''SENT'' \<and> now < t then Some t else None)
          in (case in_flight of
                Some t \<Rightarrow> (gs, Inr [(''state'', JStr ''PENDING''), (''in_flight_until_utc'', JStr (iso_datetime t))])
              | None \<Rightarrow>
                  (case halt_unanswered env now tid claim tr (gs_store gs) of
                     (st', Inl e) \<Rightarrow> (gs\<lparr>gs_store := st'\<rparr>, Inl e)
                   | (st', Inr tr') \<Rightarrow>
                       settle_unknown env now tid tr'
                         (resolution_of magics (comment_tag (mo_text_sha env) tid) sending halted_from mine_deals orders) (gs\<lparr>gs_store := st'\<rparr>))))"

section \<open>The cycle\<close>

record broker_view =
  bv_positions :: "json list"
  bv_deals :: "json list"
  bv_orders :: "json list"

definition mine :: "monitor_env \<Rightarrow> string \<Rightarrow> json list \<Rightarrow> json list" where
  "mine env tid objs = filter (\<lambda>x. tagged (comment_tag (mo_text_sha env) tid) x \<and> in_magics (map magic_number (mo_scopes env)) x) objs"

definition ticket_report ::
  "monitor_env \<Rightarrow> datetime \<Rightarrow> broker_view \<Rightarrow> string \<Rightarrow> lifecycle_trail \<Rightarrow> guard_state \<Rightarrow> guard_state \<times> dict res" where
  "ticket_report env now bv tid tr gs =
     (let mine_deals = mine env tid (bv_deals bv); mine_positions = mine env tid (bv_positions bv);
          start = [(''lifecycle'', opt_str (current tr))]
      in case lt_reason_code tr of
           Some reason \<Rightarrow> (gs, Inr (start @ [(''state'', JStr ''UNKNOWN''), (''reason'', JStr reason)]))
         | None \<Rightarrow>
             if tracking tr then (gs, Inr (dupdate start (track_open (mo_rt env) (mo_scopes env) tr mine_positions mine_deals (bv_deals bv))))
             else if current tr \<in> {Some ''CLOSED'', Some ''RECONCILED''}
             then (let result = lc_terminal_result (last (lt_states tr))
                   in (gs, Inr (start @
                        [(''state'', if current tr = Some ''CLOSED'' then JStr ''CLOSED'' else if truthy result then result else JStr ''RECONCILED'')] @
                        (if mine_positions \<noteq> [] then [(''problem'', JStr ''POSITION_AFTER_CLOSE'')] else []))))
             else if current tr \<in> {Some ''SENT'', Some HALT}
             then (case resolve_unknown env now (map magic_number (mo_scopes env)) tid tr mine_deals (bv_orders bv) gs of
                (gs', Inl e) \<Rightarrow> (gs', Inl e)
              | (gs', Inr rep) \<Rightarrow> (gs', Inr (dupdate start rep)))
             else (gs, Inr (start @ [(''state'', JStr ''PENDING'')])))"

record cycle_acc =
  cy_tickets :: "(string \<times> dict) list"
  cy_problems :: "(string \<times> string) list"
  cy_claimed :: "json list"

definition problem_of :: "string \<Rightarrow> dict \<Rightarrow> (string \<times> string) list" where
  "problem_of tid report = (case dget report ''problem'' of JStr p \<Rightarrow> [(p, tid)] | _ \<Rightarrow> [])"

fun monitor_tickets ::
  "monitor_env \<Rightarrow> datetime \<Rightarrow> broker_view \<Rightarrow> (string \<times> lifecycle_trail) list \<Rightarrow> cycle_acc \<Rightarrow> guard_state \<Rightarrow> guard_state \<times> cycle_acc res" where
  "monitor_tickets env now bv [] acc gs = (gs, Inr acc)"
| "monitor_tickets env now bv ((tid, tr) # rest) acc gs =
     (case ticket_report env now bv tid tr gs of
        (gs', Inl e) \<Rightarrow> (gs', Inl e)
      | (gs', Inr report) \<Rightarrow>
          monitor_tickets env now bv rest
            (acc\<lparr>cy_tickets := dput tid report (cy_tickets acc), cy_problems := cy_problems acc @ problem_of tid report,
                 cy_claimed := cy_claimed acc @ map (\<lambda>p. get_in p ''ticket'') (mine env tid (bv_positions bv))\<rparr>) gs')"

fun read_trails :: "py_rt \<Rightarrow> ticket_store \<Rightarrow> string list \<Rightarrow> (string \<times> lifecycle_trail) list res" where
  "read_trails rt st [] = Inr []"
| "read_trails rt st (tid # tids) = res_bind (trail rt st tid) (\<lambda>tr. res_bind (read_trails rt st tids) (\<lambda>rest. Inr ((tid, tr) # rest)))"

text \<open>The start of the window: the server's midnight, or the oldest send that is still tracked or unresolved.\<close>

fun window_start :: "monitor_env \<Rightarrow> lifecycle_trail list \<Rightarrow> datetime \<Rightarrow> datetime res" where
  "window_start env [] start = Inr start"
| "window_start env (tr # trs) start =
     (case state_row tr ''SENT'' of
        None \<Rightarrow> window_start env trs start
      | Some p \<Rightarrow>
          if tracking tr \<or> current tr \<in> {Some ''SENT'', Some HALT}
          then res_bind (server_clock (mo_ny env) (mo_metadata env) (Some (lc_recorded_at_utc p))) (\<lambda>c.
            window_start env trs (case c of None \<Rightarrow> start | Some t \<Rightarrow> if t < start then t else start))
          else window_start env trs start)"

definition read_broker :: "monitor_terminal \<Rightarrow> datetime \<Rightarrow> datetime \<Rightarrow> broker_view option" where
  "read_broker tm start until =
     (case (tm_positions tm, tm_deals tm start until, tm_orders tm start until) of
        (Inr (Some ps), Inr (Some ds), Inr (Some os)) \<Rightarrow> Some \<lparr>bv_positions = ps, bv_deals = ds, bv_orders = os\<rparr>
      | _ \<Rightarrow> None)"

definition orphan_report :: "json \<Rightarrow> dict" where
  "orphan_report p = [(''position'', get_in p ''ticket''), (''symbol'', get_in p ''symbol''), (''magic'', get_in p ''magic''),
     (''comment'', get_in p ''comment''), (''volume'', get_in p ''volume'')]"

definition orphans :: "monitor_env \<Rightarrow> broker_view \<Rightarrow> json list \<Rightarrow> dict list" where
  "orphans env bv taken =
     map orphan_report (filter (\<lambda>p. in_magics (map magic_number (mo_scopes env)) p \<and> get_in p ''ticket'' \<notin> set taken) (bv_positions bv))"

definition deliver :: "(dict \<Rightarrow> string + json) option \<Rightarrow> dict \<Rightarrow> json" where
  "deliver alert message =
     (case alert of
        None \<Rightarrow> JStr ''NO_ALERT_SINK''
      | Some f \<Rightarrow> (case f message of Inl err \<Rightarrow> JStr (''ALERT_FAILED:'' @ err) | Inr v \<Rightarrow> v))"

definition problem_items :: "(string \<times> string) list \<Rightarrow> json" where
  "problem_items problems = JList (map (\<lambda>(r, x). JList [JStr r, JStr x]) problems)"

text \<open>The stop is engaged once; while it stands no alert is repeated.\<close>

definition raise_stop ::
  "monitor_env \<Rightarrow> datetime \<Rightarrow> string \<Rightarrow> (string \<times> string) list \<Rightarrow> guard_state \<Rightarrow> guard_state \<times> (bool \<times> dict list) res" where
  "raise_stop env now day problems gs =
     (case status (mo_rt env) (gs_store gs) of
        Inl e \<Rightarrow> (gs, Inl e)
      | Inr s \<Rightarrow>
          if problems = [] \<or> engaged s then (gs, Inr (engaged s, []))
          else
            let reasons = fromkeys (map fst problems)
            in (case engage (mo_rt env) (mo_stop_io env) (JStr (hd reasons)) (Some now) [(''problems'', problem_items problems)] (gs_store gs) of
                  (st', Inl e) \<Rightarrow> (gs\<lparr>gs_store := st'\<rparr>, Inl e)
                | (st', Inr ok) \<Rightarrow>
                    let message = [(''kind'', JStr ''DEMO_EMERGENCY_STOP''), (''server_day'', JStr day), (''reasons'', JList (map JStr reasons)),
                                   (''items'', problem_items problems), (''broker_action'', JStr ''NONE'')]
                    in (gs\<lparr>gs_store := st'\<rparr>, Inr (ok, [message @ [(''delivered'', deliver (mo_alert env) message)]]))))"

definition run_reconciliation :: "monitor_env \<Rightarrow> datetime \<Rightarrow> string \<Rightarrow> broker_view \<Rightarrow> (string \<times> lifecycle_trail) list \<Rightarrow> guard_state \<Rightarrow> guard_state \<times> monitor_report res" where
  "run_reconciliation env now day bv trails gs =
     (case monitor_tickets env now bv trails \<lparr>cy_tickets = [], cy_problems = [], cy_claimed = []\<rparr> gs of
        (gs1, Inl e) \<Rightarrow> (gs1, Inl e)
      | (gs1, Inr acc) \<Rightarrow>
          let orphan_list = orphans env bv (cy_claimed acc);
              problems = cy_problems acc @ map (\<lambda>x. (''POSITION_ORPHAN'', py_str (mo_rt env) (dget x ''position''))) orphan_list
          in (case raise_stop env now day problems gs1 of
                (gs2, Inl e) \<Rightarrow> (gs2, Inl e)
              | (gs2, Inr (engaged_now, alerts)) \<Rightarrow>
                  (gs2, Inr \<lparr>mr_status = ''OK'', mr_server_day = Some day, mr_tickets = cy_tickets acc, mr_orphans = orphan_list,
                    mr_emergency_reasons = fromkeys (map fst problems), mr_emergency_engaged = engaged_now, mr_alerts = alerts\<rparr>)))"

definition run_cycle :: "monitor_env \<Rightarrow> guard_state \<Rightarrow> guard_state \<times> monitor_report res" where
  "run_cycle env gs =
     (case server_clock (mo_ny env) (mo_metadata env) (mo_now env) of
        Inl e \<Rightarrow> (gs, Inl e)
      | Inr None \<Rightarrow> (gs, Inr (empty_report ''MONITOR_SERVER_DAY_UNAVAILABLE'' None))
      | Inr (Some clock_now) \<Rightarrow>
          let now = the (mo_now env); day = date_of clock_now
          in (case res_bind (ticket_ids (gs_store gs)) (read_trails (mo_rt env) (gs_store gs)) of
                Inl e \<Rightarrow> (gs, Inl e)
              | Inr trails \<Rightarrow>
                  (case window_start env (map snd trails) (midnight day) of
                     Inl e \<Rightarrow> (gs, Inl e)
                   | Inr start \<Rightarrow>
                       (case read_broker (mo_mt5 env) start clock_now of
                          None \<Rightarrow> (gs, Inr (empty_report ''BROKER_DATA_UNAVAILABLE'' (Some (iso_date day))))
                        | Some bv \<Rightarrow> run_reconciliation env now (iso_date day) bv trails gs))))"

end
