(* ===== verification/Monitor_Safety.thy ===== *)
theory Monitor_Safety
  imports Position_Monitor
begin

text \<open>
  What the monitor and the recovery may write, that they never enable a second send, that recovery halts
  every ticket a crash left before its acknowledgement, and that a problem found stops new orders.
\<close>

section \<open>Lemmas: what is written\<close>

text \<open>Steps that write no row of the emergency stop.\<close>

abbreviation quiet :: "dict \<Rightarrow> bool" where
  "quiet fs \<equiv> \<not> kind_is STOP_KIND fs"

abbreviation quiet_steps :: "py_rt \<Rightarrow> ticket_store \<Rightarrow> ticket_store \<Rightarrow> bool" where
  "quiet_steps rt \<equiv> rtranclp (written rt quiet)"

lemma quiet_built: "quiet_steps rt st st' \<Longrightarrow> built_steps rt st st'"
  by (erule rtranclp_mono [THEN predicate2D, rotated]) (auto intro: built_stepI)

lemma lifecycle_append_kind: "lifecycle_append rt io tid s a st = (st', r) \<Longrightarrow> written rt (kind_is LIFECYCLE_KIND) st st'"
  by (erule lifecycle_append_cases) (auto simp: admitted_def kind_is_def intro: writtenI)

lemma lifecycle_append_quiet: "lifecycle_append rt io tid s a st = (st', r) \<Longrightarrow> quiet_steps rt st st'"
  by (drule lifecycle_append_kind) (auto simp: kind_is_def LIFECYCLE_KIND_def STOP_KIND_def elim!: written_mono)

lemma mark_uncertain_kind: "mark_uncertain rt io tid reason now claim st = (st', r) \<Longrightarrow> written rt (kind_is UNCERTAIN) st st'"
  using unknown_written [of rt st io tid "JStr reason" now] by (auto simp: mark_uncertain_def split: if_splits prod.splits sum.splits)

lemma mark_uncertain_quiet: "mark_uncertain rt io tid reason now claim st = (st', r) \<Longrightarrow> quiet_steps rt st st'"
  by (drule mark_uncertain_kind) (auto simp: kind_is_def UNCERTAIN_def STOP_KIND_def elim!: written_mono)

lemmas monitor_writes = lifecycle_append_quiet mark_uncertain_quiet

lemma recover_tickets_quiet: "recover_tickets rt io now tids out st = (st', r) \<Longrightarrow> quiet_steps rt st st'"
proof (induction tids arbitrary: out st)
  case (Cons tid tids)
  from Cons.prems show ?case
    by (auto dest!: monitor_writes Cons.IH intro: rtranclp_trans split: sum.splits if_splits prod.splits)
qed simp

lemma recover_quiet: "recover_after_restart rt io now st = (st', r) \<Longrightarrow> quiet_steps rt st st'"
  by (auto simp: recover_after_restart_def dest: recover_tickets_quiet split: sum.splits)

lemma halt_unanswered_quiet: "halt_unanswered env now tid claim tr st = (st', r) \<Longrightarrow> quiet_steps (mo_rt env) st st'"
  by (auto simp: halt_unanswered_def dest!: monitor_writes intro: rtranclp_trans split: if_splits prod.splits sum.splits)

lemma record_resolution_quiet: "record_resolution env tid args f es gs = (gs', r) \<Longrightarrow> quiet_steps (mo_rt env) (gs_store gs) (gs_store gs')"
  by (auto simp: record_resolution_def dest!: monitor_writes split: prod.splits sum.splits if_splits)

lemma settle_unknown_quiet: "settle_unknown env now tid tr res gs = (gs', r) \<Longrightarrow> quiet_steps (mo_rt env) (gs_store gs) (gs_store gs')"
  by (cases res) (auto simp: settle_unknown_def Let_def dest: record_resolution_quiet)

lemma resolve_unknown_quiet:
  "resolve_unknown env now magics tid tr ds os gs = (gs', r) \<Longrightarrow> quiet_steps (mo_rt env) (gs_store gs) (gs_store gs')"
  by (auto simp: resolve_unknown_def Let_def dest!: halt_unanswered_quiet settle_unknown_quiet intro: rtranclp_trans
      split: sum.splits option.splits prod.splits if_splits)

lemma ticket_report_quiet: "ticket_report env now bv tid tr gs = (gs', r) \<Longrightarrow> quiet_steps (mo_rt env) (gs_store gs) (gs_store gs')"
  by (auto simp: ticket_report_def Let_def dest: resolve_unknown_quiet split: option.splits if_splits prod.splits sum.splits)

lemma monitor_tickets_quiet: "monitor_tickets env now bv trs acc gs = (gs', r) \<Longrightarrow> quiet_steps (mo_rt env) (gs_store gs) (gs_store gs')"
  by (induction env now bv trs acc gs arbitrary: gs' r rule: monitor_tickets.induct)
     (force dest: ticket_report_quiet intro: rtranclp_trans split: prod.splits sum.splits)+

lemma raise_stop_built: "raise_stop env now day ps gs = (gs', r) \<Longrightarrow> built_step (mo_rt env) (gs_store gs) (gs_store gs')"
  using engage_written [THEN built_stepI, of "mo_rt env" "gs_store gs"]
  by (auto simp: raise_stop_def Let_def split: sum.splits if_splits prod.splits) (metis fst_conv)+

lemma run_cycle_built: "run_cycle env gs = (gs', r) \<Longrightarrow> built_steps (mo_rt env) (gs_store gs) (gs_store gs')"
  by (auto simp: run_cycle_def run_reconciliation_def Let_def dest!: monitor_tickets_quiet [THEN quiet_built] raise_stop_built
      intro: rtranclp.rtrancl_into_rtrancl split: sum.splits option.splits prod.splits)

section \<open>Histories of a host\<close>

text \<open>Order attempts and guarded calls, reconciliation cycles and restarts, in any order.\<close>

datatype host_call =
    HostOrder dispatch_call
  | HostCycle monitor_env
  | HostRestart py_rt "string \<Rightarrow> nat \<Rightarrow> append_io" "datetime option"

fun host_under :: "py_rt \<Rightarrow> host_call \<Rightarrow> bool" where
  "host_under rt (HostOrder c) \<longleftrightarrow> runs_under rt c"
| "host_under rt (HostCycle env) \<longleftrightarrow> mo_rt env = rt"
| "host_under rt (HostRestart rt' io now) \<longleftrightarrow> rt' = rt"

fun host_step :: "host_call \<Rightarrow> dispatch_state \<Rightarrow> dispatch_state" where
  "host_step (HostOrder c) ds = dispatch_step c ds"
| "host_step (HostCycle env) ds = ds\<lparr>ds_guard := fst (run_cycle env (ds_guard ds))\<rparr>"
| "host_step (HostRestart rt io now) ds = ds\<lparr>ds_guard := (ds_guard ds)\<lparr>gs_store := fst (recover_after_restart rt io now (gs_store (ds_guard ds)))\<rparr>\<rparr>"

definition host_sends :: "string \<Rightarrow> host_call \<Rightarrow> dispatch_state \<Rightarrow> bool" where
  "host_sends tid c ds \<longleftrightarrow> ds_sends (host_step c ds) = ds_sends ds @ [tid]"

lemma host_step_facts:
  assumes "host_under rt c" "inj (sha rt)" "sealed_store rt (gs_store (ds_guard ds))"
  shows "built_steps rt (gs_store (ds_guard ds)) (gs_store (ds_guard (host_step c ds)))"
    "host_sends tid c ds \<Longrightarrow> \<not> claimed (gs_store (ds_guard ds)) tid \<and> claimed (gs_store (ds_guard (host_step c ds))) tid"
    "ds_sends (host_step c ds) = ds_sends ds \<or> (\<exists>k. host_sends k c ds)"
proof -
  let ?st = "gs_store (ds_guard ds)" and ?st' = "gs_store (ds_guard (host_step c ds))"
  have "built_steps rt ?st ?st' \<and> (host_sends tid c ds \<longrightarrow> \<not> claimed ?st tid \<and> claimed ?st' tid) \<and>
    (ds_sends (host_step c ds) = ds_sends ds \<or> (\<exists>k. host_sends k c ds))"
  proof (cases c)
    case (HostOrder d)
    then show ?thesis using dispatch_step_facts [of rt d ds] assms by (auto simp: host_sends_def sends_order_def)
  next
    case (HostCycle env)
    then show ?thesis using run_cycle_built [of env "ds_guard ds"] assms(1) by (cases "run_cycle env (ds_guard ds)") (auto simp: host_sends_def)
  next
    case (HostRestart rt' io now)
    then show ?thesis using recover_quiet [THEN quiet_built, of rt' io now ?st] assms(1)
      by (cases "recover_after_restart rt' io now ?st") (auto simp: host_sends_def)
  qed
  then show "built_steps rt ?st ?st'" "host_sends tid c ds \<Longrightarrow> \<not> claimed ?st tid \<and> claimed ?st' tid"
    "ds_sends (host_step c ds) = ds_sends ds \<or> (\<exists>k. host_sends k c ds)" by blast+
qed

definition host_run :: "py_rt \<Rightarrow> host_call \<Rightarrow> dispatch_state \<Rightarrow> dispatch_state" where
  "host_run rt c ds = (if host_under rt c then host_step c ds else ds)"

definition host_grants :: "py_rt \<Rightarrow> string \<Rightarrow> host_call \<Rightarrow> dispatch_state \<Rightarrow> bool" where
  "host_grants rt tid c ds \<longleftrightarrow> host_under rt c \<and> host_sends tid c ds"

interpretation hosting: one_shot "\<lambda>ds. guard_inv rt (ds_guard ds)" "host_run rt" "host_grants rt" "\<lambda>ds. claimed (gs_store (ds_guard ds))" for rt
proof unfold_locales
  fix ds :: dispatch_state and c tid assume i: "guard_inv rt (ds_guard ds)"
  note f = host_step_facts [of rt c ds] and i' = i [unfolded guard_inv_def]
  show "guard_inv rt (ds_guard (host_run rt c ds))"
    using i' built_steps_sealed [OF f(1)] by (auto simp: guard_inv_def host_run_def)
  show "claimed (gs_store (ds_guard ds)) tid \<Longrightarrow> claimed (gs_store (ds_guard (host_run rt c ds))) tid"
    using i' built_steps_claimed [OF f(1)] by (simp add: host_run_def)
  show "host_grants rt tid c ds \<Longrightarrow> \<not> claimed (gs_store (ds_guard ds)) tid"
    "host_grants rt tid c ds \<Longrightarrow> claimed (gs_store (ds_guard (host_run rt c ds))) tid"
    using f(2) i' by (auto simp: host_grants_def host_run_def)
qed

lemma count_host_sends:
  assumes "\<forall>c \<in> set calls. host_under rt c" "guard_inv rt (ds_guard ds)"
  shows "count_list (ds_sends (fold host_step calls ds)) tid = count_list (ds_sends ds) tid + count_calls (host_grants rt tid) (host_run rt) calls ds"
  using assms
proof (induction calls arbitrary: ds)
  case (Cons c calls)
  have r: "host_under rt c" using Cons.prems by simp
  have o: "host_run rt c ds = host_step c ds" using r by (simp add: host_run_def)
  have i: "guard_inv rt (ds_guard (host_step c ds))" using hosting.inv_step [OF Cons.prems(2), of c] by (simp add: o)
  have "count_list (ds_sends (host_step c ds)) tid = count_list (ds_sends ds) tid + (if host_grants rt tid c ds then 1 else 0)"
    using host_step_facts(3) [of rt c ds] r Cons.prems(2) by (auto simp: host_grants_def host_sends_def guard_inv_def)
  then show ?case using Cons.IH [OF _ i] Cons.prems(1) by (simp add: o)
qed simp

section \<open>Lemmas: a readable store\<close>

lemma trusted_trail_readable:
  assumes "trail rt st tid = Inr tr" "lt_reason_code tr = None"
  obtains rs where "non_blank tid" "outcomes st tid = Inr rs" "parse_rows rt (filter is_lifecycle_row rs) = Inr (Some (lt_states tr))"
    "check_order None [] (lt_states tr) = None"
  using assms by (auto simp: trail_def untrusted_def split: if_splits sum.splits option.splits)

lemma trusted_store_rows:
  assumes "trusted_store rt st"
  shows "\<forall>e \<in> set (row_stream (ts_outcomes st)). \<exists>d. e = Some (JDict d)"
proof -
  have "non_blank ''T''" by (simp add: non_blank_iff is_space_def)
  then obtain tr where "trail rt st ''T'' = Inr tr" "lt_reason_code tr = None" using assms by (auto simp: trusted_store_def)
  then obtain rs where "outcomes st ''T'' = Inr rs" by (rule trusted_trail_readable)
  then show ?thesis using select_rows_ok_iff unfolding outcomes_def by blast
qed

lemma trusted_store_reads: "trusted_store rt st \<Longrightarrow> \<exists>rs. outcomes st tid = Inr rs"
  unfolding outcomes_def select_rows_ok_iff by (rule trusted_store_rows)

text \<open>On a readable store an append of a built record returns, or raises only what its callers catch.\<close>

lemma append_raises_caught:
  assumes "trusted_store rt st" "build_outcome rt fs = Inr d" "append_outcome rt' io d st = (st', Inl e)"
  shows "write_caught e"
proof -
  let ?f = "file_at (ts_outcomes st) (outcome_path rt' d)"
  have rows: "\<exists>r. x = Some (JDict r)" if "x \<in> set (read_jsonl ?f)" for x
  proof -
    have "(outcome_path rt' d, ?f) \<in> set (files (ts_outcomes st))"
      using that by (intro files_file_at) (auto simp: read_jsonl_def split: if_splits)
    then have "x \<in> set (row_stream (ts_outcomes st))" using that by (force simp: row_stream_def)
    then show ?thesis using trusted_store_rows [OF assms(1)] by blast
  qed
  have id: "map_of d ''outcome_id'' \<noteq> None" using assms(2) by (auto simp: build_outcome_def seal_def Let_def project_def OUTCOME_FIELDS_def split: if_splits)
  have scan: "e' = TicketStoreConflict" if "\<forall>x \<in> set es. \<exists>r. x = Some (JDict r)" "scan_existing ''outcome_id'' d es = Inl e'" for es e'
    using that id by (induction "''outcome_id''" d es rule: scan_existing.induct) (auto split: option.splits if_splits)
  have "append_row io (outcome_path rt' d) ''outcome_id'' d (ts_outcomes st) = (u, Inl e') \<Longrightarrow> write_caught e'" for u e'
    using scan [of "read_jsonl ?f"] rows by (auto simp: append_row_def split: sum.splits bool.splits append_io.splits)
  then show ?thesis using assms(3) by (auto simp: append_outcome_def split: if_splits prod.splits)
qed

lemma lifecycle_append_returns:
  assumes "trusted_store rt st" "lifecycle_append rt io tid s a st = (st', res)"
  shows "\<exists>r. res = Inr r"
proof (cases "refuse_input rt tid s a")
  case None
  note i = input_ok [OF None]
  obtain tr where t: "trail rt st tid = Inr tr" using assms(1) i(1) by (auto simp: trusted_store_def)
  show ?thesis
  proof (cases "refuse_transition tr s (the (la_now_utc a)) a")
    case ok: None
    let ?fs = "outcome_args tid LIFECYCLE_KIND (iso_datetime (the (la_now_utc a))) s
      (JDict (payload_of tid s (current tr) (the (la_now_utc a)) a)) ''demo_execution.lifecycle.ExecutionLifecycle.append''"
    obtain d where d: "build_outcome rt ?fs = Inr d"
      using build_outcome_args [OF non_blank_not_Nil [OF i(1)], of LIFECYCLE_KIND] unfolding LIFECYCLE_KIND_def by blast
    obtain u v where uv: "append_outcome rt io d st = (u, v)" by fastforce
    show ?thesis using assms(2) None t ok d uv append_raises_caught [OF assms(1) d, of rt io u]
      by (auto simp: lifecycle_append_def Let_def split: sum.splits bool.splits if_splits)
  qed (use assms(2) None t in \<open>auto simp: lifecycle_append_def\<close>)
qed (use assms(2) in \<open>auto simp: lifecycle_append_def\<close>)

text \<open>An untorn append of another kind keeps every trail.\<close>

lemma other_kind_keeps:
  assumes "trusted_store rt st" "build_outcome rt fs = Inr d" "kind_is k fs" "k \<noteq> LIFECYCLE_KIND" "append_outcome rt io d st = (st', r)" "io \<noteq> Torn"
  shows "trusted_store rt st'" "trail rt st' tid = trail rt st tid"
proof -
  note f = build_outcome_fields [OF assms(2)]
  have w: "wf_dict (ts_outcomes st)" "placed st" using assms(1) by (auto simp: trusted_store_def)
  have "dget (stored_row d) ''outcome_kind'' = JStr k" using f(4) [of "''outcome_kind''"] assms(3) by (simp add: dget_stored_row [OF f(1)] kind_is_def)
  then have n: "\<not> is_lifecycle_row (stored_row d)" using assms(4) by (simp add: is_lifecycle_row_def)
  have same: "trail rt st' t = trail rt st t" for t
  proof -
    obtain rs where rs: "outcomes st t = Inr rs" using trusted_store_reads [OF assms(1)] by blast
    from append_outcome_untorn [OF assms(5,6)] consider "ts_outcomes st' = ts_outcomes st" | "ts_outcomes st' = add_line (outcome_path rt d) d (ts_outcomes st)" by blast
    then show ?thesis
    proof cases
      case 1
      show ?thesis by (rule trail_cong, rule outcomes_eqI, rule 1)
    next
      case 2
      from outcomes_insert [OF w(1) f(1) 2 rs] obtain a b where "rs = a @ b"
        "outcomes st' t = Inr (a @ (if of_ticket (stored_row d) t then [stored_row d] else []) @ b)" by blast
      with rs n show ?thesis by (simp add: trail_def)
    qed
  qed
  show "trail rt st' tid = trail rt st tid" by (rule same)
  have "written rt (kind_is k) st st'" by (rule writtenI [where fs = fs and d = d and io = io and r = r]) (rule assms)+
  from built_step_wf [OF built_stepI [OF this] w(1)] written_placed [OF this assms(4) w(2)] same assms(1)
  show "trusted_store rt st'" by (simp add: trusted_store_def)
qed

lemma unknown_cases:
  assumes "trusted_store rt st" "record_unknown rt io tid (JStr reason) now st = (st', res)"
  obtains (stays) c where "st' = st" "res = Inr c"
  | (writes) fs d x c where "build_outcome rt fs = Inr d" "kind_is UNCERTAIN fs" "append_outcome rt io d st = (st', x)" "res = Inr c"
proof (cases "st' = st \<and> (\<exists>c. res = Inr c)")
  case False
  obtain rs where rs: "outcomes st tid = Inr rs" using trusted_store_reads [OF assms(1)] by blast
  obtain t where t: "now = Some t" using False assms(2) by (cases now) (auto simp: record_unknown_def)
  have nb: "non_blank tid" using False assms(2) t by (auto simp: record_unknown_def split: if_splits)
  let ?fs = "outcome_args tid UNCERTAIN (iso_datetime t) ''UNKNOWN''
    (JDict [(''idempotency_key'', JStr tid), (''lifecycle_state'', JStr ''HALT''), (''reason_code'', JStr reason)])
    ''demo_execution.idempotency.ExecutionLedger.record_unknown''"
  obtain d where d: "build_outcome rt ?fs = Inr d"
    using build_outcome_args [OF non_blank_not_Nil [OF nb], of UNCERTAIN] unfolding UNCERTAIN_def by blast
  obtain u v where uv: "append_outcome rt io d st = (u, v)" by fastforce
  note c = append_raises_caught [OF assms(1) d, of rt io u]
  have "st' = u" "\<exists>c. res = Inr c"
    using False assms(2) t d uv rs c
    by (auto simp: record_unknown_def execution_rows_def Let_def split: if_splits sum.splits)
  then obtain c where "st' = u" "res = Inr c" by blast
  with writes [OF d] uv show thesis by (simp add: kind_is_def)
qed (use stays in blast)

lemma mark_uncertain_keeps:
  assumes "trusted_store rt st" "mark_uncertain rt io tid reason now claim st = (st', r)" "io \<noteq> Torn"
  shows "trusted_store rt st' \<and> (\<forall>t. trail rt st' t = trail rt st t) \<and> (\<exists>u. r = Inr u)"
proof (cases "ledger_prior claim = Some SENDING")
  case True
  obtain st1 res where u: "record_unknown rt io tid (JStr reason) now st = (st1, res)" by fastforce
  have k: "UNCERTAIN \<noteq> LIFECYCLE_KIND" by (simp add: UNCERTAIN_def LIFECYCLE_KIND_def)
  from assms(1) u show ?thesis
  proof (cases rule: unknown_cases)
    case (stays c)
    with u True assms(1,2) show ?thesis by (simp add: mark_uncertain_def)
  next
    case (writes fs d x c)
    from other_kind_keeps [OF assms(1) writes(1,2) k writes(3) assms(3)] u True assms(2) writes(4)
    show ?thesis by (simp add: mark_uncertain_def)
  qed
qed (use assms in \<open>simp add: mark_uncertain_def\<close>)

text \<open>A lifecycle append keeps the trails of other tickets, and an acknowledged one extends its own.\<close>

lemma lifecycle_append_keeps:
  assumes "trusted_store rt st" "lifecycle_append rt io tid s a st = (st', Inr r)" "io \<noteq> Torn" "la_now_utc a = Some now" "valid_datetime now"
  shows "trusted_store rt st'" "non_blank t \<Longrightarrow> t \<noteq> tid \<Longrightarrow> trail rt st' t = trail rt st t"
    "recorded r \<Longrightarrow> \<exists>tr. trail rt st' tid = Inr tr \<and> current tr = Some s"
proof -
  have w: "wf_dict (ts_outcomes st)" "placed st" using assms(1) by (auto simp: trusted_store_def)
  let ?c = "\<lparr>call_io = io, call_ticket = tid, call_state = s, call_args = a\<rparr>"
  show "trusted_store rt st'"
    using run_call_trusted [OF assms(1), of ?c] assms(2-5) by (simp add: run_call_def sound_call_def)
  show "\<exists>tr. trail rt st' tid = Inr tr \<and> current tr = Some s" if rec: "recorded r"
  proof -
    obtain tr where "trail rt st' tid = Inr (tr\<lparr>lt_states := lt_states tr @ [recorded_state s now a]\<rparr>)"
      using recorded_extends [OF w assms(4,5,2) rec] by blast
    then show ?thesis by (simp add: current_def recorded_state_def)
  qed
  assume t: "non_blank t" "t \<noteq> tid"
  obtain tr where tr: "trail rt st t = Inr tr" "lt_reason_code tr = None" using assms(1) t(1) by (auto simp: trusted_store_def)
  from assms(2) show "trail rt st' t = trail rt st t"
  proof (cases rule: lifecycle_append_cases)
    case (writes tr0 t0 d x)
    have t0: "valid_datetime t0" using writes(1) assms(4,5) by (simp add: admitted_def)
    have same: "ts_outcomes st' = ts_outcomes st \<Longrightarrow> trail rt st' t = trail rt st t" by (rule trail_cong, rule outcomes_eqI)
    from append_outcome_untorn [OF writes(2) assms(3)] show ?thesis
      by (rule disjE) (use same admitted_other [OF writes(1) t0 w(1) _ t(2) tr] tr(1) in simp_all)
  qed simp
qed

section \<open>Lemmas: recovery\<close>

text \<open>How a ticket stands after recovery. A trail before the acknowledgement is halted, or its halt is
  reported as refused, for the clock alone when that is behind the trail; any other trail is left alone.\<close>

definition halt_reported :: "datetime \<Rightarrow> lifecycle_trail \<Rightarrow> string \<Rightarrow> bool" where
  "halt_reported now tr reason \<longleftrightarrow>
     (if now < lc_recorded_at_utc (last (lt_states tr)) then reason = ''LIFECYCLE_TIMESTAMP_OUT_OF_ORDER''
      else reason \<in> {''LIFECYCLE_RECORDED'', ''LIFECYCLE_WRITE_FAILED'', ''LIFECYCLE_ALREADY_RECORDED''})"

definition recovered :: "py_rt \<Rightarrow> datetime \<Rightarrow> ticket_store \<Rightarrow> (string \<times> string) list \<Rightarrow> string \<Rightarrow> lifecycle_trail \<Rightarrow> bool" where
  "recovered rt now st' out tid tr \<longleftrightarrow>
     (if before_ack tr
      then \<exists>reason. map_of out tid = Some reason \<and> halt_reported now tr reason \<and>
             (reason = ''LIFECYCLE_RECORDED'' \<longrightarrow> (\<exists>tr'. trail rt st' tid = Inr tr' \<and> current tr' = Some HALT))
      else map_of out tid = None \<and> trail rt st' tid = Inr tr)"

lemma parsed_authority: "parse_rows rt rs = Inr (Some ss) \<Longrightarrow> s \<in> set ss \<Longrightarrow> non_blank (lc_authority_id s)"
proof (induction rt rs arbitrary: ss rule: parse_rows.induct)
  case (2 rt r rs)
  have "non_blank (lc_authority_id x)" if "row_from rt r = Inr (Some x)" for x
    using that by (auto simp: row_from_def non_empty_def py_str_def split: json.splits if_splits sum.splits option.splits)
  with 2 show ?case by (auto split: if_splits sum.splits option.splits)
qed simp

lemma halt_append:
  assumes "trusted_store rt st" "trail rt st tid = Inr tr" "before_ack tr"
    and "lifecycle_append rt io tid HALT (halt_args (Some now) tr reason hf) st = (st', Inr r)" "non_blank reason"
  shows "halt_reported now tr (tr_reason_code r) \<and> (tr_reason_code r = ''LIFECYCLE_RECORDED'' \<longrightarrow> recorded r)"
proof -
  let ?a = "halt_args (Some now) tr reason hf"
  have ok: "lt_reason_code tr = None" and ne: "lt_states tr \<noteq> []" using assms(3) by (auto simp: before_ack_def current_def)
  obtain rs where rs: "non_blank tid" "parse_rows rt (filter is_lifecycle_row rs) = Inr (Some (lt_states tr))"
    using trusted_trail_readable [OF assms(2) ok] by blast
  have "non_blank (last_authority tr)" using parsed_authority [OF rs(2)] ne by (simp add: last_authority_def)
  then have i: "refuse_input rt tid HALT ?a = None"
    using rs(1) assms(5) by (simp add: refuse_input_def halt_args_def la_of_def non_empty_def known_state_def REQUIRES_AUTHORIZATION_ID_def
        required_broker_ids_def REQUIRED_BROKER_IDS_def)
  have n: "HALT \<in> set (allowed_next (current tr))" "current tr \<noteq> Some ''RECONCILED''" "current tr \<noteq> Some HALT"
    using assms(3) by (auto simp: before_ack_def allowed_next_def ALLOWED_NEXT_def)
  then have t: "refuse_transition tr HALT now ?a =
      (if now < lc_recorded_at_utc (last (lt_states tr)) then Some (refused ''LIFECYCLE_TIMESTAMP_OUT_OF_ORDER'' (Some HALT) (prior_json (current tr)) []) else None)"
    using ok ne by (simp add: refuse_transition_def Let_def)
  have "la_now_utc ?a = Some now" by (simp add: halt_args_def la_of_def)
  then show ?thesis using assms(4) i t assms(2)
    by (auto simp: lifecycle_append_def halt_reported_def Let_def refused_def split: if_splits sum.splits prod.splits bool.splits)
qed

lemma inspect_returns: "outcomes st tid = Inr rs \<Longrightarrow> \<exists>c. inspect st tid = Inr c"
  by (cases "execution_rows st tid") (auto simp: inspect_def execution_rows_def Let_def split: sum.split if_splits)

lemma recover_one:
  assumes "trusted_store rt st" "\<forall>t n. io t n \<noteq> Torn" "valid_datetime now" "trail rt st tid = Inr tr" "before_ack tr"
  obtains st2 reason where "trusted_store rt st2"
    "\<And>tids out. recover_tickets rt io (Some now) (tid # tids) out st = recover_tickets rt io (Some now) tids (dput tid reason out) st2"
    "\<And>t. non_blank t \<Longrightarrow> t \<noteq> tid \<Longrightarrow> trail rt st2 t = trail rt st t"
    "reason = ''LIFECYCLE_RECORDED'' \<Longrightarrow> \<exists>tr'. trail rt st2 tid = Inr tr' \<and> current tr' = Some HALT" "halt_reported now tr reason"
proof -
  let ?a = "halt_args (Some now) tr ''RESTART_RECOVERY'' (opt_str (current tr))"
  obtain st1 halted where a: "lifecycle_append rt (io tid 0) tid HALT ?a st = (st1, Inr halted)"
    using lifecycle_append_returns [OF assms(1)] by (metis surj_pair)
  have n: "io tid 0 \<noteq> Torn" "la_now_utc ?a = Some now" using assms(2) by (simp_all add: halt_args_def la_of_def)
  note k = lifecycle_append_keeps [OF assms(1) a n assms(3)]
  have h: "halt_reported now tr (tr_reason_code halted) \<and> (tr_reason_code halted = ''LIFECYCLE_RECORDED'' \<longrightarrow> recorded halted)"
    using halt_append [OF assms(1,4,5) a] by (simp add: non_blank_iff is_space_def)
  obtain claim where c: "inspect st1 tid = Inr claim"
    using trusted_store_reads [OF k(1), of tid] inspect_returns by blast
  obtain st2 u where m: "mark_uncertain rt (io tid 1) tid ''RESTART_RECOVERY'' (Some now) claim st1 = (st2, u)" by fastforce
  have u: "trusted_store rt st2" "\<And>t. trail rt st2 t = trail rt st1 t" "\<exists>x. u = Inr x" using mark_uncertain_keeps [OF k(1) m] assms(2) by auto
  show thesis
  proof (rule that [of st2 "tr_reason_code halted"])
    show "recover_tickets rt io (Some now) (tid # tids) out st = recover_tickets rt io (Some now) tids (dput tid (tr_reason_code halted) out) st2" for tids out
      using assms(4,5) a c m u(3) by auto
    show "\<exists>tr'. trail rt st2 tid = Inr tr' \<and> current tr' = Some HALT" if "tr_reason_code halted = ''LIFECYCLE_RECORDED''"
      using k(3) h that u(2) by simp
  qed (use u k(2) h in auto)
qed

lemma recover_tickets_spec:
  assumes "trusted_store rt st" "\<forall>t n. io t n \<noteq> Torn" "valid_datetime now" "distinct tids" "\<forall>t \<in> set tids. map_of out t = None"
  shows "\<exists>st' out'. recover_tickets rt io (Some now) tids out st = (st', Inr out') \<and>
    (\<forall>t tr. non_blank t \<longrightarrow> trail rt st t = Inr tr \<longrightarrow>
       (if t \<in> set tids then recovered rt now st' out' t tr else map_of out' t = map_of out t \<and> trail rt st' t = Inr tr))"
  using assms(1,4,5)
proof (induction tids arbitrary: out st)
  case (Cons tid tids)
  show ?case
  proof (cases "\<exists>tr. trail rt st tid = Inr tr \<and> before_ack tr")
    case True
    then obtain tr where tr: "trail rt st tid = Inr tr" "before_ack tr" by blast
    from Cons.prems(1) assms(2,3) tr show ?thesis
    proof (rule recover_one)
      fix st2 reason
      assume o: "trusted_store rt st2" "\<And>tids out. recover_tickets rt io (Some now) (tid # tids) out st = recover_tickets rt io (Some now) tids (dput tid reason out) st2"
        "\<And>t. non_blank t \<Longrightarrow> t \<noteq> tid \<Longrightarrow> trail rt st2 t = trail rt st t"
        "reason = ''LIFECYCLE_RECORDED'' \<Longrightarrow> \<exists>tr'. trail rt st2 tid = Inr tr' \<and> current tr' = Some HALT" "halt_reported now tr reason"
      have "\<forall>t \<in> set tids. map_of (dput tid reason out) t = None" using Cons.prems(2,3) by auto
      from Cons.IH [OF o(1) _ this] Cons.prems(2) obtain st' out' where r: "recover_tickets rt io (Some now) tids (dput tid reason out) st2 = (st', Inr out')"
        "\<And>t tr. non_blank t \<Longrightarrow> trail rt st2 t = Inr tr \<Longrightarrow>
          (if t \<in> set tids then recovered rt now st' out' t tr else map_of out' t = map_of (dput tid reason out) t \<and> trail rt st' t = Inr tr)" by auto
      have own: "recovered rt now st' out' tid tr0" if nb: "non_blank tid" and t0: "trail rt st tid = Inr tr0" for tr0
      proof -
        obtain tr2 where "trail rt st2 tid = Inr tr2" using o(1) nb by (auto simp: trusted_store_def)
        with r(2) [OF nb this] Cons.prems(2) t0 tr o(4,5) show ?thesis by (auto simp: recovered_def)
      qed
      have "if t \<in> set (tid # tids) then recovered rt now st' out' t tr' else map_of out' t = map_of out t \<and> trail rt st' t = Inr tr'"
        if "non_blank t" "trail rt st t = Inr tr'" for t tr'
        using own that r(2) [OF that(1)] o(3) [OF that(1)] by (cases "t = tid") (auto simp: recovered_def split: if_splits)
      then show ?thesis unfolding o(2) r(1) by blast
    qed
  next
    case False
    have "\<exists>tr. trail rt st tid = Inr tr" using Cons.prems(1) by (cases "non_blank tid") (auto simp: trusted_store_def trail_def)
    then obtain tr where tr: "trail rt st tid = Inr tr" "\<not> before_ack tr" using False by blast
    have "recover_tickets rt io (Some now) (tid # tids) out st = recover_tickets rt io (Some now) tids out st" using tr by simp
    moreover obtain st' out' where r: "recover_tickets rt io (Some now) tids out st = (st', Inr out')"
      "\<And>t tr. non_blank t \<Longrightarrow> trail rt st t = Inr tr \<Longrightarrow>
        (if t \<in> set tids then recovered rt now st' out' t tr else map_of out' t = map_of out t \<and> trail rt st' t = Inr tr)"
      using Cons.IH [of st out] Cons.prems by auto
    moreover have "if t \<in> set (tid # tids) then recovered rt now st' out' t tr' else map_of out' t = map_of out t \<and> trail rt st' t = Inr tr'"
      if "non_blank t" "trail rt st t = Inr tr'" for t tr'
      using r(2) [OF that] tr that Cons.prems by (cases "t = tid") (auto simp: recovered_def)
    ultimately show ?thesis by fastforce
  qed
qed simp

lemma set_fromkeys [simp]: "set (fromkeys xs) = set xs"
  by (induction xs) auto

lemma distinct_fromkeys [simp]: "distinct (fromkeys xs)"
  by (induction xs) auto

text \<open>On a readable store every ticket with a lifecycle row is found.\<close>

lemma lifecycle_ids_all:
  assumes "\<forall>e \<in> set es. \<exists>d. e = Some (JDict d)"
  shows "\<exists>rows ids. all_rows es = Inr rows \<and> lifecycle_ids rows = Inr ids \<and>
    (\<forall>d tid. Some (JDict d) \<in> set es \<longrightarrow> is_lifecycle_row d \<longrightarrow> of_ticket d tid \<longrightarrow> tid \<in> set ids)"
  using assms
proof (induction es)
  case (Cons e es)
  from Cons obtain rows ids where "all_rows es = Inr rows" "lifecycle_ids rows = Inr ids"
    "\<forall>d tid. Some (JDict d) \<in> set es \<longrightarrow> is_lifecycle_row d \<longrightarrow> of_ticket d tid \<longrightarrow> tid \<in> set ids" by auto
  moreover obtain d where "e = Some (JDict d)" using Cons.prems by auto
  ultimately show ?case by (auto simp: of_ticket_def split: json.splits)
qed simp

lemma ticket_ids_all:
  assumes "trusted_store rt st"
  obtains ids where "ticket_ids st = Inr ids" "distinct ids"
    "\<And>tid tr. trail rt st tid = Inr tr \<Longrightarrow> before_ack tr \<Longrightarrow> tid \<in> set ids"
proof -
  from lifecycle_ids_all [OF trusted_store_rows [OF assms]] obtain rows ids where i: "all_rows (row_stream (ts_outcomes st)) = Inr rows"
    "lifecycle_ids rows = Inr ids"
    "\<And>d tid. Some (JDict d) \<in> set (row_stream (ts_outcomes st)) \<Longrightarrow> is_lifecycle_row d \<Longrightarrow> of_ticket d tid \<Longrightarrow> tid \<in> set ids" by blast
  have "tid \<in> set (fromkeys ids)" if t: "trail rt st tid = Inr tr" "before_ack tr" for tid tr
  proof -
    have "lt_reason_code tr = None" using t(2) by (simp add: before_ack_def)
    from t(1) this obtain rs where rs: "outcomes st tid = Inr rs" "parse_rows rt (filter is_lifecycle_row rs) = Inr (Some (lt_states tr))"
      by (rule trusted_trail_readable)
    have "lt_states tr \<noteq> []" using t(2) by (auto simp: before_ack_def current_def)
    then have "filter is_lifecycle_row rs \<noteq> []" using rs(2) by auto
    then obtain d where "d \<in> set rs" "is_lifecycle_row d" by (metis filter_False)
    then show ?thesis using i(3) [of d tid] select_rows_Inr [OF rs(1) [unfolded outcomes_def]] by (auto simp: of_ticket_def split: option.splits json.splits if_splits)
  qed
  then show thesis using that [of "fromkeys ids"] i(1,2) by (simp add: ticket_ids_def)
qed

section \<open>Lemmas: the stop\<close>

text \<open>No row of the stop lies in a later day file or carries this instant.\<close>

definition stop_rows_before :: "datetime \<Rightarrow> ticket_store \<Rightarrow> bool" where
  "stop_rows_before now st \<longleftrightarrow>
     (\<forall>n r. Row (JDict r) \<in> set (lines (file_at (ts_outcomes st) n)) \<longrightarrow> of_ticket r STOP_TICKET_ID \<longrightarrow> is_stop_row r \<longrightarrow>
        \<not> iso_date (date_of now) @ ''.jsonl'' < n \<and> dget r ''recorded_at_utc'' \<noteq> JStr (iso_datetime now))"

lemma written_stop_rows_before:
  assumes "written rt quiet st st'" "stop_rows_before now st"
  shows "stop_rows_before now st'"
proof (cases "st' = st")
  case False
  with assms(1) obtain fs d io where d: "build_outcome rt fs = Inr d" "quiet fs" "st' = fst (append_outcome rt io d st)" by (auto simp: written_def)
  note f = build_outcome_fields [OF d(1)]
  have "\<not> is_stop_row (stored_row d)"
    using d(2) f(4) [of "''outcome_kind''"] by (simp add: is_stop_row_def kind_is_def dget_stored_row [OF f(1)] canon_JStr)
  then show ?thesis using assms(2) append_outcome_file_rows unfolding stop_rows_before_def d(3) by blast
qed (use assms(2) in simp)

text \<open>An acknowledged engagement is the last latch row, so the stop is engaged.\<close>

lemma engage_latches:
  assumes "inj (sha rt)" "sealed_store rt st" "object_rows st" "wf_dict (ts_outcomes st)" "stop_rows_before now st"
    and "engage rt io reason (Some now) ev st = (st', Inr True)"
  shows "\<exists>s. status rt st' = Inr s \<and> engaged s"
proof -
  from assms(6) obtain p w d b where d: "build_outcome rt (outcome_args STOP_TICKET_ID STOP_KIND (iso_datetime now) ''ENGAGED'' p w) = Inr d"
    and ap: "append_outcome rt io d st = (st', Inr b)"
    by (auto simp: engage_def stop_write_def Let_def split: sum.splits prod.splits if_splits)
  note f = build_outcome_fields [OF d]
  have row: "dget (stored_row d) ''outcome_kind'' = JStr STOP_KIND" "dget (stored_row d) ''ticket_id'' = JStr STOP_TICKET_ID"
    "dget (stored_row d) ''recorded_at_utc'' = JStr (iso_datetime now)" "dget (stored_row d) ''result'' = JStr ''ENGAGED''"
    by (simp_all add: dget_stored_row [OF f(1)] f(4))
  have b
  proof (rule ccontr)
    assume "\<not> b"
    then obtain e where e: "has_outcome st e" "dget e ''record_sha256'' = dget d ''record_sha256''" using append_outcome_found(2) [of rt io d st st'] ap by auto
    have "sealed rt e" using assms(2) e(1) by (simp add: sealed_store_def)
    moreover have "dget (stored_row d) ''record_sha256'' = dget d ''record_sha256''" using f(3) by (auto simp: dget_stored_row [OF f(1)])
    ultimately have "canon (dget e x) = canon (dget (stored_row d) x)" for x using sealed_agree [OF assms(1) _ build_outcome_sealed [OF d]] e(2) by simp
    from this [of "''ticket_id''"] this [of "''outcome_kind''"] this [of "''recorded_at_utc''"] row
    have "of_ticket e STOP_TICKET_ID" "is_stop_row e" "dget e ''recorded_at_utc'' = JStr (iso_datetime now)"
      by (simp_all add: of_ticket_def is_stop_row_def canon_JStr)
    with assms(5) e(1) show False by (auto simp: stop_rows_before_def has_outcome_def)
  qed
  with ap have new: "ts_outcomes st' = add_line (outcome_path rt d) d (ts_outcomes st)" using append_outcome_ok(1) by simp
  have bs: "built_step rt st st'" by (rule built_stepI) (rule writtenI [OF d ap, of "\<lambda>_. True"], simp)
  note o = built_step_objects [OF bs assms(3)] built_step_wf [OF bs assms(4)]
  have "latched st'"
  proof (cases "corrupt (ts_outcomes st')")
    case False
    then have "\<not> corrupt (ts_outcomes st)" using corrupt_grows built_step_grows [OF bs] by blast
    then obtain rs where "outcomes st STOP_TICKET_ID = Inr rs" using outcomes_read [OF assms(3,4)] by auto
    from outcomes_insert [OF assms(4) f(1) new this] row(2) obtain a c where
      ac: "outcomes st' STOP_TICKET_ID = Inr (a @ [stored_row d] @ c)"
        "\<forall>r \<in> set c. of_ticket r STOP_TICKET_ID \<and> (\<exists>n'. outcome_path rt d < n' \<and> Row (JDict r) \<in> set (lines (file_at (ts_outcomes st) n')))"
      by (auto simp: of_ticket_def)
    have "outcome_path rt d = iso_date (date_of now) @ ''.jsonl''" using outcome_path_iso f(4) by simp
    then have "filter is_stop_row c = []" using ac(2) assms(5) by (auto simp: stop_rows_before_def filter_empty_conv)
    with ac(1) row show ?thesis by (auto simp: latched_def is_stop_row_def [abs_def] cleared_row_def)
  qed (simp add: latched_def)
  then show ?thesis using status_latched [OF o] by blast
qed

section \<open>Properties\<close>

text \<open>C1: Over any history of a host, made of order attempts, other guarded calls,
  reconciliation cycles and restart recoveries in any order, with any configuration, clocks, broker
  answers and failed or torn writes, the broker's send is called at most once for a ticket, and never
  for one whose send claim is already stored. The seal digest is assumed free of collisions.\<close>

theorem host_single_send:
  assumes "inj (sha rt)" "sealed_store rt (gs_store (ds_guard ds))" "\<forall>c \<in> set calls. host_under rt c"
  shows "count_list (ds_sends (fold host_step calls ds)) tid \<le>
    count_list (ds_sends ds) tid + (if claimed (gs_store (ds_guard ds)) tid then 0 else 1)"
  using count_host_sends [OF assms(3), of ds tid] hosting.count_bound [of rt ds tid calls] assms(1,2) by (simp add: guard_inv_def)

text \<open>C10: On a store whose trails can be trusted, and without a torn write, the recovery
  after a restart returns. It reports exactly the tickets whose trail stood before the broker's
  acknowledgement; each of them reported as recorded ends in HALT, a report that it was not recorded means a failed or repeated
  write or a clock behind the trail, and every other trail is unchanged.\<close>

theorem recovery_halts:
  assumes "trusted_store rt st" "\<forall>t n. io t n \<noteq> Torn" "valid_datetime now"
  shows "\<exists>st' out. recover_after_restart rt io (Some now) st = (st', Inr out) \<and>
    (\<forall>tid tr. non_blank tid \<longrightarrow> trail rt st tid = Inr tr \<longrightarrow> recovered rt now st' out tid tr)"
proof -
  obtain ids where i: "ticket_ids st = Inr ids" "distinct ids" "\<And>tid tr. trail rt st tid = Inr tr \<Longrightarrow> before_ack tr \<Longrightarrow> tid \<in> set ids"
    using ticket_ids_all [OF assms(1)] by blast
  from recover_tickets_spec [OF assms i(2), of "[]"] obtain st' out where r: "recover_tickets rt io (Some now) ids [] st = (st', Inr out)"
    "\<And>t tr. non_blank t \<Longrightarrow> trail rt st t = Inr tr \<Longrightarrow>
       (if t \<in> set ids then recovered rt now st' out t tr else map_of out t = None \<and> trail rt st' t = Inr tr)" by auto
  have "recovered rt now st' out t tr" if "non_blank t" "trail rt st t = Inr tr" for t tr
    using r(2) [OF that] i(3) [OF that(2)] by (auto simp: recovered_def split: if_splits)
  then show ?thesis using i(1) r(1) by (auto simp: recover_after_restart_def)
qed


section \<open>Concrete instances\<close>

theorem host_single_send_witness:
  "let c = HostOrder (Attempt (demo_dispatch unary_guard) demo_ticket (Some demo_market) (Some demo_snapshot) (ea_account demo_authority) ''auth'' (Some ''C-1''));
       r = HostRestart unary_rt (\<lambda>_ _. Unsynced) (Some 63900200000000000)
   in count_list (ds_sends (fold host_step [c, r, c] claimed_dispatch)) ''T-1'' \<le> 1"
proof -
  let ?c = "HostOrder (Attempt (demo_dispatch unary_guard) demo_ticket (Some demo_market) (Some demo_snapshot) (ea_account demo_authority) ''auth'' (Some ''C-1''))"
  let ?r = "HostRestart unary_rt (\<lambda>_ _. Unsynced) (Some 63900200000000000)"
  have r: "\<forall>c \<in> set [?c, ?r, ?c]. host_under unary_rt c" by (simp add: unary_guard_def demo_dispatch_def)
  have s: "ds_guard claimed_dispatch = claimed_state" "ds_sends claimed_dispatch = [''T-1'']" by (simp_all add: claimed_dispatch_def)
  have "count_list (ds_sends (fold host_step [?c, ?r, ?c] claimed_dispatch)) ''T-1'' \<le> count_list [''T-1''] ''T-1'' + 0"
    using host_single_send [OF unary_inj claimed_state_facts(1) [folded s(1)] r, of "''T-1''"] claimed_state_facts(2)
    by (simp only: s if_True)
  then show ?thesis unfolding Let_def by simp
qed

text \<open>A host that stopped after the order was checked.\<close>

theorem recovery_halts_witness:
  "\<exists>st' out tr'. recover_after_restart constant_rt (\<lambda>_ _. Appended) (Some 63900200000000000) demo_lc_store = (st', Inr out) \<and>
     map_of out ''T-1'' = Some ''LIFECYCLE_RECORDED'' \<and> trail constant_rt st' ''T-1'' = Inr tr' \<and> current tr' = Some HALT"
proof -
  let ?io = "\<lambda>(_::string) (_::nat). Appended" and ?now = "63900200000000000 :: datetime"
  obtain tr where tr: "trail constant_rt demo_lc_store ''T-1'' = Inr tr" "lt_reason_code tr = None" "map lc_state (lt_states tr) = [''AUTHORIZED'', ''CHECKED'']"
    by (rule demo_lc_trail)
  have b: "before_ack tr" using tr(2,3) by (auto simp: before_ack_def current_def)
  have n: "non_blank ''T-1''" by (simp add: non_blank_iff is_space_def)
  from recovery_halts [OF demo_lc_trusted, of ?io ?now] obtain st' out
    where r: "recover_after_restart constant_rt ?io (Some ?now) demo_lc_store = (st', Inr out)" "recovered constant_rt ?now st' out ''T-1'' tr"
    using tr(1) n by (auto simp: valid_datetime_def)
  have "case recover_after_restart constant_rt ?io (Some ?now) demo_lc_store of (_, Inr out) \<Rightarrow> map_of out ''T-1'' = Some ''LIFECYCLE_RECORDED'' | _ \<Rightarrow> False"
    by code_simp
  with r b show ?thesis by (auto simp: recovered_def)
qed

text \<open>A first cycle that finds a position of the strategy that no ticket explains.\<close>

definition orphan_terminal :: monitor_terminal where
  "orphan_terminal = \<lparr>tm_account_info = Inr (JDict []), tm_positions = Inr (Some [JDict [(''ticket'', JInt 31), (''magic'', JInt 77)]]),
     tm_deals = \<lambda>_ _. Inr (Some []), tm_orders = \<lambda>_ _. Inr (Some [])\<rparr>"

definition orphan_env :: monitor_env where
  "orphan_env = \<lparr>mo_rt = unary_rt, mo_text_sha = \<lambda>t. t, mo_ny = winter, mo_metadata = demo_metadata, mo_scopes = [demo_scope],
     mo_mt5 = orphan_terminal, mo_now = Some 63903204120000000, mo_timeout = DEFAULT_UNKNOWN_TIMEOUT, mo_sink = True, mo_alert = None,
     mo_io = \<lambda>_ _. Appended, mo_stop_io = Appended\<rparr>"

definition fresh_state :: guard_state where
  "fresh_state = \<lparr>gs_store = empty_store, gs_events = []\<rparr>"

lemma empty_store_reads: "outcomes empty_store tid = Inr []" "ticket_ids empty_store = Inr []" "stop_rows_before now empty_store"
  by (simp_all add: outcomes_def ticket_ids_def stop_rows_before_def empty_store_def row_stream_def files_def file_at_def empty_file_def)

lemma engage_fresh:
  obtains st' where "engage rt Appended r (Some t) ev empty_store = (st', Inr True)"
proof -
  let ?w = "''demo_execution.emergency.engaged''"
  have w: "\<exists>st'. stop_write rt Appended ''ENGAGED'' ?w p (Some t) empty_store = (st', Inr True)" for p
  proof -
    obtain d where d: "build_outcome rt (outcome_args STOP_TICKET_ID STOP_KIND (iso_datetime t) ''ENGAGED'' (JDict p) ?w) = Inr d"
      using build_outcome_args [of STOP_TICKET_ID STOP_KIND] unfolding STOP_TICKET_ID_def STOP_KIND_def by blast
    have "snd (append_outcome rt Appended d empty_store) = Inr True"
      using build_outcome_fields(2,3) [OF d] by (auto simp: append_outcome_def append_row_def empty_store_def file_at_def empty_file_def read_jsonl_def)
    then show ?thesis using d by (cases "append_outcome rt Appended d empty_store") (simp add: stop_write_def)
  qed
  then show thesis using that by (auto simp: engage_def Let_def)
qed


end
