(* ===== verification/Kv_Codec.thy ===== *)
theory Kv_Codec
  imports Kv_Store
begin

text \<open>
  Records in the key-value store. A component that keeps typed records encodes them as JSON values; the
  locale \<open>kv_codec\<close> is what the store needs of the encoding and what the component gets for it: a
  record that was written is read back, and no other record changes. Stored fields have their declared
  types; a value of another type is refused with TypeError when it is read.
\<close>

section \<open>Typed access\<close>

text \<open>\<open>store.get\<close> followed by the decoder; an absent or null value is \<open>None\<close>.\<close>

definition typed_get :: "(json \<Rightarrow> 'r res) \<Rightarrow> kv_file \<Rightarrow> string \<Rightarrow> 'r option res" where
  "typed_get dec f k = res_bind (kv_get f k) (\<lambda>v. if v = JNull then Inr None else res_bind (dec v) (\<lambda>r. Inr (Some r)))"

text \<open>Fields of a stored object.\<close>

definition str_field :: "(string \<times> json) list \<Rightarrow> string \<Rightarrow> string res" where
  "str_field d k = (case map_of d k of None \<Rightarrow> Inl (KeyError k) | Some (JStr s) \<Rightarrow> Inr s | Some _ \<Rightarrow> Inl TypeError)"

definition int_field :: "(string \<times> json) list \<Rightarrow> string \<Rightarrow> int res" where
  "int_field d k = (case map_of d k of None \<Rightarrow> Inl (KeyError k) | Some (JInt i) \<Rightarrow> Inr i | Some _ \<Rightarrow> Inl TypeError)"

definition opt_str_field :: "(string \<times> json) list \<Rightarrow> string \<Rightarrow> string option res" where
  "opt_str_field d k = (case dget d k of JNull \<Rightarrow> Inr None | JStr s \<Rightarrow> Inr (Some s) | _ \<Rightarrow> Inl TypeError)"

definition opt_float_field :: "(string \<times> json) list \<Rightarrow> string \<Rightarrow> rat option res" where
  "opt_float_field d k = (case dget d k of JNull \<Rightarrow> Inr None | JFloat x \<Rightarrow> Inr (Some x) | JInt i \<Rightarrow> Inr (Some (of_int i)) | _ \<Rightarrow> Inl TypeError)"

text \<open>\<open>datetime.fromisoformat\<close> of a stored text.\<close>

definition time_of_text :: "string \<Rightarrow> datetime res" where
  "time_of_text s = (case parse_iso s of None \<Rightarrow> Inl (ValueError ''isoformat'') | Some t \<Rightarrow> Inr t)"

definition time_field :: "(string \<times> json) list \<Rightarrow> string \<Rightarrow> datetime res" where
  "time_field d k = res_bind (str_field d k) time_of_text"

definition opt_time_field :: "(string \<times> json) list \<Rightarrow> string \<Rightarrow> datetime option res" where
  "opt_time_field d k = res_bind (opt_str_field d k) (\<lambda>s. case s of None \<Rightarrow> Inr None | Some s \<Rightarrow> res_bind (time_of_text s) (\<lambda>t. Inr (Some t)))"

definition json_opt_str :: "string option \<Rightarrow> json" where
  "json_opt_str s = (case s of None \<Rightarrow> JNull | Some s \<Rightarrow> JStr s)"

definition json_opt_time :: "datetime option \<Rightarrow> json" where
  "json_opt_time t = (case t of None \<Rightarrow> JNull | Some t \<Rightarrow> JStr (iso_datetime t))"

text \<open>A list whose elements are computed in turn.\<close>

fun res_list :: "'a res list \<Rightarrow> 'a list res" where
  "res_list [] = Inr []"
| "res_list (x # xs) = res_bind x (\<lambda>a. res_bind (res_list xs) (\<lambda>as. Inr (a # as)))"

lemma res_list_Inr: "(\<And>x. x \<in> set xs \<Longrightarrow> h x = Inr (g x)) \<Longrightarrow> res_list (map h xs) = Inr (map g xs)"
  by (induction xs) auto

text \<open>\<open>a or b\<close> of optional texts.\<close>

definition or_text :: "string option \<Rightarrow> string option \<Rightarrow> string option" where
  "or_text a b = (if a = None \<or> a = Some [] then b else a)"

lemma json_opt_simps [simp]: "canon (json_opt_str s) = json_opt_str s" "canon (json_opt_time t) = json_opt_time t"
  "wf_json (json_opt_str s)" "wf_json (json_opt_time t)"
  by (simp_all add: json_opt_str_def json_opt_time_def split: option.split)

lemma time_of_text_iso [simp]: "valid_datetime t \<Longrightarrow> time_of_text (iso_datetime t) = Inr t"
  by (simp add: time_of_text_def parse_iso_datetime)

lemma iso_datetime_ne [simp]: "iso_datetime t \<noteq> []"
  by (simp add: iso_datetime_def)

lemma field_simps_of [simp]:
  "map_of d k = Some (JStr s) \<Longrightarrow> str_field d k = Inr s" "map_of d k = Some (JInt i) \<Longrightarrow> int_field d k = Inr i"
  "dget d k = json_opt_str os \<Longrightarrow> opt_str_field d k = Inr os"
  by (auto simp: str_field_def int_field_def opt_str_field_def json_opt_str_def split: option.splits)

text \<open>What a decoder finds in a stored object: the encoded fields in canonical form.\<close>

lemma canon_object:
  assumes "wf_dict d"
  obtains d' where "canon (JDict d) = JDict d'" "map_of d' = map_option canon \<circ> map_of d"
    "\<And>k. dget d' k = (case map_of d k of None \<Rightarrow> JNull | Some v \<Rightarrow> canon v)"
  using canon_dict_view [OF assms] by (auto simp: dget_def split: option.split)

section \<open>The contract\<close>

text \<open>A file as this store leaves it.\<close>

definition kv_own :: "kv_file \<Rightarrow> bool" where
  "kv_own f \<longleftrightarrow> kv_wf f \<and> (\<forall>m k v. kv_view f = Some m \<longrightarrow> m k = Some v \<longrightarrow> canon v = v)"

lemma kv_own_missing [simp]: "kv_own KvMissing"
  by (auto simp: kv_own_def kv_wf_def kv_view_def kv_load_def)

lemma kv_own_put:
  assumes "kv_own f" "wf_json v"
  shows "kv_own (fst (kv_put env k v f))"
proof (cases rule: kv.put_cases [of env k v f])
  case ok
  from assms have w: "kv_wf f" by (simp add: kv_own_def)
  from kv.put_ok [OF w ok] obtain m where "kv_view f = Some m"
    "kv_view (fst (kv_put env k v f)) = Some ((map_option canon \<circ> m)(k \<mapsto> canon v))" by blast
  with kv.put_wf [OF w assms(2), of env k] show ?thesis by (auto simp: kv_own_def split: if_splits)
qed (use assms in simp)

locale kv_codec =
  fixes enc :: "'r \<Rightarrow> json" and dec :: "json \<Rightarrow> 'r res" and norm :: "'r \<Rightarrow> 'r" and ok :: "'r \<Rightarrow> bool"
  assumes enc_wf: "ok r \<Longrightarrow> wf_json (enc r)"
    and enc_value: "canon (enc r) \<noteq> JNull"
    and dec_enc: "ok r \<Longrightarrow> dec (canon (enc r)) = Inr (norm r)"
begin

lemma put_get:
  assumes "kv_own f" "ok r" "snd (kv_put env k (enc r) f) = Inr ()"
  shows "typed_get dec (fst (kv_put env k (enc r) f)) k' = (if k' = k then Inr (Some (norm r)) else typed_get dec f k')"
proof -
  have w: "kv_wf f" using assms(1) by (simp add: kv_own_def)
  from kv.put_ok [OF w assms(3)] obtain m where m: "kv_view f = Some m"
    "kv_view (fst (kv_put env k (enc r) f)) = Some ((map_option canon \<circ> m)(k \<mapsto> canon (enc r)))" by blast
  have "map_option canon (m k') = m k'" using assms(1) m(1) by (cases "m k'") (auto simp: kv_own_def)
  then show ?thesis using enc_value [of r] dec_enc [OF assms(2)]
    by (auto simp: typed_get_def kv_get_view [OF m(1)] kv_get_view [OF m(2)] split: option.splits)
qed

lemma put_own: "kv_own f \<Longrightarrow> ok r \<Longrightarrow> kv_own (fst (kv_put env k (enc r) f))"
  by (rule kv_own_put [OF _ enc_wf])

text \<open>A write leaves the file alone or changes exactly the record of its key.\<close>

lemma write_cases:
  assumes "kv_own f" "ok r"
  obtains (fails) err where "kv_put env k (enc r) f = (f, Inl err)"
  | (writes) f' where "kv_put env k (enc r) f = (f', Inr ())" "kv_own f'"
      "\<And>k'. typed_get dec f' k' = (if k' = k then Inr (Some (norm r)) else typed_get dec f k')"
proof (cases rule: kv.put_cases [of env k "enc r" f])
  case ok
  show thesis using writes [of "fst (kv_put env k (enc r) f)"] put_get [OF assms ok] put_own [OF assms, of env k] ok
    by (metis prod.collapse)
next
  case (fail err)
  then show thesis using fails by (metis prod.collapse)
qed

end

end
