(* ===== verification/Delivery.thy ===== *)
theory Delivery
  imports Kv_Codec
begin

text \<open>
  The delivery of tickets (src/src/ticket\_delivery): the identity of a ticket and its attempts, the
  delivery records with their claim lock, the retry and catch-up policies and the attempt journal. A
  claim is split at its reads and writes, so that claims of several threads may be interleaved. Instants
  are shown in UTC.
\<close>

section \<open>Identity\<close>

definition safe_char :: "char \<Rightarrow> bool" where
  "safe_char c \<longleftrightarrow> (let n = of_char c :: nat in 65 \<le> n \<and> n \<le> 90 \<or> 97 \<le> n \<and> n \<le> 122 \<or> 48 \<le> n \<and> n \<le> 57) \<or> c \<in> {CHR ''_'', CHR ''.'', CHR ''-''}"

definition NEWLINE :: char where "NEWLINE = CHR 0x0A"

text \<open>The pattern ends in \<open>$\<close>, which also matches before a final newline.\<close>

definition SAFE_FIELD :: "string \<Rightarrow> bool" where
  "SAFE_FIELD s = (let b = (if s \<noteq> [] \<and> last s = NEWLINE then butlast s else s) in b \<noteq> [] \<and> list_all safe_char b)"

definition validate_field :: "string \<Rightarrow> string \<Rightarrow> string res" where
  "validate_field name v =
     (if v = [] then Inl (ValueError (name @ '' must be a non-empty string''))
      else if \<not> SAFE_FIELD v then Inl (ValueError (name @ '' contains characters unsafe for a composite identity key''))
      else Inr v)"

fun join_bar :: "string list \<Rightarrow> string" where
  "join_bar [] = []"
| "join_bar [x] = x"
| "join_bar (x # xs) = x @ CHR ''|'' # join_bar xs"

definition logical_ticket_id :: "string \<Rightarrow> string \<Rightarrow> string \<Rightarrow> string \<Rightarrow> date \<Rightarrow> string res" where
  "logical_ticket_id strategy_id strategy_version sy cycle trading_date =
     res_bind (validate_field ''strategy_id'' strategy_id) (\<lambda>a.
     res_bind (validate_field ''strategy_version'' strategy_version) (\<lambda>b.
     res_bind (validate_field ''symbol'' sy) (\<lambda>c.
     res_bind (validate_field ''cycle'' cycle) (\<lambda>d.
     res_bind (validate_field ''trading_date'' (iso_date trading_date)) (\<lambda>e. Inr (join_bar [a, b, c, d, e]))))))"

text \<open>Decimal digits, and the format \<open>03d\<close>.\<close>

fun dec_text :: "nat \<Rightarrow> string" where
  "dec_text n = (if n < 10 then [digit_char n] else dec_text (n div 10) @ [digit_char (n mod 10)])"

declare dec_text.simps [simp del]

definition text_03d :: "int \<Rightarrow> string" where
  "text_03d i =
     (if 0 \<le> i then if i < 1000 then pad 3 (nat i) else dec_text (nat i)
      else CHR ''-'' # (if - i < 100 then pad 2 (nat (- i)) else dec_text (nat (- i))))"

definition delivery_attempt_id :: "string \<Rightarrow> int \<Rightarrow> string res" where
  "delivery_attempt_id tid n = (if n < 1 then Inl (ValueError ''attempt_number must be >= 1'') else Inr (tid @ ''|attempt-'' @ text_03d n))"

definition correction_id :: "string \<Rightarrow> int \<Rightarrow> string res" where
  "correction_id tid n = (if n < 1 then Inl (ValueError ''correction_number must be >= 1'') else Inr (tid @ ''|correction-'' @ text_03d n))"

section \<open>Records\<close>

definition STATE_READY_TO_DELIVER :: string where "STATE_READY_TO_DELIVER = ''READY_TO_DELIVER''"
definition STATE_NOT_APPLICABLE :: string where "STATE_NOT_APPLICABLE = ''NOT_APPLICABLE''"
definition STATE_DELIVERY_CLAIMED :: string where "STATE_DELIVERY_CLAIMED = ''DELIVERY_CLAIMED''"
definition STATE_DELIVERED :: string where "STATE_DELIVERED = ''DELIVERED''"
definition STATE_DELIVERY_FAILED_RETRYABLE :: string where "STATE_DELIVERY_FAILED_RETRYABLE = ''DELIVERY_FAILED_RETRYABLE''"
definition STATE_DELIVERY_FAILED_TERMINAL :: string where "STATE_DELIVERY_FAILED_TERMINAL = ''DELIVERY_FAILED_TERMINAL''"
definition STATE_DELIVERY_AMBIGUOUS :: string where "STATE_DELIVERY_AMBIGUOUS = ''DELIVERY_AMBIGUOUS''"

definition RETRYABLE_STATES :: "string list" where "RETRYABLE_STATES = [STATE_DELIVERY_FAILED_RETRYABLE]"
definition AUTOMATIC_TERMINAL_STATES :: "string list" where "AUTOMATIC_TERMINAL_STATES = [STATE_DELIVERED, STATE_DELIVERY_FAILED_TERMINAL]"

lemmas delivery_states = STATE_READY_TO_DELIVER_def STATE_NOT_APPLICABLE_def STATE_DELIVERY_CLAIMED_def STATE_DELIVERED_def
  STATE_DELIVERY_FAILED_RETRYABLE_def STATE_DELIVERY_FAILED_TERMINAL_def STATE_DELIVERY_AMBIGUOUS_def

record delivery_record =
  dl_logical_ticket_id :: string
  dl_delivery_attempt_id :: string
  dl_state :: string
  dl_attempt_number :: int
  dl_created_at :: "datetime option"
  dl_updated_at :: "datetime option"
  dl_strategy_id :: string
  dl_strategy_version :: string
  dl_application_release :: string
  dl_symbol :: string
  dl_cycle :: string
  dl_trading_date :: string
  dl_payload_hash :: string
  dl_provider :: string
  dl_provider_response_id :: "string option"
  dl_retry_classification :: "string option"
  dl_failure_evidence :: "string option"
  dl_expires_at :: "datetime option"

definition is_expired :: "delivery_record \<Rightarrow> datetime \<Rightarrow> bool" where
  "is_expired r now = (case dl_expires_at r of None \<Rightarrow> False | Some t \<Rightarrow> t \<le> now)"

definition serialize_delivery :: "delivery_record \<Rightarrow> json" where
  "serialize_delivery r = JDict
     [(''logical_ticket_id'', JStr (dl_logical_ticket_id r)), (''delivery_attempt_id'', JStr (dl_delivery_attempt_id r)), (''state'', JStr (dl_state r)),
      (''attempt_number'', JInt (dl_attempt_number r)), (''created_at'', json_opt_time (dl_created_at r)), (''updated_at'', json_opt_time (dl_updated_at r)),
      (''strategy_id'', JStr (dl_strategy_id r)), (''strategy_version'', JStr (dl_strategy_version r)), (''application_release'', JStr (dl_application_release r)),
      (''symbol'', JStr (dl_symbol r)), (''cycle'', JStr (dl_cycle r)), (''trading_date'', JStr (dl_trading_date r)), (''payload_hash'', JStr (dl_payload_hash r)),
      (''provider'', JStr (dl_provider r)), (''provider_response_id'', json_opt_str (dl_provider_response_id r)),
      (''retry_classification'', json_opt_str (dl_retry_classification r)), (''failure_evidence_redacted'', json_opt_str (dl_failure_evidence r)),
      (''expires_at'', json_opt_time (dl_expires_at r))]"

definition dt_field :: "(string \<times> json) list \<Rightarrow> string \<Rightarrow> datetime option res" where
  "dt_field d k =
     (if \<not> truthy (dget d k) then Inr None
      else case dget d k of JStr s \<Rightarrow> res_bind (time_of_text s) (\<lambda>t. Inr (Some t)) | _ \<Rightarrow> Inl TypeError)"

definition deserialize_delivery :: "json \<Rightarrow> delivery_record res" where
  "deserialize_delivery v =
     (case v of
        JDict d \<Rightarrow>
          res_bind (str_field d ''logical_ticket_id'') (\<lambda>tid. res_bind (str_field d ''delivery_attempt_id'') (\<lambda>aid.
          res_bind (str_field d ''state'') (\<lambda>s. res_bind (int_field d ''attempt_number'') (\<lambda>n.
          res_bind (dt_field d ''created_at'') (\<lambda>created. res_bind (dt_field d ''updated_at'') (\<lambda>updated.
          res_bind (str_field d ''strategy_id'') (\<lambda>sid. res_bind (str_field d ''strategy_version'') (\<lambda>sv.
          res_bind (str_field d ''application_release'') (\<lambda>rel. res_bind (str_field d ''symbol'') (\<lambda>sy.
          res_bind (str_field d ''cycle'') (\<lambda>cyc. res_bind (str_field d ''trading_date'') (\<lambda>day.
          res_bind (str_field d ''payload_hash'') (\<lambda>hash.
          res_bind (if map_of d ''provider'' = None then Inr ''TELEGRAM'' else str_field d ''provider'') (\<lambda>prov.
          res_bind (opt_str_field d ''provider_response_id'') (\<lambda>resp. res_bind (opt_str_field d ''retry_classification'') (\<lambda>retry.
          res_bind (opt_str_field d ''failure_evidence_redacted'') (\<lambda>fail. res_bind (dt_field d ''expires_at'') (\<lambda>expires.
            Inr \<lparr>dl_logical_ticket_id = tid, dl_delivery_attempt_id = aid, dl_state = s, dl_attempt_number = n, dl_created_at = created,
              dl_updated_at = updated, dl_strategy_id = sid, dl_strategy_version = sv, dl_application_release = rel, dl_symbol = sy, dl_cycle = cyc,
              dl_trading_date = day, dl_payload_hash = hash, dl_provider = prov, dl_provider_response_id = resp, dl_retry_classification = retry,
              dl_failure_evidence = fail, dl_expires_at = expires\<rparr>))))))))))))))))))
      | _ \<Rightarrow> Inl TypeError)"

definition delivery_get :: "kv_file \<Rightarrow> string \<Rightarrow> delivery_record option res" where
  "delivery_get f tid = typed_get deserialize_delivery f tid"

section \<open>The claim lock and creation\<close>

text \<open>The directory of the store: the record file and the names of the lock files.\<close>

record delivery_disk =
  dk_records :: kv_file
  dk_locks :: "string set"

definition lock_path :: "string \<Rightarrow> string" where
  "lock_path tid = ''claim_'' @ map (\<lambda>c. if c = CHR ''|'' then CHR ''_'' else c) tid @ ''.lock''"

text \<open>The exclusive creation; the flag is whether the directory could be written.\<close>

definition try_acquire_lock :: "bool \<Rightarrow> string \<Rightarrow> delivery_disk \<Rightarrow> delivery_disk \<times> bool res" where
  "try_acquire_lock writable tid dk =
     (if \<not> writable then (dk, Inl OSError)
      else if lock_path tid \<in> dk_locks dk then (dk, Inr False)
      else (dk\<lparr>dk_locks := insert (lock_path tid) (dk_locks dk)\<rparr>, Inr True))"

definition release_lock :: "bool \<Rightarrow> string \<Rightarrow> delivery_disk \<Rightarrow> delivery_disk \<times> unit res" where
  "release_lock writable tid dk =
     (if lock_path tid \<in> dk_locks dk \<and> \<not> writable then (dk, Inl OSError) else (dk\<lparr>dk_locks := dk_locks dk - {lock_path tid}\<rparr>, Inr ()))"

text \<open>A write of a record; a failed one raises.\<close>

definition delivery_put :: "save_env \<Rightarrow> string \<Rightarrow> delivery_record \<Rightarrow> delivery_disk \<Rightarrow> delivery_disk \<times> unit res" where
  "delivery_put env tid r dk = (case kv_put env tid (serialize_delivery r) (dk_records dk) of (f, x) \<Rightarrow> (dk\<lparr>dk_records := f\<rparr>, x))"

record delivery_facts =
  df_strategy_id :: string
  df_strategy_version :: string
  df_application_release :: string
  df_symbol :: string
  df_cycle :: string
  df_trading_date :: string

definition fresh_delivery :: "string \<Rightarrow> delivery_facts \<Rightarrow> string \<Rightarrow> string \<Rightarrow> datetime option \<Rightarrow> datetime \<Rightarrow> delivery_record" where
  "fresh_delivery tid x state payload_hash expires now =
     \<lparr>dl_logical_ticket_id = tid, dl_delivery_attempt_id = [], dl_state = state, dl_attempt_number = 0, dl_created_at = Some now,
      dl_updated_at = Some now, dl_strategy_id = df_strategy_id x, dl_strategy_version = df_strategy_version x,
      dl_application_release = df_application_release x, dl_symbol = df_symbol x, dl_cycle = df_cycle x, dl_trading_date = df_trading_date x,
      dl_payload_hash = payload_hash, dl_provider = ''TELEGRAM'', dl_provider_response_id = None, dl_retry_classification = None,
      dl_failure_evidence = None, dl_expires_at = expires\<rparr>"

definition create_unless :: "save_env \<Rightarrow> string \<Rightarrow> delivery_record \<Rightarrow> delivery_disk \<Rightarrow> delivery_disk \<times> delivery_record res" where
  "create_unless env tid r dk =
     (case delivery_get (dk_records dk) tid of
        Inl e \<Rightarrow> (dk, Inl e)
      | Inr (Some old) \<Rightarrow> (dk, Inr old)
      | Inr None \<Rightarrow> (case delivery_put env tid r dk of (dk', Inl e) \<Rightarrow> (dk', Inl e) | (dk', Inr _) \<Rightarrow> (dk', Inr r)))"

definition ensure_ready_to_deliver ::
  "save_env \<Rightarrow> string \<Rightarrow> delivery_facts \<Rightarrow> string \<Rightarrow> datetime option \<Rightarrow> datetime \<Rightarrow> delivery_disk \<Rightarrow> delivery_disk \<times> delivery_record res" where
  "ensure_ready_to_deliver env tid x payload_hash expires now dk =
     create_unless env tid (fresh_delivery tid x STATE_READY_TO_DELIVER payload_hash expires now) dk"

definition record_not_applicable ::
  "save_env \<Rightarrow> string \<Rightarrow> delivery_facts \<Rightarrow> datetime \<Rightarrow> delivery_disk \<Rightarrow> delivery_disk \<times> delivery_record res" where
  "record_not_applicable env tid x now dk = create_unless env tid (fresh_delivery tid x STATE_NOT_APPLICABLE [] None now) dk"

section \<open>Claims\<close>

record claim_result =
  cl_success :: bool
  cl_reason_code :: "string option"
  cl_record :: "delivery_record option"

definition claim_refused :: "string \<Rightarrow> delivery_record option \<Rightarrow> claim_result" where
  "claim_refused reason r = \<lparr>cl_success = False, cl_reason_code = Some reason, cl_record = r\<rparr>"

definition claimable :: "delivery_record \<Rightarrow> bool" where
  "claimable r \<longleftrightarrow> dl_state r \<in> set (STATE_READY_TO_DELIVER # RETRYABLE_STATES)"

text \<open>The check before the lock: a refusal, or the record to go on with.\<close>

definition claim_check :: "kv_file \<Rightarrow> string \<Rightarrow> datetime \<Rightarrow> (claim_result + delivery_record) res" where
  "claim_check f tid now =
     res_bind (delivery_get f tid) (\<lambda>x. Inr (
       case x of
         None \<Rightarrow> Inl (claim_refused ''LOGICAL_TICKET_NOT_FOUND'' None)
       | Some r \<Rightarrow>
           if is_expired r now then Inl (claim_refused ''TICKET_EXPIRED'' (Some r))
           else if \<not> claimable r then Inl (claim_refused ''DELIVERY_STATE_NOT_RETRYABLE'' (Some r)) else Inr r))"

text \<open>\<open>self.get(...) or record\<close>.\<close>

definition current_record :: "kv_file \<Rightarrow> string \<Rightarrow> delivery_record \<Rightarrow> delivery_record res" where
  "current_record f tid r = res_bind (delivery_get f tid) (\<lambda>x. Inr (case x of None \<Rightarrow> r | Some c \<Rightarrow> c))"

definition claimed_record :: "string \<Rightarrow> datetime \<Rightarrow> delivery_record \<Rightarrow> delivery_record" where
  "claimed_record tid now r =
     r\<lparr>dl_delivery_attempt_id := tid @ ''|attempt-'' @ text_03d (dl_attempt_number r + 1), dl_attempt_number := dl_attempt_number r + 1,
       dl_state := STATE_DELIVERY_CLAIMED, dl_updated_at := Some now\<rparr>"

record claim_env =
  ce_lock :: bool
  ce_release :: bool
  ce_save :: save_env

definition claim_for_delivery :: "claim_env \<Rightarrow> string \<Rightarrow> datetime \<Rightarrow> delivery_disk \<Rightarrow> delivery_disk \<times> claim_result res" where
  "claim_for_delivery env tid now dk =
     (case claim_check (dk_records dk) tid now of
        Inl e \<Rightarrow> (dk, Inl e)
      | Inr (Inl refusal) \<Rightarrow> (dk, Inr refusal)
      | Inr (Inr r) \<Rightarrow>
          (case try_acquire_lock (ce_lock env) tid dk of
             (dk1, Inl e) \<Rightarrow> (dk1, Inl e)
           | (dk1, Inr False) \<Rightarrow> (dk1, res_bind (current_record (dk_records dk1) tid r) (\<lambda>c. Inr (claim_refused ''DELIVERY_ALREADY_CLAIMED'' (Some c))))
           | (dk1, Inr True) \<Rightarrow>
               (case current_record (dk_records dk1) tid r of
                  Inl e \<Rightarrow> (dk1, Inl e)
                | Inr c \<Rightarrow>
                    if \<not> claimable c then
                      (case release_lock (ce_release env) tid dk1 of
                         (dk2, Inl e) \<Rightarrow> (dk2, Inl e) | (dk2, Inr _) \<Rightarrow> (dk2, Inr (claim_refused ''DELIVERY_ALREADY_CLAIMED'' (Some c))))
                    else
                      let claimed = claimed_record tid now c
                      in (case delivery_put (ce_save env) tid claimed dk1 of
                            (dk2, Inl e) \<Rightarrow> (dk2, Inl e)
                          | (dk2, Inr _) \<Rightarrow> (dk2, Inr \<lparr>cl_success = True, cl_reason_code = None, cl_record = Some claimed\<rparr>)))))"

section \<open>Outcomes of an attempt\<close>

datatype delivery_outcome = Delivered string | FailedRetryable string | FailedTerminal string | Ambiguous string

fun settled_record :: "delivery_outcome \<Rightarrow> datetime \<Rightarrow> delivery_record \<Rightarrow> delivery_record" where
  "settled_record (Delivered rid) now r = r\<lparr>dl_state := STATE_DELIVERED, dl_provider_response_id := Some rid, dl_updated_at := Some now\<rparr>"
| "settled_record (FailedRetryable ev) now r = r\<lparr>dl_state := STATE_DELIVERY_FAILED_RETRYABLE, dl_failure_evidence := Some ev,
     dl_retry_classification := Some ''RETRYABLE'', dl_updated_at := Some now\<rparr>"
| "settled_record (FailedTerminal ev) now r = r\<lparr>dl_state := STATE_DELIVERY_FAILED_TERMINAL, dl_failure_evidence := Some ev,
     dl_retry_classification := Some ''TERMINAL'', dl_updated_at := Some now\<rparr>"
| "settled_record (Ambiguous ev) now r = r\<lparr>dl_state := STATE_DELIVERY_AMBIGUOUS, dl_failure_evidence := Some ev,
     dl_retry_classification := Some ''AMBIGUOUS_REQUIRES_RECONCILIATION'', dl_updated_at := Some now\<rparr>"

fun keeps_lock :: "delivery_outcome \<Rightarrow> bool" where
  "keeps_lock (Ambiguous _) = True"
| "keeps_lock _ = False"

definition mark_outcome :: "delivery_outcome \<Rightarrow> save_env \<Rightarrow> bool \<Rightarrow> string \<Rightarrow> datetime \<Rightarrow> delivery_disk \<Rightarrow> delivery_disk \<times> delivery_record option res" where
  "mark_outcome out save writable tid now dk =
     (case delivery_get (dk_records dk) tid of
        Inl e \<Rightarrow> (dk, Inl e)
      | Inr None \<Rightarrow> (dk, Inr None)
      | Inr (Some r) \<Rightarrow>
          if dl_state r \<noteq> STATE_DELIVERY_CLAIMED then (dk, Inr None)
          else
            let updated = settled_record out now r
            in (case delivery_put save tid updated dk of
                  (dk1, Inl e) \<Rightarrow> (dk1, Inl e)
                | (dk1, Inr _) \<Rightarrow>
                    if keeps_lock out then (dk1, Inr (Some updated))
                    else (case release_lock writable tid dk1 of (dk2, Inl e) \<Rightarrow> (dk2, Inl e) | (dk2, Inr _) \<Rightarrow> (dk2, Inr (Some updated)))))"

definition mark_delivered :: "string \<Rightarrow> save_env \<Rightarrow> bool \<Rightarrow> string \<Rightarrow> datetime \<Rightarrow> delivery_disk \<Rightarrow> delivery_disk \<times> delivery_record option res" where
  "mark_delivered rid = mark_outcome (Delivered rid)"

definition mark_failed_retryable :: "string \<Rightarrow> save_env \<Rightarrow> bool \<Rightarrow> string \<Rightarrow> datetime \<Rightarrow> delivery_disk \<Rightarrow> delivery_disk \<times> delivery_record option res" where
  "mark_failed_retryable ev = mark_outcome (FailedRetryable ev)"

definition mark_failed_terminal :: "string \<Rightarrow> save_env \<Rightarrow> bool \<Rightarrow> string \<Rightarrow> datetime \<Rightarrow> delivery_disk \<Rightarrow> delivery_disk \<times> delivery_record option res" where
  "mark_failed_terminal ev = mark_outcome (FailedTerminal ev)"

definition mark_ambiguous :: "string \<Rightarrow> save_env \<Rightarrow> bool \<Rightarrow> string \<Rightarrow> datetime \<Rightarrow> delivery_disk \<Rightarrow> delivery_disk \<times> delivery_record option res" where
  "mark_ambiguous ev = mark_outcome (Ambiguous ev)"

definition resolve_ambiguous_outcome ::
  "string \<Rightarrow> string option \<Rightarrow> string option \<Rightarrow> save_env \<Rightarrow> bool \<Rightarrow> string \<Rightarrow> datetime \<Rightarrow> delivery_disk \<Rightarrow> delivery_disk \<times> delivery_record option res" where
  "resolve_ambiguous_outcome resolved_state rid ev save writable tid now dk =
     (if resolved_state \<notin> set AUTOMATIC_TERMINAL_STATES then (dk, Inl (ValueError ''resolved_state''))
      else case delivery_get (dk_records dk) tid of
        Inl e \<Rightarrow> (dk, Inl e)
      | Inr None \<Rightarrow> (dk, Inr None)
      | Inr (Some r) \<Rightarrow>
          if dl_state r \<noteq> STATE_DELIVERY_AMBIGUOUS then (dk, Inr None)
          else
            let updated = r\<lparr>dl_state := resolved_state, dl_provider_response_id := or_text rid (dl_provider_response_id r),
                  dl_failure_evidence := or_text ev (dl_failure_evidence r), dl_updated_at := Some now\<rparr>
            in (case delivery_put save tid updated dk of
                  (dk1, Inl e) \<Rightarrow> (dk1, Inl e)
                | (dk1, Inr _) \<Rightarrow>
                    (case release_lock writable tid dk1 of (dk2, Inl e) \<Rightarrow> (dk2, Inl e) | (dk2, Inr _) \<Rightarrow> (dk2, Inr (Some updated)))))"

section \<open>Policies and journal\<close>

record policy_decision =
  pd_allowed :: bool
  pd_reason_code :: "string option"

definition catch_up :: "int option \<Rightarrow> datetime \<Rightarrow> datetime \<Rightarrow> policy_decision" where
  "catch_up max_age checkpoint now =
     (if now < checkpoint then \<lparr>pd_allowed = False, pd_reason_code = Some ''BEFORE_CYCLE_CHECKPOINT''\<rparr>
      else case max_age of
        None \<Rightarrow> \<lparr>pd_allowed = False, pd_reason_code = Some ''CATCH_UP_POLICY_NOT_CONFIGURED''\<rparr>
      | Some a \<Rightarrow> if a < now - checkpoint then \<lparr>pd_allowed = False, pd_reason_code = Some ''OUTSIDE_CATCH_UP_WINDOW''\<rparr>
                  else \<lparr>pd_allowed = True, pd_reason_code = None\<rparr>)"

record retry_policy =
  rp_max_attempts :: "int option"
  rp_base_delay :: "rat option"
  rp_max_delay :: "rat option"

definition rp_is_configured :: "retry_policy \<Rightarrow> bool" where
  "rp_is_configured p \<longleftrightarrow> rp_max_attempts p \<noteq> None \<and> rp_base_delay p \<noteq> None \<and> rp_max_delay p \<noteq> None"

text \<open>A power of two from 1024 on does not convert to a float.\<close>

definition next_delay :: "retry_policy \<Rightarrow> int \<Rightarrow> rat res" where
  "next_delay p n =
     (if \<not> rp_is_configured p then Inl (ValueError ''RetryPolicy is not configured'')
      else if 1024 \<le> n - 1 then Inl OverflowError
      else let delay = fmul (the (rp_base_delay p)) (2 ^ nat (n - 1)) in Inr (if the (rp_max_delay p) < delay then the (rp_max_delay p) else delay))"

record retry_decision =
  rd_should_retry :: bool
  rd_reason_code :: "string option"
  rd_delay :: "rat option"

definition should_retry :: "retry_policy \<Rightarrow> int \<Rightarrow> string \<Rightarrow> retry_decision res" where
  "should_retry p n classification =
     (if classification \<noteq> ''RETRYABLE'' then Inr \<lparr>rd_should_retry = False, rd_reason_code = None, rd_delay = None\<rparr>
      else if \<not> rp_is_configured p then Inr \<lparr>rd_should_retry = False, rd_reason_code = Some ''RETRY_POLICY_NOT_CONFIGURED'', rd_delay = None\<rparr>
      else if the (rp_max_attempts p) \<le> n then Inr \<lparr>rd_should_retry = False, rd_reason_code = Some ''RETRY_MAX_ATTEMPTS_EXHAUSTED'', rd_delay = None\<rparr>
      else res_bind (next_delay p n) (\<lambda>x. Inr \<lparr>rd_should_retry = True, rd_reason_code = None, rd_delay = Some x\<rparr>))"

text \<open>The journal file as its lines; the flags are whether the write reached it.\<close>

definition journal_entry :: "delivery_record \<Rightarrow> json \<Rightarrow> json \<Rightarrow> json \<Rightarrow> datetime \<Rightarrow> (string \<times> json) list" where
  "journal_entry r final_state reason response now =
     [(''recorded_at'', JStr (iso_datetime now)), (''logical_ticket_id'', JStr (dl_logical_ticket_id r)), (''delivery_attempt_id'', JStr (dl_delivery_attempt_id r)),
      (''attempt_number'', JInt (dl_attempt_number r)), (''provider'', JStr (dl_provider r)), (''strategy_id'', JStr (dl_strategy_id r)),
      (''strategy_version'', JStr (dl_strategy_version r)), (''symbol'', JStr (dl_symbol r)), (''cycle'', JStr (dl_cycle r)),
      (''trading_date'', JStr (dl_trading_date r)), (''final_state'', final_state), (''reason_code'', reason), (''provider_response_id'', response)]"

definition journal_record :: "bool \<Rightarrow> delivery_record \<Rightarrow> json \<Rightarrow> json \<Rightarrow> json \<Rightarrow> datetime \<Rightarrow> json list \<Rightarrow> json list \<times> json res" where
  "journal_record writable r final_state reason response now ls =
     (let entry = JDict (journal_entry r final_state reason response now)
      in if writable then (ls @ [canon entry], Inr entry) else (ls, Inl OSError))"

end
