(* ===== verification/Delivery_Safety.thy ===== *)
theory Delivery_Safety
  imports Delivery
begin

text \<open>
  Deliveries by several threads. A thread claims, sends and settles in the steps of the source between
  two reads or writes, interleaved with the steps of every other thread, with creations, with the
  resolution of an ambiguous outcome, and with restarts; a thread that never moves again has crashed.
\<close>

section \<open>Identity\<close>

lemma SAFE_FIELD_no_bar: "SAFE_FIELD s \<Longrightarrow> CHR ''|'' \<notin> set s"
proof -
  assume s: "SAFE_FIELD s"
  have b: "\<not> safe_char (CHR ''|'')" by code_simp
  show ?thesis
  proof (cases "s \<noteq> [] \<and> last s = NEWLINE")
    case True
    then obtain x where x: "s = x @ [NEWLINE]" by (metis append_butlast_last_id)
    with s have "list_all safe_char x" by (simp add: SAFE_FIELD_def Let_def)
    with b x show ?thesis by (auto simp: NEWLINE_def list_all_iff)
  next
    case False
    with s b show ?thesis by (auto simp: SAFE_FIELD_def list_all_iff Let_def)
  qed
qed

lemma join_bar_inj:
  "length xs = length ys \<Longrightarrow> (\<forall>x \<in> set xs. CHR ''|'' \<notin> set x) \<Longrightarrow> (\<forall>y \<in> set ys. CHR ''|'' \<notin> set y) \<Longrightarrow> join_bar xs = join_bar ys \<Longrightarrow> xs = ys"
proof (induction xs ys rule: list_induct2)
  case (Cons x xs y ys)
  have split: "x = y \<and> u = v" if "x @ CHR ''|'' # u = y @ CHR ''|'' # v" "CHR ''|'' \<notin> set x" "CHR ''|'' \<notin> set y" for x y u v :: string
    using that by (induction x arbitrary: y) (case_tac y; auto)+
  from Cons show ?case by (cases xs; cases ys) (auto dest: split)
qed simp

lemma logical_ticket_id_ok:
  assumes "logical_ticket_id a b c d e = Inr i"
  shows "i = join_bar [a, b, c, d, iso_date e]" "\<forall>x \<in> set [a, b, c, d, iso_date e]. CHR ''|'' \<notin> set x"
  using assms by (auto simp: logical_ticket_id_def validate_field_def res_bind_Inr_iff split: if_splits dest: SAFE_FIELD_no_bar)

section \<open>Records in the store\<close>

definition delivery_ok :: "delivery_record \<Rightarrow> bool" where
  "delivery_ok r \<longleftrightarrow> pred_option valid_datetime (dl_created_at r) \<and> pred_option valid_datetime (dl_updated_at r) \<and>
     pred_option valid_datetime (dl_expires_at r)"

lemma dt_field_time: "dget d k = json_opt_time t \<Longrightarrow> pred_option valid_datetime t \<Longrightarrow> dt_field d k = Inr t"
  by (cases t) (simp_all add: dt_field_def json_opt_time_def)

interpretation delivery: kv_codec serialize_delivery deserialize_delivery "\<lambda>r. r" delivery_ok
proof unfold_locales
  fix r :: delivery_record
  show "wf_json (serialize_delivery r)" if "delivery_ok r" by (simp add: serialize_delivery_def wf_dict_def)
  show "canon (serialize_delivery r) \<noteq> JNull" by (simp add: serialize_delivery_def)
  obtain d where d: "serialize_delivery r = JDict d" "wf_dict d" by (simp add: serialize_delivery_def wf_dict_def)
  from canon_object [OF d(2)] obtain d' where c: "canon (JDict d) = JDict d'" "map_of d' = map_option canon \<circ> map_of d"
    and g: "\<And>k. dget d' k = (case map_of d k of None \<Rightarrow> JNull | Some v \<Rightarrow> canon v)" by blast
  show "deserialize_delivery (canon (serialize_delivery r)) = Inr r" if ok: "delivery_ok r"
  proof -
    have t: "dt_field d' ''created_at'' = Inr (dl_created_at r)" "dt_field d' ''updated_at'' = Inr (dl_updated_at r)"
      "dt_field d' ''expires_at'' = Inr (dl_expires_at r)"
      using ok d(1) by (auto simp: delivery_ok_def serialize_delivery_def g intro!: dt_field_time)
    have o: "opt_str_field d' ''provider_response_id'' = Inr (dl_provider_response_id r)" "opt_str_field d' ''retry_classification'' = Inr (dl_retry_classification r)"
      "opt_str_field d' ''failure_evidence_redacted'' = Inr (dl_failure_evidence r)"
      using d(1) by (auto simp: serialize_delivery_def g)
    show ?thesis unfolding d(1) c(1) deserialize_delivery_def using d(1)
      by (auto simp: serialize_delivery_def c(2) t o)
  qed
qed

abbreviation delivery_view :: "delivery_disk \<Rightarrow> string \<Rightarrow> delivery_record option res" where
  "delivery_view dk \<equiv> delivery_get (dk_records dk)"

lemma delivery_put_cases:
  assumes "kv_own (dk_records dk)" "delivery_ok r"
  obtains (fails) err where "delivery_put env tid r dk = (dk, Inl err)"
  | (writes) dk' where "delivery_put env tid r dk = (dk', Inr ())" "kv_own (dk_records dk')" "dk_locks dk' = dk_locks dk"
      "delivery_view dk' = (delivery_view dk)(tid := Inr (Some r))"
proof (cases rule: delivery.write_cases [OF assms, of env tid])
  case (1 err)
  then show thesis using fails by (simp add: delivery_put_def)
next
  case (2 f')
  then have "delivery_get f' = (delivery_view dk)(tid := Inr (Some r))" by (auto simp: delivery_get_def fun_eq_iff)
  with 2 show thesis using writes [of "dk\<lparr>dk_records := f'\<rparr>"] by (simp add: delivery_put_def)
qed

section \<open>Threads\<close>

datatype thread =
    Idle
  | Checked string datetime delivery_record
  | Locked string datetime delivery_record
  | Reread string datetime delivery_record
  | Claimed string
  | Sent string
  | Settling string delivery_outcome delivery_record
  | Releasing string

text \<open>The ticket whose lock a thread has created and not yet removed.\<close>

fun holding :: "thread \<Rightarrow> string option" where
  "holding (Locked t _ _) = Some t"
| "holding (Reread t _ _) = Some t"
| "holding (Claimed t) = Some t"
| "holding (Sent t) = Some t"
| "holding (Settling t _ _) = Some t"
| "holding (Releasing t) = Some t"
| "holding _ = None"

text \<open>The logs of provider calls and of recorded retryable failures belong to the model only.\<close>

record delivery_system =
  ds_disk :: delivery_disk
  ds_threads :: "nat \<Rightarrow> thread"
  ds_sent :: "string list"
  ds_failed :: "string list"

datatype delivery_event =
    EnsureReady save_env string delivery_facts string "datetime option" datetime
  | NotApplicable save_env string delivery_facts datetime
  | ClaimCheck nat string datetime
  | ClaimLock nat bool
  | ClaimReread nat
  | ClaimWrite nat save_env
  | ProviderCall nat
  | SettleRead nat delivery_outcome
  | SettleWrite nat save_env datetime
  | ReleaseLock nat bool
  | Resolve string "string option" "string option" save_env bool string datetime
  | Restart

abbreviation becomes :: "nat \<Rightarrow> thread \<Rightarrow> delivery_system \<Rightarrow> delivery_system" where
  "becomes w p s \<equiv> s\<lparr>ds_threads := (ds_threads s)(w := p)\<rparr>"

fun retryable :: "delivery_outcome \<Rightarrow> bool" where
  "retryable (FailedRetryable _) = True"
| "retryable _ = False"

fun delivery_step :: "delivery_event \<Rightarrow> delivery_system \<Rightarrow> delivery_system" where
  "delivery_step (EnsureReady save tid x h expires now) s = s\<lparr>ds_disk := fst (ensure_ready_to_deliver save tid x h expires now (ds_disk s))\<rparr>"
| "delivery_step (NotApplicable save tid x now) s = s\<lparr>ds_disk := fst (record_not_applicable save tid x now (ds_disk s))\<rparr>"
| "delivery_step (ClaimCheck w tid now) s =
     (case (ds_threads s w, claim_check (dk_records (ds_disk s)) tid now) of
        (Idle, Inr (Inr r)) \<Rightarrow> becomes w (Checked tid now r) s | _ \<Rightarrow> s)"
| "delivery_step (ClaimLock w writable) s =
     (case ds_threads s w of
        Checked tid now r \<Rightarrow>
          (case try_acquire_lock writable tid (ds_disk s) of
             (dk, Inr True) \<Rightarrow> becomes w (Locked tid now r) (s\<lparr>ds_disk := dk\<rparr>)
           | (dk, _) \<Rightarrow> becomes w Idle (s\<lparr>ds_disk := dk\<rparr>))
      | _ \<Rightarrow> s)"
| "delivery_step (ClaimReread w) s =
     (case ds_threads s w of
        Locked tid now r \<Rightarrow>
          becomes w (case current_record (dk_records (ds_disk s)) tid r of
             Inl e \<Rightarrow> Idle | Inr c \<Rightarrow> if claimable c then Reread tid now c else Releasing tid) s
      | _ \<Rightarrow> s)"
| "delivery_step (ClaimWrite w save) s =
     (case ds_threads s w of
        Reread tid now c \<Rightarrow>
          (case delivery_put save tid (claimed_record tid now c) (ds_disk s) of
             (dk, Inr _) \<Rightarrow> becomes w (Claimed tid) (s\<lparr>ds_disk := dk\<rparr>)
           | (dk, Inl _) \<Rightarrow> becomes w Idle (s\<lparr>ds_disk := dk\<rparr>))
      | _ \<Rightarrow> s)"
| "delivery_step (ProviderCall w) s =
     (case ds_threads s w of Claimed tid \<Rightarrow> becomes w (Sent tid) (s\<lparr>ds_sent := ds_sent s @ [tid]\<rparr>) | _ \<Rightarrow> s)"
| "delivery_step (SettleRead w out) s =
     (let settle = (\<lambda>tid. becomes w (case delivery_get (dk_records (ds_disk s)) tid of
             Inr (Some r) \<Rightarrow> if dl_state r = STATE_DELIVERY_CLAIMED then Settling tid out r else Idle | _ \<Rightarrow> Idle) s)
      in case ds_threads s w of Claimed tid \<Rightarrow> settle tid | Sent tid \<Rightarrow> settle tid | _ \<Rightarrow> s)"
| "delivery_step (SettleWrite w save now) s =
     (case ds_threads s w of
        Settling tid out r \<Rightarrow>
          (case delivery_put save tid (settled_record out now r) (ds_disk s) of
             (dk, Inr _) \<Rightarrow> becomes w (if keeps_lock out then Idle else Releasing tid)
                 (s\<lparr>ds_disk := dk, ds_failed := ds_failed s @ (if retryable out then [tid] else [])\<rparr>)
           | (dk, Inl _) \<Rightarrow> becomes w Idle (s\<lparr>ds_disk := dk\<rparr>))
      | _ \<Rightarrow> s)"
| "delivery_step (ReleaseLock w writable) s =
     (case ds_threads s w of Releasing tid \<Rightarrow> becomes w Idle (s\<lparr>ds_disk := fst (release_lock writable tid (ds_disk s))\<rparr>) | _ \<Rightarrow> s)"
| "delivery_step (Resolve st rid ev save writable tid now) s =
     s\<lparr>ds_disk := fst (resolve_ambiguous_outcome st rid ev save writable tid now (ds_disk s))\<rparr>"
| "delivery_step Restart s = s\<lparr>ds_threads := \<lambda>_. Idle\<rparr>"

fun event_ok :: "delivery_event \<Rightarrow> bool" where
  "event_ok (EnsureReady _ _ _ _ expires now) \<longleftrightarrow> pred_option valid_datetime expires \<and> valid_datetime now"
| "event_ok (NotApplicable _ _ _ now) \<longleftrightarrow> valid_datetime now"
| "event_ok (ClaimCheck _ _ now) \<longleftrightarrow> valid_datetime now"
| "event_ok (SettleWrite _ _ now) \<longleftrightarrow> valid_datetime now"
| "event_ok (Resolve _ _ _ _ _ _ now) \<longleftrightarrow> valid_datetime now"
| "event_ok _ \<longleftrightarrow> True"

text \<open>The steps of one thread, without interference, are the operations of the store.\<close>

lemma claim_steps:
  assumes "ds_threads s w = Idle"
  shows "ds_disk (fold delivery_step [ClaimCheck w tid now, ClaimLock w (ce_lock env), ClaimReread w, ClaimWrite w (ce_save env), ReleaseLock w (ce_release env)] s) =
    fst (claim_for_delivery env tid now (ds_disk s))"
proof (cases "\<exists>r. claim_check (dk_records (ds_disk s)) tid now = Inr (Inr r) \<and> ce_lock env \<and> lock_path tid \<notin> dk_locks (ds_disk s)")
  case True
  then obtain r where r: "claim_check (dk_records (ds_disk s)) tid now = Inr (Inr r)" "ce_lock env" "lock_path tid \<notin> dk_locks (ds_disk s)" by blast
  let ?dk = "(ds_disk s)\<lparr>dk_locks := insert (lock_path tid) (dk_locks (ds_disk s))\<rparr>"
  show ?thesis
  proof (cases "current_record (dk_records (ds_disk s)) tid r")
    case (Inl e)
    with r assms show ?thesis by (simp add: claim_for_delivery_def try_acquire_lock_def)
  next
    case (Inr c)
    obtain dk2 x where p: "delivery_put (ce_save env) tid (claimed_record tid now c) ?dk = (dk2, x)" by fastforce
    from Inr p r assms show ?thesis
      by (cases "claimable c"; cases x; cases "release_lock (ce_release env) tid ?dk") (simp_all add: claim_for_delivery_def try_acquire_lock_def split: sum.split)
  qed
next
  case False
  show ?thesis
  proof (cases "claim_check (dk_records (ds_disk s)) tid now")
    case (Inl e)
    with assms show ?thesis by (simp add: claim_for_delivery_def)
  next
    case (Inr x)
    with assms False show ?thesis
      by (cases x; cases "ce_lock env") (simp_all add: claim_for_delivery_def try_acquire_lock_def)
  qed
qed

lemma settle_steps:
  assumes "ds_threads s w = Claimed tid \<or> ds_threads s w = Sent tid"
  shows "ds_disk (fold delivery_step [SettleRead w out, SettleWrite w save now, ReleaseLock w writable] s) =
    fst (mark_outcome out save writable tid now (ds_disk s))"
proof (cases "\<exists>r. delivery_view (ds_disk s) tid = Inr (Some r) \<and> dl_state r = STATE_DELIVERY_CLAIMED")
  case True
  then obtain r where r: "delivery_view (ds_disk s) tid = Inr (Some r)" "dl_state r = STATE_DELIVERY_CLAIMED" by blast
  obtain dk1 x where p: "delivery_put save tid (settled_record out now r) (ds_disk s) = (dk1, x)" by fastforce
  from p r assms show ?thesis
    by (cases x; cases "keeps_lock out"; cases "release_lock writable tid dk1") (auto simp: mark_outcome_def Let_def split: sum.split)
next
  case False
  with assms show ?thesis by (auto simp: mark_outcome_def Let_def split: sum.splits option.splits)
qed

section \<open>Invariant\<close>

text \<open>What every stored record satisfies: it is the record of its key, in one of the seven states, and
  it names its latest attempt exactly when there was one.\<close>

definition delivery_wf :: "string \<Rightarrow> delivery_record \<Rightarrow> bool" where
  "delivery_wf t r \<longleftrightarrow> delivery_ok r \<and> dl_logical_ticket_id r = t \<and> 0 \<le> dl_attempt_number r \<and>
     dl_delivery_attempt_id r = (if dl_attempt_number r = 0 then [] else t @ ''|attempt-'' @ text_03d (dl_attempt_number r)) \<and>
     dl_state r \<in> (if dl_attempt_number r = 0 then {STATE_READY_TO_DELIVER, STATE_NOT_APPLICABLE}
       else {STATE_DELIVERY_CLAIMED, STATE_DELIVERED, STATE_DELIVERY_FAILED_RETRYABLE, STATE_DELIVERY_FAILED_TERMINAL, STATE_DELIVERY_AMBIGUOUS})"

lemma delivery_wf_ok: "delivery_wf t r \<Longrightarrow> delivery_ok r"
  by (simp add: delivery_wf_def)

lemma claimed_record_wf: "delivery_wf t r \<Longrightarrow> valid_datetime now \<Longrightarrow> delivery_wf t (claimed_record t now r)"
  by (simp add: delivery_wf_def delivery_ok_def claimed_record_def)

lemma settled_record_wf:
  "delivery_wf t r \<Longrightarrow> dl_state r = STATE_DELIVERY_CLAIMED \<Longrightarrow> valid_datetime now \<Longrightarrow> delivery_wf t (settled_record out now r)"
  by (cases out) (auto simp: delivery_wf_def delivery_ok_def delivery_states)

text \<open>A ticket counts as busy when its record exists and may not be claimed.\<close>

definition busy :: "(string \<Rightarrow> delivery_record option res) \<Rightarrow> string \<Rightarrow> nat" where
  "busy g t = (case g t of Inr None \<Rightarrow> 0 | Inr (Some r) \<Rightarrow> if claimable r then 0 else 1 | Inl _ \<Rightarrow> 1)"

fun thread_ok :: "(string \<Rightarrow> delivery_record option res) \<Rightarrow> thread \<Rightarrow> bool" where
  "thread_ok g (Checked t now r) \<longleftrightarrow> valid_datetime now \<and> (\<exists>c. g t = Inr (Some c))"
| "thread_ok g (Locked t now r) \<longleftrightarrow> valid_datetime now \<and> (\<exists>c. g t = Inr (Some c))"
| "thread_ok g (Reread t now c) \<longleftrightarrow> valid_datetime now \<and> g t = Inr (Some c) \<and> claimable c"
| "thread_ok g (Settling t out r) \<longleftrightarrow> g t = Inr (Some r) \<and> dl_state r = STATE_DELIVERY_CLAIMED"
| "thread_ok g _ \<longleftrightarrow> True"

definition claimed_by :: "(nat \<Rightarrow> thread) \<Rightarrow> string \<Rightarrow> nat" where
  "claimed_by pc t = (if \<exists>w. pc w = Claimed t then 1 else 0)"

definition ambiguous :: "(string \<Rightarrow> delivery_record option res) \<Rightarrow> string set" where
  "ambiguous g = {t. \<exists>r. g t = Inr (Some r) \<and> dl_state r = STATE_DELIVERY_AMBIGUOUS}"

definition lock_of :: "thread \<Rightarrow> string option" where
  "lock_of p = map_option lock_path (holding p)"

text \<open>
  A held lock exists and has one holder; an ambiguous ticket keeps its lock, which nobody holds; and
  a ticket was sent at most once more often than its failures allow.
\<close>

definition locks_ok :: "string set \<Rightarrow> string set \<Rightarrow> (nat \<Rightarrow> string option) \<Rightarrow> bool" where
  "locks_ok amb locks own \<longleftrightarrow>
     (\<forall>w p. own w = Some p \<longrightarrow> p \<in> locks) \<and> (\<forall>w w' p. own w = Some p \<longrightarrow> own w' = Some p \<longrightarrow> w = w') \<and>
     (\<forall>t \<in> amb. lock_path t \<in> locks) \<and> (\<forall>t w. t \<in> amb \<longrightarrow> own w \<noteq> Some (lock_path t)) \<and> inj_on lock_path amb"

definition core :: "(string \<Rightarrow> delivery_record option res) \<Rightarrow> string set \<Rightarrow> (nat \<Rightarrow> thread) \<Rightarrow> string list \<Rightarrow> string list \<Rightarrow> bool" where
  "core g locks pc sent failed \<longleftrightarrow>
     (\<forall>t r. g t = Inr (Some r) \<longrightarrow> delivery_wf t r) \<and> (\<forall>w. thread_ok g (pc w)) \<and> locks_ok (ambiguous g) locks (lock_of \<circ> pc) \<and>
     (\<forall>t. count_list sent t + claimed_by pc t \<le> count_list failed t + busy g t)"

text \<open>How the locks change: one is taken, given up, removed or left to an ambiguous ticket.\<close>

lemma locks_ok_held:
  assumes "locks_ok A L own" "own w = Some p"
  shows "p \<in> L" "p \<notin> lock_path ` A"
  using assms by (auto simp: locks_ok_def)

lemma locks_ok_less:
  assumes "locks_ok A L own" "A' \<subseteq> A" "\<And>w. own' w = None \<or> own' w = own w"
  shows "locks_ok A' L own'"
proof -
  have o: "own' w = Some p \<Longrightarrow> own w = Some p" for w p using assms(3) [of w] by auto
  have "w = w'" if "own' w = Some p" "own' w' = Some p" for w w' p
    using o [OF that(1)] o [OF that(2)] assms(1) unfolding locks_ok_def by blast
  with assms(1,2) o show ?thesis unfolding locks_ok_def by (blast intro: inj_on_subset)
qed

lemma locks_ok_take: "locks_ok A L own \<Longrightarrow> p \<notin> L \<Longrightarrow> locks_ok A (insert p L) (own(w := Some p))"
  unfolding locks_ok_def by (auto split: if_splits)

lemma locks_ok_drop: "locks_ok A L own \<Longrightarrow> p \<notin> lock_path ` A \<Longrightarrow> (\<And>w. own w \<noteq> Some p) \<Longrightarrow> locks_ok A (L - {p}) own"
  unfolding locks_ok_def by blast

lemma locks_ok_add:
  assumes "locks_ok A L own" "lock_path t \<in> L" "lock_path t \<notin> lock_path ` A" "\<And>w. own w \<noteq> Some (lock_path t)"
  shows "locks_ok (insert t A) L own"
proof -
  have "inj_on lock_path (insert t A)" using assms(1,3) by (auto simp: locks_ok_def)
  with assms(1,2,4) show ?thesis unfolding locks_ok_def by blast
qed

lemma locks_ok_leave:
  assumes l: "locks_ok A L own" and h: "own w = Some (lock_path t)"
  shows "locks_ok (insert t A) L (own(w := None))"
proof -
  have less: "locks_ok A L (own(w := None))" by (rule locks_ok_less [OF l]) auto
  note locks_ok_held [OF l h]
  moreover have "(own(w := None)) w' \<noteq> Some (lock_path t)" for w' using l h unfolding locks_ok_def by (cases "w' = w") auto
  ultimately show ?thesis by (intro locks_ok_add less)
qed

lemma claimed_by_upd: "claimed_by (pc(w := p)) t \<le> (if p = Claimed t then 1 else claimed_by pc t)"
  by (auto simp: claimed_by_def)

lemma lock_of_simps [simp]: "lock_of Idle = None" "lock_of (Checked t n r) = None" "lock_of (Locked t n r) = Some (lock_path t)"
  "lock_of (Reread t n r) = Some (lock_path t)" "lock_of (Claimed t) = Some (lock_path t)" "lock_of (Sent t) = Some (lock_path t)"
  "lock_of (Settling t out r) = Some (lock_path t)" "lock_of (Releasing t) = Some (lock_path t)"
  by (simp_all add: lock_of_def)

lemma lock_of_upd: "lock_of \<circ> pc(w := p) = (lock_of \<circ> pc)(w := lock_of p)"
  by (auto simp: fun_eq_iff)

text \<open>A step of one thread that reads.\<close>

lemma core_thread:
  assumes "core g L pc sent failed" "lock_of p = None \<or> lock_of p = lock_of (pc w)" "thread_ok g p" "\<And>t. p = Claimed t \<Longrightarrow> pc w = Claimed t"
  shows "core g L (pc(w := p)) sent failed"
proof -
  have "claimed_by (pc(w := p)) t \<le> claimed_by pc t" for t using assms(4) [of t] by (auto simp: claimed_by_def split: if_splits)
  then have "\<forall>t. count_list sent t + claimed_by (pc(w := p)) t \<le> count_list failed t + busy g t"
    using assms(1) unfolding core_def by (meson add_left_mono le_trans)
  moreover have "locks_ok (ambiguous g) L (lock_of \<circ> pc)" using assms(1) by (simp add: core_def)
  then have "locks_ok (ambiguous g) L ((lock_of \<circ> pc)(w := lock_of p))" by (rule locks_ok_less) (use assms(2) in auto)
  ultimately show ?thesis using assms(1,3) by (simp add: core_def lock_of_upd)
qed

lemma core_locks: "core g L pc sent failed \<Longrightarrow> locks_ok (ambiguous g) L' (lock_of \<circ> pc) \<Longrightarrow> core g L' pc sent failed"
  by (simp add: core_def)

lemma core_lock:
  assumes "core g L pc sent failed" "pc w = Checked t now r" "lock_path t \<notin> L"
  shows "core g (insert (lock_path t) L) (pc(w := Locked t now r)) sent failed"
proof -
  have "claimed_by (pc(w := Locked t now r)) t' \<le> claimed_by pc t'" for t' by (auto simp: claimed_by_def)
  then have "\<forall>t'. count_list sent t' + claimed_by (pc(w := Locked t now r)) t' \<le> count_list failed t' + busy g t'"
    using assms(1) unfolding core_def by (meson add_left_mono le_trans)
  moreover have "thread_ok g (pc w)" using assms(1) by (simp add: core_def)
  ultimately show ?thesis using assms by (auto simp: core_def lock_of_upd intro: locks_ok_take)
qed

lemma core_release:
  assumes "core g L pc sent failed" "pc w = Releasing t"
  shows "core g (L - {lock_path t}) (pc(w := Idle)) sent failed"
proof (rule core_locks)
  show "core g L (pc(w := Idle)) sent failed" by (rule core_thread [OF assms(1)]) simp_all
  show "locks_ok (ambiguous g) (L - {lock_path t}) (lock_of \<circ> pc(w := Idle))"
  proof -
    have l: "locks_ok (ambiguous g) L (lock_of \<circ> pc)" "(lock_of \<circ> pc) w = Some (lock_path t)" using assms by (simp_all add: core_def)
    note locks_ok_held(2) [OF l]
    moreover have "((lock_of \<circ> pc)(w := None)) w' \<noteq> Some (lock_path t)" for w' using l unfolding locks_ok_def by (cases "w' = w") auto
    moreover have "locks_ok (ambiguous g) L ((lock_of \<circ> pc)(w := None))" by (rule locks_ok_less [OF l(1)]) auto
    ultimately show ?thesis unfolding lock_of_upd lock_of_simps by (intro locks_ok_drop) blast+
  qed
qed

text \<open>Another thread with a record in hand has another lock.\<close>

lemma thread_ok_upd:
  assumes "thread_ok g p" "lock_of p \<noteq> Some (lock_path t)"
  shows "thread_ok (g(t := Inr (Some r))) p"
  using assms by (cases p) auto

lemma core_alone:
  assumes "core g L pc sent failed" "lock_of (pc w) = Some (lock_path t)" "w' \<noteq> w"
  shows "lock_of (pc w') \<noteq> Some (lock_path t)"
  using assms by (auto simp: core_def locks_ok_def)

lemma ambiguous_upd: "ambiguous (g(t := Inr (Some r))) = (if dl_state r = STATE_DELIVERY_AMBIGUOUS then insert t (ambiguous g) else ambiguous g - {t})"
  by (auto simp: ambiguous_def)

text \<open>A write by the thread that holds the lock.\<close>

lemma core_write:
  assumes c: "core g L pc sent failed" and h: "lock_of (pc w) = Some (lock_path t)" and r: "delivery_wf t r"
    and p: "thread_ok (g(t := Inr (Some r))) p" "lock_of p = None \<or> dl_state r \<noteq> STATE_DELIVERY_AMBIGUOUS \<and> lock_of p = lock_of (pc w)"
    and n: "\<And>u. count_list sent' u + claimed_by (pc(w := p)) u \<le> count_list failed' u + busy (g(t := Inr (Some r))) u"
  shows "core (g(t := Inr (Some r))) L (pc(w := p)) sent' failed'"
proof -
  have "\<forall>w'. thread_ok (g(t := Inr (Some r))) ((pc(w := p)) w')"
    using thread_ok_upd core_alone [OF c h] c p(1) by (auto simp: core_def)
  moreover have "locks_ok (ambiguous g) L (lock_of \<circ> pc)" using c by (simp add: core_def)
  from locks_ok_leave [OF this, of w t] locks_ok_less [OF this] h p(2)
  have "locks_ok (ambiguous (g(t := Inr (Some r)))) L ((lock_of \<circ> pc)(w := lock_of p))"
    by (auto simp: ambiguous_upd fun_upd_idem)
  ultimately show ?thesis using c r n by (auto simp: core_def lock_of_upd)
qed

lemma busy_upd [simp]: "busy (g(t := Inr (Some r))) u = (if u = t then if claimable r then 0 else 1 else busy g u)"
  by (simp add: busy_def)

lemma core_count: "core g L pc sent failed \<Longrightarrow> count_list sent u + claimed_by pc u \<le> count_list failed u + busy g u"
  by (simp add: core_def)

lemma claimed_by_alone:
  assumes "core g L pc sent failed" "lock_of (pc w) = Some (lock_path t)" "pc w \<noteq> Claimed t"
  shows "claimed_by pc t = 0"
proof -
  have "pc w' \<noteq> Claimed t" for w' using core_alone [OF assms(1,2), of w'] assms(3) by (cases "w' = w") auto
  then show ?thesis by (simp add: claimed_by_def)
qed

lemma core_claim:
  assumes c: "core g L pc sent failed" and w: "pc w = Reread t now r"
  shows "core (g(t := Inr (Some (claimed_record t now r)))) L (pc(w := Claimed t)) sent failed"
proof (rule core_write [OF c])
  have t: "valid_datetime now" "g t = Inr (Some r)" "claimable r" using c w by (auto simp: core_def dest: spec [of _ w])
  then have "delivery_wf t r" using c by (auto simp: core_def)
  then show "delivery_wf t (claimed_record t now r)" using t(1) by (rule claimed_record_wf)
  have n: "\<not> claimable (claimed_record t now r)" by (simp add: claimable_def claimed_record_def RETRYABLE_STATES_def delivery_states)
  have b: "busy g t = 0" using t by (simp add: busy_def)
  have "claimed_by pc t = 0" by (rule claimed_by_alone [OF c, of w]) (simp_all add: w)
  then show "count_list sent u + claimed_by (pc(w := Claimed t)) u \<le> count_list failed u + busy (g(t := Inr (Some (claimed_record t now r)))) u" for u
    using core_count [OF c, of u] claimed_by_upd [of pc w "Claimed t" u] n b by (cases "u = t") auto
qed (use w in \<open>simp_all add: claimed_record_def delivery_states\<close>)

lemma core_send:
  assumes c: "core g L pc sent failed" and w: "pc w = Claimed t"
  shows "core g L (pc(w := Sent t)) (sent @ [t]) failed"
proof -
  have k: "core g L (pc(w := Sent t)) sent failed" using w by (intro core_thread [OF c]) simp_all
  have "claimed_by pc t = 1" using w by (auto simp: claimed_by_def)
  moreover have "claimed_by (pc(w := Sent t)) t = 0" by (rule claimed_by_alone [OF k, of w]) simp_all
  ultimately have "count_list (sent @ [t]) u + claimed_by (pc(w := Sent t)) u \<le> count_list failed u + busy g u" for u
    using core_count [OF c, of u] core_count [OF k, of u] by (cases "u = t") auto
  with k show ?thesis by (simp add: core_def)
qed

lemma settled_props:
  "claimable (settled_record out now r) \<longleftrightarrow> retryable out"
  "dl_state (settled_record out now r) = STATE_DELIVERY_AMBIGUOUS \<longleftrightarrow> keeps_lock out"
  by (cases out; simp add: claimable_def RETRYABLE_STATES_def delivery_states)+

lemma core_settle:
  assumes c: "core g L pc sent failed" and w: "pc w = Settling t out r" and now: "valid_datetime now"
  shows "core (g(t := Inr (Some (settled_record out now r)))) L (pc(w := if keeps_lock out then Idle else Releasing t)) sent
    (failed @ (if retryable out then [t] else []))"
proof (rule core_write [OF c])
  have t: "g t = Inr (Some r)" "dl_state r = STATE_DELIVERY_CLAIMED" using c w by (auto simp: core_def dest: spec [of _ w])
  then have "delivery_wf t r" using c by (auto simp: core_def)
  then show "delivery_wf t (settled_record out now r)" using t(2) now by (rule settled_record_wf)
  have b: "busy g t \<le> 1" by (simp add: busy_def split: sum.split option.split)
  let ?pc = "pc(w := if keeps_lock out then Idle else Releasing t)"
  have le: "claimed_by ?pc u \<le> claimed_by pc u" for u by (auto simp: claimed_by_def split: if_splits)
  show "count_list sent u + claimed_by ?pc u \<le> count_list (failed @ (if retryable out then [t] else [])) u + busy (g(t := Inr (Some (settled_record out now r)))) u" for u
    using core_count [OF c, of u] b le [of u] by (cases "u = t") (auto simp: settled_props)
qed (use w in \<open>auto simp: settled_props\<close>)

text \<open>Writes outside a claim: a ticket is created, or an ambiguous one resolved.\<close>

lemma core_create:
  assumes c: "core g L pc sent failed" and r: "g t = Inr None" "delivery_wf t r" "dl_state r \<noteq> STATE_DELIVERY_AMBIGUOUS"
  shows "core (g(t := Inr (Some r))) L pc sent failed"
proof -
  have "thread_ok (g(t := Inr (Some r))) (pc w)" for w
    using c r(1) by (cases "pc w") (auto simp: core_def dest: spec [of _ w])
  moreover have "locks_ok (ambiguous g) L (lock_of \<circ> pc)" using c by (simp add: core_def)
  then have "locks_ok (ambiguous (g(t := Inr (Some r)))) L (lock_of \<circ> pc)"
    by (rule locks_ok_less) (use r(3) in \<open>auto simp: ambiguous_upd\<close>)
  moreover have "busy g u \<le> busy (g(t := Inr (Some r))) u" for u using r(1) by (auto simp: busy_def)
  then have "count_list sent u + claimed_by pc u \<le> count_list failed u + busy (g(t := Inr (Some r))) u" for u
    using core_count [OF c, of u] by (meson add_left_mono le_trans)
  ultimately show ?thesis using c r by (auto simp: core_def)
qed

lemma core_resolve:
  assumes c: "core g L pc sent failed" and t: "t \<in> ambiguous g" and r: "delivery_wf t r" "dl_state r \<in> set AUTOMATIC_TERMINAL_STATES"
  shows "core (g(t := Inr (Some r))) L pc sent failed" and "core (g(t := Inr (Some r))) (L - {lock_path t}) pc sent failed"
proof -
  have l: "locks_ok (ambiguous g) L (lock_of \<circ> pc)" using c by (simp add: core_def)
  then have "lock_of (pc w) \<noteq> Some (lock_path t)" for w using t by (auto simp: locks_ok_def)
  then have th: "thread_ok (g(t := Inr (Some r))) (pc w)" for w using c by (auto simp: core_def intro: thread_ok_upd)
  have n: "\<not> claimable r" "dl_state r \<noteq> STATE_DELIVERY_AMBIGUOUS"
    using r(2) by (auto simp: AUTOMATIC_TERMINAL_STATES_def claimable_def RETRYABLE_STATES_def delivery_states)
  have b: "busy g u \<le> busy (g(t := Inr (Some r))) u" for u
    using n(1) by (auto simp: busy_def split: sum.split option.split)
  have k: "count_list sent u + claimed_by pc u \<le> count_list failed u + busy (g(t := Inr (Some r))) u" for u
    using core_count [OF c, of u] b [of u] by linarith
  have a: "locks_ok (ambiguous g - {t}) L (lock_of \<circ> pc)" by (rule locks_ok_less [OF l]) auto
  with th k c r(1) n(2) show "core (g(t := Inr (Some r))) L pc sent failed" by (auto simp: core_def ambiguous_upd)
  then show "core (g(t := Inr (Some r))) (L - {lock_path t}) pc sent failed"
  proof (rule core_locks)
    have "lock_path t \<notin> lock_path ` (ambiguous g - {t})" using l t by (auto simp: locks_ok_def inj_on_def)
    with a l t n(2) show "locks_ok (ambiguous (g(t := Inr (Some r)))) (L - {lock_path t}) (lock_of \<circ> pc)"
      by (auto simp: ambiguous_upd intro!: locks_ok_drop) (auto simp: locks_ok_def)
  qed
qed

lemma core_restart: "core g L pc sent failed \<Longrightarrow> core g L (\<lambda>_. Idle) sent failed"
proof -
  assume c: "core g L pc sent failed"
  then have "locks_ok (ambiguous g) L (lock_of \<circ> (\<lambda>_. Idle))" by (auto simp: core_def intro: locks_ok_less)
  with c show ?thesis by (auto simp: core_def claimed_by_def intro: add_leD1)
qed

section \<open>Every step keeps the invariant\<close>

definition system_inv :: "delivery_system \<Rightarrow> bool" where
  "system_inv s \<longleftrightarrow> kv_own (dk_records (ds_disk s)) \<and>
     core (delivery_view (ds_disk s)) (dk_locks (ds_disk s)) (ds_threads s) (ds_sent s) (ds_failed s)"

lemma create_inv:
  assumes i: "system_inv s" and r: "delivery_wf tid r" "dl_state r \<noteq> STATE_DELIVERY_AMBIGUOUS"
  shows "system_inv (s\<lparr>ds_disk := fst (create_unless save tid r (ds_disk s))\<rparr>)"
proof (cases "delivery_view (ds_disk s) tid = Inr None")
  case True
  have own: "kv_own (dk_records (ds_disk s))" using i by (simp add: system_inv_def)
  show ?thesis
  proof (cases rule: delivery_put_cases [OF own delivery_wf_ok [OF r(1)], of save tid])
    case (2 dk')
    with True i r show ?thesis by (auto simp: create_unless_def system_inv_def intro: core_create)
  qed (use True i in \<open>simp add: create_unless_def\<close>)
next
  case False
  with i show ?thesis by (auto simp: create_unless_def split: sum.split option.split)
qed

lemma inv_thread:
  assumes "system_inv s" "lock_of p = None \<or> lock_of p = lock_of (ds_threads s w)" "thread_ok (delivery_view (ds_disk s)) p"
    "\<And>t. p = Claimed t \<Longrightarrow> ds_threads s w = Claimed t"
  shows "system_inv (becomes w p s)"
  using assms by (auto simp: system_inv_def intro: core_thread)

lemma inv_thread_ok: "system_inv s \<Longrightarrow> thread_ok (delivery_view (ds_disk s)) (ds_threads s w)"
  by (auto simp: system_inv_def core_def)

lemma lock_inv: "system_inv s \<Longrightarrow> system_inv (delivery_step (ClaimLock w writable) s)"
  by (cases "ds_threads s w")
    (auto simp: try_acquire_lock_def intro!: inv_thread, auto simp: system_inv_def intro: core_lock)

lemma claim_write_inv:
  assumes i: "system_inv s"
  shows "system_inv (delivery_step (ClaimWrite w save) s)"
proof (cases "ds_threads s w")
  case (Reread tid now c)
  have own: "kv_own (dk_records (ds_disk s))" using i by (simp add: system_inv_def)
  have "valid_datetime now" "delivery_view (ds_disk s) tid = Inr (Some c)" using inv_thread_ok [OF i, of w] Reread by simp_all
  then have ok: "delivery_ok (claimed_record tid now c)" using i by (auto simp: system_inv_def core_def intro: delivery_wf_ok claimed_record_wf)
  show ?thesis
  proof (cases rule: delivery_put_cases [OF own ok, of save tid])
    case (1 err)
    with i Reread show ?thesis by (auto intro: inv_thread)
  next
    case (2 dk')
    with i Reread show ?thesis by (auto simp: system_inv_def intro: core_claim)
  qed
qed (use i in simp_all)

lemma settle_write_inv:
  assumes i: "system_inv s" and now: "valid_datetime now"
  shows "system_inv (delivery_step (SettleWrite w save now) s)"
proof (cases "ds_threads s w")
  case (Settling tid out r)
  have own: "kv_own (dk_records (ds_disk s))" using i by (simp add: system_inv_def)
  have "delivery_view (ds_disk s) tid = Inr (Some r)" "dl_state r = STATE_DELIVERY_CLAIMED"
    using inv_thread_ok [OF i, of w] Settling by simp_all
  then have ok: "delivery_ok (settled_record out now r)" using i now by (auto simp: system_inv_def core_def intro: delivery_wf_ok settled_record_wf)
  show ?thesis
  proof (cases rule: delivery_put_cases [OF own ok, of save tid])
    case (1 err)
    with i Settling show ?thesis by (auto intro: inv_thread)
  next
    case (2 dk')
    have "core (delivery_view (ds_disk s)) (dk_locks (ds_disk s)) (ds_threads s) (ds_sent s) (ds_failed s)" using i by (simp add: system_inv_def)
    from core_settle [OF this Settling now] 2 i Settling show ?thesis by (simp add: system_inv_def)
  qed
qed (use i in simp_all)

lemma resolve_inv:
  assumes i: "system_inv s" and now: "valid_datetime now"
  shows "system_inv (s\<lparr>ds_disk := fst (resolve_ambiguous_outcome st rid ev save writable tid now (ds_disk s))\<rparr>)"
proof (cases "st \<in> set AUTOMATIC_TERMINAL_STATES \<and> tid \<in> ambiguous (delivery_view (ds_disk s))")
  case True
  then obtain r where r: "delivery_view (ds_disk s) tid = Inr (Some r)" "dl_state r = STATE_DELIVERY_AMBIGUOUS" by (auto simp: ambiguous_def)
  let ?r = "r\<lparr>dl_state := st, dl_provider_response_id := or_text rid (dl_provider_response_id r),
    dl_failure_evidence := or_text ev (dl_failure_evidence r), dl_updated_at := Some now\<rparr>"
  have own: "kv_own (dk_records (ds_disk s))" using i by (simp add: system_inv_def)
  have "delivery_wf tid r" using i r(1) by (auto simp: system_inv_def core_def)
  then have wf: "delivery_wf tid ?r" using r(2) now True by (auto simp: delivery_wf_def delivery_ok_def AUTOMATIC_TERMINAL_STATES_def delivery_states split: if_splits)
  note ok = delivery_wf_ok [OF wf]
  have cr: "core ((delivery_view (ds_disk s))(tid := Inr (Some ?r))) L (ds_threads s) (ds_sent s) (ds_failed s)"
    if "L = dk_locks (ds_disk s) \<or> L = dk_locks (ds_disk s) - {lock_path tid}" for L
    using i True wf that by (auto simp: system_inv_def intro: core_resolve)
  show ?thesis
  proof (cases rule: delivery_put_cases [OF own ok, of save tid])
    case (1 err)
    with i r True show ?thesis by (simp add: resolve_ambiguous_outcome_def Let_def)
  next
    case (2 dk')
    with i r True cr show ?thesis
      by (auto simp: resolve_ambiguous_outcome_def Let_def release_lock_def system_inv_def)
  qed
next
  case False
  then have "fst (resolve_ambiguous_outcome st rid ev save writable tid now (ds_disk s)) = ds_disk s"
    by (auto simp: resolve_ambiguous_outcome_def ambiguous_def split: sum.split option.split)
  with i show ?thesis by simp
qed

lemma delivery_step_inv:
  assumes i: "system_inv s" and e: "event_ok e"
  shows "system_inv (delivery_step e s)"
proof (cases e)
  case (EnsureReady save tid x h expires now)
  with i e show ?thesis by (auto simp: ensure_ready_to_deliver_def delivery_wf_def delivery_ok_def fresh_delivery_def delivery_states intro!: create_inv)
next
  case (NotApplicable save tid x now)
  with i e show ?thesis by (auto simp: record_not_applicable_def delivery_wf_def delivery_ok_def fresh_delivery_def delivery_states intro!: create_inv)
next
  case (ClaimCheck w tid now)
  with i e show ?thesis by (cases "delivery_view (ds_disk s) tid")
    (auto simp: claim_check_def split: thread.split option.splits if_splits intro!: inv_thread)
next
  case (ClaimLock w writable)
  with i show ?thesis by (simp only: lock_inv)
next
  case (ClaimReread w)
  with i inv_thread_ok [OF i, of w] show ?thesis by (auto simp: current_record_def split: thread.split if_splits intro!: inv_thread)
next
  case (ClaimWrite w save)
  with i show ?thesis by (simp only: claim_write_inv)
next
  case (ProviderCall w)
  with i show ?thesis by (auto simp: system_inv_def split: thread.split intro: core_send)
next
  case (SettleRead w out)
  with i show ?thesis by (auto simp: Let_def split: thread.split sum.split option.split intro!: inv_thread)
next
  case (SettleWrite w save now)
  with i e show ?thesis by (simp only: settle_write_inv event_ok.simps)
next
  case (ReleaseLock w writable)
  with i show ?thesis
    by (auto simp: release_lock_def split: thread.split intro!: inv_thread) (auto simp: system_inv_def intro: core_release)
next
  case (Resolve st rid ev save writable tid now)
  with i e show ?thesis by (simp add: resolve_inv)
next
  case Restart
  with i show ?thesis by (auto simp: system_inv_def intro: core_restart)
qed

lemma steps_inv: "system_inv s \<Longrightarrow> list_all event_ok es \<Longrightarrow> system_inv (fold delivery_step es s)"
  by (induction es arbitrary: s) (simp_all add: delivery_step_inv)

definition no_deliveries :: delivery_system where
  "no_deliveries = \<lparr>ds_disk = \<lparr>dk_records = KvMissing, dk_locks = {}\<rparr>, ds_threads = \<lambda>_. Idle, ds_sent = [], ds_failed = []\<rparr>"

lemma no_deliveries_inv: "system_inv no_deliveries"
  by (auto simp: system_inv_def no_deliveries_def core_def locks_ok_def ambiguous_def busy_def claimed_by_def
    delivery_get_def typed_get_def kv_get_def kv_load_def dget_def)


definition saving :: save_env where
  "saving = \<lparr>tmp_written = True, replace_try = \<lambda>_. Replaced\<rparr>"

definition eurusd :: delivery_facts where
  "eurusd = \<lparr>df_strategy_id = ''S'', df_strategy_version = ''1'', df_application_release = ''R'', df_symbol = ''EURUSD'', df_cycle = ''C'',
     df_trading_date = ''2026-01-05''\<rparr>"

text \<open>Two threads, the second of which passes its first check before the first claims.\<close>

definition demo_delivery :: "delivery_event list" where
  "demo_delivery = [EnsureReady saving ''T'' eurusd ''h'' None 60, ClaimCheck 1 ''T'' 61, ClaimCheck 2 ''T'' 61, ClaimLock 1 True, ClaimLock 2 True, ClaimReread 1,
     ClaimWrite 1 saving, ProviderCall 1, SettleRead 1 (FailedRetryable ''e''), SettleWrite 1 saving 62, ReleaseLock 1 True,
     ClaimCheck 2 ''T'' 63, ClaimLock 2 True, ClaimReread 2, ClaimWrite 2 saving, ProviderCall 2, Restart]"

lemma demo_delivery_ok: "list_all event_ok demo_delivery"
  by (simp add: demo_delivery_def valid_datetime_def)


text \<open>C32. Every record that can be read from such a store is well formed: it carries the identifier it is
  stored under, is in one of the seven states, has a number of attempts that is zero exactly in the two
  initial states, and names the attempt of that number.
\<close>

theorem delivery_record_typed:
  assumes "list_all event_ok es" "delivery_get (dk_records (ds_disk (fold delivery_step es no_deliveries))) t = Inr (Some r)"
  shows "dl_logical_ticket_id r = t \<and>
     dl_delivery_attempt_id r = (if dl_attempt_number r = 0 then [] else t @ ''|attempt-'' @ text_03d (dl_attempt_number r)) \<and>
     0 \<le> dl_attempt_number r \<and>
     dl_state r \<in> (if dl_attempt_number r = 0 then {STATE_READY_TO_DELIVER, STATE_NOT_APPLICABLE}
       else {STATE_DELIVERY_CLAIMED, STATE_DELIVERED, STATE_DELIVERY_FAILED_RETRYABLE, STATE_DELIVERY_FAILED_TERMINAL, STATE_DELIVERY_AMBIGUOUS})"
  using steps_inv [OF no_deliveries_inv assms(1)] assms(2) by (auto simp: system_inv_def core_def delivery_wf_def)

theorem delivery_record_typed_witness:
  "case delivery_get (dk_records (ds_disk (fold delivery_step demo_delivery no_deliveries))) ''T'' of
     Inr (Some r) \<Rightarrow> dl_attempt_number r = 2 \<and> dl_delivery_attempt_id r = ''T|attempt-002'' | _ \<Rightarrow> False"
proof -
  note e = demo_delivery_ok
  have "case delivery_get (dk_records (ds_disk (fold delivery_step demo_delivery no_deliveries))) ''T'' of
     Inr (Some r) \<Rightarrow> dl_attempt_number r = 2 | _ \<Rightarrow> False" by code_simp
  then obtain r where "delivery_get (dk_records (ds_disk (fold delivery_step demo_delivery no_deliveries))) ''T'' = Inr (Some r)"
    "dl_attempt_number r = 2" by (auto split: sum.splits option.splits)
  moreover have "text_03d 2 = ''002''" by code_simp
  ultimately show ?thesis using delivery_record_typed [OF e] by simp
qed

text \<open>
  The creation of a record reads and then writes without the lock: a creation that read before another
  delivered the ticket puts the record back, and the ticket can be claimed and sent again.
\<close>

theorem delivery_creation_race:
  "let dk0 = \<lparr>dk_records = KvMissing, dk_locks = {}\<rparr>;
       dk1 = fst (mark_delivered ''9'' saving True ''T'' 62 (fst (claim_for_delivery \<lparr>ce_lock = True, ce_release = True, ce_save = saving\<rparr> ''T'' 61
               (fst (ensure_ready_to_deliver saving ''T'' eurusd ''h'' None 60 dk0)))));
       dk2 = fst (delivery_put saving ''T'' (fresh_delivery ''T'' eurusd STATE_READY_TO_DELIVER ''h'' None 60) dk1)
   in delivery_get (dk_records dk0) ''T'' = Inr None \<and>
      map_option dl_state (projr (delivery_get (dk_records dk1) ''T'')) = Some STATE_DELIVERED \<and>
      cl_success (projr (snd (claim_for_delivery \<lparr>ce_lock = True, ce_release = True, ce_save = saving\<rparr> ''T'' 63 dk2)))"
  by code_simp

text \<open>Two accepted tickets with one lock file.\<close>

theorem lock_path_collision:
  "let a = logical_ticket_id ''A_B'' ''C'' ''EURUSD'' ''LONDON'' 738000; b = logical_ticket_id ''A'' ''B_C'' ''EURUSD'' ''LONDON'' 738000
   in isl a = False \<and> isl b = False \<and> a \<noteq> b \<and> lock_path (projr a) = lock_path (projr b)"
  by code_simp

text \<open>An identifier belongs to one ticket: two accepted combinations of strategy, version, symbol, cycle and
  trading date with the same logical identifier are the same combination.
\<close>

theorem ticket_identity:
  assumes "logical_ticket_id a b c d e = Inr i" "logical_ticket_id a' b' c' d' e' = Inr i" "valid_date e" "valid_date e'"
  shows "(a, b, c, d, e) = (a', b', c', d', e')"
proof -
  have "[a, b, c, d, iso_date e] = [a', b', c', d', iso_date e']"
    using logical_ticket_id_ok [OF assms(1)] logical_ticket_id_ok [OF assms(2)] by (intro join_bar_inj) simp_all
  moreover have "iso_date e = iso_date e' \<Longrightarrow> e = e'" using assms(3,4) by (metis option.inject parse_iso_date)
  ultimately show ?thesis by simp
qed

theorem ticket_identity_witness:
  "logical_ticket_id ''A_B'' ''C'' ''EURUSD'' ''LONDON'' 738000 \<noteq> logical_ticket_id ''A'' ''B_C'' ''EURUSD'' ''LONDON'' 738000"
proof
  assume "logical_ticket_id ''A_B'' ''C'' ''EURUSD'' ''LONDON'' 738000 = logical_ticket_id ''A'' ''B_C'' ''EURUSD'' ''LONDON'' 738000"
  moreover have "\<not> isl (logical_ticket_id ''A_B'' ''C'' ''EURUSD'' ''LONDON'' 738000)" by code_simp
  ultimately obtain i where "logical_ticket_id ''A_B'' ''C'' ''EURUSD'' ''LONDON'' 738000 = Inr i" "logical_ticket_id ''A'' ''B_C'' ''EURUSD'' ''LONDON'' 738000 = Inr i"
    by (metis sum.collapse(2))
  moreover have "valid_date 738000" by code_simp
  ultimately have "(''A_B'', ''C'', ''EURUSD'', ''LONDON'', 738000 :: date) = (''A'', ''B_C'', ''EURUSD'', ''LONDON'', 738000)" by (intro ticket_identity)
  then show False by simp
qed

end
