(* ===== verification/Daily_Ledger.thy ===== *)
theory Daily_Ledger
  imports Kv_Codec Sizing
begin

text \<open>
  The daily trade ledger and the governor of the post-Asian pilot (src/src/post\_asian\_pilot/governor.py):
  the slots that a strategy may claim on a trading date, and the gates applied before a decision becomes
  actionable or is executed. Claims and transitions run under the exclusive file lock from start to end.
\<close>

section \<open>Records\<close>

definition SLOT_STATE_CLAIMED :: string where "SLOT_STATE_CLAIMED = ''CLAIMED''"
definition SLOT_STATE_EXECUTED :: string where "SLOT_STATE_EXECUTED = ''EXECUTED''"
definition SLOT_STATE_EXPIRED :: string where "SLOT_STATE_EXPIRED = ''EXPIRED''"
definition SLOT_STATE_DECLINED :: string where "SLOT_STATE_DECLINED = ''DECLINED''"
definition SLOT_TERMINAL_STATES :: "string list" where
  "SLOT_TERMINAL_STATES = [SLOT_STATE_EXECUTED, SLOT_STATE_EXPIRED, SLOT_STATE_DECLINED]"

lemmas slot_states = SLOT_STATE_CLAIMED_def SLOT_STATE_EXECUTED_def SLOT_STATE_EXPIRED_def SLOT_STATE_DECLINED_def

record slot =
  sl_index :: int
  sl_symbol :: string
  sl_setup_id :: string
  sl_proposal_id :: string
  sl_ready_at :: string
  sl_claimed_at :: string
  sl_state :: string
  sl_terminal_reason :: "string option"
  sl_created_at :: string
  sl_updated_at :: string

text \<open>The stored object of a strategy and a date; \<open>max_slots\<close> is read with a default.\<close>

record day_ledger =
  dy_schema_version :: string
  dy_strategy_id :: string
  dy_strategy_version :: string
  dy_release_id :: string
  dy_trading_date :: string
  dy_max_slots :: "int option"
  dy_slots :: "slot list"

definition slot_json :: "slot \<Rightarrow> json" where
  "slot_json s = JDict
     [(''slot_index'', JInt (sl_index s)), (''symbol'', JStr (sl_symbol s)), (''setup_id'', JStr (sl_setup_id s)), (''proposal_id'', JStr (sl_proposal_id s)),
      (''ready_at'', JStr (sl_ready_at s)), (''claimed_at'', JStr (sl_claimed_at s)), (''state'', JStr (sl_state s)),
      (''terminal_reason'', json_opt_str (sl_terminal_reason s)), (''created_at'', JStr (sl_created_at s)), (''updated_at'', JStr (sl_updated_at s))]"

definition ledger_json :: "day_ledger \<Rightarrow> json" where
  "ledger_json l = JDict (
     [(''schema_version'', JStr (dy_schema_version l)), (''strategy_id'', JStr (dy_strategy_id l)), (''strategy_version'', JStr (dy_strategy_version l)),
      (''release_id'', JStr (dy_release_id l)), (''trading_date'', JStr (dy_trading_date l))] @
     (case dy_max_slots l of None \<Rightarrow> [] | Some n \<Rightarrow> [(''max_slots'', JInt n)]) @ [(''slots'', JList (map slot_json (dy_slots l)))])"

definition slot_of_json :: "json \<Rightarrow> slot res" where
  "slot_of_json v =
     (case v of
        JDict d \<Rightarrow>
          res_bind (int_field d ''slot_index'') (\<lambda>i. res_bind (str_field d ''symbol'') (\<lambda>sy. res_bind (str_field d ''setup_id'') (\<lambda>su.
          res_bind (str_field d ''proposal_id'') (\<lambda>pr. res_bind (str_field d ''ready_at'') (\<lambda>rd. res_bind (str_field d ''claimed_at'') (\<lambda>cl.
          res_bind (str_field d ''state'') (\<lambda>st. res_bind (opt_str_field d ''terminal_reason'') (\<lambda>tr. res_bind (str_field d ''created_at'') (\<lambda>cr.
          res_bind (str_field d ''updated_at'') (\<lambda>up.
            Inr \<lparr>sl_index = i, sl_symbol = sy, sl_setup_id = su, sl_proposal_id = pr, sl_ready_at = rd, sl_claimed_at = cl, sl_state = st,
              sl_terminal_reason = tr, sl_created_at = cr, sl_updated_at = up\<rparr>))))))))))
      | _ \<Rightarrow> Inl TypeError)"

definition ledger_of_json :: "json \<Rightarrow> day_ledger res" where
  "ledger_of_json v =
     (case v of
        JDict d \<Rightarrow>
          res_bind (str_field d ''schema_version'') (\<lambda>sc. res_bind (str_field d ''strategy_id'') (\<lambda>sid. res_bind (str_field d ''strategy_version'') (\<lambda>sv.
          res_bind (str_field d ''release_id'') (\<lambda>rel. res_bind (str_field d ''trading_date'') (\<lambda>day.
          res_bind (if map_of d ''max_slots'' = None then Inr None else res_bind (int_field d ''max_slots'') (\<lambda>n. Inr (Some n))) (\<lambda>m.
          res_bind (case map_of d ''slots'' of None \<Rightarrow> Inl (KeyError ''slots'') | Some (JList vs) \<Rightarrow> res_list (map slot_of_json vs) | Some _ \<Rightarrow> Inl TypeError) (\<lambda>ss.
            Inr \<lparr>dy_schema_version = sc, dy_strategy_id = sid, dy_strategy_version = sv, dy_release_id = rel, dy_trading_date = day, dy_max_slots = m,
              dy_slots = ss\<rparr>)))))))
      | _ \<Rightarrow> Inl TypeError)"

section \<open>The ledger\<close>

text \<open>The attempts to create the lock file: whether each created it, and whether the deadline had
  passed when it did not.\<close>

fun lock_enter :: "(bool \<times> bool) list \<Rightarrow> unit res" where
  "lock_enter [] = Inl (RuntimeError ''DAILY_SLOT_LOCK_TIMEOUT'')"
| "lock_enter ((created, late) # rest) =
     (if created then Inr () else if late then Inl (RuntimeError ''DAILY_SLOT_LOCK_TIMEOUT'') else lock_enter rest)"

record ledger_env =
  le_lock :: "(bool \<times> bool) list"
  le_save :: save_env

definition slot_key :: "string \<Rightarrow> date \<Rightarrow> string" where
  "slot_key sid day = sid @ '':'' @ iso_date day"

definition ledger_get :: "kv_file \<Rightarrow> string \<Rightarrow> date \<Rightarrow> day_ledger option res" where
  "ledger_get f sid day = typed_get ledger_of_json f (slot_key sid day)"

definition SCHEMA_VERSION :: string where "SCHEMA_VERSION = ''AG_DAILY_TRADE_LEDGER_V1''"

record claim_who =
  cw_strategy_id :: string
  cw_strategy_version :: string
  cw_release_id :: string
  cw_trading_date :: date
  cw_symbol :: string
  cw_setup_id :: string
  cw_proposal_id :: string
  cw_ready_at :: datetime

definition load_ledger :: "int \<Rightarrow> claim_who \<Rightarrow> kv_file \<Rightarrow> day_ledger res" where
  "load_ledger max_slots x f =
     res_bind (ledger_get f (cw_strategy_id x) (cw_trading_date x)) (\<lambda>r. Inr (
       case r of Some l \<Rightarrow> l
       | None \<Rightarrow> \<lparr>dy_schema_version = SCHEMA_VERSION, dy_strategy_id = cw_strategy_id x, dy_strategy_version = cw_strategy_version x,
           dy_release_id = cw_release_id x, dy_trading_date = iso_date (cw_trading_date x), dy_max_slots = Some max_slots, dy_slots = []\<rparr>))"

text \<open>An empty object counts as no record here.\<close>

definition slots :: "kv_file \<Rightarrow> string \<Rightarrow> date \<Rightarrow> slot list res" where
  "slots f sid day =
     res_bind (kv_get f (slot_key sid day)) (\<lambda>v. if \<not> truthy v then Inr [] else res_bind (ledger_of_json v) (\<lambda>l. Inr (dy_slots l)))"

definition consumed_count :: "kv_file \<Rightarrow> string \<Rightarrow> date \<Rightarrow> nat res" where
  "consumed_count f sid day = res_bind (slots f sid day) (\<lambda>ss. Inr (length ss))"

definition symbol_slot :: "kv_file \<Rightarrow> string \<Rightarrow> date \<Rightarrow> string \<Rightarrow> slot option res" where
  "symbol_slot f sid day sy = res_bind (slots f sid day) (\<lambda>ss. Inr (find (\<lambda>s. sl_symbol s = sy) ss))"

record slot_result =
  sr_success :: bool
  sr_reason_code :: "string option"
  sr_slot :: "slot option"

definition same_identity :: "claim_who \<Rightarrow> slot \<Rightarrow> bool" where
  "same_identity x s \<longleftrightarrow> sl_symbol s = cw_symbol x \<and> sl_setup_id s = cw_setup_id x \<and> sl_proposal_id s = cw_proposal_id x"

definition fresh_slot :: "claim_who \<Rightarrow> datetime \<Rightarrow> nat \<Rightarrow> slot" where
  "fresh_slot x now n = \<lparr>sl_index = int n + 1, sl_symbol = cw_symbol x, sl_setup_id = cw_setup_id x, sl_proposal_id = cw_proposal_id x,
     sl_ready_at = iso_datetime (cw_ready_at x), sl_claimed_at = iso_datetime now, sl_state = SLOT_STATE_CLAIMED, sl_terminal_reason = None,
     sl_created_at = iso_datetime now, sl_updated_at = iso_datetime now\<rparr>"

definition evaluate_claim :: "day_ledger \<Rightarrow> claim_who \<Rightarrow> datetime \<Rightarrow> int \<Rightarrow> slot_result \<times> slot option" where
  "evaluate_claim l x now max_slots =
     (case find (same_identity x) (dy_slots l) of
        Some s \<Rightarrow> (\<lparr>sr_success = True, sr_reason_code = None, sr_slot = Some s\<rparr>, None)
      | None \<Rightarrow>
          (case find (\<lambda>s. sl_symbol s = cw_symbol x) (dy_slots l) of
             Some s \<Rightarrow> (\<lparr>sr_success = False, sr_reason_code = Some ''BLOCKED_SYMBOL_DAILY_TRADE_LIMIT'', sr_slot = Some s\<rparr>, None)
           | None \<Rightarrow>
               if (case dy_max_slots l of None \<Rightarrow> max_slots | Some m \<Rightarrow> m) \<le> int (length (dy_slots l))
               then (\<lparr>sr_success = False, sr_reason_code = Some ''BLOCKED_DAILY_TRADE_LIMIT'', sr_slot = None\<rparr>, None)
               else let s = fresh_slot x now (length (dy_slots l)) in (\<lparr>sr_success = True, sr_reason_code = None, sr_slot = Some s\<rparr>, Some s)))"

text \<open>The first element that satisfies a condition, changed in place.\<close>

fun update_first :: "('a \<Rightarrow> bool) \<Rightarrow> ('a \<Rightarrow> 'a) \<Rightarrow> 'a list \<Rightarrow> 'a list" where
  "update_first P f [] = []"
| "update_first P f (x # xs) = (if P x then f x # xs else x # update_first P f xs)"

definition touched :: "datetime \<Rightarrow> slot \<Rightarrow> slot" where
  "touched now s = s\<lparr>sl_updated_at := iso_datetime now\<rparr>"

definition try_claim :: "ledger_env \<Rightarrow> int \<Rightarrow> claim_who \<Rightarrow> datetime \<Rightarrow> kv_file \<Rightarrow> kv_file \<times> slot_result res" where
  "try_claim env max_slots x now f =
     (let key = slot_key (cw_strategy_id x) (cw_trading_date x);
          save = (\<lambda>l res. case kv_put (le_save env) key (ledger_json l) f of (f', Inl e) \<Rightarrow> (f', Inl e) | (f', Inr _) \<Rightarrow> (f', Inr res))
      in case lock_enter (le_lock env) of
        Inl e \<Rightarrow> (f, Inl e)
      | Inr _ \<Rightarrow>
          (case load_ledger max_slots x f of
             Inl e \<Rightarrow> (f, Inl e)
           | Inr l \<Rightarrow>
               (case evaluate_claim l x now max_slots of
                  (res, new) \<Rightarrow>
                    if \<not> sr_success res then (f, Inr res)
                    else case new of
                      Some s \<Rightarrow> save (l\<lparr>dy_slots := dy_slots l @ [s]\<rparr>) res
                    | None \<Rightarrow> save (l\<lparr>dy_slots := update_first (same_identity x) (touched now) (dy_slots l)\<rparr>) (res\<lparr>sr_slot := map_option (touched now) (sr_slot res)\<rparr>))))"

definition preview_claim :: "int \<Rightarrow> claim_who \<Rightarrow> datetime \<Rightarrow> kv_file \<Rightarrow> slot_result res" where
  "preview_claim max_slots x now f = res_bind (load_ledger max_slots x f) (\<lambda>l. Inr (fst (evaluate_claim l x now max_slots)))"

definition transition :: "ledger_env \<Rightarrow> string \<Rightarrow> date \<Rightarrow> string \<Rightarrow> string \<Rightarrow> string option \<Rightarrow> datetime \<Rightarrow> kv_file \<Rightarrow> kv_file \<times> unit res" where
  "transition env sid day sy new_state reason now f =
     (if new_state \<notin> set SLOT_TERMINAL_STATES then (f, Inl (ValueError ''transition() only accepts terminal states''))
      else case lock_enter (le_lock env) of
        Inl e \<Rightarrow> (f, Inl e)
      | Inr _ \<Rightarrow>
          (case ledger_get f sid day of
             Inl e \<Rightarrow> (f, Inl e)
           | Inr None \<Rightarrow> (f, Inl (ValueError ''no ledger''))
           | Inr (Some l) \<Rightarrow>
               (case find (\<lambda>s. sl_symbol s = sy) (dy_slots l) of
                  None \<Rightarrow> (f, Inl (ValueError ''slot is not CLAIMED''))
                | Some s \<Rightarrow>
                    if sl_state s \<noteq> SLOT_STATE_CLAIMED then (f, Inl (ValueError ''slot is not CLAIMED''))
                    else kv_put (le_save env) (slot_key sid day) (ledger_json (l\<lparr>dy_slots := update_first (\<lambda>s. sl_symbol s = sy)
                      (\<lambda>s. s\<lparr>sl_state := new_state, sl_terminal_reason := reason, sl_updated_at := iso_datetime now\<rparr>) (dy_slots l)\<rparr>)) f)))"

section \<open>Gates\<close>

record governor_result =
  gr_portfolio_state :: string
  gr_reason_code :: "string option"

definition blocked :: "string \<Rightarrow> governor_result" where
  "blocked reason = \<lparr>gr_portfolio_state = ''BLOCKED'', gr_reason_code = Some reason\<rparr>"

definition eligible :: governor_result where
  "eligible = \<lparr>gr_portfolio_state = ''ELIGIBLE'', gr_reason_code = None\<rparr>"

text \<open>The loss gates; the account is the one the loss guard was opened for, and the reason of the second
  gate differs between the two callers.\<close>

definition loss_gates :: "string \<Rightarrow> string \<Rightarrow> date \<Rightarrow> rat \<Rightarrow> kv_file \<Rightarrow> governor_result res" where
  "loss_gates reason account day limit losses =
     res_bind (dlg_is_blocked account day losses) (\<lambda>b.
       if b then Inr (blocked ''BLOCKED_PROJECT_DAILY_LOSS_GUARD'')
       else res_bind (realized_r account day losses) (\<lambda>r. Inr (if r \<le> limit then blocked reason else eligible)))"

definition evaluate_daily_governor :: "string \<Rightarrow> date \<Rightarrow> rat \<Rightarrow> kv_file \<Rightarrow> governor_result res" where
  "evaluate_daily_governor = loss_gates ''BLOCKED_STRATEGY_DAILY_LOSS_LOCK''"

text \<open>The registered positions of a strategy.\<close>

definition strategy_positions :: "kv_file \<Rightarrow> string \<Rightarrow> (string \<times> json) list list res" where
  "strategy_positions f sid =
     res_bind (kv_all f) (\<lambda>d. res_bind (res_list (map (\<lambda>(k, v). case v of JDict r \<Rightarrow> Inr r | _ \<Rightarrow> Inl AttributeError) d)) (\<lambda>rs.
       Inr (filter (\<lambda>r. dget r ''strategy_id'' = JStr sid) rs)))"

definition strategy_open_position_count :: "kv_file \<Rightarrow> string \<Rightarrow> nat res" where
  "strategy_open_position_count f sid = res_bind (strategy_positions f sid) (\<lambda>rs. Inr (length rs))"

text \<open>\<open>float("inf")\<close> is \<open>None\<close>.\<close>

definition strategy_open_risk_pct :: "kv_file \<Rightarrow> string \<Rightarrow> rat \<Rightarrow> rat option res" where
  "strategy_open_risk_pct f sid equity =
     (if equity \<le> 0 then Inr None
      else res_bind (strategy_positions f sid) (\<lambda>rs.
        res_bind (res_list (map (\<lambda>r. let v = dget r ''risk_amount'' in if truthy v then py_float v else Inr 0) rs)) (\<lambda>xs.
          Inr (Some (fmul (fquot (py_sum xs) equity) 100)))))"

definition validate_slot_ownership :: "string \<Rightarrow> date \<Rightarrow> string \<Rightarrow> string \<Rightarrow> string \<Rightarrow> kv_file \<Rightarrow> slot_result res" where
  "validate_slot_ownership sid day sy setup_id proposal_id f =
     res_bind (symbol_slot f sid day sy) (\<lambda>x. Inr (
       case x of
         None \<Rightarrow> \<lparr>sr_success = False, sr_reason_code = Some ''PROPOSAL_NOT_DAILY_SLOT_OWNER'', sr_slot = None\<rparr>
       | Some s \<Rightarrow>
           if sl_setup_id s = setup_id \<and> sl_proposal_id s = proposal_id then \<lparr>sr_success = True, sr_reason_code = None, sr_slot = Some s\<rparr>
           else \<lparr>sr_success = False, sr_reason_code = Some ''PROPOSAL_NOT_DAILY_SLOT_OWNER'', sr_slot = Some s\<rparr>))"

record execution_request =
  er_strategy_id :: string
  er_trading_date :: date
  er_symbol :: string
  er_setup_id :: string
  er_proposal_id :: string
  er_loss_limit_r :: rat
  er_max_open_positions :: int
  er_max_aggregate_open_risk_pct :: rat
  er_equity :: rat
  er_candidate_risk_amount :: rat

definition exceeds :: "rat option \<Rightarrow> rat option \<Rightarrow> rat \<Rightarrow> bool" where
  "exceeds a b m = (case (a, b) of (Some x, Some y) \<Rightarrow> m < fadd x y | _ \<Rightarrow> True)"

definition evaluate_execution_eligibility :: "execution_request \<Rightarrow> string \<Rightarrow> kv_file \<Rightarrow> kv_file \<Rightarrow> kv_file \<Rightarrow> governor_result res" where
  "evaluate_execution_eligibility q account ledger positions losses =
     res_bind (validate_slot_ownership (er_strategy_id q) (er_trading_date q) (er_symbol q) (er_setup_id q) (er_proposal_id q) ledger) (\<lambda>own.
       if \<not> sr_success own then Inr \<lparr>gr_portfolio_state = ''BLOCKED'', gr_reason_code = sr_reason_code own\<rparr>
       else res_bind (strategy_open_position_count positions (er_strategy_id q)) (\<lambda>n.
         if er_max_open_positions q \<le> int n then Inr (blocked ''BLOCKED_OPEN_POSITION_LIMIT'')
         else res_bind (strategy_open_risk_pct positions (er_strategy_id q) (er_equity q)) (\<lambda>risk.
           let candidate = (if 0 < er_equity q then Some (fmul (fquot (er_candidate_risk_amount q) (er_equity q)) 100) else None)
           in if exceeds risk candidate (er_max_aggregate_open_risk_pct q) then Inr (blocked ''BLOCKED_AGGREGATE_OPEN_RISK'')
              else loss_gates ''BLOCKED_STRATEGY_DAILY_LOSS_LIMIT'' account (er_trading_date q) (er_loss_limit_r q) losses)))"

end
