(* ===== verification/Daily_Safety.thy ===== *)
theory Daily_Safety
  imports Daily_Ledger
begin

text \<open>
  What the daily ledger guarantees over any sequence of claims and transitions, whichever of their
  writes fail: the capacity of a day, one slot per symbol, slots that are never given back, and the
  gates of an execution.
\<close>

section \<open>Stored ledgers\<close>

lemma slot_json_roundtrip: "slot_of_json (canon (slot_json s)) = Inr s" "wf_json (slot_json s)"
proof -
  obtain d where d: "slot_json s = JDict d" "wf_dict d" by (simp add: slot_json_def wf_dict_def)
  from canon_object [OF d(2)] obtain d' where c: "canon (JDict d) = JDict d'" "map_of d' = map_option canon \<circ> map_of d"
    and g: "\<And>k. dget d' k = (case map_of d k of None \<Rightarrow> JNull | Some v \<Rightarrow> canon v)" by blast
  have o: "opt_str_field d' ''terminal_reason'' = Inr (sl_terminal_reason s)" using d(1) by (auto simp: slot_json_def g)
  show "slot_of_json (canon (slot_json s)) = Inr s"
    unfolding d(1) c(1) slot_of_json_def using d(1) by (auto simp: slot_json_def c(2) o)
  show "wf_json (slot_json s)" by (simp add: slot_json_def wf_dict_def)
qed

interpretation ledger: kv_codec ledger_json ledger_of_json "\<lambda>l. l" "\<lambda>_. True"
proof unfold_locales
  fix l :: day_ledger
  show wf: "wf_json (ledger_json l)" by (auto simp: ledger_json_def wf_dict_def slot_json_roundtrip split: option.split)
  show "canon (ledger_json l) \<noteq> JNull" by (simp add: ledger_json_def)
  obtain d where d: "ledger_json l = JDict d" by (simp add: ledger_json_def)
  have "wf_dict d" using wf unfolding d by (simp add: wf_dict_def)
  from canon_object [OF this] obtain d' where c: "canon (JDict d) = JDict d'" "map_of d' = map_option canon \<circ> map_of d" by blast
  have s: "res_list (map (slot_of_json \<circ> (canon \<circ> slot_json)) (dy_slots l)) = Inr (map (\<lambda>s. s) (dy_slots l))"
    by (rule res_list_Inr) (simp add: slot_json_roundtrip)
  show "ledger_of_json (canon (ledger_json l)) = Inr l"
    unfolding d c(1) ledger_of_json_def using d s
    by (cases "dy_max_slots l") (auto simp: ledger_json_def c(2) comp_assoc)
qed

section \<open>What one operation does\<close>

datatype ledger_op =
    Claim ledger_env int claim_who datetime
  | Transition ledger_env string date string string "string option" datetime

fun ledger_step :: "ledger_op \<Rightarrow> kv_file \<Rightarrow> kv_file" where
  "ledger_step (Claim env m x now) f = fst (try_claim env m x now f)"
| "ledger_step (Transition env sid day sy st reason now) f = fst (transition env sid day sy st reason now f)"

fun claims_at_most :: "int \<Rightarrow> ledger_op \<Rightarrow> bool" where
  "claims_at_most M (Claim _ m _ _) = (m \<le> M)"
| "claims_at_most M _ = True"

text \<open>What a slot keeps: its identity and its times, and its state unless it was still claimed.\<close>

definition slot_kept :: "slot \<Rightarrow> slot \<Rightarrow> bool" where
  "slot_kept s t \<longleftrightarrow> sl_index t = sl_index s \<and> sl_symbol t = sl_symbol s \<and> sl_setup_id t = sl_setup_id s \<and> sl_proposal_id t = sl_proposal_id s \<and>
     sl_ready_at t = sl_ready_at s \<and> sl_claimed_at t = sl_claimed_at s \<and> sl_created_at t = sl_created_at s \<and>
     (sl_state t = sl_state s \<and> sl_terminal_reason t = sl_terminal_reason s \<or> sl_state s = SLOT_STATE_CLAIMED \<and> sl_state t \<in> set SLOT_TERMINAL_STATES)"

lemma slot_kept_refl [simp]: "slot_kept s s"
  by (simp add: slot_kept_def)

lemma slot_kept_trans: "slot_kept s t \<Longrightarrow> slot_kept t u \<Longrightarrow> slot_kept s u"
  by (auto simp: slot_kept_def SLOT_TERMINAL_STATES_def slot_states)

lemma update_first_kept:
  "(\<And>s. find P ss = Some s \<Longrightarrow> slot_kept s (g s)) \<Longrightarrow> list_all2 slot_kept ss (update_first P g ss)"
  by (induction ss) (auto intro: list_all2_refl)

text \<open>The ledger of a day before and after a write.\<close>

definition ledger_next :: "int \<Rightarrow> day_ledger option \<Rightarrow> day_ledger \<Rightarrow> bool" where
  "ledger_next M x l' \<longleftrightarrow>
     (let ss = (case x of None \<Rightarrow> [] | Some l \<Rightarrow> dy_slots l)
      in (case x of None \<Rightarrow> \<exists>m \<le> M. dy_max_slots l' = Some m | Some l \<Rightarrow> dy_max_slots l' = dy_max_slots l) \<and>
         ((x \<noteq> None \<and> list_all2 slot_kept ss (dy_slots l')) \<or>
          (\<exists>s. dy_slots l' = ss @ [s] \<and> sl_index s = int (length ss) + 1 \<and> sl_symbol s \<notin> sl_symbol ` set ss \<and> sl_state s = SLOT_STATE_CLAIMED \<and>
             (\<forall>m. dy_max_slots l' = Some m \<longrightarrow> int (length ss) < m))))"

lemma evaluate_claim_new:
  assumes "evaluate_claim l x now m = (res, Some s)"
  shows "s = fresh_slot x now (length (dy_slots l)) \<and> cw_symbol x \<notin> sl_symbol ` set (dy_slots l) \<and>
    (\<forall>m. dy_max_slots l = Some m \<longrightarrow> int (length (dy_slots l)) < m)"
  using assms by (auto simp: evaluate_claim_def Let_def find_None_iff split: option.splits if_splits)

lemma evaluate_claim_again:
  assumes "evaluate_claim l x now m = (res, None)" "sr_success res"
  shows "\<exists>s. find (same_identity x) (dy_slots l) = Some s \<and> res = \<lparr>sr_success = True, sr_reason_code = None, sr_slot = Some s\<rparr>"
  using assms by (auto simp: evaluate_claim_def Let_def split: option.splits if_splits)

text \<open>A write of a ledger.\<close>

abbreviation ledger_at :: "kv_file \<Rightarrow> string \<Rightarrow> day_ledger option res" where
  "ledger_at \<equiv> typed_get ledger_of_json"

definition ledger_writes :: "int \<Rightarrow> kv_file \<Rightarrow> kv_file \<Rightarrow> bool" where
  "ledger_writes M f f' \<longleftrightarrow> f' = f \<or>
     kv_own f' \<and> (\<exists>k x l. ledger_at f k = Inr x \<and> ledger_next M x l \<and> ledger_at f' = (ledger_at f)(k := Inr (Some l)))"

lemma put_ledger_writes:
  assumes "kv_own f" "ledger_at f k = Inr x" "ledger_next M x l"
  shows "ledger_writes M f (fst (kv_put env k (ledger_json l) f))"
proof (cases rule: ledger.write_cases [OF assms(1) TrueI, of env k l])
  case (2 f')
  then have "ledger_at f' = (ledger_at f)(k := Inr (Some l))" by (auto simp: fun_eq_iff)
  with 2 assms(2,3) show ?thesis by (auto simp: ledger_writes_def)
qed (simp add: ledger_writes_def)

lemma try_claim_writes:
  assumes "kv_own f" "m \<le> M"
  shows "ledger_writes M f (fst (try_claim env m x now f))"
proof (cases "lock_enter (le_lock env)")
  case (Inl e)
  then show ?thesis by (simp add: try_claim_def ledger_writes_def)
next
  case (Inr u)
  let ?k = "slot_key (cw_strategy_id x) (cw_trading_date x)"
  show ?thesis
  proof (cases "ledger_at f ?k")
    case (Inl e)
    with Inr show ?thesis by (simp add: try_claim_def load_ledger_def ledger_get_def ledger_writes_def)
  next
    case at: (Inr y)
    obtain l where l: "load_ledger m x f = Inr l" "case y of Some l' \<Rightarrow> l = l' | None \<Rightarrow> dy_max_slots l = Some m \<and> dy_slots l = []"
      using at by (auto simp: load_ledger_def ledger_get_def split: option.split)
    obtain res new where e: "evaluate_claim l x now m = (res, new)" by fastforce
    consider "\<not> sr_success res" | s where "new = Some s" "sr_success res" | "new = None" "sr_success res" by (cases new) auto
    then show ?thesis
    proof cases
      case 1
      with Inr l(1) e show ?thesis by (simp add: try_claim_def ledger_writes_def)
    next
      case 2
      have "ledger_next M y (l\<lparr>dy_slots := dy_slots l @ [s]\<rparr>)"
        using evaluate_claim_new [of l x now m res s] e 2 l(2) assms(2)
        by (auto simp: ledger_next_def fresh_slot_def split: option.splits)
      from put_ledger_writes [OF assms(1) at this] 2 Inr l(1) e show ?thesis
        by (auto simp: try_claim_def Let_def split: prod.split sum.split) (metis fst_conv)+
    next
      case 3
      from evaluate_claim_again [of l x now m res] e 3 obtain s where s: "find (same_identity x) (dy_slots l) = Some s" by auto
      then have "y \<noteq> None" using l(2) by (cases y) auto
      then have "ledger_next M y (l\<lparr>dy_slots := update_first (same_identity x) (touched now) (dy_slots l)\<rparr>)"
        using l(2) by (auto simp: ledger_next_def Let_def slot_kept_def touched_def intro!: disjI1 update_first_kept)
      from put_ledger_writes [OF assms(1) at this] 3 Inr l(1) e show ?thesis
        by (auto simp: try_claim_def Let_def split: prod.split sum.split) (metis fst_conv)+
    qed
  qed
qed

lemma transition_writes:
  assumes "kv_own f"
  shows "ledger_writes M f (fst (transition env sid day sy st reason now f))"
proof (cases "\<exists>l s. st \<in> set SLOT_TERMINAL_STATES \<and> lock_enter (le_lock env) = Inr () \<and> ledger_at f (slot_key sid day) = Inr (Some l) \<and>
    find (\<lambda>s. sl_symbol s = sy) (dy_slots l) = Some s \<and> sl_state s = SLOT_STATE_CLAIMED")
  case True
  then obtain l s where l: "st \<in> set SLOT_TERMINAL_STATES" "lock_enter (le_lock env) = Inr ()" "ledger_at f (slot_key sid day) = Inr (Some l)"
    "find (\<lambda>s. sl_symbol s = sy) (dy_slots l) = Some s" "sl_state s = SLOT_STATE_CLAIMED" by blast
  let ?l = "l\<lparr>dy_slots := update_first (\<lambda>s. sl_symbol s = sy) (\<lambda>s. s\<lparr>sl_state := st, sl_terminal_reason := reason, sl_updated_at := iso_datetime now\<rparr>) (dy_slots l)\<rparr>"
  have "ledger_next M (Some l) ?l" using l by (auto simp: ledger_next_def Let_def slot_kept_def intro!: disjI1 update_first_kept)
  from put_ledger_writes [OF assms l(3) this] l show ?thesis by (simp add: transition_def ledger_get_def)
next
  case False
  then have "fst (transition env sid day sy st reason now f) = f"
    by (auto simp: transition_def ledger_get_def split: sum.split option.split)
  then show ?thesis by (simp add: ledger_writes_def)
qed

lemma step_writes: "kv_own f \<Longrightarrow> claims_at_most M op \<Longrightarrow> ledger_writes M f (ledger_step op f)"
  by (cases op) (simp_all add: try_claim_writes transition_writes)

section \<open>Any sequence of operations\<close>

definition ledger_wf :: "int \<Rightarrow> day_ledger \<Rightarrow> bool" where
  "ledger_wf M l \<longleftrightarrow> (\<exists>m \<le> M. dy_max_slots l = Some m \<and> int (length (dy_slots l)) \<le> m) \<and> distinct (map sl_symbol (dy_slots l)) \<and>
     map sl_index (dy_slots l) = [1..int (length (dy_slots l))] \<and> (\<forall>s \<in> set (dy_slots l). sl_state s \<in> set (SLOT_STATE_CLAIMED # SLOT_TERMINAL_STATES))"

definition ledger_inv :: "int \<Rightarrow> kv_file \<Rightarrow> bool" where
  "ledger_inv M f \<longleftrightarrow> kv_own f \<and> (\<forall>k. ledger_at f k = Inr None \<or> (\<exists>l. ledger_at f k = Inr (Some l) \<and> ledger_wf M l))"

lemma slots_kept_maps:
  assumes "list_all2 slot_kept ss ts"
  shows "map sl_symbol ts = map sl_symbol ss" "map sl_index ts = map sl_index ss" "length ts = length ss"
    "(\<forall>s \<in> set ss. sl_state s \<in> set (SLOT_STATE_CLAIMED # SLOT_TERMINAL_STATES)) \<Longrightarrow> \<forall>t \<in> set ts. sl_state t \<in> set (SLOT_STATE_CLAIMED # SLOT_TERMINAL_STATES)"
  using assms by (induction rule: list_all2_induct) (auto simp: slot_kept_def)

lemma ledger_next_wf:
  assumes "ledger_next M x l'" "case x of None \<Rightarrow> True | Some l \<Rightarrow> ledger_wf M l"
  shows "ledger_wf M l'"
proof (cases "\<exists>l. x = Some l \<and> list_all2 slot_kept (dy_slots l) (dy_slots l')")
  case True
  then obtain l where l: "x = Some l" "list_all2 slot_kept (dy_slots l) (dy_slots l')" by blast
  with assms have "ledger_wf M l" "dy_max_slots l' = dy_max_slots l" by (simp_all add: ledger_next_def Let_def)
  with slots_kept_maps [OF l(2)] show ?thesis unfolding ledger_wf_def by metis
next
  case False
  let ?ss = "case x of None \<Rightarrow> [] | Some l \<Rightarrow> dy_slots l"
  from False assms(1) obtain s where s: "dy_slots l' = ?ss @ [s]" "sl_index s = int (length ?ss) + 1" "sl_symbol s \<notin> sl_symbol ` set ?ss"
    "sl_state s = SLOT_STATE_CLAIMED" "\<And>m. dy_max_slots l' = Some m \<Longrightarrow> int (length ?ss) < m"
    by (auto simp: ledger_next_def Let_def split: option.splits)
  have m: "\<exists>m \<le> M. dy_max_slots l' = Some m" using assms by (auto simp: ledger_next_def ledger_wf_def Let_def split: option.splits)
  have "distinct (map sl_symbol ?ss) \<and> map sl_index ?ss = [1..int (length ?ss)] \<and> (\<forall>s \<in> set ?ss. sl_state s \<in> set (SLOT_STATE_CLAIMED # SLOT_TERMINAL_STATES))"
    using assms(2) by (auto simp: ledger_wf_def split: option.splits)
  then have "distinct (map sl_symbol ?ss)" "map sl_index ?ss = [1..int (length ?ss)]"
    "\<forall>s \<in> set ?ss. sl_state s \<in> set (SLOT_STATE_CLAIMED # SLOT_TERMINAL_STATES)" by blast+
  with s m show ?thesis unfolding ledger_wf_def by (auto simp: upto_rec2 [of 1 "1 + int _"] add.commute)
qed

lemma ledger_inv_at: "ledger_inv M f \<Longrightarrow> ledger_at f k = Inr x \<Longrightarrow> case x of None \<Rightarrow> True | Some l \<Rightarrow> ledger_wf M l"
  unfolding ledger_inv_def by (elim conjE allE [of _ k]) auto

lemma ledger_step_inv:
  assumes "ledger_inv M f" "claims_at_most M op"
  shows "ledger_inv M (ledger_step op f)"
proof -
  have "ledger_writes M f (ledger_step op f)" using assms by (intro step_writes) (simp_all add: ledger_inv_def)
  then show ?thesis
  proof (cases "ledger_step op f = f")
    case False
    with \<open>ledger_writes M f (ledger_step op f)\<close> obtain k x l where w: "kv_own (ledger_step op f)" "ledger_at f k = Inr x" "ledger_next M x l"
      "ledger_at (ledger_step op f) = (ledger_at f)(k := Inr (Some l))" by (auto simp: ledger_writes_def)
    have "ledger_wf M l" by (rule ledger_next_wf [OF w(3) ledger_inv_at [OF assms(1) w(2)]])
    with assms(1) w show ?thesis by (auto simp: ledger_inv_def)
  qed (use assms in simp)
qed

definition ledger_run :: "ledger_op list \<Rightarrow> kv_file \<Rightarrow> kv_file" where
  "ledger_run = fold ledger_step"

lemma run_inv: "ledger_inv M f \<Longrightarrow> list_all (claims_at_most M) ops \<Longrightarrow> ledger_inv M (ledger_run ops f)"
  by (induction ops arbitrary: f) (simp_all add: ledger_run_def ledger_step_inv)

lemma empty_ledger_inv: "ledger_inv M KvMissing"
  by (simp add: ledger_inv_def typed_get_def kv_get_def kv_load_def dget_def)

lemma ledger_truthy: "kv_get f k = Inr v \<Longrightarrow> ledger_of_json v = Inr l \<Longrightarrow> truthy v"
  by (auto simp: ledger_of_json_def str_field_def split: json.splits) 

lemma slots_at:
  assumes "ledger_inv M f"
  shows "slots f sid day = Inr (case ledger_at f (slot_key sid day) of Inr (Some l) \<Rightarrow> dy_slots l | _ \<Rightarrow> [])"
proof -
  obtain v where v: "kv_get f (slot_key sid day) = Inr v"
    using assms by (cases "kv_get f (slot_key sid day)") (auto simp: ledger_inv_def typed_get_def dest: spec [of _ "slot_key sid day"])
  consider "ledger_at f (slot_key sid day) = Inr None" | l where "ledger_at f (slot_key sid day) = Inr (Some l)"
    using assms by (auto simp: ledger_inv_def)
  then show ?thesis
  proof cases
    case 1
    with v show ?thesis by (cases "ledger_of_json v") (auto simp: slots_def typed_get_def split: if_splits)
  next
    case 2
    with v have "ledger_of_json v = Inr l" by (cases "ledger_of_json v") (auto simp: typed_get_def split: if_splits)
    with 2 v ledger_truthy [OF v] show ?thesis by (simp add: slots_def)
  qed
qed

text \<open>C13. Whatever claims and transitions ran, with whatever failures to lock and to write, the slots of a
  strategy on a date can be read; there are at most as many as the largest configured maximum, each symbol
  has at most one, they are numbered from one in the order they were claimed, and each is claimed or in a
  terminal state.
\<close>

theorem daily_capacity:
  assumes "list_all (claims_at_most M) ops"
  shows "\<exists>ss. slots (ledger_run ops KvMissing) sid day = Inr ss \<and> int (length ss) \<le> max 0 M \<and> distinct (map sl_symbol ss) \<and>
    map sl_index ss = [1..int (length ss)] \<and> (\<forall>s \<in> set ss. sl_state s \<in> set (SLOT_STATE_CLAIMED # SLOT_TERMINAL_STATES))"
proof -
  have i: "ledger_inv M (ledger_run ops KvMissing)" by (rule run_inv [OF empty_ledger_inv assms])
  then show ?thesis unfolding slots_at [OF i]
    by (auto simp: ledger_inv_def ledger_wf_def split: sum.split option.split dest!: spec [of _ "slot_key sid day"])
qed

definition demo_ledger_env :: ledger_env where
  "demo_ledger_env = \<lparr>le_lock = [(False, False), (True, False)], le_save = good_disk\<rparr>"

definition demo_who :: "string \<Rightarrow> string \<Rightarrow> claim_who" where
  "demo_who sy p = \<lparr>cw_strategy_id = ''S'', cw_strategy_version = ''1'', cw_release_id = ''R'', cw_trading_date = 738000, cw_symbol = sy,
     cw_setup_id = ''u'', cw_proposal_id = p, cw_ready_at = 60\<rparr>"

definition demo_ledger :: "ledger_op list" where
  "demo_ledger = [Claim demo_ledger_env 2 (demo_who ''EURUSD'' ''p'') 61, Claim demo_ledger_env 2 (demo_who ''EURUSD'' ''q'') 62,
     Transition demo_ledger_env ''S'' 738000 ''EURUSD'' ''EXPIRED'' (Some ''window'') 63, Claim demo_ledger_env 2 (demo_who ''GBPUSD'' ''p'') 64,
     Claim demo_ledger_env 2 (demo_who ''USDJPY'' ''p'') 65, Claim demo_ledger_env 2 (demo_who ''EURUSD'' ''p'') 66]"

theorem daily_capacity_witness:
  "\<exists>ss. slots (ledger_run demo_ledger KvMissing) ''S'' 738000 = Inr ss \<and> length ss = 2 \<and> int (length ss) \<le> max 0 2 \<and> distinct (map sl_symbol ss)"
proof -
  have "list_all (claims_at_most 2) demo_ledger" by code_simp
  then obtain ss where ss: "slots (ledger_run demo_ledger KvMissing) ''S'' 738000 = Inr ss" "int (length ss) \<le> max 0 2" "distinct (map sl_symbol ss)"
    using daily_capacity [of 2 demo_ledger "''S''" 738000] by blast
  have "consumed_count (ledger_run demo_ledger KvMissing) ''S'' 738000 = Inr 2" by code_simp
  with ss show ?thesis by (simp add: consumed_count_def)
qed

text \<open>The slots of a day after further operations.\<close>

lemma step_kept:
  assumes "ledger_inv M f" "claims_at_most M op" "ledger_at f k = Inr (Some l)"
  shows "\<exists>l'. ledger_at (ledger_step op f) k = Inr (Some l') \<and> (\<exists>ts us. dy_slots l' = ts @ us \<and> list_all2 slot_kept (dy_slots l) ts)"
proof -
  have w: "ledger_writes M f (ledger_step op f)" using assms by (intro step_writes) (simp_all add: ledger_inv_def)
  have r: "list_all2 slot_kept (dy_slots l) (dy_slots l)" by (simp add: list_all2_refl)
  have n: "\<exists>ts us. dy_slots l' = ts @ us \<and> list_all2 slot_kept (dy_slots l) ts" if "ledger_next M (Some l) l'" for l'
    using that r by (auto simp: ledger_next_def Let_def intro: exI [of _ "[]"])
  have same: ?thesis if "ledger_at (ledger_step op f) k = ledger_at f k"
    using that assms(3) r by (metis append.right_neutral)
  show ?thesis
  proof (cases "ledger_step op f = f")
    case False
    with w obtain k' x l' where w: "ledger_at f k' = Inr x" "ledger_next M x l'" "ledger_at (ledger_step op f) = (ledger_at f)(k' := Inr (Some l'))"
      by (auto simp: ledger_writes_def)
    with same n assms(3) show ?thesis by (cases "k' = k") simp_all
  qed (use same in simp)
qed

lemma run_kept:
  assumes "ledger_inv M f" "list_all (claims_at_most M) ops" "ledger_at f k = Inr (Some l)"
  shows "\<exists>l'. ledger_at (ledger_run ops f) k = Inr (Some l') \<and> (\<exists>ts us. dy_slots l' = ts @ us \<and> list_all2 slot_kept (dy_slots l) ts)"
  using assms
proof (induction ops arbitrary: f l)
  case Nil
  then show ?case by (intro exI [of _ l]) (simp add: ledger_run_def list_all2_refl exI [of _ "dy_slots l"])
next
  case (Cons op ops)
  from step_kept [OF Cons.prems(1) _ Cons.prems(3), of op] Cons.prems(2) obtain l1 ts us
    where 1: "ledger_at (ledger_step op f) k = Inr (Some l1)" "dy_slots l1 = ts @ us" "list_all2 slot_kept (dy_slots l) ts" by auto
  from Cons.IH [OF ledger_step_inv [OF Cons.prems(1)] _ 1(1)] Cons.prems(2) obtain l2 vs ws
    where 2: "ledger_at (ledger_run (op # ops) f) k = Inr (Some l2)" "dy_slots l2 = vs @ ws" "list_all2 slot_kept (ts @ us) vs"
    by (auto simp: ledger_run_def 1(2))
  from 2(3) obtain v1 v2 where "vs = v1 @ v2" "list_all2 slot_kept ts v1" by (auto simp: list_all2_append1)
  with 1(3) 2 show ?case by (auto intro: list_all2_trans [OF slot_kept_trans])
qed

text \<open>C14. A claimed slot is never given back: after any further claims and transitions it is still there
  with its index, symbol, setup, proposal and times, and once it is executed, expired or declined its
  state and its reason do not change either.
\<close>

theorem slot_never_freed:
  assumes "list_all (claims_at_most M) (before @ after)" "slots (ledger_run before KvMissing) sid day = Inr ss" "s \<in> set ss"
  shows "\<exists>ts t. slots (ledger_run (before @ after) KvMissing) sid day = Inr ts \<and> t \<in> set ts \<and>
    sl_index t = sl_index s \<and> sl_symbol t = sl_symbol s \<and> sl_setup_id t = sl_setup_id s \<and> sl_proposal_id t = sl_proposal_id s \<and>
    sl_ready_at t = sl_ready_at s \<and> sl_claimed_at t = sl_claimed_at s \<and>
    (sl_state s \<noteq> SLOT_STATE_CLAIMED \<longrightarrow> sl_state t = sl_state s \<and> sl_terminal_reason t = sl_terminal_reason s)"
proof -
  have i: "ledger_inv M (ledger_run before KvMissing)" "ledger_inv M (ledger_run (before @ after) KvMissing)"
    using assms(1) by (auto intro!: run_inv empty_ledger_inv)
  from assms(2,3) obtain l where l: "ledger_at (ledger_run before KvMissing) (slot_key sid day) = Inr (Some l)" "ss = dy_slots l"
    by (auto simp: slots_at [OF i(1)] split: sum.splits option.splits)
  from run_kept [OF i(1) _ l(1), of after] assms(1) obtain l' ts us where l': "ledger_at (ledger_run (before @ after) KvMissing) (slot_key sid day) = Inr (Some l')"
    "dy_slots l' = ts @ us" "list_all2 slot_kept ss ts" by (auto simp: ledger_run_def l(2))
  from l'(3) assms(3) obtain t where "t \<in> set ts" "slot_kept s t" by (metis in_set_conv_nth list_all2_conv_all_nth)
  with l' show ?thesis unfolding slots_at [OF i(2)] by (intro exI [of _ "ts @ us"] exI [of _ t]) (auto simp: slot_kept_def)
qed

theorem slot_never_freed_witness:
  "case slots (ledger_run demo_ledger KvMissing) ''S'' 738000 of
     Inr ts \<Rightarrow> \<exists>t \<in> set ts. sl_symbol t = ''EURUSD'' \<and> sl_proposal_id t = ''p'' \<and> sl_state t = ''EXPIRED'' \<and> sl_terminal_reason t = Some ''window'' | _ \<Rightarrow> False"
proof -
  let ?s = "(fresh_slot (demo_who ''EURUSD'' ''p'') 61 0)\<lparr>sl_state := ''EXPIRED'', sl_terminal_reason := Some ''window'', sl_updated_at := iso_datetime 63\<rparr>"
  have c: "list_all (claims_at_most 2) (take 3 demo_ledger @ drop 3 demo_ledger)" by code_simp
  have "slots (ledger_run (take 3 demo_ledger) KvMissing) ''S'' 738000 = Inr [?s]" by code_simp
  from slot_never_freed [OF c this, of ?s] show ?thesis by (auto simp: fresh_slot_def demo_who_def slot_states)
qed

section \<open>Previews, ownership and execution\<close>

lemma evaluate_claim_cases:
  obtains (again) s where "find (same_identity x) (dy_slots l) = Some s" "evaluate_claim l x now m = (\<lparr>sr_success = True, sr_reason_code = None, sr_slot = Some s\<rparr>, None)"
  | (refused) res where "find (same_identity x) (dy_slots l) = None" "\<not> sr_success res" "evaluate_claim l x now m = (res, None)"
  | (new) "find (same_identity x) (dy_slots l) = None" "cw_symbol x \<notin> sl_symbol ` set (dy_slots l)"
      "evaluate_claim l x now m = (\<lparr>sr_success = True, sr_reason_code = None, sr_slot = Some (fresh_slot x now (length (dy_slots l)))\<rparr>, Some (fresh_slot x now (length (dy_slots l))))"
proof (cases "find (same_identity x) (dy_slots l)")
  case None
  then show thesis
  proof (cases "snd (evaluate_claim l x now m)")
    case (Some s)
    with evaluate_claim_new [of l x now m _ s] None new show thesis
      by (auto simp: evaluate_claim_def Let_def split: option.splits if_splits)
  qed (use None refused [of "fst (evaluate_claim l x now m)"] in \<open>auto simp: evaluate_claim_def Let_def split: option.splits if_splits\<close>)
qed (use again in \<open>simp add: evaluate_claim_def\<close>)

text \<open>What a claim that returns has done, by the three outcomes of its evaluation.\<close>

lemma try_claim_returns:
  assumes "snd (try_claim env m x now f) = Inr res"
  obtains l new p where "load_ledger m x f = Inr l" "evaluate_claim l x now m = (p, new)"
    "if sr_success p then res = p\<lparr>sr_slot := map_option (touched now) (sr_slot p)\<rparr> \<and>
       kv_put (le_save env) (slot_key (cw_strategy_id x) (cw_trading_date x)) (ledger_json (l\<lparr>dy_slots := case new of Some s \<Rightarrow> dy_slots l @ [s]
         | None \<Rightarrow> update_first (same_identity x) (touched now) (dy_slots l)\<rparr>)) f = (fst (try_claim env m x now f), Inr ())
     else res = p \<and> fst (try_claim env m x now f) = f"
proof -
  from assms obtain l where l: "lock_enter (le_lock env) = Inr ()" "load_ledger m x f = Inr l"
    by (auto simp: try_claim_def Let_def split: sum.splits)
  have t: "touched now (fresh_slot x now n) = fresh_slot x now n" for n by (simp add: touched_def fresh_slot_def)
  show thesis
  proof (cases rule: evaluate_claim_cases [of x l now m])
    case (again s)
    with l assms show thesis by (intro that [OF l(2) again(2)]) (auto simp: try_claim_def Let_def split: prod.splits sum.splits)
  next
    case (refused r)
    with l assms show thesis by (intro that [OF l(2) refused(3)]) (auto simp: try_claim_def Let_def)
  next
    case new
    with l assms t show thesis by (intro that [OF l(2) new(3)]) (auto simp: try_claim_def Let_def split: prod.splits sum.splits)
  qed
qed

text \<open>C31. A claim that returns does what a preview on the same file says: it refuses with the same result and
  leaves the file alone, or it succeeds with the previewed slot, stamped with the time of the claim.
\<close>

theorem preview_agrees:
  assumes "try_claim env m x now f = (f', Inr res)"
  shows "\<exists>p. preview_claim m x now f = Inr p \<and>
    (if sr_success p then res = p\<lparr>sr_slot := map_option (touched now) (sr_slot p)\<rparr> else res = p \<and> f' = f)"
proof -
  from assms have "snd (try_claim env m x now f) = Inr res" by simp
  then show ?thesis
  proof (rule try_claim_returns)
    fix l new p
    assume "load_ledger m x f = Inr l" "evaluate_claim l x now m = (p, new)"
      "if sr_success p then res = p\<lparr>sr_slot := map_option (touched now) (sr_slot p)\<rparr> \<and>
       kv_put (le_save env) (slot_key (cw_strategy_id x) (cw_trading_date x)) (ledger_json (l\<lparr>dy_slots := case new of Some s \<Rightarrow> dy_slots l @ [s]
         | None \<Rightarrow> update_first (same_identity x) (touched now) (dy_slots l)\<rparr>)) f = (fst (try_claim env m x now f), Inr ())
     else res = p \<and> fst (try_claim env m x now f) = f"
    with assms show ?thesis by (auto simp: preview_claim_def split: if_splits)
  qed
qed

theorem preview_agrees_witness:
  "\<exists>p. preview_claim 2 (demo_who ''EURUSD'' ''q'') 62 (ledger_run (take 1 demo_ledger) KvMissing) = Inr p \<and> \<not> sr_success p"
proof -
  let ?f = "ledger_run (take 1 demo_ledger) KvMissing"
  have "case try_claim demo_ledger_env 2 (demo_who ''EURUSD'' ''q'') 62 ?f of (_, Inr res) \<Rightarrow> \<not> sr_success res | _ \<Rightarrow> False" by code_simp
  then obtain f' res where t: "try_claim demo_ledger_env 2 (demo_who ''EURUSD'' ''q'') 62 ?f = (f', Inr res)" "\<not> sr_success res"
    by (auto split: prod.splits sum.splits)
  from preview_agrees [OF t(1)] obtain p where "preview_claim 2 (demo_who ''EURUSD'' ''q'') 62 ?f = Inr p"
    "if sr_success p then res = p\<lparr>sr_slot := map_option (touched 62) (sr_slot p)\<rparr> else res = p \<and> f' = ?f" by blast
  with t(2) show ?thesis by (cases "sr_success p") auto
qed

lemma find_update_first:
  "find Q ss = Some s \<Longrightarrow> (\<And>s. Q (g s) = Q s) \<Longrightarrow> (\<And>s. P s \<Longrightarrow> Q s) \<Longrightarrow> P s \<Longrightarrow> find Q (update_first P g ss) = Some (g s)"
  by (induction ss) (auto split: if_splits)

lemma find_in: "find P xs = Some s \<Longrightarrow> s \<in> set xs \<and> P s"
  by (induction xs) (auto split: if_splits)

lemma find_last: "(\<And>s. s \<in> set ss \<Longrightarrow> \<not> P s) \<Longrightarrow> P t \<Longrightarrow> find P (ss @ [t]) = Some t"
  by (induction ss) auto

lemma put_ledger_at: "kv_own f \<Longrightarrow> kv_put env k (ledger_json l) f = (f', Inr ()) \<Longrightarrow> ledger_at f' k = Inr (Some l)"
  using ledger.put_get [OF _ TrueI, where f = f and r = l and env = env and k = k and k' = k] by simp

lemma same_identity_first:
  assumes "distinct (map sl_symbol ss)" "find (same_identity x) ss = Some s"
  shows "find (\<lambda>s. sl_symbol s = cw_symbol x) ss = Some s"
  using assms
proof (induction ss)
  case (Cons a ss)
  have "same_identity x t \<Longrightarrow> sl_symbol t = cw_symbol x" for t by (simp add: same_identity_def)
  with Cons find_in [of "same_identity x" ss s] show ?case by (force split: if_splits)
qed simp

text \<open>C30. On every ledger that claims and transitions can produce, a claim that returns succeeds exactly when its
  proposal owns the slot of its symbol afterwards: a selected proposal passes the ownership check of the
  execution gateway, with the slot the claim returned, and a refused one does not.
\<close>

theorem claim_owner:
  assumes "list_all (claims_at_most M) ops" "m \<le> M" "try_claim env m x now (ledger_run ops KvMissing) = (f', Inr res)"
  shows "\<exists>own. validate_slot_ownership (cw_strategy_id x) (cw_trading_date x) (cw_symbol x) (cw_setup_id x) (cw_proposal_id x) f' = Inr own \<and>
    sr_success own = sr_success res \<and> (sr_success res \<longrightarrow> sr_slot own = sr_slot res)"
proof -
  let ?f = "ledger_run ops KvMissing" and ?k = "slot_key (cw_strategy_id x) (cw_trading_date x)"
  have i: "ledger_inv M ?f" by (rule run_inv [OF empty_ledger_inv assms(1)])
  have i': "ledger_inv M f'" using ledger_step_inv [OF i, of "Claim env m x now"] assms(2,3) by simp
  have own: "kv_own ?f" using i by (simp add: ledger_inv_def)
  from assms(3) have "snd (try_claim env m x now ?f) = Inr res" by simp
  from try_claim_returns [OF this] obtain l new p where l: "load_ledger m x ?f = Inr l" "evaluate_claim l x now m = (p, new)"
    and e: "if sr_success p then res = p\<lparr>sr_slot := map_option (touched now) (sr_slot p)\<rparr> \<and>
       kv_put (le_save env) ?k (ledger_json (l\<lparr>dy_slots := case new of Some s \<Rightarrow> dy_slots l @ [s]
         | None \<Rightarrow> update_first (same_identity x) (touched now) (dy_slots l)\<rparr>)) ?f = (f', Inr ())
     else res = p \<and> f' = ?f" using assms(3) by (metis fst_conv)
  have ls: "dy_slots l = (case ledger_at ?f ?k of Inr (Some l) \<Rightarrow> dy_slots l | _ \<Rightarrow> [])"
    using l(1) by (cases "ledger_at ?f ?k") (auto simp: load_ledger_def ledger_get_def split: option.splits)
  have d: "distinct (map sl_symbol (dy_slots l))"
    using ledger_inv_at [OF i, of ?k] unfolding ls by (auto simp: ledger_wf_def split: sum.split option.split)
  have at': "slots f' (cw_strategy_id x) (cw_trading_date x) = Inr (if sr_success p then case new of Some s \<Rightarrow> dy_slots l @ [s]
         | None \<Rightarrow> update_first (same_identity x) (touched now) (dy_slots l) else dy_slots l)"
  proof (cases "sr_success p")
    case True
    with e have "kv_put (le_save env) ?k (ledger_json (l\<lparr>dy_slots := case new of Some s \<Rightarrow> dy_slots l @ [s]
         | None \<Rightarrow> update_first (same_identity x) (touched now) (dy_slots l)\<rparr>)) ?f = (f', Inr ())" by simp
    from put_ledger_at [OF own this] True show ?thesis unfolding slots_at [OF i'] by simp
  next
    case False
    with e show ?thesis unfolding slots_at [OF i'] ls by simp
  qed
  show ?thesis
  proof (cases rule: evaluate_claim_cases [of x l now m])
    case (again s)
    have "same_identity x s" using again(1) by (auto simp: find_Some_iff)
    then have "find (\<lambda>s. sl_symbol s = cw_symbol x) (update_first (same_identity x) (touched now) (dy_slots l)) = Some (touched now s)"
      using same_identity_first [OF d again(1)] by (intro find_update_first) (auto simp: touched_def same_identity_def)
    with again l(2) at' e \<open>same_identity x s\<close> show ?thesis
      by (auto simp: validate_slot_ownership_def symbol_slot_def same_identity_def touched_def)
  next
    case (refused r)
    have "\<not> (sl_setup_id s = cw_setup_id x \<and> sl_proposal_id s = cw_proposal_id x)" if "find (\<lambda>s. sl_symbol s = cw_symbol x) (dy_slots l) = Some s" for s
      using that refused(1) by (auto simp: find_Some_iff find_None_iff same_identity_def)
    with refused l(2) at' e show ?thesis
      by (auto simp: validate_slot_ownership_def symbol_slot_def split: option.split)
  next
    case new
    have "find (\<lambda>s. sl_symbol s = cw_symbol x) (dy_slots l @ [fresh_slot x now n]) = Some (fresh_slot x now n)" for n
      using new(2) by (intro find_last) (metis image_eqI, simp add: fresh_slot_def)
    with new l(2) at' e show ?thesis
      by (auto simp: validate_slot_ownership_def symbol_slot_def fresh_slot_def touched_def)
  qed
qed

theorem claim_owner_witness:
  "\<exists>own. validate_slot_ownership ''S'' 738000 ''EURUSD'' ''u'' ''p'' (ledger_run (take 1 demo_ledger) KvMissing) = Inr own \<and> sr_success own"
proof -
  let ?t = "try_claim demo_ledger_env 2 (demo_who ''EURUSD'' ''p'') 61 KvMissing"
  have "case ?t of (_, Inr res) \<Rightarrow> sr_success res | _ \<Rightarrow> False" by code_simp
  then obtain f' res where t: "?t = (f', Inr res)" "sr_success res" by (auto split: prod.splits sum.splits)
  have f': "ledger_run (take 1 demo_ledger) KvMissing = f'" using t(1) by (simp add: ledger_run_def demo_ledger_def)
  from claim_owner [of 2 "[]" 2 demo_ledger_env "demo_who ''EURUSD'' ''p''" 61 f' res] t show ?thesis
    unfolding f' by (auto simp: ledger_run_def demo_who_def)
qed

text \<open>An execution is eligible only with positive equity, for a proposal that owns the slot of its symbol on
  that date, with fewer open positions of the strategy than allowed, with the open and the candidate risk
  together within the cap, and with the realized result of the day above both loss limits.
\<close>

theorem execution_gates:
  assumes "evaluate_execution_eligibility q account ledger positions losses = Inr eligible"
  shows "\<exists>s n open r. symbol_slot ledger (er_strategy_id q) (er_trading_date q) (er_symbol q) = Inr (Some s) \<and>
    sl_setup_id s = er_setup_id q \<and> sl_proposal_id s = er_proposal_id q \<and>
    strategy_open_position_count positions (er_strategy_id q) = Inr n \<and> int n < er_max_open_positions q \<and> 0 < er_equity q \<and>
    strategy_open_risk_pct positions (er_strategy_id q) (er_equity q) = Inr (Some open) \<and>
    fadd open (fmul (fquot (er_candidate_risk_amount q) (er_equity q)) 100) \<le> er_max_aggregate_open_risk_pct q \<and>
    realized_r account (er_trading_date q) losses = Inr r \<and> er_loss_limit_r q < r \<and> DAILY_LOSS_CIRCUIT_R < r"
  using assms
  by (auto simp: evaluate_execution_eligibility_def validate_slot_ownership_def loss_gates_def dlg_is_blocked_def exceeds_def eligible_def blocked_def
    res_bind_Inr_iff Let_def split: if_splits option.splits)

definition demo_request :: execution_request where
  "demo_request = \<lparr>er_strategy_id = ''S'', er_trading_date = 738000, er_symbol = ''EURUSD'', er_setup_id = ''u'', er_proposal_id = ''p'', er_loss_limit_r = - 1,
     er_max_open_positions = 2, er_max_aggregate_open_risk_pct = 1, er_equity = 10000, er_candidate_risk_amount = 50\<rparr>"

text \<open>The state of the slot is not among the gates: a proposal whose slot has expired is still eligible.\<close>

theorem expired_slot_eligible:
  "map_option sl_state (projr (symbol_slot (ledger_run (take 3 demo_ledger) KvMissing) ''S'' 738000 ''EURUSD'')) = Some SLOT_STATE_EXPIRED \<and>
   evaluate_execution_eligibility demo_request ''S'' (ledger_run (take 3 demo_ledger) KvMissing) KvMissing KvMissing = Inr eligible"
  by code_simp

end
