(* ===== verification/Funnel.thy ===== *)
theory Funnel
  imports Kv_Codec
begin

text \<open>
  The opportunity funnel (src/src/opportunity): stages and outcomes, market events, candidates, the pure
  transition engine over a strategy adapter, the registry binding and the eligibility of a candidate for a
  proposal. The adapter of a strategy is a parameter whose functions may raise; the digest of a JSON value
  is the parameter \<open>dg\<close>. Instants are in UTC.
\<close>

section \<open>Vocabulary\<close>

definition FUNNEL_STAGES :: "string list" where
  "FUNNEL_STAGES = [''MARKET_ELIGIBLE'', ''CONTEXT_VALID'', ''LOCATION_VALID'', ''SETUP_DETECTED'', ''TRIGGER_ARMED'', ''ENTRY_CONFIRMED'', ''OPPORTUNITY_READY'']"

definition OUTCOME_ACTIVE :: string where "OUTCOME_ACTIVE = ''ACTIVE''"
definition OUTCOME_WAIT :: string where "OUTCOME_WAIT = ''WAIT''"
definition OUTCOME_REJECT :: string where "OUTCOME_REJECT = ''REJECT''"
definition OUTCOME_INVALIDATED :: string where "OUTCOME_INVALIDATED = ''INVALIDATED''"
definition OUTCOME_EXPIRED :: string where "OUTCOME_EXPIRED = ''EXPIRED''"
definition OUTCOME_ERROR :: string where "OUTCOME_ERROR = ''ERROR''"

definition FUNNEL_OUTCOMES :: "string list" where
  "FUNNEL_OUTCOMES = [OUTCOME_ACTIVE, OUTCOME_WAIT, OUTCOME_REJECT, OUTCOME_INVALIDATED, OUTCOME_EXPIRED, OUTCOME_ERROR]"

definition TERMINAL_OUTCOMES :: "string list" where
  "TERMINAL_OUTCOMES = [OUTCOME_REJECT, OUTCOME_INVALIDATED, OUTCOME_EXPIRED, OUTCOME_ERROR]"

lemmas funnel_outcomes = OUTCOME_ACTIVE_def OUTCOME_WAIT_def OUTCOME_REJECT_def OUTCOME_INVALIDATED_def OUTCOME_EXPIRED_def OUTCOME_ERROR_def

definition validate_stage :: "string \<Rightarrow> unit res" where
  "validate_stage s = (if s \<in> set FUNNEL_STAGES then Inr () else Inl (ValueError ''stage''))"

definition validate_outcome :: "string \<Rightarrow> unit res" where
  "validate_outcome s = (if s \<in> set FUNNEL_OUTCOMES then Inr () else Inl (ValueError ''outcome''))"

text \<open>\<open>FUNNEL_STAGES.index\<close>.\<close>

fun index_of :: "'a \<Rightarrow> 'a list \<Rightarrow> nat" where
  "index_of x [] = 0"
| "index_of x (y # ys) = (if y = x then 0 else Suc (index_of x ys))"

abbreviation stage_index :: "string \<Rightarrow> nat" where
  "stage_index s \<equiv> index_of s FUNNEL_STAGES"

section \<open>Records\<close>

definition VALID_MARKET_DATA_MODES :: "string list" where
  "VALID_MARKET_DATA_MODES = [''REAL'', ''REPLAY'', ''SYNTHETIC'']"

record market_event =
  me_event_id :: string
  me_event_type :: string
  me_symbol :: string
  me_market :: string
  me_venue :: "string option"
  me_timeframe :: string
  me_bar_open_time :: datetime
  me_bar_close_time :: datetime
  me_market_data_asof :: datetime
  me_market_data_mode :: string
  me_snapshot_fingerprint :: "string option"
  me_source :: string
  me_sequence_id :: "int option"

text \<open>The checks of the constructor.\<close>

definition check_event :: "market_event \<Rightarrow> unit res" where
  "check_event e =
     (if me_market_data_mode e \<notin> set VALID_MARKET_DATA_MODES then Inl (ValueError ''market_data_mode'')
      else if me_bar_close_time e < me_bar_open_time e then Inl (ValueError ''bar_close_time cannot precede bar_open_time'')
      else if me_market_data_asof e < me_bar_close_time e then Inl (ValueError ''market_data_asof cannot precede bar_close_time'')
      else Inr ())"

text \<open>A float of a geometry, which a strategy may compute as a value that is not finite.\<close>

datatype float_value = Finite rat | Infinite bool | NaN

fun isfinite :: "float_value \<Rightarrow> bool" where
  "isfinite (Finite _) = True"
| "isfinite _ = False"

fun finite_of :: "float_value \<Rightarrow> rat" where
  "finite_of (Finite x) = x"
| "finite_of _ = 0"

record geometry =
  ge_direction :: "string option"
  ge_entry :: "float_value option"
  ge_invalidation :: "float_value option"
  ge_targets :: "float_value list"
  ge_estimated_rr :: "float_value option"

type_synonym mapping_value = "(string \<times> json) list"

record candidate =
  ca_candidate_id :: string
  ca_occurrence_id :: string
  ca_strategy_id :: string
  ca_strategy_version :: string
  ca_strategy_engine_version :: "string option"
  ca_symbol :: string
  ca_market :: string
  ca_venue :: "string option"
  ca_direction :: "string option"
  ca_detected_at :: datetime
  ca_last_evaluated_at :: datetime
  ca_expires_at :: "datetime option"
  ca_stage :: string
  ca_outcome :: string
  ca_revision :: int
  ca_raw_strategy_state :: mapping_value
  ca_context_evidence :: mapping_value
  ca_setup_evidence :: mapping_value
  ca_trigger_evidence :: mapping_value
  ca_geometry :: "geometry option"
  ca_market_data_mode :: string
  ca_data_lineage :: "string option"
  ca_latest_transition_id :: "string option"

definition check_candidate :: "candidate \<Rightarrow> unit res" where
  "check_candidate c =
     res_bind (validate_stage (ca_stage c)) (\<lambda>_. res_bind (validate_outcome (ca_outcome c)) (\<lambda>_.
       if ca_market_data_mode c \<notin> set VALID_MARKET_DATA_MODES then Inl (ValueError ''market_data_mode'')
       else if ca_revision c < 1 then Inl (ValueError ''revision must be >= 1'') else Inr ()))"

record funnel_state =
  fs_stage :: "string option"
  fs_outcome :: "string option"
  fs_revision :: int
  fs_raw_strategy_state :: mapping_value

record funnel_transition =
  ft_transition_id :: string
  ft_candidate_id :: string
  ft_from_stage :: "string option"
  ft_from_outcome :: "string option"
  ft_to_stage :: string
  ft_to_outcome :: string
  ft_evaluated_at :: datetime
  ft_evidence_event_id :: string
  ft_reason_codes :: "string list"
  ft_raw_strategy_state :: mapping_value

record strategy_binding =
  sb_strategy_id :: string
  sb_semantic_version :: "string option"
  sb_engine_id :: json
  sb_engine_version :: "string option"
  sb_adapter_id :: "string option"
  sb_adapter_version :: "string option"
  sb_dispatchable :: bool
  sb_supported_symbols :: "string list"
  sb_supported_timeframes :: "string list"
  sb_lifecycle :: "string option"
  sb_opportunity_authority :: bool
  sb_proposal_authority :: bool
  sb_execution_authority :: string
  sb_replay_supported :: bool
  sb_live_observation_supported :: bool
  sb_configuration_fingerprint :: "string option"

record observation =
  ob_strategy_id :: string
  ob_event_id :: string
  ob_market_data_mode :: string
  ob_raw_strategy_state :: mapping_value

record projection =
  pj_stage :: string
  pj_outcome :: string
  pj_reason_codes :: "string list"
  pj_context_evidence :: mapping_value
  pj_setup_evidence :: mapping_value
  pj_trigger_evidence :: mapping_value

text \<open>The protocol of a strategy adapter.\<close>

record adapter =
  ad_strategy_id :: string
  ad_strategy_version :: string
  ad_supports :: "market_event \<Rightarrow> strategy_binding \<Rightarrow> bool res"
  ad_observe :: "market_event \<Rightarrow> funnel_state \<Rightarrow> observation res"
  ad_project :: "observation \<Rightarrow> projection res"
  ad_candidate_geometry :: "observation \<Rightarrow> geometry option res"

section \<open>The registry binding\<close>

definition DISPATCHABLE_STRATEGY_IDS :: "string list" where
  "DISPATCHABLE_STRATEGY_IDS = [''SESSION_TRADE_V1'']"

text \<open>The parsed registry document is an argument.\<close>

definition load_registry :: "json \<Rightarrow> json res" where
  "load_registry doc =
     (if \<not> truthy doc then Inr (JDict [])
      else case doc of JDict d \<Rightarrow> Inr (case map_of d ''strategies'' of None \<Rightarrow> JDict [] | Some v \<Rightarrow> v) | _ \<Rightarrow> Inl AttributeError)"

definition resolve_strategy_binding :: "json \<Rightarrow> string \<Rightarrow> strategy_binding res" where
  "resolve_strategy_binding doc sid =
     res_bind (load_registry doc) (\<lambda>entries. case entries of
       JDict d \<Rightarrow>
         (case map_of d sid of
            None \<Rightarrow> Inl (KeyError sid)
          | Some (JDict e) \<Rightarrow>
              let dispatchable = sid \<in> set DISPATCHABLE_STRATEGY_IDS
              in Inr \<lparr>sb_strategy_id = sid, sb_semantic_version = None, sb_engine_id = dget e ''engine'', sb_engine_version = None,
                   sb_adapter_id = (if dispatchable then Some ''strategy_manager.session_trade_adapter'' else None), sb_adapter_version = None,
                   sb_dispatchable = dispatchable, sb_supported_symbols = [], sb_supported_timeframes = [], sb_lifecycle = (if truthy (dget e ''research'') then Some ''RESEARCH'' else None),
                   sb_opportunity_authority = truthy (dget e ''registered''), sb_proposal_authority = dispatchable,
                   sb_execution_authority = (if truthy (dget e ''live_authorized'') then ''LIVE_AUTHORIZED''
                     else if truthy (dget e ''demo_authorized'') then ''DEMO_AUTHORIZED'' else ''NONE''),
                   sb_replay_supported = False, sb_live_observation_supported = truthy (dget e ''active''),
                   sb_configuration_fingerprint = None\<rparr>
          | Some _ \<Rightarrow> Inl AttributeError)
     | _ \<Rightarrow> Inl TypeError)"

section \<open>The engine\<close>

text \<open>Equality of Python values: numbers of different types compare by value, objects without their order.\<close>

fun numeric :: "json \<Rightarrow> json" where
  "numeric (JInt i) = JFloat (of_int i)"
| "numeric (JBool b) = JFloat (if b then 1 else 0)"
| "numeric (JList xs) = JList (map numeric xs)"
| "numeric (JDict d) = JDict (map (\<lambda>(k, v). (k, numeric v)) d)"
| "numeric v = v"

definition same_value :: "json \<Rightarrow> json \<Rightarrow> bool" where
  "same_value v w \<longleftrightarrow> canon (numeric v) = canon (numeric w)"

definition stable_id :: "(json \<Rightarrow> string) \<Rightarrow> string \<Rightarrow> mapping_value \<Rightarrow> string" where
  "stable_id dg prefix payload = prefix @ ''_'' @ take 24 (dg (canon (JDict payload)))"

definition new_candidate_id :: "(json \<Rightarrow> string) \<Rightarrow> strategy_binding \<Rightarrow> market_event \<Rightarrow> string" where
  "new_candidate_id dg b e = stable_id dg ''cand''
     [(''strategy_id'', JStr (sb_strategy_id b)), (''strategy_version'', json_opt_str (sb_semantic_version b)), (''event_id'', JStr (me_event_id e)),
      (''symbol'', JStr (me_symbol e))]"

definition new_transition_id :: "(json \<Rightarrow> string) \<Rightarrow> string \<Rightarrow> market_event \<Rightarrow> funnel_state \<Rightarrow> projection \<Rightarrow> string" where
  "new_transition_id dg cid e s p = stable_id dg ''trn''
     [(''candidate_id'', JStr cid), (''event_id'', JStr (me_event_id e)), (''from_stage'', json_opt_str (fs_stage s)), (''from_outcome'', json_opt_str (fs_outcome s)),
      (''from_revision'', JInt (fs_revision s)), (''to_stage'', JStr (pj_stage p)), (''to_outcome'', JStr (pj_outcome p)),
      (''reason_codes'', JList (map JStr (pj_reason_codes p)))]"

definition authority_mismatches :: "candidate \<Rightarrow> strategy_binding \<Rightarrow> market_event \<Rightarrow> string list" where
  "authority_mismatches c b e =
     (if ca_strategy_id c \<noteq> sb_strategy_id b then [''strategy_id''] else []) @
     (if sb_semantic_version b \<noteq> None \<and> Some (ca_strategy_version c) \<noteq> sb_semantic_version b then [''strategy_version''] else []) @
     (if sb_engine_version b \<noteq> None \<and> ca_strategy_engine_version c \<noteq> sb_engine_version b then [''strategy_engine_version''] else []) @
     (if ca_symbol c \<noteq> me_symbol e then [''symbol''] else []) @ (if ca_market c \<noteq> me_market e then [''market''] else []) @
     (if ca_venue c \<noteq> me_venue e then [''venue''] else []) @ (if ca_market_data_mode c \<noteq> me_market_data_mode e then [''market_data_mode''] else [])"

definition validate_candidate_continuity :: "candidate \<Rightarrow> strategy_binding \<Rightarrow> market_event \<Rightarrow> unit res" where
  "validate_candidate_continuity c b e =
     (if authority_mismatches c b e = [] then Inr ()
      else Inl (RuntimeError (''existing candidate authority mismatch: '' @ concat (map (\<lambda>m. m @ '', '') (butlast (authority_mismatches c b e))) @ last (authority_mismatches c b e))))"

definition state_from_candidate :: "candidate option \<Rightarrow> funnel_state" where
  "state_from_candidate x = (case x of
     None \<Rightarrow> \<lparr>fs_stage = None, fs_outcome = None, fs_revision = 0, fs_raw_strategy_state = []\<rparr>
   | Some c \<Rightarrow> \<lparr>fs_stage = Some (ca_stage c), fs_outcome = Some (ca_outcome c), fs_revision = ca_revision c, fs_raw_strategy_state = ca_raw_strategy_state c\<rparr>)"

definition is_semantic_no_op :: "funnel_state \<Rightarrow> observation \<Rightarrow> projection \<Rightarrow> bool" where
  "is_semantic_no_op s ob p \<longleftrightarrow> fs_stage s = Some (pj_stage p) \<and> fs_outcome s = Some (pj_outcome p) \<and>
     same_value (JDict (fs_raw_strategy_state s)) (JDict (ob_raw_strategy_state ob))"

text \<open>A terminal outcome keeps the highest stage that was reached.\<close>

definition final_stage :: "funnel_state \<Rightarrow> projection \<Rightarrow> string" where
  "final_stage s p = (case fs_stage s of
     Some st \<Rightarrow> if pj_outcome p \<in> set TERMINAL_OUTCOMES \<and> stage_index (pj_stage p) < stage_index st then st else pj_stage p
   | None \<Rightarrow> pj_stage p)"

text \<open>The records of a transition, once the adapter has answered.\<close>

definition funnel_records ::
  "(json \<Rightarrow> string) \<Rightarrow> market_event \<Rightarrow> strategy_binding \<Rightarrow> adapter \<Rightarrow> candidate option \<Rightarrow> observation \<Rightarrow> projection \<Rightarrow> geometry option \<Rightarrow> candidate \<times> funnel_transition" where
  "funnel_records dg e b a prev ob p g =
     (let s = state_from_candidate prev;
          cid = (case prev of Some c \<Rightarrow> ca_candidate_id c | None \<Rightarrow> new_candidate_id dg b e);
          stage = final_stage s p;
          trn = new_transition_id dg cid e s (p\<lparr>pj_stage := stage\<rparr>)
      in (\<lparr>ca_candidate_id = cid, ca_occurrence_id = (case prev of Some c \<Rightarrow> ca_occurrence_id c | None \<Rightarrow> cid), ca_strategy_id = sb_strategy_id b,
            ca_strategy_version = ad_strategy_version a, ca_strategy_engine_version = sb_engine_version b, ca_symbol = me_symbol e, ca_market = me_market e,
            ca_venue = me_venue e, ca_direction = (case g of Some g \<Rightarrow> ge_direction g | None \<Rightarrow> None),
            ca_detected_at = (case prev of Some c \<Rightarrow> ca_detected_at c | None \<Rightarrow> me_bar_close_time e), ca_last_evaluated_at = me_market_data_asof e,
            ca_expires_at = (case prev of Some c \<Rightarrow> ca_expires_at c | None \<Rightarrow> None), ca_stage = stage, ca_outcome = pj_outcome p, ca_revision = fs_revision s + 1,
            ca_raw_strategy_state = ob_raw_strategy_state ob, ca_context_evidence = pj_context_evidence p, ca_setup_evidence = pj_setup_evidence p,
            ca_trigger_evidence = pj_trigger_evidence p, ca_geometry = g, ca_market_data_mode = me_market_data_mode e,
            ca_data_lineage = or_text (me_snapshot_fingerprint e) (case prev of Some c \<Rightarrow> ca_data_lineage c | None \<Rightarrow> None), ca_latest_transition_id = Some trn\<rparr>,
          \<lparr>ft_transition_id = trn, ft_candidate_id = cid, ft_from_stage = fs_stage s, ft_from_outcome = fs_outcome s, ft_to_stage = stage, ft_to_outcome = pj_outcome p,
            ft_evaluated_at = me_market_data_asof e, ft_evidence_event_id = me_event_id e, ft_reason_codes = pj_reason_codes p,
            ft_raw_strategy_state = ob_raw_strategy_state ob\<rparr>))"

definition record_transition ::
  "(json \<Rightarrow> string) \<Rightarrow> market_event \<Rightarrow> strategy_binding \<Rightarrow> adapter \<Rightarrow> candidate option \<Rightarrow> observation \<Rightarrow> projection \<Rightarrow> (candidate \<times> funnel_transition option) res" where
  "record_transition dg e b a prev ob p =
     res_bind (ad_candidate_geometry a ob) (\<lambda>g.
       case funnel_records dg e b a prev ob p g of (c, t) \<Rightarrow> res_bind (check_candidate c) (\<lambda>_. Inr (c, Some t)))"

text \<open>The calls of the adapter, in their order.\<close>

definition run_adapter ::
  "(json \<Rightarrow> string) \<Rightarrow> market_event \<Rightarrow> strategy_binding \<Rightarrow> adapter \<Rightarrow> candidate option \<Rightarrow> (candidate \<times> funnel_transition option) res" where
  "run_adapter dg e b a prev =
     res_bind (ad_supports a e b) (\<lambda>supported.
       if \<not> supported then Inl (RuntimeError ''adapter does not support event'')
       else res_bind (ad_observe a e (state_from_candidate prev)) (\<lambda>ob.
         if ob_strategy_id ob \<noteq> sb_strategy_id b \<or> ob_event_id ob \<noteq> me_event_id e then Inl (RuntimeError ''strategy observation identity'')
         else if ob_market_data_mode ob \<noteq> me_market_data_mode e then Inl (RuntimeError ''strategy observation changed market_data_mode'')
         else res_bind (ad_project a ob) (\<lambda>p.
           res_bind (validate_stage (pj_stage p)) (\<lambda>_. res_bind (validate_outcome (pj_outcome p)) (\<lambda>_.
             case prev of
               Some c \<Rightarrow> if is_semantic_no_op (state_from_candidate prev) ob p then Inr (c, None) else record_transition dg e b a prev ob p
             | None \<Rightarrow> record_transition dg e b a prev ob p)))))"

definition evaluate_funnel ::
  "(json \<Rightarrow> string) \<Rightarrow> market_event \<Rightarrow> strategy_binding \<Rightarrow> adapter \<Rightarrow> candidate option \<Rightarrow> (candidate \<times> funnel_transition option) res" where
  "evaluate_funnel dg e b a prev =
     (if ad_strategy_id a \<noteq> sb_strategy_id b then Inl (RuntimeError ''adapter strategy_id'')
      else if sb_semantic_version b \<noteq> None \<and> Some (ad_strategy_version a) \<noteq> sb_semantic_version b then Inl (RuntimeError ''adapter strategy_version'')
      else res_bind (case prev of None \<Rightarrow> Inr () | Some c \<Rightarrow> validate_candidate_continuity c b e) (\<lambda>_.
        case prev of
          Some c \<Rightarrow> if ca_outcome c \<in> set TERMINAL_OUTCOMES then Inr (c, None) else run_adapter dg e b a prev
        | None \<Rightarrow> run_adapter dg e b a prev))"

section \<open>Eligibility\<close>

record eligibility_decision =
  ed_candidate_id :: string
  ed_status :: string
  ed_reason_codes :: "string list"
  ed_evaluated_at :: datetime

definition synthetic_or_replay_block_reasons :: "string \<Rightarrow> bool \<Rightarrow> string list" where
  "synthetic_or_replay_block_reasons mode broker_bound =
     (if mode = ''SYNTHETIC'' then [''SYNTHETIC_DATA_NOT_PROPOSAL_ELIGIBLE''] else []) @
     (if broker_bound \<and> mode = ''REPLAY'' then [''REPLAY_DATA_NOT_BROKER_EXECUTABLE''] else [])"

definition LONG_SIDES :: "string list" where "LONG_SIDES = [''LONG'', ''BUY'']"
definition SHORT_SIDES :: "string list" where "SHORT_SIDES = [''SHORT'', ''SELL'']"

definition ENTRY_CONFIRMED_INDEX :: nat where "ENTRY_CONFIRMED_INDEX = stage_index ''ENTRY_CONFIRMED''"

text \<open>The gates on a complete geometry.\<close>

definition geometry_decision :: "string \<Rightarrow> string \<Rightarrow> float_value \<Rightarrow> float_value \<Rightarrow> float_value list \<Rightarrow> string \<times> string list" where
  "geometry_decision sy dir entry stop targets =
     (if sy = [] \<or> (\<exists>c \<in> set sy. is_space c) \<or> sy \<noteq> upper sy then (''BLOCKED'', [''SYMBOL_NOT_CANONICAL''])
      else if dir \<notin> set (LONG_SIDES @ SHORT_SIDES) then (''BLOCKED'', [''INVALID_DIRECTION''])
      else if \<not> isfinite entry \<or> \<not> isfinite stop \<or> \<not> list_all isfinite targets then (''BLOCKED'', [''NON_FINITE_GEOMETRY''])
      else if finite_of entry = finite_of stop then (''BLOCKED'', [''ENTRY_EQUALS_STOP''])
      else if (if dir \<in> set LONG_SIDES then \<not> finite_of stop < finite_of entry else \<not> finite_of entry < finite_of stop)
      then (''BLOCKED'', [''INVALID_STOP_GEOMETRY''])
      else (''ELIGIBLE'', []))"

definition eligibility_status :: "candidate \<Rightarrow> strategy_binding \<Rightarrow> datetime \<Rightarrow> string \<times> string list" where
  "eligibility_status c b now =
     (let registry = (if sb_opportunity_authority b then [] else [''STRATEGY_NOT_REGISTERED'']) @
            (if sb_live_observation_supported b then [] else [''STRATEGY_NOT_OPERATIONALLY_ENABLED'']);
          firewall = synthetic_or_replay_block_reasons (ca_market_data_mode c) True
      in if ca_strategy_id c \<noteq> sb_strategy_id b then (''BLOCKED'', [''STRATEGY_IDENTITY_MISMATCH''])
      else if registry \<noteq> [] then (''BLOCKED'', registry)
      else if ca_outcome c \<in> set TERMINAL_OUTCOMES then (''BLOCKED'', [if ca_outcome c = OUTCOME_EXPIRED then ''EXPIRED'' else ''TERMINAL_CANDIDATE''])
      else if (case ca_expires_at c of None \<Rightarrow> False | Some t \<Rightarrow> t \<le> now) then (''BLOCKED'', [''EXPIRED''])
      else if firewall \<noteq> [] then (''BLOCKED'', firewall)
      else if ca_outcome c \<noteq> OUTCOME_ACTIVE then
        (if ca_outcome c \<noteq> OUTCOME_WAIT then (''BLOCKED'', [''UNSUPPORTED_STATE'']) else (''INCOMPLETE'', [''NOT_YET_READY'']))
      else if ca_stage c \<notin> set FUNNEL_STAGES then (''BLOCKED'', [''UNSUPPORTED_STATE''])
      else if stage_index (ca_stage c) < ENTRY_CONFIRMED_INDEX then (''INCOMPLETE'', [''NOT_YET_READY''])
      else case ca_geometry c of
        None \<Rightarrow> (''INCOMPLETE'', [''MISSING_REQUIRED_INPUT''])
      | Some g \<Rightarrow>
          (case (ge_direction g, ge_entry g, ge_invalidation g) of
             (Some dir, Some entry, Some stop) \<Rightarrow> geometry_decision (ca_symbol c) dir entry stop (ge_targets g)
           | _ \<Rightarrow> (''INCOMPLETE'', [''MISSING_REQUIRED_INPUT''])))"

definition evaluate_proposal_eligibility :: "candidate \<Rightarrow> strategy_binding \<Rightarrow> datetime \<Rightarrow> eligibility_decision" where
  "evaluate_proposal_eligibility c b now =
     (case eligibility_status c b now of (status, reasons) \<Rightarrow>
        \<lparr>ed_candidate_id = ca_candidate_id c, ed_status = status, ed_reason_codes = reasons, ed_evaluated_at = now\<rparr>)"

end
