(* ===== verification/Funnel_Store.thy ===== *)
theory Funnel_Store
  imports Funnel
begin

text \<open>
  The candidate store (src/src/opportunity/candidate\_store.py) and the cycle of the scanner that evaluates
  an event against the stored candidate and persists the transition. A candidate and its whole history
  are one value of the key-value store. Geometries that are not finite are kept out of the stored records.
\<close>

section \<open>JSON form\<close>

definition float_json :: "float_value option \<Rightarrow> json" where
  "float_json x = (case x of Some (Finite q) \<Rightarrow> JFloat q | _ \<Rightarrow> JNull)"

definition geometry_json :: "geometry \<Rightarrow> json" where
  "geometry_json g = JDict
     [(''direction'', json_opt_str (ge_direction g)), (''entry'', float_json (ge_entry g)), (''invalidation'', float_json (ge_invalidation g)),
      (''targets'', JList (map (\<lambda>t. float_json (Some t)) (ge_targets g))), (''estimated_rr'', float_json (ge_estimated_rr g))]"

definition candidate_to_dict :: "candidate \<Rightarrow> json" where
  "candidate_to_dict c = JDict
     [(''candidate_id'', JStr (ca_candidate_id c)), (''occurrence_id'', JStr (ca_occurrence_id c)), (''strategy_id'', JStr (ca_strategy_id c)),
      (''strategy_version'', JStr (ca_strategy_version c)), (''strategy_engine_version'', json_opt_str (ca_strategy_engine_version c)),
      (''symbol'', JStr (ca_symbol c)), (''market'', JStr (ca_market c)), (''venue'', json_opt_str (ca_venue c)), (''direction'', json_opt_str (ca_direction c)),
      (''detected_at'', JStr (iso_datetime (ca_detected_at c))), (''last_evaluated_at'', JStr (iso_datetime (ca_last_evaluated_at c))),
      (''expires_at'', json_opt_time (ca_expires_at c)), (''stage'', JStr (ca_stage c)), (''outcome'', JStr (ca_outcome c)), (''revision'', JInt (ca_revision c)),
      (''raw_strategy_state'', JDict (ca_raw_strategy_state c)), (''context_evidence'', JDict (ca_context_evidence c)), (''setup_evidence'', JDict (ca_setup_evidence c)),
      (''trigger_evidence'', JDict (ca_trigger_evidence c)), (''geometry'', case ca_geometry c of None \<Rightarrow> JNull | Some g \<Rightarrow> geometry_json g),
      (''market_data_mode'', JStr (ca_market_data_mode c)), (''data_lineage'', json_opt_str (ca_data_lineage c)),
      (''latest_transition_id'', json_opt_str (ca_latest_transition_id c))]"

definition transition_to_dict :: "funnel_transition \<Rightarrow> json" where
  "transition_to_dict t = JDict
     [(''transition_id'', JStr (ft_transition_id t)), (''candidate_id'', JStr (ft_candidate_id t)), (''from_stage'', json_opt_str (ft_from_stage t)),
      (''from_outcome'', json_opt_str (ft_from_outcome t)), (''to_stage'', JStr (ft_to_stage t)), (''to_outcome'', JStr (ft_to_outcome t)),
      (''evaluated_at'', JStr (iso_datetime (ft_evaluated_at t))), (''evidence_event_id'', JStr (ft_evidence_event_id t)),
      (''reason_codes'', JList (map JStr (ft_reason_codes t))), (''raw_strategy_state'', JDict (ft_raw_strategy_state t))]"

definition float_field :: "mapping_value \<Rightarrow> string \<Rightarrow> float_value option res" where
  "float_field d k = (case dget d k of JNull \<Rightarrow> Inr None | JFloat q \<Rightarrow> Inr (Some (Finite q)) | JInt i \<Rightarrow> Inr (Some (Finite (of_int i))) | _ \<Rightarrow> Inl TypeError)"

definition dict_field :: "mapping_value \<Rightarrow> string \<Rightarrow> mapping_value res" where
  "dict_field d k = (case dget d k of JDict m \<Rightarrow> Inr m | _ \<Rightarrow> Inl TypeError)"

definition list_field :: "(json \<Rightarrow> 'a res) \<Rightarrow> mapping_value \<Rightarrow> string \<Rightarrow> 'a list res" where
  "list_field dec d k = (case map_of d k of None \<Rightarrow> Inr [] | Some (JList vs) \<Rightarrow> res_list (map dec vs) | Some _ \<Rightarrow> Inl TypeError)"

definition finite_item :: "json \<Rightarrow> float_value res" where
  "finite_item v = (case v of JFloat q \<Rightarrow> Inr (Finite q) | JInt i \<Rightarrow> Inr (Finite (of_int i)) | _ \<Rightarrow> Inl TypeError)"

definition str_item :: "json \<Rightarrow> string res" where
  "str_item v = (case v of JStr s \<Rightarrow> Inr s | _ \<Rightarrow> Inl TypeError)"

definition geometry_of :: "json \<Rightarrow> geometry option res" where
  "geometry_of v =
     (case v of
        JNull \<Rightarrow> Inr None
      | JDict d \<Rightarrow>
          res_bind (opt_str_field d ''direction'') (\<lambda>dir. res_bind (float_field d ''entry'') (\<lambda>en. res_bind (float_field d ''invalidation'') (\<lambda>inv.
          res_bind (list_field finite_item d ''targets'') (\<lambda>ts. res_bind (float_field d ''estimated_rr'') (\<lambda>rr.
            Inr (Some \<lparr>ge_direction = dir, ge_entry = en, ge_invalidation = inv, ge_targets = ts, ge_estimated_rr = rr\<rparr>))))))
      | _ \<Rightarrow> Inl TypeError)"

text \<open>The constructor checks the candidate it reads.\<close>

definition candidate_from_dict :: "json \<Rightarrow> candidate res" where
  "candidate_from_dict v =
     (case v of
        JDict d \<Rightarrow>
          res_bind (str_field d ''candidate_id'') (\<lambda>cid. res_bind (str_field d ''occurrence_id'') (\<lambda>occ. res_bind (str_field d ''strategy_id'') (\<lambda>sid.
          res_bind (str_field d ''strategy_version'') (\<lambda>sv. res_bind (opt_str_field d ''strategy_engine_version'') (\<lambda>sev. res_bind (str_field d ''symbol'') (\<lambda>sy.
          res_bind (str_field d ''market'') (\<lambda>mk. res_bind (opt_str_field d ''venue'') (\<lambda>ve. res_bind (opt_str_field d ''direction'') (\<lambda>dir.
          res_bind (time_field d ''detected_at'') (\<lambda>det. res_bind (time_field d ''last_evaluated_at'') (\<lambda>lev. res_bind (opt_time_field d ''expires_at'') (\<lambda>ex.
          res_bind (str_field d ''stage'') (\<lambda>st. res_bind (str_field d ''outcome'') (\<lambda>oc. res_bind (int_field d ''revision'') (\<lambda>rev.
          res_bind (dict_field d ''raw_strategy_state'') (\<lambda>raw. res_bind (dict_field d ''context_evidence'') (\<lambda>ctx. res_bind (dict_field d ''setup_evidence'') (\<lambda>setup.
          res_bind (dict_field d ''trigger_evidence'') (\<lambda>trig. res_bind (geometry_of (dget d ''geometry'')) (\<lambda>g. res_bind (str_field d ''market_data_mode'') (\<lambda>mode.
          res_bind (opt_str_field d ''data_lineage'') (\<lambda>lin. res_bind (opt_str_field d ''latest_transition_id'') (\<lambda>lt.
            let c = \<lparr>ca_candidate_id = cid, ca_occurrence_id = occ, ca_strategy_id = sid, ca_strategy_version = sv, ca_strategy_engine_version = sev, ca_symbol = sy,
              ca_market = mk, ca_venue = ve, ca_direction = dir, ca_detected_at = det, ca_last_evaluated_at = lev, ca_expires_at = ex, ca_stage = st, ca_outcome = oc,
              ca_revision = rev, ca_raw_strategy_state = raw, ca_context_evidence = ctx, ca_setup_evidence = setup, ca_trigger_evidence = trig, ca_geometry = g,
              ca_market_data_mode = mode, ca_data_lineage = lin, ca_latest_transition_id = lt\<rparr>
            in res_bind (check_candidate c) (\<lambda>_. Inr c))))))))))))))))))))))))
      | _ \<Rightarrow> Inl TypeError)"

definition transition_from_dict :: "json \<Rightarrow> funnel_transition res" where
  "transition_from_dict v =
     (case v of
        JDict d \<Rightarrow>
          res_bind (str_field d ''transition_id'') (\<lambda>tid. res_bind (str_field d ''candidate_id'') (\<lambda>cid. res_bind (opt_str_field d ''from_stage'') (\<lambda>fs.
          res_bind (opt_str_field d ''from_outcome'') (\<lambda>fo. res_bind (str_field d ''to_stage'') (\<lambda>ts. res_bind (str_field d ''to_outcome'') (\<lambda>to.
          res_bind (time_field d ''evaluated_at'') (\<lambda>ev. res_bind (str_field d ''evidence_event_id'') (\<lambda>eid.
          res_bind (list_field str_item d ''reason_codes'') (\<lambda>rs. res_bind (dict_field d ''raw_strategy_state'') (\<lambda>raw.
            Inr \<lparr>ft_transition_id = tid, ft_candidate_id = cid, ft_from_stage = fs, ft_from_outcome = fo, ft_to_stage = ts, ft_to_outcome = to, ft_evaluated_at = ev,
              ft_evidence_event_id = eid, ft_reason_codes = rs, ft_raw_strategy_state = raw\<rparr>))))))))))
      | _ \<Rightarrow> Inl TypeError)"

type_synonym stored_candidate = "candidate \<times> funnel_transition list"

definition stored_json :: "stored_candidate \<Rightarrow> json" where
  "stored_json x = JDict [(''candidate'', candidate_to_dict (fst x)), (''transitions'', JList (map transition_to_dict (snd x)))]"

definition stored_of_json :: "json \<Rightarrow> stored_candidate res" where
  "stored_of_json v =
     (case v of
        JDict d \<Rightarrow>
          (case map_of d ''candidate'' of
             None \<Rightarrow> Inl (KeyError ''candidate'')
           | Some w \<Rightarrow> res_bind (candidate_from_dict w) (\<lambda>c. res_bind (list_field transition_from_dict d ''transitions'') (\<lambda>ts. Inr (c, ts))))
      | _ \<Rightarrow> Inl TypeError)"

section \<open>The store\<close>

definition stored_at :: "kv_file \<Rightarrow> string \<Rightarrow> stored_candidate option res" where
  "stored_at f cid = typed_get stored_of_json f cid"

definition candidate_get :: "kv_file \<Rightarrow> string \<Rightarrow> candidate option res" where
  "candidate_get f cid = res_bind (stored_at f cid) (\<lambda>x. Inr (map_option fst x))"

definition candidate_transitions :: "kv_file \<Rightarrow> string \<Rightarrow> funnel_transition list res" where
  "candidate_transitions f cid = res_bind (stored_at f cid) (\<lambda>x. Inr (case x of None \<Rightarrow> [] | Some (c, ts) \<Rightarrow> ts))"

definition all_candidates :: "kv_file \<Rightarrow> candidate list res" where
  "all_candidates f =
     res_bind (kv_all f) (\<lambda>d. res_list (map (\<lambda>k. res_bind (stored_of_json (dget d k)) (\<lambda>x. Inr (fst x))) (sort (map fst d))))"

definition conflict :: "string \<Rightarrow> py_error" where
  "conflict what = RuntimeError what"

text \<open>The first authority field in which two candidates differ.\<close>

definition changed_authority :: "candidate \<Rightarrow> candidate \<Rightarrow> string option" where
  "changed_authority c p =
     (if ca_strategy_id c \<noteq> ca_strategy_id p then Some ''strategy_id''
      else if ca_strategy_version c \<noteq> ca_strategy_version p then Some ''strategy_version''
      else if ca_strategy_engine_version c \<noteq> ca_strategy_engine_version p then Some ''strategy_engine_version''
      else if ca_symbol c \<noteq> ca_symbol p then Some ''symbol''
      else if ca_market c \<noteq> ca_market p then Some ''market''
      else if ca_venue c \<noteq> ca_venue p then Some ''venue''
      else if ca_market_data_mode c \<noteq> ca_market_data_mode p then Some ''market_data_mode'' else None)"

definition persist :: "save_env \<Rightarrow> candidate \<Rightarrow> funnel_transition \<Rightarrow> kv_file \<Rightarrow> kv_file \<times> candidate res" where
  "persist env c t f =
     (let save = (\<lambda>x. case kv_put env (ca_candidate_id c) (stored_json x) f of (f', Inl e) \<Rightarrow> (f', Inl e) | (f', Inr _) \<Rightarrow> (f', Inr c))
      in if ft_candidate_id t \<noteq> ca_candidate_id c then (f, Inl (conflict ''transition candidate_id does not match candidate''))
      else if ca_latest_transition_id c \<noteq> Some (ft_transition_id t) then (f, Inl (conflict ''candidate latest_transition_id does not match transition''))
      else case stored_at f (ca_candidate_id c) of
        Inl e \<Rightarrow> (f, Inl e)
      | Inr None \<Rightarrow>
          if ca_revision c \<noteq> 1 then (f, Inl (conflict ''first persisted candidate revision must be 1'')) else save (c, [t])
      | Inr (Some (p, history)) \<Rightarrow>
          (case find (\<lambda>h. ft_transition_id h = ft_transition_id t) (rev history) of
             Some known \<Rightarrow>
               if \<not> same_value (transition_to_dict known) (transition_to_dict t) \<or> \<not> same_value (candidate_to_dict p) (candidate_to_dict c)
               then (f, Inl (conflict ''identity reused with different candidate/transition content'')) else (f, Inr p)
           | None \<Rightarrow>
               if ca_occurrence_id c \<noteq> ca_occurrence_id p then (f, Inl (conflict ''occurrence_id changed for existing candidate''))
               else case changed_authority c p of
                 Some field \<Rightarrow> (f, Inl (conflict (''candidate authority changed: '' @ field)))
               | None \<Rightarrow>
                   if ca_revision c \<noteq> ca_revision p + 1 then (f, Inl (conflict ''candidate revision must advance by exactly one''))
                   else if ft_from_stage t \<noteq> Some (ca_stage p) \<or> ft_from_outcome t \<noteq> Some (ca_outcome p)
                   then (f, Inl (conflict ''transition does not link from persisted candidate state''))
                   else save (c, history @ [t])))"

text \<open>One cycle of the scanner: the identity from a probe, the stored candidate, the evaluation against it,
  and the transition persisted. The result tells whether nothing new was found.\<close>

definition funnel_cycle :: "(json \<Rightarrow> string) \<Rightarrow> save_env \<Rightarrow> market_event \<Rightarrow> strategy_binding \<Rightarrow> adapter \<Rightarrow> kv_file \<Rightarrow> kv_file \<times> (candidate \<times> bool) res" where
  "funnel_cycle dg env e b a f =
     (case evaluate_funnel dg e b a None of
        Inl x \<Rightarrow> (f, Inl x)
      | Inr (probe, _) \<Rightarrow>
          (case candidate_get f (ca_candidate_id probe) of
             Inl x \<Rightarrow> (f, Inl x)
           | Inr prev \<Rightarrow>
               if (case prev of None \<Rightarrow> False | Some p \<Rightarrow> ca_market_data_mode p \<noteq> me_market_data_mode e)
               then (f, Inl (RuntimeError ''CANDIDATE_MARKET_DATA_MODE_CONFLICT''))
               else case evaluate_funnel dg e b a prev of
                 Inl x \<Rightarrow> (f, Inl x)
               | Inr (c, None) \<Rightarrow> (f, Inr (c, True))
               | Inr (c, Some t) \<Rightarrow> (case persist env c t f of (f', Inl x) \<Rightarrow> (f', Inl x) | (f', Inr _) \<Rightarrow> (f', Inr (c, False)))))"

end
