(* ===== verification/Funnel_Safety.thy ===== *)
theory Funnel_Safety
  imports Funnel_Store
begin

text \<open>
  What the opportunity funnel guarantees over any sequence of cycles, with any events, bindings, adapters
  and failures to write: the stored history of a candidate is one chain that only grows, a terminal
  candidate never changes, and only a complete real candidate becomes eligible.
\<close>

section \<open>Stored records\<close>

definition canon_map :: "mapping_value \<Rightarrow> mapping_value" where
  "canon_map m = sort_key fst (map (\<lambda>(k, v). (k, canon v)) m)"

lemma canon_JDict: "canon (JDict m) = JDict (canon_map m)"
  by (simp add: canon_map_def)

definition norm_candidate :: "candidate \<Rightarrow> candidate" where
  "norm_candidate c = c\<lparr>ca_raw_strategy_state := canon_map (ca_raw_strategy_state c), ca_context_evidence := canon_map (ca_context_evidence c),
     ca_setup_evidence := canon_map (ca_setup_evidence c), ca_trigger_evidence := canon_map (ca_trigger_evidence c)\<rparr>"

definition norm_transition :: "funnel_transition \<Rightarrow> funnel_transition" where
  "norm_transition t = t\<lparr>ft_raw_strategy_state := canon_map (ft_raw_strategy_state t)\<rparr>"

definition geometry_ok :: "geometry \<Rightarrow> bool" where
  "geometry_ok g \<longleftrightarrow> pred_option isfinite (ge_entry g) \<and> pred_option isfinite (ge_invalidation g) \<and> list_all isfinite (ge_targets g) \<and>
     pred_option isfinite (ge_estimated_rr g)"

definition candidate_ok :: "candidate \<Rightarrow> bool" where
  "candidate_ok c \<longleftrightarrow> valid_datetime (ca_detected_at c) \<and> valid_datetime (ca_last_evaluated_at c) \<and> pred_option valid_datetime (ca_expires_at c) \<and>
     check_candidate c = Inr () \<and> wf_json (JDict (ca_raw_strategy_state c)) \<and> wf_json (JDict (ca_context_evidence c)) \<and> wf_json (JDict (ca_setup_evidence c)) \<and>
     wf_json (JDict (ca_trigger_evidence c)) \<and> pred_option geometry_ok (ca_geometry c)"

definition transition_ok :: "funnel_transition \<Rightarrow> bool" where
  "transition_ok t \<longleftrightarrow> valid_datetime (ft_evaluated_at t) \<and> wf_json (JDict (ft_raw_strategy_state t))"

lemma float_field_of: "dget d k = float_json x \<Longrightarrow> pred_option isfinite x \<Longrightarrow> float_field d k = Inr x"
  by (cases x) (auto simp: float_field_def float_json_def split: float_value.splits elim: isfinite.elims)

lemma float_json_simps [simp]: "canon (float_json x) = float_json x" "wf_json (float_json x)"
  by (auto simp: float_json_def split: option.split float_value.split)

lemma finite_item_of: "isfinite x \<Longrightarrow> finite_item (float_json (Some x)) = Inr x"
  by (cases x) (simp_all add: finite_item_def float_json_def)

lemma time_field_of: "map_of d k = Some (JStr (iso_datetime t)) \<Longrightarrow> valid_datetime t \<Longrightarrow> time_field d k = Inr t"
  by (simp add: time_field_def str_field_def)

lemma opt_time_field_of: "dget d k = json_opt_time t \<Longrightarrow> pred_option valid_datetime t \<Longrightarrow> opt_time_field d k = Inr t"
  by (cases t) (simp_all add: opt_time_field_def opt_str_field_def json_opt_time_def)

lemma dict_field_of: "dget d k = JDict m \<Longrightarrow> dict_field d k = Inr m"
  by (simp add: dict_field_def)

lemma list_field_of:
  assumes "map_of d k = Some (JList (map h xs))" "\<And>x. x \<in> set xs \<Longrightarrow> dec (h x) = Inr (g x)"
  shows "list_field dec d k = Inr (map g xs)"
  using res_list_Inr [of xs "dec \<circ> h" g] assms by (simp add: list_field_def)

lemma geometry_roundtrip:
  assumes "geometry_ok g"
  shows "geometry_of (canon (geometry_json g)) = Inr (Some g)" "wf_json (geometry_json g)"
proof -
  obtain d where d: "geometry_json g = JDict d" "wf_dict d" by (simp add: geometry_json_def wf_dict_def)
  from canon_object [OF d(2)] obtain d' where c: "canon (JDict d) = JDict d'" "map_of d' = map_option canon \<circ> map_of d"
    and g: "\<And>k. dget d' k = (case map_of d k of None \<Rightarrow> JNull | Some v \<Rightarrow> canon v)" by blast
  have t: "list_field finite_item d' ''targets'' = Inr (map (\<lambda>x. x) (ge_targets g))"
    using assms d(1) by (intro list_field_of [where h = "\<lambda>t. float_json (Some t)"])
      (auto simp: geometry_json_def c(2) comp_def geometry_ok_def list_all_iff intro: finite_item_of)
  have f: "float_field d' ''entry'' = Inr (ge_entry g)" "float_field d' ''invalidation'' = Inr (ge_invalidation g)"
    "float_field d' ''estimated_rr'' = Inr (ge_estimated_rr g)" "opt_str_field d' ''direction'' = Inr (ge_direction g)"
    using assms d(1) by (auto simp: geometry_json_def g geometry_ok_def intro!: float_field_of)
  show "geometry_of (canon (geometry_json g)) = Inr (Some g)" unfolding d(1) c(1) by (simp add: geometry_of_def t f)
  show "wf_json (geometry_json g)" by (auto simp: geometry_json_def wf_dict_def)
qed

lemma candidate_roundtrip:
  assumes ok: "candidate_ok c"
  shows "candidate_from_dict (canon (candidate_to_dict c)) = Inr (norm_candidate c)" "wf_json (candidate_to_dict c)"
proof -
  show "wf_json (candidate_to_dict c)"
    using ok geometry_roundtrip(2) by (auto simp: candidate_to_dict_def candidate_ok_def split: option.split)
  obtain d where d: "candidate_to_dict c = JDict d" "wf_dict d" by (simp add: candidate_to_dict_def wf_dict_def)
  from canon_object [OF d(2)] obtain d' where c: "canon (JDict d) = JDict d'" "map_of d' = map_option canon \<circ> map_of d"
    and g: "\<And>k. dget d' k = (case map_of d k of None \<Rightarrow> JNull | Some v \<Rightarrow> canon v)" by blast
  have t: "time_field d' ''detected_at'' = Inr (ca_detected_at c)" "time_field d' ''last_evaluated_at'' = Inr (ca_last_evaluated_at c)"
    "opt_time_field d' ''expires_at'' = Inr (ca_expires_at c)"
    using ok d(1) by (auto simp: candidate_ok_def candidate_to_dict_def g c(2) intro!: time_field_of opt_time_field_of)
  have o: "opt_str_field d' ''strategy_engine_version'' = Inr (ca_strategy_engine_version c)" "opt_str_field d' ''venue'' = Inr (ca_venue c)"
    "opt_str_field d' ''direction'' = Inr (ca_direction c)" "opt_str_field d' ''data_lineage'' = Inr (ca_data_lineage c)"
    "opt_str_field d' ''latest_transition_id'' = Inr (ca_latest_transition_id c)"
    using d(1) by (auto simp: candidate_to_dict_def g)
  have m: "dict_field d' ''raw_strategy_state'' = Inr (canon_map (ca_raw_strategy_state c))" "dict_field d' ''context_evidence'' = Inr (canon_map (ca_context_evidence c))"
    "dict_field d' ''setup_evidence'' = Inr (canon_map (ca_setup_evidence c))" "dict_field d' ''trigger_evidence'' = Inr (canon_map (ca_trigger_evidence c))"
    using d(1) by (auto simp: candidate_to_dict_def g canon_JDict simp del: canon.simps intro!: dict_field_of)
  have ge: "geometry_of (dget d' ''geometry'') = Inr (ca_geometry c)"
    using ok d(1) geometry_roundtrip(1) by (cases "ca_geometry c") (auto simp: candidate_ok_def candidate_to_dict_def g geometry_of_def)
  have "check_candidate (norm_candidate c) = check_candidate c" by (simp add: check_candidate_def norm_candidate_def)
  then have n: "check_candidate (norm_candidate c) = Inr ()" using ok by (simp add: candidate_ok_def)
  have s: "str_field d' ''candidate_id'' = Inr (ca_candidate_id c)" "str_field d' ''occurrence_id'' = Inr (ca_occurrence_id c)" "str_field d' ''strategy_id'' = Inr (ca_strategy_id c)"
    "str_field d' ''strategy_version'' = Inr (ca_strategy_version c)" "str_field d' ''symbol'' = Inr (ca_symbol c)" "str_field d' ''market'' = Inr (ca_market c)"
    "str_field d' ''stage'' = Inr (ca_stage c)" "str_field d' ''outcome'' = Inr (ca_outcome c)" "int_field d' ''revision'' = Inr (ca_revision c)"
    "str_field d' ''market_data_mode'' = Inr (ca_market_data_mode c)"
    using d(1) by (auto simp: candidate_to_dict_def c(2))
  show "candidate_from_dict (canon (candidate_to_dict c)) = Inr (norm_candidate c)"
    unfolding d(1) c(1) using n by (cases c) (simp add: candidate_from_dict_def t o m ge s norm_candidate_def Let_def)
qed

lemma transition_roundtrip:
  assumes ok: "transition_ok t"
  shows "transition_from_dict (canon (transition_to_dict t)) = Inr (norm_transition t)" "wf_json (transition_to_dict t)"
proof -
  show "wf_json (transition_to_dict t)" using ok by (auto simp: transition_to_dict_def transition_ok_def)
  obtain d where d: "transition_to_dict t = JDict d" "wf_dict d" by (simp add: transition_to_dict_def wf_dict_def)
  from canon_object [OF d(2)] obtain d' where c: "canon (JDict d) = JDict d'" "map_of d' = map_option canon \<circ> map_of d"
    and g: "\<And>k. dget d' k = (case map_of d k of None \<Rightarrow> JNull | Some v \<Rightarrow> canon v)" by blast
  have r: "list_field str_item d' ''reason_codes'' = Inr (map (\<lambda>x. x) (ft_reason_codes t))"
    using d(1) by (intro list_field_of [where h = JStr]) (auto simp: transition_to_dict_def c(2) str_item_def)
  have s: "time_field d' ''evaluated_at'' = Inr (ft_evaluated_at t)" "opt_str_field d' ''from_stage'' = Inr (ft_from_stage t)" "opt_str_field d' ''from_outcome'' = Inr (ft_from_outcome t)"
    "dict_field d' ''raw_strategy_state'' = Inr (canon_map (ft_raw_strategy_state t))"
    using ok d(1) by (auto simp: transition_ok_def transition_to_dict_def g c(2) canon_JDict simp del: canon.simps(2) intro!: time_field_of dict_field_of)
  show "transition_from_dict (canon (transition_to_dict t)) = Inr (norm_transition t)"
    unfolding d(1) c(1) using d(1) by (auto simp: transition_from_dict_def transition_to_dict_def c(2) r s norm_transition_def)
qed

definition stored_ok :: "stored_candidate \<Rightarrow> bool" where
  "stored_ok x \<longleftrightarrow> candidate_ok (fst x) \<and> list_all transition_ok (snd x)"

definition norm_stored :: "stored_candidate \<Rightarrow> stored_candidate" where
  "norm_stored x = (norm_candidate (fst x), map norm_transition (snd x))"

interpretation stored: kv_codec stored_json stored_of_json norm_stored stored_ok
proof unfold_locales
  fix x :: stored_candidate
  show "canon (stored_json x) \<noteq> JNull" by (simp add: stored_json_def)
  show "wf_json (stored_json x)" if "stored_ok x"
    using that candidate_roundtrip(2) transition_roundtrip(2) by (auto simp: stored_json_def stored_ok_def list_all_iff)
  obtain d where d: "stored_json x = JDict d" "wf_dict d" by (simp add: stored_json_def wf_dict_def)
  from canon_object [OF d(2)] obtain d' where c: "canon (JDict d) = JDict d'" "map_of d' = map_option canon \<circ> map_of d" by blast
  show "stored_of_json (canon (stored_json x)) = Inr (norm_stored x)" if ok: "stored_ok x"
  proof -
    have "list_field transition_from_dict d' ''transitions'' = Inr (map norm_transition (snd x))"
      using ok d(1) by (intro list_field_of [where h = "canon \<circ> transition_to_dict"])
        (auto simp: stored_json_def c(2) stored_ok_def list_all_iff transition_roundtrip)
    then show ?thesis unfolding d(1) c(1) using ok d(1) candidate_roundtrip(1)
      by (auto simp: stored_of_json_def stored_json_def c(2) norm_stored_def stored_ok_def)
  qed
qed

section \<open>What one evaluation produces\<close>

text \<open>Inputs of a cycle: an event its constructor accepts, with valid instants, and an adapter whose answers
  are JSON values and finite geometries.\<close>

definition adapter_ok :: "adapter \<Rightarrow> bool" where
  "adapter_ok a \<longleftrightarrow> (\<forall>e s ob. ad_observe a e s = Inr ob \<longrightarrow> wf_json (JDict (ob_raw_strategy_state ob))) \<and>
     (\<forall>ob p. ad_project a ob = Inr p \<longrightarrow> wf_json (JDict (pj_context_evidence p)) \<and> wf_json (JDict (pj_setup_evidence p)) \<and> wf_json (JDict (pj_trigger_evidence p))) \<and>
     (\<forall>ob g. ad_candidate_geometry a ob = Inr (Some g) \<longrightarrow> geometry_ok g)"

definition funnel_event_ok :: "market_event \<Rightarrow> bool" where
  "funnel_event_ok e \<longleftrightarrow> check_event e = Inr () \<and> valid_datetime (me_bar_close_time e) \<and> valid_datetime (me_market_data_asof e)"

abbreviation place :: "candidate \<Rightarrow> string option \<times> string option" where
  "place c \<equiv> (Some (ca_stage c), Some (ca_outcome c))"

definition place_of :: "candidate option \<Rightarrow> string option \<times> string option" where
  "place_of x = (case x of None \<Rightarrow> (None, None) | Some c \<Rightarrow> place c)"

text \<open>One step of a history: it leaves a state that is not terminal, and a terminal outcome keeps the
  highest stage.\<close>

definition links :: "string option \<times> string option \<Rightarrow> funnel_transition \<Rightarrow> bool" where
  "links s t \<longleftrightarrow> (ft_from_stage t, ft_from_outcome t) = s \<and> snd s \<notin> Some ` set TERMINAL_OUTCOMES \<and>
     (ft_to_outcome t \<in> set TERMINAL_OUTCOMES \<longrightarrow> (\<forall>st. fst s = Some st \<longrightarrow> stage_index st \<le> stage_index (ft_to_stage t)))"

lemma final_stage_keeps:
  "pj_outcome p \<in> set TERMINAL_OUTCOMES \<Longrightarrow> fs_stage s = Some st \<Longrightarrow> stage_index st \<le> stage_index (final_stage s p)"
  by (simp add: final_stage_def)

lemma evaluate_funnel_moves:
  assumes "evaluate_funnel dg e b a prev = Inr (c, Some t)"
  obtains ob p g where "ad_observe a e (state_from_candidate prev) = Inr ob" "ad_project a ob = Inr p" "ad_candidate_geometry a ob = Inr g"
    "(c, t) = funnel_records dg e b a prev ob p g" "check_candidate c = Inr ()" "\<forall>p. prev = Some p \<longrightarrow> ca_outcome p \<notin> set TERMINAL_OUTCOMES"
proof -
  from assms have r: "run_adapter dg e b a prev = Inr (c, Some t)" and n: "\<forall>p. prev = Some p \<longrightarrow> ca_outcome p \<notin> set TERMINAL_OUTCOMES"
    by (auto simp: evaluate_funnel_def res_bind_Inr_iff split: if_splits option.splits)
  from r obtain ob p where o: "ad_observe a e (state_from_candidate prev) = Inr ob" "ad_project a ob = Inr p" "record_transition dg e b a prev ob p = Inr (c, Some t)"
    by (auto simp: run_adapter_def res_bind_Inr_iff split: if_splits option.splits)
  from o(3) obtain g where "ad_candidate_geometry a ob = Inr g" "(c, t) = funnel_records dg e b a prev ob p g" "check_candidate c = Inr ()"
    by (auto simp: record_transition_def res_bind_Inr_iff split_beta)
  with o n that show thesis by blast
qed

lemma funnel_records_facts:
  assumes "(c, t) = funnel_records dg e b a prev ob p g"
  shows "ft_candidate_id t = ca_candidate_id c" "ca_latest_transition_id c = Some (ft_transition_id t)"
    "ca_candidate_id c = (case prev of None \<Rightarrow> new_candidate_id dg b e | Some x \<Rightarrow> ca_candidate_id x)"
    "(ft_from_stage t, ft_from_outcome t) = place_of prev" "(Some (ft_to_stage t), Some (ft_to_outcome t)) = place c"
    "ca_revision c = (case prev of None \<Rightarrow> 0 | Some x \<Rightarrow> ca_revision x) + 1"
    "ft_to_outcome t \<in> set TERMINAL_OUTCOMES \<Longrightarrow> fst (place_of prev) = Some st \<Longrightarrow> stage_index st \<le> stage_index (ft_to_stage t)"
  using assms final_stage_keeps [of p "state_from_candidate prev" st]
  by (auto simp: funnel_records_def Let_def state_from_candidate_def place_of_def split: option.splits)

lemma evaluate_funnel_links:
  assumes "evaluate_funnel dg e b a prev = Inr (c, Some t)"
  shows "links (place_of prev) t"
proof -
  from assms obtain ob p g where m: "(c, t) = funnel_records dg e b a prev ob p g" "\<forall>p. prev = Some p \<longrightarrow> ca_outcome p \<notin> set TERMINAL_OUTCOMES"
    by (blast elim: evaluate_funnel_moves)
  have "snd (place_of prev) \<notin> Some ` set TERMINAL_OUTCOMES" using m(2) by (cases prev) (auto simp: place_of_def)
  with funnel_records_facts(4,7) [OF m(1)] show ?thesis by (simp add: links_def)
qed

lemma evaluate_funnel_ok:
  assumes m: "evaluate_funnel dg e b a prev = Inr (c, Some t)" and a: "adapter_ok a" "funnel_event_ok e" "pred_option candidate_ok prev"
  shows "candidate_ok c" "transition_ok t"
proof -
  from m obtain ob p g where r: "ad_observe a e (state_from_candidate prev) = Inr ob" "ad_project a ob = Inr p" "ad_candidate_geometry a ob = Inr g"
    "(c, t) = funnel_records dg e b a prev ob p g" "check_candidate c = Inr ()" by (rule evaluate_funnel_moves)
  have w: "wf_json (JDict (ob_raw_strategy_state ob))" "wf_json (JDict (pj_context_evidence p))" "wf_json (JDict (pj_setup_evidence p))" "wf_json (JDict (pj_trigger_evidence p))"
    using a(1) r(1,2) unfolding adapter_ok_def by blast+
  have wg: "pred_option geometry_ok g" using a(1) r(3) by (cases g) (auto simp: adapter_ok_def)
  have c: "c = fst (funnel_records dg e b a prev ob p g)" "t = snd (funnel_records dg e b a prev ob p g)" using r(4) by (metis fst_conv, metis snd_conv)
  have v: "valid_datetime (me_bar_close_time e)" "valid_datetime (me_market_data_asof e)" using a(2) by (simp_all add: funnel_event_ok_def)
  have d: "valid_datetime (ca_detected_at c)" "pred_option valid_datetime (ca_expires_at c)"
    using a(3) v by (auto simp: c(1) funnel_records_def Let_def candidate_ok_def split: option.split)
  have f: "ca_last_evaluated_at c = me_market_data_asof e" "ca_raw_strategy_state c = ob_raw_strategy_state ob" "ca_context_evidence c = pj_context_evidence p"
    "ca_setup_evidence c = pj_setup_evidence p" "ca_trigger_evidence c = pj_trigger_evidence p" "ca_geometry c = g"
    by (simp_all add: c(1) funnel_records_def Let_def)
  show "candidate_ok c" unfolding candidate_ok_def f using d v w wg r(5) by blast
  show "transition_ok t" unfolding c(2) transition_ok_def using v w(1) by (simp add: funnel_records_def Let_def)
qed

section \<open>What one cycle writes\<close>

fun linked :: "string option \<times> string option \<Rightarrow> funnel_transition list \<Rightarrow> string option \<times> string option \<Rightarrow> bool" where
  "linked s [] e \<longleftrightarrow> s = e"
| "linked s (t # ts) e \<longleftrightarrow> links s t \<and> linked (Some (ft_to_stage t), Some (ft_to_outcome t)) ts e"

lemma linked_snoc: "linked s ts m \<Longrightarrow> links m t \<Longrightarrow> linked s (ts @ [t]) (Some (ft_to_stage t), Some (ft_to_outcome t))"
  by (induction s ts m rule: linked.induct) auto

text \<open>A stored record: canonical, under its own identifier, with one transition per revision, all of its
  own and with different identifiers, forming a chain to its present state.\<close>

definition stored_wf :: "string \<Rightarrow> stored_candidate \<Rightarrow> bool" where
  "stored_wf k x \<longleftrightarrow> stored_ok x \<and> norm_stored x = x \<and> ca_candidate_id (fst x) = k \<and> ca_revision (fst x) = int (length (snd x)) \<and>
     (\<forall>t \<in> set (snd x). ft_candidate_id t = k) \<and> distinct (map ft_transition_id (snd x)) \<and> linked (None, None) (snd x) (place (fst x))"

definition funnel_inv :: "kv_file \<Rightarrow> bool" where
  "funnel_inv f \<longleftrightarrow> kv_own f \<and> (\<forall>k. stored_at f k = Inr None \<or> (\<exists>x. stored_at f k = Inr (Some x) \<and> stored_wf k x))"

lemma canon_map_idem: "canon_map (canon_map m) = canon_map m"
  using canon_idem [of "JDict m"] by (simp only: canon_JDict json.inject)

lemma canon_map_wf: "wf_json (JDict m) \<Longrightarrow> wf_json (JDict (canon_map m))"
  using wf_json_canon [of "JDict m"] by (simp only: canon_JDict)

lemma norm_stored_idem: "norm_stored (norm_stored x) = norm_stored x"
  by (simp add: norm_stored_def norm_candidate_def norm_transition_def canon_map_idem)

lemma norm_stored_ok: "stored_ok x \<Longrightarrow> stored_ok (norm_stored x)"
proof -
  assume "stored_ok x"
  moreover have "check_candidate (norm_candidate (fst x)) = check_candidate (fst x)" by (simp add: check_candidate_def norm_candidate_def)
  ultimately show ?thesis
    by (auto simp: stored_ok_def norm_stored_def candidate_ok_def transition_ok_def norm_candidate_def norm_transition_def list_all_iff
      simp del: wf_json.simps intro: canon_map_wf)
qed

lemma norm_transition_simps [simp]: "ft_transition_id (norm_transition t) = ft_transition_id t" "ft_candidate_id (norm_transition t) = ft_candidate_id t"
  "links s (norm_transition t) = links s t" "ft_to_stage (norm_transition t) = ft_to_stage t" "ft_to_outcome (norm_transition t) = ft_to_outcome t"
  by (simp_all add: norm_transition_def links_def)

lemma linked_norm [simp]: "linked s (map norm_transition ts) e = linked s ts e"
  by (induction s ts e rule: linked.induct) auto

text \<open>A write appends one linked transition to the history of one candidate.\<close>

definition funnel_writes :: "kv_file \<Rightarrow> kv_file \<Rightarrow> bool" where
  "funnel_writes f f' \<longleftrightarrow> f' = f \<or> kv_own f' \<and>
     (\<exists>k x c t. stored_at f k = Inr x \<and> links (place_of (map_option fst x)) t \<and> stored_wf k (c, (case x of None \<Rightarrow> [] | Some y \<Rightarrow> snd y) @ [t]) \<and>
        (\<forall>y. x = Some y \<longrightarrow> changed_authority c (fst y) = None \<and> ca_occurrence_id c = ca_occurrence_id (fst y)) \<and>
        stored_at f' = (stored_at f)(k := Inr (Some (c, (case x of None \<Rightarrow> [] | Some y \<Rightarrow> snd y) @ [t]))))"

lemma funnel_inv_at: "funnel_inv f \<Longrightarrow> stored_at f k = Inr (Some x) \<Longrightarrow> stored_wf k x"
  unfolding funnel_inv_def by (elim conjE allE [of _ k]) auto

lemma put_stored:
  assumes "kv_own f" "stored_ok x"
  shows "(\<exists>err. kv_put env k (stored_json x) f = (f, Inl err)) \<or>
    (\<exists>f'. kv_put env k (stored_json x) f = (f', Inr ()) \<and> kv_own f' \<and> stored_at f' = (stored_at f)(k := Inr (Some (norm_stored x))))"
proof (cases rule: stored.write_cases [OF assms, of env k])
  case (2 f')
  then have "stored_at f' = (stored_at f)(k := Inr (Some (norm_stored x)))" by (auto simp: stored_at_def fun_eq_iff)
  with 2 show ?thesis by blast
qed blast

lemma norm_candidate_simps [simp]: "ca_candidate_id (norm_candidate c) = ca_candidate_id c" "ca_revision (norm_candidate c) = ca_revision c"
  "ca_stage (norm_candidate c) = ca_stage c" "ca_outcome (norm_candidate c) = ca_outcome c" "ca_occurrence_id (norm_candidate c) = ca_occurrence_id c"
  "changed_authority (norm_candidate c) p = changed_authority c p" "ca_market_data_mode (norm_candidate c) = ca_market_data_mode c"
  by (simp_all add: norm_candidate_def changed_authority_def)

text \<open>The record that a move of the engine adds to a history.\<close>

lemma moved_wf:
  assumes ev: "evaluate_funnel dg e b a prev = Inr (c, Some t)" and ok: "candidate_ok c" "transition_ok t"
    and h: "case prev of None \<Rightarrow> h = [] | Some p \<Rightarrow> stored_wf (ca_candidate_id c) (p, h)" and n: "ft_transition_id t \<notin> ft_transition_id ` set h"
  shows "norm_stored (c, h @ [t]) = (norm_candidate c, h @ [norm_transition t])" "stored_wf (ca_candidate_id c) (norm_candidate c, h @ [norm_transition t])"
    "stored_ok (c, h @ [t])"
proof -
  from ev obtain ob p g where r: "(c, t) = funnel_records dg e b a prev ob p g" by (blast elim: evaluate_funnel_moves)
  note f = funnel_records_facts [OF r]
  have hk: "map norm_transition h = h" "list_all transition_ok h" "\<forall>t \<in> set h. ft_candidate_id t = ca_candidate_id c" "distinct (map ft_transition_id h)"
    "linked (None, None) h (place_of prev)" "ca_revision c = int (length h) + 1"
    using h f(6) by (auto simp: stored_wf_def norm_stored_def stored_ok_def place_of_def split: option.splits)
  show e: "norm_stored (c, h @ [t]) = (norm_candidate c, h @ [norm_transition t])" using hk(1) by (simp add: norm_stored_def)
  show o: "stored_ok (c, h @ [t])" using ok hk(2) by (simp add: stored_ok_def)
  have "linked (None, None) (h @ [norm_transition t]) (place (norm_candidate c))"
    using linked_snoc [OF hk(5), of "norm_transition t"] evaluate_funnel_links [OF ev] f(5) by simp
  then show "stored_wf (ca_candidate_id c) (norm_candidate c, h @ [norm_transition t])"
    unfolding stored_wf_def using norm_stored_ok [OF o] norm_stored_idem [of "(c, h @ [t])"] hk n f(1) unfolding e by simp
qed

lemma fst_saved: "fst (case p of (f', Inl e) \<Rightarrow> (f', Inl e) | (f', Inr _) \<Rightarrow> (f', Inr c)) = fst p"
  by (cases p; cases "snd p") auto

lemma persist_cases:
  assumes x: "stored_at f (ca_candidate_id c) = Inr x" and n: "fst (persist env c t f) \<noteq> f"
  defines "h \<equiv> case x of None \<Rightarrow> [] | Some y \<Rightarrow> snd y"
  shows "ft_transition_id t \<notin> ft_transition_id ` set h"
    and "\<forall>y. x = Some y \<longrightarrow> changed_authority c (fst y) = None \<and> ca_occurrence_id c = ca_occurrence_id (fst y)"
    and "fst (persist env c t f) = fst (kv_put env (ca_candidate_id c) (stored_json (c, h @ [t])) f)"
proof -
  have "ft_transition_id t \<notin> ft_transition_id ` set h \<and>
    (\<forall>y. x = Some y \<longrightarrow> changed_authority c (fst y) = None \<and> ca_occurrence_id c = ca_occurrence_id (fst y)) \<and>
    fst (persist env c t f) = fst (kv_put env (ca_candidate_id c) (stored_json (c, h @ [t])) f)"
  proof (cases x)
    case None
    with x n show ?thesis by (simp add: persist_def h_def fst_saved split: if_splits)
  next
    case (Some y)
    obtain p hist where y: "y = (p, hist)" by fastforce
    show ?thesis
    proof (cases "find (\<lambda>h. ft_transition_id h = ft_transition_id t) (rev hist)")
      case none: None
      have "ft_transition_id t \<notin> ft_transition_id ` set hist" using none by (auto simp: find_None_iff)
      then show ?thesis using x n Some y none by (cases "changed_authority c p") (simp_all add: persist_def h_def fst_saved split: if_splits)
    qed (use x n Some y in \<open>simp add: persist_def split: if_splits\<close>)
  qed
  then show "ft_transition_id t \<notin> ft_transition_id ` set h"
    "\<forall>y. x = Some y \<longrightarrow> changed_authority c (fst y) = None \<and> ca_occurrence_id c = ca_occurrence_id (fst y)"
    "fst (persist env c t f) = fst (kv_put env (ca_candidate_id c) (stored_json (c, h @ [t])) f)" by blast+
qed

lemma persist_writes:
  assumes i: "funnel_inv f" and ev: "evaluate_funnel dg e b a prev = Inr (c, Some t)" and ok: "candidate_ok c" "transition_ok t"
    and g: "candidate_get f (ca_candidate_id c) = Inr prev"
  shows "funnel_writes f (fst (persist env c t f))"
proof -
  let ?k = "ca_candidate_id c"
  obtain x where x: "stored_at f ?k = Inr x" "prev = map_option fst x" using g by (cases "stored_at f ?k") (auto simp: candidate_get_def)
  define h where "h = (case x of None \<Rightarrow> [] | Some y \<Rightarrow> snd y)"
  have hp: "case prev of None \<Rightarrow> h = [] | Some p \<Rightarrow> stored_wf ?k (p, h)" using x funnel_inv_at [OF i, of ?k] by (cases x) (auto simp: h_def)
  have own: "kv_own f" using i by (simp add: funnel_inv_def)
  show ?thesis
  proof (cases "fst (persist env c t f) = f")
    case False
    note n = persist_cases(1) [OF x(1) False, folded h_def] and y = persist_cases(2) [OF x(1) False] and p = persist_cases(3) [OF x(1) False, folded h_def]
    note w = moved_wf [OF ev ok hp n]
    from put_stored [OF own w(3), of env ?k] False p obtain f' where "fst (persist env c t f) = f'" "kv_own f'"
      "stored_at f' = (stored_at f)(?k := Inr (Some (norm_candidate c, h @ [norm_transition t])))" unfolding w(1) by auto
    moreover have "links (place_of (map_option fst x)) (norm_transition t)" using evaluate_funnel_links [OF ev] x(2) by simp
    ultimately show ?thesis unfolding funnel_writes_def using x(1) w(2) y unfolding h_def
      by (intro disjI2 conjI exI [of _ ?k] exI [of _ x] exI [of _ "norm_candidate c"] exI [of _ "norm_transition t"]) simp_all
  qed (simp add: funnel_writes_def)
qed

lemma probe_id: "evaluate_funnel dg e b a None = Inr (c, x) \<Longrightarrow> ca_candidate_id c = new_candidate_id dg b e"
  by (auto simp: evaluate_funnel_def run_adapter_def record_transition_def funnel_records_def Let_def res_bind_Inr_iff split: if_splits)

lemma cycle_writes:
  assumes i: "funnel_inv f" and a: "adapter_ok a" "funnel_event_ok e"
  shows "funnel_writes f (fst (funnel_cycle dg env e b a f))"
proof (cases "fst (funnel_cycle dg env e b a f) = f")
  case False
  then obtain probe y prev c t where p: "evaluate_funnel dg e b a None = Inr (probe, y)" "candidate_get f (ca_candidate_id probe) = Inr prev"
    "evaluate_funnel dg e b a prev = Inr (c, Some t)" "fst (funnel_cycle dg env e b a f) = fst (persist env c t f)"
    by (auto simp: funnel_cycle_def split: sum.splits prod.splits option.splits if_splits)
  obtain x where x: "stored_at f (ca_candidate_id probe) = Inr x" "prev = map_option fst x"
    using p(2) by (cases "stored_at f (ca_candidate_id probe)") (auto simp: candidate_get_def)
  then have "pred_option candidate_ok prev \<and> (\<forall>x. prev = Some x \<longrightarrow> ca_candidate_id x = ca_candidate_id probe)"
    using funnel_inv_at [OF i, of "ca_candidate_id probe"] by (cases x) (auto simp: stored_wf_def stored_ok_def)
  moreover from p(3) obtain ob q g where "(c, t) = funnel_records dg e b a prev ob q g" by (blast elim: evaluate_funnel_moves)
  ultimately have "pred_option candidate_ok prev" "ca_candidate_id c = ca_candidate_id probe"
    using funnel_records_facts(3) [of c t dg e b a prev ob q g] probe_id [OF p(1)] by (auto split: option.splits)
  then show ?thesis unfolding p(4) using p(2) evaluate_funnel_ok [OF p(3) a] by (intro persist_writes [OF i p(3)]) simp_all
qed (simp add: funnel_writes_def)

section \<open>Any sequence of cycles\<close>

type_synonym cycle = "save_env \<times> market_event \<times> strategy_binding \<times> adapter"

fun cycle_ok :: "cycle \<Rightarrow> bool" where
  "cycle_ok (env, e, b, a) \<longleftrightarrow> adapter_ok a \<and> funnel_event_ok e"

fun cycle_step :: "(json \<Rightarrow> string) \<Rightarrow> cycle \<Rightarrow> kv_file \<Rightarrow> kv_file" where
  "cycle_step dg (env, e, b, a) f = fst (funnel_cycle dg env e b a f)"

definition cycles :: "(json \<Rightarrow> string) \<Rightarrow> cycle list \<Rightarrow> kv_file \<Rightarrow> kv_file" where
  "cycles dg = fold (cycle_step dg)"

lemma step_cycle_writes: "funnel_inv f \<Longrightarrow> cycle_ok x \<Longrightarrow> funnel_writes f (cycle_step dg x f)"
  by (cases x) (simp add: cycle_writes)

lemma writes_inv:
  assumes i: "funnel_inv f" and w: "funnel_writes f f'"
  shows "funnel_inv f'"
proof (cases "f' = f")
  case False
  with w obtain k x where w: "kv_own f'" "stored_at f' = (stored_at f)(k := Inr (Some x))" "stored_wf k x" unfolding funnel_writes_def by blast
  have "stored_at f' k' = Inr None \<or> (\<exists>x. stored_at f' k' = Inr (Some x) \<and> stored_wf k' x)" for k'
    using i w(2,3) unfolding funnel_inv_def by (cases "k' = k") simp_all
  with w(1) show ?thesis unfolding funnel_inv_def by blast
qed (use i in simp)

lemma cycles_inv: "funnel_inv f \<Longrightarrow> list_all cycle_ok cs \<Longrightarrow> funnel_inv (cycles dg cs f)"
  by (induction cs arbitrary: f) (auto simp: cycles_def intro: writes_inv step_cycle_writes)

lemma empty_funnel_inv: "funnel_inv KvMissing"
  by (simp add: funnel_inv_def stored_at_def typed_get_def kv_get_def kv_load_def dget_def)

text \<open>A stored record only grows, and a terminal one stays.\<close>

definition extends :: "stored_candidate \<Rightarrow> stored_candidate \<Rightarrow> bool" where
  "extends x y \<longleftrightarrow> (\<exists>ts. snd y = snd x @ ts \<and> (ca_outcome (fst x) \<in> set TERMINAL_OUTCOMES \<longrightarrow> y = x)) \<and>
     changed_authority (fst y) (fst x) = None \<and> ca_occurrence_id (fst y) = ca_occurrence_id (fst x)"

lemma extends_refl: "extends x x"
  by (simp add: extends_def changed_authority_def)

lemma extends_trans: "extends x y \<Longrightarrow> extends y z \<Longrightarrow> extends x z"
  by (auto simp: extends_def changed_authority_def split: if_splits)

lemma writes_extends:
  assumes "funnel_writes f f'" "stored_at f k = Inr (Some x)"
  shows "\<exists>y. stored_at f' k = Inr (Some y) \<and> extends x y"
proof (cases "f' = f")
  case False
  with assms(1) obtain k' z c t where w: "stored_at f k' = Inr z" "links (place_of (map_option fst z)) t"
    "\<forall>y. z = Some y \<longrightarrow> changed_authority c (fst y) = None \<and> ca_occurrence_id c = ca_occurrence_id (fst y)"
    "stored_at f' = (stored_at f)(k' := Inr (Some (c, (case z of None \<Rightarrow> [] | Some y \<Rightarrow> snd y) @ [t])))" by (auto simp: funnel_writes_def)
  show ?thesis
  proof (cases "k' = k")
    case True
    with w assms(2) show ?thesis by (cases x) (auto simp: extends_def links_def place_of_def)
  qed (use w(4) assms(2) extends_refl in auto)
qed (use assms(2) extends_refl in auto)

lemma cycles_extend:
  "funnel_inv f \<Longrightarrow> list_all cycle_ok cs \<Longrightarrow> stored_at f k = Inr (Some x) \<Longrightarrow> \<exists>y. stored_at (cycles dg cs f) k = Inr (Some y) \<and> extends x y"
proof (induction cs arbitrary: f x)
  case Nil
  then show ?case using extends_refl by (auto simp: cycles_def)
next
  case (Cons z cs)
  then have w: "funnel_writes f (cycle_step dg z f)" by (intro step_cycle_writes) simp_all
  from writes_extends [OF w Cons.prems(3)] obtain y where y: "stored_at (cycle_step dg z f) k = Inr (Some y)" "extends x y" by blast
  from Cons.IH [OF writes_inv [OF Cons.prems(1) w] _ y(1)] Cons.prems(2) show ?case
    using extends_trans [OF y(2)] by (auto simp: cycles_def)
qed

lemma stored_parts:
  assumes "candidate_get f k = Inr (Some c)"
  obtains ts where "stored_at f k = Inr (Some (c, ts))" "candidate_transitions f k = Inr ts"
  using assms by (cases "stored_at f k") (auto simp: candidate_get_def candidate_transitions_def)

text \<open>C27. After any cycles, with any events, bindings and adapters and any failed writes, the history of a
  stored candidate can be read and is one chain: it has one transition per revision, all of this candidate
  and with different identifiers, each leaves the state the one before reached and never a terminal state,
  a terminal outcome keeps the highest stage, and the last one reaches the state of the candidate.
\<close>

theorem funnel_history_linear:
  assumes "list_all cycle_ok cs" "candidate_get (cycles dg cs KvMissing) cid = Inr (Some c)"
  shows "\<exists>ts. candidate_transitions (cycles dg cs KvMissing) cid = Inr ts \<and> ca_candidate_id c = cid \<and> ca_revision c = int (length ts) \<and>
    (\<forall>t \<in> set ts. ft_candidate_id t = cid) \<and> distinct (map ft_transition_id ts) \<and> linked (None, None) ts (place c)"
proof -
  from assms(2) obtain ts where ts: "stored_at (cycles dg cs KvMissing) cid = Inr (Some (c, ts))" "candidate_transitions (cycles dg cs KvMissing) cid = Inr ts"
    by (rule stored_parts)
  from funnel_inv_at [OF cycles_inv [OF empty_funnel_inv assms(1)] ts(1)] ts(2) show ?thesis by (auto simp: stored_wf_def)
qed

text \<open>C28. A stored candidate keeps its occurrence, strategy, symbol and data mode, and its history only grows; a
  candidate with a terminal outcome never changes again, whatever is evaluated for it later.
\<close>

theorem terminal_candidate_final:
  assumes "list_all cycle_ok (before @ after)" "candidate_get (cycles dg before KvMissing) cid = Inr (Some c)"
    "candidate_transitions (cycles dg before KvMissing) cid = Inr ts"
  shows "\<exists>c' new. candidate_get (cycles dg (before @ after) KvMissing) cid = Inr (Some c') \<and>
    candidate_transitions (cycles dg (before @ after) KvMissing) cid = Inr (ts @ new) \<and> changed_authority c' c = None \<and>
    ca_occurrence_id c' = ca_occurrence_id c \<and> (ca_outcome c \<in> set TERMINAL_OUTCOMES \<longrightarrow> c' = c \<and> new = [])"
proof -
  have i: "funnel_inv (cycles dg before KvMissing)" using assms(1) by (intro cycles_inv empty_funnel_inv) simp
  from assms(2,3) have s: "stored_at (cycles dg before KvMissing) cid = Inr (Some (c, ts))" by (auto elim: stored_parts)
  from cycles_extend [OF i _ s, of after dg] assms(1) obtain y where y: "stored_at (cycles dg (before @ after) KvMissing) cid = Inr (Some y)" "extends (c, ts) y"
    by (auto simp: cycles_def)
  then show ?thesis by (cases y) (auto simp: candidate_get_def candidate_transitions_def extends_def)
qed

lemma geometry_eligible:
  "fst (geometry_decision sy dir en st ts) = ''ELIGIBLE'' \<longleftrightarrow> sy \<noteq> [] \<and> (\<forall>x \<in> set sy. \<not> is_space x) \<and> upper sy = sy \<and>
     (\<exists>entry stop. en = Finite entry \<and> st = Finite stop \<and> list_all isfinite ts \<and> (dir \<in> {''LONG'', ''BUY''} \<and> stop < entry \<or> dir \<in> {''SHORT'', ''SELL''} \<and> entry < stop))"
  by (cases en; cases st) (auto simp: geometry_decision_def LONG_SIDES_def SHORT_SIDES_def)

lemma stage_confirmed: "s \<in> set FUNNEL_STAGES \<Longrightarrow> stage_index s < ENTRY_CONFIRMED_INDEX \<longleftrightarrow> s \<notin> {''ENTRY_CONFIRMED'', ''OPPORTUNITY_READY''}"
  by (auto simp: FUNNEL_STAGES_def ENTRY_CONFIRMED_INDEX_def)

lemma firewall_real: "m \<in> set VALID_MARKET_DATA_MODES \<Longrightarrow> synthetic_or_replay_block_reasons m True = [] \<longleftrightarrow> m = ''REAL''"
  by (auto simp: VALID_MARKET_DATA_MODES_def synthetic_or_replay_block_reasons_def)

definition geometry_complete :: "candidate \<Rightarrow> bool" where
  "geometry_complete c \<longleftrightarrow> (\<exists>g dir entry stop. ca_geometry c = Some g \<and> ge_direction g = Some dir \<and> ge_entry g = Some (Finite entry) \<and> ge_invalidation g = Some (Finite stop) \<and>
     list_all isfinite (ge_targets g) \<and> (dir \<in> {''LONG'', ''BUY''} \<and> stop < entry \<or> dir \<in> {''SHORT'', ''SELL''} \<and> entry < stop))"

lemma geometry_part:
  "fst (case ca_geometry c of None \<Rightarrow> (''INCOMPLETE'', [''MISSING_REQUIRED_INPUT''])
      | Some g \<Rightarrow> (case (ge_direction g, ge_entry g, ge_invalidation g) of
             (Some dir, Some entry, Some stop) \<Rightarrow> geometry_decision (ca_symbol c) dir entry stop (ge_targets g)
           | _ \<Rightarrow> (''INCOMPLETE'', [''MISSING_REQUIRED_INPUT'']))) = ''ELIGIBLE'' \<longleftrightarrow>
   ca_symbol c \<noteq> [] \<and> (\<forall>x \<in> set (ca_symbol c). \<not> is_space x) \<and> upper (ca_symbol c) = ca_symbol c \<and> geometry_complete c"
  by (cases "ca_geometry c") (auto simp: geometry_complete_def geometry_eligible split: option.splits)

lemma status_eligible:
  assumes "ca_stage c \<in> set FUNNEL_STAGES" "ca_market_data_mode c \<in> set VALID_MARKET_DATA_MODES"
  shows "fst (eligibility_status c b now) = ''ELIGIBLE'' \<longleftrightarrow> ca_strategy_id c = sb_strategy_id b \<and> sb_opportunity_authority b \<and> sb_live_observation_supported b \<and>
    ca_market_data_mode c = ''REAL'' \<and> ca_outcome c = OUTCOME_ACTIVE \<and> (\<forall>t. ca_expires_at c = Some t \<longrightarrow> now < t) \<and>
    ca_stage c \<in> {''ENTRY_CONFIRMED'', ''OPPORTUNITY_READY''} \<and> ca_symbol c \<noteq> [] \<and> (\<forall>x \<in> set (ca_symbol c). \<not> is_space x) \<and> upper (ca_symbol c) = ca_symbol c \<and>
    geometry_complete c"
proof -
  have o: "OUTCOME_ACTIVE \<notin> set TERMINAL_OUTCOMES" by (simp add: TERMINAL_OUTCOMES_def funnel_outcomes)
  have e: "(case ca_expires_at c of None \<Rightarrow> False | Some t \<Rightarrow> t \<le> now) \<longleftrightarrow> \<not> (\<forall>t. ca_expires_at c = Some t \<longrightarrow> now < t)"
    by (auto split: option.split)
  show ?thesis unfolding eligibility_status_def Let_def e stage_confirmed [OF assms(1)] firewall_real [OF assms(2)]
    using o assms(1) geometry_part [of c] by (simp split: if_splits)
qed

lemma binding_authority:
  assumes "resolve_strategy_binding doc sid = Inr b"
  shows "sb_strategy_id b = sid" and "sb_opportunity_authority b \<and> sb_live_observation_supported b \<longleftrightarrow>
    (\<exists>entries e. load_registry doc = Inr (JDict entries) \<and> map_of entries sid = Some (JDict e) \<and> truthy (dget e ''registered'') \<and> truthy (dget e ''active''))"
proof -
  from assms obtain d where d: "load_registry doc = Inr (JDict d)"
    by (cases "load_registry doc"; cases "projr (load_registry doc)") (auto simp: resolve_strategy_binding_def)
  with assms obtain e where e: "map_of d sid = Some (JDict e)"
    by (cases "map_of d sid"; cases "the (map_of d sid)") (auto simp: resolve_strategy_binding_def)
  from assms d e show "sb_strategy_id b = sid" "sb_opportunity_authority b \<and> sb_live_observation_supported b \<longleftrightarrow>
    (\<exists>entries e. load_registry doc = Inr (JDict entries) \<and> map_of entries sid = Some (JDict e) \<and> truthy (dget e ''registered'') \<and> truthy (dget e ''active''))"
    by (auto simp: resolve_strategy_binding_def Let_def)
qed

text \<open>C33. A candidate is eligible for a proposal exactly when its strategy is the bound one and is registered and
  active, it is on real data, active, not expired, at least at the confirmed entry, its symbol is canonical,
  and its geometry has a known side and finite levels with the stop strictly on the losing side of the entry.
\<close>

theorem eligible_candidate:
  assumes "resolve_strategy_binding doc sid = Inr b" "check_candidate c = Inr ()"
  shows "ed_status (evaluate_proposal_eligibility c b now) = ''ELIGIBLE'' \<longleftrightarrow>
    ca_strategy_id c = sid \<and> (\<exists>entries e. load_registry doc = Inr (JDict entries) \<and> map_of entries sid = Some (JDict e) \<and> truthy (dget e ''registered'') \<and> truthy (dget e ''active'')) \<and>
    ca_market_data_mode c = ''REAL'' \<and> ca_outcome c = OUTCOME_ACTIVE \<and> (\<forall>t. ca_expires_at c = Some t \<longrightarrow> now < t) \<and>
    ca_stage c \<in> {''ENTRY_CONFIRMED'', ''OPPORTUNITY_READY''} \<and> ca_symbol c \<noteq> [] \<and> (\<forall>x \<in> set (ca_symbol c). \<not> is_space x) \<and> upper (ca_symbol c) = ca_symbol c \<and>
    (\<exists>g dir entry stop. ca_geometry c = Some g \<and> ge_direction g = Some dir \<and> ge_entry g = Some (Finite entry) \<and> ge_invalidation g = Some (Finite stop) \<and>
       list_all isfinite (ge_targets g) \<and> (dir \<in> {''LONG'', ''BUY''} \<and> stop < entry \<or> dir \<in> {''SHORT'', ''SELL''} \<and> entry < stop))"
proof -
  have k: "ca_stage c \<in> set FUNNEL_STAGES" "ca_market_data_mode c \<in> set VALID_MARKET_DATA_MODES"
    using assms(2) by (auto simp: check_candidate_def validate_stage_def res_bind_Inr_iff split: if_splits)
  show ?thesis unfolding evaluate_proposal_eligibility_def
    by (simp only: split_beta eligibility_decision.simps status_eligible [OF k] binding_authority(1) [OF assms(1)])
      (use binding_authority(2) [OF assms(1)] in \<open>auto simp: geometry_complete_def\<close>)
qed

section \<open>Concrete runs\<close>

definition demo_digest :: "json \<Rightarrow> string" where
  "demo_digest v = (case v of JDict d \<Rightarrow> (case dget d ''from_revision'' of JNull \<Rightarrow> ''c'' | _ \<Rightarrow> ''t'') | _ \<Rightarrow> [])"

text \<open>An adapter that reports an invalidation at once.\<close>

definition demo_funnel_adapter :: adapter where
  "demo_funnel_adapter = \<lparr>ad_strategy_id = ''S'', ad_strategy_version = ''1'', ad_supports = (\<lambda>_ _. Inr True),
     ad_observe = (\<lambda>e s. Inr \<lparr>ob_strategy_id = ''S'', ob_event_id = me_event_id e, ob_market_data_mode = me_market_data_mode e,
        ob_raw_strategy_state = [(''n'', JInt (fs_revision s))]\<rparr>),
     ad_project = (\<lambda>ob. Inr \<lparr>pj_stage = ''TRIGGER_ARMED'', pj_outcome = ''INVALIDATED'', pj_reason_codes = [], pj_context_evidence = [],
        pj_setup_evidence = [], pj_trigger_evidence = []\<rparr>),
     ad_candidate_geometry = (\<lambda>_. Inr None)\<rparr>"

definition demo_event :: market_event where
  "demo_event = \<lparr>me_event_id = ''E'', me_event_type = ''BAR'', me_symbol = ''BTCUSD'', me_market = ''CRYPTO'', me_venue = None, me_timeframe = ''M15'',
     me_bar_open_time = 0, me_bar_close_time = 60, me_market_data_asof = 61, me_market_data_mode = ''REAL'', me_snapshot_fingerprint = None, me_source = ''F'',
     me_sequence_id = None\<rparr>"

definition demo_registry :: json where
  "demo_registry = JDict [(''strategies'', JDict [(''S'', JDict [(''registered'', JBool True), (''active'', JBool True)])])]"

definition demo_binding :: strategy_binding where
  "demo_binding = projr (resolve_strategy_binding demo_registry ''S'')"

definition demo_saving :: save_env where
  "demo_saving = \<lparr>tmp_written = True, replace_try = \<lambda>_. Replaced\<rparr>"

definition demo_cycles :: "cycle list" where
  "demo_cycles = [(demo_saving, demo_event, demo_binding, demo_funnel_adapter)]"

lemma demo_cycles_ok: "list_all cycle_ok demo_cycles"
  by (auto simp: demo_cycles_def adapter_ok_def demo_funnel_adapter_def funnel_event_ok_def check_event_def demo_event_def VALID_MARKET_DATA_MODES_def
    valid_datetime_def)

lemma demo_candidate:
  "case candidate_get (cycles demo_digest demo_cycles KvMissing) ''cand_c'' of
     Inr (Some c) \<Rightarrow> ca_revision c = 1 \<and> ca_stage c = ''TRIGGER_ARMED'' \<and> ca_outcome c = OUTCOME_INVALIDATED | _ \<Rightarrow> False"
  by code_simp

theorem funnel_history_linear_witness:
  "\<exists>ts. candidate_transitions (cycles demo_digest demo_cycles KvMissing) ''cand_c'' = Inr ts \<and> length ts = 1 \<and>
     linked (None, None) ts (Some ''TRIGGER_ARMED'', Some ''INVALIDATED'')"
proof -
  from demo_candidate obtain c where c: "candidate_get (cycles demo_digest demo_cycles KvMissing) ''cand_c'' = Inr (Some c)" "ca_revision c = 1"
    "ca_stage c = ''TRIGGER_ARMED''" "ca_outcome c = ''INVALIDATED''" by (auto simp: OUTCOME_INVALIDATED_def split: sum.splits option.splits)
  from funnel_history_linear [OF demo_cycles_ok c(1)] c show ?thesis by auto
qed

theorem terminal_candidate_final_witness:
  "\<exists>c. candidate_get (cycles demo_digest (demo_cycles @ demo_cycles) KvMissing) ''cand_c'' = Inr (Some c) \<and> ca_revision c = 1"
proof -
  from demo_candidate obtain c where c: "candidate_get (cycles demo_digest demo_cycles KvMissing) ''cand_c'' = Inr (Some c)" "ca_revision c = 1"
    "ca_outcome c = OUTCOME_INVALIDATED" by (auto split: sum.splits option.splits)
  from c(1) obtain ts where ts: "candidate_transitions (cycles demo_digest demo_cycles KvMissing) ''cand_c'' = Inr ts" by (rule stored_parts)
  have "list_all cycle_ok (demo_cycles @ demo_cycles)" using demo_cycles_ok by simp
  from terminal_candidate_final [OF this c(1) ts] c show ?thesis by (auto simp: TERMINAL_OUTCOMES_def)
qed

definition demo_ready_candidate :: candidate where
  "demo_ready_candidate = \<lparr>ca_candidate_id = ''c'', ca_occurrence_id = ''c'', ca_strategy_id = ''S'', ca_strategy_version = ''1'', ca_strategy_engine_version = None,
     ca_symbol = ''BTCUSD'', ca_market = ''CRYPTO'', ca_venue = None, ca_direction = Some ''LONG'', ca_detected_at = 60, ca_last_evaluated_at = 61, ca_expires_at = Some 100,
     ca_stage = ''ENTRY_CONFIRMED'', ca_outcome = ''ACTIVE'', ca_revision = 1, ca_raw_strategy_state = [], ca_context_evidence = [], ca_setup_evidence = [],
     ca_trigger_evidence = [], ca_geometry = Some \<lparr>ge_direction = Some ''LONG'', ge_entry = Some (Finite 100), ge_invalidation = Some (Finite 95), ge_targets = [Finite 110],
       ge_estimated_rr = None\<rparr>, ca_market_data_mode = ''REAL'', ca_data_lineage = None, ca_latest_transition_id = None\<rparr>"

theorem eligible_candidate_witness:
  "ed_status (evaluate_proposal_eligibility demo_ready_candidate demo_binding 70) = ''ELIGIBLE'' \<and>
   ed_status (evaluate_proposal_eligibility (demo_ready_candidate\<lparr>ca_market_data_mode := ''REPLAY''\<rparr>) demo_binding 70) \<noteq> ''ELIGIBLE''"
proof -
  have "\<not> isl (resolve_strategy_binding demo_registry ''S'')" by code_simp
  then have b: "resolve_strategy_binding demo_registry ''S'' = Inr demo_binding" unfolding demo_binding_def by (cases "resolve_strategy_binding demo_registry ''S''") auto
  have k: "check_candidate demo_ready_candidate = Inr ()" "check_candidate (demo_ready_candidate\<lparr>ca_market_data_mode := ''REPLAY''\<rparr>) = Inr ()" by code_simp+
  have "ed_status (evaluate_proposal_eligibility demo_ready_candidate demo_binding 70) = ''ELIGIBLE''" by code_simp
  moreover have "ed_status (evaluate_proposal_eligibility (demo_ready_candidate\<lparr>ca_market_data_mode := ''REPLAY''\<rparr>) demo_binding 70) \<noteq> ''ELIGIBLE''"
    using eligible_candidate [OF b k(2), of 70] by simp
  ultimately show ?thesis by blast
qed

end
