(* ===== verification/Lru_Cache.thy ===== *)
theory Lru_Cache
  imports Py_Data
begin

text \<open>
  The shared cache (src/src/shared\_cache): a bounded cache that evicts the least recently used entry, and
  the key of the derived facts. The ordered dictionary is the list of its items, oldest first; every
  operation runs under the lock of the cache as one step.
\<close>

section \<open>The bounded cache\<close>

record cache_diagnostics =
  cd_hits :: nat
  cd_misses :: nat
  cd_evictions :: nat
  cd_puts :: nat
  cd_size :: nat

record ('k, 'v) bounded_cache =
  bc_max_entries :: int
  bc_store :: "('k \<times> 'v) list"
  bc_diagnostics :: cache_diagnostics

definition no_diagnostics :: cache_diagnostics where
  "no_diagnostics = \<lparr>cd_hits = 0, cd_misses = 0, cd_evictions = 0, cd_puts = 0, cd_size = 0\<rparr>"

definition new_cache :: "int \<Rightarrow> ('k, 'v) bounded_cache res" where
  "new_cache m = (if m < 1 then Inl (ValueError ''max_entries must be >= 1'')
     else Inr \<lparr>bc_max_entries = m, bc_store = [], bc_diagnostics = no_diagnostics\<rparr>)"

definition remove_key :: "'k \<Rightarrow> ('k \<times> 'v) list \<Rightarrow> ('k \<times> 'v) list" where
  "remove_key k s = filter (\<lambda>p. fst p \<noteq> k) s"

definition move_to_end :: "'k \<Rightarrow> ('k \<times> 'v) list \<Rightarrow> ('k \<times> 'v) list" where
  "move_to_end k s = remove_key k s @ filter (\<lambda>p. fst p = k) s"

text \<open>Assignment to a key keeps the place of an entry that exists.\<close>

definition assign :: "'k \<Rightarrow> 'v \<Rightarrow> ('k \<times> 'v) list \<Rightarrow> ('k \<times> 'v) list" where
  "assign k v s = (if k \<in> fst ` set s then map (\<lambda>p. if fst p = k then (k, v) else p) s else s @ [(k, v)])"

text \<open>A read with an optional validity check, which may raise.\<close>

definition cache_get :: "'k \<Rightarrow> ('v \<Rightarrow> bool res) option \<Rightarrow> ('k, 'v) bounded_cache \<Rightarrow> ('k, 'v) bounded_cache \<times> 'v option res" where
  "cache_get k is_valid c =
     (let d = bc_diagnostics c
      in case map_of (bc_store c) k of
        None \<Rightarrow> (c\<lparr>bc_diagnostics := d\<lparr>cd_misses := cd_misses d + 1\<rparr>\<rparr>, Inr None)
      | Some v \<Rightarrow>
          (case (case is_valid of None \<Rightarrow> Inr True | Some p \<Rightarrow> p v) of
             Inl e \<Rightarrow> (c, Inl e)
           | Inr False \<Rightarrow>
               (let s = remove_key k (bc_store c)
                in (c\<lparr>bc_store := s, bc_diagnostics := d\<lparr>cd_misses := cd_misses d + 1, cd_size := length s\<rparr>\<rparr>, Inr None))
           | Inr True \<Rightarrow>
               (c\<lparr>bc_store := move_to_end k (bc_store c), bc_diagnostics := d\<lparr>cd_hits := cd_hits d + 1\<rparr>\<rparr>, Inr (Some v))))"

text \<open>The loop that pops the oldest entry while there are too many.\<close>

fun evict_loop :: "int \<Rightarrow> ('k \<times> 'v) list \<Rightarrow> nat \<Rightarrow> ('k \<times> 'v) list \<times> nat" where
  "evict_loop m [] n = ([], n)"
| "evict_loop m (p # s) n = (if m < int (length (p # s)) then evict_loop m s (n + 1) else (p # s, n))"

definition cache_put :: "'k \<Rightarrow> 'v \<Rightarrow> ('k, 'v) bounded_cache \<Rightarrow> ('k, 'v) bounded_cache" where
  "cache_put k v c =
     (let d = bc_diagnostics c; s = bc_store c;
          s1 = assign k v (if k \<in> fst ` set s then move_to_end k s else s)
      in case evict_loop (bc_max_entries c) s1 (cd_evictions d) of
           (s2, n) \<Rightarrow> c\<lparr>bc_store := s2, bc_diagnostics := d\<lparr>cd_puts := cd_puts d + 1, cd_evictions := n, cd_size := length s2\<rparr>\<rparr>)"

definition cache_clear :: "('k, 'v) bounded_cache \<Rightarrow> ('k, 'v) bounded_cache" where
  "cache_clear c = c\<lparr>bc_store := [], bc_diagnostics := no_diagnostics\<rparr>"

definition cache_report :: "('k, 'v) bounded_cache \<Rightarrow> ('k, 'v) bounded_cache \<times> cache_diagnostics" where
  "cache_report c = (let d = (bc_diagnostics c)\<lparr>cd_size := length (bc_store c)\<rparr> in (c\<lparr>bc_diagnostics := d\<rparr>, d))"

definition cache_len :: "('k, 'v) bounded_cache \<Rightarrow> nat" where
  "cache_len c = length (bc_store c)"

section \<open>Keys of derived facts\<close>

record 'p fact_key =
  fk_source_dataset_identity :: string
  fk_symbol :: string
  fk_timeframe :: string
  fk_closed_identity :: string
  fk_authority_definition_id :: string
  fk_feature_version :: string
  fk_parameters :: "(string \<times> 'p) list"

text \<open>The closed bar is given as a text or as an instant.\<close>

definition build_key :: "string \<Rightarrow> string \<Rightarrow> string \<Rightarrow> string + datetime \<Rightarrow> string \<Rightarrow> string \<Rightarrow> (string \<times> 'p) list \<Rightarrow> 'p fact_key res" where
  "build_key source sy timeframe bar definition_id version parameters =
     (let closed_identity = (case bar of Inl s \<Rightarrow> s | Inr t \<Rightarrow> iso_datetime t)
      in if source = [] then Inl (ValueError ''source_dataset_identity is required'')
         else if closed_identity = [] then Inl (ValueError ''closed_bar_identity is required'')
         else Inr \<lparr>fk_source_dataset_identity = source, fk_symbol = sy, fk_timeframe = timeframe, fk_closed_identity = closed_identity,
           fk_authority_definition_id = definition_id, fk_feature_version = version, fk_parameters = sort_key fst parameters\<rparr>)"

section \<open>Histories\<close>

datatype ('k, 'v) cache_op = Get 'k "('v \<Rightarrow> bool res) option" | Put 'k 'v | Clear | Report

fun cache_step :: "('k, 'v) cache_op \<Rightarrow> ('k, 'v) bounded_cache \<Rightarrow> ('k, 'v) bounded_cache" where
  "cache_step (Get k p) c = fst (cache_get k p c)"
| "cache_step (Put k v) c = cache_put k v c"
| "cache_step Clear c = cache_clear c"
| "cache_step Report c = fst (cache_report c)"

definition cache_run :: "('k, 'v) cache_op list \<Rightarrow> ('k, 'v) bounded_cache \<Rightarrow> ('k, 'v) bounded_cache" where
  "cache_run = fold cache_step"

text \<open>The specification: what the latest put gave each key since the last reset.\<close>

fun latest_step :: "('k, 'v) cache_op \<Rightarrow> ('k \<rightharpoonup> 'v) \<Rightarrow> ('k \<rightharpoonup> 'v)" where
  "latest_step (Put k v) m = m(k \<mapsto> v)"
| "latest_step Clear m = Map.empty"
| "latest_step _ m = m"

definition latest_puts :: "('k, 'v) cache_op list \<Rightarrow> 'k \<rightharpoonup> 'v" where
  "latest_puts ops = fold latest_step ops Map.empty"

definition cache_ok :: "('k, 'v) bounded_cache \<Rightarrow> bool" where
  "cache_ok c \<longleftrightarrow> 1 \<le> bc_max_entries c \<and> distinct (map fst (bc_store c)) \<and> int (length (bc_store c)) \<le> bc_max_entries c \<and>
     cd_size (bc_diagnostics c) = length (bc_store c)"

lemma keys_remove_key: "fst ` set (remove_key k s) = fst ` set s - {k}"
  by (auto simp: remove_key_def)

lemma distinct_remove_key: "distinct (map fst s) \<Longrightarrow> distinct (map fst (remove_key k s))"
  by (simp add: remove_key_def distinct_map_filter)

lemma map_of_remove_key: "map_of (remove_key k s) = (map_of s)(k := None)"
  by (induction s) (auto simp: remove_key_def fun_eq_iff)

lemma filter_key: "distinct (map fst s) \<Longrightarrow> map_of s k = Some v \<Longrightarrow> filter (\<lambda>p. fst p = k) s = [(k, v)]"
proof (induction s)
  case (Cons p s)
  have "k \<notin> fst ` set s \<Longrightarrow> filter (\<lambda>p. fst p = k) s = []" by (induction s) auto
  with Cons show ?case by (cases "fst p = k") (auto split: if_splits)
qed simp

lemma move_to_end_eq: "distinct (map fst s) \<Longrightarrow> map_of s k = Some v \<Longrightarrow> move_to_end k s = remove_key k s @ [(k, v)]"
  by (simp add: move_to_end_def filter_key)

lemma assign_end:
  assumes "distinct (map fst s)"
  shows "assign k v (if k \<in> fst ` set s then move_to_end k s else s) = remove_key k s @ [(k, v)]"
proof (cases "k \<in> fst ` set s")
  case True
  then obtain w where "map_of s k = Some w" by (metis map_of_eq_None_iff option.exhaust)
  moreover have "map (\<lambda>p. if fst p = k then (k, v) else p) (remove_key k s) = remove_key k s" by (auto simp: remove_key_def intro: map_idI)
  ultimately show ?thesis using move_to_end_eq [OF assms] True by (simp add: assign_def)
next
  case False
  then have "remove_key k s = s" by (auto simp: remove_key_def intro!: filter_True)
  with False show ?thesis by (simp add: assign_def)
qed

lemma evict_loop_eq: "0 \<le> m \<Longrightarrow> evict_loop m s n = (drop (length s - nat m) s, n + (length s - nat m))"
  by (induction s arbitrary: n) (auto simp: Suc_diff_le)

text \<open>What the store is after a put.\<close>

lemma put_store:
  assumes "cache_ok c"
  shows "bc_store (cache_put k v c) = (let s = remove_key k (bc_store c) @ [(k, v)] in drop (length s - nat (bc_max_entries c)) s)"
    "bc_max_entries (cache_put k v c) = bc_max_entries c" "cd_size (bc_diagnostics (cache_put k v c)) = length (bc_store (cache_put k v c))"
  using assms assign_end [of "bc_store c" k v]
  by (simp_all add: cache_put_def cache_ok_def Let_def evict_loop_eq split_beta)

lemma step_max: "bc_max_entries (cache_step op c) = bc_max_entries c"
  by (cases op) (auto simp: cache_get_def cache_put_def cache_clear_def cache_report_def Let_def split: option.split sum.split bool.split prod.split)

lemma distinct_end: "distinct (map fst s) \<Longrightarrow> distinct (map fst (remove_key k s @ [(k, v)]))"
  using keys_remove_key [of k s] by (auto simp: distinct_remove_key)

lemma map_of_end: "map_of (remove_key k s @ [(k, v)]) = (map_of s)(k \<mapsto> v)"
  by (auto simp: map_of_remove_key map_add_def fun_eq_iff split: option.split)

lemma length_remove_key: "length (remove_key k s) \<le> length s"
  by (simp add: remove_key_def)

lemma length_end: "distinct (map fst s) \<Longrightarrow> map_of s k = Some v \<Longrightarrow> length (remove_key k s @ [(k, v)]) = length s"
proof -
  assume d: "distinct (map fst s)" and m: "map_of s k = Some v"
  have "length (remove_key k s) + length (filter (\<lambda>p. fst p = k) s) = length s"
    using sum_length_filter_compl [of "\<lambda>p. fst p = k" s] by (simp add: remove_key_def add.commute)
  with filter_key [OF d m] show ?thesis by simp
qed

lemma get_cases:
  assumes "cache_ok c"
  obtains (same) "bc_store (fst (cache_get k p c)) = bc_store c" "\<And>v. snd (cache_get k p c) = Inr (Some v) \<Longrightarrow> False"
      "cd_size (bc_diagnostics (fst (cache_get k p c))) = cd_size (bc_diagnostics c)"
  | (stale) v q where "map_of (bc_store c) k = Some v" "p = Some q" "q v = Inr False" "bc_store (fst (cache_get k p c)) = remove_key k (bc_store c)"
      "snd (cache_get k p c) = Inr None" "cd_size (bc_diagnostics (fst (cache_get k p c))) = length (remove_key k (bc_store c))"
  | (hit) v where "map_of (bc_store c) k = Some v" "\<And>q. p = Some q \<Longrightarrow> q v = Inr True" "bc_store (fst (cache_get k p c)) = remove_key k (bc_store c) @ [(k, v)]"
      "snd (cache_get k p c) = Inr (Some v)" "cd_size (bc_diagnostics (fst (cache_get k p c))) = cd_size (bc_diagnostics c)"
proof (cases "map_of (bc_store c) k")
  case None
  then show thesis using same by (simp add: cache_get_def Let_def)
next
  case (Some v)
  have m: "move_to_end k (bc_store c) = remove_key k (bc_store c) @ [(k, v)]" using assms Some by (intro move_to_end_eq) (simp_all add: cache_ok_def)
  show thesis
  proof (cases "case p of None \<Rightarrow> Inr True | Some q \<Rightarrow> q v")
    case (Inl e)
    then show thesis using same Some by (simp add: cache_get_def Let_def)
  next
    case (Inr b)
    show thesis
    proof (cases b)
      case True
      with Inr Some m show thesis using hit [of v] by (cases p) (simp_all add: cache_get_def Let_def)
    next
      case False
      with Inr Some show thesis using stale [of v "the p"] by (cases p) (simp_all add: cache_get_def Let_def)
    qed
  qed
qed

lemma step_ok:
  assumes "cache_ok c"
  shows "cache_ok (cache_step op c)"
proof (cases op)
  case (Get k p)
  have m: "bc_max_entries (fst (cache_get k p c)) = bc_max_entries c" using step_max [of "Get k p" c] by simp
  show ?thesis
  proof (cases rule: get_cases [OF assms, of k p])
    case 1
    with Get m assms show ?thesis by (simp add: cache_ok_def)
  next
    case (2 v q)
    with Get m assms length_remove_key [of k "bc_store c"] show ?thesis by (simp add: cache_ok_def distinct_remove_key)
  next
    case (3 v)
    have "distinct (map fst (remove_key k (bc_store c) @ [(k, v)]))" using assms by (intro distinct_end) (simp add: cache_ok_def)
    with 3 Get m assms length_end [of "bc_store c" k v] show ?thesis by (simp add: cache_ok_def)
  qed
next
  case (Put k v)
  let ?s = "remove_key k (bc_store c) @ [(k, v)]"
  have "distinct (map fst ?s)" using assms by (intro distinct_end) (simp add: cache_ok_def)
  then have d: "distinct (map fst (drop n ?s))" for n by (metis distinct_drop drop_map)
  have s: "bc_store (cache_put k v c) = drop (length ?s - nat (bc_max_entries c)) ?s" by (simp only: put_store [OF assms] Let_def)
  have "length (bc_store (cache_put k v c)) \<le> nat (bc_max_entries c)" unfolding s length_drop by linarith
  moreover have "distinct (map fst (bc_store (cache_put k v c)))" unfolding s by (rule d)
  moreover have "1 \<le> bc_max_entries c" using assms by (simp add: cache_ok_def)
  ultimately show ?thesis unfolding Put cache_step.simps cache_ok_def put_store(2,3) [OF assms, of k v] by simp
qed (use assms in \<open>auto simp: cache_ok_def cache_clear_def cache_report_def no_diagnostics_def Let_def\<close>)

lemma run_ok: "cache_ok c \<Longrightarrow> cache_ok (cache_run ops c)"
  by (induction ops arbitrary: c) (simp_all add: cache_run_def step_ok)

lemma run_max: "bc_max_entries (cache_run ops c) = bc_max_entries c"
  by (induction ops arbitrary: c) (simp_all add: cache_run_def step_max)

lemma new_cache_ok: "new_cache m = Inr c \<Longrightarrow> cache_ok c \<and> bc_max_entries c = m \<and> bc_store c = []"
  by (auto simp: new_cache_def cache_ok_def no_diagnostics_def split: if_splits)

lemma map_of_drop:
  assumes "distinct (map fst s)"
  shows "map_of (drop n s) \<subseteq>\<^sub>m map_of s"
proof -
  have "distinct (map fst (drop n s))" using assms by (metis distinct_drop drop_map)
  then have "map_of (drop n s) k = Some v \<Longrightarrow> map_of s k = Some v" for k v using assms by (meson in_set_dropD map_of_eq_Some_iff)
  then show ?thesis by (fastforce simp: map_le_def)
qed

text \<open>The store is always a part of the map of the latest puts.\<close>

lemma step_latest:
  assumes "cache_ok c" "map_of (bc_store c) \<subseteq>\<^sub>m m"
  shows "map_of (bc_store (cache_step op c)) \<subseteq>\<^sub>m latest_step op m"
proof (cases op)
  case (Get k p)
  show ?thesis
  proof (cases rule: get_cases [OF assms(1), of k p])
    case (2 v q)
    with Get assms(2) show ?thesis by (auto simp: map_of_remove_key map_le_def)
  next
    case (3 v)
    with Get assms(2) show ?thesis by (simp add: map_of_end fun_upd_idem del: map_of_append)
  qed (use Get assms in simp)
next
  case (Put k v)
  let ?s = "remove_key k (bc_store c) @ [(k, v)]"
  have d: "distinct (map fst ?s)" using assms by (intro distinct_end) (simp add: cache_ok_def)
  have "map_of (drop n ?s) \<subseteq>\<^sub>m map_of ?s" for n by (rule map_of_drop [OF d])
  moreover have "map_of ?s \<subseteq>\<^sub>m m(k \<mapsto> v)" unfolding map_of_end using assms(2) by (auto simp: map_le_def)
  ultimately show ?thesis unfolding Put cache_step.simps latest_step.simps put_store(1) [OF assms(1)] Let_def by (blast intro: map_le_trans)
qed (use assms in \<open>simp_all add: cache_clear_def cache_report_def Let_def\<close>)

lemma run_latest: "cache_ok c \<Longrightarrow> map_of (bc_store c) \<subseteq>\<^sub>m m \<Longrightarrow> map_of (bc_store (cache_run ops c)) \<subseteq>\<^sub>m fold latest_step ops m"
  by (induction ops arbitrary: c m) (simp_all add: cache_run_def step_ok step_latest)

text \<open>C35. The cache refines the map of the latest puts since the last reset: after any operations a read returns
  nothing or exactly the value that was put last for the key, and only a value its validity check accepts;
  and the cache never holds more entries than its maximum, each key once.
\<close>

theorem cache_refines_latest:
  assumes "new_cache m = Inr c"
  shows "map_of (bc_store (cache_run ops c)) \<subseteq>\<^sub>m latest_puts ops \<and> int (cache_len (cache_run ops c)) \<le> m \<and>
    distinct (map fst (bc_store (cache_run ops c))) \<and>
    (\<forall>k p v. snd (cache_get k p (cache_run ops c)) = Inr (Some v) \<longrightarrow> latest_puts ops k = Some v \<and> (\<forall>q. p = Some q \<longrightarrow> q v = Inr True))"
proof (intro conjI allI impI)
  let ?c = "cache_run ops c"
  have c: "cache_ok c" "bc_max_entries c = m" "bc_store c = []" using new_cache_ok [OF assms] by blast+
  have ok: "cache_ok ?c" by (rule run_ok [OF c(1)])
  then show "int (cache_len ?c) \<le> m" "distinct (map fst (bc_store ?c))" using run_max [of ops c] c(2) by (simp_all add: cache_ok_def cache_len_def)
  show le: "map_of (bc_store ?c) \<subseteq>\<^sub>m latest_puts ops" unfolding latest_puts_def using c by (intro run_latest) simp_all
  fix k p v
  assume g: "snd (cache_get k p ?c) = Inr (Some v)"
  show "latest_puts ops k = Some v" "\<And>q. p = Some q \<Longrightarrow> q v = Inr True"
    using g le by (cases rule: get_cases [OF ok, of k p]; auto simp: map_le_def dom_def)+
qed

text \<open>The entry of a key while other keys are used: everything after it was used since.\<close>

definition kept_since :: "'k \<Rightarrow> 'v \<Rightarrow> 'k set \<Rightarrow> ('k \<times> 'v) list \<Rightarrow> bool" where
  "kept_since k v T s \<longleftrightarrow> (\<exists>pre post. s = pre @ (k, v) # post \<and> fst ` set post \<subseteq> T)"

fun touches :: "('k, 'v) cache_op \<Rightarrow> 'k set" where
  "touches (Get k _) = {k}"
| "touches (Put k _) = {k}"
| "touches _ = {}"

fun harmless :: "'k \<Rightarrow> 'v \<Rightarrow> ('k, 'v) cache_op \<Rightarrow> bool" where
  "harmless k v (Get k' p) \<longleftrightarrow> k' = k \<longrightarrow> (\<forall>q. p = Some q \<longrightarrow> q v \<noteq> Inr False)"
| "harmless k v (Put k' w) \<longleftrightarrow> k' \<noteq> k"
| "harmless k v Clear \<longleftrightarrow> False"
| "harmless k v Report \<longleftrightarrow> True"

lemma kept_mono: "kept_since k v T s \<Longrightarrow> T \<subseteq> T' \<Longrightarrow> kept_since k v T' s"
  unfolding kept_since_def by blast

lemma kept_end: "kept_since k v T (s @ [(k, v)])"
  unfolding kept_since_def by (intro exI [of _ s] exI [of _ "[]"]) simp

lemma kept_remove: "kept_since k v T s \<Longrightarrow> k' \<noteq> k \<Longrightarrow> kept_since k v (insert k' T) (remove_key k' s @ [(k', w)])"
proof -
  assume "kept_since k v T s" "k' \<noteq> k"
  then obtain pre post where "remove_key k' s @ [(k', w)] = remove_key k' pre @ (k, v) # (remove_key k' post @ [(k', w)])" "fst ` set post \<subseteq> T"
    by (auto simp: kept_since_def remove_key_def)
  moreover have "fst ` set (remove_key k' post @ [(k', w)]) \<subseteq> insert k' T" using \<open>fst ` set post \<subseteq> T\<close> by (auto simp: remove_key_def)
  ultimately show ?thesis unfolding kept_since_def by blast
qed

lemma kept_drop:
  assumes "kept_since k v T s" "distinct (map fst s)" "finite T" "k \<notin> T" "card T < m"
  shows "kept_since k v T (drop (length s - m) s)"
proof -
  obtain pre post where s: "s = pre @ (k, v) # post" "fst ` set post \<subseteq> T" using assms(1) by (auto simp: kept_since_def)
  have "length post = card (fst ` set post)" using assms(2) s(1) distinct_card [of "map fst post"] by simp
  also have "\<dots> \<le> card T" by (rule card_mono [OF assms(3) s(2)])
  finally have "length s - m \<le> length pre" using s(1) assms(5) by simp
  then have "drop (length s - m) s = drop (length s - m) pre @ (k, v) # post" using s(1) by simp
  with s(2) show ?thesis unfolding kept_since_def by blast
qed

lemma kept_step:
  assumes c: "cache_ok c" and k: "kept_since k v T (bc_store c)" and h: "harmless k v op"
    and T: "finite T" "k \<notin> T" "card (T \<union> (touches op - {k})) < nat (bc_max_entries c)"
  shows "kept_since k v (T \<union> (touches op - {k})) (bc_store (cache_step op c))"
proof (cases op)
  case (Get k' p)
  have d: "distinct (map fst (bc_store c))" using c by (simp add: cache_ok_def)
  have kv: "map_of (bc_store c) k = Some v" using k d by (auto simp: kept_since_def)
  show ?thesis
  proof (cases rule: get_cases [OF c, of k' p])
    case 1
    with Get kept_mono [OF k] show ?thesis by simp
  next
    case (2 w q)
    then have "k' \<noteq> k" using h Get kv by auto
    obtain pre post where "bc_store c = pre @ (k, v) # post" "fst ` set post \<subseteq> T" using k by (auto simp: kept_since_def)
    then have "remove_key k' (bc_store c) = remove_key k' pre @ (k, v) # remove_key k' post" "fst ` set (remove_key k' post) \<subseteq> T"
      using \<open>k' \<noteq> k\<close> by (auto simp: remove_key_def)
    then have "kept_since k v T (remove_key k' (bc_store c))" unfolding kept_since_def by blast
    from kept_mono [OF this] show ?thesis using 2 Get by simp
  next
    case (3 w)
    show ?thesis
    proof (cases "k' = k")
      case True
      then show ?thesis using 3 Get kv kept_end by simp
    next
      case False
      then show ?thesis using kept_remove [OF k False, of w] 3 Get by simp
    qed
  qed
next
  case (Put k' w)
  then have n: "k' \<noteq> k" using h by simp
  let ?s = "remove_key k' (bc_store c) @ [(k', w)]"
  have "distinct (map fst ?s)" using c by (intro distinct_end) (simp add: cache_ok_def)
  from kept_drop [OF kept_remove [OF k n] this, of "nat (bc_max_entries c)"] T n Put put_store(1) [OF c, of k' w] show ?thesis
    by (simp add: Let_def)
qed (use k h in \<open>simp_all add: cache_report_def Let_def\<close>)

lemma kept_run:
  assumes "cache_ok c" "kept_since k v T (bc_store c)" "list_all (harmless k v) ops" "finite T" "k \<notin> T"
    "card (T \<union> (\<Union> (touches ` set ops) - {k})) < nat (bc_max_entries c)"
  shows "\<exists>T'. kept_since k v T' (bc_store (cache_run ops c))"
  using assms
proof (induction ops arbitrary: c T)
  case Nil
  then show ?case by (auto simp: cache_run_def)
next
  case (Cons op ops)
  let ?T = "T \<union> (touches op - {k})"
  have fin: "finite (touches x)" for x :: "('a, 'b) cache_op" by (cases x) auto
  have "card ?T \<le> card (T \<union> (\<Union> (touches ` set (op # ops)) - {k}))" using Cons.prems(4) fin by (intro card_mono) auto
  then have k: "kept_since k v ?T (bc_store (cache_step op c))"
    using Cons.prems by (intro kept_step) auto
  have "?T \<union> (\<Union> (touches ` set ops) - {k}) = T \<union> (\<Union> (touches ` set (op # ops)) - {k})" by auto
  then show ?case using Cons.IH [OF step_ok [OF Cons.prems(1)] k] Cons.prems fin step_max [of op c] by (auto simp: cache_run_def)
qed

text \<open>C34. An entry is not evicted while fewer than the maximum of other keys are used: after a put, any operations
  that do not replace, reject or reset it and that use fewer than the maximum of other keys leave it
  readable.
\<close>

theorem lru_survives:
  assumes "new_cache m = Inr c" "list_all (harmless k v) ops" "int (card (\<Union> (touches ` set ops) - {k})) < m"
  shows "snd (cache_get k None (cache_run ops (cache_put k v (cache_run before c)))) = Inr (Some v)"
proof -
  let ?c = "cache_run before c" and ?d = "cache_put k v (cache_run before c)"
  have c: "cache_ok ?c" "bc_max_entries ?c = m" "1 \<le> m" using new_cache_ok [OF assms(1)] run_ok run_max [of before c] by (auto simp: cache_ok_def)
  have d: "cache_ok ?d" "bc_max_entries ?d = m" using step_ok [OF c(1), of "Put k v"] step_max [of "Put k v" ?c] c(2) by simp_all
  have "kept_since k v {} (remove_key k (bc_store ?c) @ [(k, v)])" by (rule kept_end)
  then have "kept_since k v {} (bc_store ?d)" unfolding put_store(1) [OF c(1)] Let_def
    using c by (intro kept_drop distinct_end) (simp_all add: cache_ok_def)
  moreover have "card ({} \<union> (\<Union> (touches ` set ops) - {k})) < nat (bc_max_entries ?d)" using assms(3) d(2) by simp
  ultimately obtain T where "kept_since k v T (bc_store (cache_run ops ?d))"
    using kept_run [OF d(1) _ assms(2), of "{}"] by auto
  moreover have "distinct (map fst (bc_store (cache_run ops ?d)))" using run_ok [OF d(1)] by (simp add: cache_ok_def)
  ultimately have "map_of (bc_store (cache_run ops ?d)) k = Some v" by (auto simp: kept_since_def)
  then show ?thesis by (simp add: cache_get_def Let_def)
qed

definition demo_cache_ops :: "(string, nat) cache_op list" where
  "demo_cache_ops = [Get ''b'' None, Put ''c'' 3, Get ''a'' (Some (\<lambda>v. Inr (v = 1))), Report]"

theorem cache_refines_latest_witness:
  "\<exists>c. new_cache 2 = Inr c \<and> snd (cache_get ''b'' None (cache_run [Put ''a'' 1, Put ''b'' (2 :: nat), Put ''b'' 4] c)) = Inr (Some 4) \<and>
     latest_puts [Put ''a'' 1, Put ''b'' (2 :: nat), Put ''b'' 4] ''b'' = Some 4"
proof -
  obtain c :: "(string, nat) bounded_cache" where c: "new_cache 2 = Inr c" by (simp add: new_cache_def)
  have "snd (cache_get ''b'' None (cache_run [Put ''a'' 1, Put ''b'' (2 :: nat), Put ''b'' 4] (projr (new_cache 2)))) = Inr (Some 4)" by code_simp
  then have g: "snd (cache_get ''b'' None (cache_run [Put ''a'' 1, Put ''b'' (2 :: nat), Put ''b'' 4] c)) = Inr (Some 4)" by (simp add: c)
  with cache_refines_latest [OF c, of "[Put ''a'' 1, Put ''b'' 2, Put ''b'' 4]"] c show ?thesis by blast
qed

theorem lru_survives_witness:
  "\<exists>c. new_cache 3 = Inr c \<and> snd (cache_get ''a'' None (cache_run demo_cache_ops (cache_put ''a'' 1 (cache_run [Put ''b'' 2] c)))) = Inr (Some 1)"
proof -
  obtain c :: "(string, nat) bounded_cache" where c: "new_cache 3 = Inr c" by (simp add: new_cache_def)
  have h: "list_all (harmless ''a'' 1) demo_cache_ops" by (simp add: demo_cache_ops_def)
  have "\<Union> (touches ` set demo_cache_ops) - {''a''} = {''b'', ''c''}" by (auto simp: demo_cache_ops_def)
  then have "int (card (\<Union> (touches ` set demo_cache_ops) - {''a''})) < 3" by simp
  from lru_survives [OF c h this, of "[Put ''b'' 2]"] c show ?thesis by blast
qed

end
