(* ===== verification/Report_Archive.thy ===== *)
theory Report_Archive
  imports Delivery
begin

text \<open>
  The report archive (src/src/post\_asian\_pilot/report\_archive.py) and the archive of cycle decisions
  that uses it before any delivery (src/src/ticket\_delivery/archive.py). The archive is the list of its
  files; reports are JSON objects. The search for a free correction number is a loop over the files, and
  it ends because a correction path determines its number.
\<close>

section \<open>Files\<close>

text \<open>A file holds a JSON value or bytes that do not parse.\<close>

datatype archive_file = Garbled | Archived json

type_synonym archive = "(string \<times> archive_file) list"

text \<open>The file system during one call: whether the file could be read, whether the temporary file could
  be written and moved, and the clock.\<close>

record archive_env =
  ae_readable :: bool
  ae_written :: bool
  ae_now :: datetime

text \<open>Equality of JSON values in Python: numbers are compared by value, dictionaries without order.\<close>

fun py_norm :: "json \<Rightarrow> json" where
  "py_norm (JBool b) = JFloat (if b then 1 else 0)"
| "py_norm (JInt i) = JFloat (of_int i)"
| "py_norm (JList xs) = JList (map py_norm xs)"
| "py_norm (JDict d) = JDict (sort_key fst (map (\<lambda>(k, v). (k, py_norm v)) d))"
| "py_norm v = v"

definition py_equal :: "json \<Rightarrow> json \<Rightarrow> bool" where
  "py_equal a b \<longleftrightarrow> py_norm a = py_norm b"

definition content_key :: "json \<Rightarrow> json res" where
  "content_key v =
     (case v of JDict d \<Rightarrow> Inr (JDict (ddel ''generated_at_utc'' d)) | JList _ \<Rightarrow> Inl TypeError | _ \<Rightarrow> Inl AttributeError)"

definition atomic_write :: "archive_env \<Rightarrow> string \<Rightarrow> json \<Rightarrow> archive \<Rightarrow> archive \<times> unit res" where
  "atomic_write env p v fs = (if ae_written env then (dput p (Archived (canon v)) fs, Inr ()) else (fs, Inl OSError))"

text \<open>A missing file and a file holding \<open>null\<close> both read as \<open>None\<close>.\<close>

definition read_report :: "archive_env \<Rightarrow> string \<Rightarrow> archive \<Rightarrow> json option res" where
  "read_report env p fs =
     (case map_of fs p of
        None \<Rightarrow> Inr None
      | Some x \<Rightarrow>
          if \<not> ae_readable env then Inl OSError
          else case x of
            Garbled \<Rightarrow> Inl (ValueError ''JSONDecodeError'')
          | Archived v \<Rightarrow> Inr (if v = JNull then None else Some v))"

section \<open>Paths\<close>

definition SLASH :: char where "SLASH = CHR ''/''"

text \<open>\<open>os.path.join\<close> and \<open>os.path.dirname\<close>.\<close>

definition path_join :: "string \<Rightarrow> string \<Rightarrow> string" where
  "path_join a b =
     (if b \<noteq> [] \<and> hd b = SLASH then b else if a = [] \<or> last a = SLASH then a @ b else a @ SLASH # b)"

definition dirname :: "string \<Rightarrow> string" where
  "dirname p =
     (let h = rev (dropWhile (\<lambda>c. c \<noteq> SLASH) (rev p))
      in if list_ex (\<lambda>c. c \<noteq> SLASH) h then rev (dropWhile (\<lambda>c. c = SLASH) (rev h)) else h)"

definition year_text :: "date \<Rightarrow> string" where
  "year_text n = dec_text (nat (fst (ord2ymd n)))"

definition archive_path :: "string \<Rightarrow> date \<Rightarrow> string \<Rightarrow> string" where
  "archive_path report_type trading_date root_dir =
     path_join (path_join (path_join root_dir report_type) (year_text trading_date)) (iso_date trading_date @ ''.json'')"

definition correction_path :: "string \<Rightarrow> string \<Rightarrow> nat \<Rightarrow> string" where
  "correction_path directory stem n = path_join directory (stem @ ''.correction-'' @ text_03d (int n) @ ''.json'')"

text \<open>The digits of a number determine it.\<close>

definition digits_value :: "string \<Rightarrow> nat" where
  "digits_value s = foldl (\<lambda>a c. a * 10 + (case char_digit c of None \<Rightarrow> 0 | Some d \<Rightarrow> d)) 0 s"

lemma digits_value_snoc: "digits_value (s @ [digit_char d]) = digits_value s * 10 + d mod 10"
  by (simp add: digits_value_def)

lemma digits_value_pad: "digits_value (pad k n) = n mod 10 ^ k"
proof (induction k arbitrary: n)
  case (Suc k)
  have "n mod 10 ^ Suc k = n div 10 mod 10 ^ k * 10 + n mod 10"
    using mod_mult2_eq [of n 10 "10 ^ k"] by simp
  with Suc show ?case by (simp add: digits_value_snoc)
qed (simp add: digits_value_def)

lemma digits_value_dec_text: "digits_value (dec_text n) = n"
proof (induction n rule: dec_text.induct)
  case (1 n)
  have one: "digits_value [digit_char n] = n mod 10" using digits_value_snoc [of "[]" n] by (simp add: digits_value_def)
  show ?case
  proof (cases "n < 10")
    case True
    then show ?thesis using one by (subst dec_text.simps) simp
  next
    case False
    then show ?thesis using 1 by (subst dec_text.simps) (simp add: digits_value_snoc)
  qed
qed

lemma text_03d_inj: "text_03d (int m) = text_03d (int n) \<Longrightarrow> m = n"
proof -
  have "digits_value (text_03d (int k)) = k" for k
    by (simp add: text_03d_def digits_value_pad digits_value_dec_text)
  then show "text_03d (int m) = text_03d (int n) \<Longrightarrow> m = n" by metis
qed

lemma path_join_inj: "path_join a (s @ x) = path_join a (s @ y) \<Longrightarrow> s \<noteq> [] \<Longrightarrow> x = y"
  by (auto simp: path_join_def split: if_splits)

lemma correction_path_inj:
  assumes "stem \<noteq> []" "correction_path directory stem m = correction_path directory stem n"
  shows "m = n"
  using path_join_inj [OF assms(2) [unfolded correction_path_def] assms(1)] text_03d_inj by simp

section \<open>Writing a report\<close>

text \<open>The loop \<open>while os.path.exists(...): n += 1\<close>.\<close>

function free_correction :: "archive \<Rightarrow> string \<Rightarrow> date \<Rightarrow> nat \<Rightarrow> nat" where
  "free_correction fs directory day n =
     (if map_of fs (correction_path directory (iso_date day) n) = None then n else free_correction fs directory day (Suc n))"
  by auto

lemma iso_date_ne [simp]: "iso_date n \<noteq> []"
  using length_iso_date [of n] by (cases "iso_date n") auto

definition later_corrections :: "archive \<Rightarrow> string \<Rightarrow> date \<Rightarrow> nat \<Rightarrow> string set" where
  "later_corrections fs directory day n = {p \<in> dom (map_of fs). \<exists>m \<ge> n. p = correction_path directory (iso_date day) m}"

lemma later_corrections_less:
  assumes "map_of fs (correction_path directory (iso_date day) n) \<noteq> None"
  shows "card (later_corrections fs directory day (Suc n)) < card (later_corrections fs directory day n)"
proof (rule psubset_card_mono)
  show "finite (later_corrections fs directory day n)"
    by (rule finite_subset [OF _ finite_dom_map_of]) (auto simp: later_corrections_def)
  let ?p = "correction_path directory (iso_date day) n"
  have "?p \<in> later_corrections fs directory day n" using assms by (auto simp: later_corrections_def)
  moreover have "?p \<notin> later_corrections fs directory day (Suc n)"
    by (auto simp: later_corrections_def dest: correction_path_inj [rotated])
  ultimately show "later_corrections fs directory day (Suc n) \<subset> later_corrections fs directory day n"
    by (auto simp: later_corrections_def intro: Suc_leD)
qed

termination free_correction
  by (relation "measure (\<lambda>(fs, directory, day, n). card (later_corrections fs directory day n))")
     (auto intro: later_corrections_less)

declare free_correction.simps [simp del]

definition correction_json :: "string \<Rightarrow> string option \<Rightarrow> datetime \<Rightarrow> string \<Rightarrow> (string \<times> json) list \<Rightarrow> json" where
  "correction_json base_path correction_reason now supersedes report = JDict
     [(''original_record_identity'', JStr base_path),
      (''correction_reason'', JStr (case or_text correction_reason None of None \<Rightarrow> ''REGENERATED_WITH_DIFFERENT_CONTENT'' | Some r \<Rightarrow> r)),
      (''corrected_at'', JStr (iso_datetime now)), (''supersedes'', JStr supersedes), (''new_record'', JDict report)]"

definition write_correction ::
  "archive_env \<Rightarrow> string \<Rightarrow> date \<Rightarrow> string option \<Rightarrow> (string \<times> json) list \<Rightarrow> archive \<Rightarrow> archive \<times> string res" where
  "write_correction env base_path trading_date correction_reason report fs =
     (let directory = dirname base_path; stem = iso_date trading_date;
          n = free_correction fs directory trading_date 1;
          p = correction_path directory stem n;
          supersedes = (if n = 1 then base_path else correction_path directory stem (n - 1))
      in case atomic_write env p (correction_json base_path correction_reason (ae_now env) supersedes report) fs of
           (fs', Inl e) \<Rightarrow> (fs', Inl e) | (fs', Inr _) \<Rightarrow> (fs', Inr p))"

definition write_report ::
  "archive_env \<Rightarrow> string \<Rightarrow> date \<Rightarrow> (string \<times> json) list \<Rightarrow> string \<Rightarrow> string option \<Rightarrow> archive \<Rightarrow> archive \<times> string res" where
  "write_report env report_type trading_date report root_dir correction_reason fs =
     (let base_path = archive_path report_type trading_date root_dir
      in case read_report env base_path fs of
           Inl e \<Rightarrow> (fs, Inl e)
         | Inr None \<Rightarrow>
             (case atomic_write env base_path (JDict report) fs of (fs', Inl e) \<Rightarrow> (fs', Inl e) | (fs', Inr _) \<Rightarrow> (fs', Inr base_path))
         | Inr (Some existing) \<Rightarrow>
             (case content_key existing of
                Inl e \<Rightarrow> (fs, Inl e)
              | Inr k \<Rightarrow>
                  if py_equal k (JDict (ddel ''generated_at_utc'' report)) then (fs, Inr base_path)
                  else write_correction env base_path trading_date correction_reason report fs))"

section \<open>Cycle decisions\<close>

definition VALID_CYCLE_STATES :: "string list" where
  "VALID_CYCLE_STATES = [''READY'', ''WATCH'', ''NO_TRADE'', ''DATA_ERROR'', ''BLOCKED'']"

record cycle_decision =
  cd_strategy_id :: string
  cd_strategy_version :: string
  cd_application_release :: string
  cd_symbol :: string
  cd_cycle :: string
  cd_trading_date :: date
  cd_cycle_state :: string
  cd_evaluation_time_utc :: string
  cd_payload :: "(string \<times> json) list"
  cd_reason_codes :: "string list"

definition check_decision :: "cycle_decision \<Rightarrow> cycle_decision res" where
  "check_decision r = (if cd_cycle_state r \<in> set VALID_CYCLE_STATES then Inr r else Inl (ValueError ''cycle_state''))"

definition decision_ticket_id :: "cycle_decision \<Rightarrow> string res" where
  "decision_ticket_id r = logical_ticket_id (cd_strategy_id r) (cd_strategy_version r) (cd_symbol r) (cd_cycle r) (cd_trading_date r)"

definition decision_json :: "cycle_decision \<Rightarrow> string \<Rightarrow> (string \<times> json) list" where
  "decision_json r tid =
     [(''strategy_id'', JStr (cd_strategy_id r)), (''strategy_version'', JStr (cd_strategy_version r)),
      (''application_release'', JStr (cd_application_release r)), (''symbol'', JStr (cd_symbol r)), (''cycle'', JStr (cd_cycle r)),
      (''trading_date'', JStr (iso_date (cd_trading_date r))), (''cycle_state'', JStr (cd_cycle_state r)),
      (''evaluation_time_utc'', JStr (cd_evaluation_time_utc r)), (''payload'', JDict (cd_payload r)),
      (''reason_codes'', JList (map JStr (cd_reason_codes r))), (''logical_ticket_id'', JStr tid)]"

definition to_archive_dict :: "cycle_decision \<Rightarrow> (string \<times> json) list res" where
  "to_archive_dict r = res_bind (decision_ticket_id r) (\<lambda>tid. Inr (decision_json r tid))"

definition decision_report_type :: "string \<Rightarrow> string \<Rightarrow> string \<Rightarrow> string" where
  "decision_report_type strategy_id sy cycle = ''fx_ticket_archive/'' @ strategy_id @ SLASH # sy @ SLASH # cycle"

definition ARCHIVE_UNAVAILABLE :: py_error where
  "ARCHIVE_UNAVAILABLE = RuntimeError ''ARCHIVE_UNAVAILABLE: failed to persist cycle decision''"

definition archive_cycle_decision ::
  "archive_env \<Rightarrow> cycle_decision \<Rightarrow> string \<Rightarrow> string option \<Rightarrow> archive \<Rightarrow> archive \<times> string res" where
  "archive_cycle_decision env r root_dir correction_reason fs =
     (case to_archive_dict r of
        Inl e \<Rightarrow> (fs, Inl e)
      | Inr report \<Rightarrow>
          (case write_report env (decision_report_type (cd_strategy_id r) (cd_symbol r) (cd_cycle r)) (cd_trading_date r) report root_dir correction_reason fs of
             (fs', Inl OSError) \<Rightarrow> (fs', Inl ARCHIVE_UNAVAILABLE)
           | x \<Rightarrow> x))"

end
