(* ===== verification/Archive_Safety.thy ===== *)
theory Archive_Safety
  imports Report_Archive
begin

text \<open>
  What the report archive promises: an archived file is never changed, the corrections of a report are
  numbered without gaps and each names the record it supersedes, and a decision whose archiving returned
  is in the archive under the returned path from then on.
\<close>

section \<open>Comparing contents\<close>

lemma insort_keys: "(\<And>p. fst (f p) = fst p) \<Longrightarrow> map f (insort_key fst x xs) = insort_key fst (f x) (map f xs)"
  by (induction xs) auto

lemma sort_keys_map: "(\<And>p. fst (f p) = fst p) \<Longrightarrow> map f (sort_key fst xs) = sort_key fst (map f xs)"
  by (induction xs) (simp_all add: insort_keys)

lemma py_norm_canon [simp]: "py_norm (canon v) = py_norm v"
proof (induction v rule: canon.induct)
  case (2 d)
  let ?c = "\<lambda>(k, v). (k, canon v)" and ?n = "\<lambda>(k, v). (k, py_norm v)"
  have "map ?n (map ?c d) = map ?n d" using 2 by fastforce
  moreover have "map ?n (sort_key fst (map ?c d)) = sort_key fst (map ?n (map ?c d))"
    by (rule sort_keys_map) auto
  moreover have "sort_key fst (sort_key fst (map ?n d)) = sort_key fst (map ?n d)"
    by (rule sort_key_id_if_sorted) simp
  ultimately show ?case by (simp only: canon.simps py_norm.simps)
qed auto

text \<open>Writing a report and dropping its time stamp commute.\<close>

lemma ddel_sorted: "ddel k (sort_key fst (map (\<lambda>(k, v). (k, canon v)) d)) = sort_key fst (map (\<lambda>(k, v). (k, canon v)) (ddel k d))"
proof -
  have "filter (\<lambda>p. fst p \<noteq> k) (map (\<lambda>(k, v). (k, canon v)) d) = map (\<lambda>(k, v). (k, canon v)) (filter (\<lambda>p. fst p \<noteq> k) d)"
    by (induction d) auto
  then show ?thesis by (simp add: ddel_def filter_sort)
qed

section \<open>Paths\<close>

definition report_dir :: "string \<Rightarrow> date \<Rightarrow> string \<Rightarrow> string" where
  "report_dir ty day root_dir = path_join (path_join root_dir ty) (year_text day)"

definition correction_at :: "string \<Rightarrow> date \<Rightarrow> string \<Rightarrow> nat \<Rightarrow> string" where
  "correction_at ty day root_dir n = correction_path (report_dir ty day root_dir) (iso_date day) n"

lemma digit_not_slash [simp]: "digit_char d \<noteq> SLASH"
proof
  assume "digit_char d = SLASH"
  then have "char_digit SLASH = Some (d mod 10)" by (metis char_digit_char)
  then show False by (simp add: SLASH_def char_digit_def)
qed

lemma pad_no_slash: "SLASH \<notin> set (pad k n)"
  by (induction k arbitrary: n) (auto simp: eq_commute [of SLASH])

lemma dec_text_no_slash: "SLASH \<notin> set (dec_text n)"
proof (induction n rule: dec_text.induct)
  case (1 n)
  then show ?case by (subst dec_text.simps) (auto simp: eq_commute [of SLASH])
qed

lemma dec_text_ne: "dec_text n \<noteq> []"
  by (subst dec_text.simps) simp

lemma iso_date_no_slash: "SLASH \<notin> set (iso_date n)"
  using pad_no_slash by (auto simp: iso_date_def SLASH_def split: prod.split)

lemma text_03d_no_slash: "SLASH \<notin> set (text_03d (int n))"
  using pad_no_slash dec_text_no_slash by (auto simp: text_03d_def)

lemma join_plain:
  assumes "b \<noteq> []" "SLASH \<notin> set b" "a \<noteq> []" "last a \<noteq> SLASH"
  shows "path_join a b = a @ SLASH # b"
  using assms by (cases b) (auto simp: path_join_def)

lemma join_last: "b \<noteq> [] \<Longrightarrow> SLASH \<notin> set b \<Longrightarrow> path_join a b \<noteq> [] \<and> last (path_join a b) \<noteq> SLASH"
  using last_in_set [of b] by (auto simp: path_join_def simp del: last_in_set)

lemma report_dir_last: "report_dir ty day r \<noteq> []" "last (report_dir ty day r) \<noteq> SLASH"
  using join_last [OF dec_text_ne dec_text_no_slash] by (simp_all add: report_dir_def year_text_def)

lemma archive_path_eq: "archive_path ty day r = report_dir ty day r @ SLASH # iso_date day @ ''.json''"
  unfolding archive_path_def report_dir_def [symmetric]
  by (rule join_plain) (use iso_date_no_slash report_dir_last in \<open>auto simp: SLASH_def\<close>)

lemma correction_at_eq:
  "correction_at ty day r n = report_dir ty day r @ SLASH # iso_date day @ ''.correction-'' @ text_03d (int n) @ ''.json''"
  unfolding correction_at_def correction_path_def
  by (rule join_plain) (use iso_date_no_slash text_03d_no_slash report_dir_last in \<open>auto simp: SLASH_def\<close>)

lemma last_segment:
  assumes "a @ SLASH # x = b @ SLASH # y" "SLASH \<notin> set x" "SLASH \<notin> set y"
  shows "a = b \<and> x = y"
proof -
  have t: "takeWhile (\<lambda>c. c \<noteq> SLASH) (rev (a @ SLASH # x)) = rev x" if "SLASH \<notin> set x" for a x
    using that by (subst rev_append) (auto simp: takeWhile_append takeWhile_eq_all_conv)
  from t [OF assms(2), of a] t [OF assms(3), of b] assms(1) have "x = y" by simp
  with assms(1) show ?thesis by simp
qed

lemma drop_segment: "SLASH \<notin> set x \<Longrightarrow> dropWhile (\<lambda>c. c \<noteq> SLASH) (rev (d @ SLASH # x)) = SLASH # rev d"
  by (induction x rule: rev_induct) auto

lemma dirname_archive_path [simp]: "dirname (archive_path ty day r) = report_dir ty day r"
proof -
  let ?d = "report_dir ty day r"
  let ?x = "iso_date day @ ''.json''"
  have x: "SLASH \<notin> set ?x" using iso_date_no_slash by (auto simp: SLASH_def)
  have h: "rev (dropWhile (\<lambda>c. c \<noteq> SLASH) (rev (?d @ SLASH # ?x))) = ?d @ [SLASH]"
    unfolding drop_segment [OF x] by simp
  have "last ?d \<in> set ?d" "last ?d \<noteq> SLASH" using report_dir_last [of ty day r] by auto
  then have e: "list_ex (\<lambda>c. c \<noteq> SLASH) (?d @ [SLASH])" by (auto simp: list_ex_iff)
  have "dropWhile (\<lambda>c. c = SLASH) (rev ?d) = rev ?d"
    using report_dir_last [of ty day r] by (cases ?d rule: rev_cases) auto
  then show ?thesis unfolding dirname_def archive_path_eq h Let_def using e by simp
qed

lemma segments_no_slash:
  "SLASH \<notin> set (iso_date day @ ''.json'')" "SLASH \<notin> set (iso_date day @ ''.correction-'' @ text_03d (int n) @ ''.json'')"
  using iso_date_no_slash text_03d_no_slash by (auto simp: SLASH_def)

lemma correction_not_base: "correction_at ty day r n \<noteq> archive_path ty' day' r'"
  using last_segment [OF _ segments_no_slash(2) segments_no_slash(1), of "report_dir ty day r" day n "report_dir ty' day' r'" day']
  by (auto simp: archive_path_eq correction_at_eq append_eq_append_conv)

lemma correction_at_inj:
  assumes "correction_at ty day r n = correction_at ty' day' r' n'"
  shows "n = n'" "archive_path ty day r = archive_path ty' day' r'" "correction_at ty day r m = correction_at ty' day' r' m"
proof -
  from last_segment [OF assms [unfolded correction_at_eq] segments_no_slash(2) segments_no_slash(2)]
  have "report_dir ty day r = report_dir ty' day' r'" "iso_date day = iso_date day'" "text_03d (int n) = text_03d (int n')"
    by (auto simp: append_eq_append_conv)
  then show "n = n'" "archive_path ty day r = archive_path ty' day' r'" "correction_at ty day r m = correction_at ty' day' r' m"
    by (auto simp: archive_path_eq correction_at_eq dest: text_03d_inj)
qed

section \<open>One write\<close>

lemma free_correction_spec:
  "map_of fs (correction_path directory (iso_date day) (free_correction fs directory day n)) = None \<and>
   n \<le> free_correction fs directory day n \<and>
   (\<forall>m. n \<le> m \<longrightarrow> m < free_correction fs directory day n \<longrightarrow> map_of fs (correction_path directory (iso_date day) m) \<noteq> None)"
proof (induction fs directory day n rule: free_correction.induct)
  case (1 fs directory day n)
  show ?case
  proof (cases "map_of fs (correction_path directory (iso_date day) n) = None")
    case False
    then have e: "free_correction fs directory day n = free_correction fs directory day (Suc n)" 
      by (simp only: free_correction.simps [of fs directory day n] if_False)
    from 1 [OF False] show ?thesis unfolding e
      by (metis False Suc_leD Suc_leI le_neq_implies_less)
  next
    case True
    then have "free_correction fs directory day n = n" by (subst free_correction.simps) simp
    with True show ?thesis by simp
  qed
qed

text \<open>What a correction stores.\<close>

definition correction_links :: "string \<Rightarrow> date \<Rightarrow> string \<Rightarrow> nat \<Rightarrow> json \<Rightarrow> bool" where
  "correction_links ty day root_dir n v \<longleftrightarrow>
     (\<exists>d. v = JDict d \<and> dget d ''original_record_identity'' = JStr (archive_path ty day root_dir) \<and>
          dget d ''supersedes'' = JStr (if n = 1 then archive_path ty day root_dir else correction_at ty day root_dir (n - 1)))"

definition holds_correction :: "(string \<times> json) list \<Rightarrow> json \<Rightarrow> bool" where
  "holds_correction r v \<longleftrightarrow> (\<exists>d. v = JDict d \<and> dget d ''new_record'' = canon (JDict r))"

definition holds_report :: "(string \<times> json) list \<Rightarrow> json \<Rightarrow> bool" where
  "holds_report r v \<longleftrightarrow>
     (\<exists>d. v = JDict d \<and> py_equal (JDict (ddel ''generated_at_utc'' d)) (JDict (ddel ''generated_at_utc'' r)))"

lemma correction_json_fields:
  assumes "s = (if n = 1 then archive_path ty day r else correction_at ty day r (n - 1))"
  shows "correction_links ty day r n (canon (correction_json (archive_path ty day r) reason now s report))"
    "holds_correction report (canon (correction_json (archive_path ty day r) reason now s report))"
proof -
  let ?d = "[(''original_record_identity'', JStr (archive_path ty day r)),
      (''correction_reason'', JStr (case or_text reason None of None \<Rightarrow> ''REGENERATED_WITH_DIFFERENT_CONTENT'' | Some r \<Rightarrow> r)),
      (''corrected_at'', JStr (iso_datetime now)), (''supersedes'', JStr s), (''new_record'', JDict report)]"
  have "wf_dict ?d" by (simp add: wf_dict_def)
  from canon_dict [OF this] obtain d' where "canon (JDict ?d) = JDict d'" "\<And>k. dget d' k = canon (dget ?d k)" by metis
  then show "correction_links ty day r n (canon (correction_json (archive_path ty day r) reason now s report))"
    "holds_correction report (canon (correction_json (archive_path ty day r) reason now s report))"
    unfolding correction_json_def correction_links_def holds_correction_def using assms by (auto simp: dget_def)
qed

lemma holds_report_canon: "holds_report r (canon (JDict r))"
proof -
  have "py_norm (JDict (ddel ''generated_at_utc'' (sort_key fst (map (\<lambda>(k, v). (k, canon v)) r)))) = py_norm (canon (JDict (ddel ''generated_at_utc'' r)))"
    by (simp only: ddel_sorted canon.simps)
  also have "\<dots> = py_norm (JDict (ddel ''generated_at_utc'' r))" by (rule py_norm_canon)
  finally show ?thesis unfolding holds_report_def py_equal_def canon.simps by blast
qed

lemma write_report_cases:
  obtains (unchanged) e where "write_report env ty day report r reason fs = (fs, Inl e)"
  | (same) v where "write_report env ty day report r reason fs = (fs, Inr (archive_path ty day r))"
      "map_of fs (archive_path ty day r) = Some (Archived v)" "holds_report report v" "v \<noteq> JNull"
  | (created) "write_report env ty day report r reason fs =
        (dput (archive_path ty day r) (Archived (canon (JDict report))) fs, Inr (archive_path ty day r))"
      "map_of fs (archive_path ty day r) \<in> {None, Some (Archived JNull)}"
  | (corrected) n v d where "write_report env ty day report r reason fs = (dput (correction_at ty day r n) (Archived v) fs, Inr (correction_at ty day r n))"
      "map_of fs (archive_path ty day r) = Some (Archived (JDict d))" "\<not> holds_report report (JDict d)"
      "map_of fs (correction_at ty day r n) = None" "1 \<le> n" "\<And>m. 1 \<le> m \<Longrightarrow> m < n \<Longrightarrow> map_of fs (correction_at ty day r m) \<noteq> None"
      "correction_links ty day r n v" "holds_correction report v"
proof -
  let ?b = "archive_path ty day r"
  show thesis
  proof (cases "read_report env ?b fs")
    case (Inl e)
    then show ?thesis using unchanged by (simp add: write_report_def)
  next
    case (Inr x)
    show ?thesis
    proof (cases x)
      case None
      with Inr have "map_of fs ?b \<in> {None, Some (Archived JNull)}"
        by (auto simp: read_report_def split: option.splits if_splits archive_file.splits)
      then show ?thesis using unchanged [of OSError] created Inr None
        by (cases "ae_written env") (simp_all add: write_report_def atomic_write_def Let_def)
    next
      case (Some v)
      with Inr have v: "map_of fs ?b = Some (Archived v)" "v \<noteq> JNull"
        by (auto simp: read_report_def split: option.splits if_splits archive_file.splits)
      show ?thesis
      proof (cases "content_key v")
        case (Inl e)
        then show ?thesis using unchanged [of e] Inr Some by (simp add: write_report_def)
      next
        case k: (Inr k)
        then obtain d where d: "v = JDict d" "k = JDict (ddel ''generated_at_utc'' d)" by (auto simp: content_key_def split: json.splits)
        define n where "n = free_correction fs (report_dir ty day r) day 1"
        define s where "s = (if n = 1 then ?b else correction_at ty day r (n - 1))"
        note free = free_correction_spec [of fs "report_dir ty day r" day 1, folded n_def correction_at_def]
        show ?thesis
        proof (cases "holds_report report v")
          case True
          then show ?thesis using same [OF _ v(1) _ v(2)] Inr Some k d by (auto simp: write_report_def holds_report_def)
        next
          case False
          show ?thesis
          proof (cases "ae_written env")
          case True
          with False Inr Some k d have "write_report env ty day report r reason fs =
              (dput (correction_at ty day r n) (Archived (canon (correction_json ?b reason (ae_now env) s report))) fs, Inr (correction_at ty day r n))"
            by (auto simp: write_report_def holds_report_def write_correction_def atomic_write_def Let_def correction_at_def n_def s_def)
          with False v d free show ?thesis
            by (intro corrected [OF _ _ _ _ _ _ correction_json_fields [OF s_def]]) auto
          next
            case nw: False
            with False Inr Some k d have "write_report env ty day report r reason fs = (fs, Inl OSError)"
              by (auto simp: write_report_def holds_report_def write_correction_def atomic_write_def Let_def)
            then show ?thesis by (rule unchanged)
          qed
        qed
      qed
    qed
  qed
qed

section \<open>Any writes\<close>

record archive_op =
  ao_env :: archive_env
  ao_type :: string
  ao_day :: date
  ao_report :: "(string \<times> json) list"
  ao_root :: string
  ao_reason :: "string option"

definition archive_step :: "archive_op \<Rightarrow> archive \<Rightarrow> archive" where
  "archive_step x fs = fst (write_report (ao_env x) (ao_type x) (ao_day x) (ao_report x) (ao_root x) (ao_reason x) fs)"

definition archive_run :: "archive_op list \<Rightarrow> archive \<Rightarrow> archive" where
  "archive_run xs fs = fold archive_step xs fs"

lemma write_report_keeps:
  assumes "map_of fs p = Some x" "x \<noteq> Archived JNull" "write_report env ty day report r reason fs = (fs', y)"
  shows "map_of fs' p = Some x"
  by (cases rule: write_report_cases [of env ty day report r reason fs]) (use assms in auto)

lemma archive_step_keeps: "map_of fs p = Some x \<Longrightarrow> x \<noteq> Archived JNull \<Longrightarrow> map_of (archive_step y fs) p = Some x"
  unfolding archive_step_def by (metis prod.collapse write_report_keeps)

lemma archive_run_keeps: "map_of fs p = Some x \<Longrightarrow> x \<noteq> Archived JNull \<Longrightarrow> map_of (archive_run ys fs) p = Some x"
  by (induction ys arbitrary: fs) (simp_all add: archive_run_def archive_step_keeps)

text \<open>The corrections of one report: those numbered one to \<open>n\<close>, each linked to the one before.\<close>

definition correction_chain :: "archive \<Rightarrow> string \<Rightarrow> date \<Rightarrow> string \<Rightarrow> nat \<Rightarrow> bool" where
  "correction_chain fs ty day root_dir n \<longleftrightarrow>
     (\<forall>m \<ge> 1. map_of fs (correction_at ty day root_dir m) \<noteq> None \<longleftrightarrow> m \<le> n) \<and>
     (\<forall>m. 1 \<le> m \<and> m \<le> n \<longrightarrow> (\<exists>v. map_of fs (correction_at ty day root_dir m) = Some (Archived v) \<and> correction_links ty day root_dir m v)) \<and>
     (0 < n \<longrightarrow> (\<exists>d. map_of fs (archive_path ty day root_dir) = Some (Archived (JDict d))))"

lemma correction_chain_other:
  assumes "correction_chain fs ty day r n" "\<And>m. p \<noteq> correction_at ty day r m"
    "map_of fs p \<in> {None, Some (Archived JNull)}"
  shows "correction_chain (dput p x fs) ty day r n"
  using assms(1,3) assms(2) [symmetric] by (auto simp: correction_chain_def)

lemma correction_chain_next:
  assumes "correction_chain fs ty day r n" "map_of fs (archive_path ty day r) = Some (Archived (JDict d))"
    "map_of fs (correction_at ty day r k) = None" "1 \<le> k" "\<And>m. 1 \<le> m \<Longrightarrow> m < k \<Longrightarrow> map_of fs (correction_at ty day r m) \<noteq> None"
    "correction_links ty day r k v"
  shows "correction_chain (dput (correction_at ty day r k) (Archived v) fs) ty day r k"
proof -
  have k: "k = Suc n"
  proof -
    have "\<not> k \<le> n" using assms(1,3,4) by (auto simp: correction_chain_def)
    moreover have "k - 1 \<le> n" if "1 < k" using assms(1) assms(5) [of "k - 1"] that by (auto simp: correction_chain_def)
    ultimately show ?thesis using assms(4) by linarith
  qed
  have ne: "correction_at ty day r m = correction_at ty day r k \<longleftrightarrow> m = k" for m using correction_at_inj(1) by blast
  show ?thesis using assms(1,2,6) correction_not_base [symmetric]
    by (auto simp: correction_chain_def k [symmetric] ne le_Suc_eq) (auto simp: k)
qed

lemma archive_step_chain:
  assumes "correction_chain fs ty day r n"
  shows "\<exists>n'. correction_chain (archive_step y fs) ty day r n'"
proof (cases rule: write_report_cases [of "ao_env y" "ao_type y" "ao_day y" "ao_report y" "ao_root y" "ao_reason y" fs])
  case created
  show ?thesis unfolding archive_step_def created(1) fst_conv
    by (intro exI) (rule correction_chain_other [OF assms correction_not_base [symmetric] created(2)])
next
  case (corrected k v d)
  show ?thesis
  proof (cases "\<exists>m. correction_at (ao_type y) (ao_day y) (ao_root y) k = correction_at ty day r m")
    case True
    then obtain m where m: "correction_at (ao_type y) (ao_day y) (ao_root y) k = correction_at ty day r m" ..
    note same = correction_at_inj [OF m]
    have "correction_links ty day r k v" using corrected(7) same by (auto simp: correction_links_def)
    from correction_chain_next [OF assms _ _ corrected(5) _ this] show ?thesis
      using corrected same by (auto simp: archive_step_def)
  next
    case False
    show ?thesis unfolding archive_step_def corrected(1) fst_conv
      by (intro exI, rule correction_chain_other [OF assms]) (use False corrected(4) in auto)
  qed
qed (use assms in \<open>auto simp: archive_step_def\<close>)

lemma archive_run_chain: "\<exists>n. correction_chain fs ty day r n \<Longrightarrow> \<exists>n. correction_chain (archive_run ys fs) ty day r n"
  by (induction ys arbitrary: fs) (use archive_step_chain in \<open>fastforce simp: archive_run_def\<close>)+

text \<open>C29. After any writes of any reports to an empty archive, with any failures, the
  corrections of every report are numbered from one without gaps; each is readable, names the original
  report, and supersedes the record just before it; and a corrected report has its original.\<close>

theorem archive_corrections_linked:
  "\<exists>n. correction_chain (archive_run xs []) ty day root_dir n"
proof -
  have "correction_chain [] ty day root_dir 0" by (simp add: correction_chain_def)
  then show ?thesis by (blast intro: archive_run_chain)
qed

section \<open>Archived decisions\<close>

text \<open>Where a report is found: in the original file, or in the correction with its number.\<close>

definition archived_at :: "string \<Rightarrow> date \<Rightarrow> string \<Rightarrow> (string \<times> json) list \<Rightarrow> string \<Rightarrow> json \<Rightarrow> bool" where
  "archived_at ty day root_dir report p v \<longleftrightarrow>
     p = archive_path ty day root_dir \<and> holds_report report v \<or>
     (\<exists>n \<ge> 1. p = correction_at ty day root_dir n \<and> correction_links ty day root_dir n v \<and> holds_correction report v)"

lemma archived_at_value: "archived_at ty day root_dir report p v \<Longrightarrow> v \<noteq> JNull"
  by (auto simp: archived_at_def holds_report_def holds_correction_def)

lemma write_report_archived:
  "case write_report env ty day report root_dir reason fs of
     (fs', Inl e) \<Rightarrow> fs' = fs
   | (fs', Inr p) \<Rightarrow> \<exists>v. map_of fs' p = Some (Archived v) \<and> archived_at ty day root_dir report p v"
proof (cases rule: write_report_cases [of env ty day report root_dir reason fs])
  case created
  then show ?thesis using holds_report_canon [of report] unfolding created(1) by (auto simp: archived_at_def)
qed (auto simp: archived_at_def)

text \<open>C15. A decision whose archiving returns a path is in the archive at that path, as the
  original report of its cycle and day or as a linked correction of it, under any later writes; no file
  that holds a value is ever changed. A decision whose archiving raises leaves the archive as it was, and a
  failure of the file system is reported as ARCHIVE\_UNAVAILABLE.\<close>

theorem archived_decision_durable:
  "case archive_cycle_decision env d root_dir reason fs of
     (fs', Inl e) \<Rightarrow> fs' = fs \<and> e \<noteq> OSError
   | (fs', Inr p) \<Rightarrow>
       (\<exists>tid v. decision_ticket_id d = Inr tid \<and> map_of (archive_run later fs') p = Some (Archived v) \<and>
          archived_at (decision_report_type (cd_strategy_id d) (cd_symbol d) (cd_cycle d)) (cd_trading_date d) root_dir (decision_json d tid) p v) \<and>
       (\<forall>q x. map_of fs q = Some x \<and> x \<noteq> Archived JNull \<longrightarrow> map_of (archive_run later fs') q = Some x)"
proof (cases "decision_ticket_id d")
  case (Inl e)
  then have "e \<noteq> OSError"
    by (auto simp: decision_ticket_id_def logical_ticket_id_def validate_field_def split: if_splits)
  then show ?thesis using Inl by (simp add: archive_cycle_decision_def to_archive_dict_def)
next
  case tid: (Inr tid)
  let ?ty = "decision_report_type (cd_strategy_id d) (cd_symbol d) (cd_cycle d)"
  let ?w = "write_report env ?ty (cd_trading_date d) (decision_json d tid) root_dir reason fs"
  have arch: "archive_cycle_decision env d root_dir reason fs = (case ?w of (fs', Inl OSError) \<Rightarrow> (fs', Inl ARCHIVE_UNAVAILABLE) | x \<Rightarrow> x)"
    using tid by (simp add: archive_cycle_decision_def to_archive_dict_def)
  obtain fs' x where w: "?w = (fs', x)" by fastforce
  note archived = write_report_archived [where env = env and ty = ?ty and day = "cd_trading_date d" and report = "decision_json d tid"
      and root_dir = root_dir and reason = reason and fs = fs, unfolded w prod.case]
  show ?thesis
  proof (cases x)
    case (Inl e)
    then show ?thesis using archived unfolding arch w by (cases e) (simp_all add: ARCHIVE_UNAVAILABLE_def)
  next
    case (Inr p)
    then obtain v where v: "map_of fs' p = Some (Archived v)" "archived_at ?ty (cd_trading_date d) root_dir (decision_json d tid) p v"
      using archived by auto
    have "map_of (archive_run later fs') p = Some (Archived v)"
      using archive_run_keeps [OF v(1)] archived_at_value [OF v(2)] by simp
    moreover have "map_of (archive_run later fs') q = Some y" if "map_of fs q = Some y" "y \<noteq> Archived JNull" for q y
      using archive_run_keeps [OF write_report_keeps [OF that w] that(2)] .
    ultimately show ?thesis using tid v(2) unfolding arch w Inr by auto
  qed
qed

text \<open>A decision that replaces an earlier one of its cycle is found as the first correction, whatever follows.\<close>

definition demo_archive_env :: archive_env where
  "demo_archive_env = \<lparr>ae_readable = True, ae_written = True, ae_now = 0\<rparr>"

definition demo_decision :: "string \<Rightarrow> cycle_decision" where
  "demo_decision state = \<lparr>cd_strategy_id = ''S'', cd_strategy_version = ''1'', cd_application_release = ''r1'', cd_symbol = ''EURUSD'',
     cd_cycle = ''ASIAN'', cd_trading_date = ymd2ord 2024 1 2, cd_cycle_state = state, cd_evaluation_time_utc = ''t'', cd_payload = [], cd_reason_codes = []\<rparr>"

theorem archived_decision_durable_witness:
  "\<exists>fs'. archive_cycle_decision demo_archive_env (demo_decision ''WATCH'') ''r'' None
             (fst (archive_cycle_decision demo_archive_env (demo_decision ''READY'') ''r'' None [])) =
           (fs', Inr ''r/fx_ticket_archive/S/EURUSD/ASIAN/2024/2024-01-02.correction-001.json'') \<and>
         (\<forall>later. \<exists>v. map_of (archive_run later fs') ''r/fx_ticket_archive/S/EURUSD/ASIAN/2024/2024-01-02.correction-001.json'' = Some (Archived v))"
proof -
  let ?fs = "fst (archive_cycle_decision demo_archive_env (demo_decision ''READY'') ''r'' None [])"
  let ?x = "archive_cycle_decision demo_archive_env (demo_decision ''WATCH'') ''r'' None ?fs"
  have "snd ?x = Inr ''r/fx_ticket_archive/S/EURUSD/ASIAN/2024/2024-01-02.correction-001.json''" by code_simp
  then have x: "?x = (fst ?x, Inr ''r/fx_ticket_archive/S/EURUSD/ASIAN/2024/2024-01-02.correction-001.json'')" by (metis prod.collapse)
  have "\<exists>v. map_of (archive_run later (fst ?x)) ''r/fx_ticket_archive/S/EURUSD/ASIAN/2024/2024-01-02.correction-001.json'' = Some (Archived v)" for later
    using archived_decision_durable [where env = demo_archive_env and d = "demo_decision ''WATCH''" and root_dir = "''r''" and reason = None
      and fs = ?fs and later = later]
    by (subst (asm) x) auto
  then show ?thesis using x by blast
qed

text \<open>Only the original is compared: regenerating the content of a correction writes another correction.\<close>

theorem regenerated_correction_duplicated:
  assumes "write_report env ty day report r reason fs = (fs1, Inr p)" "p \<noteq> archive_path ty day r"
    "write_report env' ty day report r reason' fs1 = (fs2, Inr q)"
  shows "q \<noteq> p \<and> (\<exists>v w. map_of fs2 p = Some (Archived v) \<and> holds_correction report v \<and>
                          map_of fs2 q = Some (Archived w) \<and> holds_correction report w)"
proof (cases rule: write_report_cases [of env ty day report r reason fs])
  case (corrected n v d)
  have b: "map_of fs1 (archive_path ty day r) = Some (Archived (JDict d))" and p: "map_of fs1 p = Some (Archived v)"
    using corrected(1,2) assms(1) correction_not_base [symmetric] by auto
  show ?thesis
  proof (cases rule: write_report_cases [of env' ty day report r reason' fs1])
    case (corrected k w e)
    with assms(3) p \<open>holds_correction report v\<close> show ?thesis by auto
  qed (use assms(3) b \<open>\<not> holds_report report (JDict d)\<close> in auto)
qed (use assms(1,2) in auto)

end
