(* ===== verification/Spec2Isabelle.thy ===== *)
theory Spec2Isabelle
  imports Session_Engine Sweep_Runtime Lifecycle Monitor_Safety Delivery_Safety Daily_Safety Funnel_Safety Lru_Cache Archive_Safety
begin

text \<open>
  A verification library for the trading assistant under src/src.

  \<^bold>\<open>The program.\<close> The assistant evaluates trading strategies on completed candles, turns a qualified
  setup into a ticket, and, for scopes an owner has enabled, places the ticket as one order on a DEMO
  account of a MetaTrader 5 terminal. Its parts are the strategies (src/src/strategy\_engine with
  src/src/market\_structure), the shared sizing and account guards (src/src/sizing\_math on the files of
  src/src/runtime\_state), the append-only evidence store (src/src/ticket\_store/store.py) and the order
  path (src/src/demo\_execution with the READY authority and the target geometry of src/src/v1\_tickets).
  Around it stand the funnel that turns market events into candidates (src/src/opportunity), the daily
  ledger that limits how many proposals a strategy may select (src/src/post\_asian\_pilot/governor.py), the
  delivery of tickets to the owner (src/src/ticket\_delivery) and a shared cache (src/src/shared\_cache).
  Every decision of the order path is a row of the evidence store, and every later step reads the rows
  again instead of trusting its caller. An order attempt goes: scope, standing authorization, admission
  gates and owner confirmation, order check, send claim, send, acknowledgement or halt. A monitor
  reconciles tickets with the broker and engages an emergency stop; after a restart every ticket that was
  under way is halted and never sent again.

  \<^bold>\<open>Foundations.\<close>
  \<^item> Py\_Float: finite binary64 numbers as rationals with rounding to 53 bits, ties to even; the locale
    \<open>rounding\<close> and its interpretation carry the error lemmas. The exponent is unbounded. The shortest text
    of a float is searched up to 17 digits, which always suffices for 53 bits.
  \<^item> Py\_Decimal: the operators of \<open>decimal\<close> at 28 digits.
  \<^item> Py\_Data: JSON values, dictionaries as association lists in insertion order, exceptions as the left
    side of a sum, strings, the calendar, and ISO texts with their round trip. A date is its ordinal, an
    instant the number of microseconds since year 1.
  \<^item> Scan: loops that return the first hit, as the locale \<open>first_hit\<close>.
  \<^item> One\_Shot: steps that may grant something once, as the locale \<open>one_shot\<close>, with a bound on the grants
    in any history; the claims, confirmations, guarded sends and host histories are its interpretations.

  \<^bold>\<open>Strategies.\<close>
  \<^item> Session\_Box, Session\_Engine: strategy\_engine/session (candles, reference box, classifier, the three
    entries, router), engine.py and append\_only.py. The lemmas show when a box exists and what it is, that a
    later bar never changes an append-only answer while the frozen router's answer may change, and that a
    decided setup has positive risk.
  \<^item> Market\_Structure, Sweep\_Retest, Sweep\_Runtime: market\_structure and strategy\_engine/sweep\_retest. The
    package smartmoneyconcepts is the parameter \<open>smc_lib\<close>. The lemmas show what a qualified setup rests on,
    that it does not repaint, that the enumeration is complete, and that the runtime replays a terminal state.

  \<^bold>\<open>Files and account guards.\<close>
  \<^item> Kv\_Store: runtime\_state/store.py, each operation under its lock as one step, with the locale
    \<open>kv_interface\<close> for its clients. A file that cannot be parsed is never replaced.
  \<^item> Sizing: sizing\_math (size\_position, daily loss, open positions) over that interface.
  \<^item> Kv\_Codec: typed records in that store, as the locale \<open>kv_codec\<close>: an encoding that can be read back makes a
    write change exactly one record. Deliveries, daily ledgers and candidates are its interpretations.
  \<^item> Lru\_Cache: shared\_cache, as a part of the map of the latest puts, with the guarantee of recent use.

  \<^bold>\<open>Candidates, daily slots and deliveries.\<close>
  \<^item> Funnel, Funnel\_Store, Funnel\_Safety: stages.py, contracts.py, transitions.py, engine.py,
    registry\_binding.py, proposal\_eligibility.py and candidate\_store.py, with the cycle of the scanner that
    joins them. The adapter of a strategy is a parameter. The lemmas show that the history of a candidate is
    one chain, that a terminal candidate is final, and when a candidate is eligible.
  \<^item> Daily\_Ledger, Daily\_Safety: governor.py. The lemmas show the capacity of a day, that a slot is never
    freed, that a preview and a claim agree, who owns a slot, and what an eligible execution satisfies.
  \<^item> Delivery, Delivery\_Safety: identity.py, models.py, delivery\_store.py, policy.py, attempt\_journal.py. A
    claim and a settlement are split at their reads and writes and interleaved over any number of threads;
    \<open>claim_steps\<close> and \<open>settle_steps\<close> join the steps again to the operations. A ticket is sent at most once
    more than its recorded retryable failures. A creation counts as one step: interleaved inside, it would
    put a delivered ticket back, which \<open>delivery_creation_race\<close> shows.
  \<^item> Report\_Archive, Archive\_Safety (post\_asian\_pilot/report\_archive.py, ticket\_delivery/archive.py): the files
    of the archive, the search for a free correction number with its termination, and the archiving of a
    cycle decision. No file that holds a value is changed, and the corrections form a numbered chain. Only
    the original is compared with a regenerated report (\<open>regenerated_correction_duplicated\<close>).

  \<^bold>\<open>Evidence.\<close>
  \<^item> Ticket\_Store: record builders, seals, day files and appends with every fate of a write: appended, not
    opened, torn, or written and not synced. The locale \<open>append_log\<close> is what its clients rely on.
  \<^item> Exec\_Ledger: idempotency.py and emergency.py. Sealed\_Rows: what readers of sealed rows share.
  \<^item> Lifecycle: lifecycle.py, the trail of a ticket and its transitions.
  \<^item> Confirmation: confirmation.py, the single-use owner confirmation.

  \<^bold>\<open>The order path.\<close>
  \<^item> Exec\_Scope (scope.py, host\_magics.py), Authorization (authorization.py, notification.py),
    Ready\_Authority, Target\_Geometry, Risk\_Caps (risk.py), Admission (admission.py).
  \<^item> Exec\_Authority (authority.py), Guard (guarded\_adapter.py, events.py), Guard\_Safety.
  \<^item> Risk\_Snapshot (vt\_day.py, risk\_snapshot.py): the day books of the broker's rows.
  \<^item> Dispatch, Dispatch\_Safety (dispatch.py): one attempt with any broker; its cases and its stages.
  \<^item> Canonical\_Adapter, Adapter\_Safety (mt5\_canonical\_adapter.py): the broker of the host; what a
    transmitted order rests on and what it is.
  \<^item> Position\_Monitor, Monitor\_Safety (position\_monitor.py): the reconciliation cycle and the recovery;
    histories of a host in which a ticket is sent at most once, recovery, and the stop after a problem.

  \<^bold>\<open>Conventions.\<close> A function that may raise returns a sum with the exception on the left; a stateful
  operation takes the store and returns it updated. The fate of each write and the instants a call reads
  are arguments, so a history covers every failure. Parameters stand for what is not in the repository:
  the digest of a JSON value and of a text, the text of values that are neither strings nor integers, the
  adapter of a strategy, the
  New York offset, the YAML documents and authorization files of a host, the terminal module, and the
  alert sink. Statements that need it assume that the digest of a JSON value has no collision. Locks are
  the atomicity of a step. No definition uses fuel: every loop of the modelled code is structural or comes
  with a termination proof.

  \<^bold>\<open>Not modelled.\<close> The user interface, message delivery, network feeds, host scripts and installation are
  input and output. The other strategy families, reports and research pipelines do not reach the order
  path. The lanes that build tickets are producers of the tickets the order path takes as any dictionary.
  The index, views and migrations of the ticket store only read rows. Of the deliveries, the candidates and
  the pilot, the texts for readers and the YAML readers are left out. Two processes that
  write one key-value file at the same time are outside the model, as the lock of that file is one of
  threads. JSON texts of numbers that are not finite are not modelled.
\<close>

end
